(* ===== verification/Prelude.thy ===== *)
theory Prelude
  imports Main "HOL-Library.Multiset" "HOL-Library.State_Monad" "HOL-Library.Word" "HOL-Library.Sublist"
begin

text \<open>
  Shared ground of the development. Stateful Go code is written in the library's state monad
  (\<^typ>\<open>('s, 'a) state\<close>): a statement that reads the clock, draws randomness, runs an SQL
  statement or changes an in-memory object is one monadic step, and an early return is a branch
  that ends with a result. This theory holds the rules by which properties of single steps are
  lifted to whole handlers, the lemmas on lists that stand for tables, the theorem collections of
  the development, and the types for instants, JSON values and HTTP responses.
\<close>

named_theorems effects \<open>what the primitive effects return and how they change the world\<close>
named_theorems wps \<open>what a primitive step ensures, for every outcome it can have\<close>
named_theorems keeps \<open>introduction rules for relations every step of an operation keeps\<close>

section \<open>Monadic steps\<close>

abbreviation ret :: "'a \<Rightarrow> ('s, 'a) state" where
  "ret \<equiv> State_Monad.return"

definition modify :: "('s \<Rightarrow> 's) \<Rightarrow> ('s, unit) state" where
  "modify f = State (\<lambda>s. ((), f s))"

definition gets :: "('s \<Rightarrow> 'a) \<Rightarrow> ('s, 'a) state" where
  "gets f = State (\<lambda>s. (f s, s))"

lemma run_state_modify [simp]: "run_state (modify f) s = ((), f s)"
  by (simp add: modify_def)

lemma run_state_gets [simp]: "run_state (gets f) s = (f s, s)"
  by (simp add: gets_def)

lemma state_split: "run_state m s = (fst (run_state m s), snd (run_state m s))"
  by simp

subsection \<open>Relations kept by every step\<close>

text \<open>
  \<open>state_io_rel R m\<close> says that \<open>m\<close> only moves along \<open>R\<close>. For a preorder the property is
  compositional; the rules below push it through the control structure of a handler, so that a
  proof about a whole handler needs the fact for the primitive steps only.
\<close>

locale state_preorder =
  fixes R :: "'s \<Rightarrow> 's \<Rightarrow> bool"
  assumes R_refl: "R s s"
    and R_trans: "R s t \<Longrightarrow> R t u \<Longrightarrow> R s u"
begin

lemma keeps_return: "state_io_rel R (State_Monad.return a)"
  by (rule state_io_relI) (simp add: R_refl)

lemma keeps_bind:
  assumes "state_io_rel R m" and "\<And>a. state_io_rel R (f a)"
  shows "state_io_rel R (State_Monad.bind m f)"
proof (rule state_io_relI)
  fix b s u
  assume run: "run_state (State_Monad.bind m f) s = (b, u)"
  obtain a t where step: "run_state m s = (a, t)"
    by (cases "run_state m s") auto
  then have "run_state (f a) t = (b, u)"
    using run by simp
  with step assms show "R s u"
    by (blast intro: R_trans dest: state_io_relD)
qed

lemma keeps_gets: "state_io_rel R (gets f)"
  by (rule state_io_relI) (auto simp: R_refl)

lemma keeps_traverse:
  assumes "\<And>x. state_io_rel R (f x)"
  shows "state_io_rel R (traverse_list f xs)"
  by (induction xs) (auto intro!: keeps_return keeps_bind assms)

lemmas keeps_monad = keeps_return keeps_bind keeps_gets keeps_traverse

end

lemma keeps_modify: "(\<And>s. R s (f s)) \<Longrightarrow> state_io_rel R (modify f)"
  by (rule state_io_relI) auto

lemma keeps_if [keeps]:
  "(b \<Longrightarrow> state_io_rel R m) \<Longrightarrow> (\<not> b \<Longrightarrow> state_io_rel R n) \<Longrightarrow> state_io_rel R (if b then m else n)"
  by simp

lemma keeps_case_option [keeps]:
  "(x = None \<Longrightarrow> state_io_rel R m) \<Longrightarrow> (\<And>a. x = Some a \<Longrightarrow> state_io_rel R (f a)) \<Longrightarrow>
    state_io_rel R (case x of None \<Rightarrow> m | Some a \<Rightarrow> f a)"
  by (cases x) auto

lemma keeps_case_sum [keeps]:
  "(\<And>a. x = Inl a \<Longrightarrow> state_io_rel R (f a)) \<Longrightarrow> (\<And>b. x = Inr b \<Longrightarrow> state_io_rel R (g b)) \<Longrightarrow>
    state_io_rel R (case x of Inl a \<Rightarrow> f a | Inr b \<Rightarrow> g b)"
  by (cases x) auto

lemma keeps_case_prod [keeps]:
  "(\<And>a b. x = (a, b) \<Longrightarrow> state_io_rel R (f a b)) \<Longrightarrow> state_io_rel R (case x of (a, b) \<Rightarrow> f a b)"
  by (cases x) auto

lemma keeps_case_list [keeps]:
  "(x = [] \<Longrightarrow> state_io_rel R m) \<Longrightarrow> (\<And>y ys. x = y # ys \<Longrightarrow> state_io_rel R (f y ys)) \<Longrightarrow>
    state_io_rel R (case x of [] \<Rightarrow> m | y # ys \<Rightarrow> f y ys)"
  by (cases x) auto

lemma keeps_let [keeps]: "(\<And>a. a = x \<Longrightarrow> state_io_rel R (f a)) \<Longrightarrow> state_io_rel R (let a = x in f a)"
  by (simp add: Let_def)

text \<open>Steps that leave a part \<open>f\<close> of the state alone.\<close>

definition unchanged :: "('s \<Rightarrow> 'b) \<Rightarrow> 's \<Rightarrow> 's \<Rightarrow> bool" where
  "unchanged f s t \<longleftrightarrow> f t = f s"

interpretation same: state_preorder "unchanged f" for f
  by unfold_locales (simp_all add: unchanged_def)

lemmas [keeps] = same.keeps_monad

subsection \<open>Weakest preconditions\<close>

text \<open>
  \<open>wp m Q s\<close>: running \<open>m\<close> in \<open>s\<close> ends in a result and a state that \<open>Q\<close> holds of. Steps are total
  functions here, so this is total correctness. The rules for the primitive steps are collected
  in \<open>wps\<close>; a proof about a handler walks its control structure with them.
\<close>

definition wp :: "('s, 'a) state \<Rightarrow> ('a \<Rightarrow> 's \<Rightarrow> bool) \<Rightarrow> 's \<Rightarrow> bool" where
  "wp m Q s = (case run_state m s of (a, t) \<Rightarrow> Q a t)"

lemma wp_run: "wp m Q s \<Longrightarrow> run_state m s = (a, t) \<Longrightarrow> Q a t"
  by (simp add: wp_def)

lemma wp_iff: "wp m Q s \<longleftrightarrow> Q (fst (run_state m s)) (snd (run_state m s))"
  by (simp add: wp_def case_prod_beta)

lemma wp_return [simp]: "wp (State_Monad.return a) Q = Q a"
  by (rule ext) (simp add: wp_def State_Monad.return_def)

lemma wp_bind [simp]: "wp (State_Monad.bind m f) Q = wp m (\<lambda>a. wp (f a) Q)"
  by (rule ext) (simp add: wp_iff State_Monad.bind_def case_prod_beta)

lemma wp_modify [simp]: "wp (modify f) Q = (\<lambda>s. Q () (f s))"
  by (rule ext) (simp add: wp_iff)

lemma wp_gets [simp]: "wp (gets f) Q = (\<lambda>s. Q (f s) s)"
  by (rule ext) (simp add: wp_iff)

lemma wp_if: "(b \<Longrightarrow> wp m Q s) \<Longrightarrow> (\<not> b \<Longrightarrow> wp n Q s) \<Longrightarrow> wp (if b then m else n) Q s"
  by simp

lemma wp_case_option [wps]:
  "(x = None \<Longrightarrow> wp m Q s) \<Longrightarrow> (\<And>a. x = Some a \<Longrightarrow> wp (f a) Q s) \<Longrightarrow>
    wp (case x of None \<Rightarrow> m | Some a \<Rightarrow> f a) Q s"
  by (cases x) auto

lemma wp_case_sum [wps]:
  "(\<And>a. x = Inl a \<Longrightarrow> wp (f a) Q s) \<Longrightarrow> (\<And>b. x = Inr b \<Longrightarrow> wp (g b) Q s) \<Longrightarrow>
    wp (case x of Inl a \<Rightarrow> f a | Inr b \<Rightarrow> g b) Q s"
  by (cases x) auto

lemma wp_case_prod [wps]:
  "(\<And>a b. x = (a, b) \<Longrightarrow> wp (f a b) Q s) \<Longrightarrow> wp (case x of (a, b) \<Rightarrow> f a b) Q s"
  by (cases x) auto

lemma wp_mono: "wp m P s \<Longrightarrow> (\<And>a t. P a t \<Longrightarrow> Q a t) \<Longrightarrow> wp m Q s"
  by (simp add: wp_iff)

lemma wp_conj: "wp m P s \<Longrightarrow> wp m Q s \<Longrightarrow> wp m (\<lambda>a t. P a t \<and> Q a t) s"
  by (simp add: wp_iff)

lemma wp_state_io_rel: "state_io_rel R m \<Longrightarrow> wp m (\<lambda>_ t. R s t) s"
  unfolding wp_iff by (metis state_io_relD prod.collapse)

lemma unchangedI: "(\<And>s. wp m (\<lambda>_ t. f t = f s) s) \<Longrightarrow> state_io_rel (unchanged f) m"
  by (rule state_io_relI) (simp add: unchanged_def wp_def, metis case_prod_conv)

lemma unchangedD: "state_io_rel (unchanged f) m \<Longrightarrow> run_state m s = (a, t) \<Longrightarrow> f t = f s"
  by (auto simp: unchanged_def dest: state_io_relD)

section \<open>Tables as lists of rows\<close>

text \<open>
  A table is the list of its rows in insertion order. \<open>find\<close> is the lookup by a key column,
  \<open>map\<close> with a guard is \<open>UPDATE ... WHERE\<close>, \<open>filter\<close> is \<open>DELETE ... WHERE\<close>.
\<close>

lemma find_append: "find P (xs @ ys) = (case find P xs of None \<Rightarrow> find P ys | Some x \<Rightarrow> Some x)"
  by (induction xs) auto

lemma find_Some_in: "find P xs = Some x \<Longrightarrow> x \<in> set xs \<and> P x"
  by (induction xs) (auto split: if_splits)

lemma find_None_iff_all: "find P xs = None \<longleftrightarrow> (\<forall>x\<in>set xs. \<not> P x)"
  by (auto simp: find_None_iff)

lemma find_unique:
  assumes "distinct (map key xs)" and "x \<in> set xs"
  shows "find (\<lambda>y. key y = key x) xs = Some x"
  using assms by (induction xs) (auto simp: image_iff)

lemma find_map_update:
  assumes "\<And>x. key (f x) = key x"
  shows "find (\<lambda>x. key x = k) (map (\<lambda>x. if P x then f x else x) xs) =
    map_option (\<lambda>x. if P x then f x else x) (find (\<lambda>x. key x = k) xs)"
  by (induction xs) (auto simp: assms)

lemma map_key_update [simp]:
  assumes "\<And>x. key (f x) = key x"
  shows "map key (map (\<lambda>x. if P x then f x else x) xs) = map key xs"
  by (induction xs) (auto simp: assms)

lemma sorted_key_le:
  "sorted (map key xs) \<Longrightarrow> i \<le> j \<Longrightarrow> j < length xs \<Longrightarrow> key (xs ! i) \<le> key (xs ! j)"
  using sorted_nth_mono[of "map key xs" i j] by simp

lemma last_sort_key_max:
  assumes "xs \<noteq> []" and "y \<in> set xs"
  shows "key y \<le> key (last (sort_key key xs))"
proof -
  let ?ys = "sort_key key xs"
  have ne: "?ys \<noteq> []"
    using assms(1) by (metis set_empty set_sort)
  obtain i where i: "i < length ?ys" "?ys ! i = y"
    using assms(2) by (metis in_set_conv_nth set_sort)
  have "key (?ys ! i) \<le> key (?ys ! (length ?ys - 1))"
    using i by (intro sorted_key_le) (auto simp del: length_sort)
  with i ne show ?thesis
    by (simp add: last_conv_nth)
qed

text \<open>
  \<open>rows_le le xs ys\<close>: the table \<open>ys\<close> is \<open>xs\<close> with every row changed along \<open>le\<close> at most and new
  rows after it. Tables from which nothing is ever deleted move along such a relation.
\<close>

definition rows_le :: "('r \<Rightarrow> 'r \<Rightarrow> bool) \<Rightarrow> 'r list \<Rightarrow> 'r list \<Rightarrow> bool" where
  "rows_le le xs ys \<longleftrightarrow> length xs \<le> length ys \<and> (\<forall>i<length xs. le (xs ! i) (ys ! i))"

lemma rows_le_refl: "(\<And>r. le r r) \<Longrightarrow> rows_le le xs xs"
  by (simp add: rows_le_def)

lemma rows_le_trans:
  assumes "rows_le le xs ys" and "rows_le le ys zs" and "\<And>a b c. le a b \<Longrightarrow> le b c \<Longrightarrow> le a c"
  shows "rows_le le xs zs"
  using assms unfolding rows_le_def by (meson le_trans order_less_le_trans)

lemma rows_le_append: "(\<And>r. le r r) \<Longrightarrow> rows_le le xs (xs @ ys)"
  by (simp add: rows_le_def nth_append)

lemma rows_le_update:
  "(\<And>r. le r r) \<Longrightarrow> (\<And>r. P r \<Longrightarrow> le r (f r)) \<Longrightarrow> rows_le le xs (map (\<lambda>r. if P r then f r else r) xs)"
  by (simp add: rows_le_def)

lemma rows_le_in:
  assumes "rows_le le xs ys" and "x \<in> set xs"
  shows "\<exists>y\<in>set ys. le x y"
  using assms unfolding rows_le_def by (metis in_set_conv_nth nth_mem order_less_le_trans)

section \<open>Instants and durations\<close>

text \<open>
  Go's \<open>time.Time\<close> is an instant with nanosecond resolution and \<open>time.Duration\<close> a count of
  nanoseconds; both are integers here, instants counted from the Unix epoch.
\<close>

type_synonym time = int
type_synonym duration = int

definition Second :: duration where "Second = 1000000000"
definition Minute :: duration where "Minute = 60 * Second"
definition Hour :: duration where "Hour = 60 * Minute"

definition Truncate_second :: "time \<Rightarrow> time" where
  "Truncate_second t = (t div Second) * Second"

definition Unix :: "time \<Rightarrow> int" where
  "Unix t = t div Second"

lemmas duration_defs = Second_def Minute_def Hour_def

lemma Second_pos [simp]: "0 < Second"
  by (simp add: Second_def)

lemma Second_nonzero [simp]: "Second \<noteq> 0"
  by (simp add: Second_def)

lemma Truncate_second_le: "Truncate_second t \<le> t"
  by (simp add: Truncate_second_def minus_mod_eq_div_mult [symmetric])

lemma Truncate_second_mono: "s \<le> t \<Longrightarrow> Truncate_second s \<le> Truncate_second t"
  unfolding Truncate_second_def Second_def by (simp add: zdiv_mono1)

lemma Truncate_second_idem [simp]: "Truncate_second (Truncate_second t) = Truncate_second t"
  by (simp add: Truncate_second_def Second_def)

lemma Truncate_second_add: "Truncate_second (t + Second) = Truncate_second t + Second"
  by (simp add: Truncate_second_def div_add_self2 distrib_right)

section \<open>JSON values and HTTP responses\<close>

text \<open>
  A Go \<open>string\<close> and a Go \<open>[]byte\<close> are both byte sequences, which is what HOL's
  \<^typ>\<open>string\<close> is. A JSON object is the association list of its members.
\<close>

datatype json =
    JNull
  | JBool bool
  | JNum int
  | JStr string
  | JTime time
  | JArr "json list"
  | JObj "(string \<times> json) list"

datatype payload = NoBody | Raw string | Json json

record response =
  status :: nat
  headers :: "(string \<times> string) list"
  rbody :: payload

definition strs :: "string list \<Rightarrow> json" where
  "strs xs = JArr (map JStr xs)"

definition header :: "response \<Rightarrow> string \<Rightarrow> string option" where
  "header r k = map_of (headers r) k"

definition member :: "response \<Rightarrow> string \<Rightarrow> json option" where
  "member r k = (case rbody r of Json (JObj kvs) \<Rightarrow> map_of kvs k | _ \<Rightarrow> None)"

lemma last_sort_key:
  assumes "xs \<noteq> []"
  shows "last (sort_key f xs) \<in> set xs \<and> (\<forall>x\<in>set xs. f x \<le> (f (last (sort_key f xs)) :: 'k :: linorder))"
proof -
  let ?ys = "sort_key f xs"
  have ne: "?ys \<noteq> []"
    using assms by (metis set_empty set_sort)
  have "f x \<le> f (last ?ys)" if "x \<in> set ?ys" for x
  proof -
    obtain i where "i < length ?ys" "?ys ! i = x"
      using \<open>x \<in> set ?ys\<close> by (metis in_set_conv_nth)
    then show ?thesis
      using sorted_nth_mono [OF sorted_sort_key [of f xs], of i "length ?ys - 1"] ne
      by (simp add: last_conv_nth)
  qed
  then show ?thesis
    using last_in_set [OF ne] by simp
qed

end
