(* ===== verification/Gostd.thy ===== *)
theory Gostd
  imports Prelude
begin

unbundle bit_operations_syntax

text \<open>
  The pieces of Go's standard library the program computes with: prefixes, suffixes and trimming
  from \<open>strings\<close>, decimal text from \<open>strconv\<close> and \<open>math/big\<close>, hexadecimal and unpadded
  base64url text, big-endian byte strings. The round trips proved here (decimal text, base64url,
  big-endian) are what the certificate ledger and the JWS layer rest on.
\<close>

section \<open>strings\<close>

definition HasPrefix :: "string \<Rightarrow> string \<Rightarrow> bool" where
  "HasPrefix s p \<longleftrightarrow> take (length p) s = p"

definition TrimPrefix :: "string \<Rightarrow> string \<Rightarrow> string" where
  "TrimPrefix s p = (if HasPrefix s p then drop (length p) s else s)"

definition CutSuffix :: "string \<Rightarrow> string \<Rightarrow> string \<times> bool" where
  "CutSuffix s p =
     (if length p \<le> length s \<and> drop (length s - length p) s = p
      then (take (length s - length p) s, True) else (s, False))"

definition TrimRight :: "string \<Rightarrow> string \<Rightarrow> string" where
  "TrimRight s cutset = rev (dropWhile (\<lambda>c. c \<in> set cutset) (rev s))"

definition TrimLeft :: "string \<Rightarrow> string \<Rightarrow> string" where
  "TrimLeft s cutset = dropWhile (\<lambda>c. c \<in> set cutset) s"

definition spaces :: string where
  "spaces = map char_of [9 :: nat, 10, 11, 12, 13, 32]"

definition TrimSpace :: "string \<Rightarrow> string" where
  "TrimSpace s = TrimLeft (TrimRight s spaces) spaces"

fun Split :: "char \<Rightarrow> string \<Rightarrow> string list" where
  "Split c [] = [[]]"
| "Split c (x # xs) =
     (if x = c then [] # Split c xs
      else (case Split c xs of [] \<Rightarrow> [[x]] | w # ws \<Rightarrow> (x # w) # ws))"

fun Cut :: "char \<Rightarrow> string \<Rightarrow> string \<times> string \<times> bool" where
  "Cut c [] = ([], [], False)"
| "Cut c (x # xs) =
     (if x = c then ([], xs, True)
      else (case Cut c xs of (a, b, ok) \<Rightarrow> if ok then (x # a, b, True) else (x # xs, [], False)))"

fun Join :: "string list \<Rightarrow> string \<Rightarrow> string" where
  "Join [] sep = []"
| "Join [x] sep = x"
| "Join (x # xs) sep = x @ sep @ Join xs sep"

lemma HasPrefix_append [simp]: "HasPrefix (p @ s) p"
  by (simp add: HasPrefix_def)

lemma TrimPrefix_append [simp]: "TrimPrefix (p @ s) p = s"
  by (simp add: TrimPrefix_def)

lemma HasPrefix_split: "HasPrefix s p \<Longrightarrow> s = p @ TrimPrefix s p"
  unfolding TrimPrefix_def HasPrefix_def by (metis append_take_drop_id)

lemma CutSuffix_append [simp]: "CutSuffix (s @ p) p = (s, True)"
  by (simp add: CutSuffix_def)

lemma CutSuffix_True: "CutSuffix s p = (t, True) \<Longrightarrow> s = t @ p"
  unfolding CutSuffix_def by (metis append_take_drop_id prod.inject)

lemma TrimRight_last: "TrimRight s cutset \<noteq> [] \<Longrightarrow> last (TrimRight s cutset) \<notin> set cutset"
  unfolding TrimRight_def by (metis hd_dropWhile last_rev rev_is_Nil_conv)

lemma TrimRight_idem: "TrimRight (TrimRight s cutset) cutset = TrimRight s cutset"
  by (simp add: TrimRight_def)

lemma Split_nonempty [simp]: "Split c s \<noteq> []"
  by (induction s) (auto split: list.splits)

lemma Cut_found: "c \<notin> set pre \<Longrightarrow> Cut c (pre @ c # rest) = (pre, rest, True)"
  by (induction pre) auto

lemma Cut_absent: "c \<notin> set s \<Longrightarrow> Cut c s = (s, [], False)"
  by (induction s) auto

lemma Split_single: "c \<notin> set s \<Longrightarrow> Split c s = [s]"
  by (induction s) auto

section \<open>Decimal text\<close>

definition digit :: "nat \<Rightarrow> char" where
  "digit d = char_of (48 + d)"

definition undigit :: "char \<Rightarrow> nat option" where
  "undigit c = (let n = of_char c in if 48 \<le> n \<and> n \<le> (57 :: nat) then Some (n - 48) else None)"

fun decimal :: "nat \<Rightarrow> string" where
  "decimal n = (if n < 10 then [digit n] else decimal (n div 10) @ [digit (n mod 10)])"

declare decimal.simps [simp del]

fun read_digits :: "nat \<Rightarrow> string \<Rightarrow> nat option" where
  "read_digits acc [] = Some acc"
| "read_digits acc (c # cs) =
     (case undigit c of None \<Rightarrow> None | Some d \<Rightarrow> read_digits (10 * acc + d) cs)"

definition undecimal :: "string \<Rightarrow> nat option" where
  "undecimal s = (if s = [] then None else read_digits 0 s)"

text \<open>\<open>big.Int.String\<close> and \<open>big.Int.SetString(s, 10)\<close>, which takes an optional sign.\<close>

definition Int_String :: "int \<Rightarrow> string" where
  "Int_String i = (if i < 0 then ''-'' @ decimal (nat (- i)) else decimal (nat i))"

definition SetString10 :: "string \<Rightarrow> int option" where
  "SetString10 s =
     (case s of
        [] \<Rightarrow> None
      | c # cs \<Rightarrow>
          (if c = CHR ''-'' then map_option (\<lambda>n. - int n) (undecimal cs)
           else if c = CHR ''+'' then map_option int (undecimal cs)
           else map_option int (undecimal s)))"

lemma undigit_digit [simp]: "d < 10 \<Longrightarrow> undigit (digit d) = Some d"
  by (simp add: undigit_def digit_def Let_def take_bit_nat_def)

lemma read_digits_append:
  "read_digits acc (xs @ ys) =
     (case read_digits acc xs of None \<Rightarrow> None | Some n \<Rightarrow> read_digits n ys)"
  by (induction acc xs rule: read_digits.induct) (auto split: option.splits)

lemma decimal_nonempty [simp]: "decimal n \<noteq> []"
  by (subst decimal.simps) simp

lemma read_digits_decimal: "read_digits 0 (decimal n) = Some n"
proof (induction n rule: decimal.induct)
  case (1 n)
  show ?case
  proof (cases "n < 10")
    case True
    then show ?thesis by (simp add: decimal.simps [of n])
  next
    case False
    with "1.IH" show ?thesis
      by (simp add: decimal.simps [of n] read_digits_append)
  qed
qed

lemma undecimal_decimal [simp]: "undecimal (decimal n) = Some n"
  by (simp add: undecimal_def read_digits_decimal)

lemma decimal_inject [simp]: "decimal m = decimal n \<longleftrightarrow> m = n"
  by (metis option.inject undecimal_decimal)

lemma digit_not_sign: "d < 10 \<Longrightarrow> digit d \<noteq> CHR ''-'' \<and> digit d \<noteq> CHR ''+''"
  using undigit_digit [of d] by (auto simp: undigit_def Let_def)

lemma hd_decimal_digit: "\<exists>d<10. hd (decimal n) = digit d"
proof (induction n rule: decimal.induct)
  case (1 n)
  show ?case
  proof (cases "n < 10")
    case True
    then show ?thesis by (auto simp: decimal.simps [of n])
  next
    case False
    with "1.IH" show ?thesis by (auto simp: decimal.simps [of n])
  qed
qed

lemma set_decimal_digits: "c \<in> set (decimal n) \<Longrightarrow> \<exists>d<10. c = digit d"
proof (induction n rule: decimal.induct)
  case (1 n)
  show ?case
  proof (cases "n < 10")
    case True
    with "1.prems" show ?thesis by (auto simp: decimal.simps [of n])
  next
    case False
    with "1.prems" have "c \<in> set (decimal (n div 10)) \<or> c = digit (n mod 10)"
      by (auto simp: decimal.simps [of n])
    with False "1.IH" show ?thesis by (auto intro: exI [of _ "n mod 10"])
  qed
qed

theorem SetString10_Int_String [simp]: "SetString10 (Int_String i) = Some i"
proof (cases "i < 0")
  case True
  then show ?thesis by (simp add: Int_String_def SetString10_def)
next
  case False
  obtain c cs where dec: "decimal (nat i) = c # cs"
    by (cases "decimal (nat i)") auto
  have "c \<noteq> CHR ''-''" "c \<noteq> CHR ''+''"
    using hd_decimal_digit [of "nat i"] dec digit_not_sign by auto
  with False dec show ?thesis
    using undecimal_decimal [of "nat i"] by (simp add: Int_String_def SetString10_def)
qed

lemma Int_String_inject [simp]: "Int_String i = Int_String j \<longleftrightarrow> i = j"
  by (metis SetString10_Int_String option.inject)

lemma Int_String_nonempty [simp]: "Int_String i \<noteq> []"
  by (simp add: Int_String_def)

section \<open>Big-endian byte strings\<close>

definition SetBytes :: "string \<Rightarrow> nat" where
  "SetBytes s = foldl (\<lambda>a c. 256 * a + of_char c) 0 s"

fun Bytes :: "nat \<Rightarrow> string" where
  "Bytes n = (if n = 0 then [] else Bytes (n div 256) @ [char_of (n mod 256)])"

declare Bytes.simps [simp del]

definition leftPad :: "string \<Rightarrow> nat \<Rightarrow> string" where
  "leftPad b sz = (if sz \<le> length b then b else replicate (sz - length b) (char_of (0 :: nat)) @ b)"

lemma Bytes_0 [simp]: "Bytes 0 = []"
  by (subst Bytes.simps) simp

lemma SetBytes_Nil [simp]: "SetBytes [] = 0"
  by (simp add: SetBytes_def)

lemma SetBytes_snoc [simp]: "SetBytes (s @ [c]) = 256 * SetBytes s + of_char c"
  by (simp add: SetBytes_def)

lemma SetBytes_Bytes [simp]: "SetBytes (Bytes n) = n"
proof (induction n rule: Bytes.induct)
  case (1 n)
  show ?case
  proof (cases "n = 0")
    case True
    then show ?thesis by simp
  next
    case False
    with "1.IH" show ?thesis by (simp add: Bytes.simps [of n] take_bit_nat_def)
  qed
qed

lemma SetBytes_bound: "SetBytes s < 256 ^ length s"
proof (induction s rule: rev_induct)
  case (snoc c s)
  have "of_char c < (256 :: nat)"
    by (rule nat_of_char_less_256)
  moreover have "SetBytes s + 1 \<le> 256 ^ length s"
    using snoc by simp
  ultimately show ?case
    by (simp only: SetBytes_snoc length_append_singleton power_Suc)
qed simp

lemma SetBytes_zeros: "SetBytes (replicate k (char_of (0 :: nat)) @ s) = SetBytes s"
proof (induction s rule: rev_induct)
  case Nil
  show ?case by (induction k) (auto simp: SetBytes_def foldl_append)
next
  case (snoc c s)
  then show ?case by (simp add: SetBytes_snoc flip: append_assoc)
qed

lemma SetBytes_leftPad [simp]: "SetBytes (leftPad b sz) = SetBytes b"
  by (simp add: leftPad_def SetBytes_zeros)

lemma length_leftPad: "length b \<le> sz \<Longrightarrow> length (leftPad b sz) = sz"
  by (simp add: leftPad_def)

lemma length_Bytes: "n < 256 ^ k \<Longrightarrow> length (Bytes n) \<le> k"
proof (induction k arbitrary: n)
  case 0
  then show ?case by simp
next
  case (Suc k)
  then have "n div 256 < 256 ^ k"
    by (simp add: less_mult_imp_div_less mult.commute)
  with Suc.IH [of "n div 256"] show ?case
    by (cases "n = 0") (simp_all add: Bytes.simps [of n])
qed

section \<open>Hexadecimal text\<close>

definition hex_digit :: "nat \<Rightarrow> char" where
  "hex_digit d = (if d < 10 then char_of (48 + d) else char_of (87 + d))"

definition hex_EncodeToString :: "string \<Rightarrow> string" where
  "hex_EncodeToString s =
     concat (map (\<lambda>c. let n = of_char c in [hex_digit (n div 16), hex_digit (n mod 16)]) s)"

lemma length_hex [simp]: "length (hex_EncodeToString s) = 2 * length s"
  by (induction s) (auto simp: hex_EncodeToString_def Let_def)

section \<open>Unpadded base64url text\<close>

text \<open>
  \<open>base64.RawURLEncoding\<close>: groups of three bytes become four characters, a last group of one or
  two bytes becomes two or three. Decoding skips carriage returns and newlines, refuses any other
  character outside the alphabet and a last group of one character, and ignores the unused low
  bits of a short last group, as the non-strict decoder does.
\<close>

definition b64_alphabet :: string where
  "b64_alphabet = ''ABCDEFGHIJKLMNOPQRSTUVWXYZabcdefghijklmnopqrstuvwxyz0123456789-_''"

definition b64_char :: "nat \<Rightarrow> char" where
  "b64_char n = b64_alphabet ! n"

definition b64_val :: "char \<Rightarrow> nat option" where
  "b64_val c = map_option fst (find (\<lambda>p. snd p = c) (enumerate 0 b64_alphabet))"

fun b64_sextets :: "nat list \<Rightarrow> nat list" where
  "b64_sextets [] = []"
| "b64_sextets [a] = [a div 4, (a mod 4) * 16]"
| "b64_sextets [a, b] = [a div 4, (a mod 4) * 16 + b div 16, (b mod 16) * 4]"
| "b64_sextets (a # b # c # rest) =
     [a div 4, (a mod 4) * 16 + b div 16, (b mod 16) * 4 + c div 64, c mod 64] @ b64_sextets rest"

fun b64_octets :: "nat list \<Rightarrow> nat list option" where
  "b64_octets [] = Some []"
| "b64_octets [a] = None"
| "b64_octets [a, b] = Some [a * 4 + b div 16]"
| "b64_octets [a, b, c] = Some [a * 4 + b div 16, (b mod 16) * 16 + c div 4]"
| "b64_octets (a # b # c # d # rest) =
     map_option (\<lambda>r. [a * 4 + b div 16, (b mod 16) * 16 + c div 4, (c mod 4) * 64 + d] @ r)
       (b64_octets rest)"

definition b64_EncodeToString :: "string \<Rightarrow> string" where
  "b64_EncodeToString s = map b64_char (b64_sextets (map of_char s))"

definition b64_DecodeString :: "string \<Rightarrow> string option" where
  "b64_DecodeString s =
     (case those (map b64_val (filter (\<lambda>c. c \<noteq> char_of (10 :: nat) \<and> c \<noteq> char_of (13 :: nat)) s)) of
        None \<Rightarrow> None
      | Some vs \<Rightarrow> map_option (map char_of) (b64_octets vs))"

lemma b64_char_table:
  "list_all (\<lambda>n. b64_val (b64_char n) = Some n \<and>
     b64_char n \<noteq> char_of (10 :: nat) \<and> b64_char n \<noteq> char_of (13 :: nat)) [0..<64]"
  by code_simp

lemma b64_char_val:
  assumes "n < 64"
  shows "b64_val (b64_char n) = Some n"
    and "b64_char n \<noteq> char_of (10 :: nat) \<and> b64_char n \<noteq> char_of (13 :: nat)"
  using b64_char_table assms by (auto simp only: list_all_iff set_upt atLeastLessThan_iff)

lemma b64_sextets_bound: "\<forall>a\<in>set xs. a < 256 \<Longrightarrow> \<forall>n\<in>set (b64_sextets xs). n < 64"
  by (induction xs rule: b64_sextets.induct) auto

lemma b64_octets_sextets: "\<forall>a\<in>set xs. a < 256 \<Longrightarrow> b64_octets (b64_sextets xs) = Some xs"
proof (induction xs rule: b64_sextets.induct)
  case (4 a b c rest)
  then have ih: "b64_octets (b64_sextets rest) = Some rest"
    by simp
  have "((a mod 4) * 16 + b div 16) div 16 = a mod 4" "((a mod 4) * 16 + b div 16) mod 16 = b div 16"
    "((b mod 16) * 4 + c div 64) div 4 = b mod 16" "((b mod 16) * 4 + c div 64) mod 4 = c div 64"
    using "4.prems" by auto
  then show ?case
    using ih by simp
qed auto

lemma those_map_Some: "(\<And>x. x \<in> set xs \<Longrightarrow> f (g x) = Some (h x)) \<Longrightarrow> those (map f (map g xs)) = Some (map h xs)"
  by (induction xs) auto

lemma b64_roundtrip: "b64_DecodeString (b64_EncodeToString s) = Some s"
proof -
  let ?vs = "b64_sextets (map of_char s)"
  have small: "\<forall>n\<in>set ?vs. n < 64"
    by (rule b64_sextets_bound) auto
  have "filter (\<lambda>c. c \<noteq> char_of (10 :: nat) \<and> c \<noteq> char_of (13 :: nat)) (map b64_char ?vs) =
      map b64_char ?vs"
    using small b64_char_val(2) by (auto simp: filter_id_conv)
  moreover have "those (map b64_val (map b64_char ?vs)) = Some (map (\<lambda>n. n) ?vs)"
    using small b64_char_val(1) by (intro those_map_Some) auto
  ultimately show ?thesis
    using b64_octets_sextets [of "map of_char s"]
    by (simp add: b64_DecodeString_def b64_EncodeToString_def o_def map_idI)
qed

lemma b64_empty: "b64_EncodeToString s = [] \<longleftrightarrow> s = []"
proof
  assume "b64_EncodeToString s = []"
  then have "b64_DecodeString [] = Some s"
    by (metis b64_roundtrip)
  then show "s = []"
    by (simp add: b64_DecodeString_def)
qed (simp add: b64_EncodeToString_def)

section \<open>Padded base64 text\<close>

text \<open>\<open>base64.StdEncoding\<close>: the same groups over the standard alphabet, filled up to four characters with
  the padding character. Decoding skips line breaks and wants the padding exactly where encoding puts it.\<close>

definition std64_alphabet :: string where
  "std64_alphabet = ''ABCDEFGHIJKLMNOPQRSTUVWXYZabcdefghijklmnopqrstuvwxyz0123456789+/''"

definition std64_char :: "nat \<Rightarrow> char" where
  "std64_char n = std64_alphabet ! n"

definition std64_val :: "char \<Rightarrow> nat option" where
  "std64_val c = map_option fst (find (\<lambda>p. snd p = c) (enumerate 0 std64_alphabet))"

definition std64_EncodeToString :: "string \<Rightarrow> string" where
  "std64_EncodeToString s =
     (let cs = map std64_char (b64_sextets (map of_char s))
      in cs @ replicate ((4 - length cs mod 4) mod 4) (CHR ''=''))"

definition unpad :: "string \<Rightarrow> string" where
  "unpad cs =
     (if cs = [] \<or> last cs \<noteq> CHR ''='' then cs
      else if butlast cs = [] \<or> last (butlast cs) \<noteq> CHR ''='' then butlast cs
      else butlast (butlast cs))"

definition std64_DecodeString :: "string \<Rightarrow> string option" where
  "std64_DecodeString s =
     (let cs = filter (\<lambda>c. c \<noteq> char_of (10 :: nat) \<and> c \<noteq> char_of (13 :: nat)) s
      in if length cs mod 4 \<noteq> 0 then None
         else case those (map std64_val (unpad cs)) of
           None \<Rightarrow> None
         | Some vs \<Rightarrow> map_option (map char_of) (b64_octets vs))"

lemma std64_char_table:
  "list_all (\<lambda>n. std64_val (std64_char n) = Some n \<and> std64_char n \<noteq> CHR ''='' \<and>
     std64_char n \<noteq> char_of (10 :: nat) \<and> std64_char n \<noteq> char_of (13 :: nat)) [0..<64]"
  by code_simp

lemma std64_pad_kept: "CHR ''='' \<noteq> char_of (10 :: nat)" "CHR ''='' \<noteq> char_of (13 :: nat)"
  by code_simp+

lemma std64_char_val:
  assumes "n < 64"
  shows "std64_val (std64_char n) = Some n"
    and "std64_char n \<noteq> CHR ''='' \<and> std64_char n \<noteq> char_of (10 :: nat) \<and> std64_char n \<noteq> char_of (13 :: nat)"
  using std64_char_table assms by (auto simp only: list_all_iff set_upt atLeastLessThan_iff)

lemma b64_sextets_length: "length (b64_sextets xs) mod 4 \<noteq> 1"
proof (induction xs rule: b64_sextets.induct)
  case (4 a b c rest)
  then show ?case
    by (simp add: mod_add_eq)
qed simp_all

lemma pad_length: "(n + (4 - n mod 4) mod 4) mod 4 = (0 :: nat)"
proof -
  have "n mod 4 \<in> {0, 1, 2, 3}"
    by auto
  then show ?thesis
    by (subst mod_add_left_eq [symmetric]) auto
qed

lemma pad_short: "n mod 4 \<noteq> 1 \<Longrightarrow> (4 - n mod 4) mod 4 \<le> (2 :: nat)"
proof -
  assume "n mod 4 \<noteq> 1"
  then have "n mod 4 \<in> {0, 2, 3}"
    by auto
  then show ?thesis
    by auto
qed

lemma unpad_padded:
  assumes "CHR ''='' \<notin> set cs" and "k \<le> 2"
  shows "unpad (cs @ replicate k (CHR ''='')) = cs"
proof -
  consider "k = 0" | "k = 1" | "k = 2"
    using assms(2) by linarith
  then show ?thesis
  proof cases
    case 1
    have "cs = [] \<or> last cs \<noteq> CHR ''=''"
      using assms(1) last_in_set [of cs] by metis
    with 1 show ?thesis
      by (simp add: unpad_def)
  next
    case 2
    have "cs = [] \<or> last cs \<noteq> CHR ''=''"
      using assms(1) last_in_set [of cs] by metis
    with 2 show ?thesis
      by (simp add: unpad_def)
  next
    case 3
    then show ?thesis
      by (simp add: unpad_def eval_nat_numeral butlast_append)
  qed
qed

lemma std64_roundtrip: "std64_DecodeString (std64_EncodeToString s) = Some s"
proof -
  let ?vs = "b64_sextets (map of_char s)"
  let ?cs = "map std64_char ?vs"
  let ?k = "(4 - length ?cs mod 4) mod 4"
  have small: "\<forall>n\<in>set ?vs. n < 64"
    by (rule b64_sextets_bound) auto
  have "filter (\<lambda>c. c \<noteq> char_of (10 :: nat) \<and> c \<noteq> char_of (13 :: nat)) (?cs @ replicate ?k (CHR ''='')) =
      ?cs @ replicate ?k (CHR ''='')"
  proof (rule filter_True, rule ballI)
    fix c
    assume "c \<in> set (?cs @ replicate ?k (CHR ''=''))"
    then consider n where "n \<in> set ?vs" "c = std64_char n" | "c = CHR ''=''"
      unfolding set_append set_map by (meson UnE imageE in_set_replicate)
    then show "c \<noteq> char_of (10 :: nat) \<and> c \<noteq> char_of (13 :: nat)"
      by cases (use small std64_char_val(2) std64_pad_kept in metis)+
  qed
  moreover have "(length ?cs + ?k) mod 4 = 0"
    by (rule pad_length)
  moreover have "?k \<le> 2"
    using b64_sextets_length [of "map of_char s"] by (intro pad_short) simp
  then have "unpad (?cs @ replicate ?k (CHR ''='')) = ?cs"
    using small std64_char_val(2) by (intro unpad_padded) fastforce+
  moreover have "those (map std64_val ?cs) = Some (map (\<lambda>n. n) ?vs)"
    using small std64_char_val(1) by (intro those_map_Some) auto
  ultimately show ?thesis
    using b64_octets_sextets [of "map of_char s"]
    by (simp add: std64_DecodeString_def std64_EncodeToString_def Let_def o_def map_idI)
qed

section \<open>strconv\<close>

definition ParseBool :: "string \<Rightarrow> bool option" where
  "ParseBool s =
     (if s \<in> set [''1'', ''t'', ''T'', ''TRUE'', ''true'', ''True''] then Some True
      else if s \<in> set [''0'', ''f'', ''F'', ''FALSE'', ''false'', ''False''] then Some False
      else None)"

definition Atoi :: "string \<Rightarrow> int option" where
  "Atoi s = (case SetString10 s of
     Some i \<Rightarrow> if - (2 ^ 63) \<le> i \<and> i < 2 ^ 63 then Some i else None
   | None \<Rightarrow> None)"

end
