(* ===== verification/Store.thy ===== *)
theory Store
  imports Gostd
begin

text \<open>
  The data of \<open>internal/store/store.go\<close>: the rows of the ledger, the roles and order states
  (string types in the source, with the constants it declares) and the sentinel errors. An error
  that wraps a driver error carries that error.
\<close>

section \<open>Rows\<close>

type_synonym CertKind = string

definition CertKindRoot :: CertKind where "CertKindRoot = ''root''"
definition CertKindIntermediate :: CertKind where "CertKindIntermediate = ''intermediate''"
definition CertKindLeaf :: CertKind where "CertKindLeaf = ''leaf''"

lemmas CertKind_defs = CertKindRoot_def CertKindIntermediate_def CertKindLeaf_def

record CertificateRecord =
  Serial :: string
  Kind :: CertKind
  ProfileName :: string
  Subject :: string
  IssuerSerial :: string
  NotBefore :: time
  NotAfter :: time
  PEM :: string
  KeyRef :: string
  CreatedAt :: time
  RevokedAt :: "time option"
  RevocationReason :: string

record ProfileRecord =
  prof_Name :: string
  prof_Version :: int
  prof_Data :: string
  prof_CreatedAt :: time

record AuditEntry =
  audit_ID :: int
  audit_Timestamp :: time
  audit_Actor :: string
  audit_Action :: string
  audit_Target :: string
  audit_Detail :: string

type_synonym ClientRole = string

definition RoleAdmin :: ClientRole where "RoleAdmin = ''admin''"
definition RoleManager :: ClientRole where "RoleManager = ''manager''"

lemmas ClientRole_defs = RoleAdmin_def RoleManager_def

record ClientRoleRecord =
  role_CertSerial :: string
  role_Role :: ClientRole
  role_CreatedAt :: time

record ACMEEABTokenRecord =
  eab_KeyID :: string
  eab_HMACKey :: string
  eab_Role :: ClientRole
  eab_CreatedAt :: time
  eab_ExpiresAt :: time
  eab_Consumed :: bool

record ACMEAccountRecord =
  acct_ID :: string
  acct_JWKThumbprint :: string
  acct_PublicKeyJWK :: string
  acct_Role :: ClientRole
  acct_EABKeyID :: string
  acct_CreatedAt :: time

type_synonym ACMEOrderStatus = string

definition ACMEOrderStatusReady :: ACMEOrderStatus where "ACMEOrderStatusReady = ''ready''"
definition ACMEOrderStatusProcessing :: ACMEOrderStatus where
  "ACMEOrderStatusProcessing = ''processing''"
definition ACMEOrderStatusValid :: ACMEOrderStatus where "ACMEOrderStatusValid = ''valid''"

lemmas ACMEOrderStatus_defs =
  ACMEOrderStatusReady_def ACMEOrderStatusProcessing_def ACMEOrderStatusValid_def

lemma ACMEOrderStatus_distinct [simp]:
  "ACMEOrderStatusReady \<noteq> ACMEOrderStatusProcessing" "ACMEOrderStatusReady \<noteq> ACMEOrderStatusValid"
  "ACMEOrderStatusProcessing \<noteq> ACMEOrderStatusValid"
  "ACMEOrderStatusProcessing \<noteq> ACMEOrderStatusReady" "ACMEOrderStatusValid \<noteq> ACMEOrderStatusReady"
  "ACMEOrderStatusValid \<noteq> ACMEOrderStatusProcessing"
  by (simp_all add: ACMEOrderStatus_defs)

lemma CertKind_distinct [simp]:
  "CertKindRoot \<noteq> CertKindIntermediate" "CertKindRoot \<noteq> CertKindLeaf"
  "CertKindIntermediate \<noteq> CertKindLeaf" "CertKindIntermediate \<noteq> CertKindRoot"
  "CertKindLeaf \<noteq> CertKindRoot" "CertKindLeaf \<noteq> CertKindIntermediate"
  by (simp_all add: CertKind_defs)

lemma ClientRole_distinct [simp]: "RoleAdmin \<noteq> RoleManager" "RoleManager \<noteq> RoleAdmin"
  by (simp_all add: ClientRole_defs)

record ACMEOrderRecord =
  order_ID :: string
  order_AccountID :: string
  order_Identifier :: string
  order_Status :: ACMEOrderStatus
  order_CertSerial :: string
  order_CreatedAt :: time

definition ACMENonceBytes :: nat where "ACMENonceBytes = 24"

section \<open>Errors\<close>

datatype sql_error =
    PrimaryKeyViolation
  | UniqueViolation
  | ForeignKeyViolation
  | CheckViolation
  | DriverFailure

datatype store_error =
    ErrNotFound
  | ErrAlreadyRevoked
  | ErrAlreadyConsumed
  | ErrAlreadyExists
  | ErrWrapped sql_error

type_synonym 'a res = "store_error + 'a"

lemma keeps_case_store_error [keeps]:
  "(e = ErrNotFound \<Longrightarrow> state_io_rel R a) \<Longrightarrow> (e = ErrAlreadyRevoked \<Longrightarrow> state_io_rel R b) \<Longrightarrow>
   (e = ErrAlreadyConsumed \<Longrightarrow> state_io_rel R c) \<Longrightarrow> (e = ErrAlreadyExists \<Longrightarrow> state_io_rel R d) \<Longrightarrow>
   (\<And>x. e = ErrWrapped x \<Longrightarrow> state_io_rel R (f x)) \<Longrightarrow>
   state_io_rel R (case e of ErrNotFound \<Rightarrow> a | ErrAlreadyRevoked \<Rightarrow> b | ErrAlreadyConsumed \<Rightarrow> c
     | ErrAlreadyExists \<Rightarrow> d | ErrWrapped x \<Rightarrow> f x)"
  by (cases e) auto

end
