(* ===== verification/World.thy ===== *)
theory World
  imports Store "HOL-Library.List_Lexorder" "HOL-Library.Char_ord"
begin

text \<open>
  What the program reads and changes outside its own memory: the tables of the datastore, the wall
  clock and the system's random source. The clock and the random source are tapes: each reading
  takes the next entry. Every SQL statement takes the next entry of \<open>faults\<close>: it runs, it
  fails without effect, or it takes effect and its acknowledgement is lost (a dropped connection
  after commit), so that every error branch of the callers is reachable. The statements are those
  of the SQL text in the repositories over the schema of \<open>migrations/*.sql\<close>, constraint by
  constraint.
\<close>

datatype fault = Runs | StmtFails | AckLost

record world =
  certificates :: "CertificateRecord list"
  client_roles :: "ClientRoleRecord list"
  profiles :: "ProfileRecord list"
  audit_log :: "AuditEntry list"
  acme_eab_tokens :: "ACMEEABTokenRecord list"
  acme_accounts :: "ACMEAccountRecord list"
  acme_orders :: "ACMEOrderRecord list"
  acme_nonces :: "(string \<times> time) list"
  faults :: "fault list"
  clock :: time
  clock_tape :: "time list"
  rand_tape :: "string option list"

section \<open>Clock and randomness\<close>

definition time_Now :: "('x world_scheme, time) state" where
  "time_Now = State (\<lambda>w. case clock_tape w of
     [] \<Rightarrow> (clock w, w)
   | t # ts \<Rightarrow> (t, w\<lparr>clock := t, clock_tape := ts\<rparr>))"

definition fill :: "nat \<Rightarrow> string \<Rightarrow> string" where
  "fill n s = take n (s @ replicate n (char_of (0 :: nat)))"

definition rand_Read :: "nat \<Rightarrow> ('x world_scheme, string option) state" where
  "rand_Read n = State (\<lambda>w. case rand_tape w of
     [] \<Rightarrow> (None, w)
   | r # rs \<Rightarrow> (map_option (fill n) r, w\<lparr>rand_tape := rs\<rparr>))"

lemma length_fill [simp]: "length (fill n s) = n"
  by (simp add: fill_def)

section \<open>Running a statement\<close>

definition next_fault :: "'x world_scheme \<Rightarrow> fault" where
  "next_fault w = (case faults w of [] \<Rightarrow> Runs | f # _ \<Rightarrow> f)"

definition drop_fault :: "'x world_scheme \<Rightarrow> 'x world_scheme" where
  "drop_fault w = w\<lparr>faults := tl (faults w)\<rparr>"

definition ExecContext ::
    "('x world_scheme \<Rightarrow> sql_error + nat \<times> 'x world_scheme) \<Rightarrow>
     ('x world_scheme, sql_error + nat) state" where
  "ExecContext stmt = State (\<lambda>w.
     (case next_fault w of
        StmtFails \<Rightarrow> (Inl DriverFailure, drop_fault w)
      | Runs \<Rightarrow>
          (case stmt (drop_fault w) of
             Inl e \<Rightarrow> (Inl e, drop_fault w)
           | Inr (n, w') \<Rightarrow> (Inr n, w'))
      | AckLost \<Rightarrow>
          (case stmt (drop_fault w) of
             Inl e \<Rightarrow> (Inl DriverFailure, drop_fault w)
           | Inr (n, w') \<Rightarrow> (Inl DriverFailure, w'))))"

definition QueryContext :: "('x world_scheme \<Rightarrow> 'a) \<Rightarrow> ('x world_scheme, sql_error + 'a) state" where
  "QueryContext q = State (\<lambda>w.
     (if next_fault w = Runs then Inr (q (drop_fault w)) else Inl DriverFailure, drop_fault w))"

definition count_where :: "('r \<Rightarrow> bool) \<Rightarrow> 'r list \<Rightarrow> nat" where
  "count_where P rows = length (filter P rows)"

definition update_where :: "('r \<Rightarrow> bool) \<Rightarrow> ('r \<Rightarrow> 'r) \<Rightarrow> 'r list \<Rightarrow> 'r list" where
  "update_where P f rows = map (\<lambda>r. if P r then f r else r) rows"

definition has_key :: "('r \<Rightarrow> 'k) \<Rightarrow> 'k \<Rightarrow> 'r list \<Rightarrow> bool" where
  "has_key key k rows = list_ex (\<lambda>r. key r = k) rows"

section \<open>The certificates table\<close>

definition insert_certificate ::
    "CertificateRecord \<Rightarrow> 'x world_scheme \<Rightarrow> sql_error + nat \<times> 'x world_scheme" where
  "insert_certificate r w =
     (if Kind r \<notin> {CertKindRoot, CertKindIntermediate, CertKindLeaf} then Inl CheckViolation
      else if has_key Serial (Serial r) (certificates w) then Inl PrimaryKeyViolation
      else if IssuerSerial r \<noteq> [] \<and> IssuerSerial r \<noteq> Serial r
              \<and> \<not> has_key Serial (IssuerSerial r) (certificates w) then Inl ForeignKeyViolation
      else Inr (1, w\<lparr>certificates := certificates w @ [r\<lparr>RevokedAt := None, RevocationReason := []\<rparr>]\<rparr>))"

definition update_revoked ::
    "string \<Rightarrow> string \<Rightarrow> time \<Rightarrow> 'x world_scheme \<Rightarrow> sql_error + nat \<times> 'x world_scheme" where
  "update_revoked serial reason at w =
     (let P = (\<lambda>r. Serial r = serial \<and> RevokedAt r = None) in
      Inr (count_where P (certificates w),
           w\<lparr>certificates :=
               update_where P (\<lambda>r. r\<lparr>RevokedAt := Some at, RevocationReason := reason\<rparr>) (certificates w)\<rparr>))"

definition select_certificate :: "string \<Rightarrow> 'x world_scheme \<Rightarrow> CertificateRecord option" where
  "select_certificate serial w = find (\<lambda>r. Serial r = serial) (certificates w)"

definition select_by_kind :: "CertKind \<Rightarrow> 'x world_scheme \<Rightarrow> CertificateRecord list" where
  "select_by_kind kind w = sort_key CreatedAt (filter (\<lambda>r. Kind r = kind) (certificates w))"

definition select_latest_by_profile :: "string \<Rightarrow> 'x world_scheme \<Rightarrow> CertificateRecord option" where
  "select_latest_by_profile p w =
     (case sort_key CreatedAt (filter (\<lambda>r. ProfileName r = p) (certificates w)) of
        [] \<Rightarrow> None
      | rs \<Rightarrow> Some (last rs))"

definition revoked_at_key :: "CertificateRecord \<Rightarrow> time" where
  "revoked_at_key r = (case RevokedAt r of None \<Rightarrow> 0 | Some t \<Rightarrow> t)"

text \<open>SQL leaves the order of rows with the same \<open>revoked_at\<close> open; here it is that of insertion.\<close>

definition select_revoked :: "'x world_scheme \<Rightarrow> CertificateRecord list" where
  "select_revoked w = sort_key revoked_at_key (filter (\<lambda>r. RevokedAt r \<noteq> None) (certificates w))"

section \<open>Roles, profiles, audit log\<close>

definition roles_allowed :: "ClientRole set" where
  "roles_allowed = {RoleAdmin, RoleManager}"

definition upsert_client_role ::
    "ClientRoleRecord \<Rightarrow> 'x world_scheme \<Rightarrow> sql_error + nat \<times> 'x world_scheme" where
  "upsert_client_role r w =
     (if role_Role r \<notin> roles_allowed then Inl CheckViolation
      else if has_key role_CertSerial (role_CertSerial r) (client_roles w)
      then Inr (1, w\<lparr>client_roles :=
             update_where (\<lambda>x. role_CertSerial x = role_CertSerial r)
               (\<lambda>x. x\<lparr>role_Role := role_Role r\<rparr>) (client_roles w)\<rparr>)
      else if \<not> has_key Serial (role_CertSerial r) (certificates w) then Inl ForeignKeyViolation
      else Inr (1, w\<lparr>client_roles := client_roles w @ [r]\<rparr>))"

definition select_client_role :: "string \<Rightarrow> 'x world_scheme \<Rightarrow> ClientRoleRecord option" where
  "select_client_role serial w = find (\<lambda>r. role_CertSerial r = serial) (client_roles w)"

definition select_client_roles :: "'x world_scheme \<Rightarrow> ClientRoleRecord list" where
  "select_client_roles w = sort_key role_CreatedAt (client_roles w)"

definition upsert_profile ::
    "ProfileRecord \<Rightarrow> 'x world_scheme \<Rightarrow> sql_error + nat \<times> 'x world_scheme" where
  "upsert_profile r w =
     (let same = (\<lambda>x. prof_Name x = prof_Name r \<and> prof_Version x = prof_Version r) in
      if list_ex same (profiles w)
      then Inr (1, w\<lparr>profiles := update_where same
             (\<lambda>x. x\<lparr>prof_Data := prof_Data r, prof_CreatedAt := prof_CreatedAt r\<rparr>) (profiles w)\<rparr>)
      else Inr (1, w\<lparr>profiles := profiles w @ [r]\<rparr>))"

definition select_profile :: "string \<Rightarrow> 'x world_scheme \<Rightarrow> ProfileRecord option" where
  "select_profile name w =
     (case sort_key prof_Version (filter (\<lambda>r. prof_Name r = name) (profiles w)) of
        [] \<Rightarrow> None
      | rs \<Rightarrow> Some (last rs))"

text \<open>\<open>ORDER BY name, version\<close>: names are compared by the collation of the database.\<close>

definition select_profiles :: "(string \<Rightarrow> 'k::linorder) \<Rightarrow> 'x world_scheme \<Rightarrow> ProfileRecord list" where
  "select_profiles collate w =
     sort_key (\<lambda>r. collate (prof_Name r)) (sort_key prof_Version (profiles w))"

text \<open>The identifiers are SQLite's. An identity column of PostgreSQL skips a number after an insert that failed; nothing is
  looked up by it.\<close>

definition insert_audit :: "AuditEntry \<Rightarrow> 'x world_scheme \<Rightarrow> sql_error + nat \<times> 'x world_scheme" where
  "insert_audit e w =
     Inr (1, w\<lparr>audit_log := audit_log w @ [e\<lparr>audit_ID := int (length (audit_log w)) + 1\<rparr>]\<rparr>)"

definition select_audit :: "nat \<Rightarrow> 'x world_scheme \<Rightarrow> AuditEntry list" where
  "select_audit limit w = take limit (rev (audit_log w))"

section \<open>The ACME tables\<close>

definition insert_eab_token ::
    "ACMEEABTokenRecord \<Rightarrow> 'x world_scheme \<Rightarrow> sql_error + nat \<times> 'x world_scheme" where
  "insert_eab_token r w =
     (if eab_Role r \<notin> roles_allowed then Inl CheckViolation
      else if has_key eab_KeyID (eab_KeyID r) (acme_eab_tokens w) then Inl PrimaryKeyViolation
      else Inr (1, w\<lparr>acme_eab_tokens := acme_eab_tokens w @ [r\<lparr>eab_Consumed := False\<rparr>]\<rparr>))"

definition select_eab_token :: "string \<Rightarrow> 'x world_scheme \<Rightarrow> ACMEEABTokenRecord option" where
  "select_eab_token k w = find (\<lambda>r. eab_KeyID r = k) (acme_eab_tokens w)"

definition update_eab_consumed ::
    "string \<Rightarrow> time \<Rightarrow> 'x world_scheme \<Rightarrow> sql_error + nat \<times> 'x world_scheme" where
  "update_eab_consumed k now w =
     (let P = (\<lambda>r. eab_KeyID r = k \<and> \<not> eab_Consumed r \<and> now < eab_ExpiresAt r) in
      Inr (count_where P (acme_eab_tokens w),
           w\<lparr>acme_eab_tokens := update_where P (\<lambda>r. r\<lparr>eab_Consumed := True\<rparr>) (acme_eab_tokens w)\<rparr>))"

definition insert_account ::
    "ACMEAccountRecord \<Rightarrow> 'x world_scheme \<Rightarrow> sql_error + nat \<times> 'x world_scheme" where
  "insert_account r w =
     (if acct_Role r \<notin> roles_allowed then Inl CheckViolation
      else if has_key acct_ID (acct_ID r) (acme_accounts w) then Inl PrimaryKeyViolation
      else if has_key acct_JWKThumbprint (acct_JWKThumbprint r) (acme_accounts w)
      then Inl UniqueViolation
      else if \<not> has_key eab_KeyID (acct_EABKeyID r) (acme_eab_tokens w) then Inl ForeignKeyViolation
      else Inr (1, w\<lparr>acme_accounts := acme_accounts w @ [r]\<rparr>))"

definition select_account_by_thumbprint ::
    "string \<Rightarrow> 'x world_scheme \<Rightarrow> ACMEAccountRecord option" where
  "select_account_by_thumbprint t w = find (\<lambda>r. acct_JWKThumbprint r = t) (acme_accounts w)"

definition select_account_by_id :: "string \<Rightarrow> 'x world_scheme \<Rightarrow> ACMEAccountRecord option" where
  "select_account_by_id i w = find (\<lambda>r. acct_ID r = i) (acme_accounts w)"

definition insert_order ::
    "ACMEOrderRecord \<Rightarrow> 'x world_scheme \<Rightarrow> sql_error + nat \<times> 'x world_scheme" where
  "insert_order r w =
     (if has_key order_ID (order_ID r) (acme_orders w) then Inl PrimaryKeyViolation
      else if \<not> has_key acct_ID (order_AccountID r) (acme_accounts w) then Inl ForeignKeyViolation
      else Inr (1, w\<lparr>acme_orders := acme_orders w @ [r]\<rparr>))"

definition select_order :: "string \<Rightarrow> 'x world_scheme \<Rightarrow> ACMEOrderRecord option" where
  "select_order i w = find (\<lambda>r. order_ID r = i) (acme_orders w)"

definition update_order_status ::
    "string \<Rightarrow> ACMEOrderStatus \<Rightarrow> ACMEOrderStatus \<Rightarrow> string \<Rightarrow> 'x world_scheme \<Rightarrow>
     sql_error + nat \<times> 'x world_scheme" where
  "update_order_status i from to serial w =
     (let P = (\<lambda>r. order_ID r = i \<and> order_Status r = from) in
      Inr (count_where P (acme_orders w),
           w\<lparr>acme_orders :=
               update_where P (\<lambda>r. r\<lparr>order_Status := to, order_CertSerial := serial\<rparr>) (acme_orders w)\<rparr>))"

definition insert_nonce :: "string \<Rightarrow> time \<Rightarrow> 'x world_scheme \<Rightarrow> sql_error + nat \<times> 'x world_scheme" where
  "insert_nonce n expires w =
     (if has_key fst n (acme_nonces w) then Inl PrimaryKeyViolation
      else Inr (1, w\<lparr>acme_nonces := acme_nonces w @ [(n, expires)]\<rparr>))"

definition delete_nonce :: "string \<Rightarrow> time \<Rightarrow> 'x world_scheme \<Rightarrow> sql_error + nat \<times> 'x world_scheme" where
  "delete_nonce n now w =
     (let P = (\<lambda>r. fst r = n \<and> now < snd r) in
      Inr (count_where P (acme_nonces w),
           w\<lparr>acme_nonces := filter (\<lambda>r. \<not> P r) (acme_nonces w)\<rparr>))"

lemmas statement_defs =
  insert_certificate_def update_revoked_def upsert_client_role_def upsert_profile_def
  insert_audit_def insert_eab_token_def update_eab_consumed_def insert_account_def
  insert_order_def update_order_status_def insert_nonce_def delete_nonce_def

lemmas query_defs =
  select_certificate_def select_by_kind_def select_latest_by_profile_def select_revoked_def
  select_client_role_def select_client_roles_def select_profile_def select_profiles_def select_audit_def
  select_eab_token_def select_account_by_thumbprint_def select_account_by_id_def select_order_def

end
