(* ===== verification/Sqlite_Store.thy ===== *)
theory Sqlite_Store
  imports World
begin

text \<open>
  The SQLite backend, \<open>internal/store/sqlite\<close>. Instants are stored as RFC 3339 text, which keeps
  whole seconds; \<open>rfc3339\<close> is the instant such a text denotes, and comparing two texts of UTC
  instants compares these, as \<open>Columns\<close> shows from the texts themselves. Every method is the statement or statements it runs, followed by the
  way it reads the outcome.
\<close>

section \<open>Reading outcomes\<close>

definition rfc3339 :: "time \<Rightarrow> time" where
  "rfc3339 t = Truncate_second t"

text \<open>\<open>fmt.Errorf("...: %w", err)\<close> around a failed statement, \<open>nil\<close> otherwise.\<close>

definition exec_done :: "sql_error + 'a \<Rightarrow> unit res" where
  "exec_done r = (case r of Inl e \<Rightarrow> Inl (ErrWrapped e) | Inr _ \<Rightarrow> Inr ())"

text \<open>A scanned row: \<open>sql.ErrNoRows\<close> becomes \<open>ErrNotFound\<close>.\<close>

definition scan_row :: "sql_error + 'a option \<Rightarrow> 'a res" where
  "scan_row r = (case r of
     Inl e \<Rightarrow> Inl (ErrWrapped e)
   | Inr None \<Rightarrow> Inl ErrNotFound
   | Inr (Some x) \<Rightarrow> Inr x)"

definition scan_rows :: "sql_error + 'a \<Rightarrow> 'a res" where
  "scan_rows r = (case r of Inl e \<Rightarrow> Inl (ErrWrapped e) | Inr xs \<Rightarrow> Inr xs)"

lemmas outcome_defs = exec_done_def scan_row_def scan_rows_def

section \<open>Certificates\<close>

definition sqlite_Certificates_Create ::
    "CertificateRecord \<Rightarrow> ('x world_scheme, unit res) state" where
  "sqlite_Certificates_Create rec = do {
     r \<leftarrow> ExecContext (insert_certificate
            (rec\<lparr>NotBefore := rfc3339 (NotBefore rec), NotAfter := rfc3339 (NotAfter rec),
                 CreatedAt := rfc3339 (CreatedAt rec)\<rparr>));
     ret (exec_done r)
   }"

definition sqlite_Certificates_GetBySerial ::
    "string \<Rightarrow> ('x world_scheme, CertificateRecord res) state" where
  "sqlite_Certificates_GetBySerial serial = do {
     r \<leftarrow> QueryContext (select_certificate serial);
     ret (scan_row r)
   }"

definition sqlite_Certificates_FindByKind ::
    "CertKind \<Rightarrow> ('x world_scheme, CertificateRecord list res) state" where
  "sqlite_Certificates_FindByKind kind = do {
     r \<leftarrow> QueryContext (select_by_kind kind);
     ret (scan_rows r)
   }"

definition sqlite_Certificates_GetLatestByProfile ::
    "string \<Rightarrow> ('x world_scheme, CertificateRecord res) state" where
  "sqlite_Certificates_GetLatestByProfile profileName = do {
     r \<leftarrow> QueryContext (select_latest_by_profile profileName);
     ret (scan_row r)
   }"

definition sqlite_Certificates_Revoke ::
    "string \<Rightarrow> string \<Rightarrow> time \<Rightarrow> ('x world_scheme, unit res) state" where
  "sqlite_Certificates_Revoke serial reason at = do {
     r \<leftarrow> sqlite_Certificates_GetBySerial serial;
     (case r of
        Inl e \<Rightarrow> ret (Inl e)
      | Inr rec \<Rightarrow>
          (if RevokedAt rec \<noteq> None then ret (Inl ErrAlreadyRevoked)
           else do {
             res \<leftarrow> ExecContext (update_revoked serial reason (rfc3339 at));
             (case res of
                Inl e \<Rightarrow> ret (Inl (ErrWrapped e))
              | Inr n \<Rightarrow> (if n = 0 then ret (Inl ErrAlreadyRevoked) else ret (Inr ())))
           }))
   }"

definition sqlite_Certificates_FindRevoked :: "('x world_scheme, CertificateRecord list res) state" where
  "sqlite_Certificates_FindRevoked = do {
     r \<leftarrow> QueryContext select_revoked;
     ret (scan_rows r)
   }"

section \<open>Client roles, profiles and the audit log\<close>

definition sqlite_ClientRoles_Assign :: "ClientRoleRecord \<Rightarrow> ('x world_scheme, unit res) state" where
  "sqlite_ClientRoles_Assign rec = do {
     r \<leftarrow> ExecContext (upsert_client_role (rec\<lparr>role_CreatedAt := rfc3339 (role_CreatedAt rec)\<rparr>));
     ret (exec_done r)
   }"

definition sqlite_ClientRoles_Get :: "string \<Rightarrow> ('x world_scheme, ClientRoleRecord res) state" where
  "sqlite_ClientRoles_Get certSerial = do {
     r \<leftarrow> QueryContext (select_client_role certSerial);
     ret (scan_row r)
   }"

definition sqlite_ClientRoles_List :: "('x world_scheme, ClientRoleRecord list res) state" where
  "sqlite_ClientRoles_List = do {
     r \<leftarrow> QueryContext select_client_roles;
     ret (scan_rows r)
   }"

definition sqlite_Profiles_Upsert :: "ProfileRecord \<Rightarrow> ('x world_scheme, unit res) state" where
  "sqlite_Profiles_Upsert rec = do {
     r \<leftarrow> ExecContext (upsert_profile (rec\<lparr>prof_CreatedAt := rfc3339 (prof_CreatedAt rec)\<rparr>));
     ret (exec_done r)
   }"

definition sqlite_Profiles_Get :: "string \<Rightarrow> ('x world_scheme, ProfileRecord res) state" where
  "sqlite_Profiles_Get name = do {
     r \<leftarrow> QueryContext (select_profile name);
     ret (scan_row r)
   }"

text \<open>SQLite compares text byte by byte unless told otherwise.\<close>

definition sqlite_Profiles_List :: "('x world_scheme, ProfileRecord list res) state" where
  "sqlite_Profiles_List = do {
     r \<leftarrow> QueryContext (select_profiles (\<lambda>name. name));
     ret (scan_rows r)
   }"

definition sqlite_Audit_Append :: "AuditEntry \<Rightarrow> ('x world_scheme, unit res) state" where
  "sqlite_Audit_Append entry = do {
     r \<leftarrow> ExecContext (insert_audit (entry\<lparr>audit_Timestamp := rfc3339 (audit_Timestamp entry)\<rparr>));
     ret (exec_done r)
   }"

text \<open>A negative \<open>LIMIT\<close> is no limit in SQLite.\<close>

definition sqlite_Audit_List :: "int \<Rightarrow> ('x world_scheme, AuditEntry list res) state" where
  "sqlite_Audit_List limit = do {
     r \<leftarrow> QueryContext (\<lambda>w. if limit < 0 then rev (audit_log w) else select_audit (nat limit) w);
     ret (scan_rows r)
   }"

section \<open>ACME\<close>

text \<open>
  \<open>isUniqueViolation\<close> of \<open>acme.go\<close> tests for the result codes 19 and 2067
  (\<open>SQLITE_CONSTRAINT_UNIQUE\<close>); a primary-key collision has its own code, 1555.
\<close>

definition sqlite_isUniqueViolation :: "sql_error \<Rightarrow> bool" where
  "sqlite_isUniqueViolation e \<longleftrightarrow> e = UniqueViolation"

definition sqlite_ACMEEABTokens_Create ::
    "ACMEEABTokenRecord \<Rightarrow> ('x world_scheme, unit res) state" where
  "sqlite_ACMEEABTokens_Create rec = do {
     r \<leftarrow> ExecContext (insert_eab_token
            (rec\<lparr>eab_CreatedAt := rfc3339 (eab_CreatedAt rec), eab_ExpiresAt := rfc3339 (eab_ExpiresAt rec)\<rparr>));
     ret (exec_done r)
   }"

definition sqlite_ACMEEABTokens_Get ::
    "string \<Rightarrow> ('x world_scheme, ACMEEABTokenRecord res) state" where
  "sqlite_ACMEEABTokens_Get keyID = do {
     r \<leftarrow> QueryContext (select_eab_token keyID);
     ret (scan_row r)
   }"

definition sqlite_ACMEEABTokens_MarkConsumed ::
    "string \<Rightarrow> time \<Rightarrow> ('x world_scheme, unit res) state" where
  "sqlite_ACMEEABTokens_MarkConsumed keyID now = do {
     res \<leftarrow> ExecContext (update_eab_consumed keyID (rfc3339 now));
     (case res of
        Inl e \<Rightarrow> ret (Inl (ErrWrapped e))
      | Inr n \<Rightarrow>
          (if n > 0 then ret (Inr ())
           else do {
             r \<leftarrow> QueryContext (\<lambda>w. count_where (\<lambda>r. eab_KeyID r = keyID) (acme_eab_tokens w));
             (case r of
                Inl e \<Rightarrow> ret (Inl (ErrWrapped e))
              | Inr exists_n \<Rightarrow>
                  (if exists_n = 0 then ret (Inl ErrNotFound) else ret (Inl ErrAlreadyConsumed)))
           }))
   }"

definition sqlite_ACMEAccounts_Create :: "ACMEAccountRecord \<Rightarrow> ('x world_scheme, unit res) state" where
  "sqlite_ACMEAccounts_Create rec = do {
     r \<leftarrow> ExecContext (insert_account (rec\<lparr>acct_CreatedAt := rfc3339 (acct_CreatedAt rec)\<rparr>));
     (case r of
        Inl e \<Rightarrow>
          (if sqlite_isUniqueViolation e then ret (Inl ErrAlreadyExists) else ret (Inl (ErrWrapped e)))
      | Inr _ \<Rightarrow> ret (Inr ()))
   }"

definition sqlite_ACMEAccounts_GetByThumbprint ::
    "string \<Rightarrow> ('x world_scheme, ACMEAccountRecord res) state" where
  "sqlite_ACMEAccounts_GetByThumbprint thumbprint = do {
     r \<leftarrow> QueryContext (select_account_by_thumbprint thumbprint);
     ret (scan_row r)
   }"

definition sqlite_ACMEAccounts_GetByID ::
    "string \<Rightarrow> ('x world_scheme, ACMEAccountRecord res) state" where
  "sqlite_ACMEAccounts_GetByID i = do {
     r \<leftarrow> QueryContext (select_account_by_id i);
     ret (scan_row r)
   }"

definition sqlite_ACMEOrders_Create :: "ACMEOrderRecord \<Rightarrow> ('x world_scheme, unit res) state" where
  "sqlite_ACMEOrders_Create rec = do {
     r \<leftarrow> ExecContext (insert_order (rec\<lparr>order_CreatedAt := rfc3339 (order_CreatedAt rec)\<rparr>));
     ret (exec_done r)
   }"

definition sqlite_ACMEOrders_Get :: "string \<Rightarrow> ('x world_scheme, ACMEOrderRecord res) state" where
  "sqlite_ACMEOrders_Get i = do {
     r \<leftarrow> QueryContext (select_order i);
     ret (scan_row r)
   }"

definition sqlite_ACMEOrders_UpdateStatus ::
    "string \<Rightarrow> ACMEOrderStatus \<Rightarrow> ACMEOrderStatus \<Rightarrow> string \<Rightarrow> ('x world_scheme, bool res) state" where
  "sqlite_ACMEOrders_UpdateStatus i fromStatus toStatus certSerial = do {
     res \<leftarrow> ExecContext (update_order_status i fromStatus toStatus certSerial);
     (case res of
        Inl e \<Rightarrow> ret (Inl (ErrWrapped e))
      | Inr n \<Rightarrow>
          (if n > 0 then ret (Inr True)
           else do {
             r \<leftarrow> QueryContext (\<lambda>w. count_where (\<lambda>r. order_ID r = i) (acme_orders w));
             (case r of
                Inl e \<Rightarrow> ret (Inl (ErrWrapped e))
              | Inr exists_n \<Rightarrow> (if exists_n = 0 then ret (Inl ErrNotFound) else ret (Inr False)))
           }))
   }"

text \<open>
  \<open>Issue\<close> returns an error that is not a store error when the random source fails; it is
  \<open>DriverFailure\<close> here, like every other failure below the program.
\<close>

definition sqlite_ACMENonces_Issue :: "time \<Rightarrow> ('x world_scheme, string res) state" where
  "sqlite_ACMENonces_Issue expiresAt = do {
     buf \<leftarrow> rand_Read ACMENonceBytes;
     (case buf of
        None \<Rightarrow> ret (Inl (ErrWrapped DriverFailure))
      | Some b \<Rightarrow> do {
          r \<leftarrow> ExecContext (insert_nonce (b64_EncodeToString b) (rfc3339 expiresAt));
          (case r of
             Inl e \<Rightarrow> ret (Inl (ErrWrapped e))
           | Inr _ \<Rightarrow> ret (Inr (b64_EncodeToString b)))
        })
   }"

definition sqlite_ACMENonces_ConsumeIfValid ::
    "string \<Rightarrow> time \<Rightarrow> ('x world_scheme, bool res) state" where
  "sqlite_ACMENonces_ConsumeIfValid nonce now = do {
     res \<leftarrow> ExecContext (delete_nonce nonce (rfc3339 now));
     (case res of
        Inl e \<Rightarrow> ret (Inl (ErrWrapped e))
      | Inr n \<Rightarrow> ret (Inr (n > 0)))
   }"

lemmas sqlite_defs =
  sqlite_Certificates_Create_def sqlite_Certificates_GetBySerial_def
  sqlite_Certificates_FindByKind_def sqlite_Certificates_GetLatestByProfile_def
  sqlite_Certificates_Revoke_def sqlite_Certificates_FindRevoked_def
  sqlite_ClientRoles_Assign_def sqlite_ClientRoles_Get_def sqlite_ClientRoles_List_def
  sqlite_Profiles_Upsert_def sqlite_Profiles_Get_def sqlite_Profiles_List_def
  sqlite_Audit_Append_def sqlite_Audit_List_def
  sqlite_ACMEEABTokens_Create_def sqlite_ACMEEABTokens_Get_def sqlite_ACMEEABTokens_MarkConsumed_def
  sqlite_ACMEAccounts_Create_def sqlite_ACMEAccounts_GetByThumbprint_def
  sqlite_ACMEAccounts_GetByID_def
  sqlite_ACMEOrders_Create_def sqlite_ACMEOrders_Get_def sqlite_ACMEOrders_UpdateStatus_def
  sqlite_ACMENonces_Issue_def sqlite_ACMENonces_ConsumeIfValid_def

end
