(* ===== verification/Postgres_Store.thy ===== *)
theory Postgres_Store
  imports Sqlite_Store
begin

text \<open>
  The PostgreSQL backend, \<open>internal/store/postgres\<close>. Instants go to \<open>TIMESTAMPTZ\<close> columns; what the
  driver and the server keep of one is the parameter \<open>enc\<close> (microseconds in practice). \<open>Revoke\<close>
  updates first and looks the row up only when the update found nothing, and every
  uniqueness violation, of a primary key too, has the SQLSTATE 23505 that \<open>isUniqueViolation\<close> tests.
\<close>

section \<open>Certificates\<close>

definition pg_Certificates_Create ::
    "(time \<Rightarrow> time) \<Rightarrow> CertificateRecord \<Rightarrow> ('x world_scheme, unit res) state" where
  "pg_Certificates_Create enc rec = do {
     r \<leftarrow> ExecContext (insert_certificate
            (rec\<lparr>NotBefore := enc (NotBefore rec), NotAfter := enc (NotAfter rec),
                 CreatedAt := enc (CreatedAt rec)\<rparr>));
     ret (exec_done r)
   }"

definition pg_Certificates_GetBySerial ::
    "string \<Rightarrow> ('x world_scheme, CertificateRecord res) state" where
  "pg_Certificates_GetBySerial serial = do {
     r \<leftarrow> QueryContext (select_certificate serial);
     ret (scan_row r)
   }"

definition pg_Certificates_FindByKind ::
    "CertKind \<Rightarrow> ('x world_scheme, CertificateRecord list res) state" where
  "pg_Certificates_FindByKind kind = do {
     r \<leftarrow> QueryContext (select_by_kind kind);
     ret (scan_rows r)
   }"

definition pg_Certificates_GetLatestByProfile ::
    "string \<Rightarrow> ('x world_scheme, CertificateRecord res) state" where
  "pg_Certificates_GetLatestByProfile profileName = do {
     r \<leftarrow> QueryContext (select_latest_by_profile profileName);
     ret (scan_row r)
   }"

definition pg_Certificates_Revoke ::
    "(time \<Rightarrow> time) \<Rightarrow> string \<Rightarrow> string \<Rightarrow> time \<Rightarrow> ('x world_scheme, unit res) state" where
  "pg_Certificates_Revoke enc serial reason at = do {
     res \<leftarrow> ExecContext (update_revoked serial reason (enc at));
     (case res of
        Inl e \<Rightarrow> ret (Inl (ErrWrapped e))
      | Inr n \<Rightarrow>
          (if n = 0 then do {
             r \<leftarrow> pg_Certificates_GetBySerial serial;
             (case r of
                Inl e \<Rightarrow> ret (Inl e)
              | Inr _ \<Rightarrow> ret (Inl ErrAlreadyRevoked))
           }
           else ret (Inr ())))
   }"

definition pg_Certificates_FindRevoked :: "('x world_scheme, CertificateRecord list res) state" where
  "pg_Certificates_FindRevoked = do {
     r \<leftarrow> QueryContext select_revoked;
     ret (scan_rows r)
   }"

section \<open>Client roles, profiles and the audit log\<close>

definition pg_ClientRoles_Assign :: "(time \<Rightarrow> time) \<Rightarrow> ClientRoleRecord \<Rightarrow> ('x world_scheme, unit res) state" where
  "pg_ClientRoles_Assign enc rec = do {
     r \<leftarrow> ExecContext (upsert_client_role (rec\<lparr>role_CreatedAt := enc (role_CreatedAt rec)\<rparr>));
     ret (exec_done r)
   }"

definition pg_ClientRoles_Get :: "string \<Rightarrow> ('x world_scheme, ClientRoleRecord res) state" where
  "pg_ClientRoles_Get certSerial = do {
     r \<leftarrow> QueryContext (select_client_role certSerial);
     ret (scan_row r)
   }"

definition pg_ClientRoles_List :: "('x world_scheme, ClientRoleRecord list res) state" where
  "pg_ClientRoles_List = do {
     r \<leftarrow> QueryContext select_client_roles;
     ret (scan_rows r)
   }"

definition pg_Profiles_Upsert :: "(time \<Rightarrow> time) \<Rightarrow> ProfileRecord \<Rightarrow> ('x world_scheme, unit res) state" where
  "pg_Profiles_Upsert enc rec = do {
     r \<leftarrow> ExecContext (upsert_profile (rec\<lparr>prof_CreatedAt := enc (prof_CreatedAt rec)\<rparr>));
     ret (exec_done r)
   }"

definition pg_Profiles_Get :: "string \<Rightarrow> ('x world_scheme, ProfileRecord res) state" where
  "pg_Profiles_Get name = do {
     r \<leftarrow> QueryContext (select_profile name);
     ret (scan_row r)
   }"

text \<open>\<open>collate\<close> is the sort key of the collation the database was created with.\<close>

definition pg_Profiles_List :: "(string \<Rightarrow> 'k::linorder) \<Rightarrow> ('x world_scheme, ProfileRecord list res) state" where
  "pg_Profiles_List collate = do {
     r \<leftarrow> QueryContext (select_profiles collate);
     ret (scan_rows r)
   }"

definition pg_Audit_Append :: "(time \<Rightarrow> time) \<Rightarrow> AuditEntry \<Rightarrow> ('x world_scheme, unit res) state" where
  "pg_Audit_Append enc entry = do {
     r \<leftarrow> ExecContext (insert_audit (entry\<lparr>audit_Timestamp := enc (audit_Timestamp entry)\<rparr>));
     ret (exec_done r)
   }"

text \<open>PostgreSQL refuses a negative \<open>LIMIT\<close>.\<close>

definition pg_Audit_List :: "int \<Rightarrow> ('x world_scheme, AuditEntry list res) state" where
  "pg_Audit_List limit = do {
     r \<leftarrow> QueryContext (select_audit (nat limit));
     (if limit < 0 then ret (Inl (ErrWrapped DriverFailure)) else ret (scan_rows r))
   }"

section \<open>ACME\<close>

definition pg_isUniqueViolation :: "sql_error \<Rightarrow> bool" where
  "pg_isUniqueViolation e \<longleftrightarrow> e = UniqueViolation \<or> e = PrimaryKeyViolation"

definition pg_ACMEEABTokens_Create ::
    "(time \<Rightarrow> time) \<Rightarrow> ACMEEABTokenRecord \<Rightarrow> ('x world_scheme, unit res) state" where
  "pg_ACMEEABTokens_Create enc rec = do {
     r \<leftarrow> ExecContext (insert_eab_token
            (rec\<lparr>eab_CreatedAt := enc (eab_CreatedAt rec), eab_ExpiresAt := enc (eab_ExpiresAt rec)\<rparr>));
     ret (exec_done r)
   }"

definition pg_ACMEEABTokens_Get ::
    "string \<Rightarrow> ('x world_scheme, ACMEEABTokenRecord res) state" where
  "pg_ACMEEABTokens_Get keyID = do {
     r \<leftarrow> QueryContext (select_eab_token keyID);
     ret (scan_row r)
   }"

definition pg_ACMEEABTokens_MarkConsumed ::
    "(time \<Rightarrow> time) \<Rightarrow> string \<Rightarrow> time \<Rightarrow> ('x world_scheme, unit res) state" where
  "pg_ACMEEABTokens_MarkConsumed enc keyID now = do {
     res \<leftarrow> ExecContext (update_eab_consumed keyID (enc now));
     (case res of
        Inl e \<Rightarrow> ret (Inl (ErrWrapped e))
      | Inr n \<Rightarrow>
          (if n > 0 then ret (Inr ())
           else do {
             r \<leftarrow> QueryContext (\<lambda>w. count_where (\<lambda>r. eab_KeyID r = keyID) (acme_eab_tokens w));
             (case r of
                Inl e \<Rightarrow> ret (Inl (ErrWrapped e))
              | Inr exists_n \<Rightarrow>
                  (if exists_n = 0 then ret (Inl ErrNotFound) else ret (Inl ErrAlreadyConsumed)))
           }))
   }"

definition pg_ACMEAccounts_Create :: "(time \<Rightarrow> time) \<Rightarrow> ACMEAccountRecord \<Rightarrow> ('x world_scheme, unit res) state" where
  "pg_ACMEAccounts_Create enc rec = do {
     r \<leftarrow> ExecContext (insert_account (rec\<lparr>acct_CreatedAt := enc (acct_CreatedAt rec)\<rparr>));
     (case r of
        Inl e \<Rightarrow>
          (if pg_isUniqueViolation e then ret (Inl ErrAlreadyExists) else ret (Inl (ErrWrapped e)))
      | Inr _ \<Rightarrow> ret (Inr ()))
   }"

definition pg_ACMEAccounts_GetByThumbprint ::
    "string \<Rightarrow> ('x world_scheme, ACMEAccountRecord res) state" where
  "pg_ACMEAccounts_GetByThumbprint thumbprint = do {
     r \<leftarrow> QueryContext (select_account_by_thumbprint thumbprint);
     ret (scan_row r)
   }"

definition pg_ACMEAccounts_GetByID ::
    "string \<Rightarrow> ('x world_scheme, ACMEAccountRecord res) state" where
  "pg_ACMEAccounts_GetByID i = do {
     r \<leftarrow> QueryContext (select_account_by_id i);
     ret (scan_row r)
   }"

definition pg_ACMEOrders_Create :: "(time \<Rightarrow> time) \<Rightarrow> ACMEOrderRecord \<Rightarrow> ('x world_scheme, unit res) state" where
  "pg_ACMEOrders_Create enc rec = do {
     r \<leftarrow> ExecContext (insert_order (rec\<lparr>order_CreatedAt := enc (order_CreatedAt rec)\<rparr>));
     ret (exec_done r)
   }"

definition pg_ACMEOrders_Get :: "string \<Rightarrow> ('x world_scheme, ACMEOrderRecord res) state" where
  "pg_ACMEOrders_Get i = do {
     r \<leftarrow> QueryContext (select_order i);
     ret (scan_row r)
   }"

definition pg_ACMEOrders_UpdateStatus ::
    "string \<Rightarrow> ACMEOrderStatus \<Rightarrow> ACMEOrderStatus \<Rightarrow> string \<Rightarrow> ('x world_scheme, bool res) state" where
  "pg_ACMEOrders_UpdateStatus i fromStatus toStatus certSerial = do {
     res \<leftarrow> ExecContext (update_order_status i fromStatus toStatus certSerial);
     (case res of
        Inl e \<Rightarrow> ret (Inl (ErrWrapped e))
      | Inr n \<Rightarrow>
          (if n > 0 then ret (Inr True)
           else do {
             r \<leftarrow> QueryContext (\<lambda>w. count_where (\<lambda>r. order_ID r = i) (acme_orders w));
             (case r of
                Inl e \<Rightarrow> ret (Inl (ErrWrapped e))
              | Inr exists_n \<Rightarrow> (if exists_n = 0 then ret (Inl ErrNotFound) else ret (Inr False)))
           }))
   }"

definition pg_ACMENonces_Issue :: "(time \<Rightarrow> time) \<Rightarrow> time \<Rightarrow> ('x world_scheme, string res) state" where
  "pg_ACMENonces_Issue enc expiresAt = do {
     buf \<leftarrow> rand_Read ACMENonceBytes;
     (case buf of
        None \<Rightarrow> ret (Inl (ErrWrapped DriverFailure))
      | Some b \<Rightarrow> do {
          r \<leftarrow> ExecContext (insert_nonce (b64_EncodeToString b) (enc expiresAt));
          (case r of
             Inl e \<Rightarrow> ret (Inl (ErrWrapped e))
           | Inr _ \<Rightarrow> ret (Inr (b64_EncodeToString b)))
        })
   }"

definition pg_ACMENonces_ConsumeIfValid ::
    "(time \<Rightarrow> time) \<Rightarrow> string \<Rightarrow> time \<Rightarrow> ('x world_scheme, bool res) state" where
  "pg_ACMENonces_ConsumeIfValid enc nonce now = do {
     res \<leftarrow> ExecContext (delete_nonce nonce (enc now));
     (case res of
        Inl e \<Rightarrow> ret (Inl (ErrWrapped e))
      | Inr n \<Rightarrow> ret (Inr (n > 0)))
   }"

lemmas pg_defs =
  pg_Certificates_Create_def pg_Certificates_GetBySerial_def
  pg_Certificates_FindByKind_def pg_Certificates_GetLatestByProfile_def
  pg_Certificates_Revoke_def pg_Certificates_FindRevoked_def
  pg_ClientRoles_Assign_def pg_ClientRoles_Get_def pg_ClientRoles_List_def
  pg_Profiles_Upsert_def pg_Profiles_Get_def pg_Profiles_List_def
  pg_Audit_Append_def pg_Audit_List_def
  pg_ACMEEABTokens_Create_def pg_ACMEEABTokens_Get_def pg_ACMEEABTokens_MarkConsumed_def
  pg_ACMEAccounts_Create_def pg_ACMEAccounts_GetByThumbprint_def
  pg_ACMEAccounts_GetByID_def
  pg_ACMEOrders_Create_def pg_ACMEOrders_Get_def pg_ACMEOrders_UpdateStatus_def
  pg_ACMENonces_Issue_def pg_ACMENonces_ConsumeIfValid_def

end
