(* ===== verification/Ledger.thy ===== *)
theory Ledger
  imports World
begin

text \<open>
  What every SQL statement of the program keeps of the datastore, whichever operation runs it:
  the constraints of the schema (\<open>schema\<close>) and the direction in which the tables move
  (\<open>grows\<close>): no row of the ledger disappears or is rewritten; a certificate may only become
  revoked, a token only consumed, an order only move forward through its states. Both together are
  the preorder \<open>ledger_le\<close>, which is an instance of \<open>state_preorder\<close>, so it lifts to handlers.
\<close>

section \<open>Running a statement\<close>

lemma wp_ExecContext [wps]:
  assumes "\<And>f n w'. stmt (w\<lparr>faults := f\<rparr>) = Inr (n, w') \<Longrightarrow> Q (Inr n) w'"
    and "\<And>f n w'. stmt (w\<lparr>faults := f\<rparr>) = Inr (n, w') \<Longrightarrow> Q (Inl DriverFailure) w'"
    and "\<And>f e. stmt (w\<lparr>faults := f\<rparr>) = Inl e \<Longrightarrow> Q (Inl e) (w\<lparr>faults := f\<rparr>)"
    and "\<And>f. Q (Inl DriverFailure) (w\<lparr>faults := f\<rparr>)"
  shows "wp (ExecContext stmt) Q w"
  using assms unfolding wp_def ExecContext_def drop_fault_def
  by (auto split: fault.splits sum.splits)

lemma wp_QueryContext [wps]:
  assumes "\<And>f. Q (Inr (q (w\<lparr>faults := f\<rparr>))) (w\<lparr>faults := f\<rparr>)"
    and "\<And>f. Q (Inl DriverFailure) (w\<lparr>faults := f\<rparr>)"
  shows "wp (QueryContext q) Q w"
  using assms unfolding wp_def QueryContext_def drop_fault_def by auto

lemma wp_time_Now [wps]:
  assumes "\<And>t ts. Q t (w\<lparr>clock := t, clock_tape := ts\<rparr>)"
  shows "wp time_Now Q w"
  using assms [of "clock w" "clock_tape w"] assms
  unfolding wp_def time_Now_def by (auto split: list.splits)

lemma wp_rand_Read [wps]:
  assumes "\<And>r rs. length r = n \<Longrightarrow> Q (Some r) (w\<lparr>rand_tape := rs\<rparr>)"
    and "\<And>rs. Q None (w\<lparr>rand_tape := rs\<rparr>)"
  shows "wp (rand_Read n) Q w"
  using assms(1) assms(2) [of "rand_tape w"] assms(2)
  unfolding wp_def rand_Read_def by (auto split: list.splits option.splits simp: map_option_case)

text \<open>With nothing on the fault tape a statement is its effect on the tables.\<close>

lemma faults_eta: "faults w = f \<Longrightarrow> w\<lparr>faults := f\<rparr> = w"
  by (cases w) simp

lemma ExecContext_Runs [effects]:
  "faults w = [] \<Longrightarrow> run_state (ExecContext stmt) w =
     (case stmt w of Inl e \<Rightarrow> (Inl e, w) | Inr (n, w') \<Rightarrow> (Inr n, w'))"
  by (simp add: ExecContext_def next_fault_def drop_fault_def faults_eta split: sum.splits)

lemma QueryContext_Runs [effects]:
  "faults w = [] \<Longrightarrow> run_state (QueryContext q) w = (Inr (q w), w)"
  by (simp add: QueryContext_def next_fault_def drop_fault_def faults_eta)

section \<open>Rows move forward\<close>

definition cert_le :: "CertificateRecord \<Rightarrow> CertificateRecord \<Rightarrow> bool" where
  "cert_le r r' \<longleftrightarrow> r' = r \<or>
     (RevokedAt r = None \<and>
      r' = r\<lparr>RevokedAt := RevokedAt r', RevocationReason := RevocationReason r'\<rparr>)"

definition role_le :: "ClientRoleRecord \<Rightarrow> ClientRoleRecord \<Rightarrow> bool" where
  "role_le r r' \<longleftrightarrow> r' = r\<lparr>role_Role := role_Role r'\<rparr>"

definition prof_le :: "ProfileRecord \<Rightarrow> ProfileRecord \<Rightarrow> bool" where
  "prof_le r r' \<longleftrightarrow> r' = r\<lparr>prof_Data := prof_Data r', prof_CreatedAt := prof_CreatedAt r'\<rparr>"

definition eab_le :: "ACMEEABTokenRecord \<Rightarrow> ACMEEABTokenRecord \<Rightarrow> bool" where
  "eab_le r r' \<longleftrightarrow> r' = r \<or> r' = r\<lparr>eab_Consumed := True\<rparr>"

definition progress :: "ACMEOrderStatus \<Rightarrow> ACMEOrderStatus \<Rightarrow> bool" where
  "progress s s' \<longleftrightarrow>
     s = ACMEOrderStatusReady \<and> s' \<in> {ACMEOrderStatusProcessing, ACMEOrderStatusValid} \<or>
     s = ACMEOrderStatusProcessing \<and> s' = ACMEOrderStatusValid"

definition order_le :: "ACMEOrderRecord \<Rightarrow> ACMEOrderRecord \<Rightarrow> bool" where
  "order_le r r' \<longleftrightarrow> r' = r \<or>
     (progress (order_Status r) (order_Status r') \<and>
      r' = r\<lparr>order_Status := order_Status r', order_CertSerial := order_CertSerial r'\<rparr>)"

definition grows :: "'x world_scheme \<Rightarrow> 'x world_scheme \<Rightarrow> bool" where
  "grows w w' \<longleftrightarrow>
     rows_le cert_le (certificates w) (certificates w') \<and>
     rows_le role_le (client_roles w) (client_roles w') \<and>
     rows_le prof_le (profiles w) (profiles w') \<and>
     prefix (audit_log w) (audit_log w') \<and>
     rows_le eab_le (acme_eab_tokens w) (acme_eab_tokens w') \<and>
     prefix (acme_accounts w) (acme_accounts w') \<and>
     rows_le order_le (acme_orders w) (acme_orders w')"

lemmas row_le_defs = cert_le_def role_le_def prof_le_def eab_le_def order_le_def

lemma row_le_refl [simp]:
  "cert_le c c" "role_le r r" "prof_le p p" "eab_le t t" "order_le q q"
  by (simp_all add: row_le_defs)

lemma cert_le_trans: "cert_le a b \<Longrightarrow> cert_le b c \<Longrightarrow> cert_le a c"
  by (cases a; cases b; cases c) (auto simp: cert_le_def)

lemma role_le_trans: "role_le a b \<Longrightarrow> role_le b c \<Longrightarrow> role_le a c"
  by (cases a; cases b; cases c) (auto simp: role_le_def)

lemma prof_le_trans: "prof_le a b \<Longrightarrow> prof_le b c \<Longrightarrow> prof_le a c"
  by (cases a; cases b; cases c) (auto simp: prof_le_def)

lemma eab_le_trans: "eab_le a b \<Longrightarrow> eab_le b c \<Longrightarrow> eab_le a c"
  by (auto simp: eab_le_def)

lemma order_le_trans: "order_le a b \<Longrightarrow> order_le b c \<Longrightarrow> order_le a c"
  by (cases a; cases b; cases c) (auto simp: order_le_def progress_def)

lemma grows_refl: "grows w w"
  by (simp add: grows_def rows_le_refl)

lemma grows_trans: "grows u v \<Longrightarrow> grows v w \<Longrightarrow> grows u w"
  unfolding grows_def
  by (meson rows_le_trans cert_le_trans role_le_trans prof_le_trans eab_le_trans order_le_trans
      prefix_order.order_trans)

section \<open>The constraints of the schema\<close>

definition certificates_ok :: "'x world_scheme \<Rightarrow> bool" where
  "certificates_ok w \<longleftrightarrow> distinct (map Serial (certificates w)) \<and>
     (\<forall>r\<in>set (certificates w).
        Kind r \<in> {CertKindRoot, CertKindIntermediate, CertKindLeaf} \<and>
        (IssuerSerial r = [] \<or> IssuerSerial r \<in> Serial ` set (certificates w)))"

definition roles_ok :: "'x world_scheme \<Rightarrow> bool" where
  "roles_ok w \<longleftrightarrow> distinct (map role_CertSerial (client_roles w)) \<and>
     (\<forall>r\<in>set (client_roles w).
        role_Role r \<in> roles_allowed \<and> role_CertSerial r \<in> Serial ` set (certificates w))"

definition profiles_ok :: "'x world_scheme \<Rightarrow> bool" where
  "profiles_ok w \<longleftrightarrow> distinct (map (\<lambda>r. (prof_Name r, prof_Version r)) (profiles w))"

definition acme_ok :: "'x world_scheme \<Rightarrow> bool" where
  "acme_ok w \<longleftrightarrow>
     distinct (map eab_KeyID (acme_eab_tokens w)) \<and>
     (\<forall>r\<in>set (acme_eab_tokens w). eab_Role r \<in> roles_allowed) \<and>
     distinct (map acct_ID (acme_accounts w)) \<and>
     distinct (map acct_JWKThumbprint (acme_accounts w)) \<and>
     (\<forall>r\<in>set (acme_accounts w). acct_Role r \<in> roles_allowed \<and>
        acct_EABKeyID r \<in> eab_KeyID ` set (acme_eab_tokens w)) \<and>
     distinct (map order_ID (acme_orders w)) \<and>
     (\<forall>r\<in>set (acme_orders w). order_AccountID r \<in> acct_ID ` set (acme_accounts w)) \<and>
     distinct (map fst (acme_nonces w))"

definition schema :: "'x world_scheme \<Rightarrow> bool" where
  "schema w \<longleftrightarrow> certificates_ok w \<and> roles_ok w \<and> profiles_ok w \<and> acme_ok w"

lemmas schema_parts = certificates_ok_def roles_ok_def profiles_ok_def acme_ok_def

definition ledger_le :: "'x world_scheme \<Rightarrow> 'x world_scheme \<Rightarrow> bool" where
  "ledger_le w w' \<longleftrightarrow> grows w w' \<and> (schema w \<longrightarrow> schema w')"

interpretation ledger: state_preorder ledger_le
  by unfold_locales (auto simp: ledger_le_def grows_refl intro: grows_trans)

lemmas [keeps] = ledger.keeps_monad

text \<open>All tables at once, for what changes none of them.\<close>

definition tables ::
    "'x world_scheme \<Rightarrow> CertificateRecord list \<times> ClientRoleRecord list \<times> ProfileRecord list \<times>
     AuditEntry list \<times> ACMEEABTokenRecord list \<times> ACMEAccountRecord list \<times> ACMEOrderRecord list \<times>
     (string \<times> time) list" where
  "tables w = (certificates w, client_roles w, profiles w, audit_log w, acme_eab_tokens w,
     acme_accounts w, acme_orders w, acme_nonces w)"

lemma effects_keep_tables [keeps]:
  "state_io_rel (unchanged tables) time_Now"
  "state_io_rel (unchanged tables) (rand_Read n)"
  "state_io_rel (unchanged tables) (QueryContext q)"
  by (rule unchangedI; auto simp: tables_def intro!: wps)+

section \<open>Every statement moves the ledger forward\<close>

lemma has_key_iff: "has_key key k rows \<longleftrightarrow> k \<in> key ` set rows"
  by (auto simp: has_key_def list_ex_iff)

lemma map_update_where [simp]:
  "(\<And>r. key (f r) = key r) \<Longrightarrow> map key (update_where P f rows) = map key rows"
  by (simp add: update_where_def)

lemma set_update_where: "r \<in> set (update_where P f rows) \<longleftrightarrow>
    (\<exists>x\<in>set rows. r = (if P x then f x else x))"
  by (auto simp: update_where_def)

lemma image_update_where [simp]:
  "(\<And>r. key (f r) = key r) \<Longrightarrow> key ` set (update_where P f rows) = key ` set rows"
  by (metis image_set map_update_where)

lemma ball_update_where [simp]:
  "(\<And>r. Q (f r) = Q r) \<Longrightarrow> (\<forall>r\<in>set (update_where P f rows). Q r) = (\<forall>r\<in>set rows. Q r)"
  by (induction rows) (auto simp: update_where_def)

lemma rows_le_update_where:
  "(\<And>r. le r r) \<Longrightarrow> (\<And>r. P r \<Longrightarrow> le r (f r)) \<Longrightarrow> rows_le le rows (update_where P f rows)"
  by (simp add: update_where_def rows_le_update)

definition statement_ok ::
    "('x world_scheme \<Rightarrow> sql_error + nat \<times> 'x world_scheme) \<Rightarrow> bool" where
  "statement_ok stmt \<longleftrightarrow> (\<forall>w n w'. stmt w = Inr (n, w') \<longrightarrow> ledger_le w w')"

lemmas grow_rules = rows_le_refl rows_le_append rows_le_update_where

lemma insert_certificate_ok [keeps]: "statement_ok (insert_certificate r)"
  unfolding statement_ok_def insert_certificate_def ledger_le_def
  by (auto simp: grows_def schema_def schema_parts has_key_iff intro!: grow_rules)

lemma update_revoked_ok [keeps]: "statement_ok (update_revoked serial reason at)"
  unfolding statement_ok_def update_revoked_def ledger_le_def
  by (auto simp: Let_def grows_def schema_def schema_parts cert_le_def
      intro!: grow_rules)

lemma upsert_client_role_ok [keeps]: "statement_ok (upsert_client_role r)"
  unfolding statement_ok_def upsert_client_role_def ledger_le_def
  by (auto simp: grows_def schema_def schema_parts has_key_iff role_le_def set_update_where
      intro!: grow_rules)

lemma upsert_profile_ok [keeps]: "statement_ok (upsert_profile r)"
  unfolding statement_ok_def upsert_profile_def ledger_le_def
  by (auto simp: Let_def grows_def schema_def schema_parts list_ex_iff prof_le_def
      intro!: grow_rules)

lemma insert_audit_ok [keeps]: "statement_ok (insert_audit e)"
  unfolding statement_ok_def insert_audit_def ledger_le_def
  by (auto simp: grows_def schema_def schema_parts intro!: grow_rules)

lemma insert_eab_token_ok [keeps]: "statement_ok (insert_eab_token r)"
  unfolding statement_ok_def insert_eab_token_def ledger_le_def
  by (auto simp: grows_def schema_def schema_parts has_key_iff intro!: grow_rules)

lemma update_eab_consumed_ok [keeps]: "statement_ok (update_eab_consumed k now)"
  unfolding statement_ok_def update_eab_consumed_def ledger_le_def
  by (auto simp: Let_def grows_def schema_def schema_parts eab_le_def
      intro!: grow_rules)

lemma insert_account_ok [keeps]: "statement_ok (insert_account r)"
  unfolding statement_ok_def insert_account_def ledger_le_def
  by (auto simp: grows_def schema_def schema_parts has_key_iff intro!: grow_rules)

lemma insert_order_ok [keeps]: "statement_ok (insert_order r)"
  unfolding statement_ok_def insert_order_def ledger_le_def
  by (auto simp: grows_def schema_def schema_parts has_key_iff intro!: grow_rules)

lemma update_order_status_ok [keeps]:
  "progress from to \<Longrightarrow> statement_ok (update_order_status i from to serial)"
  unfolding statement_ok_def update_order_status_def ledger_le_def
  by (auto simp: Let_def grows_def schema_def schema_parts order_le_def
      intro!: grow_rules)

lemma insert_nonce_ok [keeps]: "statement_ok (insert_nonce k expires)"
  unfolding statement_ok_def insert_nonce_def ledger_le_def
  by (auto simp: grows_def schema_def schema_parts has_key_iff intro!: grow_rules)

lemma delete_nonce_ok [keeps]: "statement_ok (delete_nonce k now)"
  unfolding statement_ok_def delete_nonce_def ledger_le_def
  by (auto simp: Let_def grows_def schema_def schema_parts distinct_map_filter intro!: grow_rules)

lemma ledger_le_faults [simp]: "ledger_le w (w\<lparr>faults := f\<rparr>)"
  "ledger_le w (w\<lparr>clock := t, clock_tape := ts\<rparr>)" "ledger_le w (w\<lparr>rand_tape := rs\<rparr>)"
  by (simp_all add: ledger_le_def grows_def rows_le_refl schema_def schema_parts)

lemma keeps_ExecContext [keeps]:
  assumes "statement_ok stmt"
  shows "state_io_rel ledger_le (ExecContext stmt)"
proof (rule state_io_relI)
  fix a w w'
  assume run: "run_state (ExecContext stmt) w = (a, w')"
  have "wp (ExecContext stmt) (\<lambda>_ w'. ledger_le w w') w"
    using assms unfolding statement_ok_def
    by (intro wps) (auto intro: ledger.R_trans [OF ledger_le_faults(1)])
  with run show "ledger_le w w'"
    by (rule wp_run [rotated])
qed

lemma keeps_QueryContext [keeps]: "state_io_rel ledger_le (QueryContext q)"
  by (rule state_io_relI) (auto simp: QueryContext_def drop_fault_def)

lemma keeps_time_Now [keeps]: "state_io_rel ledger_le time_Now"
  by (rule state_io_relI)
    (auto simp: time_Now_def ledger.R_refl split: list.splits)

lemma keeps_rand_Read [keeps]: "state_io_rel ledger_le (rand_Read k)"
  by (rule state_io_relI)
    (auto simp: rand_Read_def ledger.R_refl split: list.splits)

end
