(* ===== verification/Store_Iface.thy ===== *)
theory Store_Iface
  imports Postgres_Store Ledger
begin

text \<open>
  The interface \<open>store.Store\<close> the rest of the program calls: each method is the one of the backend
  the configuration selected. The theory shows that the two backends are one repository up to what
  they keep of an instant (\<open>enc_of\<close>), that every method only moves the ledger forward, and states
  the contracts the handlers rest on: \<open>repository\<close> (what is created can be read back) and
  \<open>single_use\<close> (a claim is won at most once), both interpreted on the methods.
\<close>

section \<open>The methods\<close>

datatype backend = Sqlite | Postgres "time \<Rightarrow> time"

definition enc_of :: "backend \<Rightarrow> time \<Rightarrow> time" where
  "enc_of b = (case b of Sqlite \<Rightarrow> rfc3339 | Postgres enc \<Rightarrow> enc)"

definition Certificates_Create ::
    "backend \<Rightarrow> CertificateRecord \<Rightarrow> ('x world_scheme, unit res) state" where
  "Certificates_Create b = (case b of Sqlite \<Rightarrow> sqlite_Certificates_Create | Postgres enc \<Rightarrow> pg_Certificates_Create enc)"

definition Certificates_GetBySerial ::
    "backend \<Rightarrow> string \<Rightarrow> ('x world_scheme, CertificateRecord res) state" where
  "Certificates_GetBySerial b = (case b of Sqlite \<Rightarrow> sqlite_Certificates_GetBySerial | Postgres enc \<Rightarrow> pg_Certificates_GetBySerial)"

definition Certificates_FindByKind ::
    "backend \<Rightarrow> CertKind \<Rightarrow> ('x world_scheme, CertificateRecord list res) state" where
  "Certificates_FindByKind b = (case b of Sqlite \<Rightarrow> sqlite_Certificates_FindByKind | Postgres enc \<Rightarrow> pg_Certificates_FindByKind)"

definition Certificates_GetLatestByProfile ::
    "backend \<Rightarrow> string \<Rightarrow> ('x world_scheme, CertificateRecord res) state" where
  "Certificates_GetLatestByProfile b = (case b of Sqlite \<Rightarrow> sqlite_Certificates_GetLatestByProfile | Postgres enc \<Rightarrow> pg_Certificates_GetLatestByProfile)"

definition Certificates_Revoke ::
    "backend \<Rightarrow> string \<Rightarrow> string \<Rightarrow> time \<Rightarrow> ('x world_scheme, unit res) state" where
  "Certificates_Revoke b = (case b of Sqlite \<Rightarrow> sqlite_Certificates_Revoke | Postgres enc \<Rightarrow> pg_Certificates_Revoke enc)"

definition Certificates_FindRevoked ::
    "backend \<Rightarrow> ('x world_scheme, CertificateRecord list res) state" where
  "Certificates_FindRevoked b = (case b of Sqlite \<Rightarrow> sqlite_Certificates_FindRevoked | Postgres enc \<Rightarrow> pg_Certificates_FindRevoked)"

definition ClientRoles_Assign ::
    "backend \<Rightarrow> ClientRoleRecord \<Rightarrow> ('x world_scheme, unit res) state" where
  "ClientRoles_Assign b = (case b of Sqlite \<Rightarrow> sqlite_ClientRoles_Assign | Postgres enc \<Rightarrow> pg_ClientRoles_Assign enc)"

definition ClientRoles_Get ::
    "backend \<Rightarrow> string \<Rightarrow> ('x world_scheme, ClientRoleRecord res) state" where
  "ClientRoles_Get b = (case b of Sqlite \<Rightarrow> sqlite_ClientRoles_Get | Postgres enc \<Rightarrow> pg_ClientRoles_Get)"

definition ClientRoles_List ::
    "backend \<Rightarrow> ('x world_scheme, ClientRoleRecord list res) state" where
  "ClientRoles_List b = (case b of Sqlite \<Rightarrow> sqlite_ClientRoles_List | Postgres enc \<Rightarrow> pg_ClientRoles_List)"

definition Profiles_Upsert ::
    "backend \<Rightarrow> ProfileRecord \<Rightarrow> ('x world_scheme, unit res) state" where
  "Profiles_Upsert b = (case b of Sqlite \<Rightarrow> sqlite_Profiles_Upsert | Postgres enc \<Rightarrow> pg_Profiles_Upsert enc)"

definition Profiles_Get ::
    "backend \<Rightarrow> string \<Rightarrow> ('x world_scheme, ProfileRecord res) state" where
  "Profiles_Get b = (case b of Sqlite \<Rightarrow> sqlite_Profiles_Get | Postgres enc \<Rightarrow> pg_Profiles_Get)"

definition Profiles_List ::
    "(string \<Rightarrow> 'k::linorder) \<Rightarrow> backend \<Rightarrow> ('x world_scheme, ProfileRecord list res) state" where
  "Profiles_List collate b = (case b of Sqlite \<Rightarrow> sqlite_Profiles_List | Postgres enc \<Rightarrow> pg_Profiles_List collate)"

definition Audit_Append ::
    "backend \<Rightarrow> AuditEntry \<Rightarrow> ('x world_scheme, unit res) state" where
  "Audit_Append b = (case b of Sqlite \<Rightarrow> sqlite_Audit_Append | Postgres enc \<Rightarrow> pg_Audit_Append enc)"

definition Audit_List ::
    "backend \<Rightarrow> int \<Rightarrow> ('x world_scheme, AuditEntry list res) state" where
  "Audit_List b = (case b of Sqlite \<Rightarrow> sqlite_Audit_List | Postgres enc \<Rightarrow> pg_Audit_List)"

definition ACMEEABTokens_Create ::
    "backend \<Rightarrow> ACMEEABTokenRecord \<Rightarrow> ('x world_scheme, unit res) state" where
  "ACMEEABTokens_Create b = (case b of Sqlite \<Rightarrow> sqlite_ACMEEABTokens_Create | Postgres enc \<Rightarrow> pg_ACMEEABTokens_Create enc)"

definition ACMEEABTokens_Get ::
    "backend \<Rightarrow> string \<Rightarrow> ('x world_scheme, ACMEEABTokenRecord res) state" where
  "ACMEEABTokens_Get b = (case b of Sqlite \<Rightarrow> sqlite_ACMEEABTokens_Get | Postgres enc \<Rightarrow> pg_ACMEEABTokens_Get)"

definition ACMEEABTokens_MarkConsumed ::
    "backend \<Rightarrow> string \<Rightarrow> time \<Rightarrow> ('x world_scheme, unit res) state" where
  "ACMEEABTokens_MarkConsumed b = (case b of Sqlite \<Rightarrow> sqlite_ACMEEABTokens_MarkConsumed | Postgres enc \<Rightarrow> pg_ACMEEABTokens_MarkConsumed enc)"

definition ACMEAccounts_Create ::
    "backend \<Rightarrow> ACMEAccountRecord \<Rightarrow> ('x world_scheme, unit res) state" where
  "ACMEAccounts_Create b = (case b of Sqlite \<Rightarrow> sqlite_ACMEAccounts_Create | Postgres enc \<Rightarrow> pg_ACMEAccounts_Create enc)"

definition ACMEAccounts_GetByThumbprint ::
    "backend \<Rightarrow> string \<Rightarrow> ('x world_scheme, ACMEAccountRecord res) state" where
  "ACMEAccounts_GetByThumbprint b = (case b of Sqlite \<Rightarrow> sqlite_ACMEAccounts_GetByThumbprint | Postgres enc \<Rightarrow> pg_ACMEAccounts_GetByThumbprint)"

definition ACMEAccounts_GetByID ::
    "backend \<Rightarrow> string \<Rightarrow> ('x world_scheme, ACMEAccountRecord res) state" where
  "ACMEAccounts_GetByID b = (case b of Sqlite \<Rightarrow> sqlite_ACMEAccounts_GetByID | Postgres enc \<Rightarrow> pg_ACMEAccounts_GetByID)"

definition ACMEOrders_Create ::
    "backend \<Rightarrow> ACMEOrderRecord \<Rightarrow> ('x world_scheme, unit res) state" where
  "ACMEOrders_Create b = (case b of Sqlite \<Rightarrow> sqlite_ACMEOrders_Create | Postgres enc \<Rightarrow> pg_ACMEOrders_Create enc)"

definition ACMEOrders_Get ::
    "backend \<Rightarrow> string \<Rightarrow> ('x world_scheme, ACMEOrderRecord res) state" where
  "ACMEOrders_Get b = (case b of Sqlite \<Rightarrow> sqlite_ACMEOrders_Get | Postgres enc \<Rightarrow> pg_ACMEOrders_Get)"

definition ACMEOrders_UpdateStatus ::
    "backend \<Rightarrow> string \<Rightarrow> ACMEOrderStatus \<Rightarrow> ACMEOrderStatus \<Rightarrow> string \<Rightarrow> ('x world_scheme, bool res) state" where
  "ACMEOrders_UpdateStatus b = (case b of Sqlite \<Rightarrow> sqlite_ACMEOrders_UpdateStatus | Postgres enc \<Rightarrow> pg_ACMEOrders_UpdateStatus)"

definition ACMENonces_Issue ::
    "backend \<Rightarrow> time \<Rightarrow> ('x world_scheme, string res) state" where
  "ACMENonces_Issue b = (case b of Sqlite \<Rightarrow> sqlite_ACMENonces_Issue | Postgres enc \<Rightarrow> pg_ACMENonces_Issue enc)"

definition ACMENonces_ConsumeIfValid ::
    "backend \<Rightarrow> string \<Rightarrow> time \<Rightarrow> ('x world_scheme, bool res) state" where
  "ACMENonces_ConsumeIfValid b = (case b of Sqlite \<Rightarrow> sqlite_ACMENonces_ConsumeIfValid | Postgres enc \<Rightarrow> pg_ACMENonces_ConsumeIfValid enc)"

lemmas method_defs =
  Certificates_Create_def
  Certificates_GetBySerial_def
  Certificates_FindByKind_def
  Certificates_GetLatestByProfile_def
  Certificates_Revoke_def
  Certificates_FindRevoked_def
  ClientRoles_Assign_def
  ClientRoles_Get_def
  ClientRoles_List_def
  Profiles_Upsert_def
  Profiles_Get_def
  Profiles_List_def
  Audit_Append_def
  Audit_List_def
  ACMEEABTokens_Create_def
  ACMEEABTokens_Get_def
  ACMEEABTokens_MarkConsumed_def
  ACMEAccounts_Create_def
  ACMEAccounts_GetByThumbprint_def
  ACMEAccounts_GetByID_def
  ACMEOrders_Create_def
  ACMEOrders_Get_def
  ACMEOrders_UpdateStatus_def
  ACMENonces_Issue_def
  ACMENonces_ConsumeIfValid_def

lemmas method_bodies = method_defs sqlite_defs pg_defs

section \<open>Every method moves the ledger forward\<close>

lemma keeps_Certificates_Create [keeps]: "state_io_rel ledger_le (Certificates_Create b r)"
  by (cases b) (auto simp: Certificates_Create_def sqlite_Certificates_Create_def pg_Certificates_Create_def intro!: keeps)

lemma keeps_Certificates_GetBySerial [keeps]: "state_io_rel ledger_le (Certificates_GetBySerial b serial)"
  by (cases b) (auto simp: Certificates_GetBySerial_def sqlite_Certificates_GetBySerial_def pg_Certificates_GetBySerial_def intro!: keeps)

lemma keeps_Certificates_FindByKind [keeps]: "state_io_rel ledger_le (Certificates_FindByKind b k)"
  by (cases b) (auto simp: Certificates_FindByKind_def sqlite_Certificates_FindByKind_def pg_Certificates_FindByKind_def intro!: keeps)

lemma keeps_Certificates_GetLatestByProfile [keeps]: "state_io_rel ledger_le (Certificates_GetLatestByProfile b p)"
  by (cases b) (auto simp: Certificates_GetLatestByProfile_def sqlite_Certificates_GetLatestByProfile_def pg_Certificates_GetLatestByProfile_def intro!: keeps)

lemma keeps_Certificates_Revoke [keeps]: "state_io_rel ledger_le (Certificates_Revoke b serial reason at)"
  by (cases b) (auto simp: Certificates_Revoke_def sqlite_Certificates_Revoke_def pg_Certificates_Revoke_def sqlite_Certificates_GetBySerial_def pg_Certificates_GetBySerial_def intro!: keeps)

lemma keeps_Certificates_FindRevoked [keeps]: "state_io_rel ledger_le (Certificates_FindRevoked b)"
  by (cases b) (auto simp: Certificates_FindRevoked_def sqlite_Certificates_FindRevoked_def pg_Certificates_FindRevoked_def intro!: keeps)

lemma keeps_ClientRoles_Assign [keeps]: "state_io_rel ledger_le (ClientRoles_Assign b r)"
  by (cases b) (auto simp: ClientRoles_Assign_def sqlite_ClientRoles_Assign_def pg_ClientRoles_Assign_def intro!: keeps)

lemma keeps_ClientRoles_Get [keeps]: "state_io_rel ledger_le (ClientRoles_Get b s)"
  by (cases b) (auto simp: ClientRoles_Get_def sqlite_ClientRoles_Get_def pg_ClientRoles_Get_def intro!: keeps)

lemma keeps_ClientRoles_List [keeps]: "state_io_rel ledger_le (ClientRoles_List b)"
  by (cases b) (auto simp: ClientRoles_List_def sqlite_ClientRoles_List_def pg_ClientRoles_List_def intro!: keeps)

lemma keeps_Profiles_Upsert [keeps]: "state_io_rel ledger_le (Profiles_Upsert b r)"
  by (cases b) (auto simp: Profiles_Upsert_def sqlite_Profiles_Upsert_def pg_Profiles_Upsert_def intro!: keeps)

lemma keeps_Profiles_Get [keeps]: "state_io_rel ledger_le (Profiles_Get b nm)"
  by (cases b) (auto simp: Profiles_Get_def sqlite_Profiles_Get_def pg_Profiles_Get_def intro!: keeps)

lemma keeps_Profiles_List [keeps]: "state_io_rel ledger_le (Profiles_List collate b)"
  by (cases b) (auto simp: Profiles_List_def sqlite_Profiles_List_def pg_Profiles_List_def intro!: keeps)

lemma keeps_Audit_Append [keeps]: "state_io_rel ledger_le (Audit_Append b e)"
  by (cases b) (auto simp: Audit_Append_def sqlite_Audit_Append_def pg_Audit_Append_def intro!: keeps)

lemma keeps_Audit_List [keeps]: "state_io_rel ledger_le (Audit_List b k)"
  by (cases b) (auto simp: Audit_List_def sqlite_Audit_List_def pg_Audit_List_def intro!: keeps)

lemma keeps_ACMEEABTokens_Create [keeps]: "state_io_rel ledger_le (ACMEEABTokens_Create b r)"
  by (cases b) (auto simp: ACMEEABTokens_Create_def sqlite_ACMEEABTokens_Create_def pg_ACMEEABTokens_Create_def intro!: keeps)

lemma keeps_ACMEEABTokens_Get [keeps]: "state_io_rel ledger_le (ACMEEABTokens_Get b k)"
  by (cases b) (auto simp: ACMEEABTokens_Get_def sqlite_ACMEEABTokens_Get_def pg_ACMEEABTokens_Get_def intro!: keeps)

lemma keeps_ACMEEABTokens_MarkConsumed [keeps]: "state_io_rel ledger_le (ACMEEABTokens_MarkConsumed b k t)"
  by (cases b) (auto simp: ACMEEABTokens_MarkConsumed_def sqlite_ACMEEABTokens_MarkConsumed_def pg_ACMEEABTokens_MarkConsumed_def intro!: keeps)

lemma keeps_ACMEAccounts_Create [keeps]: "state_io_rel ledger_le (ACMEAccounts_Create b r)"
  by (cases b) (auto simp: ACMEAccounts_Create_def sqlite_ACMEAccounts_Create_def pg_ACMEAccounts_Create_def intro!: keeps)

lemma keeps_ACMEAccounts_GetByThumbprint [keeps]: "state_io_rel ledger_le (ACMEAccounts_GetByThumbprint b x)"
  by (cases b) (auto simp: ACMEAccounts_GetByThumbprint_def sqlite_ACMEAccounts_GetByThumbprint_def pg_ACMEAccounts_GetByThumbprint_def intro!: keeps)

lemma keeps_ACMEAccounts_GetByID [keeps]: "state_io_rel ledger_le (ACMEAccounts_GetByID b x)"
  by (cases b) (auto simp: ACMEAccounts_GetByID_def sqlite_ACMEAccounts_GetByID_def pg_ACMEAccounts_GetByID_def intro!: keeps)

lemma keeps_ACMEOrders_Create [keeps]: "state_io_rel ledger_le (ACMEOrders_Create b r)"
  by (cases b) (auto simp: ACMEOrders_Create_def sqlite_ACMEOrders_Create_def pg_ACMEOrders_Create_def intro!: keeps)

lemma keeps_ACMEOrders_Get [keeps]: "state_io_rel ledger_le (ACMEOrders_Get b x)"
  by (cases b) (auto simp: ACMEOrders_Get_def sqlite_ACMEOrders_Get_def pg_ACMEOrders_Get_def intro!: keeps)

lemma keeps_ACMEOrders_UpdateStatus [keeps]: "progress from to \<Longrightarrow> state_io_rel ledger_le (ACMEOrders_UpdateStatus b x from to serial)"
  by (cases b) (auto simp: ACMEOrders_UpdateStatus_def sqlite_ACMEOrders_UpdateStatus_def pg_ACMEOrders_UpdateStatus_def intro!: keeps)

lemma keeps_ACMENonces_Issue [keeps]: "state_io_rel ledger_le (ACMENonces_Issue b t)"
  by (cases b) (auto simp: ACMENonces_Issue_def sqlite_ACMENonces_Issue_def pg_ACMENonces_Issue_def intro!: keeps)

lemma keeps_ACMENonces_ConsumeIfValid [keeps]: "state_io_rel ledger_le (ACMENonces_ConsumeIfValid b x t)"
  by (cases b) (auto simp: ACMENonces_ConsumeIfValid_def sqlite_ACMENonces_ConsumeIfValid_def pg_ACMENonces_ConsumeIfValid_def intro!: keeps)


section \<open>What each method ensures\<close>

text \<open>
  One rule per method, for both backends and every outcome. A method that fails may have taken
  effect (a lost acknowledgement); a read never changes a table.
\<close>

lemma select_faults [simp]:
  "select_certificate x (w\<lparr>faults := f\<rparr>) = select_certificate x w"
  "select_by_kind x (w\<lparr>faults := f\<rparr>) = select_by_kind x w"
  "select_latest_by_profile x (w\<lparr>faults := f\<rparr>) = select_latest_by_profile x w"
  "select_revoked (w\<lparr>faults := f\<rparr>) = select_revoked w"
  "select_client_role x (w\<lparr>faults := f\<rparr>) = select_client_role x w"
  "select_client_roles (w\<lparr>faults := f\<rparr>) = select_client_roles w"
  "select_profile x (w\<lparr>faults := f\<rparr>) = select_profile x w"
  "select_audit k (w\<lparr>faults := f\<rparr>) = select_audit k w"
  "select_eab_token x (w\<lparr>faults := f\<rparr>) = select_eab_token x w"
  "select_account_by_thumbprint x (w\<lparr>faults := f\<rparr>) = select_account_by_thumbprint x w"
  "select_account_by_id x (w\<lparr>faults := f\<rparr>) = select_account_by_id x w"
  "select_order x (w\<lparr>faults := f\<rparr>) = select_order x w"
  by (simp_all add: query_defs)

lemma wp_scan_row:
  assumes "\<And>f r. q w = Some r \<Longrightarrow> Q (Inr r) (w\<lparr>faults := f\<rparr>)"
    and "\<And>f. q w = None \<Longrightarrow> Q (Inl ErrNotFound) (w\<lparr>faults := f\<rparr>)"
    and "\<And>f e. Q (Inl (ErrWrapped e)) (w\<lparr>faults := f\<rparr>)"
    and "\<And>f. q (w\<lparr>faults := f\<rparr>) = q w"
  shows "wp (QueryContext q) (\<lambda>a. Q (scan_row a)) w"
  using assms by (intro wps) (auto simp: scan_row_def split: option.splits)

lemma wp_scan_rows:
  assumes "\<And>f. Q (Inr (q w)) (w\<lparr>faults := f\<rparr>)"
    and "\<And>f e. Q (Inl (ErrWrapped e)) (w\<lparr>faults := f\<rparr>)"
    and "\<And>f. q (w\<lparr>faults := f\<rparr>) = q w"
  shows "wp (QueryContext q) (\<lambda>a. Q (scan_rows a)) w"
  using assms by (intro wps) (auto simp: scan_rows_def)

lemma wp_Certificates_GetBySerial [wps]:
  assumes "\<And>f r. select_certificate serial w = Some r \<Longrightarrow> Q (Inr r) (w\<lparr>faults := f\<rparr>)"
    and "\<And>f. select_certificate serial w = None \<Longrightarrow> Q (Inl ErrNotFound) (w\<lparr>faults := f\<rparr>)"
    and "\<And>f e. Q (Inl (ErrWrapped e)) (w\<lparr>faults := f\<rparr>)"
  shows "wp (Certificates_GetBySerial b serial) Q w"
  using assms by (cases b) (simp_all add: method_bodies wp_scan_row)

lemma wp_Certificates_FindByKind [wps]:
  assumes "\<And>f. Q (Inr (select_by_kind kind w)) (w\<lparr>faults := f\<rparr>)"
    and "\<And>f e. Q (Inl (ErrWrapped e)) (w\<lparr>faults := f\<rparr>)"
  shows "wp (Certificates_FindByKind b kind) Q w"
  using assms by (cases b) (simp_all add: method_bodies wp_scan_rows)

lemma wp_Certificates_GetLatestByProfile [wps]:
  assumes "\<And>f r. select_latest_by_profile p w = Some r \<Longrightarrow> Q (Inr r) (w\<lparr>faults := f\<rparr>)"
    and "\<And>f. select_latest_by_profile p w = None \<Longrightarrow> Q (Inl ErrNotFound) (w\<lparr>faults := f\<rparr>)"
    and "\<And>f e. Q (Inl (ErrWrapped e)) (w\<lparr>faults := f\<rparr>)"
  shows "wp (Certificates_GetLatestByProfile b p) Q w"
  using assms by (cases b) (simp_all add: method_bodies wp_scan_row)

lemma wp_Certificates_FindRevoked [wps]:
  assumes "\<And>f. Q (Inr (select_revoked w)) (w\<lparr>faults := f\<rparr>)"
    and "\<And>f e. Q (Inl (ErrWrapped e)) (w\<lparr>faults := f\<rparr>)"
  shows "wp (Certificates_FindRevoked b) Q w"
  using assms by (cases b) (simp_all add: method_bodies wp_scan_rows)

lemma wp_ClientRoles_Get [wps]:
  assumes "\<And>f r. select_client_role serial w = Some r \<Longrightarrow> Q (Inr r) (w\<lparr>faults := f\<rparr>)"
    and "\<And>f. select_client_role serial w = None \<Longrightarrow> Q (Inl ErrNotFound) (w\<lparr>faults := f\<rparr>)"
    and "\<And>f e. Q (Inl (ErrWrapped e)) (w\<lparr>faults := f\<rparr>)"
  shows "wp (ClientRoles_Get b serial) Q w"
  using assms by (cases b) (simp_all add: method_bodies wp_scan_row)

lemma wp_ClientRoles_List [wps]:
  assumes "\<And>f. Q (Inr (select_client_roles w)) (w\<lparr>faults := f\<rparr>)"
    and "\<And>f e. Q (Inl (ErrWrapped e)) (w\<lparr>faults := f\<rparr>)"
  shows "wp (ClientRoles_List b) Q w"
  using assms by (cases b) (simp_all add: method_bodies wp_scan_rows)

lemma wp_Profiles_Get [wps]:
  assumes "\<And>f r. select_profile name w = Some r \<Longrightarrow> Q (Inr r) (w\<lparr>faults := f\<rparr>)"
    and "\<And>f. select_profile name w = None \<Longrightarrow> Q (Inl ErrNotFound) (w\<lparr>faults := f\<rparr>)"
    and "\<And>f e. Q (Inl (ErrWrapped e)) (w\<lparr>faults := f\<rparr>)"
  shows "wp (Profiles_Get b name) Q w"
  using assms by (cases b) (simp_all add: method_bodies wp_scan_row)

lemma wp_ACMEEABTokens_Get [wps]:
  assumes "\<And>f r. select_eab_token k w = Some r \<Longrightarrow> Q (Inr r) (w\<lparr>faults := f\<rparr>)"
    and "\<And>f. select_eab_token k w = None \<Longrightarrow> Q (Inl ErrNotFound) (w\<lparr>faults := f\<rparr>)"
    and "\<And>f e. Q (Inl (ErrWrapped e)) (w\<lparr>faults := f\<rparr>)"
  shows "wp (ACMEEABTokens_Get b k) Q w"
  using assms by (cases b) (simp_all add: method_bodies wp_scan_row)

lemma wp_ACMEAccounts_GetByThumbprint [wps]:
  assumes "\<And>f r. select_account_by_thumbprint t w = Some r \<Longrightarrow> Q (Inr r) (w\<lparr>faults := f\<rparr>)"
    and "\<And>f. select_account_by_thumbprint t w = None \<Longrightarrow> Q (Inl ErrNotFound) (w\<lparr>faults := f\<rparr>)"
    and "\<And>f e. Q (Inl (ErrWrapped e)) (w\<lparr>faults := f\<rparr>)"
  shows "wp (ACMEAccounts_GetByThumbprint b t) Q w"
  using assms by (cases b) (simp_all add: method_bodies wp_scan_row)

lemma wp_ACMEAccounts_GetByID [wps]:
  assumes "\<And>f r. select_account_by_id i w = Some r \<Longrightarrow> Q (Inr r) (w\<lparr>faults := f\<rparr>)"
    and "\<And>f. select_account_by_id i w = None \<Longrightarrow> Q (Inl ErrNotFound) (w\<lparr>faults := f\<rparr>)"
    and "\<And>f e. Q (Inl (ErrWrapped e)) (w\<lparr>faults := f\<rparr>)"
  shows "wp (ACMEAccounts_GetByID b i) Q w"
  using assms by (cases b) (simp_all add: method_bodies wp_scan_row)

lemma wp_ACMEOrders_Get [wps]:
  assumes "\<And>f r. select_order i w = Some r \<Longrightarrow> Q (Inr r) (w\<lparr>faults := f\<rparr>)"
    and "\<And>f. select_order i w = None \<Longrightarrow> Q (Inl ErrNotFound) (w\<lparr>faults := f\<rparr>)"
    and "\<And>f e. Q (Inl (ErrWrapped e)) (w\<lparr>faults := f\<rparr>)"
  shows "wp (ACMEOrders_Get b i) Q w"
  using assms by (cases b) (simp_all add: method_bodies wp_scan_row)


subsection \<open>Writes\<close>

definition cert_row :: "backend \<Rightarrow> CertificateRecord \<Rightarrow> CertificateRecord" where
  "cert_row b r = r\<lparr>NotBefore := enc_of b (NotBefore r), NotAfter := enc_of b (NotAfter r),
     CreatedAt := enc_of b (CreatedAt r), RevokedAt := None, RevocationReason := []\<rparr>"

definition revoke_rows :: "string \<Rightarrow> string \<Rightarrow> time \<Rightarrow> CertificateRecord list \<Rightarrow> CertificateRecord list" where
  "revoke_rows serial reason at =
     update_where (\<lambda>r. Serial r = serial \<and> RevokedAt r = None)
       (\<lambda>r. r\<lparr>RevokedAt := Some at, RevocationReason := reason\<rparr>)"

definition unrevoked :: "string \<Rightarrow> CertificateRecord list \<Rightarrow> bool" where
  "unrevoked serial rows \<longleftrightarrow> (\<exists>r\<in>set rows. Serial r = serial \<and> RevokedAt r = None)"

definition assign_rows :: "ClientRoleRecord \<Rightarrow> ClientRoleRecord list \<Rightarrow> ClientRoleRecord list" where
  "assign_rows r rows =
     (if has_key role_CertSerial (role_CertSerial r) rows
      then update_where (\<lambda>x. role_CertSerial x = role_CertSerial r) (\<lambda>x. x\<lparr>role_Role := role_Role r\<rparr>) rows
      else rows @ [r])"

lemma wp_exec_done_stmt:
  assumes "\<And>f. stmt (w\<lparr>faults := f\<rparr>) = Inr (k, g f) \<or> (\<exists>e. stmt (w\<lparr>faults := f\<rparr>) = Inl e)"
    and "\<And>f n w'. stmt (w\<lparr>faults := f\<rparr>) = Inr (n, w') \<Longrightarrow> Q (Inr ()) (g f)"
    and "\<And>f e n w'. stmt (w\<lparr>faults := f\<rparr>) = Inr (n, w') \<Longrightarrow> Q (Inl (ErrWrapped e)) (g f)"
    and "\<And>f e. Q (Inl (ErrWrapped e)) (w\<lparr>faults := f\<rparr>)"
  shows "wp (ExecContext stmt) (\<lambda>a. Q (exec_done a)) w"
proof -
  have "w' = g f" if "stmt (w\<lparr>faults := f\<rparr>) = Inr (n, w')" for f n w'
    using assms(1) [of f] that by auto
  with assms(2-4) show ?thesis
    by (intro wp_ExecContext) (auto simp: exec_done_def)
qed

lemma wp_Certificates_Create [wps]:
  assumes "\<And>f. Serial rec \<notin> Serial ` set (certificates w) \<Longrightarrow>
      Q (Inr ()) (w\<lparr>faults := f, certificates := certificates w @ [cert_row b rec]\<rparr>)"
    and "\<And>f e. Serial rec \<notin> Serial ` set (certificates w) \<Longrightarrow>
      Q (Inl (ErrWrapped e)) (w\<lparr>faults := f, certificates := certificates w @ [cert_row b rec]\<rparr>)"
    and "\<And>f e. Q (Inl (ErrWrapped e)) (w\<lparr>faults := f\<rparr>)"
  shows "wp (Certificates_Create b rec) Q w"
proof -
  have *: "wp (ExecContext (insert_certificate (rec\<lparr>NotBefore := enc_of b (NotBefore rec),
      NotAfter := enc_of b (NotAfter rec), CreatedAt := enc_of b (CreatedAt rec)\<rparr>)))
      (\<lambda>a. Q (exec_done a)) w"
    using assms
    by (intro wp_exec_done_stmt [where k = 1 and g = "\<lambda>f. w\<lparr>faults := f, certificates := certificates w @ [cert_row b rec]\<rparr>"])
      (auto simp: insert_certificate_def has_key_iff cert_row_def split: if_splits)
  then show ?thesis
    by (cases b) (simp_all add: method_bodies enc_of_def)
qed

lemma wp_ClientRoles_Assign [wps]:
  assumes "\<And>f. role_Role rec \<in> roles_allowed \<Longrightarrow> Q (Inr ()) (w\<lparr>faults := f, client_roles :=
        assign_rows (rec\<lparr>role_CreatedAt := enc_of b (role_CreatedAt rec)\<rparr>) (client_roles w)\<rparr>)"
    and "\<And>f e. role_Role rec \<in> roles_allowed \<Longrightarrow> Q (Inl (ErrWrapped e)) (w\<lparr>faults := f, client_roles :=
        assign_rows (rec\<lparr>role_CreatedAt := enc_of b (role_CreatedAt rec)\<rparr>) (client_roles w)\<rparr>)"
    and "\<And>f e. Q (Inl (ErrWrapped e)) (w\<lparr>faults := f\<rparr>)"
  shows "wp (ClientRoles_Assign b rec) Q w"
proof -
  let ?r = "rec\<lparr>role_CreatedAt := enc_of b (role_CreatedAt rec)\<rparr>"
  have "wp (ExecContext (upsert_client_role ?r)) (\<lambda>a. Q (exec_done a)) w"
    using assms
    by (intro wp_exec_done_stmt [where k = 1 and g = "\<lambda>f. w\<lparr>faults := f, client_roles := assign_rows ?r (client_roles w)\<rparr>"])
      (auto simp: upsert_client_role_def assign_rows_def split: if_splits)
  then show ?thesis
    by (cases b) (simp_all add: method_bodies enc_of_def)
qed

lemma wp_Audit_Append [wps]:
  assumes "\<And>f e'. e' = entry\<lparr>audit_Timestamp := enc_of b (audit_Timestamp entry),
        audit_ID := int (length (audit_log w)) + 1\<rparr> \<Longrightarrow>
      Q (Inr ()) (w\<lparr>faults := f, audit_log := audit_log w @ [e']\<rparr>)"
    and "\<And>f e e'. e' = entry\<lparr>audit_Timestamp := enc_of b (audit_Timestamp entry),
        audit_ID := int (length (audit_log w)) + 1\<rparr> \<Longrightarrow>
      Q (Inl (ErrWrapped e)) (w\<lparr>faults := f, audit_log := audit_log w @ [e']\<rparr>)"
    and "\<And>f e. Q (Inl (ErrWrapped e)) (w\<lparr>faults := f\<rparr>)"
  shows "wp (Audit_Append b entry) Q w"
proof -
  let ?e = "entry\<lparr>audit_Timestamp := enc_of b (audit_Timestamp entry)\<rparr>"
  have "wp (ExecContext (insert_audit ?e)) (\<lambda>a. Q (exec_done a)) w"
    using assms
    by (intro wp_exec_done_stmt [where k = 1 and g = "\<lambda>f. w\<lparr>faults := f, audit_log := audit_log w @
        [?e\<lparr>audit_ID := int (length (audit_log w)) + 1\<rparr>]\<rparr>"])
      (auto simp: insert_audit_def)
  then show ?thesis
    by (cases b) (simp_all add: method_bodies enc_of_def)
qed

lemma count_where_zero: "count_where P rows = 0 \<longleftrightarrow> (\<forall>r\<in>set rows. \<not> P r)"
  by (simp add: count_where_def filter_empty_conv)

lemma update_where_none: "\<forall>r\<in>set rows. \<not> P r \<Longrightarrow> update_where P f rows = rows"
  by (simp add: update_where_def map_idI)

lemma wp_update_revoked:
  assumes "\<And>f n. unrevoked serial (certificates w) \<Longrightarrow> 0 < n \<Longrightarrow>
      Q (Inr n) (w\<lparr>faults := f, certificates := revoke_rows serial reason at (certificates w)\<rparr>)"
    and "\<And>f. \<not> unrevoked serial (certificates w) \<Longrightarrow> Q (Inr 0) (w\<lparr>faults := f\<rparr>)"
    and "\<And>f. unrevoked serial (certificates w) \<Longrightarrow> Q (Inl DriverFailure)
      (w\<lparr>faults := f, certificates := revoke_rows serial reason at (certificates w)\<rparr>)"
    and "\<And>f. Q (Inl DriverFailure) (w\<lparr>faults := f\<rparr>)"
  shows "wp (ExecContext (update_revoked serial reason at)) Q w"
proof (cases "unrevoked serial (certificates w)")
  case True
  then have "0 < count_where (\<lambda>r. Serial r = serial \<and> RevokedAt r = None) (certificates w)"
    by (auto simp: unrevoked_def count_where_def filter_empty_conv)
  with True assms show ?thesis
    by (intro wp_ExecContext) (auto simp: update_revoked_def revoke_rows_def Let_def)
next
  case False
  then have "\<forall>r\<in>set (certificates w). \<not> (Serial r = serial \<and> RevokedAt r = None)"
    by (auto simp: unrevoked_def)
  with False assms(2,4) show ?thesis
    by (intro wp_ExecContext)
      (auto simp: update_revoked_def Let_def update_where_none count_where_zero [THEN iffD2])
qed

lemma not_unrevoked:
  "\<not> unrevoked serial (certificates w) \<Longrightarrow> select_certificate serial w = Some r \<Longrightarrow>
    \<exists>t. RevokedAt r = Some t"
  by (auto simp: select_certificate_def unrevoked_def dest: find_Some_in)

lemma unrevokedI:
  "select_certificate serial w = Some r \<Longrightarrow> RevokedAt r = None \<Longrightarrow> unrevoked serial (certificates w)"
  by (auto simp: select_certificate_def unrevoked_def dest: find_Some_in)

lemma wp_Certificates_Revoke [wps]:
  assumes ok: "\<And>f. unrevoked serial (certificates w) \<Longrightarrow> Q (Inr ())
      (w\<lparr>faults := f, certificates := revoke_rows serial reason (enc_of b at) (certificates w)\<rparr>)"
    and missing: "\<And>f. select_certificate serial w = None \<Longrightarrow> Q (Inl ErrNotFound) (w\<lparr>faults := f\<rparr>)"
    and already: "\<And>f r. select_certificate serial w = Some r \<Longrightarrow> RevokedAt r \<noteq> None \<Longrightarrow>
      Q (Inl ErrAlreadyRevoked) (w\<lparr>faults := f\<rparr>)"
    and failed: "\<And>f e. Q (Inl (ErrWrapped e)) (w\<lparr>faults := f\<rparr>)"
    and lost: "\<And>f e. unrevoked serial (certificates w) \<Longrightarrow> Q (Inl (ErrWrapped e))
      (w\<lparr>faults := f, certificates := revoke_rows serial reason (enc_of b at) (certificates w)\<rparr>)"
  shows "wp (Certificates_Revoke b serial reason at) Q w"
proof (cases b)
  case Sqlite
  have "wp (sqlite_Certificates_GetBySerial serial)
      (\<lambda>r. wp (case r of Inl e \<Rightarrow> ret (Inl e) | Inr rec \<Rightarrow>
          (if RevokedAt rec \<noteq> None then ret (Inl ErrAlreadyRevoked)
           else do {
             res \<leftarrow> ExecContext (update_revoked serial reason (rfc3339 at));
             (case res of
                Inl e \<Rightarrow> ret (Inl (ErrWrapped e))
              | Inr n \<Rightarrow> (if n = 0 then ret (Inl ErrAlreadyRevoked) else ret (Inr ())))
           })) Q) w"
    using assms unfolding Sqlite
    by (auto simp: sqlite_Certificates_GetBySerial_def enc_of_def
        intro!: wp_scan_row wp_update_revoked simp: not_unrevoked unrevokedI)
  then show ?thesis
    by (simp add: Sqlite Certificates_Revoke_def sqlite_Certificates_Revoke_def)
next
  case (Postgres enc)
  have "wp (ExecContext (update_revoked serial reason (enc at)))
      (\<lambda>r. wp (case r of Inl e \<Rightarrow> ret (Inl (ErrWrapped e)) | Inr n \<Rightarrow>
          (if n = 0 then do {
             r \<leftarrow> pg_Certificates_GetBySerial serial;
             (case r of Inl e \<Rightarrow> ret (Inl e) | Inr _ \<Rightarrow> ret (Inl ErrAlreadyRevoked))
           }
           else ret (Inr ()))) Q) w"
    using assms unfolding Postgres
    by (auto simp: pg_Certificates_GetBySerial_def enc_of_def
        intro!: wp_scan_row wp_update_revoked simp: not_unrevoked)
  then show ?thesis
    by (simp add: Postgres Certificates_Revoke_def pg_Certificates_Revoke_def)
qed

lemma wp_Audit_List [wps]:
  assumes "\<And>f es. Q (Inr es) (w\<lparr>faults := f\<rparr>)"
    and "\<And>f e. Q (Inl (ErrWrapped e)) (w\<lparr>faults := f\<rparr>)"
  shows "wp (Audit_List b limit) Q w"
  using assms by (cases b) (auto simp: method_bodies scan_rows_def intro!: wp_QueryContext)

lemma wp_Profiles_Upsert [wps]:
  assumes "\<And>f ps. Q (Inr ()) (w\<lparr>faults := f, profiles := ps\<rparr>)"
    and "\<And>f e ps. Q (Inl (ErrWrapped e)) (w\<lparr>faults := f, profiles := ps\<rparr>)"
    and "\<And>f e. Q (Inl (ErrWrapped e)) (w\<lparr>faults := f\<rparr>)"
  shows "wp (Profiles_Upsert b rec) Q w"
  using assms
  by (cases b) (auto simp: method_bodies upsert_profile_def Let_def exec_done_def
      intro!: wp_ExecContext split: if_splits)

definition eab_row :: "backend \<Rightarrow> ACMEEABTokenRecord \<Rightarrow> ACMEEABTokenRecord" where
  "eab_row b r = r\<lparr>eab_CreatedAt := enc_of b (eab_CreatedAt r),
     eab_ExpiresAt := enc_of b (eab_ExpiresAt r), eab_Consumed := False\<rparr>"

lemma wp_ACMEEABTokens_Create [wps]:
  assumes "\<And>f. eab_Role rec \<in> roles_allowed \<Longrightarrow> eab_KeyID rec \<notin> eab_KeyID ` set (acme_eab_tokens w) \<Longrightarrow>
      Q (Inr ()) (w\<lparr>faults := f, acme_eab_tokens := acme_eab_tokens w @ [eab_row b rec]\<rparr>)"
    and "\<And>f e. eab_Role rec \<in> roles_allowed \<Longrightarrow> eab_KeyID rec \<notin> eab_KeyID ` set (acme_eab_tokens w) \<Longrightarrow>
      Q (Inl (ErrWrapped e)) (w\<lparr>faults := f, acme_eab_tokens := acme_eab_tokens w @ [eab_row b rec]\<rparr>)"
    and "\<And>f e. Q (Inl (ErrWrapped e)) (w\<lparr>faults := f\<rparr>)"
  shows "wp (ACMEEABTokens_Create b rec) Q w"
  using assms
  by (cases b) (auto simp: method_bodies insert_eab_token_def exec_done_def eab_row_def enc_of_def
      has_key_iff intro!: wp_ExecContext split: if_splits)

definition consume_rows :: "string \<Rightarrow> time \<Rightarrow> ACMEEABTokenRecord list \<Rightarrow> ACMEEABTokenRecord list" where
  "consume_rows k now = update_where
     (\<lambda>r. eab_KeyID r = k \<and> \<not> eab_Consumed r \<and> now < eab_ExpiresAt r) (\<lambda>r. r\<lparr>eab_Consumed := True\<rparr>)"

definition claimable :: "string \<Rightarrow> time \<Rightarrow> ACMEEABTokenRecord list \<Rightarrow> bool" where
  "claimable k now rows \<longleftrightarrow>
     (\<exists>r\<in>set rows. eab_KeyID r = k \<and> \<not> eab_Consumed r \<and> now < eab_ExpiresAt r)"

lemma count_where_pos: "0 < count_where P rows \<longleftrightarrow> (\<exists>r\<in>set rows. P r)"
  using count_where_zero [of P rows] by auto

lemma wp_ACMEEABTokens_MarkConsumed [wps]:
  assumes "\<And>f. claimable k (enc_of b now) (acme_eab_tokens w) \<Longrightarrow> Q (Inr ())
      (w\<lparr>faults := f, acme_eab_tokens := consume_rows k (enc_of b now) (acme_eab_tokens w)\<rparr>)"
    and "\<And>f. select_eab_token k w = None \<Longrightarrow> Q (Inl ErrNotFound) (w\<lparr>faults := f\<rparr>)"
    and "\<And>f. \<not> claimable k (enc_of b now) (acme_eab_tokens w) \<Longrightarrow>
      Q (Inl ErrAlreadyConsumed) (w\<lparr>faults := f\<rparr>)"
    and "\<And>f e. Q (Inl (ErrWrapped e)) (w\<lparr>faults := f\<rparr>)"
    and "\<And>f e. claimable k (enc_of b now) (acme_eab_tokens w) \<Longrightarrow> Q (Inl (ErrWrapped e))
      (w\<lparr>faults := f, acme_eab_tokens := consume_rows k (enc_of b now) (acme_eab_tokens w)\<rparr>)"
  shows "wp (ACMEEABTokens_MarkConsumed b k now) Q w"
proof -
  let ?stmt = "update_eab_consumed k (enc_of b now)"
  let ?check = "QueryContext (\<lambda>w. count_where (\<lambda>r. eab_KeyID r = k) (acme_eab_tokens w))"
  have "wp (ExecContext ?stmt) (\<lambda>res. wp (case res of
        Inl e \<Rightarrow> ret (Inl (ErrWrapped e))
      | Inr n \<Rightarrow>
          (if n > 0 then ret (Inr ())
           else do {
             r \<leftarrow> ?check;
             (case r of
                Inl e \<Rightarrow> ret (Inl (ErrWrapped e))
              | Inr exists_n \<Rightarrow>
                  (if exists_n = 0 then ret (Inl ErrNotFound) else ret (Inl ErrAlreadyConsumed)))
           })) Q) w"
  proof (cases "claimable k (enc_of b now) (acme_eab_tokens w)")
    case True
    then show ?thesis
      using assms(1,4,5)
      by (intro wp_ExecContext)
        (auto simp: update_eab_consumed_def Let_def count_where_zero claimable_def consume_rows_def)
  next
    case False
    then have "\<forall>r\<in>set (acme_eab_tokens w).
        \<not> (eab_KeyID r = k \<and> \<not> eab_Consumed r \<and> enc_of b now < eab_ExpiresAt r)"
      by (auto simp: claimable_def)
    with False assms(2-4) show ?thesis
      by (intro wp_ExecContext)
        (auto simp: update_eab_consumed_def Let_def count_where_zero [THEN iffD2] update_where_none
          count_where_zero select_eab_token_def find_None_iff intro!: wp_QueryContext)
  qed
  then show ?thesis
    by (cases b) (simp_all add: method_bodies enc_of_def)
qed

definition acct_row :: "backend \<Rightarrow> ACMEAccountRecord \<Rightarrow> ACMEAccountRecord" where
  "acct_row b r = r\<lparr>acct_CreatedAt := enc_of b (acct_CreatedAt r)\<rparr>"

lemma wp_ACMEAccounts_Create [wps]:
  assumes "\<And>f. acct_JWKThumbprint rec \<notin> acct_JWKThumbprint ` set (acme_accounts w) \<Longrightarrow>
      acct_ID rec \<notin> acct_ID ` set (acme_accounts w) \<Longrightarrow>
      Q (Inr ()) (w\<lparr>faults := f, acme_accounts := acme_accounts w @ [acct_row b rec]\<rparr>)"
    and "\<And>f e. acct_JWKThumbprint rec \<notin> acct_JWKThumbprint ` set (acme_accounts w) \<Longrightarrow>
      acct_ID rec \<notin> acct_ID ` set (acme_accounts w) \<Longrightarrow>
      Q (Inl (ErrWrapped e)) (w\<lparr>faults := f, acme_accounts := acme_accounts w @ [acct_row b rec]\<rparr>)"
    and "\<And>f. acct_JWKThumbprint rec \<in> acct_JWKThumbprint ` set (acme_accounts w) \<or>
      acct_ID rec \<in> acct_ID ` set (acme_accounts w) \<Longrightarrow> Q (Inl ErrAlreadyExists) (w\<lparr>faults := f\<rparr>)"
    and "\<And>f e. Q (Inl (ErrWrapped e)) (w\<lparr>faults := f\<rparr>)"
  shows "wp (ACMEAccounts_Create b rec) Q w"
  using assms
  by (cases b) (auto simp: method_bodies insert_account_def acct_row_def enc_of_def has_key_iff
      sqlite_isUniqueViolation_def pg_isUniqueViolation_def intro!: wp_ExecContext split: if_splits)

definition order_row :: "backend \<Rightarrow> ACMEOrderRecord \<Rightarrow> ACMEOrderRecord" where
  "order_row b r = r\<lparr>order_CreatedAt := enc_of b (order_CreatedAt r)\<rparr>"

lemma wp_ACMEOrders_Create [wps]:
  assumes "\<And>f. order_ID rec \<notin> order_ID ` set (acme_orders w) \<Longrightarrow>
      Q (Inr ()) (w\<lparr>faults := f, acme_orders := acme_orders w @ [order_row b rec]\<rparr>)"
    and "\<And>f e. order_ID rec \<notin> order_ID ` set (acme_orders w) \<Longrightarrow>
      Q (Inl (ErrWrapped e)) (w\<lparr>faults := f, acme_orders := acme_orders w @ [order_row b rec]\<rparr>)"
    and "\<And>f e. Q (Inl (ErrWrapped e)) (w\<lparr>faults := f\<rparr>)"
  shows "wp (ACMEOrders_Create b rec) Q w"
  using assms
  by (cases b) (auto simp: method_bodies insert_order_def exec_done_def order_row_def enc_of_def
      has_key_iff intro!: wp_ExecContext split: if_splits)

definition status_rows ::
    "string \<Rightarrow> ACMEOrderStatus \<Rightarrow> ACMEOrderStatus \<Rightarrow> string \<Rightarrow> ACMEOrderRecord list \<Rightarrow>
     ACMEOrderRecord list" where
  "status_rows i from to serial = update_where (\<lambda>r. order_ID r = i \<and> order_Status r = from)
     (\<lambda>r. r\<lparr>order_Status := to, order_CertSerial := serial\<rparr>)"

definition in_status :: "string \<Rightarrow> ACMEOrderStatus \<Rightarrow> ACMEOrderRecord list \<Rightarrow> bool" where
  "in_status i st rows \<longleftrightarrow> (\<exists>r\<in>set rows. order_ID r = i \<and> order_Status r = st)"

lemma wp_ACMEOrders_UpdateStatus [wps]:
  assumes "\<And>f. in_status i from (acme_orders w) \<Longrightarrow> Q (Inr True)
      (w\<lparr>faults := f, acme_orders := status_rows i from to serial (acme_orders w)\<rparr>)"
    and "\<And>f. \<not> in_status i from (acme_orders w) \<Longrightarrow> Q (Inr False) (w\<lparr>faults := f\<rparr>)"
    and "\<And>f. \<not> in_status i from (acme_orders w) \<Longrightarrow> Q (Inl ErrNotFound) (w\<lparr>faults := f\<rparr>)"
    and "\<And>f e. Q (Inl (ErrWrapped e)) (w\<lparr>faults := f\<rparr>)"
    and "\<And>f e. in_status i from (acme_orders w) \<Longrightarrow> Q (Inl (ErrWrapped e))
      (w\<lparr>faults := f, acme_orders := status_rows i from to serial (acme_orders w)\<rparr>)"
  shows "wp (ACMEOrders_UpdateStatus b i from to serial) Q w"
proof -
  let ?check = "QueryContext (\<lambda>w. count_where (\<lambda>r. order_ID r = i) (acme_orders w))"
  have "wp (ExecContext (update_order_status i from to serial)) (\<lambda>res. wp (case res of
        Inl e \<Rightarrow> ret (Inl (ErrWrapped e))
      | Inr n \<Rightarrow>
          (if n > 0 then ret (Inr True)
           else do {
             r \<leftarrow> ?check;
             (case r of
                Inl e \<Rightarrow> ret (Inl (ErrWrapped e))
              | Inr exists_n \<Rightarrow> (if exists_n = 0 then ret (Inl ErrNotFound) else ret (Inr False)))
           })) Q) w"
  proof (cases "in_status i from (acme_orders w)")
    case True
    then show ?thesis
      using assms(1,4,5)
      by (intro wp_ExecContext)
        (auto simp: update_order_status_def Let_def count_where_zero in_status_def status_rows_def)
  next
    case False
    then have "\<forall>r\<in>set (acme_orders w). \<not> (order_ID r = i \<and> order_Status r = from)"
      by (auto simp: in_status_def)
    with False assms(2-4) show ?thesis
      by (intro wp_ExecContext)
        (auto simp: update_order_status_def Let_def count_where_zero [THEN iffD2] update_where_none
          intro!: wp_QueryContext)
  qed
  then show ?thesis
    by (cases b) (simp_all add: method_bodies)
qed

lemma wp_ACMENonces_Issue [wps]:
  assumes "\<And>f rs n. n \<notin> fst ` set (acme_nonces w) \<Longrightarrow> Q (Inr n)
      (w\<lparr>rand_tape := rs, faults := f, acme_nonces := acme_nonces w @ [(n, enc_of b expires)]\<rparr>)"
    and "\<And>f rs n e. n \<notin> fst ` set (acme_nonces w) \<Longrightarrow> Q (Inl (ErrWrapped e))
      (w\<lparr>rand_tape := rs, faults := f, acme_nonces := acme_nonces w @ [(n, enc_of b expires)]\<rparr>)"
    and "\<And>f rs e. Q (Inl (ErrWrapped e)) (w\<lparr>rand_tape := rs, faults := f\<rparr>)"
  shows "wp (ACMENonces_Issue b expires) Q w"
proof -
  have "Q (Inl (ErrWrapped e)) (w\<lparr>rand_tape := rs\<rparr>)" for e rs
    using assms(3) [where f = "faults w"] by (simp add: faults_eta)
  with assms show ?thesis
    by (cases b) (auto simp: method_bodies insert_nonce_def enc_of_def has_key_iff
        intro!: wp_ExecContext wp_rand_Read split: if_splits)
qed

definition nonce_valid :: "string \<Rightarrow> time \<Rightarrow> 'x world_scheme \<Rightarrow> bool" where
  "nonce_valid n now w \<longleftrightarrow> (\<exists>t. (n, t) \<in> set (acme_nonces w) \<and> now < t)"

lemma wp_ACMENonces_ConsumeIfValid [wps]:
  assumes "\<And>f. Q (Inr (nonce_valid n (enc_of b now) w)) (w\<lparr>faults := f, acme_nonces :=
        filter (\<lambda>r. \<not> (fst r = n \<and> enc_of b now < snd r)) (acme_nonces w)\<rparr>)"
    and "\<And>f e. Q (Inl (ErrWrapped e)) (w\<lparr>faults := f, acme_nonces :=
        filter (\<lambda>r. \<not> (fst r = n \<and> enc_of b now < snd r)) (acme_nonces w)\<rparr>)"
    and "\<And>f e. Q (Inl (ErrWrapped e)) (w\<lparr>faults := f\<rparr>)"
  shows "wp (ACMENonces_ConsumeIfValid b n now) Q w"
proof -
  have "0 < count_where (\<lambda>r. fst r = n \<and> enc_of b now < snd r) (acme_nonces w) \<longleftrightarrow>
      nonce_valid n (enc_of b now) w"
    by (force simp: count_where_pos nonce_valid_def)
  with assms show ?thesis
    by (cases b) (auto simp: method_bodies delete_nonce_def enc_of_def Let_def
        intro!: wp_ExecContext)
qed

section \<open>Contract: what was created can be read back\<close>

locale repository = state_preorder R for R :: "'s \<Rightarrow> 's \<Rightarrow> bool" +
  fixes Create :: "'r \<Rightarrow> ('s, unit res) state"
    and Get :: "'k \<Rightarrow> ('s, 'r res) state"
    and view :: "'k \<Rightarrow> 's \<Rightarrow> 'r option"
    and key :: "'r \<Rightarrow> 'k"
    and kept :: "'r \<Rightarrow> 'r"
    and le :: "'r \<Rightarrow> 'r \<Rightarrow> bool"
    and reliable :: "'s \<Rightarrow> bool"
  assumes create_moves: "state_io_rel R (Create r)"
    and create_view: "wp (Create r) (\<lambda>a t. a = Inr () \<longrightarrow> view (key r) t = Some (kept r)) s"
    and get_view: "wp (Get k) (\<lambda>a t. \<forall>r. a = Inr r \<longrightarrow> view k s = Some r) s"
    and get_reliable: "reliable s \<Longrightarrow> view k s = Some r \<Longrightarrow> fst (run_state (Get k) s) = Inr r"
    and view_stays: "R s t \<Longrightarrow> view k s = Some r \<Longrightarrow> \<exists>r'. view k t = Some r' \<and> le r r'"
begin

lemma read_back:
  assumes "run_state (Create r) s = (Inr (), t)" and "R t u" and "reliable u"
  shows "\<exists>r'. fst (run_state (Get (key r)) u) = Inr r' \<and> le (kept r) r'"
proof -
  have "view (key r) t = Some (kept r)"
    using wp_run [OF create_view assms(1)] by simp
  then obtain r' where "view (key r) u = Some r'" "le (kept r) r'"
    using view_stays [OF assms(2)] by blast
  then show ?thesis
    using get_reliable [OF assms(3)] by blast
qed

lemma reads_agree:
  assumes "run_state (Get k) s = (Inr r, t)" and "R s u" and "run_state (Get k) u = (Inr r', v)"
  shows "le r r'"
proof -
  have "view k s = Some r" "view k u = Some r'"
    using wp_run [OF get_view assms(1)] wp_run [OF get_view assms(3)] by simp_all
  then show ?thesis
    using view_stays [OF assms(2)] by fastforce
qed

end

lemma rows_le_find:
  assumes "rows_le le xs ys" and "\<And>a b. le a b \<Longrightarrow> key b = key a"
    and "find (\<lambda>x. key x = k) xs = Some r"
  shows "\<exists>r'. find (\<lambda>x. key x = k) ys = Some r' \<and> le r r'"
  using assms
proof (induction xs arbitrary: ys)
  case (Cons x xs)
  then obtain y ys' where ys: "ys = y # ys'" "le x y" "rows_le le xs ys'"
    by (cases ys) (force simp: rows_le_def)+
  then show ?case
    using Cons.IH [of ys'] Cons.prems(2,3) by (cases "key x = k") auto
qed simp

lemma prefix_find: "prefix xs ys \<Longrightarrow> find P xs = Some r \<Longrightarrow> find P ys = Some r"
  by (auto simp: prefix_def find_append)

lemma find_fresh_append:
  "key r \<notin> key ` set xs \<Longrightarrow> key r' = key r \<Longrightarrow> find (\<lambda>x. key x = key r) (xs @ [r']) = Some r'"
  by (induction xs) auto

lemma row_le_keys:
  "cert_le c c' \<Longrightarrow> Serial c' = Serial c"
  "eab_le t t' \<Longrightarrow> eab_KeyID t' = eab_KeyID t"
  "order_le q q' \<Longrightarrow> order_ID q' = order_ID q"
  "role_le r r' \<Longrightarrow> role_CertSerial r' = role_CertSerial r"
  by (cases c; cases c'; auto simp: cert_le_def) (auto simp: eab_le_def,
      (cases q; cases q'; auto simp: order_le_def), (cases r; cases r'; auto simp: role_le_def))

interpretation certs: repository ledger_le "Certificates_Create b" "Certificates_GetBySerial b"
  select_certificate Serial "cert_row b" cert_le "\<lambda>w. faults w = []" for b
proof unfold_locales
  show "wp (Certificates_Create b r) (\<lambda>a t. a = Inr () \<longrightarrow> select_certificate (Serial r) t = Some (cert_row b r)) s"
    for r and s :: "'a world_scheme"
    by (intro wps) (auto simp: select_certificate_def cert_row_def intro!: find_fresh_append)
  show "\<exists>r'. select_certificate k t = Some r' \<and> cert_le r r'"
    if "ledger_le s t" "select_certificate k s = Some r" for s t :: "'a world_scheme" and k r
    using that unfolding ledger_le_def grows_def select_certificate_def
    by (blast intro: rows_le_find row_le_keys)
  show "fst (run_state (Certificates_GetBySerial b k) s) = Inr r"
    if "faults s = []" "select_certificate k s = Some r" for s :: "'a world_scheme" and k r
    using that by (cases b) (simp_all add: method_bodies effects scan_row_def)
qed (auto intro: keeps wps)

interpretation eabs: repository ledger_le "ACMEEABTokens_Create b" "ACMEEABTokens_Get b"
  select_eab_token eab_KeyID "eab_row b" eab_le "\<lambda>w. faults w = []" for b
proof unfold_locales
  show "wp (ACMEEABTokens_Create b r) (\<lambda>a t. a = Inr () \<longrightarrow> select_eab_token (eab_KeyID r) t = Some (eab_row b r)) s"
    for r and s :: "'a world_scheme"
    by (intro wps) (auto simp: select_eab_token_def eab_row_def intro!: find_fresh_append)
  show "\<exists>r'. select_eab_token k t = Some r' \<and> eab_le r r'"
    if "ledger_le s t" "select_eab_token k s = Some r" for s t :: "'a world_scheme" and k r
    using that unfolding ledger_le_def grows_def select_eab_token_def
    by (blast intro: rows_le_find row_le_keys)
  show "fst (run_state (ACMEEABTokens_Get b k) s) = Inr r"
    if "faults s = []" "select_eab_token k s = Some r" for s :: "'a world_scheme" and k r
    using that by (cases b) (simp_all add: method_bodies effects scan_row_def)
qed (auto intro: keeps wps)

interpretation accts: repository ledger_le "ACMEAccounts_Create b" "ACMEAccounts_GetByID b"
  select_account_by_id acct_ID "acct_row b" "(=)" "\<lambda>w. faults w = []" for b
proof unfold_locales
  show "wp (ACMEAccounts_Create b r) (\<lambda>a t. a = Inr () \<longrightarrow> select_account_by_id (acct_ID r) t = Some (acct_row b r)) s"
    for r and s :: "'a world_scheme"
    by (intro wps) (auto simp: select_account_by_id_def acct_row_def intro!: find_fresh_append)
  show "\<exists>r'. select_account_by_id k t = Some r' \<and> r = r'"
    if "ledger_le s t" "select_account_by_id k s = Some r" for s t :: "'a world_scheme" and k r
    using that unfolding ledger_le_def grows_def select_account_by_id_def
    by (blast intro: prefix_find)
  show "fst (run_state (ACMEAccounts_GetByID b k) s) = Inr r"
    if "faults s = []" "select_account_by_id k s = Some r" for s :: "'a world_scheme" and k r
    using that by (cases b) (simp_all add: method_bodies effects scan_row_def)
qed (auto intro: keeps wps)

interpretation orders: repository ledger_le "ACMEOrders_Create b" "ACMEOrders_Get b"
  select_order order_ID "order_row b" order_le "\<lambda>w. faults w = []" for b
proof unfold_locales
  show "wp (ACMEOrders_Create b r) (\<lambda>a t. a = Inr () \<longrightarrow> select_order (order_ID r) t = Some (order_row b r)) s"
    for r and s :: "'a world_scheme"
    by (intro wps) (auto simp: select_order_def order_row_def intro!: find_fresh_append)
  show "\<exists>r'. select_order k t = Some r' \<and> order_le r r'"
    if "ledger_le s t" "select_order k s = Some r" for s t :: "'a world_scheme" and k r
    using that unfolding ledger_le_def grows_def select_order_def
    by (blast intro: rows_le_find row_le_keys)
  show "fst (run_state (ACMEOrders_Get b k) s) = Inr r"
    if "faults s = []" "select_order k s = Some r" for s :: "'a world_scheme" and k r
    using that by (cases b) (simp_all add: method_bodies effects scan_row_def)
qed (auto intro: keeps wps)

section \<open>Contract: a claim is won at most once\<close>

text \<open>
  \<open>claim k a\<close> tries to take \<open>k\<close>; \<open>won\<close> reads its result. \<open>history s ks t\<close>: a run of the system
  from \<open>s\<close> to \<open>t\<close> in which, between arbitrary moves along \<open>R\<close> by anyone, the claims on \<open>ks\<close> were
  won, in this order.
\<close>

locale single_use = state_preorder R for R :: "'s \<Rightarrow> 's \<Rightarrow> bool" +
  fixes claim :: "'k \<Rightarrow> 'a \<Rightarrow> ('s, 'b) state"
    and won :: "'b \<Rightarrow> bool"
    and spent :: "'k \<Rightarrow> 's \<Rightarrow> bool"
    and inv :: "'s \<Rightarrow> bool"
  assumes claim_moves: "state_io_rel R (claim k a)"
    and claim_won: "inv s \<Longrightarrow> wp (claim k a) (\<lambda>b t. won b \<longrightarrow> \<not> spent k s \<and> spent k t) s"
    and spent_stays: "inv s \<Longrightarrow> R s t \<Longrightarrow> spent k s \<Longrightarrow> spent k t"
    and inv_stays: "inv s \<Longrightarrow> R s t \<Longrightarrow> inv t"
begin

inductive history :: "'s \<Rightarrow> 'k list \<Rightarrow> 's \<Rightarrow> bool" where
  start: "history s [] s"
| move: "history s ks t \<Longrightarrow> R t u \<Longrightarrow> history s ks u"
| win: "history s ks t \<Longrightarrow> run_state (claim k a) t = (b, u) \<Longrightarrow> won b \<Longrightarrow> history s (ks @ [k]) u"

lemma history_spent:
  assumes "history s ks t" and "inv s"
  shows "inv t \<and> distinct ks \<and> (\<forall>k\<in>set ks. spent k t)"
  using assms
proof (induction rule: history.induct)
  case (move s ks t u)
  then show ?case using spent_stays inv_stays by blast
next
  case (win s ks t k a b u)
  then have I: "inv t" and R: "R t u"
    using claim_moves [of k a] by (auto dest: state_io_relD)
  have "\<not> spent k t \<and> spent k u"
    using wp_run [OF claim_won [OF I] win.hyps(2)] win.hyps(3) by simp
  with win I R show ?case
    using spent_stays inv_stays by auto
qed simp

lemma at_most_once: "history s ks t \<Longrightarrow> inv s \<Longrightarrow> distinct ks"
  using history_spent by blast

end

definition token_consumed :: "string \<Rightarrow> 'x world_scheme \<Rightarrow> bool" where
  "token_consumed k w \<longleftrightarrow> (\<exists>r. select_eab_token k w = Some r \<and> eab_Consumed r)"

definition cert_revoked :: "string \<Rightarrow> 'x world_scheme \<Rightarrow> bool" where
  "cert_revoked serial w \<longleftrightarrow> (\<exists>r. select_certificate serial w = Some r \<and> RevokedAt r \<noteq> None)"

definition order_taken :: "string \<Rightarrow> 'x world_scheme \<Rightarrow> bool" where
  "order_taken i w \<longleftrightarrow> (\<exists>r. select_order i w = Some r \<and> order_Status r \<noteq> ACMEOrderStatusReady)"

lemma find_update_where:
  "(\<And>x. key (f x) = key x) \<Longrightarrow>
    find (\<lambda>x. key x = k) (update_where P f rows) = map_option (\<lambda>x. if P x then f x else x) (find (\<lambda>x. key x = k) rows)"
  by (simp add: update_where_def find_map_update)

lemma find_key_unique:
  "distinct (map key rows) \<Longrightarrow> r \<in> set rows \<Longrightarrow> key r = k \<Longrightarrow> find (\<lambda>x. key x = k) rows = Some r"
  using find_unique [of key rows r] by simp

lemma schema_distinct:
  assumes "schema w"
  shows "distinct (map Serial (certificates w))" "distinct (map eab_KeyID (acme_eab_tokens w))"
    "distinct (map acct_ID (acme_accounts w))" "distinct (map acct_JWKThumbprint (acme_accounts w))"
    "distinct (map order_ID (acme_orders w))" "distinct (map role_CertSerial (client_roles w))"
  using assms by (auto simp: schema_def schema_parts)

lemma cert_revoked_stays: "ledger_le s t \<Longrightarrow> cert_revoked serial s \<Longrightarrow> cert_revoked serial t"
  unfolding cert_revoked_def using certs.view_stays [of s t serial]
  by (fastforce simp: cert_le_def)

lemma token_consumed_stays: "ledger_le s t \<Longrightarrow> token_consumed k s \<Longrightarrow> token_consumed k t"
  unfolding token_consumed_def using eabs.view_stays [of s t k]
  by (fastforce simp: eab_le_def)

lemma order_taken_stays: "ledger_le s t \<Longrightarrow> order_taken i s \<Longrightarrow> order_taken i t"
  unfolding order_taken_def using orders.view_stays [of s t i]
  by (fastforce simp: order_le_def progress_def)

lemma revoke_rows_select:
  assumes "distinct (map Serial rows)" and "unrevoked serial rows"
  obtains r where "r \<in> set rows" "Serial r = serial" "RevokedAt r = None"
    "find (\<lambda>x. Serial x = serial) rows = Some r"
    "find (\<lambda>x. Serial x = serial) (revoke_rows serial reason at rows) =
       Some (r\<lparr>RevokedAt := Some at, RevocationReason := reason\<rparr>)"
  using assms unfolding unrevoked_def revoke_rows_def
  by (auto simp: find_update_where find_key_unique)

lemma consume_rows_select:
  assumes "distinct (map eab_KeyID rows)" and "claimable k now rows"
  obtains r where "r \<in> set rows" "eab_KeyID r = k" "\<not> eab_Consumed r" "now < eab_ExpiresAt r"
    "find (\<lambda>x. eab_KeyID x = k) rows = Some r"
    "find (\<lambda>x. eab_KeyID x = k) (consume_rows k now rows) = Some (r\<lparr>eab_Consumed := True\<rparr>)"
  using assms unfolding claimable_def consume_rows_def
  by (auto simp: find_update_where find_key_unique)

lemma status_rows_select:
  assumes "distinct (map order_ID rows)" and "in_status i from rows"
  obtains r where "r \<in> set rows" "order_ID r = i" "order_Status r = from"
    "find (\<lambda>x. order_ID x = i) rows = Some r"
    "find (\<lambda>x. order_ID x = i) (status_rows i from to serial rows) =
       Some (r\<lparr>order_Status := to, order_CertSerial := serial\<rparr>)"
  using assms unfolding in_status_def status_rows_def
  by (auto simp: find_update_where find_key_unique)

interpretation revocation: single_use ledger_le
  "\<lambda>serial (reason, at). Certificates_Revoke b serial reason at" "\<lambda>r. r = Inr ()" cert_revoked schema for b
proof unfold_locales
  fix k a and s :: "'a world_scheme"
  assume "schema s"
  note dist = schema_distinct(1) [OF this]
  show "wp (case a of (reason, at) \<Rightarrow> Certificates_Revoke b k reason at)
      (\<lambda>r t. r = Inr () \<longrightarrow> \<not> cert_revoked k s \<and> cert_revoked k t) s"
    by (cases a) (auto simp: cert_revoked_def select_certificate_def intro!: wps
        elim!: revoke_rows_select [OF dist])
qed (auto intro: keeps cert_revoked_stays simp: ledger_le_def)

interpretation token: single_use ledger_le
  "ACMEEABTokens_MarkConsumed b" "\<lambda>r. r = Inr ()" token_consumed schema for b
proof unfold_locales
  fix k a and s :: "'a world_scheme"
  assume "schema s"
  note dist = schema_distinct(2) [OF this]
  show "wp (ACMEEABTokens_MarkConsumed b k a)
      (\<lambda>r t. r = Inr () \<longrightarrow> \<not> token_consumed k s \<and> token_consumed k t) s"
    by (auto simp: token_consumed_def select_eab_token_def intro!: wps
        elim!: consume_rows_select [OF dist])
qed (auto intro: keeps token_consumed_stays simp: ledger_le_def)

interpretation order: single_use ledger_le
  "\<lambda>i serial. ACMEOrders_UpdateStatus b i ACMEOrderStatusReady ACMEOrderStatusProcessing serial"
  "\<lambda>r. r = Inr True" order_taken schema for b
proof unfold_locales
  fix k a and s :: "'a world_scheme"
  assume "schema s"
  note dist = schema_distinct(5) [OF this]
  show "wp (ACMEOrders_UpdateStatus b k ACMEOrderStatusReady ACMEOrderStatusProcessing a)
      (\<lambda>r t. r = Inr True \<longrightarrow> \<not> order_taken k s \<and> order_taken k t) s"
    by (auto simp: order_taken_def select_order_def intro!: wps
        elim!: status_rows_select [OF dist])
qed (auto intro: keeps order_taken_stays simp: ledger_le_def progress_def)

section \<open>The two backends agree\<close>

text \<open>
  The optimistic \<open>Revoke\<close> of PostgreSQL (update first, look up only when nothing was updated)
  computes what the check-then-act \<open>Revoke\<close> of SQLite computes.
\<close>

lemma revoke_backends:
  assumes "schema w" and "faults w = []"
  shows "run_state (pg_Certificates_Revoke rfc3339 serial reason at) w =
    run_state (sqlite_Certificates_Revoke serial reason at) w"
proof (cases "unrevoked serial (certificates w)")
  case True
  have dist: "distinct (map Serial (certificates w))"
    using assms(1) by (rule schema_distinct)
  obtain r where "find (\<lambda>x. Serial x = serial) (certificates w) = Some r" "RevokedAt r = None"
    using revoke_rows_select [OF dist True] by metis
  moreover have "0 < count_where (\<lambda>r. Serial r = serial \<and> RevokedAt r = None) (certificates w)"
    using True by (auto simp: unrevoked_def count_where_pos)
  ultimately show ?thesis
    using assms(2) by (simp add: pg_Certificates_Revoke_def sqlite_Certificates_Revoke_def
        sqlite_Certificates_GetBySerial_def effects scan_row_def select_certificate_def
        update_revoked_def Let_def)
next
  case False
  then have none: "\<forall>r\<in>set (certificates w). \<not> (Serial r = serial \<and> RevokedAt r = None)"
    by (auto simp: unrevoked_def)
  then have "w\<lparr>certificates := update_where (\<lambda>r. Serial r = serial \<and> RevokedAt r = None) f (certificates w)\<rparr> = w" for f
    by (simp add: update_where_none)
  with none assms(2) show ?thesis
    by (auto simp: pg_Certificates_Revoke_def sqlite_Certificates_Revoke_def
        sqlite_Certificates_GetBySerial_def pg_Certificates_GetBySerial_def effects scan_row_def
        update_revoked_def Let_def count_where_zero [THEN iffD2] select_certificate_def
        split: option.splits dest: find_Some_in)
qed

end
