(* ===== verification/Profiles.thy ===== *)
theory Profiles
  imports Store_Iface
begin

unbundle bit_operations_syntax

text \<open>
  Certificate profiles, \<open>internal/profiles\<close>: the built-in profiles, the validation of a
  configuration file (\<open>toProfile\<close>) and the registry, which versions configured profiles in the
  datastore and swaps them in on a reload. YAML decoding, \<open>time.ParseDuration\<close> and
  \<open>json.Marshal\<close> are parameters; so is the order in which Go walks a map.
\<close>

section \<open>Profiles\<close>

type_synonym Algorithm = string

definition AlgorithmECDSAP256 :: Algorithm where "AlgorithmECDSAP256 = ''ecdsa-p256''"
definition AlgorithmRSA2048 :: Algorithm where "AlgorithmRSA2048 = ''rsa-2048''"

text \<open>\<open>x509.KeyUsage\<close> is a bit set.\<close>

definition KeyUsageDigitalSignature :: int where "KeyUsageDigitalSignature = 1"
definition KeyUsageContentCommitment :: int where "KeyUsageContentCommitment = 2"
definition KeyUsageKeyEncipherment :: int where "KeyUsageKeyEncipherment = 4"
definition KeyUsageDataEncipherment :: int where "KeyUsageDataEncipherment = 8"
definition KeyUsageKeyAgreement :: int where "KeyUsageKeyAgreement = 16"
definition KeyUsageCertSign :: int where "KeyUsageCertSign = 32"
definition KeyUsageCRLSign :: int where "KeyUsageCRLSign = 64"
definition KeyUsageEncipherOnly :: int where "KeyUsageEncipherOnly = 128"
definition KeyUsageDecipherOnly :: int where "KeyUsageDecipherOnly = 256"

lemmas KeyUsage_defs =
  KeyUsageDigitalSignature_def KeyUsageContentCommitment_def KeyUsageKeyEncipherment_def
  KeyUsageDataEncipherment_def KeyUsageKeyAgreement_def KeyUsageCertSign_def KeyUsageCRLSign_def
  KeyUsageEncipherOnly_def KeyUsageDecipherOnly_def

datatype ExtKeyUsage =
    ExtKeyUsageServerAuth
  | ExtKeyUsageClientAuth
  | ExtKeyUsageCodeSigning
  | ExtKeyUsageEmailProtection
  | ExtKeyUsageTimeStamping
  | ExtKeyUsageOCSPSigning
  | ExtKeyUsageOther int

record Profile =
  p_Name :: string
  p_Version :: int
  p_KeyAlgorithm :: Algorithm
  p_KeyUsage :: int
  p_ExtKeyUsage :: "ExtKeyUsage list"
  p_CriticalEKU :: bool
  p_Validity :: duration
  p_EnableOCSP :: bool
  p_EnableCRL :: bool
  p_AIATemplate :: string
  p_CDPTemplate :: string
  p_OCSPTemplate :: string

definition no_profile :: Profile where
  "no_profile = \<lparr>p_Name = [], p_Version = 0, p_KeyAlgorithm = [], p_KeyUsage = 0, p_ExtKeyUsage = [],
     p_CriticalEKU = False, p_Validity = 0, p_EnableOCSP = False, p_EnableCRL = False,
     p_AIATemplate = [], p_CDPTemplate = [], p_OCSPTemplate = []\<rparr>"

definition Default :: Profile where
  "Default = no_profile\<lparr>p_Name := ''default'', p_Version := 1, p_KeyAlgorithm := AlgorithmECDSAP256,
     p_KeyUsage := KeyUsageDigitalSignature, p_ExtKeyUsage := [ExtKeyUsageClientAuth],
     p_Validity := 365 * 24 * Hour\<rparr>"

definition ServerTLS :: Profile where
  "ServerTLS = no_profile\<lparr>p_Name := ''server-tls'', p_Version := 1,
     p_KeyAlgorithm := AlgorithmECDSAP256,
     p_KeyUsage := KeyUsageDigitalSignature OR KeyUsageKeyEncipherment,
     p_ExtKeyUsage := [ExtKeyUsageServerAuth], p_Validity := 365 * 24 * Hour\<rparr>"

definition DocumentSigning :: Profile where
  "DocumentSigning = no_profile\<lparr>p_Name := ''document-signing'', p_Version := 1,
     p_KeyAlgorithm := AlgorithmECDSAP256,
     p_KeyUsage := KeyUsageDigitalSignature OR KeyUsageContentCommitment,
     p_Validity := 2 * 365 * 24 * Hour, p_EnableOCSP := True, p_EnableCRL := True\<rparr>"

definition TSA :: Profile where
  "TSA = no_profile\<lparr>p_Name := ''tsa'', p_Version := 1, p_KeyAlgorithm := AlgorithmECDSAP256,
     p_KeyUsage := KeyUsageDigitalSignature, p_ExtKeyUsage := [ExtKeyUsageTimeStamping],
     p_CriticalEKU := True, p_EnableOCSP := True, p_EnableCRL := True\<rparr>"

definition All :: "Profile list" where
  "All = [Default, ServerTLS, DocumentSigning, TSA]"

definition Lookup :: "string \<Rightarrow> Profile option" where
  "Lookup name = find (\<lambda>p. p_Name p = name) All"

lemmas builtin_defs = Default_def ServerTLS_def DocumentSigning_def TSA_def no_profile_def

definition WithIssuerURLs :: "Profile \<Rightarrow> string \<Rightarrow> bool \<Rightarrow> Profile" where
  "WithIssuerURLs p baseURL revocationEnabled =
     (let p1 = p\<lparr>p_AIATemplate := baseURL @ ''/v1/ca/intermediate.pem''\<rparr>;
          p2 = (if revocationEnabled \<and> p_EnableCRL p1
                then p1\<lparr>p_CDPTemplate := baseURL @ ''/v1/crl/intermediate.crl''\<rparr> else p1);
          p3 = (if revocationEnabled \<and> p_EnableOCSP p2
                then p2\<lparr>p_OCSPTemplate := baseURL @ ''/v1/ocsp''\<rparr> else p2)
      in p3)"

lemma WithIssuerURLs_simps [simp]:
  "p_Name (WithIssuerURLs p u r) = p_Name p"
  "p_Validity (WithIssuerURLs p u r) = p_Validity p"
  "p_KeyUsage (WithIssuerURLs p u r) = p_KeyUsage p"
  "p_ExtKeyUsage (WithIssuerURLs p u r) = p_ExtKeyUsage p"
  "p_CriticalEKU (WithIssuerURLs p u r) = p_CriticalEKU p"
  "p_EnableCRL (WithIssuerURLs p u r) = p_EnableCRL p"
  "p_EnableOCSP (WithIssuerURLs p u r) = p_EnableOCSP p"
  by (simp_all add: WithIssuerURLs_def Let_def)

section \<open>Configured profiles\<close>

record profileConfig =
  c_Name :: string
  c_KeyAlgorithm :: string
  c_KeyUsage :: "string list"
  c_ExtKeyUsage :: "string list"
  c_CriticalEKU :: bool
  c_Validity :: string
  c_EnableOCSP :: bool
  c_EnableCRL :: bool

definition keyAlgorithms :: "(string \<times> Algorithm) list" where
  "keyAlgorithms = [(''ecdsa-p256'', AlgorithmECDSAP256), (''rsa-2048'', AlgorithmRSA2048)]"

definition keyUsageBits :: "(string \<times> int) list" where
  "keyUsageBits =
     [(''digitalSignature'', KeyUsageDigitalSignature),
      (''contentCommitment'', KeyUsageContentCommitment),
      (''keyEncipherment'', KeyUsageKeyEncipherment),
      (''dataEncipherment'', KeyUsageDataEncipherment),
      (''keyAgreement'', KeyUsageKeyAgreement),
      (''certSign'', KeyUsageCertSign),
      (''crlSign'', KeyUsageCRLSign),
      (''encipherOnly'', KeyUsageEncipherOnly),
      (''decipherOnly'', KeyUsageDecipherOnly)]"

definition extKeyUsages :: "(string \<times> ExtKeyUsage) list" where
  "extKeyUsages =
     [(''serverAuth'', ExtKeyUsageServerAuth),
      (''clientAuth'', ExtKeyUsageClientAuth),
      (''codeSigning'', ExtKeyUsageCodeSigning),
      (''emailProtection'', ExtKeyUsageEmailProtection),
      (''timeStamping'', ExtKeyUsageTimeStamping),
      (''ocspSigning'', ExtKeyUsageOCSPSigning)]"

datatype profile_error =
    NameRequired
  | UnknownKeyAlgorithm string
  | UnknownKeyUsage string
  | UnknownExtKeyUsage string
  | InvalidValidity string
  | ReadFailed string
  | ParseFailed string
  | CollidesWithBuiltin string
  | DuplicateName string
  | StoreFailed store_error

fun usage_bits :: "int \<Rightarrow> string list \<Rightarrow> profile_error + int" where
  "usage_bits usage [] = Inr usage"
| "usage_bits usage (s # ss) =
     (case map_of keyUsageBits s of
        None \<Rightarrow> Inl (UnknownKeyUsage s)
      | Some b \<Rightarrow> usage_bits (usage OR b) ss)"

fun usage_ekus :: "ExtKeyUsage list \<Rightarrow> string list \<Rightarrow> profile_error + ExtKeyUsage list" where
  "usage_ekus ekus [] = Inr ekus"
| "usage_ekus ekus (s # ss) =
     (case map_of extKeyUsages s of
        None \<Rightarrow> Inl (UnknownExtKeyUsage s)
      | Some eku \<Rightarrow> usage_ekus (ekus @ [eku]) ss)"

definition toProfile ::
    "(string \<Rightarrow> duration option) \<Rightarrow> profileConfig \<Rightarrow> profile_error + Profile" where
  "toProfile ParseDuration c =
     (if c_Name c = [] then Inl NameRequired
      else case map_of keyAlgorithms (c_KeyAlgorithm c) of
        None \<Rightarrow> Inl (UnknownKeyAlgorithm (c_KeyAlgorithm c))
      | Some alg \<Rightarrow>
          (case usage_bits 0 (c_KeyUsage c) of
             Inl e \<Rightarrow> Inl e
           | Inr usage \<Rightarrow>
               (case usage_ekus [] (c_ExtKeyUsage c) of
                  Inl e \<Rightarrow> Inl e
                | Inr ekus \<Rightarrow>
                    (case ParseDuration (c_Validity c) of
                       None \<Rightarrow> Inl (InvalidValidity (c_Validity c))
                     | Some validity \<Rightarrow>
                         Inr (no_profile\<lparr>p_Name := c_Name c, p_Version := 1, p_KeyAlgorithm := alg,
                           p_KeyUsage := usage, p_ExtKeyUsage := ekus,
                           p_CriticalEKU := c_CriticalEKU c, p_Validity := validity,
                           p_EnableOCSP := c_EnableOCSP c, p_EnableCRL := c_EnableCRL c\<rparr>)))))"

lemma usage_ekus_ok:
  "usage_ekus acc ss = Inr es \<longleftrightarrow>
     (\<forall>s\<in>set ss. map_of extKeyUsages s \<noteq> None) \<and> es = acc @ map (\<lambda>s. the (map_of extKeyUsages s)) ss"
  by (induction acc ss rule: usage_ekus.induct) (auto split: option.splits)

lemma usage_bits_bit:
  "usage_bits u ss = Inr v \<Longrightarrow>
     bit v n \<longleftrightarrow> bit u n \<or> (\<exists>s\<in>set ss. \<exists>b. map_of keyUsageBits s = Some b \<and> bit b n)"
  by (induction u ss arbitrary: v rule: usage_bits.induct)
    (auto split: option.splits simp: bit_or_iff)

lemma usage_bits_known: "usage_bits u ss = Inr v \<Longrightarrow> s \<in> set ss \<Longrightarrow> map_of keyUsageBits s \<noteq> None"
  by (induction u ss arbitrary: v rule: usage_bits.induct) (auto split: option.splits)

section \<open>The registry\<close>

record Registry =
  r_profiles :: "(string \<times> Profile) list"
  r_builtins :: "string list"

text \<open>What a file of the profile directory holds for \<open>Load\<close>: it cannot be read, it is not YAML, or
  it decodes to a \<open>profileConfig\<close>.\<close>

datatype profile_file = Unreadable | NotYaml | Holds profileConfig

definition Registry_Lookup :: "Registry \<Rightarrow> string \<Rightarrow> Profile option" where
  "Registry_Lookup r name = map_of (r_profiles r) name"

definition Registry_All :: "Registry \<Rightarrow> Profile list" where
  "Registry_All r = map snd (r_profiles r)"

fun load_files ::
    "(string \<Rightarrow> duration option) \<Rightarrow> string list \<Rightarrow> (string \<times> Profile) list \<Rightarrow>
     (string \<times> profile_file) list \<Rightarrow> profile_error + (string \<times> Profile) list" where
  "load_files ParseDuration builtins loaded [] = Inr loaded"
| "load_files ParseDuration builtins loaded ((path, f) # fs) =
     (case f of
        Unreadable \<Rightarrow> Inl (ReadFailed path)
      | NotYaml \<Rightarrow> Inl (ParseFailed path)
      | Holds cfg \<Rightarrow>
          (case toProfile ParseDuration cfg of
             Inl e \<Rightarrow> Inl e
           | Inr p \<Rightarrow>
               (if p_Name p \<in> set builtins then Inl (CollidesWithBuiltin (p_Name p))
                else if map_of loaded (p_Name p) \<noteq> None then Inl (DuplicateName (p_Name p))
                else load_files ParseDuration builtins (loaded @ [(p_Name p, p)]) fs)))"

definition upsertVersioned ::
    "backend \<Rightarrow> (Profile \<Rightarrow> string) \<Rightarrow> Profile \<Rightarrow> ('x world_scheme, profile_error + Profile) state" where
  "upsertVersioned b Marshal p = do {
     let data = Marshal p;
     prev \<leftarrow> Profiles_Get b (p_Name p);
     (let version = (case prev of
            Inr r \<Rightarrow> Inr (if prof_Data r \<noteq> data then prof_Version r + 1 else prof_Version r)
          | Inl ErrNotFound \<Rightarrow> Inr 1
          | Inl e \<Rightarrow> Inl e)
      in case version of
        Inl e \<Rightarrow> ret (Inl (StoreFailed e))
      | Inr v \<Rightarrow> do {
          let p' = p\<lparr>p_Version := v\<rparr>;
          now \<leftarrow> time_Now;
          r \<leftarrow> Profiles_Upsert b \<lparr>prof_Name = p_Name p', prof_Version = v, prof_Data = Marshal p',
                 prof_CreatedAt = now\<rparr>;
          (case r of Inl e \<Rightarrow> ret (Inl (StoreFailed e)) | Inr _ \<Rightarrow> ret (Inr p'))
        })
   }"

fun upsert_all ::
    "backend \<Rightarrow> (Profile \<Rightarrow> string) \<Rightarrow> (string \<times> Profile) list \<Rightarrow> (string \<times> Profile) list \<Rightarrow>
     ('x world_scheme, profile_error + (string \<times> Profile) list) state" where
  "upsert_all b Marshal acc [] = ret (Inr acc)"
| "upsert_all b Marshal acc ((name, p) # rest) = do {
     r \<leftarrow> upsertVersioned b Marshal p;
     (case r of
        Inl e \<Rightarrow> ret (Inl e)
      | Inr v \<Rightarrow> upsert_all b Marshal (acc @ [(name, v)]) rest)
   }"

text \<open>\<open>Load\<close>: all files are checked before the first row is written, and the registry changes only
  when every row was written. \<open>walk\<close> is the order in which Go ranges over the map \<open>loaded\<close>.\<close>

definition Registry_Load ::
    "backend \<Rightarrow> (Profile \<Rightarrow> string) \<Rightarrow> (string \<Rightarrow> duration option) \<Rightarrow>
     ((string \<times> Profile) list \<Rightarrow> (string \<times> Profile) list) \<Rightarrow> string \<Rightarrow> (string \<times> profile_file) list \<Rightarrow>
     Registry \<Rightarrow> ('x world_scheme, (profile_error + unit) \<times> Registry) state" where
  "Registry_Load b Marshal ParseDuration walk dir files r =
     (if dir = [] then ret (Inr (), r)
      else case load_files ParseDuration (r_builtins r) [] files of
        Inl e \<Rightarrow> ret (Inl e, r)
      | Inr loaded \<Rightarrow> do {
          v \<leftarrow> upsert_all b Marshal [] (walk loaded);
          (case v of
             Inl e \<Rightarrow> ret (Inl e, r)
           | Inr versioned \<Rightarrow>
               ret (Inr (), r\<lparr>r_profiles :=
                 filter (\<lambda>(name, _). name \<in> set (r_builtins r)) (r_profiles r) @ versioned\<rparr>))
        })"

definition NewRegistry ::
    "backend \<Rightarrow> (Profile \<Rightarrow> string) \<Rightarrow> (string \<Rightarrow> duration option) \<Rightarrow>
     ((string \<times> Profile) list \<Rightarrow> (string \<times> Profile) list) \<Rightarrow> string \<Rightarrow> (string \<times> profile_file) list \<Rightarrow>
     ('x world_scheme, profile_error + Registry) state" where
  "NewRegistry b Marshal ParseDuration walk dir files = do {
     (res, r) \<leftarrow> Registry_Load b Marshal ParseDuration walk dir files
       \<lparr>r_profiles = map (\<lambda>p. (p_Name p, p)) All, r_builtins = map p_Name All\<rparr>;
     (case res of Inl e \<Rightarrow> ret (Inl e) | Inr _ \<Rightarrow> ret (Inr r))
   }"

section \<open>What a reload does\<close>

lemma toProfile_fresh:
  "toProfile pd c = Inr p \<Longrightarrow> p_Version p = 1 \<and> p_Name p = c_Name c \<and> p_Name p \<noteq> []"
  by (auto simp: toProfile_def split: if_splits option.splits sum.splits)

lemma load_files_names:
  assumes "load_files pd bs acc fs = Inr loaded"
    and "distinct (map fst acc)" and "set (map fst acc) \<inter> set bs = {}"
    and "\<forall>(n, p)\<in>set acc. n = p_Name p \<and> p_Version p = 1"
  shows "distinct (map fst loaded) \<and> set (map fst loaded) \<inter> set bs = {} \<and>
    (\<forall>(n, p)\<in>set loaded. n = p_Name p \<and> p_Version p = 1)"
  using assms
  by (induction pd bs acc fs rule: load_files.induct)
    (auto split: profile_file.splits sum.splits if_splits simp: map_of_eq_None_iff toProfile_fresh)

definition versioned_as :: "string \<times> Profile \<Rightarrow> string \<times> Profile \<Rightarrow> bool" where
  "versioned_as a b \<longleftrightarrow> fst b = fst a \<and> snd b = snd a\<lparr>p_Version := p_Version (snd b)\<rparr>"

lemma versioned_self: "versioned_as (n, p) (n, p\<lparr>p_Version := v\<rparr>)"
  by (simp add: versioned_as_def)

lemma versioned_name: "versioned_as a (n, p) \<Longrightarrow> n = fst a \<and> p_Name p = p_Name (snd a)"
  by (cases p; cases "snd a") (auto simp: versioned_as_def)

lemma wp_upsertVersioned:
  assumes "\<And>e w'. Q (Inl e) w'" and "\<And>v w'. Q (Inr (p\<lparr>p_Version := v\<rparr>)) w'"
  shows "wp (upsertVersioned b Marshal p) Q w"
  unfolding upsertVersioned_def
  by (auto simp: Let_def assms intro!: wps split: sum.splits store_error.splits)

lemma wp_upsert_all:
  fixes w :: "'x world_scheme"
  shows "wp (upsert_all b Marshal acc todo)
     (\<lambda>r w'. \<forall>vs. r = Inr vs \<longrightarrow> (\<exists>vs'. vs = acc @ vs' \<and> list_all2 versioned_as todo vs')) w"
proof (induction todo arbitrary: acc w)
  case (Cons a rest)
  obtain name p where a: "a = (name, p)" by (cases a)
  have "wp (upsert_all b Marshal (acc @ [(name, p\<lparr>p_Version := v\<rparr>)]) rest)
     (\<lambda>r w'. \<forall>vs. r = Inr vs \<longrightarrow>
        (\<exists>vs'. vs = acc @ vs' \<and> list_all2 versioned_as ((name, p) # rest) vs')) w'" for v and w' :: "'x world_scheme"
    by (rule wp_mono [OF Cons.IH]) (auto simp: versioned_self)
  then show ?case
    by (auto simp: a intro!: wp_upsertVersioned)
qed simp

lemma keeps_upsertVersioned [keeps]: "state_io_rel ledger_le (upsertVersioned b Marshal p)"
  unfolding upsertVersioned_def by (auto simp: Let_def intro!: keeps)

lemma keeps_upsert_all [keeps]: "state_io_rel ledger_le (upsert_all b Marshal acc todo)"
  by (induction b Marshal acc todo rule: upsert_all.induct) (auto intro!: keeps)

lemma keeps_Registry_Load [keeps]:
  "state_io_rel ledger_le (Registry_Load b Marshal pd walk dir files r)"
  unfolding Registry_Load_def by (auto intro!: keeps)

text \<open>The registry's own invariant: the built-in profiles are there under their names, unchanged,
  and no name occurs twice.\<close>

definition registry_ok :: "Registry \<Rightarrow> bool" where
  "registry_ok r \<longleftrightarrow> r_builtins r = map p_Name All \<and> distinct (map fst (r_profiles r)) \<and>
     (\<forall>p\<in>set All. (p_Name p, p) \<in> set (r_profiles r)) \<and>
     (\<forall>(n, p)\<in>set (r_profiles r). n = p_Name p)"

lemma list_all2_versioned_names:
  "list_all2 versioned_as xs ys \<Longrightarrow> map fst ys = map fst xs"
  by (induction rule: list_all2_induct) (auto simp: versioned_as_def)

lemma All_distinct: "distinct (map p_Name All)"
  by (simp add: All_def builtin_defs)

lemma registry_swap_ok:
  assumes ok: "registry_ok r" and load: "load_files pd (r_builtins r) [] files = Inr loaded"
    and walk: "\<And>xs. mset (walk xs) = mset xs" and all: "list_all2 versioned_as (walk loaded) vs"
  shows "registry_ok (r\<lparr>r_profiles := filter (\<lambda>(n, _). n \<in> set (r_builtins r)) (r_profiles r) @ vs\<rparr>)"
proof -
  have names: "distinct (map fst loaded)" "set (map fst loaded) \<inter> set (r_builtins r) = {}"
      "\<forall>(n, p)\<in>set loaded. n = p_Name p"
    using load_files_names [OF load] by auto
  have perm: "set (walk loaded) = set loaded"
    using walk [of loaded] by (metis set_mset_mset)
  have "mset (map fst vs) = mset (map fst loaded)"
    using list_all2_versioned_names [OF all] walk [of loaded] by (metis mset_map)
  note same = this
  have dist: "distinct (map fst vs)"
    using names(1) same by (metis mset_eq_imp_distinct_iff)
  have fst_vs: "fst ` set vs = fst ` set loaded"
    using arg_cong [OF same, of set_mset] by simp
  have "n = p_Name p" if mem: "(n, p) \<in> set vs" for n p
  proof -
    obtain i where i: "i < length vs" "vs ! i = (n, p)"
      using mem by (metis in_set_conv_nth)
    have "walk loaded ! i \<in> set loaded"
      using nth_mem [of i "walk loaded"] i(1) list_all2_lengthD [OF all] perm by simp
    moreover have "versioned_as (walk loaded ! i) (n, p)"
      using list_all2_nthD2 [OF all i(1)] i(2) by simp
    ultimately show ?thesis
      using names(3) versioned_name [of "walk loaded ! i" n p] by (auto simp: case_prod_beta)
  qed
  then have "\<forall>(n, p)\<in>set vs. n = p_Name p"
    by auto
  moreover have "fst x \<notin> set (r_builtins r)" if "x \<in> set vs" for x
    using imageI [OF that, of fst] names(2) unfolding fst_vs by auto
  ultimately show ?thesis
    using ok dist unfolding registry_ok_def
    by (auto simp: distinct_map_filter) blast
qed

text \<open>
  The version of a stored profile, read off its table. Bumping it is decided by comparing the
  file's content, encoded with version 1, with the stored encoding, which carries the stored
  version.
\<close>

definition next_version :: "(Profile \<Rightarrow> string) \<Rightarrow> Profile \<Rightarrow> ProfileRecord option \<Rightarrow> int" where
  "next_version Marshal p prev = (case prev of
     None \<Rightarrow> 1
   | Some r \<Rightarrow> if prof_Data r \<noteq> Marshal p then prof_Version r + 1 else prof_Version r)"

lemma upsertVersioned_result:
  assumes "faults w = []"
  shows "fst (run_state (upsertVersioned b Marshal p) w) =
    Inr (p\<lparr>p_Version := next_version Marshal p (select_profile (p_Name p) w)\<rparr>)"
proof -
  have "run_state (Profiles_Get b k) v = (scan_row (Inr (select_profile k v)), v)" if "faults v = []"
    for k and v :: "'a world_scheme"
    using that by (cases b) (simp_all add: method_bodies effects)
  moreover have "fst (run_state (Profiles_Upsert b r) v) = Inr ()" if "faults v = []"
    for r and v :: "'a world_scheme"
    using that by (cases b) (simp_all add: method_bodies effects upsert_profile_def Let_def exec_done_def)
  moreover have "faults (snd (run_state time_Now w)) = []"
    using assms by (simp add: time_Now_def split: list.splits)
  ultimately show ?thesis
    using assms
    by (cases "select_profile (p_Name p) w")
      (auto simp: upsertVersioned_def Let_def scan_row_def next_version_def case_prod_beta split: sum.splits)
qed

lemma select_profile_latest:
  "select_profile n w = Some r \<Longrightarrow>
     r \<in> set (profiles w) \<and> prof_Name r = n \<and> (\<forall>x\<in>set (profiles w). prof_Name x = n \<longrightarrow> prof_Version x \<le> prof_Version r)"
  "select_profile n w = None \<longleftrightarrow> (\<forall>x\<in>set (profiles w). prof_Name x \<noteq> n)"
proof -
  let ?xs = "filter (\<lambda>r. prof_Name r = n) (profiles w)"
  have sel: "select_profile n w = (if ?xs = [] then None else Some (last (sort_key prof_Version ?xs)))"
    using arg_cong [OF set_sort [of prof_Version ?xs], of "\<lambda>S. S = {}"]
    by (simp add: select_profile_def split: list.splits del: set_sort)
  show "select_profile n w = None \<longleftrightarrow> (\<forall>x\<in>set (profiles w). prof_Name x \<noteq> n)"
    unfolding sel by (auto simp: filter_empty_conv)
  show "r \<in> set (profiles w) \<and> prof_Name r = n \<and> (\<forall>x\<in>set (profiles w). prof_Name x = n \<longrightarrow> prof_Version x \<le> prof_Version r)"
    if "select_profile n w = Some r"
    using that last_sort_key [of ?xs prof_Version] unfolding sel by (auto split: if_splits)
qed

lemma upsert_profile_latest:
  assumes "upsert_profile r w = Inr (k, w')"
    and "\<And>x. x \<in> set (profiles w) \<Longrightarrow> prof_Name x = prof_Name r \<Longrightarrow> prof_Version x \<le> prof_Version r"
  obtains r' where "select_profile (prof_Name r) w' = Some r'" "prof_Version r' = prof_Version r"
    "prof_Data r' = prof_Data r"
proof -
  let ?same = "\<lambda>x. prof_Name x = prof_Name r \<and> prof_Version x = prof_Version r"
  have rows: "\<exists>x\<in>set (profiles w'). ?same x"
      "\<And>x. x \<in> set (profiles w') \<Longrightarrow> prof_Name x = prof_Name r \<Longrightarrow> prof_Version x \<le> prof_Version r"
      "\<And>x. x \<in> set (profiles w') \<Longrightarrow> ?same x \<Longrightarrow> prof_Data x = prof_Data r"
    using assms by (auto simp: upsert_profile_def Let_def update_where_def list_ex_iff split: if_splits) force+
  then obtain r' where r': "select_profile (prof_Name r) w' = Some r'"
    using select_profile_latest(2) by (metis not_None_eq)
  note latest = select_profile_latest(1) [OF this]
  then have "prof_Version r' \<le> prof_Version r" "prof_Version r \<le> prof_Version r'"
    using rows(1,2) by auto
  with r' rows(3) that latest show thesis by auto
qed

lemma upsert_profile_total: "\<exists>k w'. upsert_profile r w = Inr (k, w') \<and> faults w' = faults w"
  by (simp add: upsert_profile_def Let_def)

lemma upsertVersioned_runs:
  fixes w :: "'x world_scheme" and p Marshal
  assumes "faults w = []"
  defines "v \<equiv> next_version Marshal p (select_profile (p_Name p) w)"
  obtains w1 r where "run_state (upsertVersioned b Marshal p) w = (Inr (p\<lparr>p_Version := v\<rparr>), w1)"
    "faults w1 = []" "select_profile (p_Name p) w1 = Some r" "prof_Version r = v"
    "prof_Data r = Marshal (p\<lparr>p_Version := v\<rparr>)"
proof -
  obtain now w0 where now: "run_state time_Now w = (now, w0)" by fastforce
  then have w0: "faults w0 = []" "profiles w0 = profiles w"
    using assms(1) by (auto simp: time_Now_def split: list.splits)
  let ?r = "\<lparr>prof_Name = p_Name p, prof_Version = v, prof_Data = Marshal (p\<lparr>p_Version := v\<rparr>),
    prof_CreatedAt = enc_of b now\<rparr>"
  have top: "prof_Version x \<le> v" if "x \<in> set (profiles w)" "prof_Name x = p_Name p" for x
  proof (cases "select_profile (p_Name p) w")
    case None
    then show ?thesis
      using that select_profile_latest(2) by blast
  next
    case (Some r)
    then have "prof_Version x \<le> prof_Version r"
      using that select_profile_latest(1) by blast
    with Some show ?thesis
      by (simp add: v_def next_version_def)
  qed
  obtain k w1 where up: "upsert_profile ?r w0 = Inr (k, w1)" "faults w1 = []"
    using w0(1) upsert_profile_total [of ?r w0] by auto
  have "run_state (upsertVersioned b Marshal p) w = (Inr (p\<lparr>p_Version := v\<rparr>), w1)"
    using assms(1) now up w0(1)
    by (cases b; cases "select_profile (p_Name p) w")
      (auto simp: upsertVersioned_def method_bodies effects Let_def scan_row_def v_def next_version_def
        exec_done_def enc_of_def)
  moreover obtain r where "select_profile (p_Name p) w1 = Some r" "prof_Version r = v"
    "prof_Data r = Marshal (p\<lparr>p_Version := v\<rparr>)"
    by (rule upsert_profile_latest [OF up(1)]) (use top w0(2) in auto)
  ultimately show thesis
    using that up(2) by blast
qed

end
