(* ===== verification/Pki.thy ===== *)
theory Pki
  imports Profiles
begin

text \<open>
  The CA core, \<open>internal/pki\<close>: serial numbers, the certificate template a request leads to, and the
  three ways to sign one. A certificate is the record of its parsed fields. What \<open>crypto/x509\<close>
  does with a template (encode and sign, parse back) is the parameter \<open>pki_prims\<close>;
  \<open>x509_faithful\<close> states what the program relies on, for templates of the shape \<open>leaf.go\<close> and \<open>ca.go\<close>
  build: the parsed certificate has the template's fields and usages, with times cut to whole seconds,
  the given key and the parent's name.
\<close>

section \<open>Keys, names, certificates\<close>

datatype pubkey = P256 int int | ECOther string | RSAKey int int | KeyOther string

record signer =
  sg_Public :: pubkey
  sg_secret :: string

text \<open>A distinguished name: the common name and the other standard attributes (country, organization, \<open>\<dots>\<close>)
  with their values. Attributes of a CSR that \<open>pkix.Name\<close> has no field for are not part of it: they are only
  in its \<open>Names\<close>, which is ignored when a name is encoded.\<close>

record Name =
  n_CommonName :: string
  n_rest :: "(string \<times> string) list"

definition cn :: "string \<Rightarrow> Name" where
  "cn s = \<lparr>n_CommonName = s, n_rest = []\<rparr>"

text \<open>The value of an extension is read as the identifiers it encodes, which is what an extended key usage is;
  other values are never looked at.\<close>

record Extension =
  ext_Id :: "nat list"
  ext_Critical :: bool
  ext_Value :: "nat list list"

record Certificate =
  SerialNumber :: int
  x_Subject :: Name
  x_Issuer :: Name
  x_NotBefore :: time
  x_NotAfter :: time
  x_KeyUsage :: int
  x_ExtKeyUsage :: "ExtKeyUsage list"
  x_ExtraExtensions :: "Extension list"
  x_Extensions :: "Extension list"
  x_DNSNames :: "string list"
  x_BasicConstraintsValid :: bool
  x_IsCA :: bool
  x_MaxPathLen :: int
  x_MaxPathLenZero :: bool
  x_IssuingCertificateURL :: "string list"
  x_OCSPServer :: "string list"
  x_CRLDistributionPoints :: "string list"
  x_SubjectKeyId :: string
  x_AuthorityKeyId :: string
  x_PublicKey :: pubkey
  x_Raw :: string

record Issuer =
  i_Cert :: Certificate
  i_Signer :: signer

record CertificateRequest =
  csr_Subject :: Name
  csr_PublicKey :: pubkey
  csr_DNSNames :: "string list"
  csr_PublicKeyAlgorithm :: string

record CertRequest =
  cr_Subject :: Name
  cr_PublicKey :: pubkey
  cr_NotBefore :: time
  cr_NotAfter :: time
  cr_IsCA :: bool
  cr_PathLenZero :: bool
  cr_KeyUsage :: int
  cr_ExtKeyUsage :: "ExtKeyUsage list"
  cr_CriticalExtKeyUsage :: bool
  cr_DNSNames :: "string list"
  cr_AIAIssuerURL :: string
  cr_OCSPURL :: string
  cr_CRLURL :: string

record pki_prims =
  MarshalPKIXPublicKey :: "pubkey \<Rightarrow> string option"
  spki_bits :: "string \<Rightarrow> string option"
  sha1_Sum :: "string \<Rightarrow> string"
  CreateCertificate :: "Certificate \<Rightarrow> Certificate \<Rightarrow> pubkey \<Rightarrow> signer \<Rightarrow> string option"
  ParseCertificate :: "string \<Rightarrow> Certificate option"
  pem_Encode :: "string \<Rightarrow> string"
  pem_Decode :: "string \<Rightarrow> string option"
  ParseCertificateRequest :: "string \<Rightarrow> CertificateRequest option"
  CheckSignature :: "string \<Rightarrow> bool"
  Name_String :: "Name \<Rightarrow> string"

datatype pki_error = PkiError string

section \<open>Serial numbers\<close>

definition serialBytes :: nat where "serialBytes = 20"

text \<open>\<open>buf[0] &= 0x7F\<close>\<close>

definition clear_top_bit :: "string \<Rightarrow> string" where
  "clear_top_bit buf = (case buf of [] \<Rightarrow> [] | c # cs \<Rightarrow> char_of ((of_char c :: nat) AND 0x7F) # cs)"

definition GenerateSerial :: "('x world_scheme, pki_error + int) state" where
  "GenerateSerial = do {
     r \<leftarrow> rand_Read serialBytes;
     (case r of
        None \<Rightarrow> ret (Inl (PkiError ''generating serial''))
      | Some buf \<Rightarrow> ret (Inr (int (SetBytes (clear_top_bit buf)))))
   }"

section \<open>Templates\<close>

definition oidExtKeyUsage :: "nat list" where "oidExtKeyUsage = [2, 5, 29, 37]"

definition extKeyUsageOIDs :: "ExtKeyUsage \<Rightarrow> nat list option" where
  "extKeyUsageOIDs e = (case e of
     ExtKeyUsageServerAuth \<Rightarrow> Some [1, 3, 6, 1, 5, 5, 7, 3, 1]
   | ExtKeyUsageClientAuth \<Rightarrow> Some [1, 3, 6, 1, 5, 5, 7, 3, 2]
   | ExtKeyUsageCodeSigning \<Rightarrow> Some [1, 3, 6, 1, 5, 5, 7, 3, 3]
   | ExtKeyUsageEmailProtection \<Rightarrow> Some [1, 3, 6, 1, 5, 5, 7, 3, 4]
   | ExtKeyUsageTimeStamping \<Rightarrow> Some [1, 3, 6, 1, 5, 5, 7, 3, 8]
   | ExtKeyUsageOCSPSigning \<Rightarrow> Some [1, 3, 6, 1, 5, 5, 7, 3, 9]
   | ExtKeyUsageOther _ \<Rightarrow> None)"

fun eku_oids :: "ExtKeyUsage list \<Rightarrow> pki_error + nat list list" where
  "eku_oids [] = Inr []"
| "eku_oids (e # es) =
     (case extKeyUsageOIDs e of
        None \<Rightarrow> Inl (PkiError ''no OID mapping for ExtKeyUsage'')
      | Some oid \<Rightarrow> (case eku_oids es of Inl err \<Rightarrow> Inl err | Inr oids \<Rightarrow> Inr (oid # oids)))"

definition critical_eku :: "nat list list \<Rightarrow> Extension" where
  "critical_eku oids = \<lparr>ext_Id = oidExtKeyUsage, ext_Critical = True, ext_Value = oids\<rparr>"

definition one_url :: "string \<Rightarrow> string list" where
  "one_url u = (if u \<noteq> [] then [u] else [])"

text \<open>
  The template for a serial. Go leaves \<open>MaxPathLen\<close> and \<open>MaxPathLenZero\<close> at their zero values
  except for a CA with path length zero. The extension value is the list of identifiers
  \<open>asn1.Marshal\<close> encodes, which cannot fail for these.
\<close>

definition template :: "CertRequest \<Rightarrow> int \<Rightarrow> pki_error + Certificate" where
  "template req serial =
     (let tmpl = \<lparr>SerialNumber = serial, x_Subject = cr_Subject req, x_Issuer = cn [],
            x_NotBefore = cr_NotBefore req, x_NotAfter = cr_NotAfter req,
            x_KeyUsage = cr_KeyUsage req, x_ExtKeyUsage = [], x_ExtraExtensions = [],
            x_Extensions = [], x_DNSNames = cr_DNSNames req, x_BasicConstraintsValid = True, x_IsCA = cr_IsCA req,
            x_MaxPathLen = 0, x_MaxPathLenZero = cr_IsCA req \<and> cr_PathLenZero req,
            x_IssuingCertificateURL = one_url (cr_AIAIssuerURL req),
            x_OCSPServer = one_url (cr_OCSPURL req),
            x_CRLDistributionPoints = one_url (cr_CRLURL req),
            x_SubjectKeyId = [], x_AuthorityKeyId = [], x_PublicKey = KeyOther [], x_Raw = []\<rparr>
      in if cr_CriticalExtKeyUsage req
         then (case eku_oids (cr_ExtKeyUsage req) of
                 Inl e \<Rightarrow> Inl e
               | Inr oids \<Rightarrow> Inr (tmpl\<lparr>x_ExtraExtensions := [critical_eku oids]\<rparr>))
         else Inr (tmpl\<lparr>x_ExtKeyUsage := cr_ExtKeyUsage req\<rparr>))"

definition buildTemplate :: "CertRequest \<Rightarrow> ('x world_scheme, pki_error + Certificate) state" where
  "buildTemplate req = do {
     s \<leftarrow> GenerateSerial;
     (case s of Inl e \<Rightarrow> ret (Inl e) | Inr serial \<Rightarrow> ret (template req serial))
   }"

definition leaf_request ::
    "Profile \<Rightarrow> Name \<Rightarrow> pubkey \<Rightarrow> time \<Rightarrow> time \<Rightarrow> string list \<Rightarrow> CertRequest" where
  "leaf_request profile subject pub notBefore notAfter dnsNames =
     \<lparr>cr_Subject = subject, cr_PublicKey = pub, cr_NotBefore = notBefore, cr_NotAfter = notAfter,
      cr_IsCA = False, cr_PathLenZero = False, cr_KeyUsage = p_KeyUsage profile,
      cr_ExtKeyUsage = p_ExtKeyUsage profile, cr_CriticalExtKeyUsage = p_CriticalEKU profile,
      cr_DNSNames = dnsNames, cr_AIAIssuerURL = p_AIATemplate profile,
      cr_OCSPURL = (if p_EnableOCSP profile then p_OCSPTemplate profile else []),
      cr_CRLURL = (if p_EnableCRL profile then p_CDPTemplate profile else [])\<rparr>"

definition LeafTemplate ::
    "Profile \<Rightarrow> Name \<Rightarrow> pubkey \<Rightarrow> time \<Rightarrow> time \<Rightarrow> string list \<Rightarrow>
     ('x world_scheme, pki_error + Certificate) state" where
  "LeafTemplate profile subject pub notBefore notAfter dnsNames =
     buildTemplate (leaf_request profile subject pub notBefore notAfter dnsNames)"

section \<open>Signing\<close>

definition subjectKeyID :: "pki_prims \<Rightarrow> pubkey \<Rightarrow> pki_error + string" where
  "subjectKeyID P pub =
     (case MarshalPKIXPublicKey P pub of
        None \<Rightarrow> Inl (PkiError ''marshalling public key'')
      | Some der \<Rightarrow>
          (case spki_bits P der of
             None \<Rightarrow> Inl (PkiError ''parsing SubjectPublicKeyInfo'')
           | Some bits \<Rightarrow> Inr (sha1_Sum P bits)))"

definition sign_template ::
    "pki_prims \<Rightarrow> Certificate \<Rightarrow> Certificate \<Rightarrow> pubkey \<Rightarrow> signer \<Rightarrow> pki_error + Certificate" where
  "sign_template P tmpl parent pub sg =
     (case CreateCertificate P tmpl parent pub sg of
        None \<Rightarrow> Inl (PkiError ''creating certificate'')
      | Some der \<Rightarrow>
          (case ParseCertificate P der of
             None \<Rightarrow> Inl (PkiError ''parsing certificate'')
           | Some cert \<Rightarrow> Inr cert))"

definition IssueLeaf ::
    "pki_prims \<Rightarrow> Profile \<Rightarrow> Name \<Rightarrow> pubkey \<Rightarrow> Issuer \<Rightarrow> time \<Rightarrow> time \<Rightarrow> string list \<Rightarrow>
     ('x world_scheme, pki_error + Certificate) state" where
  "IssueLeaf P profile subject pub issuer notBefore notAfter dnsNames = do {
     t \<leftarrow> LeafTemplate profile subject pub notBefore notAfter dnsNames;
     (case t of
        Inl e \<Rightarrow> ret (Inl e)
      | Inr tmpl \<Rightarrow>
          (case subjectKeyID P pub of
             Inl e \<Rightarrow> ret (Inl e)
           | Inr ski \<Rightarrow>
               ret (sign_template P
                 (tmpl\<lparr>x_SubjectKeyId := ski, x_AuthorityKeyId := x_SubjectKeyId (i_Cert issuer)\<rparr>)
                 (i_Cert issuer) pub (i_Signer issuer))))
   }"

definition SelfSignedCA ::
    "pki_prims \<Rightarrow> CertRequest \<Rightarrow> signer \<Rightarrow> ('x world_scheme, pki_error + Certificate) state" where
  "SelfSignedCA P req sg = do {
     let req' = req\<lparr>cr_PublicKey := sg_Public sg\<rparr>;
     t \<leftarrow> buildTemplate req';
     (case t of
        Inl e \<Rightarrow> ret (Inl e)
      | Inr tmpl \<Rightarrow>
          (case subjectKeyID P (cr_PublicKey req') of
             Inl e \<Rightarrow> ret (Inl e)
           | Inr ski \<Rightarrow>
               (let tmpl' = tmpl\<lparr>x_SubjectKeyId := ski, x_AuthorityKeyId := ski\<rparr>
                in ret (sign_template P tmpl' tmpl' (cr_PublicKey req') sg))))
   }"

definition IssueCA ::
    "pki_prims \<Rightarrow> CertRequest \<Rightarrow> Issuer \<Rightarrow> ('x world_scheme, pki_error + Certificate) state" where
  "IssueCA P req issuer = do {
     t \<leftarrow> buildTemplate req;
     (case t of
        Inl e \<Rightarrow> ret (Inl e)
      | Inr tmpl \<Rightarrow>
          (case subjectKeyID P (cr_PublicKey req) of
             Inl e \<Rightarrow> ret (Inl e)
           | Inr ski \<Rightarrow>
               ret (sign_template P
                 (tmpl\<lparr>x_SubjectKeyId := ski, x_AuthorityKeyId := x_SubjectKeyId (i_Cert issuer)\<rparr>)
                 (i_Cert issuer) (cr_PublicKey req) (i_Signer issuer))))
   }"

definition ParseCSR :: "pki_prims \<Rightarrow> string \<Rightarrow> pki_error + CertificateRequest" where
  "ParseCSR P data =
     (let der = (case pem_Decode P data of Some bytes \<Rightarrow> bytes | None \<Rightarrow> data)
      in case ParseCertificateRequest P der of
           None \<Rightarrow> Inl (PkiError ''parsing CSR'')
         | Some csr \<Rightarrow>
             (if \<not> CheckSignature P der then Inl (PkiError ''CSR signature verification failed'')
              else Inr csr))"

section \<open>What the program relies on in crypto/x509\<close>

text \<open>How extended key usages are put into a template: a critical extension of its own, with the library's list
  left empty, or the library's list. In the certificate that is read back the usages are the same, and the
  extension is marked critical exactly in the first case.\<close>

definition template_eku :: "Certificate \<Rightarrow> ExtKeyUsage list \<Rightarrow> bool \<Rightarrow> bool" where
  "template_eku tmpl es critical \<longleftrightarrow>
     (if critical
      then x_ExtKeyUsage tmpl = [] \<and> (\<exists>oids. eku_oids es = Inr oids \<and> x_ExtraExtensions tmpl = [critical_eku oids])
      else x_ExtKeyUsage tmpl = es \<and> x_ExtraExtensions tmpl = [])"

definition certificate_eku :: "Certificate \<Rightarrow> ExtKeyUsage list \<Rightarrow> bool \<Rightarrow> bool" where
  "certificate_eku c es critical \<longleftrightarrow> x_ExtKeyUsage c = es \<and>
     (if critical then \<exists>oids. eku_oids es = Inr oids \<and> critical_eku oids \<in> set (x_Extensions c)
      else \<forall>e\<in>set (x_Extensions c). ext_Id e = oidExtKeyUsage \<longrightarrow> \<not> ext_Critical e)"

text \<open>The templates the program signs. The library itself takes the authority key identifier from the parent, and
  makes up a subject key identifier for a CA that has none; the program sets both, and sets them so.\<close>

definition built_template :: "Certificate \<Rightarrow> Certificate \<Rightarrow> ExtKeyUsage list \<Rightarrow> bool \<Rightarrow> bool" where
  "built_template tmpl parent es critical \<longleftrightarrow>
     x_BasicConstraintsValid tmpl \<and> x_AuthorityKeyId tmpl = x_SubjectKeyId parent \<and>
     (x_IsCA tmpl \<longrightarrow> x_SubjectKeyId tmpl \<noteq> []) \<and> template_eku tmpl es critical"

text \<open>The nine key usages that X.509 defines.\<close>

definition defined_usage :: "int \<Rightarrow> bool" where
  "defined_usage ku \<longleftrightarrow> 0 \<le> ku \<and> ku < 512"

definition certificate_of ::
    "Certificate \<Rightarrow> Certificate \<Rightarrow> pubkey \<Rightarrow> string \<Rightarrow> ExtKeyUsage list \<Rightarrow> bool \<Rightarrow> Certificate \<Rightarrow> bool" where
  "certificate_of tmpl parent pub der es critical c \<longleftrightarrow>
     SerialNumber c = SerialNumber tmpl \<and> x_Subject c = x_Subject tmpl \<and>
     x_Issuer c = x_Subject parent \<and>
     x_NotBefore c = Truncate_second (x_NotBefore tmpl) \<and>
     x_NotAfter c = Truncate_second (x_NotAfter tmpl) \<and>
     (defined_usage (x_KeyUsage tmpl) \<longrightarrow> x_KeyUsage c = x_KeyUsage tmpl) \<and>
     certificate_eku c es critical \<and> x_DNSNames c = x_DNSNames tmpl \<and> x_IsCA c = x_IsCA tmpl \<and>
     x_IssuingCertificateURL c = x_IssuingCertificateURL tmpl \<and>
     x_OCSPServer c = x_OCSPServer tmpl \<and>
     x_CRLDistributionPoints c = x_CRLDistributionPoints tmpl \<and>
     x_SubjectKeyId c = x_SubjectKeyId tmpl \<and> x_AuthorityKeyId c = x_AuthorityKeyId tmpl \<and>
     x_PublicKey c = pub \<and> x_Raw c = der"

definition x509_faithful :: "pki_prims \<Rightarrow> bool" where
  "x509_faithful P \<longleftrightarrow> (\<forall>tmpl parent pub sg der es critical c.
     built_template tmpl parent es critical \<longrightarrow> CreateCertificate P tmpl parent pub sg = Some der \<longrightarrow>
     ParseCertificate P der = Some c \<longrightarrow> certificate_of tmpl parent pub der es critical c)"

section \<open>Serials are positive 159-bit numbers\<close>

lemma SetBytes_Cons: "SetBytes (c # cs) = of_char c * 256 ^ length cs + SetBytes cs"
proof (induction cs rule: rev_induct)
  case (snoc d ds)
  have "SetBytes (c # ds @ [d]) = 256 * SetBytes (c # ds) + of_char d"
    using SetBytes_snoc [of "c # ds" d] by simp
  with snoc show ?case by (simp add: algebra_simps)
qed (simp add: SetBytes_def)

lemma and_7F_less: "(m :: nat) AND 0x7F < 128"
proof -
  have "m AND 0x7F = take_bit 7 m"
    by (simp add: take_bit_eq_mask mask_eq_exp_minus_1)
  then show ?thesis
    using take_bit_nat_less_exp [of 7 m] by simp
qed

lemma clear_top_bit_bound:
  assumes "length buf = Suc n"
  shows "SetBytes (clear_top_bit buf) < 128 * 256 ^ n"
proof -
  obtain c cs where buf: "buf = c # cs" "length cs = n"
    using assms by (cases buf) auto
  define h where "h = (of_char c :: nat) AND 0x7F"
  have h: "h \<le> 127"
    using and_7F_less [of "of_char c"] by (simp add: h_def)
  then have "of_char (char_of h) = h"
    by (simp add: take_bit_nat_eq_self)
  then have "SetBytes (clear_top_bit buf) = h * 256 ^ n + SetBytes cs"
    by (simp add: clear_top_bit_def buf SetBytes_Cons flip: h_def)
  also have "\<dots> < h * 256 ^ n + 256 ^ n"
    using SetBytes_bound [of cs] buf(2) by simp
  also have "\<dots> = (h + 1) * 256 ^ n"
    by simp
  also have "\<dots> \<le> 128 * 256 ^ n"
    using h by (intro mult_right_mono) auto
  finally show ?thesis .
qed

lemma wp_GenerateSerial [wps]:
  assumes "\<And>s rs. 0 \<le> s \<Longrightarrow> s < 2 ^ 159 \<Longrightarrow> Q (Inr s) (w\<lparr>rand_tape := rs\<rparr>)"
    and "\<And>e rs. Q (Inl e) (w\<lparr>rand_tape := rs\<rparr>)"
  shows "wp GenerateSerial Q w"
proof -
  have "int (SetBytes (clear_top_bit r)) < 2 ^ 159" if "length r = serialBytes" for r
    using clear_top_bit_bound [of r 19] that by (simp add: serialBytes_def)
  with assms show ?thesis
    unfolding GenerateSerial_def by (auto intro!: wps)
qed

lemma template_serial: "template req serial = Inr t \<Longrightarrow> SerialNumber t = serial"
  by (auto simp: template_def Let_def split: if_splits sum.splits)

lemma template_fields:
  "template req serial = Inr t \<Longrightarrow>
     x_Subject t = cr_Subject req \<and> x_NotBefore t = cr_NotBefore req \<and> x_NotAfter t = cr_NotAfter req \<and>
     x_KeyUsage t = cr_KeyUsage req \<and> x_DNSNames t = cr_DNSNames req \<and> x_IsCA t = cr_IsCA req \<and>
     x_IssuingCertificateURL t = one_url (cr_AIAIssuerURL req) \<and>
     x_OCSPServer t = one_url (cr_OCSPURL req) \<and> x_CRLDistributionPoints t = one_url (cr_CRLURL req)"
  by (auto simp: template_def Let_def split: if_splits sum.splits)

lemma template_usages:
  "template req serial = Inr t \<Longrightarrow> template_eku t (cr_ExtKeyUsage req) (cr_CriticalExtKeyUsage req)"
  by (auto simp: template_def template_eku_def Let_def split: if_splits sum.splits)

text \<open>A template for a leaf is of the shape that \<open>x509_faithful\<close> speaks about.\<close>

lemma leaf_template_built:
  assumes "template (leaf_request p sub pub nb na dns) s = Inr t"
  shows "built_template (t\<lparr>x_SubjectKeyId := ski, x_AuthorityKeyId := x_SubjectKeyId parent\<rparr>) parent
    (p_ExtKeyUsage p) (p_CriticalEKU p)"
proof -
  have "x_BasicConstraintsValid t" "\<not> x_IsCA t"
    using assms by (auto simp: template_def leaf_request_def Let_def split: if_splits sum.splits)
  then show ?thesis
    using template_usages [OF assms] by (simp add: built_template_def template_eku_def leaf_request_def)
qed

lemma wp_LeafTemplate [wps]:
  assumes "\<And>s t rs. 0 \<le> s \<Longrightarrow> s < 2 ^ 159 \<Longrightarrow>
      template (leaf_request p sub pub nb na dns) s = Inr t \<Longrightarrow> Q (Inr t) (w\<lparr>rand_tape := rs\<rparr>)"
    and "\<And>e rs. Q (Inl e) (w\<lparr>rand_tape := rs\<rparr>)"
  shows "wp (LeafTemplate p sub pub nb na dns) Q w"
  unfolding LeafTemplate_def buildTemplate_def
  using assms by (auto intro!: wps)
    (metis sum.exhaust)+

lemma keeps_GenerateSerial [keeps]: "state_io_rel ledger_le GenerateSerial"
  unfolding GenerateSerial_def by (auto intro!: keeps)

lemma keeps_buildTemplate [keeps]: "state_io_rel ledger_le (buildTemplate req)"
  unfolding buildTemplate_def by (auto intro!: keeps)

lemma keeps_LeafTemplate [keeps]: "state_io_rel ledger_le (LeafTemplate p sub pub nb na dns)"
  unfolding LeafTemplate_def by (auto intro!: keeps)

lemma keeps_IssueLeaf [keeps]: "state_io_rel ledger_le (IssueLeaf P p sub pub iss nb na dns)"
  unfolding IssueLeaf_def by (auto intro!: keeps)

lemma keeps_SelfSignedCA [keeps]: "state_io_rel ledger_le (SelfSignedCA P req sg)"
  unfolding SelfSignedCA_def by (auto simp: Let_def intro!: keeps)

lemma keeps_IssueCA [keeps]: "state_io_rel ledger_le (IssueCA P req iss)"
  unfolding IssueCA_def by (auto intro!: keeps)

text \<open>A leaf certificate is what its profile and the request say, made by the library with the certificate and the
  key of the issuer.\<close>

definition leaf_of ::
    "pki_prims \<Rightarrow> Profile \<Rightarrow> Name \<Rightarrow> pubkey \<Rightarrow> Issuer \<Rightarrow> time \<Rightarrow> time \<Rightarrow> string list \<Rightarrow> Certificate \<Rightarrow> bool" where
  "leaf_of P p sub pub iss nb na dns c \<longleftrightarrow>
     0 \<le> SerialNumber c \<and> SerialNumber c < 2 ^ 159 \<and> \<not> x_IsCA c \<and>
     x_Subject c = sub \<and> x_PublicKey c = pub \<and> x_DNSNames c = dns \<and>
     x_Issuer c = x_Subject (i_Cert iss) \<and> x_AuthorityKeyId c = x_SubjectKeyId (i_Cert iss) \<and>
     x_NotBefore c = Truncate_second nb \<and> x_NotAfter c = Truncate_second na \<and>
     (defined_usage (p_KeyUsage p) \<longrightarrow> x_KeyUsage c = p_KeyUsage p) \<and>
     certificate_eku c (p_ExtKeyUsage p) (p_CriticalEKU p) \<and>
     x_IssuingCertificateURL c = one_url (p_AIATemplate p) \<and>
     x_OCSPServer c = (if p_EnableOCSP p then one_url (p_OCSPTemplate p) else []) \<and>
     x_CRLDistributionPoints c = (if p_EnableCRL p then one_url (p_CDPTemplate p) else []) \<and>
     (\<exists>tmpl. CreateCertificate P tmpl (i_Cert iss) pub (i_Signer iss) = Some (x_Raw c)) \<and>
     ParseCertificate P (x_Raw c) = Some c"

lemma sign_template_leaf:
  assumes "x509_faithful P" and "template (leaf_request p sub pub nb na dns) s = Inr t"
    and "0 \<le> s" "s < 2 ^ 159"
    and "sign_template P (t\<lparr>x_SubjectKeyId := ski, x_AuthorityKeyId := x_SubjectKeyId (i_Cert iss)\<rparr>)
      (i_Cert iss) pub (i_Signer iss) = Inr c"
  shows "leaf_of P p sub pub iss nb na dns c"
proof -
  let ?t = "t\<lparr>x_SubjectKeyId := ski, x_AuthorityKeyId := x_SubjectKeyId (i_Cert iss)\<rparr>"
  obtain der where der: "CreateCertificate P ?t (i_Cert iss) pub (i_Signer iss) = Some der"
      "ParseCertificate P der = Some c"
    using assms(5) by (auto simp: sign_template_def split: option.splits)
  with assms(1) leaf_template_built [OF assms(2)]
  have "certificate_of ?t (i_Cert iss) pub der (p_ExtKeyUsage p) (p_CriticalEKU p) c"
    unfolding x509_faithful_def by blast
  moreover from this have "\<exists>tmpl. CreateCertificate P tmpl (i_Cert iss) pub (i_Signer iss) = Some (x_Raw c)"
    and "ParseCertificate P (x_Raw c) = Some c"
    using der by (auto simp: certificate_of_def)
  ultimately show ?thesis
    using template_fields [OF assms(2)] template_serial [OF assms(2)] assms(3,4)
    by (auto simp: leaf_of_def certificate_of_def leaf_request_def one_url_def)
qed

lemma wp_IssueLeaf [wps]:
  assumes "\<And>c rs. (x509_faithful P \<longrightarrow> leaf_of P p sub pub iss nb na dns c) \<Longrightarrow> Q (Inr c) (w\<lparr>rand_tape := rs\<rparr>)"
    and "\<And>e rs. Q (Inl e) (w\<lparr>rand_tape := rs\<rparr>)"
  shows "wp (IssueLeaf P p sub pub iss nb na dns) Q w"
proof -
  have "Q (sign_template P (t\<lparr>x_SubjectKeyId := ski, x_AuthorityKeyId := x_SubjectKeyId (i_Cert iss)\<rparr>)
      (i_Cert iss) pub (i_Signer iss)) (w\<lparr>rand_tape := rs\<rparr>)"
    if "0 \<le> s" "s < 2 ^ 159" "template (leaf_request p sub pub nb na dns) s = Inr t" for s t ski rs
    using that assms sign_template_leaf [OF _ that(3,1,2)]
    by (cases "sign_template P (t\<lparr>x_SubjectKeyId := ski,
          x_AuthorityKeyId := x_SubjectKeyId (i_Cert iss)\<rparr>) (i_Cert iss) pub (i_Signer iss)") auto
  with assms(2) show ?thesis
    unfolding IssueLeaf_def by (auto intro!: wp_LeafTemplate split: sum.splits)
qed

end
