(* ===== verification/Keystore.thy ===== *)
theory Keystore
  imports Pki
begin

text \<open>
  Where private keys live, \<open>internal/keystore\<close>: \<open>FreshRef\<close>, the loading of a secret from the
  environment, and the encrypted file-per-key store. The interface \<open>KeyStore\<close> is the locale
  \<open>key_store\<close>, whose laws are discharged for \<open>FileKeyStore\<close> here and for the other backends in
  \<open>Keystore_Remote\<close>; \<open>ref_ok\<close> are the references a backend takes. File operations take an entry of the
  fault tape, as SQL statements do. Key generation, PKCS#8 and the Argon2id/AES-GCM envelope are
  parameters. \<open>Generate\<close> runs under a lock per reference and is one step here; \<open>Ref_Lock\<close> has it step by step, with
  several goroutines.
\<close>

type_synonym KeyRef = string

datatype ks_error =
    KeyAlreadyExists KeyRef
  | KeyNotFound KeyRef
  | UnsupportedAlgorithm Algorithm
  | KeyUndecodable KeyRef
  | KeyUndecryptable KeyRef
  | KeyUnparsable KeyRef
  | NotASigner KeyRef
  | NoUnusedRef string
  | EntropyFailed
  | IOFailed
  | EmptyPassphrase
  | SecretEmpty string
  | SecretUnset
  | Unconfigured string
  | UnexpectedStatus KeyRef nat
  | BadAnswer KeyRef

section \<open>A reference not in use\<close>

definition freshRefAttempts :: nat where "freshRefAttempts = 5"

fun fresh_ref_loop ::
    "(KeyRef \<Rightarrow> ('x world_scheme, ks_error + bool) state) \<Rightarrow> string \<Rightarrow> nat \<Rightarrow>
     ('x world_scheme, ks_error + KeyRef) state" where
  "fresh_ref_loop ex pre 0 = ret (Inl (NoUnusedRef pre))"
| "fresh_ref_loop ex pre (Suc n) = do {
     buf \<leftarrow> rand_Read 4;
     (case buf of
        None \<Rightarrow> ret (Inl EntropyFailed)
      | Some b \<Rightarrow> do {
          let r = pre @ ''-'' @ hex_EncodeToString b;
          e \<leftarrow> ex r;
          (case e of
             Inl err \<Rightarrow> ret (Inl err)
           | Inr present \<Rightarrow> (if \<not> present then ret (Inr r) else fresh_ref_loop ex pre n))
        })
   }"

definition FreshRef ::
    "(KeyRef \<Rightarrow> ('x world_scheme, ks_error + bool) state) \<Rightarrow> string \<Rightarrow>
     ('x world_scheme, ks_error + KeyRef) state" where
  "FreshRef ex pre = fresh_ref_loop ex pre freshRefAttempts"

section \<open>Secrets from the environment\<close>

text \<open>\<open>env\<close> is the process environment, \<open>readFile\<close> the content of a file or \<open>None\<close>.\<close>

definition loadSecret ::
    "(string \<Rightarrow> string option) \<Rightarrow> (string \<Rightarrow> string option) \<Rightarrow> string \<Rightarrow> string \<Rightarrow> ks_error + string" where
  "loadSecret env readFile fileEnvVar literalEnvVar =
     (case env fileEnvVar of
        Some path \<Rightarrow>
          (case readFile path of
             None \<Rightarrow> Inl IOFailed
           | Some data \<Rightarrow>
               (let secret = TrimRight data (map char_of [13 :: nat, 10])
                in if secret = [] then Inl (SecretEmpty fileEnvVar) else Inr secret))
      | None \<Rightarrow>
          (case env literalEnvVar of
             Some v \<Rightarrow> if v = [] then Inl (SecretEmpty literalEnvVar) else Inr v
           | None \<Rightarrow> Inl SecretUnset))"

definition LoadKEK ::
    "(string \<Rightarrow> string option) \<Rightarrow> (string \<Rightarrow> string option) \<Rightarrow> ks_error + string" where
  "LoadKEK env readFile = loadSecret env readFile ''TRUSTMATE_KEK_FILE'' ''TRUSTMATE_KEK''"

definition LoadPKCS11PIN ::
    "(string \<Rightarrow> string option) \<Rightarrow> (string \<Rightarrow> string option) \<Rightarrow> ks_error + string" where
  "LoadPKCS11PIN env readFile =
     loadSecret env readFile ''TRUSTMATE_PKCS11_PIN_FILE'' ''TRUSTMATE_PKCS11_PIN''"

section \<open>The file key store\<close>

record keyFile =
  kf_Version :: int
  kf_KeyAlgorithm :: Algorithm
  kf_KDF :: string
  kf_Salt :: string
  kf_Nonce :: string
  kf_Ciphertext :: string
  kf_CreatedAt :: time

datatype file_content = Envelope keyFile | Junk

record FileKeyStore =
  fk_dir :: string
  fk_passphrase :: string
  fk_disk :: "(string \<times> file_content) list"
  fk_cached :: "(KeyRef \<times> signer) list"

record ks_prims =
  GenerateKey :: "Algorithm \<Rightarrow> string \<Rightarrow> signer option"
  MarshalPKCS8PrivateKey :: "signer \<Rightarrow> string option"
  ParsePKCS8PrivateKey :: "string \<Rightarrow> signer option option"
  gcm_Seal :: "string \<Rightarrow> string \<Rightarrow> string \<Rightarrow> string \<Rightarrow> string"
  gcm_Open :: "string \<Rightarrow> string \<Rightarrow> string \<Rightarrow> string \<Rightarrow> string option"

definition saltLen :: nat where "saltLen = 16"
definition NonceSize :: nat where "NonceSize = 12"

definition io :: "('x world_scheme, fault) state" where
  "io = State (\<lambda>w. (next_fault w, drop_fault w))"

definition put :: "'k \<Rightarrow> 'v \<Rightarrow> ('k \<times> 'v) list \<Rightarrow> ('k \<times> 'v) list" where
  "put k v m = (k, v) # filter (\<lambda>(k', _). k' \<noteq> k) m"

definition NewFileKeyStore ::
    "string \<Rightarrow> string \<Rightarrow> (string \<times> file_content) list \<Rightarrow> ('x world_scheme, ks_error + FileKeyStore) state" where
  "NewFileKeyStore dir passphrase disk =
     (if passphrase = [] then ret (Inl EmptyPassphrase)
      else do {
        f \<leftarrow> io;
        (if f \<noteq> Runs then ret (Inl IOFailed)
         else ret (Inr \<lparr>fk_dir = dir, fk_passphrase = passphrase, fk_disk = disk, fk_cached = []\<rparr>))
      })"

text \<open>\<open>filepath.Join\<close> for plain names, as the references of \<open>internal/bootstrap\<close> and \<open>FreshRef\<close> are: there it cleans only the
  configured directory, which changes no file that is meant.\<close>

definition path :: "FileKeyStore \<Rightarrow> KeyRef \<Rightarrow> string" where
  "path ks r = fk_dir ks @ ''/'' @ r @ ''.json''"

definition FileKeyStore_Exists ::
    "FileKeyStore \<Rightarrow> KeyRef \<Rightarrow> ('x world_scheme, ks_error + bool) state" where
  "FileKeyStore_Exists ks r = do {
     f \<leftarrow> io;
     (if f \<noteq> Runs then ret (Inl IOFailed)
      else ret (Inr (map_of (fk_disk ks) (path ks r) \<noteq> None)))
   }"

definition generateKey ::
    "ks_prims \<Rightarrow> Algorithm \<Rightarrow> ('x world_scheme, ks_error + signer \<times> string) state" where
  "generateKey P alg =
     (if alg = AlgorithmECDSAP256 \<or> alg = AlgorithmRSA2048 then do {
        r \<leftarrow> rand_Read 32;
        (case r of
           None \<Rightarrow> ret (Inl EntropyFailed)
         | Some seed \<Rightarrow>
             (case GenerateKey P alg seed of
                None \<Rightarrow> ret (Inl EntropyFailed)
              | Some sg \<Rightarrow>
                  (case MarshalPKCS8PrivateKey P sg of
                     None \<Rightarrow> ret (Inl (KeyUnparsable []))
                   | Some der \<Rightarrow> ret (Inr (sg, der)))))
      }
      else ret (Inl (UnsupportedAlgorithm alg)))"

text \<open>The file is written beside its place and renamed onto it; a failed write may leave the
  temporary file behind.\<close>

definition writeKeyFileAtomic ::
    "FileKeyStore \<Rightarrow> string \<Rightarrow> keyFile \<Rightarrow> ('x world_scheme, (ks_error + unit) \<times> FileKeyStore) state" where
  "writeKeyFileAtomic ks p kf = do {
     let tmp = p @ ''.tmp'';
     f \<leftarrow> io;
     (if f \<noteq> Runs
      then ret (Inl IOFailed,
                if f = AckLost then ks\<lparr>fk_disk := put tmp (Envelope kf) (fk_disk ks)\<rparr> else ks)
      else do {
        g \<leftarrow> io;
        (let moved = ks\<lparr>fk_disk := put p (Envelope kf) (filter (\<lambda>(q, _). q \<noteq> tmp) (fk_disk ks))\<rparr>;
             left = ks\<lparr>fk_disk := put tmp (Envelope kf) (fk_disk ks)\<rparr>
         in case g of
              Runs \<Rightarrow> ret (Inr (), moved)
            | StmtFails \<Rightarrow> ret (Inl IOFailed, left)
            | AckLost \<Rightarrow> ret (Inl IOFailed, moved))
      })
   }"

definition FileKeyStore_Generate ::
    "ks_prims \<Rightarrow> FileKeyStore \<Rightarrow> KeyRef \<Rightarrow> Algorithm \<Rightarrow>
     ('x world_scheme, (ks_error + signer) \<times> FileKeyStore) state" where
  "FileKeyStore_Generate P ks r alg = do {
     e \<leftarrow> FileKeyStore_Exists ks r;
     (case e of
        Inl err \<Rightarrow> ret (Inl err, ks)
      | Inr present \<Rightarrow>
          (if present then ret (Inl (KeyAlreadyExists r), ks)
           else do {
             g \<leftarrow> generateKey P alg;
             (case g of
                Inl err \<Rightarrow> ret (Inl err, ks)
              | Inr (sg, der) \<Rightarrow> do {
                  s \<leftarrow> rand_Read saltLen;
                  n \<leftarrow> (case s of None \<Rightarrow> ret None | Some _ \<Rightarrow> rand_Read NonceSize);
                  (case (s, n) of
                     (Some salt, Some nonce) \<Rightarrow> do {
                       now \<leftarrow> time_Now;
                       (res, ks') \<leftarrow> writeKeyFileAtomic ks (path ks r)
                         \<lparr>kf_Version = 1, kf_KeyAlgorithm = alg, kf_KDF = ''argon2id'',
                          kf_Salt = salt, kf_Nonce = nonce,
                          kf_Ciphertext = gcm_Seal P (fk_passphrase ks) salt nonce der,
                          kf_CreatedAt = now\<rparr>;
                       (case res of
                          Inl err \<Rightarrow> ret (Inl err, ks')
                        | Inr _ \<Rightarrow> ret (Inr sg, ks'\<lparr>fk_cached := put r sg (fk_cached ks')\<rparr>))
                     }
                   | _ \<Rightarrow> ret (Inl EntropyFailed, ks))
                })
           }))
   }"

definition unseal :: "ks_prims \<Rightarrow> string \<Rightarrow> KeyRef \<Rightarrow> file_content \<Rightarrow> ks_error + signer" where
  "unseal P passphrase r c =
     (case c of
        Junk \<Rightarrow> Inl (KeyUndecodable r)
      | Envelope kf \<Rightarrow>
          (case gcm_Open P passphrase (kf_Salt kf) (kf_Nonce kf) (kf_Ciphertext kf) of
             None \<Rightarrow> Inl (KeyUndecryptable r)
           | Some der \<Rightarrow>
               (case ParsePKCS8PrivateKey P der of
                  None \<Rightarrow> Inl (KeyUnparsable r)
                | Some None \<Rightarrow> Inl (NotASigner r)
                | Some (Some sg) \<Rightarrow> Inr sg)))"

definition FileKeyStore_Get ::
    "ks_prims \<Rightarrow> FileKeyStore \<Rightarrow> KeyRef \<Rightarrow>
     ('x world_scheme, (ks_error + signer) \<times> FileKeyStore) state" where
  "FileKeyStore_Get P ks r =
     (case map_of (fk_cached ks) r of
        Some sg \<Rightarrow> ret (Inr sg, ks)
      | None \<Rightarrow> do {
          f \<leftarrow> io;
          (if f \<noteq> Runs then ret (Inl IOFailed, ks)
           else case map_of (fk_disk ks) (path ks r) of
             None \<Rightarrow> ret (Inl (KeyNotFound r), ks)
           | Some c \<Rightarrow>
               (case unseal P (fk_passphrase ks) r c of
                  Inl err \<Rightarrow> ret (Inl err, ks)
                | Inr sg \<Rightarrow> ret (Inr sg, ks\<lparr>fk_cached := put r sg (fk_cached ks)\<rparr>)))
        })"

section \<open>The interface\<close>

locale key_store =
  fixes Exists :: "'k \<Rightarrow> KeyRef \<Rightarrow> ('x world_scheme, ks_error + bool) state"
    and Generate :: "'k \<Rightarrow> KeyRef \<Rightarrow> Algorithm \<Rightarrow> ('x world_scheme, (ks_error + 's) \<times> 'k) state"
    and Get :: "'k \<Rightarrow> KeyRef \<Rightarrow> ('x world_scheme, (ks_error + 's) \<times> 'k) state"
    and present :: "'k \<Rightarrow> KeyRef \<Rightarrow> bool"
    and stored :: "'k \<Rightarrow> KeyRef \<Rightarrow> 's option"
    and ok :: "'k \<Rightarrow> bool"
    and ref_ok :: "KeyRef \<Rightarrow> bool"
  assumes exists_tells: "wp (Exists k r) (\<lambda>a _. \<forall>b. a = Inr b \<longrightarrow> b = present k r) w"
    and generate_new: "ok k \<Longrightarrow> ref_ok r \<Longrightarrow> wp (Generate k r alg) (\<lambda>(a, k') _. ok k' \<and>
      (\<forall>sg. a = Inr sg \<longrightarrow> \<not> present k r \<and> present k' r \<and> stored k' r = Some sg) \<and>
      (\<forall>r'. ref_ok r' \<longrightarrow> present k r' \<longrightarrow> present k' r' \<and> stored k' r' = stored k r')) w"
    and get_tells: "ok k \<Longrightarrow> wp (Get k r) (\<lambda>(a, k') _. ok k' \<and>
      (\<forall>sg. a = Inr sg \<longrightarrow> stored k r = Some sg) \<and>
      (\<forall>r'. present k' r' = present k r' \<and> stored k' r' = stored k r')) w"
begin

inductive evolves :: "'k \<Rightarrow> 'k \<Rightarrow> bool" where
  same: "evolves k k"
| generated: "evolves k k1 \<Longrightarrow> ref_ok r \<Longrightarrow> run_state (Generate k1 r alg) w = ((a, k2), w') \<Longrightarrow> evolves k k2"
| fetched: "evolves k k1 \<Longrightarrow> run_state (Get k1 r) w = ((a, k2), w') \<Longrightarrow> evolves k k2"

lemma never_overwritten:
  assumes "evolves k k'" and "ref_ok r" and "ok k" and "present k r"
  shows "ok k' \<and> present k' r \<and> stored k' r = stored k r"
  using assms
proof (induction rule: evolves.induct)
  case (generated k k1 r1 alg w a k2 w')
  then have k1: "ok k1" "present k1 r" "stored k1 r = stored k r"
    by simp_all
  then show ?case
    using wp_run [OF generate_new [OF k1(1) generated.hyps(2)] generated.hyps(3)] assms(2) by simp
next
  case (fetched k k1 r1 w a k2 w')
  then have k1: "ok k1" "present k1 r" "stored k1 r = stored k r"
    by simp_all
  then show ?case
    using wp_run [OF get_tells [OF k1(1)] fetched.hyps(2)] by simp
qed simp

lemma evolved_ok: "evolves k k' \<Longrightarrow> ok k \<Longrightarrow> ok k'"
proof (induction rule: evolves.induct)
  case (generated k k1 r1 alg w a k2 w')
  then show ?case
    using wp_run [OF generate_new generated.hyps(3)] by simp
next
  case (fetched k k1 r1 w a k2 w')
  then show ?case
    using wp_run [OF get_tells fetched.hyps(2)] by simp
qed

lemma generated_key_is_kept:
  assumes "ok k" and "ref_ok r" and "run_state (Generate k r alg) w = ((Inr sg, k1), w1)" and "evolves k1 k2"
    and "run_state (Get k2 r) w2 = ((Inr sg', k3), w3)"
  shows "sg' = sg"
proof -
  have k1: "ok k1" "present k1 r" "stored k1 r = Some sg"
    using wp_run [OF generate_new [OF assms(1,2)] assms(3)] by auto
  with never_overwritten [OF assms(4,2)] have "ok k2" "stored k2 r = Some sg"
    by simp_all
  then show ?thesis
    using wp_run [OF get_tells assms(5)] by simp
qed

lemma wp_exists:
  assumes "\<And>b w'. b = present k r \<Longrightarrow> Q (Inr b) w'" and "\<And>e w'. Q (Inl e) w'"
  shows "wp (Exists k r) Q w"
proof (rule wp_mono [OF exists_tells])
  show "Q a t" if "\<forall>b. a = Inr b \<longrightarrow> b = present k r" for a t
    using that assms by (cases a) auto
qed

lemma fresh_ref_loop_unused:
  "wp (fresh_ref_loop (Exists k) pre n)
     (\<lambda>a _. \<forall>r. a = Inr r \<longrightarrow> \<not> present k r \<and> (\<exists>hex. length hex = 8 \<and> r = pre @ ''-'' @ hex)) w"
  by (induction n arbitrary: w) (auto simp: Let_def intro!: wp_rand_Read wp_exists)

lemma fresh_ref_unused:
  "wp (FreshRef (Exists k) pre)
     (\<lambda>a _. \<forall>r. a = Inr r \<longrightarrow> \<not> present k r \<and> (\<exists>hex. length hex = 8 \<and> r = pre @ ''-'' @ hex)) w"
  unfolding FreshRef_def by (rule fresh_ref_loop_unused)

end

section \<open>The file store keeps the contract\<close>

definition ks_faithful :: "ks_prims \<Rightarrow> bool" where
  "ks_faithful P \<longleftrightarrow>
     (\<forall>pw salt nonce d. gcm_Open P pw salt nonce (gcm_Seal P pw salt nonce d) = Some d) \<and>
     (\<forall>sg der. MarshalPKCS8PrivateKey P sg = Some der \<longrightarrow> ParsePKCS8PrivateKey P der = Some (Some sg))"

definition fks_present :: "FileKeyStore \<Rightarrow> KeyRef \<Rightarrow> bool" where
  "fks_present ks r \<longleftrightarrow> map_of (fk_disk ks) (path ks r) \<noteq> None"

definition fks_stored :: "ks_prims \<Rightarrow> FileKeyStore \<Rightarrow> KeyRef \<Rightarrow> signer option" where
  "fks_stored P ks r = (case map_of (fk_disk ks) (path ks r) of
     None \<Rightarrow> None
   | Some c \<Rightarrow> (case unseal P (fk_passphrase ks) r c of Inl _ \<Rightarrow> None | Inr sg \<Rightarrow> Some sg))"

definition fks_ok :: "ks_prims \<Rightarrow> FileKeyStore \<Rightarrow> bool" where
  "fks_ok P ks \<longleftrightarrow> ks_faithful P \<and>
     (\<forall>r sg. map_of (fk_cached ks) r = Some sg \<longrightarrow> fks_stored P ks r = Some sg)"

lemma map_of_filter_key: "map_of (filter (\<lambda>(k', _). k' \<noteq> k) m) x = (if x = k then None else map_of m x)"
  by (induction m) auto

lemma map_of_put [simp]: "map_of (put k v m) x = (if x = k then Some v else map_of m x)"
  by (auto simp: put_def map_of_filter_key)

lemma path_inject [simp]: "path ks r = path ks r' \<longleftrightarrow> r = r'"
  by (simp add: path_def)

lemma path_not_tmp [simp]: "path ks r \<noteq> path ks r' @ ''.tmp''" "path ks r' @ ''.tmp'' \<noteq> path ks r"
proof -
  have "last (path ks r) \<noteq> last (path ks r' @ ''.tmp'')"
    by (simp add: path_def)
  then show "path ks r \<noteq> path ks r' @ ''.tmp''" "path ks r' @ ''.tmp'' \<noteq> path ks r"
    by metis+
qed

lemma path_frame [simp]: "path (ks\<lparr>fk_disk := d\<rparr>) r = path ks r" "path (ks\<lparr>fk_cached := c\<rparr>) r = path ks r"
  by (simp_all add: path_def)

lemma wp_io [wps]: "(\<And>f fs. Q f (w\<lparr>faults := fs\<rparr>)) \<Longrightarrow> wp io Q w"
  by (simp add: wp_def io_def drop_fault_def)

lemma wp_writeKeyFileAtomic:
  assumes "\<And>ks' w'. (\<And>x. x \<noteq> r \<Longrightarrow> map_of (fk_disk ks') (path ks x) = map_of (fk_disk ks) (path ks x)) \<Longrightarrow>
      map_of (fk_disk ks') (path ks r) = Some (Envelope kf) \<Longrightarrow>
      ks' = ks\<lparr>fk_disk := fk_disk ks'\<rparr> \<Longrightarrow> Q (Inr (), ks') w'"
    and "\<And>e ks' w'. (\<And>x. x \<noteq> r \<Longrightarrow> map_of (fk_disk ks') (path ks x) = map_of (fk_disk ks) (path ks x)) \<Longrightarrow>
      ks' = ks\<lparr>fk_disk := fk_disk ks'\<rparr> \<Longrightarrow> Q (Inl e, ks') w'"
  shows "wp (writeKeyFileAtomic ks (path ks r) kf) Q w"
  unfolding writeKeyFileAtomic_def using assms
  by (auto simp: Let_def map_of_filter_key intro!: wps split: fault.splits)

lemma wp_generateKey [wps]:
  assumes "\<And>sg der w'. MarshalPKCS8PrivateKey P sg = Some der \<Longrightarrow> Q (Inr (sg, der)) w'"
    and "\<And>e w'. Q (Inl e) w'"
  shows "wp (generateKey P alg) Q w"
  unfolding generateKey_def using assms by (auto intro!: wps split: option.splits)

lemma fks_written:
  assumes ok: "fks_ok P ks" and absent: "\<not> fks_present ks r"
    and disk: "\<And>x. x \<noteq> r \<Longrightarrow> map_of (fk_disk ks') (path ks x) = map_of (fk_disk ks) (path ks x)"
    and upd: "ks' = ks\<lparr>fk_disk := fk_disk ks'\<rparr>"
  shows "fks_ok P ks'" "fks_present ks x \<Longrightarrow> fks_present ks' x \<and> fks_stored P ks' x = fks_stored P ks x"
proof -
  have frame: "path ks' x = path ks x" "fk_passphrase ks' = fk_passphrase ks" "fk_cached ks' = fk_cached ks" for x
    by (subst upd; simp)+
  have same: "fks_present ks' x = fks_present ks x" "fks_stored P ks' x = fks_stored P ks x" if "x \<noteq> r" for x
    using disk [OF that] by (simp_all add: fks_present_def fks_stored_def frame cong: option.case_cong)
  have "fks_stored P ks r = None"
    using absent by (simp add: fks_stored_def fks_present_def)
  then have "map_of (fk_cached ks) r = None"
    using ok unfolding fks_ok_def by (cases "map_of (fk_cached ks) r") auto
  then show "fks_ok P ks'"
    using ok same unfolding fks_ok_def frame by (metis option.distinct(1))
  show "fks_present ks x \<Longrightarrow> fks_present ks' x \<and> fks_stored P ks' x = fks_stored P ks x"
    using absent same by (cases "x = r") auto
qed

lemma unseal_sealed:
  "ks_faithful P \<Longrightarrow> MarshalPKCS8PrivateKey P sg = Some der \<Longrightarrow>
    kf_Ciphertext kf = gcm_Seal P pw (kf_Salt kf) (kf_Nonce kf) der \<Longrightarrow>
    unseal P pw r (Envelope kf) = Inr sg"
  by (simp add: unseal_def ks_faithful_def)

lemma fks_frame [simp]:
  "fks_present (ks\<lparr>fk_cached := c\<rparr>) x = fks_present ks x"
  "fks_stored P (ks\<lparr>fk_cached := c\<rparr>) x = fks_stored P ks x"
  by (simp_all add: fks_present_def fks_stored_def cong: option.case_cong)

lemma fks_storedI:
  "map_of (fk_disk ks) (path ks r) = Some c \<Longrightarrow> unseal P (fk_passphrase ks) r c = Inr sg \<Longrightarrow>
    fks_stored P ks r = Some sg"
  by (simp add: fks_stored_def)

lemma fks_cached_stored: "fks_ok P ks \<Longrightarrow> map_of (fk_cached ks) r = Some sg \<Longrightarrow> fks_stored P ks r = Some sg"
  by (simp add: fks_ok_def)

lemma fks_cache_ok:
  "fks_ok P ks \<Longrightarrow> fks_stored P ks r = Some sg \<Longrightarrow> fks_ok P (ks\<lparr>fk_cached := put r sg (fk_cached ks)\<rparr>)"
  by (simp add: fks_ok_def)

definition generate_post ::
    "ks_prims \<Rightarrow> FileKeyStore \<Rightarrow> KeyRef \<Rightarrow> (ks_error + signer) \<Rightarrow> FileKeyStore \<Rightarrow> bool" where
  "generate_post P ks r a ks' \<longleftrightarrow> fks_ok P ks' \<and>
     (\<forall>sg. a = Inr sg \<longrightarrow> \<not> fks_present ks r \<and> fks_present ks' r \<and> fks_stored P ks' r = Some sg) \<and>
     (\<forall>r'. fks_present ks r' \<longrightarrow> fks_present ks' r' \<and> fks_stored P ks' r' = fks_stored P ks r')"

lemma generate_post_failed:
  assumes "fks_ok P ks" and "\<not> fks_present ks r"
    and "\<And>x. x \<noteq> r \<Longrightarrow> map_of (fk_disk ks') (path ks x) = map_of (fk_disk ks) (path ks x)"
    and "ks' = ks\<lparr>fk_disk := fk_disk ks'\<rparr>"
  shows "generate_post P ks r (Inl e) ks'"
  using fks_written [OF assms] by (simp add: generate_post_def)

lemma generate_post_written:
  assumes ok: "fks_ok P ks" and absent: "\<not> fks_present ks r"
    and disk: "\<And>x. x \<noteq> r \<Longrightarrow> map_of (fk_disk ks') (path ks x) = map_of (fk_disk ks) (path ks x)"
    and upd: "ks' = ks\<lparr>fk_disk := fk_disk ks'\<rparr>"
    and onto: "map_of (fk_disk ks') (path ks r) = Some (Envelope kf)"
    and der: "MarshalPKCS8PrivateKey P sg = Some der"
    and kf: "kf_Ciphertext kf = gcm_Seal P (fk_passphrase ks) (kf_Salt kf) (kf_Nonce kf) der"
  shows "generate_post P ks r (Inr sg) (ks'\<lparr>fk_cached := put r sg (fk_cached ks')\<rparr>)"
proof -
  have frame: "path ks' r = path ks r" "fk_passphrase ks' = fk_passphrase ks"
    by (subst upd; simp)+
  have "ks_faithful P"
    using ok by (simp add: fks_ok_def)
  then have "fks_stored P ks' r = Some sg" "fks_present ks' r"
    using onto unseal_sealed [OF _ der kf] by (simp_all add: fks_stored_def fks_present_def frame)
  then show ?thesis
    using fks_written [OF ok absent disk upd] absent
    by (simp add: generate_post_def fks_cache_ok)
qed

lemma wp_FileKeyStore_Generate:
  assumes ok: "fks_ok P ks"
  shows "wp (FileKeyStore_Generate P ks r alg) (\<lambda>(a, ks') _. generate_post P ks r a ks') w"
proof -
  have "generate_post P ks r (Inl e) ks" for e
    using ok by (simp add: generate_post_def)
  then show ?thesis
    unfolding FileKeyStore_Generate_def FileKeyStore_Exists_def
    using generate_post_failed [OF ok] generate_post_written [OF ok]
    by (auto simp: fks_present_def intro!: wps wp_writeKeyFileAtomic split: option.splits)
qed

interpretation fks: key_store FileKeyStore_Exists "FileKeyStore_Generate P" "FileKeyStore_Get P"
  fks_present "fks_stored P" "fks_ok P" "\<lambda>_. True" for P
proof unfold_locales
  fix ks r alg and w :: "'a world_scheme"
  show "wp (FileKeyStore_Exists ks r) (\<lambda>a _. \<forall>b. a = Inr b \<longrightarrow> b = fks_present ks r) w"
    unfolding FileKeyStore_Exists_def by (auto simp: fks_present_def intro!: wps)
  assume ok: "fks_ok P ks"
  show "wp (FileKeyStore_Generate P ks r alg) (\<lambda>(a, k') _. fks_ok P k' \<and>
      (\<forall>sg. a = Inr sg \<longrightarrow> \<not> fks_present ks r \<and> fks_present k' r \<and> fks_stored P k' r = Some sg) \<and>
      (\<forall>r'. True \<longrightarrow> fks_present ks r' \<longrightarrow> fks_present k' r' \<and> fks_stored P k' r' = fks_stored P ks r')) w"
    by (rule wp_mono [OF wp_FileKeyStore_Generate [OF ok]]) (auto simp: generate_post_def)
  show "wp (FileKeyStore_Get P ks r) (\<lambda>(a, k') _. fks_ok P k' \<and>
      (\<forall>sg. a = Inr sg \<longrightarrow> fks_stored P ks r = Some sg) \<and>
      (\<forall>r'. fks_present k' r' = fks_present ks r' \<and> fks_stored P k' r' = fks_stored P ks r')) w"
    unfolding FileKeyStore_Get_def using ok
    by (auto intro!: wps fks_cache_ok intro: fks_storedI fks_cached_stored split: option.splits sum.splits)
qed

lemma keeps_io [keeps]: "state_io_rel ledger_le io"
  by (rule state_io_relI) (auto simp: io_def drop_fault_def)

lemma keeps_FileKeyStore_Exists [keeps]: "state_io_rel ledger_le (FileKeyStore_Exists ks r)"
  unfolding FileKeyStore_Exists_def by (auto intro!: keeps)

lemma keeps_generateKey [keeps]: "state_io_rel ledger_le (generateKey P alg)"
  unfolding generateKey_def by (auto intro!: keeps)

lemma keeps_case_fault [keeps]:
  "(f = Runs \<Longrightarrow> state_io_rel R a) \<Longrightarrow> (f = StmtFails \<Longrightarrow> state_io_rel R b) \<Longrightarrow>
   (f = AckLost \<Longrightarrow> state_io_rel R c) \<Longrightarrow>
   state_io_rel R (case f of Runs \<Rightarrow> a | StmtFails \<Rightarrow> b | AckLost \<Rightarrow> c)"
  by (cases f) auto

lemma keeps_writeKeyFileAtomic [keeps]: "state_io_rel ledger_le (writeKeyFileAtomic ks p kf)"
  unfolding writeKeyFileAtomic_def by (auto simp: Let_def intro!: keeps)

lemma keeps_FileKeyStore_Generate [keeps]: "state_io_rel ledger_le (FileKeyStore_Generate P ks r alg)"
  unfolding FileKeyStore_Generate_def by (auto intro!: keeps split: option.splits)

lemma keeps_FileKeyStore_Get [keeps]: "state_io_rel ledger_le (FileKeyStore_Get P ks r)"
  unfolding FileKeyStore_Get_def by (auto intro!: keeps)

lemma keeps_fresh_ref_loop [keeps]:
  "(\<And>r. state_io_rel ledger_le (ex r)) \<Longrightarrow> state_io_rel ledger_le (fresh_ref_loop ex pre n)"
  by (induction n) (auto simp: Let_def intro!: keeps)

lemma keeps_FreshRef [keeps]:
  "(\<And>r. state_io_rel ledger_le (ex r)) \<Longrightarrow> state_io_rel ledger_le (FreshRef ex pre)"
  unfolding FreshRef_def by (rule keeps_fresh_ref_loop)

end
