(* ===== verification/Revocation.thy ===== *)
theory Revocation
  imports Keystore
begin

text \<open>
  CRL and OCSP, \<open>internal/revocation\<close>. A \<open>CRLBuilder\<close> caches the list it signed until it expires or
  is invalidated; an \<open>OCSPResponder\<close> answers from the ledger on every request. Encoding, signing
  and hashing are the parameter \<open>rev_prims\<close>.
\<close>

section \<open>CRL\<close>

definition CRLValidity :: duration where "CRLValidity = 24 * Hour"

definition reasonCodes :: "string \<Rightarrow> int" where
  "reasonCodes r = (case map_of
     [(''unspecified'', 0), (''keyCompromise'', 1), (''affiliationChanged'', 3), (''superseded'', 4),
      (''cessationOfOperation'', 5)] r of None \<Rightarrow> 0 | Some c \<Rightarrow> c)"

record RevocationListEntry =
  rle_SerialNumber :: int
  rle_RevocationTime :: time
  rle_ReasonCode :: int

record RevocationList =
  rl_Number :: int
  rl_ThisUpdate :: time
  rl_NextUpdate :: time
  rl_Entries :: "RevocationListEntry list"

datatype ocsp_status = Good | Revoked | Unknown

record ocsp_Request =
  oq_HashAlgorithm :: nat
  oq_IssuerNameHash :: string
  oq_IssuerKeyHash :: string
  oq_SerialNumber :: int

record ocsp_Response =
  os_Status :: ocsp_status
  os_SerialNumber :: int
  os_ThisUpdate :: time
  os_NextUpdate :: time
  os_RevokedAt :: time

record rev_prims =
  CreateRevocationList :: "RevocationList \<Rightarrow> Certificate \<Rightarrow> signer \<Rightarrow> string option"
  ocsp_ParseRequest :: "string \<Rightarrow> ocsp_Request option"
  ocsp_CreateResponse :: "Certificate \<Rightarrow> Certificate \<Rightarrow> ocsp_Response \<Rightarrow> signer \<Rightarrow> string option"
  UnauthorizedErrorResponse :: string
  hash_Available :: "nat \<Rightarrow> bool"
  hash_Sum :: "nat \<Rightarrow> string \<Rightarrow> string"
  spki_RightAlign :: "Certificate \<Rightarrow> string option"
  RawSubject :: "Certificate \<Rightarrow> string"

datatype rev_error =
    RevListing store_error
  | RevSerial string
  | RevNilTime
  | RevSigning
  | ErrMalformedRequest

record CRLBuilder =
  cb_issuer :: Issuer
  cb_cached :: "string option"
  cb_expires :: time

text \<open>The zero value of \<open>time.Time\<close>: midnight of the first of January of the year 1.\<close>

definition zero_time :: time where "zero_time = - 62135596800 * Second"

definition NewCRLBuilder :: "Issuer \<Rightarrow> CRLBuilder" where
  "NewCRLBuilder issuer = \<lparr>cb_issuer = issuer, cb_cached = None, cb_expires = zero_time\<rparr>"

definition Invalidate :: "CRLBuilder \<Rightarrow> CRLBuilder" where
  "Invalidate cb = cb\<lparr>cb_cached := None\<rparr>"

fun crl_entries :: "string \<Rightarrow> CertificateRecord list \<Rightarrow> rev_error + RevocationListEntry list" where
  "crl_entries issuerSerial [] = Inr []"
| "crl_entries issuerSerial (rec # recs) =
     (if IssuerSerial rec \<noteq> issuerSerial then crl_entries issuerSerial recs
      else case SetString10 (Serial rec) of
        None \<Rightarrow> Inl (RevSerial (Serial rec))
      | Some serial \<Rightarrow>
          (case RevokedAt rec of
             None \<Rightarrow> Inl RevNilTime
           | Some at \<Rightarrow>
               (case crl_entries issuerSerial recs of
                  Inl e \<Rightarrow> Inl e
                | Inr es \<Rightarrow> Inr (\<lparr>rle_SerialNumber = serial, rle_RevocationTime = at,
                    rle_ReasonCode = reasonCodes (RevocationReason rec)\<rparr> # es))))"

definition CRL ::
    "backend \<Rightarrow> rev_prims \<Rightarrow> CRLBuilder \<Rightarrow> ('x world_scheme, (rev_error + string) \<times> CRLBuilder) state" where
  "CRL b R cb = do {
     now \<leftarrow> time_Now;
     (if cb_cached cb \<noteq> None \<and> now < cb_expires cb then ret (Inr (the (cb_cached cb)), cb)
      else do {
        found \<leftarrow> Certificates_FindRevoked b;
        (case found of
           Inl e \<Rightarrow> ret (Inl (RevListing e), cb)
         | Inr revoked \<Rightarrow>
             (case crl_entries (Int_String (SerialNumber (i_Cert (cb_issuer cb)))) revoked of
                Inl e \<Rightarrow> ret (Inl e, cb)
              | Inr entries \<Rightarrow>
                  (let tmpl = \<lparr>rl_Number = Unix now, rl_ThisUpdate = now,
                         rl_NextUpdate = now + CRLValidity, rl_Entries = entries\<rparr>
                   in case CreateRevocationList R tmpl (i_Cert (cb_issuer cb)) (i_Signer (cb_issuer cb)) of
                        None \<Rightarrow> ret (Inl RevSigning, cb)
                      | Some der \<Rightarrow>
                          ret (Inr der, cb\<lparr>cb_cached := Some der, cb_expires := rl_NextUpdate tmpl\<rparr>))))
      })
   }"

section \<open>OCSP\<close>

definition OCSPValidity :: duration where "OCSPValidity = 1 * Hour"

definition issuerHashes :: "rev_prims \<Rightarrow> Certificate \<Rightarrow> nat \<Rightarrow> (string \<times> string) option" where
  "issuerHashes R issuer hashFunc =
     (if \<not> hash_Available R hashFunc then None
      else case spki_RightAlign R issuer of
        None \<Rightarrow> None
      | Some bits \<Rightarrow> Some (hash_Sum R hashFunc (RawSubject R issuer), hash_Sum R hashFunc bits))"

fun matchIssuer :: "rev_prims \<Rightarrow> Issuer list \<Rightarrow> ocsp_Request \<Rightarrow> Issuer option" where
  "matchIssuer R [] req = None"
| "matchIssuer R (issuer # issuers) req =
     (case issuerHashes R (i_Cert issuer) (oq_HashAlgorithm req) of
        None \<Rightarrow> matchIssuer R issuers req
      | Some (nameHash, keyHash) \<Rightarrow>
          (if nameHash = oq_IssuerNameHash req \<and> keyHash = oq_IssuerKeyHash req then Some issuer
           else matchIssuer R issuers req))"

definition ocsp_answer :: "string \<Rightarrow> CertificateRecord option \<Rightarrow> ocsp_status \<times> time" where
  "ocsp_answer issuerSerial rec = (case rec of
     None \<Rightarrow> (Unknown, zero_time)
   | Some r \<Rightarrow>
       (if IssuerSerial r = issuerSerial
        then (case RevokedAt r of Some at \<Rightarrow> (Revoked, at) | None \<Rightarrow> (Good, zero_time))
        else (Unknown, zero_time)))"

definition Respond ::
    "backend \<Rightarrow> rev_prims \<Rightarrow> Issuer list \<Rightarrow> string \<Rightarrow> ('x world_scheme, rev_error + string) state" where
  "Respond b R issuers rawRequest =
     (case ocsp_ParseRequest R rawRequest of
        None \<Rightarrow> ret (Inl ErrMalformedRequest)
      | Some req \<Rightarrow>
          (case matchIssuer R issuers req of
             None \<Rightarrow> ret (Inr (UnauthorizedErrorResponse R))
           | Some issuer \<Rightarrow> do {
               let issuerSerial = Int_String (SerialNumber (i_Cert issuer));
               got \<leftarrow> Certificates_GetBySerial b (Int_String (oq_SerialNumber req));
               (let answer = (case got of
                      Inr rec \<Rightarrow> Inr (ocsp_answer issuerSerial (Some rec))
                    | Inl ErrNotFound \<Rightarrow> Inr (ocsp_answer issuerSerial None)
                    | Inl e \<Rightarrow> Inl (RevListing e))
                in case answer of
                     Inl e \<Rightarrow> ret (Inl e)
                   | Inr (st, revokedAt) \<Rightarrow> do {
                       now \<leftarrow> time_Now;
                       (let tmpl = \<lparr>os_Status = st, os_SerialNumber = oq_SerialNumber req,
                              os_ThisUpdate = now, os_NextUpdate = now + OCSPValidity,
                              os_RevokedAt = revokedAt\<rparr>
                        in case ocsp_CreateResponse R (i_Cert issuer) (i_Cert issuer) tmpl (i_Signer issuer) of
                             None \<Rightarrow> ret (Inl RevSigning)
                           | Some resp \<Rightarrow> ret (Inr resp))
                     })
             }))"

lemma keeps_CRL [keeps]: "state_io_rel ledger_le (CRL b R cb)"
  unfolding CRL_def by (auto simp: Let_def intro!: keeps)

lemma keeps_Respond [keeps]: "state_io_rel ledger_le (Respond b R issuers raw)"
  unfolding Respond_def by (auto simp: Let_def intro!: keeps split: sum.splits store_error.splits)

section \<open>What a list contains\<close>

text \<open>The entry of a revoked certificate of the ledger.\<close>

definition entry_of :: "CertificateRecord \<Rightarrow> RevocationListEntry" where
  "entry_of r = \<lparr>rle_SerialNumber = the (SetString10 (Serial r)),
     rle_RevocationTime = the (RevokedAt r), rle_ReasonCode = reasonCodes (RevocationReason r)\<rparr>"

lemma crl_entries_ok:
  "crl_entries i rs = Inr es \<longleftrightarrow>
     (\<forall>r\<in>set rs. IssuerSerial r = i \<longrightarrow> SetString10 (Serial r) \<noteq> None \<and> RevokedAt r \<noteq> None) \<and>
     es = map entry_of (filter (\<lambda>r. IssuerSerial r = i) rs)"
proof (induction rs arbitrary: es)
  case (Cons r rs)
  show ?case
    using Cons.IH [of "map entry_of (filter (\<lambda>r. IssuerSerial r = i) rs)"] Cons.IH
    by (cases "crl_entries i rs") (auto simp: entry_of_def split: option.splits)
qed auto

lemma set_select_revoked: "set (select_revoked w) = {r \<in> set (certificates w). RevokedAt r \<noteq> None}"
  by (auto simp: select_revoked_def)

text \<open>\<open>signed_list R cb tmpl der\<close>: \<open>der\<close> is \<open>tmpl\<close> signed with the builder's key.\<close>

definition signed_list :: "rev_prims \<Rightarrow> CRLBuilder \<Rightarrow> RevocationList \<Rightarrow> string \<Rightarrow> bool" where
  "signed_list R cb tmpl der \<longleftrightarrow>
     CreateRevocationList R tmpl (i_Cert (cb_issuer cb)) (i_Signer (cb_issuer cb)) = Some der"

definition lists_exactly :: "RevocationList \<Rightarrow> string \<Rightarrow> 'x world_scheme \<Rightarrow> bool" where
  "lists_exactly tmpl issuerSerial w \<longleftrightarrow>
     (let revoked = {r \<in> set (certificates w). IssuerSerial r = issuerSerial \<and> RevokedAt r \<noteq> None} in
      (\<forall>r\<in>revoked. SetString10 (Serial r) \<noteq> None) \<and> set (rl_Entries tmpl) = entry_of ` revoked)"

lemma wp_CRL:
  assumes "\<And>t ts. cb_cached cb \<noteq> None \<Longrightarrow> t < cb_expires cb \<Longrightarrow>
      Q (Inr (the (cb_cached cb)), cb) (w\<lparr>clock := t, clock_tape := ts\<rparr>)"
    and "\<And>t ts f der tmpl. \<not> (cb_cached cb \<noteq> None \<and> t < cb_expires cb) \<Longrightarrow>
      signed_list R cb tmpl der \<Longrightarrow> rl_ThisUpdate tmpl = t \<Longrightarrow> rl_NextUpdate tmpl = t + CRLValidity \<Longrightarrow>
      lists_exactly tmpl (Int_String (SerialNumber (i_Cert (cb_issuer cb)))) w \<Longrightarrow>
      Q (Inr der, cb\<lparr>cb_cached := Some der, cb_expires := t + CRLValidity\<rparr>)
        (w\<lparr>clock := t, clock_tape := ts, faults := f\<rparr>)"
    and "\<And>e w'. Q (Inl e, cb) w'"
  shows "wp (CRL b R cb) Q w"
proof -
  have "lists_exactly \<lparr>rl_Number = m, rl_ThisUpdate = t, rl_NextUpdate = u, rl_Entries = es\<rparr> i w"
    if "crl_entries i (select_revoked w) = Inr es" for m t u es i
    using that by (auto simp: crl_entries_ok lists_exactly_def Let_def set_select_revoked)
  moreover have "select_revoked (w\<lparr>clock := t, clock_tape := ts\<rparr>) = select_revoked w" for t ts
    by (simp add: select_revoked_def)
  ultimately show ?thesis
    using assms unfolding CRL_def
    by (auto simp: Let_def signed_list_def intro!: wps split: sum.splits option.splits)
qed

end
