(* ===== verification/Tsa.thy ===== *)
theory Tsa
  imports Revocation
begin

text \<open>
  The time-stamp authority, \<open>internal/tsa\<close>. A \<open>Responder\<close> holds the signing identity and the time
  of the last token; \<open>snapshot\<close> hands out both under one lock, so it is one step here. Request
  parsing and token signing belong to a third-party package and are the parameter \<open>tsa_prims\<close>.
\<close>

section \<open>The responder\<close>

record tsa_Request =
  tq_HashAlgorithm :: nat
  tq_HashedMessage :: string
  tq_Nonce :: "int option"
  tq_Certificates :: bool

record Timestamp =
  tst_HashAlgorithm :: nat
  tst_HashedMessage :: string
  tst_Time :: time
  tst_Policy :: "nat list"
  tst_Nonce :: "int option"
  tst_AddTSACertificate :: bool
  tst_Certificates :: "Certificate list"

record tsa_prims =
  tsa_ParseRequest :: "string \<Rightarrow> tsa_Request option"
  CreateResponseWithOpts :: "Timestamp \<Rightarrow> Certificate \<Rightarrow> signer \<Rightarrow> string option"

datatype tsa_error =
    TsaMalformedRequest
  | TsaUnsupportedRequest
  | TsaSigning
  | TsaKey ks_error
  | TsaIssue pki_error
  | TsaPersist store_error

text \<open>\<open>crypto.SHA1\<close> is the constant 3.\<close>

definition crypto_SHA1 :: nat where "crypto_SHA1 = 3"

definition PolicyOID :: "nat list" where "PolicyOID = [1, 3, 6, 1, 4, 1, 55698, 1, 1]"

record Responder =
  rs_intermediate :: "Certificate option"
  rs_issuer :: Issuer
  rs_lastGenTime :: time

definition NewResponder :: "Issuer \<Rightarrow> Certificate option \<Rightarrow> Responder" where
  "NewResponder issuer intermediate = \<lparr>rs_intermediate = intermediate, rs_issuer = issuer, rs_lastGenTime = zero_time\<rparr>"

definition Rotate :: "Issuer \<Rightarrow> Responder \<Rightarrow> Responder" where
  "Rotate newIssuer r = r\<lparr>rs_issuer := newIssuer\<rparr>"

definition CurrentIssuer :: "Responder \<Rightarrow> Issuer" where
  "CurrentIssuer r = rs_issuer r"

definition snapshot :: "Responder \<Rightarrow> ('x world_scheme, (Issuer \<times> time) \<times> Responder) state" where
  "snapshot r = do {
     t \<leftarrow> time_Now;
     (let now = Truncate_second t;
          now' = (if \<not> rs_lastGenTime r < now then rs_lastGenTime r + Second else now)
      in ret ((rs_issuer r, now'), r\<lparr>rs_lastGenTime := now'\<rparr>))
   }"

definition Respond_ts ::
    "tsa_prims \<Rightarrow> Responder \<Rightarrow> string \<Rightarrow> ('x world_scheme, (tsa_error + string) \<times> Responder) state" where
  "Respond_ts T r rawRequest =
     (case tsa_ParseRequest T rawRequest of
        None \<Rightarrow> ret (Inl TsaMalformedRequest, r)
      | Some req \<Rightarrow>
          (if tq_HashAlgorithm req = crypto_SHA1 then ret (Inl TsaUnsupportedRequest, r)
           else do {
             ((issuer, genTime), r') \<leftarrow> snapshot r;
             (let ts = \<lparr>tst_HashAlgorithm = tq_HashAlgorithm req,
                    tst_HashedMessage = tq_HashedMessage req, tst_Time = genTime,
                    tst_Policy = PolicyOID, tst_Nonce = tq_Nonce req,
                    tst_AddTSACertificate = tq_Certificates req,
                    tst_Certificates =
                      (if tq_Certificates req
                       then (case rs_intermediate r' of None \<Rightarrow> [] | Some c \<Rightarrow> [c]) else [])\<rparr>
              in case CreateResponseWithOpts T ts (i_Cert issuer) (i_Signer issuer) of
                   None \<Rightarrow> ret (Inl TsaSigning, r')
                 | Some resp \<Rightarrow> ret (Inr resp, r'))
           }))"

section \<open>Minting an identity\<close>

record IdentityParams =
  ip_CommonName :: string
  ip_Validity :: duration
  ip_PublicBaseURL :: string
  ip_RevocationEnabled :: bool

text \<open>\<open>gen\<close> is \<open>KeyStore.Generate\<close> of the configured key store, whose state it returns.\<close>

definition IssueIdentity ::
    "backend \<Rightarrow> pki_prims \<Rightarrow>
     (KeyRef \<Rightarrow> Algorithm \<Rightarrow> ('x world_scheme, (ks_error + signer) \<times> 'k) state) \<Rightarrow>
     KeyRef \<Rightarrow> IdentityParams \<Rightarrow> Issuer \<Rightarrow>
     ('x world_scheme, (tsa_error + Issuer \<times> CertificateRecord) \<times> 'k) state" where
  "IssueIdentity b P gen r params intermediate = do {
     (g, ks) \<leftarrow> gen r AlgorithmECDSAP256;
     (case g of
        Inl e \<Rightarrow> ret (Inl (TsaKey e), ks)
      | Inr sg \<Rightarrow> do {
          let profile = WithIssuerURLs TSA (ip_PublicBaseURL params) (ip_RevocationEnabled params);
          now \<leftarrow> time_Now;
          c \<leftarrow> IssueLeaf P profile (cn (ip_CommonName params)) (sg_Public sg) intermediate now
                 (now + ip_Validity params) [];
          (case c of
             Inl e \<Rightarrow> ret (Inl (TsaIssue e), ks)
           | Inr cert \<Rightarrow> do {
               let rec = \<lparr>Serial = Int_String (SerialNumber cert), Kind = CertKindLeaf,
                      ProfileName = p_Name profile, Subject = Name_String P (x_Subject cert),
                      IssuerSerial = Int_String (SerialNumber (i_Cert intermediate)),
                      NotBefore = x_NotBefore cert, NotAfter = x_NotAfter cert,
                      PEM = pem_Encode P (x_Raw cert), KeyRef = r, CreatedAt = now,
                      RevokedAt = None, RevocationReason = []\<rparr>;
               res \<leftarrow> Certificates_Create b rec;
               (case res of
                  Inl e \<Rightarrow> ret (Inl (TsaPersist e), ks)
                | Inr _ \<Rightarrow> ret (Inr (\<lparr>i_Cert = cert, i_Signer = sg\<rparr>, rec), ks))
             })
        })
   }"

lemma keeps_snapshot [keeps]: "state_io_rel ledger_le (snapshot r)"
  unfolding snapshot_def by (auto simp: Let_def intro!: keeps)

lemma keeps_Respond_ts [keeps]: "state_io_rel ledger_le (Respond_ts T r raw)"
  unfolding Respond_ts_def by (auto simp: Let_def intro!: keeps)

lemma keeps_IssueIdentity [keeps]:
  "(\<And>x y. state_io_rel ledger_le (gen x y)) \<Longrightarrow> state_io_rel ledger_le (IssueIdentity b P gen r params intermediate)"
  unfolding IssueIdentity_def by (auto simp: Let_def intro!: keeps)

section \<open>Times only go forward\<close>

definition whole :: "time \<Rightarrow> bool" where
  "whole t \<longleftrightarrow> Truncate_second t = t"

lemma snapshot_forward:
  "wp (snapshot r) (\<lambda>((issuer, t), r') w'. issuer = rs_issuer r \<and> r' = r\<lparr>rs_lastGenTime := t\<rparr> \<and>
     rs_lastGenTime r < t \<and> (whole (rs_lastGenTime r) \<longrightarrow> whole t)) w"
proof -
  have "rs_lastGenTime r < rs_lastGenTime r + Second"
    using Second_pos by linarith
  then show ?thesis
    unfolding snapshot_def whole_def by (auto simp: Let_def Truncate_second_add intro!: wps)
qed

lemma whole_Unix_less: "whole s \<Longrightarrow> whole t \<Longrightarrow> s < t \<Longrightarrow> Unix s < Unix t"
proof -
  assume "whole s" "whole t" "s < t"
  then have "Unix s * Second < Unix t * Second"
    by (simp add: whole_def Truncate_second_def Unix_def)
  then show ?thesis
    using Second_pos mult_less_cancel_right_pos by blast
qed

end
