(* ===== verification/Acme_Jws.thy ===== *)
theory Acme_Jws
  imports Tsa
begin

text \<open>
  JSON Web Signatures and JSON Web Keys for ACME, \<open>internal/acme/jws.go\<close>. JSON decoding and the
  signature primitives are the parameter \<open>jose_prims\<close>; base64url, padding, the P-256 curve
  equation and the algorithm dispatch are computed.
\<close>

record Header =
  h_Alg :: string
  h_Nonce :: string
  h_URL :: string
  h_Kid :: string
  h_JWK :: string

record JWS =
  j_Header :: Header
  j_Payload :: string
  j_signingInput :: string
  j_signature :: string

text \<open>
  \<open>Unmarshal_strings doc names\<close> is \<open>json.Unmarshal\<close> into a struct of string fields: their values in
  order, \<open>""\<close> for an absent one, \<open>None\<close> when the document is not such an object.
\<close>

record jose_prims =
  Unmarshal_strings :: "string \<Rightarrow> string list \<Rightarrow> string list option"
  Unmarshal_Header :: "string \<Rightarrow> Header option"
  sha256_Sum :: "string \<Rightarrow> string"
  hmac_sha256 :: "string \<Rightarrow> string \<Rightarrow> string"
  ecdsa_Verify :: "int \<Rightarrow> int \<Rightarrow> string \<Rightarrow> int \<Rightarrow> int \<Rightarrow> bool"
  rsa_VerifyPKCS1v15 :: "int \<Rightarrow> int \<Rightarrow> string \<Rightarrow> string \<Rightarrow> bool"

datatype jose_error = JoseError string

section \<open>Envelopes\<close>

definition ParseJWS :: "jose_prims \<Rightarrow> string \<Rightarrow> jose_error + JWS" where
  "ParseJWS J body =
     (case Unmarshal_strings J body [''protected'', ''payload'', ''signature''] of
        Some [protected, payload64, signature64] \<Rightarrow>
          (if protected = [] \<or> signature64 = []
           then Inl (JoseError ''JWS missing protected header or signature'')
           else case b64_DecodeString protected of
             None \<Rightarrow> Inl (JoseError ''decoding protected header'')
           | Some headerJSON \<Rightarrow>
               (case Unmarshal_Header J headerJSON of
                  None \<Rightarrow> Inl (JoseError ''parsing protected header'')
                | Some hdr \<Rightarrow>
                    (case (if payload64 = [] then Some [] else b64_DecodeString payload64) of
                       None \<Rightarrow> Inl (JoseError ''decoding payload'')
                     | Some pl \<Rightarrow>
                         (case b64_DecodeString signature64 of
                            None \<Rightarrow> Inl (JoseError ''decoding signature'')
                          | Some sig \<Rightarrow>
                              Inr \<lparr>j_Header = hdr, j_Payload = pl,
                                   j_signingInput = protected @ ''.'' @ payload64,
                                   j_signature = sig\<rparr>))))
      | _ \<Rightarrow> Inl (JoseError ''decoding JWS envelope''))"

definition verifyES256 :: "jose_prims \<Rightarrow> int \<Rightarrow> int \<Rightarrow> string \<Rightarrow> string \<Rightarrow> jose_error + unit" where
  "verifyES256 J x y signingInput sig =
     (if length sig \<noteq> 64 then Inl (JoseError ''ES256 signature must be 64 bytes'')
      else if \<not> ecdsa_Verify J x y (sha256_Sum J signingInput)
                  (int (SetBytes (take 32 sig))) (int (SetBytes (drop 32 sig)))
      then Inl (JoseError ''ES256 signature verification failed'')
      else Inr ())"

definition Verify :: "jose_prims \<Rightarrow> JWS \<Rightarrow> pubkey \<Rightarrow> jose_error + unit" where
  "Verify J j pub =
     (if h_Alg (j_Header j) = ''ES256''
      then (case pub of
              P256 x y \<Rightarrow> verifyES256 J x y (j_signingInput j) (j_signature j)
            | _ \<Rightarrow> Inl (JoseError ''ES256 JWS requires a P-256 ECDSA key''))
      else if h_Alg (j_Header j) = ''RS256''
      then (case pub of
              RSAKey n e \<Rightarrow>
                (if \<not> rsa_VerifyPKCS1v15 J n e (sha256_Sum J (j_signingInput j)) (j_signature j)
                 then Inl (JoseError ''RS256 signature verification failed'') else Inr ())
            | _ \<Rightarrow> Inl (JoseError ''RS256 JWS requires an RSA key''))
      else Inl (JoseError ''unsupported JWS algorithm''))"

definition VerifyHMAC :: "jose_prims \<Rightarrow> JWS \<Rightarrow> string \<Rightarrow> jose_error + unit" where
  "VerifyHMAC J j key =
     (if h_Alg (j_Header j) \<noteq> ''HS256'' then Inl (JoseError ''EAB JWS alg must be HS256'')
      else if hmac_sha256 J key (j_signingInput j) \<noteq> j_signature j
      then Inl (JoseError ''HS256 signature verification failed'')
      else Inr ())"

section \<open>Keys\<close>

definition quoted :: "string \<Rightarrow> string" where
  "quoted s = CHR 0x22 # s @ [CHR 0x22]"

text \<open>\<open>json.Marshal\<close> of a struct of strings that need no escaping.\<close>

fun json_members :: "(string \<times> string) list \<Rightarrow> string" where
  "json_members [] = []"
| "json_members [(k, v)] = quoted k @ '':'' @ quoted v"
| "json_members ((k, v) # kvs) = quoted k @ '':'' @ quoted v @ '','' @ json_members kvs"

definition json_object :: "(string \<times> string) list \<Rightarrow> string" where
  "json_object kvs = ''{'' @ json_members kvs @ ''}''"

definition PublicKeyToJWK :: "pubkey \<Rightarrow> jose_error + string" where
  "PublicKeyToJWK pub = (case pub of
     P256 x y \<Rightarrow> Inr (json_object
       [(''crv'', ''P-256''), (''kty'', ''EC''),
        (''x'', b64_EncodeToString (leftPad (Bytes (nat \<bar>x\<bar>)) 32)),
        (''y'', b64_EncodeToString (leftPad (Bytes (nat \<bar>y\<bar>)) 32))])
   | ECOther _ \<Rightarrow> Inl (JoseError ''unsupported ECDSA curve (must be P-256)'')
   | RSAKey n e \<Rightarrow> Inr (json_object
       [(''e'', b64_EncodeToString (Bytes (nat \<bar>e\<bar>))), (''kty'', ''RSA''),
        (''n'', b64_EncodeToString (Bytes (nat \<bar>n\<bar>)))])
   | KeyOther _ \<Rightarrow> Inl (JoseError ''unsupported public key type''))"

text \<open>The curve P-256: coordinates below the prime that satisfy the curve equation.\<close>

definition p256_p :: int where
  "p256_p = 0xffffffff00000001000000000000000000000000ffffffffffffffffffffffff"

definition p256_b :: int where
  "p256_b = 0x5ac635d8aa3a93e7b3ebbd55769886bc651d06b0cc53b0f63bce3c3e27d2604b"

definition IsOnCurve :: "int \<Rightarrow> int \<Rightarrow> bool" where
  "IsOnCurve x y \<longleftrightarrow> 0 \<le> x \<and> x < p256_p \<and> 0 \<le> y \<and> y < p256_p \<and>
     (y * y) mod p256_p = (x * x * x - 3 * x + p256_b) mod p256_p"

text \<open>\<open>int(bigint.Int64())\<close>: the low 64 bits, read as a signed number.\<close>

definition Int64 :: "nat \<Rightarrow> int" where
  "Int64 n = sint (word_of_nat n :: 64 word)"

definition JWKPublicKey :: "jose_prims \<Rightarrow> string \<Rightarrow> jose_error + pubkey" where
  "JWKPublicKey J doc =
     (case Unmarshal_strings J doc [''kty''] of
        Some [kty] \<Rightarrow>
          (if kty = ''EC'' then
             (case Unmarshal_strings J doc [''crv'', ''kty'', ''x'', ''y''] of
                Some [crv, _, x64, y64] \<Rightarrow>
                  (if crv \<noteq> ''P-256'' then Inl (JoseError ''unsupported jwk curve'')
                   else case b64_DecodeString x64 of
                     None \<Rightarrow> Inl (JoseError ''decoding jwk x'')
                   | Some xb \<Rightarrow>
                       (case b64_DecodeString y64 of
                          None \<Rightarrow> Inl (JoseError ''decoding jwk y'')
                        | Some yb \<Rightarrow>
                            (let x = int (SetBytes xb); y = int (SetBytes yb)
                             in if \<not> IsOnCurve x y then Inl (JoseError ''jwk point is not on P-256'')
                                else Inr (P256 x y))))
              | _ \<Rightarrow> Inl (JoseError ''parsing EC jwk''))
           else if kty = ''RSA'' then
             (case Unmarshal_strings J doc [''e'', ''kty'', ''n''] of
                Some [e64, _, n64] \<Rightarrow>
                  (case b64_DecodeString n64 of
                     None \<Rightarrow> Inl (JoseError ''decoding jwk n'')
                   | Some nb \<Rightarrow>
                       (case b64_DecodeString e64 of
                          None \<Rightarrow> Inl (JoseError ''decoding jwk e'')
                        | Some eb \<Rightarrow> Inr (RSAKey (int (SetBytes nb)) (Int64 (SetBytes eb)))))
              | _ \<Rightarrow> Inl (JoseError ''parsing RSA jwk''))
           else Inl (JoseError ''unsupported jwk kty''))
      | _ \<Rightarrow> Inl (JoseError ''parsing jwk''))"

definition Thumbprint :: "jose_prims \<Rightarrow> pubkey \<Rightarrow> jose_error + string" where
  "Thumbprint J pub = (case PublicKeyToJWK pub of
     Inl e \<Rightarrow> Inl e
   | Inr canonical \<Rightarrow> Inr (b64_EncodeToString (sha256_Sum J canonical)))"

section \<open>A key survives its JWK\<close>

text \<open>What is relied on in \<open>encoding/json\<close>: it reads back an object of strings that need no
  escaping.\<close>

definition plain :: "string \<Rightarrow> bool" where
  "plain s \<longleftrightarrow> list_all (\<lambda>c. c \<in> set (b64_alphabet @ ''-'')) s"

definition json_faithful :: "jose_prims \<Rightarrow> bool" where
  "json_faithful J \<longleftrightarrow> (\<forall>kvs names.
     distinct (map fst kvs) \<longrightarrow> list_all (\<lambda>(k, v). plain k \<and> plain v) kvs \<longrightarrow>
     Unmarshal_strings J (json_object kvs) names =
       Some (map (\<lambda>n. case map_of kvs n of None \<Rightarrow> [] | Some v \<Rightarrow> v) names))"

definition good_key :: "pubkey \<Rightarrow> bool" where
  "good_key pub = (case pub of
     P256 x y \<Rightarrow> IsOnCurve x y
   | RSAKey n e \<Rightarrow> 0 \<le> n \<and> 0 \<le> e \<and> e < 2 ^ 63
   | _ \<Rightarrow> False)"

lemma length_b64_alphabet: "length b64_alphabet = 64"
  by (simp add: b64_alphabet_def)

lemma plain_b64: "plain (b64_EncodeToString s)"
proof -
  have "b64_char v \<in> set b64_alphabet" if "v < 64" for v
    using that by (simp add: b64_char_def nth_mem length_b64_alphabet)
  moreover have "\<forall>v\<in>set (b64_sextets (map of_char s)). v < 64"
    by (rule b64_sextets_bound) auto
  ultimately show ?thesis
    by (auto simp: plain_def b64_EncodeToString_def list_all_iff)
qed

lemma Int64_small: "m < 2 ^ 63 \<Longrightarrow> Int64 m = int m"
  by (simp add: Int64_def signed_of_nat signed_take_bit_int_eq_self)

lemma IsOnCurve_256: "IsOnCurve x y \<Longrightarrow> nat \<bar>x\<bar> < 256 ^ 32 \<and> nat \<bar>y\<bar> < 256 ^ 32"
  by (auto simp: IsOnCurve_def p256_p_def nat_less_iff)

lemma jwk_key:
  assumes J: "json_faithful J" and "good_key pub" and "PublicKeyToJWK pub = Inr doc"
  shows "JWKPublicKey J doc = Inr pub"
proof (cases pub)
  case (P256 x y)
  let ?e = "\<lambda>z :: int. b64_EncodeToString (leftPad (Bytes (nat \<bar>z\<bar>)) 32)"
  let ?kvs = "[(''crv'', ''P-256''), (''kty'', ''EC''), (''x'', ?e x), (''y'', ?e y)]"
  have on: "IsOnCurve x y"
    using assms(2) P256 by (simp add: good_key_def)
  then have nn: "0 \<le> x" "0 \<le> y"
    by (simp_all add: IsOnCurve_def)
  have doc: "doc = json_object ?kvs"
    using assms(3) P256 by (simp add: PublicKeyToJWK_def)
  have "list_all (\<lambda>(k, v). plain k \<and> plain v) ?kvs"
    by (simp add: plain_b64) (simp add: plain_def b64_alphabet_def)
  then have "Unmarshal_strings J doc names =
      Some (map (\<lambda>n. case map_of ?kvs n of None \<Rightarrow> [] | Some v \<Rightarrow> v) names)" for names
    using J unfolding json_faithful_def doc by (simp del: map_of.simps)
  then show ?thesis
    using on nn P256 by (simp add: JWKPublicKey_def b64_roundtrip)
next
  case (RSAKey n e)
  let ?e = "\<lambda>z :: int. b64_EncodeToString (Bytes (nat \<bar>z\<bar>))"
  let ?kvs = "[(''e'', ?e e), (''kty'', ''RSA''), (''n'', ?e n)]"
  have doc: "doc = json_object ?kvs"
    using assms(3) RSAKey by (simp add: PublicKeyToJWK_def)
  have "list_all (\<lambda>(k, v). plain k \<and> plain v) ?kvs"
    by (simp add: plain_b64) (simp add: plain_def b64_alphabet_def)
  then have "Unmarshal_strings J doc names =
      Some (map (\<lambda>n. case map_of ?kvs n of None \<Rightarrow> [] | Some v \<Rightarrow> v) names)" for names
    using J unfolding json_faithful_def doc by (simp del: map_of.simps)
  then show ?thesis
    using assms(2) RSAKey
    by (simp add: JWKPublicKey_def b64_roundtrip good_key_def Int64_small nat_less_iff)
qed (use assms in \<open>simp_all add: good_key_def\<close>)

end
