(* ===== verification/Api_Core.thy ===== *)
theory Api_Core
  imports Acme_Jws
begin

text \<open>
  The ground of the REST layer, \<open>internal/api\<close>: the dependencies handed to every handler, the state
  of the running service, requests, the error catalogue of \<open>problem.go\<close>, the counters of
  \<open>internal/observability\<close> and the role check of \<open>auth.go\<close>. A handler is a state-monad program over
  \<open>sys\<close> that returns the response; logging has no effect on either and is left out.
\<close>

section \<open>The running service\<close>

record Metrics =
  m_CertificatesIssuedTotal :: "(string \<times> nat) list"
  m_CertificatesRevokedTotal :: nat
  m_OCSPRequestsTotal :: "(string \<times> nat) list"
  m_TSARequestsTotal :: "(string \<times> nat) list"
  m_ACMEAccountsTotal :: nat
  m_ACMEOrdersTotal :: "(string \<times> nat) list"

definition NewMetrics :: Metrics where
  "NewMetrics = \<lparr>m_CertificatesIssuedTotal = [], m_CertificatesRevokedTotal = 0,
     m_OCSPRequestsTotal = [], m_TSARequestsTotal = [], m_ACMEAccountsTotal = 0, m_ACMEOrdersTotal = []\<rparr>"

definition count_of :: "string \<Rightarrow> (string \<times> nat) list \<Rightarrow> nat" where
  "count_of k m = (case map_of m k of None \<Rightarrow> 0 | Some n \<Rightarrow> n)"

definition inc :: "string \<Rightarrow> (string \<times> nat) list \<Rightarrow> (string \<times> nat) list" where
  "inc k m = put k (count_of k m + 1) m"

lemma count_of_inc [simp]: "count_of x (inc k m) = count_of x m + (if x = k then 1 else 0)"
  by (simp add: count_of_def inc_def)

record sys = world +
  s_KeyStore :: FileKeyStore
  s_CRLBuilder :: "CRLBuilder option"
  s_RootCRLBuilder :: "CRLBuilder option"
  s_TSAResponder :: "Responder option"
  s_Profiles :: "Registry option"
  s_Metrics :: "Metrics option"

definition meter :: "(Metrics \<Rightarrow> Metrics) \<Rightarrow> (sys, unit) state" where
  "meter f = modify (\<lambda>s. s\<lparr>s_Metrics := map_option f (s_Metrics s)\<rparr>)"

section \<open>Dependencies\<close>

record ModuleConfig =
  EnableRevocation :: bool
  EnableTSA :: bool
  EnableACME :: bool
  EnableDiscovery :: bool

record issueCertificateRequest =
  ic_Profile :: string
  ic_CSR :: string

record issueClientRequest =
  icl_CSR :: string
  icl_Role :: string

record acmeIdentifier =
  id_Type :: string
  id_Value :: string

text \<open>\<open>encoding/json\<close> into the request types: the decoded value, or the error text.\<close>

record json_prims =
  dec_issueCertificate :: "string \<Rightarrow> string + issueCertificateRequest"
  dec_revokeCertificate :: "string \<Rightarrow> string + string"
  dec_issueClient :: "string \<Rightarrow> string + issueClientRequest"
  dec_issueEABToken :: "string \<Rightarrow> string + string"
  dec_newAccount :: "string \<Rightarrow> string + bool \<times> string"
  dec_newOrder :: "string \<Rightarrow> string + acmeIdentifier list"
  dec_finalize :: "string \<Rightarrow> string + string"
  enc_Profile :: "Profile \<Rightarrow> string"

record Deps =
  d_Store :: backend
  d_pki :: pki_prims
  d_rev :: rev_prims
  d_tsa :: tsa_prims
  d_jose :: jose_prims
  d_ks :: ks_prims
  d_json :: json_prims
  d_InstanceName :: string
  d_IntermediateIssuer :: Issuer
  d_OCSPIssuers :: "Issuer list"
  d_PublicBaseURL :: string
  d_TSACommonName :: string
  d_TSAValidity :: duration
  d_ModuleConfig :: ModuleConfig
  d_profilesDir :: string
  d_profileFiles :: "(string \<times> profile_file) list"
  d_ParseDuration :: "string \<Rightarrow> duration option"
  d_Duration_String :: "duration \<Rightarrow> string"
  d_walk :: "(string \<times> Profile) list \<Rightarrow> (string \<times> Profile) list"
  d_Version :: string
  d_openAPISpec :: string
  d_llmsTxt :: "string \<Rightarrow> string \<Rightarrow> bool \<Rightarrow> bool \<Rightarrow> bool \<Rightarrow> string"
  d_exposition :: "Metrics \<Rightarrow> string"

section \<open>Requests and responses\<close>

text \<open>\<open>q_PeerSerials\<close> are the serial numbers of the client's verified certificate chain, none
  without a client certificate; \<open>q_PathValue\<close> is the one wildcard of the route.\<close>

record request =
  q_Method :: string
  q_Path :: string
  q_PathValue :: string
  q_Query :: "(string \<times> string) list"
  q_ContentType :: string
  q_RemoteAddr :: string
  q_PeerSerials :: "int list"
  q_ContentLength :: int
  q_Body :: string
  q_BodyFails :: bool

definition Query_Get :: "request \<Rightarrow> string \<Rightarrow> string" where
  "Query_Get r k = (case map_of (q_Query r) k of None \<Rightarrow> [] | Some v \<Rightarrow> v)"

definition writeJSON :: "nat \<Rightarrow> json \<Rightarrow> response" where
  "writeJSON st v = \<lparr>status = st, headers = [(''Content-Type'', ''application/json'')], rbody = Json v\<rparr>"

definition raw_response :: "string \<Rightarrow> string \<Rightarrow> response" where
  "raw_response ct body = \<lparr>status = 200, headers = [(''Content-Type'', ct)], rbody = Raw body\<rparr>"

text \<open>A nil dereference in a handler: the server drops the connection.\<close>

definition panicked :: response where
  "panicked = \<lparr>status = 0, headers = [], rbody = NoBody\<rparr>"

record problemType =
  slug :: string
  title :: string
  pstatus :: nat

definition prob :: "string \<Rightarrow> string \<Rightarrow> nat \<Rightarrow> problemType" where
  "prob s t n = \<lparr>slug = s, title = t, pstatus = n\<rparr>"

definition probMalformedJSON :: problemType where
  "probMalformedJSON = prob ''malformed-json'' ''Request body is not valid JSON'' 400"
definition probMissingField :: problemType where
  "probMissingField = prob ''missing-field'' ''Required field missing'' 400"
definition probInvalidParameter :: problemType where
  "probInvalidParameter = prob ''invalid-parameter'' ''Invalid query parameter'' 400"
definition probUnknownProfile :: problemType where
  "probUnknownProfile = prob ''unknown-profile'' ''Unknown certificate profile'' 400"
definition probInvalidCSR :: problemType where
  "probInvalidCSR = prob ''invalid-csr'' ''Invalid certificate signing request'' 400"
definition probInvalidRole :: problemType where
  "probInvalidRole = prob ''invalid-role'' ''Invalid role'' 400"
definition probUnknownRevocationReason :: problemType where
  "probUnknownRevocationReason = prob ''unknown-revocation-reason'' ''Unknown revocation reason'' 400"
definition probNotRevocable :: problemType where
  "probNotRevocable = prob ''not-revocable'' ''Certificate cannot be revoked'' 400"
definition probAlreadyRevoked :: problemType where
  "probAlreadyRevoked = prob ''already-revoked'' ''Certificate already revoked'' 409"
definition probNotFound :: problemType where
  "probNotFound = prob ''not-found'' ''Not found'' 404"
definition probProfileReloadFailed :: problemType where
  "probProfileReloadFailed = prob ''profile-reload-failed'' ''Profile reload failed'' 400"
definition probProfilesUnavailable :: problemType where
  "probProfilesUnavailable = prob ''profile-registry-unavailable'' ''Profile registry not configured'' 503"
definition probUnsupportedMediaType :: problemType where
  "probUnsupportedMediaType = prob ''unsupported-media-type'' ''Unsupported content type'' 415"
definition probBodyUnreadable :: problemType where
  "probBodyUnreadable = prob ''body-unreadable'' ''Request body could not be read'' 400"
definition probBodyTooLarge :: problemType where
  "probBodyTooLarge = prob ''body-too-large'' ''Request body too large'' 400"
definition probInvalidOCSPRequest :: problemType where
  "probInvalidOCSPRequest = prob ''invalid-ocsp-request'' ''Invalid OCSP request'' 400"
definition probInvalidTSARequest :: problemType where
  "probInvalidTSARequest = prob ''invalid-timestamp-request'' ''Invalid timestamp request'' 400"
definition probUnsupportedTSARequest :: problemType where
  "probUnsupportedTSARequest = prob ''unsupported-timestamp-request'' ''Unsupported timestamp request'' 400"
definition probClientCertRequired :: problemType where
  "probClientCertRequired = prob ''client-certificate-required'' ''Client certificate required'' 401"
definition probClientCertUnauthorized :: problemType where
  "probClientCertUnauthorized =
     prob ''client-certificate-not-authorized'' ''Client certificate not authorized'' 403"
definition probClientCertRevoked :: problemType where
  "probClientCertRevoked = prob ''client-certificate-revoked'' ''Client certificate revoked'' 403"
definition probInsufficientRole :: problemType where
  "probInsufficientRole = prob ''insufficient-role'' ''Insufficient role'' 403"
definition probInternal :: problemType where
  "probInternal = prob ''internal-error'' ''Internal error'' 500"

lemmas problem_defs =
  probMalformedJSON_def probMissingField_def probInvalidParameter_def probUnknownProfile_def
  probInvalidCSR_def probInvalidRole_def probUnknownRevocationReason_def probNotRevocable_def
  probAlreadyRevoked_def probNotFound_def probProfileReloadFailed_def probProfilesUnavailable_def
  probUnsupportedMediaType_def probBodyUnreadable_def probBodyTooLarge_def
  probInvalidOCSPRequest_def probInvalidTSARequest_def probUnsupportedTSARequest_def
  probClientCertRequired_def probClientCertUnauthorized_def probClientCertRevoked_def
  probInsufficientRole_def probInternal_def prob_def

definition problemTypePrefix :: string where "problemTypePrefix = ''urn:trustmate:problem:''"

definition writeProblem :: "problemType \<Rightarrow> string \<Rightarrow> (string \<times> json) list \<Rightarrow> response" where
  "writeProblem p detail ext =
     \<lparr>status = pstatus p, headers = [(''Content-Type'', ''application/problem+json'')],
      rbody = Json (JObj ([(''type'', JStr (problemTypePrefix @ slug p)), (''title'', JStr (title p)),
        (''status'', JNum (int (pstatus p)))] @
        (if detail \<noteq> [] then [(''detail'', JStr detail)] else []) @ ext))\<rparr>"

definition writeInternalError :: response where
  "writeInternalError = writeProblem probInternal [] []"

lemma status_write [simp]:
  "status (writeJSON n v) = n" "status (writeProblem p d e) = pstatus p"
  "status writeInternalError = 500" "status (raw_response ct body) = 200" "status panicked = 0"
  by (simp_all add: writeJSON_def writeProblem_def writeInternalError_def raw_response_def
      panicked_def problem_defs)

section \<open>Roles\<close>

definition roleSatisfies :: "ClientRole \<Rightarrow> ClientRole \<Rightarrow> bool" where
  "roleSatisfies actual least \<longleftrightarrow> (if actual = RoleAdmin then True else actual = least)"

definition requireRole ::
    "Deps \<Rightarrow> ClientRole \<Rightarrow> (request \<Rightarrow> (sys, response) state) \<Rightarrow> request \<Rightarrow> (sys, response) state" where
  "requireRole deps least next r =
     (case q_PeerSerials r of
        [] \<Rightarrow> ret (writeProblem probClientCertRequired
                ''this route requires an mTLS client certificate issued by this CA''
                [(''required_role'', JStr least)])
      | peer # _ \<Rightarrow> do {
          let serial = Int_String peer;
          role \<leftarrow> ClientRoles_Get (d_Store deps) serial;
          (case role of
             Inl ErrNotFound \<Rightarrow> ret (writeProblem probClientCertUnauthorized
               ''the presented client certificate has no role assigned'' [(''client_serial'', JStr serial)])
           | Inl _ \<Rightarrow> ret writeInternalError
           | Inr roleRec \<Rightarrow> do {
               cert \<leftarrow> Certificates_GetBySerial (d_Store deps) serial;
               (case cert of
                  Inl _ \<Rightarrow> ret writeInternalError
                | Inr certRec \<Rightarrow>
                    (if RevokedAt certRec \<noteq> None
                     then ret (writeProblem probClientCertRevoked [] [(''client_serial'', JStr serial)])
                     else if \<not> roleSatisfies (role_Role roleRec) least
                     then ret (writeProblem probInsufficientRole
                       (''this route requires role '' @ least @ ''; the client certificate has role ''
                        @ role_Role roleRec)
                       [(''required_role'', JStr least), (''role'', JStr (role_Role roleRec))])
                     else next r))
             })
        })"

text \<open>Who may pass: the caller's certificate has a role that satisfies \<open>least\<close> and is in the ledger,
  unrevoked.\<close>

definition authorized :: "ClientRole \<Rightarrow> request \<Rightarrow> 'x world_scheme \<Rightarrow> bool" where
  "authorized least r w \<longleftrightarrow> (\<exists>peer rest role cert.
     q_PeerSerials r = peer # rest \<and>
     select_client_role (Int_String peer) w = Some role \<and> roleSatisfies (role_Role role) least \<and>
     select_certificate (Int_String peer) w = Some cert \<and> RevokedAt cert = None)"

definition same_but_faults :: "'x world_scheme \<Rightarrow> 'x world_scheme \<Rightarrow> bool" where
  "same_but_faults w w' \<longleftrightarrow> w' = w\<lparr>faults := faults w'\<rparr>"

lemma wp_requireRole:
  assumes "\<And>f. authorized least r s \<Longrightarrow> wp (next r) Q (s\<lparr>faults := f\<rparr>)"
    and "\<And>f resp. status resp \<in> {401, 403, 500} \<Longrightarrow> Q resp (s\<lparr>faults := f\<rparr>)"
  shows "wp (requireRole deps least next r) Q s"
proof -
  have self: "s = s\<lparr>faults := faults s\<rparr>"
    by (simp add: faults_eta)
  show ?thesis
  proof (cases "q_PeerSerials r")
    case Nil
    then show ?thesis
      using assms(2) [of "writeProblem probClientCertRequired
          ''this route requires an mTLS client certificate issued by this CA'' [(''required_role'', JStr least)]"
          "faults s"]
      by (simp add: requireRole_def problem_defs flip: self)
  next
    case (Cons peer rest)
    with assms show ?thesis
      by (auto simp: requireRole_def Let_def authorized_def problem_defs intro!: wps)
  qed
qed

lemma keeps_requireRole [keeps]:
  "state_io_rel ledger_le (next r) \<Longrightarrow> state_io_rel ledger_le (requireRole deps least next r)"
  unfolding requireRole_def by (auto simp: Let_def intro!: keeps)

lemma ledger_le_sys [simp]:
  "ledger_le s (s\<lparr>s_Metrics := m\<rparr>)" "ledger_le s (s\<lparr>s_CRLBuilder := c\<rparr>)"
  "ledger_le s (s\<lparr>s_RootCRLBuilder := c\<rparr>)" "ledger_le s (s\<lparr>s_TSAResponder := t\<rparr>)"
  "ledger_le s (s\<lparr>s_Profiles := p\<rparr>)" "ledger_le s (s\<lparr>s_KeyStore := k\<rparr>)"
  by (simp_all add: ledger_le_def grows_def rows_le_refl schema_def schema_parts)

lemma keeps_meter [keeps]: "state_io_rel ledger_le (meter f)"
  unfolding meter_def by (rule keeps_modify) simp

lemma wp_meter [simp]: "wp (meter f) Q = (\<lambda>s. Q () (s\<lparr>s_Metrics := map_option f (s_Metrics s)\<rparr>))"
  by (simp add: meter_def)

end
