(* ===== verification/Api_Certificates.thy ===== *)
theory Api_Certificates
  imports Api_Core
begin

text \<open>
  Issuing, reading and revoking certificates, onboarding clients, the audit log and profiles:
  \<open>certificates.go\<close>, \<open>clients.go\<close>, \<open>audit.go\<close>, \<open>profiles.go\<close> and \<open>ca.go\<close> of \<open>internal/api\<close>.
\<close>

section \<open>Shared steps of issuance\<close>

definition encodeCertPEM :: "Deps \<Rightarrow> string \<Rightarrow> string" where
  "encodeCertPEM deps der = pem_Encode (d_pki deps) der"

definition lookupProfile :: "string \<Rightarrow> (sys, Profile option) state" where
  "lookupProfile name = gets (\<lambda>s. case s_Profiles s of Some r \<Rightarrow> Registry_Lookup r name | None \<Rightarrow> Lookup name)"

definition profileNames :: "(sys, string list) state" where
  "profileNames = gets (\<lambda>s. map p_Name (case s_Profiles s of Some r \<Rightarrow> Registry_All r | None \<Rightarrow> All))"

definition revocationReasons :: "string list" where
  "revocationReasons = [''unspecified'', ''keyCompromise'', ''affiliationChanged'', ''superseded'',
     ''cessationOfOperation'']"

definition sortedRevocationReasons :: "string list" where
  "sortedRevocationReasons = [''affiliationChanged'', ''cessationOfOperation'', ''keyCompromise'',
     ''superseded'', ''unspecified'']"

datatype issue_error = IssuePki pki_error | IssuePersist store_error | IssueAudit store_error

definition issueLeafCertificate ::
    "Deps \<Rightarrow> Profile \<Rightarrow> Name \<Rightarrow> pubkey \<Rightarrow> string list \<Rightarrow> time \<Rightarrow> string \<Rightarrow> string \<Rightarrow> string \<Rightarrow>
     (sys, issue_error + CertificateRecord) state" where
  "issueLeafCertificate deps profile subject publicKey dnsNames now actor auditAction auditDetail = do {
     c \<leftarrow> IssueLeaf (d_pki deps) profile subject publicKey (d_IntermediateIssuer deps) now
            (now + p_Validity profile) dnsNames;
     (case c of
        Inl e \<Rightarrow> ret (Inl (IssuePki e))
      | Inr cert \<Rightarrow> do {
          let rec = \<lparr>Serial = Int_String (SerialNumber cert), Kind = CertKindLeaf,
                 ProfileName = p_Name profile, Subject = Name_String (d_pki deps) (x_Subject cert),
                 IssuerSerial = Int_String (SerialNumber (i_Cert (d_IntermediateIssuer deps))),
                 NotBefore = x_NotBefore cert, NotAfter = x_NotAfter cert,
                 PEM = encodeCertPEM deps (x_Raw cert), KeyRef = [], CreatedAt = now,
                 RevokedAt = None, RevocationReason = []\<rparr>;
          created \<leftarrow> Certificates_Create (d_Store deps) rec;
          (case created of
             Inl e \<Rightarrow> ret (Inl (IssuePersist e))
           | Inr _ \<Rightarrow> do {
               audited \<leftarrow> Audit_Append (d_Store deps)
                 \<lparr>audit_ID = 0, audit_Timestamp = now, audit_Actor = actor, audit_Action = auditAction,
                  audit_Target = Serial rec, audit_Detail = auditDetail\<rparr>;
               (case audited of
                  Inl e \<Rightarrow> ret (Inl (IssueAudit e))
                | Inr _ \<Rightarrow> ret (Inr rec))
             })
        })
   }"

text \<open>The result is the error of the assignment, whatever becomes of the compensating revoke.\<close>

definition assignRoleOrRevoke ::
    "Deps \<Rightarrow> CertificateRecord \<Rightarrow> ClientRole \<Rightarrow> time \<Rightarrow> (sys, unit res) state" where
  "assignRoleOrRevoke deps rec role now = do {
     assigned \<leftarrow> ClientRoles_Assign (d_Store deps)
       \<lparr>role_CertSerial = Serial rec, role_Role = role, role_CreatedAt = now\<rparr>;
     (case assigned of
        Inr _ \<Rightarrow> ret (Inr ())
      | Inl err \<Rightarrow> do {
          revoked \<leftarrow> Certificates_Revoke (d_Store deps) (Serial rec) ''unspecified'' now;
          (case revoked of
             Inl _ \<Rightarrow> ret (Inl err)
           | Inr _ \<Rightarrow> do {
               _ \<leftarrow> Audit_Append (d_Store deps)
                 \<lparr>audit_ID = 0, audit_Timestamp = now, audit_Actor = ''system:compensating-revoke'',
                  audit_Action = ''revoke'', audit_Target = Serial rec, audit_Detail = ''unspecified''\<rparr>;
               ret (Inl err)
             })
        })
   }"

definition count_issued :: "string \<Rightarrow> (sys, unit) state" where
  "count_issued profile =
     meter (\<lambda>m. m\<lparr>m_CertificatesIssuedTotal := inc profile (m_CertificatesIssuedTotal m)\<rparr>)"

section \<open>POST /v1/certificates\<close>

definition keyUsageStrings :: "int \<Rightarrow> string list" where
  "keyUsageStrings ku =
     map snd (filter (\<lambda>(b, _). ku AND b \<noteq> 0)
       [(1, ''digitalSignature''), (2, ''contentCommitment''), (4, ''keyEncipherment''),
        (8, ''dataEncipherment''), (16, ''keyAgreement''), (32, ''certSign''), (64, ''crlSign''),
        (128, ''encipherOnly''), (256, ''decipherOnly'')])"

definition eku_name :: "ExtKeyUsage \<Rightarrow> string option" where
  "eku_name e = (case e of
     ExtKeyUsageServerAuth \<Rightarrow> Some ''serverAuth''
   | ExtKeyUsageClientAuth \<Rightarrow> Some ''clientAuth''
   | ExtKeyUsageCodeSigning \<Rightarrow> Some ''codeSigning''
   | ExtKeyUsageEmailProtection \<Rightarrow> Some ''emailProtection''
   | ExtKeyUsageTimeStamping \<Rightarrow> Some ''timeStamping''
   | ExtKeyUsageOCSPSigning \<Rightarrow> Some ''ocspSigning''
   | ExtKeyUsageOther _ \<Rightarrow> None)"

definition extKeyUsageStrings :: "ExtKeyUsage list \<Rightarrow> string list" where
  "extKeyUsageStrings ekus = List.map_filter eku_name ekus"

definition pki_text :: "pki_error \<Rightarrow> string" where
  "pki_text e = (case e of PkiError s \<Rightarrow> ''pki: '' @ s)"

definition issuePreviewResponse ::
    "Deps \<Rightarrow> Profile \<Rightarrow> CertificateRequest \<Rightarrow> Certificate \<Rightarrow> json" where
  "issuePreviewResponse deps profile csr tmpl = JObj
     [(''dry_run'', JBool True), (''profile'', JStr (p_Name profile)),
      (''subject'', JStr (Name_String (d_pki deps) (x_Subject tmpl))),
      (''dns_names'', strs (x_DNSNames tmpl)),
      (''issuer'', JStr (Name_String (d_pki deps) (x_Subject (i_Cert (d_IntermediateIssuer deps))))),
      (''not_before'', JTime (x_NotBefore tmpl)), (''not_after'', JTime (x_NotAfter tmpl)),
      (''public_key_algorithm'', JStr (csr_PublicKeyAlgorithm csr)),
      (''key_usage'', strs (keyUsageStrings (x_KeyUsage tmpl))),
      (''ext_key_usage'', strs (extKeyUsageStrings (p_ExtKeyUsage profile))),
      (''critical_eku'', JBool (p_CriticalEKU profile)),
      (''aia_issuer_urls'', strs (x_IssuingCertificateURL tmpl)),
      (''ocsp_urls'', strs (x_OCSPServer tmpl)),
      (''crl_urls'', strs (x_CRLDistributionPoints tmpl))]"

definition missing_fields :: "issueCertificateRequest \<Rightarrow> string list" where
  "missing_fields req =
     (if ic_Profile req = [] then [''profile''] else []) @ (if ic_CSR req = [] then [''csr''] else [])"

definition handleIssueCertificate :: "Deps \<Rightarrow> request \<Rightarrow> (sys, response) state" where
  "handleIssueCertificate deps r =
     (case (if Query_Get r ''dry_run'' \<noteq> [] then ParseBool (Query_Get r ''dry_run'') else Some False) of
        None \<Rightarrow> ret (writeProblem probInvalidParameter ''dry_run must be true or false''
                  [(''parameter'', JStr ''dry_run'')])
      | Some dryRun \<Rightarrow>
     (case dec_issueCertificate (d_json deps) (q_Body r) of
        Inl e \<Rightarrow> ret (writeProblem probMalformedJSON e [])
      | Inr req \<Rightarrow>
     (if missing_fields req \<noteq> []
      then ret (writeProblem probMissingField (Join (missing_fields req) '' and '' @ '' required'')
             [(''missing_fields'', strs (missing_fields req))])
      else do {
        found \<leftarrow> lookupProfile (ic_Profile req);
        (case found of
           None \<Rightarrow> do {
             names \<leftarrow> profileNames;
             ret (writeProblem probUnknownProfile (''no profile named '' @ quoted (ic_Profile req))
               [(''available_profiles'', strs names)])
           }
         | Some prof \<Rightarrow>
             (case ParseCSR (d_pki deps) (ic_CSR req) of
                Inl e \<Rightarrow> ret (writeProblem probInvalidCSR (pki_text e) [])
              | Inr csr \<Rightarrow> do {
                  let profile = WithIssuerURLs prof (d_PublicBaseURL deps)
                        (EnableRevocation (d_ModuleConfig deps));
                  now \<leftarrow> time_Now;
                  (if dryRun then do {
                     t \<leftarrow> LeafTemplate profile (csr_Subject csr) (csr_PublicKey csr) now
                            (now + p_Validity profile) (csr_DNSNames csr);
                     (case t of
                        Inl _ \<Rightarrow> ret writeInternalError
                      | Inr tmpl \<Rightarrow> ret (writeJSON 200 (issuePreviewResponse deps profile csr tmpl)))
                   }
                   else do {
                     issued \<leftarrow> issueLeafCertificate deps profile (csr_Subject csr) (csr_PublicKey csr)
                       (csr_DNSNames csr) now (q_RemoteAddr r) ''issue'' (p_Name profile);
                     (case issued of
                        Inl _ \<Rightarrow> ret writeInternalError
                      | Inr rec \<Rightarrow> do {
                          count_issued (p_Name profile);
                          ret (writeJSON 201 (JObj
                            [(''serial'', JStr (Serial rec)), (''profile'', JStr (p_Name profile)),
                             (''not_before'', JTime (NotBefore rec)), (''not_after'', JTime (NotAfter rec)),
                             (''pem'', JStr (PEM rec))]))
                        })
                   })
                }))
      })))"

section \<open>Reading and revoking\<close>

definition revoked_at_member :: "time option \<Rightarrow> (string \<times> json) list" where
  "revoked_at_member t = (case t of None \<Rightarrow> [] | Some at \<Rightarrow> [(''revoked_at'', JTime at)])"

definition handleGetCertificate :: "Deps \<Rightarrow> request \<Rightarrow> (sys, response) state" where
  "handleGetCertificate deps r = do {
     got \<leftarrow> Certificates_GetBySerial (d_Store deps) (q_PathValue r);
     (case got of
        Inl ErrNotFound \<Rightarrow> ret (writeProblem probNotFound ''no certificate with this serial'' [])
      | Inl _ \<Rightarrow> ret writeInternalError
      | Inr rec \<Rightarrow> ret (writeJSON 200 (JObj (
          [(''serial'', JStr (Serial rec)), (''kind'', JStr (Kind rec)),
           (''profile'', JStr (ProfileName rec)), (''subject'', JStr (Subject rec)),
           (''issuer_serial'', JStr (IssuerSerial rec)), (''not_before'', JTime (NotBefore rec)),
           (''not_after'', JTime (NotAfter rec)), (''pem'', JStr (PEM rec))]
          @ revoked_at_member (RevokedAt rec)
          @ (if RevocationReason rec \<noteq> [] then [(''revocation_reason'', JStr (RevocationReason rec))]
             else [])))))
   }"

definition handleRevokeCertificate :: "Deps \<Rightarrow> request \<Rightarrow> (sys, response) state" where
  "handleRevokeCertificate deps r =
     (case (if q_ContentLength r = 0 then Inr [] else dec_revokeCertificate (d_json deps) (q_Body r)) of
        Inl e \<Rightarrow> ret (writeProblem probMalformedJSON e [])
      | Inr given \<Rightarrow>
     (let serial = q_PathValue r; reason = (if given = [] then ''unspecified'' else given) in
      if reason \<notin> set revocationReasons
      then ret (writeProblem probUnknownRevocationReason (''unknown revocation reason '' @ quoted reason)
             [(''allowed_values'', strs sortedRevocationReasons)])
      else do {
        got \<leftarrow> Certificates_GetBySerial (d_Store deps) serial;
        (case got of
           Inl ErrNotFound \<Rightarrow> ret (writeProblem probNotFound ''no certificate with this serial'' [])
         | Inl _ \<Rightarrow> ret writeInternalError
         | Inr rec \<Rightarrow>
             (if Kind rec \<noteq> CertKindLeaf
              then ret (writeProblem probNotRevocable
                (''only leaf certificates can be revoked; this is a '' @ Kind rec @ '' certificate'') [])
              else do {
                now \<leftarrow> time_Now;
                revoked \<leftarrow> Certificates_Revoke (d_Store deps) serial reason now;
                (case revoked of
                   Inl ErrAlreadyRevoked \<Rightarrow>
                     ret (writeProblem probAlreadyRevoked [] [(''serial'', JStr serial)])
                 | Inl _ \<Rightarrow> ret writeInternalError
                 | Inr _ \<Rightarrow> do {
                     audited \<leftarrow> Audit_Append (d_Store deps)
                       \<lparr>audit_ID = 0, audit_Timestamp = now, audit_Actor = q_RemoteAddr r,
                        audit_Action = ''revoke'', audit_Target = serial, audit_Detail = reason\<rparr>;
                     (case audited of
                        Inl _ \<Rightarrow> ret writeInternalError
                      | Inr _ \<Rightarrow> do {
                          modify (\<lambda>s. s\<lparr>s_CRLBuilder := map_option Invalidate (s_CRLBuilder s)\<rparr>);
                          meter (\<lambda>m. m\<lparr>m_CertificatesRevokedTotal := m_CertificatesRevokedTotal m + 1\<rparr>);
                          ret (writeJSON 200 (JObj
                            [(''serial'', JStr serial), (''revoked_at'', JTime now),
                             (''reason'', JStr reason)]))
                        })
                   })
              }))
      }))"

section \<open>Clients\<close>

definition writeInvalidRole :: "string \<Rightarrow> response" where
  "writeInvalidRole got = writeProblem probInvalidRole
     (''role must be '' @ quoted ''admin'' @ '' or '' @ quoted ''manager'' @ '', got '' @ quoted got)
     [(''allowed_values'', strs [RoleAdmin, RoleManager])]"

definition handleIssueClient :: "Deps \<Rightarrow> request \<Rightarrow> (sys, response) state" where
  "handleIssueClient deps r =
     (case dec_issueClient (d_json deps) (q_Body r) of
        Inl e \<Rightarrow> ret (writeProblem probMalformedJSON e [])
      | Inr req \<Rightarrow>
     (if icl_CSR req = []
      then ret (writeProblem probMissingField ''csr is required'' [(''missing_fields'', strs [''csr''])])
      else if icl_Role req \<noteq> RoleAdmin \<and> icl_Role req \<noteq> RoleManager
      then ret (writeInvalidRole (icl_Role req))
      else case ParseCSR (d_pki deps) (icl_CSR req) of
        Inl e \<Rightarrow> ret (writeProblem probInvalidCSR (pki_text e) [])
      | Inr csr \<Rightarrow> do {
          let profile = WithIssuerURLs Default (d_PublicBaseURL deps) (EnableRevocation (d_ModuleConfig deps));
          now \<leftarrow> time_Now;
          issued \<leftarrow> issueLeafCertificate deps profile (csr_Subject csr) (csr_PublicKey csr) [] now
            (q_RemoteAddr r) ''client-issue'' (icl_Role req);
          (case issued of
             Inl _ \<Rightarrow> ret writeInternalError
           | Inr rec \<Rightarrow> do {
               assigned \<leftarrow> assignRoleOrRevoke deps rec (icl_Role req) now;
               (case assigned of
                  Inl _ \<Rightarrow> ret writeInternalError
                | Inr _ \<Rightarrow> do {
                    count_issued (p_Name profile);
                    ret (writeJSON 201 (JObj
                      [(''serial'', JStr (Serial rec)), (''role'', JStr (icl_Role req)),
                       (''pem'', JStr (PEM rec))]))
                  })
             })
        }))"

fun list_clients :: "Deps \<Rightarrow> json list \<Rightarrow> ClientRoleRecord list \<Rightarrow> (sys, response) state" where
  "list_clients deps out [] = ret (writeJSON 200 (JArr out))"
| "list_clients deps out (roleRec # roles) = do {
     got \<leftarrow> Certificates_GetBySerial (d_Store deps) (role_CertSerial roleRec);
     (case got of
        Inl _ \<Rightarrow> ret writeInternalError
      | Inr certRec \<Rightarrow> list_clients deps (out @ [JObj (
          [(''serial'', JStr (Serial certRec)), (''role'', JStr (role_Role roleRec)),
           (''subject'', JStr (Subject certRec)), (''not_after'', JTime (NotAfter certRec))]
          @ revoked_at_member (RevokedAt certRec))]) roles)
   }"

definition handleListClients :: "Deps \<Rightarrow> request \<Rightarrow> (sys, response) state" where
  "handleListClients deps r = do {
     got \<leftarrow> ClientRoles_List (d_Store deps);
     (case got of
        Inl _ \<Rightarrow> ret writeInternalError
      | Inr roles \<Rightarrow> list_clients deps [] roles)
   }"

section \<open>Audit log, profiles, CA certificates\<close>

definition defaultAuditLimit :: int where "defaultAuditLimit = 100"
definition maxAuditLimit :: int where "maxAuditLimit = 1000"

definition audit_limit :: "request \<Rightarrow> int option" where
  "audit_limit r =
     (let v = Query_Get r ''limit'' in
      if v = [] then Some defaultAuditLimit
      else case Atoi v of
        None \<Rightarrow> None
      | Some n \<Rightarrow> if n \<le> 0 then None else Some (if n > maxAuditLimit then maxAuditLimit else n))"

definition auditEntryResponse :: "AuditEntry \<Rightarrow> json" where
  "auditEntryResponse e = JObj
     [(''id'', JNum (audit_ID e)), (''timestamp'', JTime (audit_Timestamp e)),
      (''actor'', JStr (audit_Actor e)), (''action'', JStr (audit_Action e)),
      (''target'', JStr (audit_Target e)), (''detail'', JStr (audit_Detail e))]"

definition handleListAudit :: "Deps \<Rightarrow> request \<Rightarrow> (sys, response) state" where
  "handleListAudit deps r =
     (case audit_limit r of
        None \<Rightarrow> ret (writeProblem probInvalidParameter ''limit must be a positive integer''
                  [(''parameter'', JStr ''limit''), (''maximum'', JNum maxAuditLimit)])
      | Some limit \<Rightarrow> do {
          got \<leftarrow> Audit_List (d_Store deps) limit;
          (case got of
             Inl _ \<Rightarrow> ret writeInternalError
           | Inr es \<Rightarrow> ret (writeJSON 200 (JArr (map auditEntryResponse es))))
        })"

definition toProfileResponse :: "Deps \<Rightarrow> Profile \<Rightarrow> json" where
  "toProfileResponse deps p = JObj
     [(''name'', JStr (p_Name p)), (''version'', JNum (p_Version p)),
      (''key_usage'', (if keyUsageStrings (p_KeyUsage p) = [] then JNull
                       else strs (keyUsageStrings (p_KeyUsage p)))),
      (''ext_key_usage'', strs (extKeyUsageStrings (p_ExtKeyUsage p))),
      (''critical_eku'', JBool (p_CriticalEKU p)),
      (''validity'', JStr (d_Duration_String deps (p_Validity p))),
      (''enable_ocsp'', JBool (p_EnableOCSP p)), (''enable_crl'', JBool (p_EnableCRL p))]"

definition handleListProfiles :: "Deps \<Rightarrow> request \<Rightarrow> (sys, response) state" where
  "handleListProfiles deps r = do {
     profs \<leftarrow> gets (\<lambda>s. case s_Profiles s of Some reg \<Rightarrow> Registry_All reg | None \<Rightarrow> All);
     ret (writeJSON 200 (JArr (map (toProfileResponse deps) profs)))
   }"

definition profile_error_text :: "profile_error \<Rightarrow> string" where
  "profile_error_text e = (case e of
     NameRequired \<Rightarrow> ''profile name is required''
   | UnknownKeyAlgorithm s \<Rightarrow> ''unknown key_algorithm '' @ quoted s
   | UnknownKeyUsage s \<Rightarrow> ''unknown key_usage '' @ quoted s
   | UnknownExtKeyUsage s \<Rightarrow> ''unknown ext_key_usage '' @ quoted s
   | InvalidValidity s \<Rightarrow> ''invalid validity '' @ quoted s
   | ReadFailed p \<Rightarrow> ''profiles: reading '' @ p
   | ParseFailed p \<Rightarrow> ''profiles: parsing '' @ p
   | CollidesWithBuiltin s \<Rightarrow> ''profile name '' @ quoted s @ '' collides with a built-in profile''
   | DuplicateName s \<Rightarrow> ''profiles: duplicate profile name '' @ quoted s @ '' across config files''
   | StoreFailed _ \<Rightarrow> ''profiles: persisting profile'')"

definition handleReloadProfiles :: "Deps \<Rightarrow> request \<Rightarrow> (sys, response) state" where
  "handleReloadProfiles deps r = do {
     reg \<leftarrow> gets s_Profiles;
     (case reg of
        None \<Rightarrow> ret (writeProblem probProfilesUnavailable [] [])
      | Some old \<Rightarrow> do {
          (res, new) \<leftarrow> Registry_Load (d_Store deps) (enc_Profile (d_json deps)) (d_ParseDuration deps)
            (d_walk deps) (d_profilesDir deps) (d_profileFiles deps) old;
          modify (\<lambda>s. s\<lparr>s_Profiles := Some new\<rparr>);
          (case res of
             Inl e \<Rightarrow> ret (writeProblem probProfileReloadFailed (profile_error_text e) [])
           | Inr _ \<Rightarrow> do {
               now \<leftarrow> time_Now;
               audited \<leftarrow> Audit_Append (d_Store deps)
                 \<lparr>audit_ID = 0, audit_Timestamp = now, audit_Actor = q_RemoteAddr r,
                  audit_Action = ''profiles-reload'', audit_Target = [], audit_Detail = []\<rparr>;
               (case audited of
                  Inl _ \<Rightarrow> ret writeInternalError
                | Inr _ \<Rightarrow> ret (writeJSON 200 (JObj
                    [(''profiles'', strs (map p_Name (Registry_All new)))])))
             })
        })
   }"

definition handleCAPem :: "Deps \<Rightarrow> CertKind \<Rightarrow> request \<Rightarrow> (sys, response) state" where
  "handleCAPem deps kind r = do {
     got \<leftarrow> Certificates_FindByKind (d_Store deps) kind;
     (case got of
        Inl _ \<Rightarrow> ret writeInternalError
      | Inr recs \<Rightarrow>
          (if recs = []
           then ret (writeProblem probNotFound (''CA certificate '' @ kind @ '' has not been bootstrapped'') [])
           else ret (raw_response ''application/x-pem-file'' (PEM (last recs)))))
   }"

section \<open>Every handler moves the ledger forward\<close>

lemma keeps_lookupProfile [keeps]: "state_io_rel ledger_le (lookupProfile name)"
  unfolding lookupProfile_def by (intro keeps)

lemma keeps_profileNames [keeps]: "state_io_rel ledger_le profileNames"
  unfolding profileNames_def by (intro keeps)

lemma keeps_issueLeafCertificate [keeps]:
  "state_io_rel ledger_le (issueLeafCertificate deps p sub pub dns now actor action detail)"
  unfolding issueLeafCertificate_def by (auto simp: Let_def intro!: keeps)

lemma keeps_assignRoleOrRevoke [keeps]: "state_io_rel ledger_le (assignRoleOrRevoke deps rec role now)"
  unfolding assignRoleOrRevoke_def by (auto simp: Let_def intro!: keeps)

lemma keeps_count_issued [keeps]: "state_io_rel ledger_le (count_issued p)"
  unfolding count_issued_def by (intro keeps)

lemma keeps_handleIssueCertificate [keeps]: "state_io_rel ledger_le (handleIssueCertificate deps r)"
  unfolding handleIssueCertificate_def by (auto simp: Let_def intro!: keeps)

lemma keeps_handleGetCertificate [keeps]: "state_io_rel ledger_le (handleGetCertificate deps r)"
  unfolding handleGetCertificate_def by (auto simp: Let_def intro!: keeps)

lemma keeps_handleRevokeCertificate [keeps]: "state_io_rel ledger_le (handleRevokeCertificate deps r)"
  unfolding handleRevokeCertificate_def by (auto simp: Let_def intro!: keeps keeps_modify)

lemma keeps_handleIssueClient [keeps]: "state_io_rel ledger_le (handleIssueClient deps r)"
  unfolding handleIssueClient_def by (auto simp: Let_def intro!: keeps)

lemma keeps_list_clients [keeps]: "state_io_rel ledger_le (list_clients deps out roles)"
  by (induction roles arbitrary: out) (auto intro!: keeps)

lemma keeps_handleListClients [keeps]: "state_io_rel ledger_le (handleListClients deps r)"
  unfolding handleListClients_def by (auto intro!: keeps)

lemma keeps_handleListAudit [keeps]: "state_io_rel ledger_le (handleListAudit deps r)"
  unfolding handleListAudit_def by (auto intro!: keeps)

lemma keeps_handleListProfiles [keeps]: "state_io_rel ledger_le (handleListProfiles deps r)"
  unfolding handleListProfiles_def by (auto intro!: keeps)

lemma keeps_handleReloadProfiles [keeps]: "state_io_rel ledger_le (handleReloadProfiles deps r)"
  unfolding handleReloadProfiles_def by (auto intro!: keeps keeps_modify)

lemma keeps_handleCAPem [keeps]: "state_io_rel ledger_le (handleCAPem deps kind r)"
  unfolding handleCAPem_def by (auto intro!: keeps)

section \<open>What issuance leaves behind\<close>

text \<open>The row written for a certificate, and the audit entry beside it.\<close>

definition leaf_row ::
    "Deps \<Rightarrow> Profile \<Rightarrow> Name \<Rightarrow> pubkey \<Rightarrow> string list \<Rightarrow> time \<Rightarrow> CertificateRecord \<Rightarrow> bool" where
  "leaf_row deps p sub pub dns now rec \<longleftrightarrow> (\<exists>c.
     leaf_of (d_pki deps) p sub pub (d_IntermediateIssuer deps) now (now + p_Validity p) dns c \<and>
     rec = \<lparr>Serial = Int_String (SerialNumber c), Kind = CertKindLeaf, ProfileName = p_Name p,
       Subject = Name_String (d_pki deps) (x_Subject c),
       IssuerSerial = Int_String (SerialNumber (i_Cert (d_IntermediateIssuer deps))),
       NotBefore = x_NotBefore c, NotAfter = x_NotAfter c, PEM = encodeCertPEM deps (x_Raw c),
       KeyRef = [], CreatedAt = now, RevokedAt = None, RevocationReason = []\<rparr>)"

lemma leaf_rowI:
  "leaf_of (d_pki deps) p sub pub (d_IntermediateIssuer deps) now (now + p_Validity p) dns c \<Longrightarrow>
   leaf_row deps p sub pub dns now
     \<lparr>Serial = Int_String (SerialNumber c), Kind = CertKindLeaf, ProfileName = p_Name p,
       Subject = Name_String (d_pki deps) (x_Subject c),
       IssuerSerial = Int_String (SerialNumber (i_Cert (d_IntermediateIssuer deps))),
       NotBefore = x_NotBefore c, NotAfter = x_NotAfter c, PEM = encodeCertPEM deps (x_Raw c),
       KeyRef = [], CreatedAt = now, RevokedAt = None, RevocationReason = []\<rparr>"
  by (auto simp: leaf_row_def)

definition audited :: "string \<Rightarrow> string \<Rightarrow> string \<Rightarrow> string \<Rightarrow> AuditEntry \<Rightarrow> bool" where
  "audited actor action target detail e \<longleftrightarrow>
     audit_Actor e = actor \<and> audit_Action e = action \<and> audit_Target e = target \<and> audit_Detail e = detail"

lemma wp_issueLeafCertificate:
  assumes x509: "x509_faithful (d_pki deps)"
    and ok: "\<And>rec e rs f. leaf_row deps p sub pub dns now rec \<Longrightarrow>
      Serial rec \<notin> Serial ` set (certificates s) \<Longrightarrow> audited actor action (Serial rec) detail e \<Longrightarrow>
      Q (Inr rec) (s\<lparr>rand_tape := rs, certificates := certificates s @ [cert_row (d_Store deps) rec],
        faults := f, audit_log := audit_log s @ [e]\<rparr>)"
    and failed: "\<And>e s'. s_Metrics s' = s_Metrics s \<Longrightarrow> Q (Inl e) s'"
  shows "wp (issueLeafCertificate deps p sub pub dns now actor action detail) Q s"
  unfolding issueLeafCertificate_def using x509
  by (auto simp: Let_def audited_def intro!: wps ok failed leaf_rowI)

end
