(* ===== verification/Api_Services.thy ===== *)
theory Api_Services
  imports Api_Certificates
begin

text \<open>
  The routes of the optional modules revocation and TSA, \<open>revocation.go\<close> and \<open>tsa.go\<close> of
  \<open>internal/api\<close>. Durations of requests are observed in histograms, which are not modelled; the
  clock readings that serve them are.
\<close>

section \<open>CRL and OCSP\<close>

definition maxOCSPRequestBytes :: nat where "maxOCSPRequestBytes = 64 * 1024"

definition writeUnknownCRL :: response where
  "writeUnknownCRL = writeProblem probNotFound ''unknown CRL''
     [(''available'', strs [''root.crl'', ''intermediate.crl''])]"

definition crl_response :: "rev_error + string \<Rightarrow> response" where
  "crl_response res = (case res of
     Inl _ \<Rightarrow> writeInternalError
   | Inr der \<Rightarrow> raw_response ''application/pkix-crl'' der)"

definition handleCRL :: "Deps \<Rightarrow> request \<Rightarrow> (sys, response) state" where
  "handleCRL deps r =
     (case CutSuffix (q_PathValue r) ''.crl'' of (ca, ok) \<Rightarrow>
        if \<not> ok then ret writeUnknownCRL
        else if ca = ''intermediate'' then do {
          cb \<leftarrow> gets s_CRLBuilder;
          (case cb of
             None \<Rightarrow> ret panicked
           | Some builder \<Rightarrow> do {
               (res, builder') \<leftarrow> CRL (d_Store deps) (d_rev deps) builder;
               modify (\<lambda>s. s\<lparr>s_CRLBuilder := Some builder'\<rparr>);
               ret (crl_response res)
             })
        }
        else if ca = ''root'' then do {
          cb \<leftarrow> gets s_RootCRLBuilder;
          (case cb of
             None \<Rightarrow> ret panicked
           | Some builder \<Rightarrow> do {
               (res, builder') \<leftarrow> CRL (d_Store deps) (d_rev deps) builder;
               modify (\<lambda>s. s\<lparr>s_RootCRLBuilder := Some builder'\<rparr>);
               ret (crl_response res)
             })
        }
        else ret writeUnknownCRL)"

text \<open>\<open>io.ReadAll(io.LimitReader(r.Body, n))\<close>\<close>

definition read_limited :: "request \<Rightarrow> nat \<Rightarrow> string option" where
  "read_limited r n = (if q_BodyFails r then None else Some (take n (q_Body r)))"

definition recordOCSPMetrics :: "string \<Rightarrow> (sys, unit) state" where
  "recordOCSPMetrics st = do {
     m \<leftarrow> gets s_Metrics;
     (if m = None then ret ()
      else do {
        meter (\<lambda>m. m\<lparr>m_OCSPRequestsTotal := inc st (m_OCSPRequestsTotal m)\<rparr>);
        _ \<leftarrow> time_Now;
        ret ()
      })
   }"

definition handleOCSP :: "Deps \<Rightarrow> request \<Rightarrow> (sys, response) state" where
  "handleOCSP deps r = do {
     start \<leftarrow> time_Now;
     (if q_ContentType r \<noteq> [] \<and> q_ContentType r \<noteq> ''application/ocsp-request'' then do {
        recordOCSPMetrics ''bad_request'';
        ret (writeProblem probUnsupportedMediaType ''Content-Type must be application/ocsp-request''
          [(''expected_content_type'', JStr ''application/ocsp-request'')])
      }
      else case read_limited r (maxOCSPRequestBytes + 1) of
        None \<Rightarrow> do { recordOCSPMetrics ''bad_request''; ret (writeProblem probBodyUnreadable [] []) }
      | Some body \<Rightarrow>
          (if length body > maxOCSPRequestBytes then do {
             recordOCSPMetrics ''bad_request'';
             ret (writeProblem probBodyTooLarge [] [(''max_bytes'', JNum (int maxOCSPRequestBytes))])
           }
           else do {
             resp \<leftarrow> Respond (d_Store deps) (d_rev deps) (d_OCSPIssuers deps) body;
             (case resp of
                Inl ErrMalformedRequest \<Rightarrow> do {
                  recordOCSPMetrics ''bad_request'';
                  ret (writeProblem probInvalidOCSPRequest
                    ''body is not a DER-encoded RFC 6960 OCSPRequest'' [])
                }
              | Inl _ \<Rightarrow> do { recordOCSPMetrics ''error''; ret writeInternalError }
              | Inr der \<Rightarrow> do {
                  recordOCSPMetrics ''ok'';
                  ret (raw_response ''application/ocsp-response'' der)
                })
           }))
   }"

section \<open>Time stamps\<close>

definition maxTSARequestBytes :: nat where "maxTSARequestBytes = 64 * 1024"

definition recordTSAMetrics :: "string \<Rightarrow> (sys, unit) state" where
  "recordTSAMetrics st = do {
     m \<leftarrow> gets s_Metrics;
     (if m = None then ret ()
      else do {
        meter (\<lambda>m. m\<lparr>m_TSARequestsTotal := inc st (m_TSARequestsTotal m)\<rparr>);
        _ \<leftarrow> time_Now;
        ret ()
      })
   }"

definition handleTSA :: "Deps \<Rightarrow> request \<Rightarrow> (sys, response) state" where
  "handleTSA deps r = do {
     start \<leftarrow> time_Now;
     (if q_ContentType r \<noteq> [] \<and> q_ContentType r \<noteq> ''application/timestamp-query'' then do {
        recordTSAMetrics ''bad_request'';
        ret (writeProblem probUnsupportedMediaType ''Content-Type must be application/timestamp-query''
          [(''expected_content_type'', JStr ''application/timestamp-query'')])
      }
      else case read_limited r (maxTSARequestBytes + 1) of
        None \<Rightarrow> do { recordTSAMetrics ''bad_request''; ret (writeProblem probBodyUnreadable [] []) }
      | Some body \<Rightarrow>
          (if length body > maxTSARequestBytes then do {
             recordTSAMetrics ''bad_request'';
             ret (writeProblem probBodyTooLarge [] [(''max_bytes'', JNum (int maxTSARequestBytes))])
           }
           else do {
             rs \<leftarrow> gets s_TSAResponder;
             (case rs of
                None \<Rightarrow> ret panicked
              | Some responder \<Rightarrow> do {
                  (resp, responder') \<leftarrow> Respond_ts (d_tsa deps) responder body;
                  modify (\<lambda>s. s\<lparr>s_TSAResponder := Some responder'\<rparr>);
                  (case resp of
                     Inl TsaUnsupportedRequest \<Rightarrow> do {
                       recordTSAMetrics ''bad_request'';
                       ret (writeProblem probUnsupportedTSARequest
                         ''SHA-1 message imprints are not supported; use SHA-256 or stronger'' [])
                     }
                   | Inl TsaMalformedRequest \<Rightarrow> do {
                       recordTSAMetrics ''bad_request'';
                       ret (writeProblem probInvalidTSARequest
                         ''body is not a DER-encoded RFC 3161 TimeStampReq'' [])
                     }
                   | Inl _ \<Rightarrow> do { recordTSAMetrics ''error''; ret writeInternalError }
                   | Inr der \<Rightarrow> do {
                       recordTSAMetrics ''ok'';
                       ret (raw_response ''application/timestamp-reply'' der)
                     })
                })
           }))
   }"

text \<open>The key store of the service is the file store here and below; rotation itself only uses what \<open>key_store\<close> asks of a
  store.\<close>

definition handleRotateTSA :: "Deps \<Rightarrow> request \<Rightarrow> (sys, response) state" where
  "handleRotateTSA deps r = do {
     rs \<leftarrow> gets s_TSAResponder;
     (case rs of
        None \<Rightarrow> ret panicked
      | Some responder \<Rightarrow> do {
          let previous = CurrentIssuer responder;
          ks \<leftarrow> gets s_KeyStore;
          fresh \<leftarrow> FreshRef (FileKeyStore_Exists ks) ''tsa'';
          (case fresh of
             Inl _ \<Rightarrow> ret writeInternalError
           | Inr k \<Rightarrow> do {
               (issued, ks') \<leftarrow> IssueIdentity (d_Store deps) (d_pki deps)
                 (FileKeyStore_Generate (d_ks deps) ks) k
                 \<lparr>ip_CommonName = d_TSACommonName deps, ip_Validity = d_TSAValidity deps,
                  ip_PublicBaseURL = d_PublicBaseURL deps,
                  ip_RevocationEnabled = EnableRevocation (d_ModuleConfig deps)\<rparr>
                 (d_IntermediateIssuer deps);
               modify (\<lambda>s. s\<lparr>s_KeyStore := ks'\<rparr>);
               (case issued of
                  Inl _ \<Rightarrow> ret writeInternalError
                | Inr (newIssuer, rec) \<Rightarrow> do {
                    modify (\<lambda>s. s\<lparr>s_TSAResponder := map_option (Rotate newIssuer) (s_TSAResponder s)\<rparr>);
                    au \<leftarrow> Audit_Append (d_Store deps)
                      \<lparr>audit_ID = 0, audit_Timestamp = CreatedAt rec, audit_Actor = q_RemoteAddr r,
                       audit_Action = ''tsa-rotate'', audit_Target = Serial rec,
                       audit_Detail = ''previous: '' @ Int_String (SerialNumber (i_Cert previous))\<rparr>;
                    (case au of
                       Inl _ \<Rightarrow> ret writeInternalError
                     | Inr _ \<Rightarrow> do {
                         count_issued (ProfileName rec);
                         ret (writeJSON 200 (JObj
                           [(''serial'', JStr (Serial rec)),
                            (''previous_serial'', JStr (Int_String (SerialNumber (i_Cert previous)))),
                            (''profile'', JStr (ProfileName rec)),
                            (''not_before'', JTime (NotBefore rec)), (''not_after'', JTime (NotAfter rec)),
                            (''pem'', JStr (PEM rec))]))
                       })
                  })
             })
        })
   }"

section \<open>Every handler moves the ledger forward\<close>

lemma keeps_case_rev_error [keeps]:
  "(\<And>x. e = RevListing x \<Longrightarrow> state_io_rel R (a x)) \<Longrightarrow> (\<And>x. e = RevSerial x \<Longrightarrow> state_io_rel R (b x)) \<Longrightarrow>
   (e = RevNilTime \<Longrightarrow> state_io_rel R c) \<Longrightarrow> (e = RevSigning \<Longrightarrow> state_io_rel R d) \<Longrightarrow>
   (e = ErrMalformedRequest \<Longrightarrow> state_io_rel R f) \<Longrightarrow>
   state_io_rel R (case e of RevListing x \<Rightarrow> a x | RevSerial x \<Rightarrow> b x | RevNilTime \<Rightarrow> c
     | RevSigning \<Rightarrow> d | ErrMalformedRequest \<Rightarrow> f)"
  by (cases e) auto

lemma keeps_case_tsa_error [keeps]:
  "(e = TsaMalformedRequest \<Longrightarrow> state_io_rel R a) \<Longrightarrow> (e = TsaUnsupportedRequest \<Longrightarrow> state_io_rel R b) \<Longrightarrow>
   (e = TsaSigning \<Longrightarrow> state_io_rel R c) \<Longrightarrow> (\<And>x. e = TsaKey x \<Longrightarrow> state_io_rel R (d x)) \<Longrightarrow>
   (\<And>x. e = TsaIssue x \<Longrightarrow> state_io_rel R (f x)) \<Longrightarrow> (\<And>x. e = TsaPersist x \<Longrightarrow> state_io_rel R (g x)) \<Longrightarrow>
   state_io_rel R (case e of TsaMalformedRequest \<Rightarrow> a | TsaUnsupportedRequest \<Rightarrow> b | TsaSigning \<Rightarrow> c
     | TsaKey x \<Rightarrow> d x | TsaIssue x \<Rightarrow> f x | TsaPersist x \<Rightarrow> g x)"
  by (cases e) auto

lemma keeps_recordOCSPMetrics [keeps]: "state_io_rel ledger_le (recordOCSPMetrics st)"
  unfolding recordOCSPMetrics_def by (intro keeps)

lemma keeps_recordTSAMetrics [keeps]: "state_io_rel ledger_le (recordTSAMetrics st)"
  unfolding recordTSAMetrics_def by (intro keeps)

lemma keeps_handleCRL [keeps]: "state_io_rel ledger_le (handleCRL deps r)"
  unfolding handleCRL_def by (auto intro!: keeps keeps_modify split: prod.splits)

lemma keeps_handleOCSP [keeps]: "state_io_rel ledger_le (handleOCSP deps r)"
  unfolding handleOCSP_def by (auto intro!: keeps)

lemma keeps_handleTSA [keeps]: "state_io_rel ledger_le (handleTSA deps r)"
  unfolding handleTSA_def by (auto intro!: keeps keeps_modify)

lemma keeps_handleRotateTSA [keeps]: "state_io_rel ledger_le (handleRotateTSA deps r)"
  unfolding handleRotateTSA_def by (auto simp: Let_def intro!: keeps keeps_modify)

end
