(* ===== verification/Api_Acme.thy ===== *)
theory Api_Acme
  imports Api_Services
begin

text \<open>
  The ACME routes, \<open>internal/api/acme.go\<close>: enrolment tokens, nonces, accounts bound to a token,
  orders and their finalization. Every response of the protocol carries a fresh nonce when one can
  be stored.
\<close>

section \<open>Nonces and problems\<close>

definition acmeNonceTTL :: duration where "acmeNonceTTL = 5 * Minute"
definition acmeEABTokenTTL :: duration where "acmeEABTokenTTL = 24 * Hour"
definition acmeOrderExpiresIn :: duration where "acmeOrderExpiresIn = 24 * Hour"

definition acmeURL :: "Deps \<Rightarrow> string \<Rightarrow> string" where
  "acmeURL deps p = d_PublicBaseURL deps @ ''/v1/acme/'' @ p"

text \<open>\<open>issueAndAttachNonce\<close>: the header it sets, if any.\<close>

definition issueAndAttachNonce :: "Deps \<Rightarrow> (sys, (string \<times> string) list) state" where
  "issueAndAttachNonce deps = do {
     now \<leftarrow> time_Now;
     n \<leftarrow> ACMENonces_Issue (d_Store deps) (now + acmeNonceTTL);
     (case n of Inl _ \<Rightarrow> ret [] | Inr nonce \<Rightarrow> ret [(''Replay-Nonce'', nonce)])
   }"

definition acmeProblem :: "Deps \<Rightarrow> nat \<Rightarrow> string \<Rightarrow> string \<Rightarrow> (sys, response) state" where
  "acmeProblem deps st problemType detail = do {
     hs \<leftarrow> issueAndAttachNonce deps;
     ret \<lparr>status = st, headers = hs @ [(''Content-Type'', ''application/problem+json'')],
          rbody = Json (JObj [(''type'', JStr (''urn:ietf:params:acme:error:'' @ problemType)),
                              (''detail'', JStr detail)])\<rparr>
   }"

definition serverInternal :: "Deps \<Rightarrow> (sys, response) state" where
  "serverInternal deps = acmeProblem deps 500 ''serverInternal'' ''internal error''"

text \<open>A JSON response with a nonce and further headers set before it.\<close>

definition acmeJSON :: "Deps \<Rightarrow> nat \<Rightarrow> (string \<times> string) list \<Rightarrow> json \<Rightarrow> (sys, response) state" where
  "acmeJSON deps st hs v = do {
     ns \<leftarrow> issueAndAttachNonce deps;
     ret (writeJSON st v\<lparr>headers := hs @ ns @ [(''Content-Type'', ''application/json'')]\<rparr>)
   }"

definition randomACMEID :: "('x world_scheme, string option) state" where
  "randomACMEID = do {
     buf \<leftarrow> rand_Read 16;
     (case buf of None \<Rightarrow> ret None | Some b \<Rightarrow> ret (Some (hex_EncodeToString b)))
   }"

definition handleACMEDirectory :: "Deps \<Rightarrow> request \<Rightarrow> (sys, response) state" where
  "handleACMEDirectory deps r = ret (writeJSON 200 (JObj
     [(''newNonce'', JStr (acmeURL deps ''new-nonce'')), (''newAccount'', JStr (acmeURL deps ''new-account'')),
      (''newOrder'', JStr (acmeURL deps ''new-order'')),
      (''meta'', JObj [(''externalAccountRequired'', JBool True)])]))"

definition handleACMENewNonce :: "Deps \<Rightarrow> request \<Rightarrow> (sys, response) state" where
  "handleACMENewNonce deps r = do {
     now \<leftarrow> time_Now;
     n \<leftarrow> ACMENonces_Issue (d_Store deps) (now + acmeNonceTTL);
     (case n of
        Inl _ \<Rightarrow> serverInternal deps
      | Inr nonce \<Rightarrow> ret \<lparr>status = 204, headers = [(''Replay-Nonce'', nonce), (''Cache-Control'', ''no-store'')],
                        rbody = NoBody\<rparr>)
   }"

definition readBody :: "request \<Rightarrow> string option" where
  "readBody r = (case read_limited r (2 ^ 20) of
     None \<Rightarrow> None
   | Some d \<Rightarrow> if d = [] then None else Some d)"

definition jose_text :: "jose_error \<Rightarrow> string" where
  "jose_text e = (case e of JoseError s \<Rightarrow> ''acme: '' @ s)"

definition verifiedJWS :: "Deps \<Rightarrow> request \<Rightarrow> string \<Rightarrow> (sys, response + JWS) state" where
  "verifiedJWS deps r expectedURL =
     (case readBody r of
        None \<Rightarrow> do { p \<leftarrow> acmeProblem deps 400 ''malformed'' ''reading request body''; ret (Inl p) }
      | Some body \<Rightarrow>
          (case ParseJWS (d_jose deps) body of
             Inl e \<Rightarrow> do { p \<leftarrow> acmeProblem deps 400 ''malformed'' (jose_text e); ret (Inl p) }
           | Inr jws \<Rightarrow> do {
               now \<leftarrow> time_Now;
               consumed \<leftarrow> ACMENonces_ConsumeIfValid (d_Store deps) (h_Nonce (j_Header jws)) now;
               (case consumed of
                  Inl _ \<Rightarrow> do { p \<leftarrow> serverInternal deps; ret (Inl p) }
                | Inr ok \<Rightarrow>
                    (if \<not> ok then do {
                       p \<leftarrow> acmeProblem deps 400 ''badNonce'' ''invalid, reused, or expired nonce'';
                       ret (Inl p)
                     }
                     else if h_URL (j_Header jws) \<noteq> expectedURL then do {
                       p \<leftarrow> acmeProblem deps 400 ''malformed'' ''JWS url header does not match the request URL'';
                       ret (Inl p)
                     }
                     else ret (Inr jws)))
             }))"

section \<open>Accounts\<close>

definition acmeAccountResponse :: json where
  "acmeAccountResponse = JObj
     [(''status'', JStr ''valid''), (''contact'', JArr []), (''termsOfServiceAgreed'', JBool True)]"

definition account_location :: "Deps \<Rightarrow> string \<Rightarrow> (string \<times> string) list" where
  "account_location deps i = [(''Location'', acmeURL deps (''account/'' @ i))]"

text \<open>The part of \<open>handleACMENewAccount\<close> after the token was claimed.\<close>

definition createAccount ::
    "Deps \<Rightarrow> request \<Rightarrow> JWS \<Rightarrow> string \<Rightarrow> ACMEEABTokenRecord \<Rightarrow> time \<Rightarrow> (sys, response) state" where
  "createAccount deps r jws thumbprint eabToken now = do {
     fresh \<leftarrow> randomACMEID;
     (case fresh of
        None \<Rightarrow> serverInternal deps
      | Some i \<Rightarrow> do {
          created \<leftarrow> ACMEAccounts_Create (d_Store deps)
            \<lparr>acct_ID = i, acct_JWKThumbprint = thumbprint, acct_PublicKeyJWK = h_JWK (j_Header jws),
             acct_Role = eab_Role eabToken, acct_EABKeyID = eab_KeyID eabToken, acct_CreatedAt = now\<rparr>;
          (case created of
             Inl ErrAlreadyExists \<Rightarrow> do {
               again \<leftarrow> ACMEAccounts_GetByThumbprint (d_Store deps) thumbprint;
               (case again of
                  Inl _ \<Rightarrow> serverInternal deps
                | Inr existing \<Rightarrow>
                    acmeJSON deps 200 (account_location deps (acct_ID existing)) acmeAccountResponse)
             }
           | Inl _ \<Rightarrow> serverInternal deps
           | Inr _ \<Rightarrow> do {
               _ \<leftarrow> Audit_Append (d_Store deps)
                 \<lparr>audit_ID = 0, audit_Timestamp = now, audit_Actor = q_RemoteAddr r,
                  audit_Action = ''acme-new-account'', audit_Target = i, audit_Detail = eab_Role eabToken\<rparr>;
               meter (\<lambda>m. m\<lparr>m_ACMEAccountsTotal := m_ACMEAccountsTotal m + 1\<rparr>);
               acmeJSON deps 201 (account_location deps i) acmeAccountResponse
             })
        })
   }"

text \<open>The part that checks the external account binding, up to and including the claim.\<close>

definition bindAccount ::
    "Deps \<Rightarrow> request \<Rightarrow> JWS \<Rightarrow> string \<Rightarrow> string \<Rightarrow> (sys, response) state" where
  "bindAccount deps r jws thumbprint eab =
     (case ParseJWS (d_jose deps) eab of
        Inl e \<Rightarrow> acmeProblem deps 400 ''malformed'' (''parsing externalAccountBinding: '' @ jose_text e)
      | Inr eabJWS \<Rightarrow>
          (if h_URL (j_Header eabJWS) \<noteq> h_URL (j_Header jws)
           then acmeProblem deps 400 ''malformed'' ''externalAccountBinding url does not match the outer JWS''
           else if j_Payload eabJWS \<noteq> h_JWK (j_Header jws)
           then acmeProblem deps 401 ''malformed''
                  ''externalAccountBinding payload does not match the account jwk''
           else do {
             tok \<leftarrow> ACMEEABTokens_Get (d_Store deps) (h_Kid (j_Header eabJWS));
             (case tok of
                Inl ErrNotFound \<Rightarrow>
                  acmeProblem deps 401 ''unauthorized'' ''unknown externalAccountBinding key id''
              | Inl _ \<Rightarrow> serverInternal deps
              | Inr eabToken \<Rightarrow>
                  (if eab_Consumed eabToken
                   then acmeProblem deps 401 ''unauthorized''
                          ''externalAccountBinding key has already been used''
                   else do {
                     t \<leftarrow> time_Now;
                     (if eab_ExpiresAt eabToken < t
                      then acmeProblem deps 401 ''unauthorized'' ''externalAccountBinding key has expired''
                      else case VerifyHMAC (d_jose deps) eabJWS (eab_HMACKey eabToken) of
                        Inl e \<Rightarrow> acmeProblem deps 401 ''unauthorized'' (jose_text e)
                      | Inr _ \<Rightarrow> do {
                          now \<leftarrow> time_Now;
                          claimed \<leftarrow> ACMEEABTokens_MarkConsumed (d_Store deps) (eab_KeyID eabToken) now;
                          (case claimed of
                             Inl ErrAlreadyConsumed \<Rightarrow> acmeProblem deps 401 ''unauthorized''
                               ''externalAccountBinding key has already been used or has expired''
                           | Inl _ \<Rightarrow> serverInternal deps
                           | Inr _ \<Rightarrow> createAccount deps r jws thumbprint eabToken now)
                        })
                   }))
           }))"

definition handleACMENewAccount :: "Deps \<Rightarrow> request \<Rightarrow> (sys, response) state" where
  "handleACMENewAccount deps r = do {
     v \<leftarrow> verifiedJWS deps r (acmeURL deps ''new-account'');
     (case v of
        Inl p \<Rightarrow> ret p
      | Inr jws \<Rightarrow>
          (if h_JWK (j_Header jws) = []
           then acmeProblem deps 400 ''malformed''
                  ''new-account JWS must carry a jwk header (fresh account key, not kid)''
           else case JWKPublicKey (d_jose deps) (h_JWK (j_Header jws)) of
             Inl e \<Rightarrow> acmeProblem deps 400 ''malformed'' (jose_text e)
           | Inr accountPub \<Rightarrow>
               (case Verify (d_jose deps) jws accountPub of
                  Inl e \<Rightarrow> acmeProblem deps 401 ''unauthorized'' (jose_text e)
                | Inr _ \<Rightarrow>
                    (case dec_newAccount (d_json deps) (j_Payload jws) of
                       Inl e \<Rightarrow> acmeProblem deps 400 ''malformed'' (''decoding new-account payload: '' @ e)
                     | Inr (_, eab) \<Rightarrow>
                         (if eab = []
                          then acmeProblem deps 401 ''externalAccountRequired''
                                 ''externalAccountBinding is required''
                          else case Thumbprint (d_jose deps) accountPub of
                            Inl _ \<Rightarrow> serverInternal deps
                          | Inr thumbprint \<Rightarrow> do {
                              got \<leftarrow> ACMEAccounts_GetByThumbprint (d_Store deps) thumbprint;
                              (case got of
                                 Inr existing \<Rightarrow>
                                   acmeJSON deps 200 (account_location deps (acct_ID existing)) acmeAccountResponse
                               | Inl ErrNotFound \<Rightarrow> bindAccount deps r jws thumbprint eab
                               | Inl _ \<Rightarrow> serverInternal deps)
                            })))))
   }"

datatype account_error = AcctStore store_error | AcctOther string

definition resolveACMEAccount :: "Deps \<Rightarrow> JWS \<Rightarrow> (sys, account_error + ACMEAccountRecord) state" where
  "resolveACMEAccount deps jws =
     (let pre = acmeURL deps ''account/'' in
      if \<not> HasPrefix (h_Kid (j_Header jws)) pre
      then ret (Inl (AcctOther ''kid does not identify an account''))
      else do {
        got \<leftarrow> ACMEAccounts_GetByID (d_Store deps) (TrimPrefix (h_Kid (j_Header jws)) pre);
        (case got of
           Inl e \<Rightarrow> ret (Inl (AcctStore e))
         | Inr account \<Rightarrow>
             (case JWKPublicKey (d_jose deps) (acct_PublicKeyJWK account) of
                Inl e \<Rightarrow> ret (Inl (AcctOther (jose_text e)))
              | Inr pub \<Rightarrow>
                  (case Verify (d_jose deps) jws pub of
                     Inl e \<Rightarrow> ret (Inl (AcctOther (jose_text e)))
                   | Inr _ \<Rightarrow> ret (Inr account))))
      })"

definition account_problem :: "Deps \<Rightarrow> account_error \<Rightarrow> (sys, response) state" where
  "account_problem deps e = (case e of
     AcctStore ErrNotFound \<Rightarrow> acmeProblem deps 401 ''accountDoesNotExist'' ''unknown account''
   | AcctStore _ \<Rightarrow> acmeProblem deps 401 ''unauthorized'' ''store error''
   | AcctOther s \<Rightarrow> acmeProblem deps 401 ''unauthorized'' s)"

section \<open>Orders\<close>

definition acmeIdentifierType :: string where "acmeIdentifierType = ''trustmate-client''"

definition identifier_json :: "string \<Rightarrow> json" where
  "identifier_json v = JObj [(''type'', JStr acmeIdentifierType), (''value'', JStr v)]"

definition acmeOrderResponse :: "Deps \<Rightarrow> ACMEOrderRecord \<Rightarrow> json" where
  "acmeOrderResponse deps order = JObj (
     [(''status'', JStr (order_Status order)),
      (''expires'', JTime (rfc3339 (order_CreatedAt order + acmeOrderExpiresIn))),
      (''identifiers'', JArr [identifier_json (order_Identifier order)]),
      (''authorizations'', strs [acmeURL deps (''authorization/'' @ order_ID order)]),
      (''finalize'', JStr (acmeURL deps (''order/'' @ order_ID order @ ''/finalize'')))]
     @ (if order_Status order = ACMEOrderStatusValid
        then [(''certificate'', JStr (acmeURL deps (''certificate/'' @ order_ID order)))] else []))"

definition handleACMENewOrder :: "Deps \<Rightarrow> request \<Rightarrow> (sys, response) state" where
  "handleACMENewOrder deps r = do {
     v \<leftarrow> verifiedJWS deps r (acmeURL deps ''new-order'');
     (case v of
        Inl p \<Rightarrow> ret p
      | Inr jws \<Rightarrow> do {
          acct \<leftarrow> resolveACMEAccount deps jws;
          (case acct of
             Inl e \<Rightarrow> account_problem deps e
           | Inr account \<Rightarrow>
               (case dec_newOrder (d_json deps) (j_Payload jws) of
                  Inl e \<Rightarrow> acmeProblem deps 400 ''malformed'' (''decoding new-order payload: '' @ e)
                | Inr idents \<Rightarrow>
                    (case idents of
                       [ident] \<Rightarrow>
                         (if id_Type ident \<noteq> acmeIdentifierType \<or> id_Value ident = []
                          then acmeProblem deps 400 ''malformed'' (''exactly one identifier of type ''
                            @ quoted acmeIdentifierType @ '' with a non-empty value is required'')
                          else do {
                            fresh \<leftarrow> randomACMEID;
                            (case fresh of
                               None \<Rightarrow> serverInternal deps
                             | Some i \<Rightarrow> do {
                                 now \<leftarrow> time_Now;
                                 let order = \<lparr>order_ID = i, order_AccountID = acct_ID account,
                                       order_Identifier = id_Value ident,
                                       order_Status = ACMEOrderStatusReady, order_CertSerial = [],
                                       order_CreatedAt = now\<rparr>;
                                 created \<leftarrow> ACMEOrders_Create (d_Store deps) order;
                                 (case created of
                                    Inl _ \<Rightarrow> serverInternal deps
                                  | Inr _ \<Rightarrow> do {
                                      meter (\<lambda>m. m\<lparr>m_ACMEOrdersTotal := inc ''created'' (m_ACMEOrdersTotal m)\<rparr>);
                                      acmeJSON deps 201 [(''Location'', acmeURL deps (''order/'' @ i))]
                                        (acmeOrderResponse deps order)
                                    })
                               })
                          })
                     | _ \<Rightarrow> acmeProblem deps 400 ''malformed'' (''exactly one identifier of type ''
                            @ quoted acmeIdentifierType @ '' with a non-empty value is required''))))
        })
   }"

definition getOrderOr404 :: "Deps \<Rightarrow> string \<Rightarrow> string \<Rightarrow> (sys, response + ACMEOrderRecord) state" where
  "getOrderOr404 deps i notFoundDetail = do {
     got \<leftarrow> ACMEOrders_Get (d_Store deps) i;
     (case got of
        Inl ErrNotFound \<Rightarrow> do {
          p \<leftarrow> acmeProblem deps 404 ''malformed'' (notFoundDetail @ '' not found'');
          ret (Inl p)
        }
      | Inl _ \<Rightarrow> do { p \<leftarrow> serverInternal deps; ret (Inl p) }
      | Inr order \<Rightarrow> ret (Inr order))
   }"

definition handleACMEGetOrder :: "Deps \<Rightarrow> request \<Rightarrow> (sys, response) state" where
  "handleACMEGetOrder deps r = do {
     got \<leftarrow> getOrderOr404 deps (q_PathValue r) ''order'';
     (case got of Inl p \<Rightarrow> ret p | Inr order \<Rightarrow> ret (writeJSON 200 (acmeOrderResponse deps order)))
   }"

definition handleACMEGetAuthorization :: "Deps \<Rightarrow> request \<Rightarrow> (sys, response) state" where
  "handleACMEGetAuthorization deps r = do {
     got \<leftarrow> getOrderOr404 deps (q_PathValue r) ''authorization'';
     (case got of
        Inl p \<Rightarrow> ret p
      | Inr order \<Rightarrow> ret (writeJSON 200 (JObj
          [(''status'', JStr ''valid''), (''identifier'', identifier_json (order_Identifier order)),
           (''challenges'', JArr [])])))
   }"

section \<open>Finalization\<close>

text \<open>The part of \<open>handleACMEFinalize\<close> after this request won the claim on the order.\<close>

definition finalizeClaimed ::
    "Deps \<Rightarrow> ACMEAccountRecord \<Rightarrow> ACMEOrderRecord \<Rightarrow> CertificateRequest \<Rightarrow> (sys, response) state" where
  "finalizeClaimed deps account order csr = do {
     let profile = WithIssuerURLs Default (d_PublicBaseURL deps) (EnableRevocation (d_ModuleConfig deps));
     now \<leftarrow> time_Now;
     issued \<leftarrow> issueLeafCertificate deps profile (csr_Subject csr) (csr_PublicKey csr) (csr_DNSNames csr)
       now (''acme:'' @ acct_ID account) ''acme-issue'' (order_ID order);
     (case issued of
        Inl _ \<Rightarrow> serverInternal deps
      | Inr rec \<Rightarrow> do {
          assigned \<leftarrow> assignRoleOrRevoke deps rec (acct_Role account) now;
          (case assigned of
             Inl _ \<Rightarrow> serverInternal deps
           | Inr _ \<Rightarrow> do {
               count_issued (p_Name profile);
               recorded \<leftarrow> ACMEOrders_UpdateStatus (d_Store deps) (order_ID order)
                 ACMEOrderStatusProcessing ACMEOrderStatusValid (Serial rec);
               (case recorded of
                  Inl _ \<Rightarrow> serverInternal deps
                | Inr _ \<Rightarrow> do {
                    meter (\<lambda>m. m\<lparr>m_ACMEOrdersTotal := inc ''finalized'' (m_ACMEOrdersTotal m)\<rparr>);
                    acmeJSON deps 200 [] (acmeOrderResponse deps
                      (order\<lparr>order_Status := ACMEOrderStatusValid, order_CertSerial := Serial rec\<rparr>))
                  })
             })
        })
   }"

definition orderNotReady :: "Deps \<Rightarrow> (sys, response) state" where
  "orderNotReady deps = acmeProblem deps 403 ''orderNotReady'' ''order is not ready to be finalized''"

text \<open>The CSR of the payload, checked against the order; then the claim.\<close>

definition finalizeReady ::
    "Deps \<Rightarrow> JWS \<Rightarrow> ACMEAccountRecord \<Rightarrow> ACMEOrderRecord \<Rightarrow> (sys, response) state" where
  "finalizeReady deps jws account order =
     (case dec_finalize (d_json deps) (j_Payload jws) of
        Inl e \<Rightarrow> acmeProblem deps 400 ''malformed'' (''decoding finalize payload: '' @ e)
      | Inr payload_CSR \<Rightarrow>
          (case b64_DecodeString payload_CSR of
             None \<Rightarrow> acmeProblem deps 400 ''badCSR'' ''csr is not valid base64url''
           | Some der \<Rightarrow>
               (case ParseCSR (d_pki deps) der of
                  Inl e \<Rightarrow> acmeProblem deps 400 ''badCSR'' (''invalid CSR: '' @ pki_text e)
                | Inr csr \<Rightarrow>
                    (if n_CommonName (csr_Subject csr) \<noteq> order_Identifier order
                     then acmeProblem deps 400 ''badCSR''
                            ''CSR common name does not match the order's identifier''
                     else do {
                       claimed \<leftarrow> ACMEOrders_UpdateStatus (d_Store deps) (order_ID order)
                         ACMEOrderStatusReady ACMEOrderStatusProcessing (order_CertSerial order);
                       (case claimed of
                          Inl _ \<Rightarrow> serverInternal deps
                        | Inr won \<Rightarrow>
                            (if \<not> won then orderNotReady deps
                             else finalizeClaimed deps account order csr))
                     }))))"

definition handleACMEFinalize :: "Deps \<Rightarrow> request \<Rightarrow> (sys, response) state" where
  "handleACMEFinalize deps r = do {
     v \<leftarrow> verifiedJWS deps r (acmeURL deps (''order/'' @ q_PathValue r @ ''/finalize''));
     (case v of
        Inl p \<Rightarrow> ret p
      | Inr jws \<Rightarrow> do {
          acct \<leftarrow> resolveACMEAccount deps jws;
          (case acct of
             Inl e \<Rightarrow> account_problem deps e
           | Inr account \<Rightarrow> do {
               got \<leftarrow> getOrderOr404 deps (q_PathValue r) ''order'';
               (case got of
                  Inl p \<Rightarrow> ret p
                | Inr order \<Rightarrow>
                    (if order_AccountID order \<noteq> acct_ID account
                     then acmeProblem deps 401 ''unauthorized'' ''order does not belong to this account''
                     else if order_Status order = ACMEOrderStatusValid
                     then acmeJSON deps 200 [] (acmeOrderResponse deps order)
                     else if order_Status order \<noteq> ACMEOrderStatusReady then orderNotReady deps
                     else finalizeReady deps jws account order))
             })
        })
   }"

definition handleACMECertificate :: "Deps \<Rightarrow> request \<Rightarrow> (sys, response) state" where
  "handleACMECertificate deps r = do {
     got \<leftarrow> ACMEOrders_Get (d_Store deps) (q_PathValue r);
     (case got of
        Inl ErrNotFound \<Rightarrow> acmeProblem deps 404 ''malformed'' ''certificate not found''
      | Inl _ \<Rightarrow> serverInternal deps
      | Inr order \<Rightarrow>
          (if order_Status order \<noteq> ACMEOrderStatusValid
           then acmeProblem deps 404 ''malformed'' ''certificate not found''
           else do {
             cert \<leftarrow> Certificates_GetBySerial (d_Store deps) (order_CertSerial order);
             (case cert of
                Inl _ \<Rightarrow> serverInternal deps
              | Inr rec \<Rightarrow> ret (raw_response ''application/pem-certificate-chain''
                  (PEM rec @ encodeCertPEM deps (x_Raw (i_Cert (d_IntermediateIssuer deps))))))
           }))
   }"

section \<open>Enrolment tokens\<close>

definition handleIssueEABToken :: "Deps \<Rightarrow> request \<Rightarrow> (sys, response) state" where
  "handleIssueEABToken deps r =
     (case (if q_ContentLength r \<noteq> 0 then dec_issueEABToken (d_json deps) (q_Body r) else Inr []) of
        Inl e \<Rightarrow> ret (writeProblem probMalformedJSON e [])
      | Inr given \<Rightarrow>
     (let role = (if given = [] then RoleManager else given) in
      if role \<noteq> RoleAdmin \<and> role \<noteq> RoleManager then ret (writeInvalidRole role)
      else do {
        fresh \<leftarrow> randomACMEID;
        (case fresh of
           None \<Rightarrow> ret writeInternalError
         | Some keyID \<Rightarrow> do {
             secret \<leftarrow> rand_Read 32;
             (case secret of
                None \<Rightarrow> ret writeInternalError
              | Some hmacKey \<Rightarrow> do {
                  now \<leftarrow> time_Now;
                  let rec = \<lparr>eab_KeyID = keyID, eab_HMACKey = hmacKey, eab_Role = role,
                        eab_CreatedAt = now, eab_ExpiresAt = now + acmeEABTokenTTL, eab_Consumed = False\<rparr>;
                  created \<leftarrow> ACMEEABTokens_Create (d_Store deps) rec;
                  (case created of
                     Inl _ \<Rightarrow> ret writeInternalError
                   | Inr _ \<Rightarrow> do {
                       _ \<leftarrow> Audit_Append (d_Store deps)
                         \<lparr>audit_ID = 0, audit_Timestamp = now, audit_Actor = q_RemoteAddr r,
                          audit_Action = ''acme-eab-token-issue'', audit_Target = keyID,
                          audit_Detail = role\<rparr>;
                       ret (writeJSON 201 (JObj
                         [(''key_id'', JStr keyID), (''hmac_key'', JStr (b64_EncodeToString hmacKey)),
                          (''role'', JStr role), (''expires_at'', JTime (eab_ExpiresAt rec))]))
                     })
                })
           })
      }))"

section \<open>Every handler moves the ledger forward\<close>

lemma keeps_issueAndAttachNonce [keeps]: "state_io_rel ledger_le (issueAndAttachNonce deps)"
  unfolding issueAndAttachNonce_def by (auto intro!: keeps)

lemma keeps_acmeProblem [keeps]: "state_io_rel ledger_le (acmeProblem deps st t d)"
  unfolding acmeProblem_def by (auto intro!: keeps)

lemma keeps_serverInternal [keeps]: "state_io_rel ledger_le (serverInternal deps)"
  unfolding serverInternal_def by (intro keeps)

lemma keeps_orderNotReady [keeps]: "state_io_rel ledger_le (orderNotReady deps)"
  unfolding orderNotReady_def by (intro keeps)

lemma keeps_acmeJSON [keeps]: "state_io_rel ledger_le (acmeJSON deps st hs v)"
  unfolding acmeJSON_def by (auto intro!: keeps)

lemma keeps_randomACMEID [keeps]: "state_io_rel ledger_le randomACMEID"
  unfolding randomACMEID_def by (auto intro!: keeps)

lemma keeps_handleACMEDirectory [keeps]: "state_io_rel ledger_le (handleACMEDirectory deps r)"
  unfolding handleACMEDirectory_def by (intro keeps)

lemma keeps_handleACMENewNonce [keeps]: "state_io_rel ledger_le (handleACMENewNonce deps r)"
  unfolding handleACMENewNonce_def by (auto intro!: keeps)

lemma keeps_verifiedJWS [keeps]: "state_io_rel ledger_le (verifiedJWS deps r u)"
  unfolding verifiedJWS_def by (auto intro!: keeps)

lemma keeps_createAccount [keeps]: "state_io_rel ledger_le (createAccount deps r jws t tok now)"
  unfolding createAccount_def by (auto intro!: keeps)

lemma keeps_bindAccount [keeps]: "state_io_rel ledger_le (bindAccount deps r jws t e)"
  unfolding bindAccount_def by (auto intro!: keeps)

lemma keeps_handleACMENewAccount [keeps]: "state_io_rel ledger_le (handleACMENewAccount deps r)"
  unfolding handleACMENewAccount_def by (auto intro!: keeps)

lemma keeps_resolveACMEAccount [keeps]: "state_io_rel ledger_le (resolveACMEAccount deps jws)"
  unfolding resolveACMEAccount_def by (auto simp: Let_def intro!: keeps)

lemma keeps_account_problem [keeps]: "state_io_rel ledger_le (account_problem deps e)"
  unfolding account_problem_def by (cases e) (auto intro!: keeps)

lemma keeps_handleACMENewOrder [keeps]: "state_io_rel ledger_le (handleACMENewOrder deps r)"
  unfolding handleACMENewOrder_def by (auto simp: Let_def intro!: keeps split: list.splits)

lemma keeps_getOrderOr404 [keeps]: "state_io_rel ledger_le (getOrderOr404 deps i d)"
  unfolding getOrderOr404_def by (auto intro!: keeps)

lemma keeps_handleACMEGetOrder [keeps]: "state_io_rel ledger_le (handleACMEGetOrder deps r)"
  unfolding handleACMEGetOrder_def by (auto intro!: keeps)

lemma keeps_handleACMEGetAuthorization [keeps]: "state_io_rel ledger_le (handleACMEGetAuthorization deps r)"
  unfolding handleACMEGetAuthorization_def by (auto intro!: keeps)

lemma progress_steps [keeps]:
  "progress ACMEOrderStatusReady ACMEOrderStatusProcessing"
  "progress ACMEOrderStatusProcessing ACMEOrderStatusValid"
  by (simp_all add: progress_def)

lemma keeps_finalizeClaimed [keeps]: "state_io_rel ledger_le (finalizeClaimed deps acct ord csr)"
  unfolding finalizeClaimed_def by (auto simp: Let_def intro!: keeps)

lemma keeps_finalizeReady [keeps]: "state_io_rel ledger_le (finalizeReady deps jws acct ord)"
  unfolding finalizeReady_def by (auto intro!: keeps)

lemma keeps_handleACMEFinalize [keeps]: "state_io_rel ledger_le (handleACMEFinalize deps r)"
  unfolding handleACMEFinalize_def by (auto intro!: keeps)

lemma keeps_handleACMECertificate [keeps]: "state_io_rel ledger_le (handleACMECertificate deps r)"
  unfolding handleACMECertificate_def by (auto intro!: keeps)

lemma keeps_handleIssueEABToken [keeps]: "state_io_rel ledger_le (handleIssueEABToken deps r)"
  unfolding handleIssueEABToken_def by (auto simp: Let_def intro!: keeps)

end
