(* ===== verification/Router.thy ===== *)
theory Router
  imports Api_Acme
begin

text \<open>
  The HTTP surface as a whole: the handlers of \<open>router.go\<close> and \<open>discovery.go\<close>, the table of routes
  \<open>NewRouter\<close> registers for a choice of modules, and the dispatch of a request over it. Paths are
  taken as the mux sees them after cleaning and unescaping; a wildcard matches one non-empty
  segment. A sequence of requests is served one after the other (\<open>serve_all\<close>).
\<close>

section \<open>Health, metrics, discovery\<close>

definition handleHealthz :: "Deps \<Rightarrow> request \<Rightarrow> (sys, response) state" where
  "handleHealthz deps r = ret (writeJSON 200 (JObj
     [(''instance'', JStr (d_InstanceName deps)), (''status'', JStr ''ok''),
      (''version'', JStr (d_Version deps))]))"

text \<open>The checker \<open>main\<close> passes in: it pings the store. The gauge it sets is not modelled.\<close>

definition ready :: "(sys, string option) state" where
  "ready = do {
     p \<leftarrow> QueryContext (\<lambda>_. ());
     (case p of Inl _ \<Rightarrow> ret (Some ''store unreachable'') | Inr _ \<Rightarrow> ret None)
   }"

definition handleReadyz ::
    "Deps \<Rightarrow> (sys, string option) state option \<Rightarrow> request \<Rightarrow> (sys, response) state" where
  "handleReadyz deps checker r = do {
     failed \<leftarrow> (case checker of None \<Rightarrow> ret None | Some check \<Rightarrow> check);
     (case failed of
        Some reason \<Rightarrow> ret (writeJSON 503 (JObj
          [(''instance'', JStr (d_InstanceName deps)), (''reason'', JStr reason),
           (''status'', JStr ''not ready'')]))
      | None \<Rightarrow> ret (writeJSON 200 (JObj
          [(''instance'', JStr (d_InstanceName deps)), (''status'', JStr ''ready'')])))
   }"

definition handleMetrics :: "Deps \<Rightarrow> request \<Rightarrow> (sys, response) state" where
  "handleMetrics deps r = do {
     m \<leftarrow> gets s_Metrics;
     (case m of
        None \<Rightarrow> ret \<lparr>status = 200, headers = [(''Content-Type'', ''text/plain; version=0.0.4'')],
                    rbody = NoBody\<rparr>
      | Some ms \<Rightarrow> ret (raw_response ''text/plain; version=0.0.4'' (d_exposition deps ms)))
   }"

definition handleOpenAPI :: "Deps \<Rightarrow> request \<Rightarrow> (sys, response) state" where
  "handleOpenAPI deps r = ret (raw_response ''application/yaml'' (d_openAPISpec deps))"

definition handleLLMsTxt :: "Deps \<Rightarrow> request \<Rightarrow> (sys, response) state" where
  "handleLLMsTxt deps r = ret (raw_response ''text/plain; charset=utf-8''
     (d_llmsTxt deps (if d_InstanceName deps = [] then ''TrustMate'' else d_InstanceName deps)
        (TrimRight (d_PublicBaseURL deps) ''/'') (EnableRevocation (d_ModuleConfig deps))
        (EnableTSA (d_ModuleConfig deps)) (EnableACME (d_ModuleConfig deps))))"

section \<open>The routes\<close>

record route =
  rt_Method :: string
  rt_Pattern :: string
  rt_Handler :: "request \<Rightarrow> (sys, response) state"

definition route :: "string \<Rightarrow> string \<Rightarrow> (request \<Rightarrow> (sys, response) state) \<Rightarrow> route" where
  "route m p h = \<lparr>rt_Method = m, rt_Pattern = p, rt_Handler = h\<rparr>"

definition public_routes :: "Deps \<Rightarrow> route list" where
  "public_routes deps =
     [route ''GET'' ''/healthz'' (handleHealthz deps),
      route ''GET'' ''/readyz'' (handleReadyz deps (Some ready)),
      route ''GET'' ''/metrics'' (handleMetrics deps),
      route ''GET'' ''/v1/ca/root.pem'' (handleCAPem deps CertKindRoot),
      route ''GET'' ''/v1/ca/intermediate.pem'' (handleCAPem deps CertKindIntermediate)]"

definition core_routes :: "Deps \<Rightarrow> route list" where
  "core_routes deps =
     [route ''POST'' ''/v1/certificates'' (requireRole deps RoleManager (handleIssueCertificate deps)),
      route ''GET'' ''/v1/certificates/{serial}'' (requireRole deps RoleManager (handleGetCertificate deps)),
      route ''POST'' ''/v1/certificates/{serial}/revoke''
        (requireRole deps RoleManager (handleRevokeCertificate deps)),
      route ''GET'' ''/v1/profiles'' (requireRole deps RoleManager (handleListProfiles deps)),
      route ''POST'' ''/v1/profiles/reload'' (requireRole deps RoleAdmin (handleReloadProfiles deps)),
      route ''POST'' ''/v1/clients'' (requireRole deps RoleAdmin (handleIssueClient deps)),
      route ''GET'' ''/v1/clients'' (requireRole deps RoleAdmin (handleListClients deps)),
      route ''GET'' ''/v1/audit'' (requireRole deps RoleAdmin (handleListAudit deps))]"

definition revocation_routes :: "Deps \<Rightarrow> route list" where
  "revocation_routes deps =
     [route ''GET'' ''/v1/crl/{ca}'' (handleCRL deps), route ''POST'' ''/v1/ocsp'' (handleOCSP deps)]"

definition tsa_routes :: "Deps \<Rightarrow> route list" where
  "tsa_routes deps =
     [route ''POST'' ''/v1/tsa'' (handleTSA deps),
      route ''POST'' ''/v1/tsa/rotate'' (requireRole deps RoleAdmin (handleRotateTSA deps))]"

definition acme_routes :: "Deps \<Rightarrow> route list" where
  "acme_routes deps =
     [route ''POST'' ''/v1/acme/eab-tokens'' (requireRole deps RoleAdmin (handleIssueEABToken deps)),
      route ''GET'' ''/v1/acme/directory'' (handleACMEDirectory deps),
      route ''GET'' ''/v1/acme/new-nonce'' (handleACMENewNonce deps),
      route ''HEAD'' ''/v1/acme/new-nonce'' (handleACMENewNonce deps),
      route ''POST'' ''/v1/acme/new-account'' (handleACMENewAccount deps),
      route ''POST'' ''/v1/acme/new-order'' (handleACMENewOrder deps),
      route ''GET'' ''/v1/acme/order/{id}'' (handleACMEGetOrder deps),
      route ''POST'' ''/v1/acme/order/{id}/finalize'' (handleACMEFinalize deps),
      route ''GET'' ''/v1/acme/authorization/{id}'' (handleACMEGetAuthorization deps),
      route ''GET'' ''/v1/acme/certificate/{id}'' (handleACMECertificate deps)]"

definition discovery_routes :: "Deps \<Rightarrow> route list" where
  "discovery_routes deps =
     [route ''GET'' ''/v1/openapi.yaml'' (handleOpenAPI deps), route ''GET'' ''/llms.txt'' (handleLLMsTxt deps)]"

definition NewRouter :: "Deps \<Rightarrow> route list" where
  "NewRouter deps =
     (let mods = d_ModuleConfig deps in
      public_routes deps @ core_routes deps
      @ (if EnableRevocation mods then revocation_routes deps else [])
      @ (if EnableTSA mods then tsa_routes deps else [])
      @ (if EnableACME mods then acme_routes deps else [])
      @ (if EnableDiscovery mods then discovery_routes deps else []))"

section \<open>Dispatch\<close>

definition wildcard :: "string \<Rightarrow> bool" where
  "wildcard seg \<longleftrightarrow> take 1 seg = ''{''"

fun matchPath :: "string list \<Rightarrow> string list \<Rightarrow> string \<Rightarrow> string option" where
  "matchPath [] [] v = Some v"
| "matchPath (p # ps) (s # ss) v =
     (if wildcard p then (if s = [] then None else matchPath ps ss s)
      else if p = s then matchPath ps ss v else None)"
| "matchPath _ _ _ = None"

definition path_value :: "route \<Rightarrow> request \<Rightarrow> string option" where
  "path_value rt r = matchPath (Split (CHR ''/'') (rt_Pattern rt)) (Split (CHR ''/'') (q_Path r)) []"

definition method_ok :: "route \<Rightarrow> request \<Rightarrow> bool" where
  "method_ok rt r \<longleftrightarrow> q_Method r = rt_Method rt \<or> (rt_Method rt = ''GET'' \<and> q_Method r = ''HEAD'')"

definition allowed_methods :: "route list \<Rightarrow> string list" where
  "allowed_methods rts = filter (\<lambda>m. m \<in> set (map rt_Method rts) \<or>
     (m = ''HEAD'' \<and> ''GET'' \<in> set (map rt_Method rts))) [''GET'', ''HEAD'', ''POST'']"

definition http_Error :: "nat \<Rightarrow> (string \<times> string) list \<Rightarrow> string \<Rightarrow> response" where
  "http_Error st hs text = \<lparr>status = st,
     headers = hs @ [(''Content-Type'', ''text/plain; charset=utf-8''), (''X-Content-Type-Options'', ''nosniff'')],
     rbody = Raw text\<rparr>"

definition serve :: "Deps \<Rightarrow> request \<Rightarrow> (sys, response) state" where
  "serve deps r =
     (let here = filter (\<lambda>rt. path_value rt r \<noteq> None) (NewRouter deps) in
      case find (\<lambda>rt. method_ok rt r) here of
        Some rt \<Rightarrow> rt_Handler rt (r\<lparr>q_PathValue := the (path_value rt r)\<rparr>)
      | None \<Rightarrow>
          (if here = [] then ret (http_Error 404 [] ''404 page not found'')
           else ret (http_Error 405 [(''Allow'', Join (allowed_methods here) '', '')] ''Method Not Allowed'')))"

fun serve_all :: "Deps \<Rightarrow> request list \<Rightarrow> (sys, response list) state" where
  "serve_all deps [] = ret []"
| "serve_all deps (r # rs) = do {
     resp \<leftarrow> serve deps r;
     resps \<leftarrow> serve_all deps rs;
     ret (resp # resps)
   }"

section \<open>Every request moves the ledger forward\<close>

lemmas route_defs = public_routes_def core_routes_def revocation_routes_def tsa_routes_def
  acme_routes_def discovery_routes_def

lemma keeps_router [keeps]:
  "state_io_rel ledger_le (handleHealthz deps r)" "state_io_rel ledger_le ready"
  "state_io_rel ledger_le (handleMetrics deps r)" "state_io_rel ledger_le (handleOpenAPI deps r)"
  "state_io_rel ledger_le (handleLLMsTxt deps r)"
  unfolding handleHealthz_def ready_def handleMetrics_def handleOpenAPI_def handleLLMsTxt_def
  by (auto intro!: keeps)

lemma keeps_handleReadyz [keeps]: "state_io_rel ledger_le (handleReadyz deps (Some ready) r)"
  unfolding handleReadyz_def by (auto intro!: keeps)

lemma serve_rel:
  assumes "\<And>rt v. rt \<in> set (NewRouter deps) \<Longrightarrow> state_io_rel R (rt_Handler rt (r\<lparr>q_PathValue := v\<rparr>))"
    and "\<And>s. R s s"
  shows "state_io_rel R (serve deps r)"
proof -
  have "state_io_rel R (ret x)" for x :: response
    using assms(2) by (auto intro: state_io_relI)
  with assms(1) show ?thesis
    unfolding serve_def by (auto simp: Let_def dest!: find_Some_in intro!: keeps)
qed

lemma wp_serve:
  assumes "\<And>rt v. rt \<in> set (NewRouter deps) \<Longrightarrow> wp (rt_Handler rt (r\<lparr>q_PathValue := v\<rparr>)) Q s"
    and "\<And>resp. status resp \<in> {404, 405} \<Longrightarrow> Q resp s"
  shows "wp (serve deps r) Q s"
  using assms unfolding serve_def
  by (auto simp: Let_def http_Error_def dest!: find_Some_in split: option.splits)

lemma keeps_serve [keeps]: "state_io_rel ledger_le (serve deps r)"
proof (rule serve_rel)
  fix rt v
  assume "rt \<in> set (NewRouter deps)"
  then show "state_io_rel ledger_le (rt_Handler rt (r\<lparr>q_PathValue := v\<rparr>))"
    by (auto simp: NewRouter_def Let_def route_defs route_def intro!: keeps split: if_splits)
qed (rule ledger.R_refl)

lemma keeps_serve_all [keeps]: "state_io_rel ledger_le (serve_all deps rs)"
  by (induction rs) (auto intro!: keeps)

end
