(* ===== verification/Samples.thy ===== *)
theory Samples
  imports Router
begin

text \<open>
  A small concrete installation on which the properties are exercised: one root, one intermediate
  CA, an administrator's certificate, and primitives that encode exactly one certificate. It shows
  that what the development assumes of the libraries can hold.
\<close>

section \<open>Issuers\<close>

definition key1 :: pubkey where "key1 = RSAKey 3233 17"

definition ca_cert :: "int \<Rightarrow> string \<Rightarrow> Certificate" where
  "ca_cert n name = \<lparr>SerialNumber = n, x_Subject = cn name, x_Issuer = cn ''Root'', x_NotBefore = 0,
     x_NotAfter = 0, x_KeyUsage = 96, x_ExtKeyUsage = [], x_ExtraExtensions = [], x_Extensions = [], x_DNSNames = [],
     x_BasicConstraintsValid = True, x_IsCA = True, x_MaxPathLen = 0, x_MaxPathLenZero = True,
     x_IssuingCertificateURL = [], x_OCSPServer = [], x_CRLDistributionPoints = [],
     x_SubjectKeyId = ''ski'' @ name, x_AuthorityKeyId = [], x_PublicKey = key1, x_Raw = ''der'' @ name\<rparr>"

definition ca_issuer :: "int \<Rightarrow> string \<Rightarrow> Issuer" where
  "ca_issuer n name = \<lparr>i_Cert = ca_cert n name, i_Signer = \<lparr>sg_Public = key1, sg_secret = name\<rparr>\<rparr>"

definition inter1 :: Issuer where "inter1 = ca_issuer 2 ''Inter''"

section \<open>Primitives\<close>

text \<open>The one template that is ever signed: a client certificate for \<open>app\<close>, issued at second 1000.\<close>

definition now1 :: time where "now1 = 1000 * Second"

definition serial1 :: int where "serial1 = int (SetBytes (clear_top_bit (fill 20 ''A'')))"

definition profile1 :: Profile where
  "profile1 = WithIssuerURLs Default ''https://ca'' True"

definition tmpl1 :: Certificate where
  "tmpl1 = (case template (leaf_request profile1 (cn ''app'') key1 now1 (now1 + p_Validity profile1) [])
       serial1 of
     Inr t \<Rightarrow> t\<lparr>x_SubjectKeyId := ''ski'', x_AuthorityKeyId := ''skiInter''\<rparr>
   | Inl _ \<Rightarrow> ca_cert 0 [])"

definition cert1 :: Certificate where
  "cert1 = tmpl1\<lparr>x_Issuer := cn ''Inter'', x_NotBefore := Truncate_second (x_NotBefore tmpl1),
     x_NotAfter := Truncate_second (x_NotAfter tmpl1), x_PublicKey := key1, x_Raw := ''der1''\<rparr>"

definition pki1 :: pki_prims where
  "pki1 = \<lparr>MarshalPKIXPublicKey = (\<lambda>_. Some ''spki''), spki_bits = Some, sha1_Sum = (\<lambda>_. ''ski''),
     CreateCertificate = (\<lambda>t p k sg. if t = tmpl1 \<and> p = i_Cert inter1 \<and> k = key1 then Some ''der1'' else None),
     ParseCertificate = (\<lambda>d. if d = ''der1'' then Some cert1 else None),
     pem_Encode = (\<lambda>d. ''PEM '' @ d), pem_Decode = (\<lambda>_. None),
     ParseCertificateRequest = (\<lambda>d. if d = ''csr'' then Some \<lparr>csr_Subject = cn ''app'',
        csr_PublicKey = key1, csr_DNSNames = [], csr_PublicKeyAlgorithm = ''RSA''\<rparr> else None),
     CheckSignature = (\<lambda>_. True), Name_String = n_CommonName\<rparr>"

definition rev1 :: rev_prims where
  "rev1 = \<lparr>CreateRevocationList = (\<lambda>l c sg. Some (''crl'' @ Join (map (\<lambda>e. Int_String (rle_SerialNumber e)) (rl_Entries l)) '','')),
     ocsp_ParseRequest = (\<lambda>d. if d = ''ocsp'' then Some \<lparr>oq_HashAlgorithm = 3, oq_IssuerNameHash = ''dnInter'',
        oq_IssuerKeyHash = ''bits'', oq_SerialNumber = 7\<rparr> else None),
     ocsp_CreateResponse = (\<lambda>c c' t sg. Some (case os_Status t of Good \<Rightarrow> ''good'' | Revoked \<Rightarrow> ''revoked'' | Unknown \<Rightarrow> ''unknown'')),
     UnauthorizedErrorResponse = ''unauthorized'', hash_Available = (\<lambda>_. True),
     hash_Sum = (\<lambda>_ d. d), spki_RightAlign = (\<lambda>_. Some ''bits''),
     RawSubject = (\<lambda>c. ''dn'' @ n_CommonName (x_Subject c))\<rparr>"

definition tsa1 :: tsa_prims where
  "tsa1 = \<lparr>tsa_ParseRequest = (\<lambda>_. Some \<lparr>tq_HashAlgorithm = 5, tq_HashedMessage = ''h'', tq_Nonce = None,
        tq_Certificates = False\<rparr>),
     CreateResponseWithOpts = (\<lambda>t c sg. Some ''tst'')\<rparr>"

text \<open>The JWS bodies the samples use name their header; everything else is not JSON.\<close>

definition jose1 :: jose_prims where
  "jose1 = \<lparr>Unmarshal_strings = (\<lambda>d fields.
        if fields = [''protected'', ''payload'', ''signature''] then Some [b64_EncodeToString d, b64_EncodeToString d, ''AAAA'']
        else if d = ''jwk'' \<and> fields = [''kty''] then Some [''RSA'']
        else if d = ''jwk'' \<and> fields = [''e'', ''kty'', ''n''] then Some [''EQ'', ''RSA'', ''DKE'']
        else None),
     Unmarshal_Header = (\<lambda>d.
        if d = ''account'' then Some \<lparr>h_Alg = ''RS256'', h_Nonce = ''n1'', h_URL = ''https://ca/v1/acme/new-account'', h_Kid = [], h_JWK = ''jwk''\<rparr>
        else if d = ''jwk'' then Some \<lparr>h_Alg = ''HS256'', h_Nonce = [], h_URL = ''https://ca/v1/acme/new-account'', h_Kid = ''k1'', h_JWK = []\<rparr>
        else if d = ''finalize'' then Some \<lparr>h_Alg = ''RS256'', h_Nonce = ''n1'', h_URL = ''https://ca/v1/acme/order/o1/finalize'', h_Kid = ''https://ca/v1/acme/account/a1'', h_JWK = []\<rparr>
        else None),
     sha256_Sum = (\<lambda>_. ''sum''), hmac_sha256 = (\<lambda>_ _. replicate 3 (char_of (0 :: nat))),
     ecdsa_Verify = (\<lambda>_ _ _ _ _. False), rsa_VerifyPKCS1v15 = (\<lambda>_ _ _ _. True)\<rparr>"

definition ks1 :: ks_prims where
  "ks1 = \<lparr>GenerateKey = (\<lambda>_ seed. Some \<lparr>sg_Public = key1, sg_secret = seed\<rparr>),
     MarshalPKCS8PrivateKey = (\<lambda>sg. if sg_Public sg = key1 then Some (sg_secret sg) else None),
     ParsePKCS8PrivateKey = (\<lambda>der. Some (Some \<lparr>sg_Public = key1, sg_secret = der\<rparr>)),
     gcm_Seal = (\<lambda>p salt nonce m. m), gcm_Open = (\<lambda>p salt nonce m. Some m)\<rparr>"

definition json1 :: json_prims where
  "json1 = \<lparr>dec_issueCertificate = (\<lambda>_. Inr \<lparr>ic_Profile = ''default'', ic_CSR = ''csr''\<rparr>),
     dec_revokeCertificate = (\<lambda>_. Inr ''keyCompromise''),
     dec_issueClient = (\<lambda>_. Inr \<lparr>icl_CSR = ''csr'', icl_Role = ''manager''\<rparr>),
     dec_issueEABToken = (\<lambda>_. Inr ''manager''), dec_newAccount = (\<lambda>_. Inr (True, ''jwk'')),
     dec_newOrder = (\<lambda>_. Inr [\<lparr>id_Type = ''trustmate-client'', id_Value = ''app''\<rparr>]),
     dec_finalize = (\<lambda>_. Inr (b64_EncodeToString ''csr'')), enc_Profile = p_Name\<rparr>"

section \<open>The installation\<close>

definition deps1 :: Deps where
  "deps1 = \<lparr>d_Store = Sqlite, d_pki = pki1, d_rev = rev1, d_tsa = tsa1, d_jose = jose1, d_ks = ks1,
     d_json = json1, d_InstanceName = ''tm'', d_IntermediateIssuer = inter1,
     d_OCSPIssuers = [ca_issuer 1 ''Root'', inter1], d_PublicBaseURL = ''https://ca'',
     d_TSACommonName = ''tsa'', d_TSAValidity = 1,
     d_ModuleConfig = \<lparr>EnableRevocation = True, EnableTSA = False, EnableACME = False, EnableDiscovery = False\<rparr>,
     d_profilesDir = [], d_profileFiles = [], d_ParseDuration = (\<lambda>_. None), d_Duration_String = (\<lambda>_. []),
     d_walk = (\<lambda>m. m), d_Version = ''dev'', d_openAPISpec = [], d_llmsTxt = (\<lambda>_ _ _ _ _. []),
     d_exposition = (\<lambda>_. [])\<rparr>"

definition row :: "string \<Rightarrow> CertKind \<Rightarrow> string \<Rightarrow> CertificateRecord" where
  "row serial kind issuer = \<lparr>Serial = serial, Kind = kind, ProfileName = [], Subject = [],
     IssuerSerial = issuer, NotBefore = 0, NotAfter = 0, PEM = [], KeyRef = [], CreatedAt = 0,
     RevokedAt = None, RevocationReason = []\<rparr>"

text \<open>Certificate 7 is the administrator's; 8 is a leaf without a role.\<close>

definition sys1 :: sys where
  "sys1 = \<lparr>certificates = [row ''1'' CertKindRoot [], row ''2'' CertKindIntermediate ''1'',
       row ''7'' CertKindLeaf ''2'', row ''8'' CertKindLeaf ''2''],
     client_roles = [\<lparr>role_CertSerial = ''7'', role_Role = RoleAdmin, role_CreatedAt = 0\<rparr>],
     profiles = [], audit_log = [],
     acme_eab_tokens = [\<lparr>eab_KeyID = ''k1'', eab_HMACKey = ''secret'', eab_Role = RoleManager,
       eab_CreatedAt = 0, eab_ExpiresAt = 2000 * Second, eab_Consumed = False\<rparr>],
     acme_accounts = [], acme_orders = [], acme_nonces = [(''n1'', 2000 * Second)],
     faults = [], clock = now1, clock_tape = [], rand_tape = [Some ''A'', Some ''B'', Some ''C''],
     s_KeyStore = \<lparr>fk_dir = ''keys'', fk_passphrase = ''pw'', fk_disk = [], fk_cached = []\<rparr>,
     s_CRLBuilder = Some (NewCRLBuilder inter1), s_RootCRLBuilder = Some (NewCRLBuilder (ca_issuer 1 ''Root'')),
     s_TSAResponder = None, s_Profiles = None, s_Metrics = Some NewMetrics\<rparr>"

text \<open>A request of the holder of certificate \<open>peer\<close>, aimed at certificate 8.\<close>

definition req1 :: "int list \<Rightarrow> string \<Rightarrow> string \<Rightarrow> request" where
  "req1 peers m p = \<lparr>q_Method = m, q_Path = p, q_PathValue = ''8'', q_Query = [], q_ContentType = [],
     q_RemoteAddr = ''10.0.0.1'', q_PeerSerials = peers, q_ContentLength = 0, q_Body = [], q_BodyFails = False\<rparr>"

lemma sys1_schema: "schema sys1"
  by (auto simp: schema_def schema_parts sys1_def row_def roles_allowed_def CertKindRoot_def
      CertKindIntermediate_def CertKindLeaf_def)

lemma ks_faithful_ks1: "ks_faithful ks1"
  by (auto simp: ks_faithful_def ks1_def)

lemma tmpl1_fields:
  "x_ExtKeyUsage tmpl1 = [ExtKeyUsageClientAuth]" "x_ExtraExtensions tmpl1 = []" "x_Extensions tmpl1 = []"
  by (simp_all add: tmpl1_def profile1_def template_def leaf_request_def Default_def no_profile_def
      WithIssuerURLs_def Let_def)

lemma x509_pki1: "x509_faithful pki1"
proof -
  have "certificate_of tmpl1 (i_Cert inter1) key1 ''der1'' es critical cert1"
    if "built_template tmpl1 (i_Cert inter1) es critical" for es critical
    using that by (auto simp: certificate_of_def built_template_def template_eku_def certificate_eku_def cert1_def
        inter1_def ca_issuer_def ca_cert_def tmpl1_fields split: if_splits)
  then show ?thesis
    by (auto simp: x509_faithful_def pki1_def split: if_splits)
qed

section \<open>Running the samples\<close>

lemma time_Now_still [effects]: "clock_tape w = [] \<Longrightarrow> run_state time_Now w = (clock w, w)"
  by (simp add: time_Now_def)

lemma rand_Read_next [effects]:
  "rand_tape w = Some x # rs \<Longrightarrow> run_state (rand_Read n) w = (Some (fill n x), w\<lparr>rand_tape := rs\<rparr>)"
  by (simp add: rand_Read_def)

lemma run_meter [effects]: "run_state (meter f) s = ((), s\<lparr>s_Metrics := map_option f (s_Metrics s)\<rparr>)"
  by (simp add: meter_def)

text \<open>The rules that run an operation on a state whose fault tape is empty.\<close>

lemmas running = effects method_bodies scan_row_def scan_rows_def exec_done_def statement_defs
  query_defs update_where_def count_where_def has_key_def Let_def State_Monad.return_def
  CertKindRoot_def CertKindIntermediate_def CertKindLeaf_def RoleAdmin_def RoleManager_def
  roles_allowed_def

lemma sample_serials [simp]:
  "Int_String 1 = ''1''" "Int_String 2 = ''2''" "Int_String 7 = ''7''" "Int_String 8 = ''8''"
  by code_simp+

lemmas sample_data = deps1_def sys1_def req1_def row_def

text \<open>On this installation the CSR for \<open>app\<close> is signed.\<close>

lemma csr1: "ParseCSR pki1 ''csr'' = Inr \<lparr>csr_Subject = cn ''app'', csr_PublicKey = key1,
    csr_DNSNames = [], csr_PublicKeyAlgorithm = ''RSA''\<rparr>"
  by (simp add: ParseCSR_def pki1_def)

lemma default1: "Lookup ''default'' = Some Default"
  by (simp add: Lookup_def All_def Default_def no_profile_def)

lemma issueLeaf1:
  assumes "rand_tape s = Some ''A'' # rs"
  shows "run_state (IssueLeaf pki1 (WithIssuerURLs Default ''https://ca'' True) (cn ''app'') key1 inter1
    now1 (now1 + p_Validity Default) []) s = (Inr cert1, s\<lparr>rand_tape := rs\<rparr>)"
proof -
  obtain t where t: "template (leaf_request (WithIssuerURLs Default ''https://ca'' True) (cn ''app'') key1
      now1 (now1 + p_Validity Default) []) serial1 = Inr t"
    by (auto simp: template_def leaf_request_def Default_def no_profile_def WithIssuerURLs_def Let_def)
  then have "tmpl1 = t\<lparr>x_SubjectKeyId := ''ski'', x_AuthorityKeyId := ''skiInter''\<rparr>"
    by (simp add: tmpl1_def profile1_def)
  moreover have "x_SubjectKeyId (i_Cert inter1) = ''skiInter''"
    by (simp add: inter1_def ca_issuer_def ca_cert_def)
  ultimately show ?thesis
    using t assms
    by (simp add: IssueLeaf_def LeafTemplate_def buildTemplate_def GenerateSerial_def serialBytes_def
        effects State_Monad.return_def subjectKeyID_def sign_template_def pki1_def flip: serial1_def)
qed

lemma serial_cert1: "8 < SerialNumber cert1"
proof -
  have "char_of (65 :: nat) = CHR ''A''"
    by code_simp
  then have "clear_top_bit (fill 20 ''A'') = CHR ''A'' # replicate 19 (char_of (0 :: nat))"
    by (simp add: clear_top_bit_def fill_def)
  then have "8 < SetBytes (clear_top_bit (fill 20 ''A''))"
    by (simp add: SetBytes_Cons)
  then have "8 < serial1"
    by (simp add: serial1_def)
  then show ?thesis
    by (simp add: cert1_def tmpl1_def profile1_def template_def leaf_request_def Default_def no_profile_def
        WithIssuerURLs_def Let_def)
qed

lemma fresh_serial1:
  "Int_String (SerialNumber cert1) \<noteq> ''1''" "Int_String (SerialNumber cert1) \<noteq> ''2''"
  "Int_String (SerialNumber cert1) \<noteq> ''7''" "Int_String (SerialNumber cert1) \<noteq> ''8''"
  unfolding sample_serials [symmetric] Int_String_inject using serial_cert1 by linarith+

lemma inter1_serial: "SerialNumber (i_Cert inter1) = 2"
  by (simp add: inter1_def ca_issuer_def ca_cert_def)

lemmas issuing_sample = csr1 default1 issueLeaf1 fresh_serial1 fresh_serial1 [symmetric] inter1_serial

subsection \<open>Signed requests\<close>

definition signed1 :: "string \<Rightarrow> string \<Rightarrow> request" where
  "signed1 body v = (req1 [] ''POST'' [])\<lparr>q_Body := body, q_PathValue := v\<rparr>"

lemma b64_sample:
  "b64_DecodeString ''AAAA'' = Some (replicate 3 (char_of (0 :: nat)))"
  "b64_DecodeString ''EQ'' \<noteq> None" "b64_DecodeString ''DKE'' \<noteq> None"
  by code_simp+

lemma ParseJWS1:
  assumes "Unmarshal_Header jose1 d = Some hdr" and "d \<noteq> []"
  obtains sig where "ParseJWS jose1 d = Inr \<lparr>j_Header = hdr, j_Payload = d, j_signingInput = sig,
    j_signature = replicate 3 (char_of (0 :: nat))\<rparr>"
  using assms that
  by (simp add: ParseJWS_def b64_empty b64_roundtrip b64_sample(1))
    (simp add: jose1_def b64_empty b64_roundtrip b64_sample(1))

lemma JWK1: obtains n e where "JWKPublicKey jose1 ''jwk'' = Inr (RSAKey n e)"
  using b64_sample(2,3) that by (auto simp: JWKPublicKey_def jose1_def)

lemma Verify1: "h_Alg (j_Header j) = ''RS256'' \<Longrightarrow> Verify jose1 j (RSAKey n e) = Inr ()"
  by (simp add: Verify_def jose1_def)

lemma VerifyHMAC1:
  "h_Alg (j_Header j) = ''HS256'' \<Longrightarrow> j_signature j = replicate 3 (char_of (0 :: nat)) \<Longrightarrow>
   VerifyHMAC jose1 j k = Inr ()"
  by (simp add: VerifyHMAC_def jose1_def)

lemma Thumbprint1: obtains t where "Thumbprint jose1 (RSAKey n e) = Inr t"
  using that by (simp add: Thumbprint_def PublicKeyToJWK_def)

end
