(* ===== verification/Access_Control.thy ===== *)
theory Access_Control
  imports Samples
begin

text \<open>
  What the role check of \<open>auth.go\<close> and the route table of \<open>router.go\<close> ensure together: who gets
  through, and that everybody else leaves the datastore as it was.
\<close>

section \<open>Steps that leave the tables alone\<close>

text \<open>What only an administrator may change.\<close>

definition grants :: "'x world_scheme \<Rightarrow> ClientRoleRecord list \<times> ProfileRecord list" where
  "grants w = (client_roles w, profiles w)"

lemma reads_keep_tables [keeps]:
  "state_io_rel (unchanged tables) (Certificates_GetBySerial b x)"
  "state_io_rel (unchanged tables) (Certificates_FindByKind b k)"
  "state_io_rel (unchanged tables) (Certificates_FindRevoked b)"
  "state_io_rel (unchanged tables) (ClientRoles_Get b x)"
  by (rule unchangedI; auto simp: tables_def intro!: wps)+

lemma steps_keep_grants [keeps]:
  "state_io_rel (unchanged grants) (Certificates_GetBySerial b x)"
  "state_io_rel (unchanged grants) (Certificates_FindByKind b k)"
  "state_io_rel (unchanged grants) (Certificates_FindRevoked b)"
  "state_io_rel (unchanged grants) (Certificates_Create b rec)"
  "state_io_rel (unchanged grants) (Certificates_Revoke b x reason at)"
  "state_io_rel (unchanged grants) (ClientRoles_Get b x)"
  "state_io_rel (unchanged grants) (Audit_Append b e)"
  "state_io_rel (unchanged grants) time_Now"
  "state_io_rel (unchanged grants) (rand_Read n)"
  "state_io_rel (unchanged grants) (QueryContext q)"
  by (rule unchangedI; auto simp: grants_def intro!: wps)+

lemma memory_keeps [keeps]:
  "state_io_rel (unchanged tables) (meter g)" "state_io_rel (unchanged grants) (meter g)"
  by (rule unchangedI; simp add: tables_def grants_def)+

lemma unchanged_sys [simp]:
  "unchanged tables s (s\<lparr>s_CRLBuilder := x\<rparr>)" "unchanged tables s (s\<lparr>s_RootCRLBuilder := x\<rparr>)"
  "unchanged tables s (s\<lparr>s_TSAResponder := y\<rparr>)"
  "unchanged grants s (s\<lparr>s_CRLBuilder := x\<rparr>)" "unchanged grants s (s\<lparr>s_RootCRLBuilder := x\<rparr>)"
  "unchanged grants s (s\<lparr>s_TSAResponder := y\<rparr>)"
  by (simp_all add: unchanged_def tables_def grants_def)

text \<open>What stands behind the routes while the ACME module is off: handlers open to everybody,
  handlers for managers, and handlers for administrators.\<close>

definition open_handlers :: "Deps \<Rightarrow> (request \<Rightarrow> (sys, response) state) list" where
  "open_handlers deps = [handleHealthz deps, handleReadyz deps (Some ready), handleMetrics deps,
     handleCAPem deps CertKindRoot, handleCAPem deps CertKindIntermediate, handleCRL deps,
     handleOCSP deps, handleTSA deps, handleOpenAPI deps, handleLLMsTxt deps]"

definition manager_handlers :: "Deps \<Rightarrow> (request \<Rightarrow> (sys, response) state) list" where
  "manager_handlers deps = [handleIssueCertificate deps, handleGetCertificate deps,
     handleRevokeCertificate deps, handleListProfiles deps]"

lemma route_cases:
  assumes "rt \<in> set (NewRouter deps)" and "\<not> EnableACME (d_ModuleConfig deps)"
  shows "rt_Handler rt \<in> set (open_handlers deps) \<or>
    (\<exists>h\<in>set (manager_handlers deps). rt_Handler rt = requireRole deps RoleManager h) \<or>
    (\<exists>h. rt_Handler rt = requireRole deps RoleAdmin h)"
  using assms unfolding open_handlers_def manager_handlers_def
  by (auto simp: NewRouter_def Let_def route_defs route_def split: if_splits)

lemmas open_handler_defs = handleHealthz_def handleReadyz_def ready_def handleMetrics_def
  handleCAPem_def handleCRL_def CRL_def handleOCSP_def recordOCSPMetrics_def Respond_def
  handleTSA_def recordTSAMetrics_def Respond_ts_def snapshot_def handleOpenAPI_def handleLLMsTxt_def

lemma open_handlers_keep:
  "h \<in> set (open_handlers deps) \<Longrightarrow> state_io_rel (unchanged tables) (h r)"
  "h \<in> set (open_handlers deps) \<Longrightarrow> state_io_rel (unchanged grants) (h r)"
  unfolding open_handlers_def open_handler_defs
  by (auto simp: Let_def intro!: keeps keeps_modify split: prod.splits sum.splits store_error.splits)

text \<open>A manager's handlers change neither roles nor profiles.\<close>

lemma issueLeafCertificate_keeps_grants [keeps]:
  "state_io_rel (unchanged grants) (issueLeafCertificate deps p sub pub dns now actor act det)"
  unfolding issueLeafCertificate_def IssueLeaf_def LeafTemplate_def buildTemplate_def GenerateSerial_def
  by (auto simp: Let_def intro!: keeps)

lemma manager_handlers_keep:
  "h \<in> set (manager_handlers deps) \<Longrightarrow> state_io_rel (unchanged grants) (h r)"
  unfolding manager_handlers_def handleIssueCertificate_def lookupProfile_def profileNames_def
    count_issued_def LeafTemplate_def buildTemplate_def GenerateSerial_def handleGetCertificate_def
    handleRevokeCertificate_def handleListProfiles_def
  by (auto simp: Let_def intro!: keeps keeps_modify)

section \<open>The role check\<close>

lemma authorized_path [simp]: "authorized least (r\<lparr>q_PathValue := v\<rparr>) s = authorized least r s"
  by (simp add: authorized_def)

lemma authorized_admin: "authorized RoleAdmin r s \<Longrightarrow> authorized least r s"
  by (auto simp: authorized_def roleSatisfies_def RoleAdmin_def split: if_splits)

lemma wp_denied:
  "\<not> authorized least r s \<Longrightarrow> (\<And>resp f. Q resp (s\<lparr>faults := f\<rparr>)) \<Longrightarrow> wp (requireRole deps least h r) Q s"
  by (rule wp_requireRole) auto

lemma wp_unchanged: "state_io_rel (unchanged f) m \<Longrightarrow> wp m (\<lambda>_ t. f t = f s) s"
  using wp_state_io_rel [of "unchanged f" m s] by (simp add: unchanged_def)

lemma tables_faults [simp]: "tables (s\<lparr>faults := f\<rparr>) = tables s" "grants (s\<lparr>faults := f\<rparr>) = grants s"
  by (simp_all add: tables_def grants_def)

lemma wp_manager:
  assumes "state_io_rel (unchanged grants) (h r)"
  shows "wp (requireRole deps RoleManager h r) (\<lambda>_ t. grants t = grants s) s"
proof -
  have "wp (h r) (\<lambda>_ t. grants t = grants s) (s\<lparr>faults := f\<rparr>)" for f
    using wp_unchanged [OF assms, of "s\<lparr>faults := f\<rparr>"] by simp
  then show ?thesis
    by (intro wp_requireRole) auto
qed

text \<open>C1. With a store that answers, the role check of \<open>auth.go\<close> lets a request through to its
  handler exactly if the caller's certificate is in the ledger, not revoked, and has the required
  role or is an administrator's; any other request is answered 401 or 403 and changes nothing.\<close>

theorem requireRole_decides:
  assumes "faults s = []" and "schema s"
  shows "(authorized least r s \<longrightarrow> run_state (requireRole deps least h r) s = run_state (h r) s) \<and>
    (\<not> authorized least r s \<longrightarrow> (\<exists>resp. run_state (requireRole deps least h r) s = (resp, s) \<and>
       status resp \<in> {401, 403}))"
proof (cases "q_PeerSerials r")
  case Nil
  then show ?thesis
    by (simp add: requireRole_def authorized_def State_Monad.return_def problem_defs)
next
  case (Cons peer rest)
  let ?x = "Int_String peer"
  have get: "run_state (ClientRoles_Get (d_Store deps) ?x) s = (case select_client_role ?x s of
        None \<Rightarrow> (Inl ErrNotFound, s) | Some role \<Rightarrow> (Inr role, s))"
    "run_state (Certificates_GetBySerial (d_Store deps) ?x) s = (case select_certificate ?x s of
        None \<Rightarrow> (Inl ErrNotFound, s) | Some c \<Rightarrow> (Inr c, s))"
    using assms(1) by (cases "d_Store deps"; simp add: method_bodies effects scan_row_def
        split: option.splits)+
  have "select_certificate ?x s \<noteq> None" if "select_client_role ?x s = Some role" for role
  proof -
    have "role \<in> set (client_roles s)" "role_CertSerial role = ?x"
      using find_Some_in [OF that [unfolded select_client_role_def]] by simp_all
    then have "?x \<in> Serial ` set (certificates s)"
      using assms(2) unfolding schema_def roles_ok_def by metis
    then show ?thesis
      by (auto simp: select_certificate_def find_None_iff_all)
  qed
  with Cons show ?thesis
    by (auto simp: requireRole_def authorized_def Let_def get problem_defs
        split: option.splits)
qed

theorem requireRole_decides_witness:
  "authorized RoleManager (req1 [7] ''GET'' ''/v1/certificates/8'') sys1 \<and>
   run_state (requireRole deps1 RoleManager (handleGetCertificate deps1)
     (req1 [7] ''GET'' ''/v1/certificates/8'')) sys1 =
   run_state (handleGetCertificate deps1 (req1 [7] ''GET'' ''/v1/certificates/8'')) sys1"
proof -
  let ?r = "req1 [7] ''GET'' ''/v1/certificates/8''"
  have "authorized RoleManager ?r sys1"
    by (simp add: authorized_def sample_data running roleSatisfies_def)
  with requireRole_decides [of sys1 RoleManager ?r deps1 "handleGetCertificate deps1"] sys1_schema
  show ?thesis by (simp add: sample_data)
qed

section \<open>Callers without a role\<close>

lemma wp_serve_outsider:
  assumes "\<not> EnableACME (d_ModuleConfig deps)" and "\<not> authorized RoleManager r s"
  shows "wp (serve deps r) (\<lambda>_ t. tables t = tables s) s"
proof (rule wp_serve)
  have no_admin: "\<not> authorized RoleAdmin r s"
    using assms(2) authorized_admin by blast
  fix rt v
  assume "rt \<in> set (NewRouter deps)"
  from route_cases [OF this assms(1)] assms(2) no_admin
  show "wp (rt_Handler rt (r\<lparr>q_PathValue := v\<rparr>)) (\<lambda>_ t. tables t = tables s) s"
    by (auto intro!: wp_denied intro: wp_unchanged open_handlers_keep)
qed simp

lemma wp_serve_manager:
  assumes "\<not> EnableACME (d_ModuleConfig deps)" and "\<not> authorized RoleAdmin r s"
  shows "wp (serve deps r) (\<lambda>_ t. grants t = grants s) s"
proof (rule wp_serve)
  fix rt v
  assume "rt \<in> set (NewRouter deps)"
  from route_cases [OF this assms(1)] assms(2)
  show "wp (rt_Handler rt (r\<lparr>q_PathValue := v\<rparr>)) (\<lambda>_ t. grants t = grants s) s"
    by (auto intro!: wp_denied [where least = RoleAdmin] wp_manager
        intro: wp_unchanged open_handlers_keep manager_handlers_keep)
qed simp

text \<open>C2. While the ACME module is off, a request of a caller who holds no manager's or
  administrator's certificate leaves every table of the datastore as it was, whatever its method
  and path and whatever statements fail on the way.\<close>

theorem unauthorized_changes_nothing:
  assumes "\<not> EnableACME (d_ModuleConfig deps)" and "\<not> authorized RoleManager r s"
    and "run_state (serve deps r) s = (resp, s')"
  shows "tables s' = tables s"
  using wp_run [OF wp_serve_outsider [OF assms(1,2)] assms(3)] .

theorem unauthorized_changes_nothing_witness:
  "\<not> authorized RoleManager (req1 [] ''POST'' ''/v1/certificates'') sys1 \<and>
   tables (snd (run_state (serve deps1 (req1 [] ''POST'' ''/v1/certificates'')) sys1)) = tables sys1"
proof -
  let ?r = "req1 [] ''POST'' ''/v1/certificates''"
  have "\<not> authorized RoleManager ?r sys1"
    by (simp add: authorized_def req1_def)
  with unauthorized_changes_nothing [of deps1 ?r sys1 "fst (run_state (serve deps1 ?r) sys1)"
      "snd (run_state (serve deps1 ?r) sys1)"]
  show ?thesis by (simp add: deps1_def)
qed

text \<open>While the ACME module is off, only an administrator can change who has which role, or the
  recorded profiles: a manager's request, or anybody else's, leaves both tables as they were.\<close>

theorem only_admins_grant:
  assumes "\<not> EnableACME (d_ModuleConfig deps)" and "\<not> authorized RoleAdmin r s"
    and "run_state (serve deps r) s = (resp, s')"
  shows "client_roles s' = client_roles s \<and> profiles s' = profiles s"
  using wp_run [OF wp_serve_manager [OF assms(1,2)] assms(3)] by (simp add: grants_def)

theorem only_admins_grant_witness:
  "\<not> authorized RoleAdmin (req1 [8] ''POST'' ''/v1/clients'') sys1 \<and>
   client_roles (snd (run_state (serve deps1 (req1 [8] ''POST'' ''/v1/clients'')) sys1)) = client_roles sys1"
proof -
  let ?r = "req1 [8] ''POST'' ''/v1/clients''"
  have "\<not> authorized RoleAdmin ?r sys1"
    by (simp add: authorized_def sample_data running)
  with only_admins_grant [of deps1 ?r sys1 "fst (run_state (serve deps1 ?r) sys1)"
      "snd (run_state (serve deps1 ?r) sys1)"]
  show ?thesis by (simp add: deps1_def)
qed

section \<open>Revoked callers\<close>

lemma revoked_not_authorized:
  "cert_revoked (Int_String peer) s \<Longrightarrow> q_PeerSerials r = peer # rest \<Longrightarrow> \<not> authorized least r s"
  by (auto simp: cert_revoked_def authorized_def)

text \<open>Once a certificate is revoked its holder is locked out for good: after any further sequence
  of requests, a request authenticated with it does not reach the handler of any guarded route. It
  is answered with an error and, apart from the statements it ran, changes nothing.\<close>

theorem revoked_client_locked_out:
  assumes "cert_revoked (Int_String peer) s" and "run_state (serve_all deps rs) s = (resps, s1)"
    and "q_PeerSerials r = peer # rest" and "run_state (requireRole deps least h r) s1 = (resp, s2)"
  shows "status resp \<in> {401, 403, 500} \<and> s2 = s1\<lparr>faults := faults s2\<rparr>"
proof -
  have "cert_revoked (Int_String peer) s1"
    using keeps_serve_all assms(1,2) by (blast intro: cert_revoked_stays dest: state_io_relD)
  then have "\<not> authorized least r s1"
    using assms(3) by (rule revoked_not_authorized)
  then have "wp (requireRole deps least h r) (\<lambda>resp t. status resp \<in> {401, 403, 500} \<and>
      t = s1\<lparr>faults := faults t\<rparr>) s1"
    by (intro wp_requireRole) auto
  from wp_run [OF this assms(4)] show ?thesis .
qed

definition revoked7 :: sys where
  "revoked7 = sys1\<lparr>certificates := revoke_rows ''7'' ''superseded'' 5 (certificates sys1)\<rparr>"

theorem revoked_client_locked_out_witness:
  "cert_revoked ''7'' revoked7 \<and> status (fst (run_state (requireRole deps1 RoleManager
     (handleIssueCertificate deps1) (req1 [7] ''POST'' ''/v1/certificates'')) revoked7)) \<in> {401, 403, 500}"
proof -
  let ?h = "requireRole deps1 RoleManager (handleIssueCertificate deps1) (req1 [7] ''POST'' ''/v1/certificates'')"
  have "cert_revoked ''7'' revoked7"
    by (simp add: cert_revoked_def revoked7_def revoke_rows_def sample_data running)
  with revoked_client_locked_out [of 7 revoked7 deps1 "[]" "[]" revoked7
      "req1 [7] ''POST'' ''/v1/certificates''" "[]" RoleManager "handleIssueCertificate deps1"
      "fst (run_state ?h revoked7)" "snd (run_state ?h revoked7)"]
  show ?thesis by (simp add: req1_def State_Monad.return_def)
qed

end
