(* ===== verification/Issuance.thy ===== *)
theory Issuance
  imports Access_Control
begin

text \<open>
  What the handlers that issue and revoke certificates do to the ledger, the audit log, the cached
  CRL and the counters, on success and on every error, and how a revocation reaches the clients of
  CRL and OCSP.
\<close>

section \<open>Revoking\<close>

lemma select_certificate_clock [simp]:
  "select_certificate x (w\<lparr>clock := t\<rparr>) = select_certificate x w"
  "select_certificate x (w\<lparr>clock_tape := ts\<rparr>) = select_certificate x w"
  by (simp_all add: select_certificate_def)

text \<open>\<open>revoked_by\<close>: the certificate was revoked now, for \<open>reason\<close>, and the revocation is on record.\<close>

definition revoked_by :: "backend \<Rightarrow> string \<Rightarrow> string \<Rightarrow> string \<Rightarrow> sys \<Rightarrow> sys \<Rightarrow> bool" where
  "revoked_by b actor serial reason s s' \<longleftrightarrow>
     certificates s' = revoke_rows serial reason (enc_of b (clock s')) (certificates s) \<and>
     (\<exists>e. audit_log s' = audit_log s @ [e] \<and> audited actor ''revoke'' serial reason e) \<and>
     s_CRLBuilder s' = map_option Invalidate (s_CRLBuilder s)"

text \<open>The reason a request gives: that of its body, and \<open>unspecified\<close> if there is no body or it names none.\<close>

definition asked_reason :: "Deps \<Rightarrow> request \<Rightarrow> string option" where
  "asked_reason deps r =
     (if q_ContentLength r = 0 then Some ''unspecified''
      else case dec_revokeCertificate (d_json deps) (q_Body r) of
        Inl _ \<Rightarrow> None
      | Inr given \<Rightarrow> Some (if given = [] then ''unspecified'' else given))"

lemma wp_handleRevokeCertificate:
  "wp (handleRevokeCertificate deps r) (\<lambda>resp s'.
     (status resp = 200 \<longrightarrow> unrevoked (q_PathValue r) (certificates s) \<and>
        (\<exists>c. select_certificate (q_PathValue r) s = Some c \<and> Kind c = CertKindLeaf) \<and>
        (\<exists>reason\<in>set revocationReasons. asked_reason deps r = Some reason \<and>
          revoked_by (d_Store deps) (q_RemoteAddr r) (q_PathValue r) reason s s')) \<and>
     (status resp \<in> {400, 404, 409} \<longrightarrow> tables s' = tables s \<and> s_CRLBuilder s' = s_CRLBuilder s) \<and>
     status resp \<in> {200, 400, 404, 409, 500}) s"
  unfolding handleRevokeCertificate_def revoked_by_def asked_reason_def
  by (auto simp: Let_def problem_defs audited_def tables_def intro!: wps)

lemma revoke_rows_other:
  "x \<noteq> serial \<Longrightarrow> find (\<lambda>r. Serial r = x) (revoke_rows serial reason at rows) = find (\<lambda>r. Serial r = x) rows"
  by (induction rows) (auto simp: revoke_rows_def update_where_def)

lemma revoke_effect_lemma:
  assumes "run_state (handleRevokeCertificate deps r) s = (resp, s')" and "status resp = 200"
    and "schema s"
  shows "\<exists>c reason. select_certificate (q_PathValue r) s = Some c \<and> Kind c = CertKindLeaf \<and>
    RevokedAt c = None \<and> asked_reason deps r = Some reason \<and> reason \<in> set revocationReasons \<and>
    select_certificate (q_PathValue r) s' =
      Some (c\<lparr>RevokedAt := Some (enc_of (d_Store deps) (clock s')), RevocationReason := reason\<rparr>) \<and>
    (\<forall>x. x \<noteq> q_PathValue r \<longrightarrow> select_certificate x s' = select_certificate x s) \<and>
    (\<exists>e. audit_log s' = audit_log s @ [e] \<and> audited (q_RemoteAddr r) ''revoke'' (q_PathValue r) reason e) \<and>
    s_CRLBuilder s' = map_option Invalidate (s_CRLBuilder s)"
proof -
  let ?x = "q_PathValue r"
  obtain c reason where c: "select_certificate ?x s = Some c" "Kind c = CertKindLeaf"
    and un: "unrevoked ?x (certificates s)" and reason: "asked_reason deps r = Some reason" "reason \<in> set revocationReasons"
    and rev: "revoked_by (d_Store deps) (q_RemoteAddr r) ?x reason s s'"
    using wp_run [OF wp_handleRevokeCertificate assms(1)] assms(2) by auto
  obtain r' where "find (\<lambda>x. Serial x = ?x) (certificates s) = Some r'" "RevokedAt r' = None"
    "find (\<lambda>x. Serial x = ?x) (revoke_rows ?x reason (enc_of (d_Store deps) (clock s')) (certificates s)) =
       Some (r'\<lparr>RevokedAt := Some (enc_of (d_Store deps) (clock s')), RevocationReason := reason\<rparr>)"
    using revoke_rows_select [OF schema_distinct(1) [OF assms(3)] un] by metis
  with c rev reason show ?thesis
    by (auto simp: select_certificate_def revoked_by_def revoke_rows_other)
qed

text \<open>C5. A revocation that is answered 200 was asked for a leaf certificate that was not revoked;
  afterwards that certificate, and no other, is revoked, with the time of the request and the reason
  the request gives (\<open>unspecified\<close> if it gives none), which is a known one; the audit log has one more entry, which names the caller, and the cached CRL is dropped.\<close>

theorem revoke_effect:
  assumes "run_state (handleRevokeCertificate deps r) s = (resp, s')" and "status resp = 200"
    and "schema s"
  shows "\<exists>c reason. select_certificate (q_PathValue r) s = Some c \<and> Kind c = CertKindLeaf \<and>
    RevokedAt c = None \<and> asked_reason deps r = Some reason \<and> reason \<in> set revocationReasons \<and>
    select_certificate (q_PathValue r) s' =
      Some (c\<lparr>RevokedAt := Some (enc_of (d_Store deps) (clock s')), RevocationReason := reason\<rparr>) \<and>
    (\<forall>x. x \<noteq> q_PathValue r \<longrightarrow> select_certificate x s' = select_certificate x s) \<and>
    (\<exists>e. audit_log s' = audit_log s @ [e] \<and> audited (q_RemoteAddr r) ''revoke'' (q_PathValue r) reason e) \<and>
    s_CRLBuilder s' = map_option Invalidate (s_CRLBuilder s)"
  by (rule revoke_effect_lemma [OF assms])

definition revoke8 :: request where
  "revoke8 = req1 [7] ''POST'' ''/v1/certificates/8/revoke''"

lemma revoke8_ok: "status (fst (run_state (handleRevokeCertificate deps1 revoke8) sys1)) = 200"
  by (simp add: handleRevokeCertificate_def revoke8_def sample_data running revocationReasons_def)

theorem revoke_effect_witness:
  "status (fst (run_state (handleRevokeCertificate deps1 revoke8) sys1)) = 200 \<and>
   cert_revoked (q_PathValue revoke8) (snd (run_state (handleRevokeCertificate deps1 revoke8) sys1))"
  using revoke_effect [OF surjective_pairing revoke8_ok sys1_schema] revoke8_ok
  by (auto simp: cert_revoked_def)

text \<open>A revocation that is refused (unknown reason, no such certificate, a CA certificate, already
  revoked) changes no table and leaves the cached CRL in place; a CA certificate is never revoked
  with success.\<close>

theorem revoke_refused:
  assumes "run_state (handleRevokeCertificate deps r) s = (resp, s')"
  shows "(status resp \<in> {400, 404, 409} \<longrightarrow> tables s' = tables s \<and> s_CRLBuilder s' = s_CRLBuilder s) \<and>
    (\<forall>c. select_certificate (q_PathValue r) s = Some c \<longrightarrow> Kind c \<noteq> CertKindLeaf \<longrightarrow> status resp \<noteq> 200)"
  using wp_run [OF wp_handleRevokeCertificate assms] by auto

theorem revoke_refused_witness:
  "status (fst (run_state (handleRevokeCertificate deps1 (revoke8\<lparr>q_PathValue := ''2''\<rparr>)) sys1)) = 400 \<and>
   tables (snd (run_state (handleRevokeCertificate deps1 (revoke8\<lparr>q_PathValue := ''2''\<rparr>)) sys1)) = tables sys1"
proof -
  let ?r = "revoke8\<lparr>q_PathValue := ''2''\<rparr>"
  have "status (fst (run_state (handleRevokeCertificate deps1 ?r) sys1)) = 400"
    by (simp add: handleRevokeCertificate_def revoke8_def sample_data running revocationReasons_def
        problem_defs)
  with revoke_refused [OF surjective_pairing, of deps1 ?r sys1] show ?thesis by simp
qed

section \<open>Issuing\<close>

text \<open>\<open>issued_as\<close>: one leaf certificate, made by the intermediate CA under the profile for the given subject, key and
  names, was added to the ledger under a fresh serial, and one audit entry about it to the log.\<close>

definition issued_as ::
    "Deps \<Rightarrow> Profile \<Rightarrow> Name \<Rightarrow> pubkey \<Rightarrow> string list \<Rightarrow> string \<Rightarrow> string \<Rightarrow> string \<Rightarrow>
     CertificateRecord \<Rightarrow> sys \<Rightarrow> sys \<Rightarrow> bool" where
  "issued_as deps p sub pub dns actor act detail rec s s' \<longleftrightarrow>
     (\<exists>now. leaf_row deps p sub pub dns now rec) \<and> Serial rec \<notin> Serial ` set (certificates s) \<and>
     certificates s' = certificates s @ [cert_row (d_Store deps) rec] \<and>
     (\<exists>e. audit_log s' = audit_log s @ [e] \<and> audited actor act (Serial rec) detail e)"

lemma issued_asI [intro]:
  "leaf_row deps p sub pub dns now rec \<Longrightarrow> Serial rec \<notin> Serial ` set (certificates s) \<Longrightarrow>
   audited actor act (Serial rec) detail e \<Longrightarrow> audit_log s' = audit_log s @ [e] \<Longrightarrow>
   certificates s' = certificates s @ [cert_row (d_Store deps) rec] \<Longrightarrow>
   issued_as deps p sub pub dns actor act detail rec s s'"
  by (auto simp: issued_as_def)

lemma leaf_row_created: "leaf_row deps p sub pub dns now rec \<Longrightarrow> CreatedAt rec = now"
  by (auto simp: leaf_row_def)

lemma wp_handleIssueCertificate:
  assumes "x509_faithful (d_pki deps)"
  shows "wp (handleIssueCertificate deps r) (\<lambda>resp s'. status resp = 201 \<longrightarrow>
    (\<exists>req prof csr rec. dec_issueCertificate (d_json deps) (q_Body r) = Inr req \<and>
       (case s_Profiles s of Some reg \<Rightarrow> Registry_Lookup reg (ic_Profile req) | None \<Rightarrow> Lookup (ic_Profile req)) = Some prof \<and>
       ParseCSR (d_pki deps) (ic_CSR req) = Inr csr \<and>
       issued_as deps (WithIssuerURLs prof (d_PublicBaseURL deps) (EnableRevocation (d_ModuleConfig deps)))
         (csr_Subject csr) (csr_PublicKey csr) (csr_DNSNames csr) (q_RemoteAddr r) ''issue'' (p_Name prof)
         rec s s' \<and>
       member resp ''serial'' = Some (JStr (Serial rec)) \<and> member resp ''pem'' = Some (JStr (PEM rec)) \<and>
       CreatedAt rec = clock s' \<and> client_roles s' = client_roles s \<and>
       s_Metrics s' = map_option (\<lambda>m. m\<lparr>m_CertificatesIssuedTotal :=
         inc (p_Name prof) (m_CertificatesIssuedTotal m)\<rparr>) (s_Metrics s))) s"
  unfolding handleIssueCertificate_def lookupProfile_def profileNames_def count_issued_def
  using assms
  by (auto simp: Let_def problem_defs member_def writeJSON_def
      intro!: wps wp_issueLeafCertificate wp_LeafTemplate split: option.splits)
    (rule exI, rule conjI, rule issued_asI, assumption, assumption, assumption, simp, simp, simp add: leaf_row_created)+

text \<open>C4. An issuance that is answered 201 added exactly one certificate to the ledger: a leaf that was made with the
  certificate and key of the intermediate CA, for the subject, key and names of the CSR, valid from the time of the
  request for as long as the requested profile says, with the usages of the profile (the extended ones critical
  exactly if it says so), and a serial that was not in use. The answer carries that serial and
  PEM, the audit log names the caller, no role is granted and the counter of the profile moves.\<close>

theorem issue_effect:
  assumes "x509_faithful (d_pki deps)" and "run_state (handleIssueCertificate deps r) s = (resp, s')"
    and "status resp = 201"
  shows "\<exists>req prof csr rec. dec_issueCertificate (d_json deps) (q_Body r) = Inr req \<and>
       (case s_Profiles s of Some reg \<Rightarrow> Registry_Lookup reg (ic_Profile req) | None \<Rightarrow> Lookup (ic_Profile req)) = Some prof \<and>
       ParseCSR (d_pki deps) (ic_CSR req) = Inr csr \<and>
       issued_as deps (WithIssuerURLs prof (d_PublicBaseURL deps) (EnableRevocation (d_ModuleConfig deps)))
         (csr_Subject csr) (csr_PublicKey csr) (csr_DNSNames csr) (q_RemoteAddr r) ''issue'' (p_Name prof)
         rec s s' \<and>
       member resp ''serial'' = Some (JStr (Serial rec)) \<and> member resp ''pem'' = Some (JStr (PEM rec)) \<and>
       CreatedAt rec = clock s' \<and> client_roles s' = client_roles s \<and>
       s_Metrics s' = map_option (\<lambda>m. m\<lparr>m_CertificatesIssuedTotal :=
         inc (p_Name prof) (m_CertificatesIssuedTotal m)\<rparr>) (s_Metrics s)"
  using wp_run [OF wp_handleIssueCertificate [OF assms(1)] assms(2)] assms(3) by simp

definition issue7 :: request where "issue7 = req1 [7] ''POST'' ''/v1/certificates''"

lemma issue7_ok: "status (fst (run_state (handleIssueCertificate deps1 issue7) sys1)) = 201"
  by (simp add: handleIssueCertificate_def issue7_def sample_data running Query_Get_def json1_def
      missing_fields_def lookupProfile_def issueLeafCertificate_def count_issued_def issuing_sample)

theorem issue_effect_witness:
  "status (fst (run_state (handleIssueCertificate deps1 issue7) sys1)) = 201 \<and>
   (\<exists>rec. certificates (snd (run_state (handleIssueCertificate deps1 issue7) sys1)) = certificates sys1 @ [rec])"
  using issue_effect [OF _ surjective_pairing issue7_ok] x509_pki1 issue7_ok
  by (auto simp: issued_as_def deps1_def)

text \<open>A dry run leaves every table and every counter as it was, whatever it is asked to preview.\<close>

theorem dry_run_changes_nothing:
  assumes "ParseBool (Query_Get r ''dry_run'') = Some True"
    and "run_state (handleIssueCertificate deps r) s = (resp, s')"
  shows "tables s' = tables s \<and> s_Metrics s' = s_Metrics s \<and> status resp \<noteq> 201"
proof -
  have "Query_Get r ''dry_run'' \<noteq> []"
    using assms(1) by (auto simp: ParseBool_def split: if_splits)
  with assms(1) have "wp (handleIssueCertificate deps r) (\<lambda>resp s'. tables s' = tables s \<and>
      s_Metrics s' = s_Metrics s \<and> status resp \<noteq> 201) s"
    unfolding handleIssueCertificate_def lookupProfile_def profileNames_def
    by (auto simp: Let_def problem_defs tables_def intro!: wps wp_LeafTemplate)
  from wp_run [OF this assms(2)] show ?thesis .
qed

theorem dry_run_changes_nothing_witness:
  "ParseBool (Query_Get (issue7\<lparr>q_Query := [(''dry_run'', ''true'')]\<rparr>) ''dry_run'') = Some True \<and>
   tables (snd (run_state (handleIssueCertificate deps1 (issue7\<lparr>q_Query := [(''dry_run'', ''true'')]\<rparr>)) sys1)) = tables sys1"
proof -
  have "ParseBool (Query_Get (issue7\<lparr>q_Query := [(''dry_run'', ''true'')]\<rparr>) ''dry_run'') = Some True"
    by (simp add: Query_Get_def ParseBool_def)
  with dry_run_changes_nothing [OF this surjective_pairing, of deps1 sys1] show ?thesis by simp
qed

section \<open>Clients and their roles\<close>

lemma assign_rows_select:
  "\<exists>r'. find (\<lambda>x. role_CertSerial x = role_CertSerial r) (assign_rows r rows) = Some r' \<and>
     role_Role r' = role_Role r"
proof (cases "has_key role_CertSerial (role_CertSerial r) rows")
  case True
  then obtain x where "find (\<lambda>x. role_CertSerial x = role_CertSerial r) rows = Some x"
    by (cases "find (\<lambda>x. role_CertSerial x = role_CertSerial r) rows")
      (auto simp: has_key_iff find_None_iff_all)
  moreover from this have "role_CertSerial x = role_CertSerial r"
    using find_Some_in by fastforce
  ultimately show ?thesis
    using True by (simp add: assign_rows_def find_update_where)
next
  case False
  then have "find (\<lambda>x. role_CertSerial x = role_CertSerial r) rows = None"
    by (auto simp: has_key_def list_ex_iff find_None_iff_all)
  with False show ?thesis
    by (simp add: assign_rows_def find_append)
qed

lemma wp_assignRoleOrRevoke:
  assumes "\<And>f. role \<in> roles_allowed \<Longrightarrow> Q (Inr ()) (s\<lparr>faults := f, client_roles :=
      assign_rows \<lparr>role_CertSerial = Serial rec, role_Role = role, role_CreatedAt = enc_of (d_Store deps) now\<rparr>
        (client_roles s)\<rparr>)"
    and "\<And>e s'. Q (Inl e) s'"
  shows "wp (assignRoleOrRevoke deps rec role now) Q s"
  using assms unfolding assignRoleOrRevoke_def by (auto intro!: wps)

lemma ExecContext_fails:
  "faults s = [f] \<Longrightarrow> f \<noteq> Runs \<Longrightarrow> run_state (ExecContext stmt) s = (Inl DriverFailure,
     (case stmt (s\<lparr>faults := []\<rparr>) of
        Inl _ \<Rightarrow> s\<lparr>faults := []\<rparr>
      | Inr (n, w) \<Rightarrow> if f = AckLost then w else s\<lparr>faults := []\<rparr>))"
  by (cases f) (simp_all add: ExecContext_def next_fault_def drop_fault_def split: sum.splits)

lemma Revoke_runs:
  assumes "faults t = []" and "select_certificate x t = Some c" and "RevokedAt c = None"
  shows "run_state (Certificates_Revoke b x reason at) t =
    (Inr (), t\<lparr>certificates := revoke_rows x reason (enc_of b at) (certificates t)\<rparr>)"
proof -
  have "c \<in> set (certificates t)" "Serial c = x"
    using find_Some_in [OF assms(2) [unfolded select_certificate_def]] by auto
  then have "count_where (\<lambda>r. Serial r = x \<and> RevokedAt r = None) (certificates t) \<noteq> 0"
    using assms(3) by (auto simp: count_where_zero)
  with assms show ?thesis
    by (cases b) (simp_all add: method_bodies effects scan_row_def update_revoked_def Let_def
        State_Monad.return_def revoke_rows_def enc_of_def)
qed

lemma Append_runs:
  "faults t = [] \<Longrightarrow> run_state (Audit_Append b e) t = (Inr (), t\<lparr>audit_log := audit_log t @
     [e\<lparr>audit_Timestamp := enc_of b (audit_Timestamp e), audit_ID := int (length (audit_log t)) + 1\<rparr>]\<rparr>)"
  by (cases b) (simp_all add: method_bodies effects exec_done_def insert_audit_def enc_of_def
      State_Monad.return_def)

text \<open>\<open>enrolled_as\<close>: a certificate was issued and given a role.\<close>

definition enrolled_as ::
    "Deps \<Rightarrow> Name \<Rightarrow> pubkey \<Rightarrow> string list \<Rightarrow> string \<Rightarrow> string \<Rightarrow> string \<Rightarrow> ClientRole \<Rightarrow>
     CertificateRecord \<Rightarrow> sys \<Rightarrow> sys \<Rightarrow> bool" where
  "enrolled_as deps sub pub dns actor act detail role rec s s' \<longleftrightarrow>
     issued_as deps (WithIssuerURLs Default (d_PublicBaseURL deps) (EnableRevocation (d_ModuleConfig deps)))
       sub pub dns actor act detail rec s s' \<and>
     (\<exists>r. select_client_role (Serial rec) s' = Some r \<and> role_Role r = role)"

lemma Default_name [simp]: "p_Name Default = ''default''"
  by (simp add: Default_def)

lemma enrolled_asI:
  assumes "leaf_row deps (WithIssuerURLs Default (d_PublicBaseURL deps)
      (EnableRevocation (d_ModuleConfig deps))) sub pub dns now rec"
    and "Serial rec \<notin> Serial ` set (certificates s)" and "audited actor act (Serial rec) detail e"
    and "audit_log s' = audit_log s @ [e]" and "certificates s' = certificates s @ [cert_row (d_Store deps) rec]"
    and "client_roles s' = assign_rows \<lparr>role_CertSerial = Serial rec, role_Role = role, role_CreatedAt = t\<rparr>
      (client_roles s)"
  shows "enrolled_as deps sub pub dns actor act detail role rec s s'"
  using assms assign_rows_select [of "\<lparr>role_CertSerial = Serial rec, role_Role = role, role_CreatedAt = t\<rparr>"
      "client_roles s"]
  by (auto simp: enrolled_as_def select_client_role_def)

lemma wp_handleIssueClient:
  assumes "x509_faithful (d_pki deps)"
  shows "wp (handleIssueClient deps r) (\<lambda>resp s'. status resp = 201 \<longrightarrow>
    (\<exists>req csr rec. dec_issueClient (d_json deps) (q_Body r) = Inr req \<and>
       icl_Role req \<in> {RoleAdmin, RoleManager} \<and> ParseCSR (d_pki deps) (icl_CSR req) = Inr csr \<and>
       enrolled_as deps (csr_Subject csr) (csr_PublicKey csr) [] (q_RemoteAddr r) ''client-issue''
         (icl_Role req) (icl_Role req) rec s s' \<and>
       member resp ''serial'' = Some (JStr (Serial rec)) \<and> CreatedAt rec = clock s' \<and>
       s_Metrics s' = map_option (\<lambda>m. m\<lparr>m_CertificatesIssuedTotal :=
         inc ''default'' (m_CertificatesIssuedTotal m)\<rparr>) (s_Metrics s))) s"
  unfolding handleIssueClient_def count_issued_def using assms
  by (auto simp: Let_def problem_defs member_def writeJSON_def writeInvalidRole_def
      intro!: wps wp_issueLeafCertificate wp_assignRoleOrRevoke)
    (rule exI, rule conjI, rule enrolled_asI, assumption, assumption, assumption, simp, simp, simp,
      simp add: leaf_row_created)+

text \<open>C33. Onboarding a client that is answered 201 issued one certificate for the key and subject of the
  CSR under the default profile, valid from the time of the request, and gave exactly the requested role, which is one of the two that
  exist, to that certificate.\<close>

theorem client_issue_effect:
  assumes "x509_faithful (d_pki deps)" and "run_state (handleIssueClient deps r) s = (resp, s')"
    and "status resp = 201"
  shows "\<exists>req csr rec. dec_issueClient (d_json deps) (q_Body r) = Inr req \<and>
       icl_Role req \<in> {RoleAdmin, RoleManager} \<and> ParseCSR (d_pki deps) (icl_CSR req) = Inr csr \<and>
       enrolled_as deps (csr_Subject csr) (csr_PublicKey csr) [] (q_RemoteAddr r) ''client-issue''
         (icl_Role req) (icl_Role req) rec s s' \<and>
       member resp ''serial'' = Some (JStr (Serial rec)) \<and> CreatedAt rec = clock s' \<and>
       s_Metrics s' = map_option (\<lambda>m. m\<lparr>m_CertificatesIssuedTotal :=
         inc ''default'' (m_CertificatesIssuedTotal m)\<rparr>) (s_Metrics s)"
  using wp_run [OF wp_handleIssueClient [OF assms(1)] assms(2)] assms(3) by simp

definition client7 :: request where "client7 = req1 [7] ''POST'' ''/v1/clients''"

lemma client7_ok: "status (fst (run_state (handleIssueClient deps1 client7) sys1)) = 201"
  by (simp add: handleIssueClient_def client7_def sample_data running json1_def issueLeafCertificate_def
      assignRoleOrRevoke_def count_issued_def issuing_sample)

theorem client_issue_effect_witness:
  "status (fst (run_state (handleIssueClient deps1 client7) sys1)) = 201 \<and>
   (\<exists>x r. select_client_role x (snd (run_state (handleIssueClient deps1 client7) sys1)) = Some r \<and>
      role_Role r \<in> {RoleAdmin, RoleManager})"
proof -
  have "x509_faithful (d_pki deps1)"
    by (simp add: deps1_def x509_pki1)
  from client_issue_effect [OF this surjective_pairing client7_ok] client7_ok show ?thesis
    by (fastforce simp: enrolled_as_def)
qed

text \<open>When the role of a freshly issued client certificate cannot be assigned and the store answers
  again, the certificate is revoked at once and the revocation is in the audit log; the error of
  the assignment is reported. The cached CRL is not dropped by this revocation.\<close>

theorem failed_assignment_revokes:
  assumes "faults s = [f]" and "f \<noteq> Runs" and "schema s"
    and "select_certificate (Serial rec) s = Some c" and "RevokedAt c = None"
    and "run_state (assignRoleOrRevoke deps rec role now) s = (res, s')"
  shows "(\<exists>e. res = Inl e) \<and>
    select_certificate (Serial rec) s' = Some (c\<lparr>RevokedAt := Some (enc_of (d_Store deps) now),
      RevocationReason := ''unspecified''\<rparr>) \<and>
    (\<exists>e. audit_log s' = audit_log s @ [e] \<and>
       audited ''system:compensating-revoke'' ''revoke'' (Serial rec) ''unspecified'' e) \<and>
    s_CRLBuilder s' = s_CRLBuilder s"
proof -
  let ?a = "ClientRoles_Assign (d_Store deps)
    \<lparr>role_CertSerial = Serial rec, role_Role = role, role_CreatedAt = now\<rparr> :: (sys, unit res) state"
  obtain e t where a: "run_state ?a s = (Inl e, t)" and t: "faults t = []"
    "certificates t = certificates s" "audit_log t = audit_log s" "s_CRLBuilder t = s_CRLBuilder s"
    using assms(1,2)
    by (cases "d_Store deps")
      (auto simp: method_bodies ExecContext_fails exec_done_def upsert_client_role_def split: if_splits)
  have c: "select_certificate (Serial rec) t = Some c" "Serial c = Serial rec"
    using assms(4) t find_Some_in [OF assms(4) [unfolded select_certificate_def]]
    by (auto simp: select_certificate_def)
  show ?thesis
    using assms(4-6) a t c
    by (auto simp: assignRoleOrRevoke_def Revoke_runs Append_runs State_Monad.return_def
        select_certificate_def revoke_rows_def find_update_where audited_def)
qed

theorem failed_assignment_revokes_witness:
  "cert_revoked ''8'' (snd (run_state (assignRoleOrRevoke deps1 (row ''8'' CertKindLeaf ''2'')
     RoleManager now1) (sys1\<lparr>faults := [StmtFails]\<rparr>)))"
proof -
  let ?s = "sys1\<lparr>faults := [StmtFails]\<rparr>"
  have "schema ?s"
    using sys1_schema by (simp add: schema_def schema_parts)
  moreover have "select_certificate ''8'' ?s = Some (row ''8'' CertKindLeaf ''2'')"
    by (simp add: sample_data running)
  ultimately show ?thesis
    using failed_assignment_revokes [OF _ _ _ _ _ surjective_pairing, of ?s StmtFails
        "row ''8'' CertKindLeaf ''2''" "row ''8'' CertKindLeaf ''2''" deps1 RoleManager now1]
    by (auto simp: cert_revoked_def row_def)
qed

section \<open>How a revocation becomes visible\<close>

lemma wp_handleCRL_fresh:
  assumes "q_PathValue r = ''intermediate.crl''" and "s_CRLBuilder s = Some cb" and "cb_cached cb = None"
  shows "wp (handleCRL deps r) (\<lambda>resp s'. status resp = 200 \<longrightarrow>
    (\<exists>tmpl der. rbody resp = Raw der \<and> signed_list (d_rev deps) cb tmpl der \<and>
       lists_exactly tmpl (Int_String (SerialNumber (i_Cert (cb_issuer cb)))) s)) s"
  using assms
  by (auto simp: handleCRL_def CutSuffix_def crl_response_def raw_response_def intro!: wp_CRL)

text \<open>C15. Once a revocation was answered 200, the next CRL of the intermediate CA that is served lists
  the certificate with its revocation time: the list cached before is not served again.\<close>

theorem revoked_in_next_crl:
  assumes "run_state (handleRevokeCertificate deps r) s = (resp, s1)" and "status resp = 200" and "schema s"
    and "s_CRLBuilder s = Some cb" and "select_certificate (q_PathValue r) s = Some c"
    and "IssuerSerial c = Int_String (SerialNumber (i_Cert (cb_issuer cb)))"
    and "q_PathValue r2 = ''intermediate.crl''" and "run_state (handleCRL deps r2) s1 = (resp2, s2)"
    and "status resp2 = 200"
  shows "\<exists>tmpl der e. rbody resp2 = Raw der \<and> signed_list (d_rev deps) cb tmpl der \<and>
    e \<in> set (rl_Entries tmpl) \<and> SetString10 (q_PathValue r) = Some (rle_SerialNumber e) \<and>
    rle_RevocationTime e = enc_of (d_Store deps) (clock s1)"
proof -
  let ?x = "q_PathValue r"
  obtain reason where c': "select_certificate ?x s1 = Some (c\<lparr>RevokedAt :=
      Some (enc_of (d_Store deps) (clock s1)), RevocationReason := reason\<rparr>)"
    and cb: "s_CRLBuilder s1 = Some (Invalidate cb)"
    using revoke_effect_lemma [OF assms(1-3)] assms(4,5) by auto
  let ?c = "c\<lparr>RevokedAt := Some (enc_of (d_Store deps) (clock s1)), RevocationReason := reason\<rparr>"
  have in_c: "?c \<in> set (certificates s1)" "Serial c = ?x"
    using find_Some_in [OF c' [unfolded select_certificate_def]] by auto
  obtain tmpl der where der: "rbody resp2 = Raw der" "signed_list (d_rev deps) (Invalidate cb) tmpl der"
    and exact: "lists_exactly tmpl (Int_String (SerialNumber (i_Cert (cb_issuer cb)))) s1"
    using wp_run [OF wp_handleCRL_fresh [OF assms(7) cb] assms(8)] assms(9) by (auto simp: Invalidate_def)
  have "entry_of ?c \<in> set (rl_Entries tmpl)" "SetString10 ?x \<noteq> None"
    using exact in_c assms(6) by (auto simp: lists_exactly_def Let_def)
  with der in_c(2) show ?thesis
    by (intro exI [of _ tmpl] exI [of _ der] exI [of _ "entry_of ?c"])
      (auto simp: signed_list_def Invalidate_def entry_of_def)
qed

definition get_crl :: request where
  "get_crl = (req1 [] ''GET'' ''/v1/crl/intermediate.crl'')\<lparr>q_PathValue := ''intermediate.crl''\<rparr>"

theorem revoked_in_next_crl_witness:
  "let (resp, s1) = run_state (handleRevokeCertificate deps1 revoke8) sys1;
       (resp2, s2) = run_state (handleCRL deps1 get_crl) s1
   in status resp2 = 200 \<and> (\<exists>tmpl der. rbody resp2 = Raw der \<and>
        signed_list rev1 (NewCRLBuilder inter1) tmpl der \<and> rl_Entries tmpl \<noteq> [])"
proof -
  let ?s1 = "snd (run_state (handleRevokeCertificate deps1 revoke8) sys1)"
  let ?resp2 = "fst (run_state (handleCRL deps1 get_crl) ?s1)"
  have "SetString10 ''8'' = Some 8"
    using SetString10_Int_String [of 8] by (simp del: SetString10_Int_String)
  then have ok: "status ?resp2 = 200"
    by (simp add: handleCRL_def CutSuffix_def get_crl_def handleRevokeCertificate_def revoke8_def
        sample_data running revocationReasons_def CRL_def Invalidate_def NewCRLBuilder_def inter1_serial
        rev1_def crl_response_def)
  show ?thesis
    using revoked_in_next_crl [OF surjective_pairing revoke8_ok sys1_schema, of "NewCRLBuilder inter1"
        "row ''8'' CertKindLeaf ''2''", OF _ _ _ _ surjective_pairing ok] ok
    by (force simp: case_prod_beta revoke8_def get_crl_def sample_data running NewCRLBuilder_def inter1_serial)
qed

lemma wp_revoke_500:
  "wp (handleRevokeCertificate deps r) (\<lambda>resp s'. status resp = 500 \<longrightarrow> s_CRLBuilder s' = s_CRLBuilder s) s"
  unfolding handleRevokeCertificate_def by (auto simp: Let_def problem_defs writeJSON_def intro!: wps)

lemma handleCRL_cached:
  assumes "q_PathValue r = ''intermediate.crl''" and "s_CRLBuilder s = Some cb" and "cb_cached cb = Some der"
    and "fst (run_state time_Now s) < cb_expires cb"
  shows "fst (run_state (handleCRL deps r) s) = crl_response (Inr der)"
  using assms by (cases "run_state time_Now s") (simp add: handleCRL_def CutSuffix_def CRL_def State_Monad.return_def)

text \<open>C34. A revocation can take effect and still be answered 500, since its audit entry is written after it. Whatever
  the datastore and whatever failed, the cached CRL is then not dropped: as long as it has not expired, it is
  what a request for the list of the intermediate CA is answered with, although it was made before the
  certificate was revoked.\<close>

theorem revoke_unaudited_keeps_stale_crl:
  assumes "run_state (handleRevokeCertificate deps r) s = (resp, s')" and "status resp = 500"
    and "\<not> cert_revoked (q_PathValue r) s" and "cert_revoked (q_PathValue r) s'"
    and "s_CRLBuilder s = Some cb" and "cb_cached cb = Some der"
    and "q_PathValue r2 = ''intermediate.crl''" and "fst (run_state time_Now s') < cb_expires cb"
  shows "fst (run_state (handleCRL deps r2) s') = crl_response (Inr der) \<and> s_CRLBuilder s' = Some cb"
proof -
  have "s_CRLBuilder s' = Some cb"
    using wp_run [OF wp_revoke_500 assms(1)] assms(2,5) by simp
  with handleCRL_cached [OF assms(7) _ assms(6,8)] show ?thesis by simp
qed

definition stale1 :: sys where
  "stale1 = sys1\<lparr>faults := [Runs, Runs, Runs, StmtFails],
     s_CRLBuilder := Some ((NewCRLBuilder inter1)\<lparr>cb_cached := Some ''old'', cb_expires := now1 + Hour\<rparr>)\<rparr>"

lemma stale1_revoked:
  "status (fst (run_state (handleRevokeCertificate deps1 revoke8) stale1)) = 500"
  "cert_revoked ''8'' (snd (run_state (handleRevokeCertificate deps1 revoke8) stale1))"
  "clock_tape (snd (run_state (handleRevokeCertificate deps1 revoke8) stale1)) = []"
  "clock (snd (run_state (handleRevokeCertificate deps1 revoke8) stale1)) = now1"
  by (simp_all add: handleRevokeCertificate_def revoke8_def stale1_def sample_data running revocationReasons_def
      ExecContext_def QueryContext_def next_fault_def drop_fault_def cert_revoked_def problem_defs)

theorem revoke_unaudited_keeps_stale_crl_witness:
  "\<not> cert_revoked ''8'' stale1 \<and>
   (let (resp, s') = run_state (handleRevokeCertificate deps1 revoke8) stale1
    in status resp = 500 \<and> cert_revoked ''8'' s' \<and>
       fst (run_state (handleCRL deps1 get_crl) s') =
         crl_response (Inr ''old''))"
proof -
  let ?s = "snd (run_state (handleRevokeCertificate deps1 revoke8) stale1)"
  have path: "q_PathValue revoke8 = ''8''" and unrevoked: "\<not> cert_revoked ''8'' stale1"
    by (simp_all add: revoke8_def stale1_def sample_data running cert_revoked_def)
  have "fst (run_state time_Now ?s) < now1 + Hour"
    using stale1_revoked(3,4) by (simp add: time_Now_def Hour_def Minute_def Second_def)
  with revoke_unaudited_keeps_stale_crl [OF surjective_pairing stale1_revoked(1), of
      "NewCRLBuilder inter1\<lparr>cb_cached := Some ''old'', cb_expires := now1 + Hour\<rparr>" "''old''" get_crl]
    stale1_revoked(1,2) unrevoked
  show ?thesis
    by (simp add: case_prod_beta path stale1_def get_crl_def)
qed

text \<open>C11. Once a certificate is revoked, OCSP says so for good: after any further sequence of requests,
  every answer about it that is signed by its issuer has status revoked and the recorded time.\<close>

theorem revoked_in_ocsp:
  assumes "select_certificate (Int_String (oq_SerialNumber req)) s = Some c" and "RevokedAt c = Some at"
    and "run_state (serve_all deps rs) s = (resps, s1)"
    and "ocsp_ParseRequest R raw = Some req" and "matchIssuer R issuers req = Some issuer"
    and "IssuerSerial c = Int_String (SerialNumber (i_Cert issuer))"
    and "run_state (Respond b R issuers raw) s1 = (Inr answer, s2)"
  shows "\<exists>tmpl. ocsp_CreateResponse R (i_Cert issuer) (i_Cert issuer) tmpl (i_Signer issuer) = Some answer \<and>
    os_Status tmpl = Revoked \<and> os_SerialNumber tmpl = oq_SerialNumber req \<and> os_RevokedAt tmpl = at \<and>
    os_NextUpdate tmpl = os_ThisUpdate tmpl + OCSPValidity"
proof -
  have "ledger_le s s1"
    using keeps_serve_all assms(3) by (rule state_io_relD)
  then obtain c' where "select_certificate (Int_String (oq_SerialNumber req)) s1 = Some c'" "cert_le c c'"
    using certs.view_stays assms(1) by blast
  then have c: "select_certificate (Int_String (oq_SerialNumber req)) s1 = Some c"
    using assms(2) by (auto simp: cert_le_def)
  have "wp (Respond b R issuers raw) (\<lambda>res _. \<forall>answer. res = Inr answer \<longrightarrow> (\<exists>tmpl.
      ocsp_CreateResponse R (i_Cert issuer) (i_Cert issuer) tmpl (i_Signer issuer) = Some answer \<and>
      os_Status tmpl = Revoked \<and> os_SerialNumber tmpl = oq_SerialNumber req \<and> os_RevokedAt tmpl = at \<and>
      os_NextUpdate tmpl = os_ThisUpdate tmpl + OCSPValidity)) s1"
    using c assms(2,4-6)
    by (auto simp: Respond_def Let_def ocsp_answer_def intro!: wps) (rule exI, rule conjI, assumption, simp)
  from wp_run [OF this assms(7)] show ?thesis by simp
qed

theorem revoked_in_ocsp_witness:
  "\<exists>tmpl. ocsp_CreateResponse rev1 (i_Cert inter1) (i_Cert inter1) tmpl (i_Signer inter1) =
     Some ''revoked'' \<and> os_Status tmpl = Revoked"
proof -
  let ?req = "\<lparr>oq_HashAlgorithm = 3, oq_IssuerNameHash = ''dnInter'', oq_IssuerKeyHash = ''bits'', oq_SerialNumber = 7\<rparr>"
  let ?c = "(row ''7'' CertKindLeaf ''2'')\<lparr>RevokedAt := Some 5, RevocationReason := ''superseded''\<rparr>"
  let ?s = "revoked7"
  have cert: "select_certificate (Int_String (oq_SerialNumber ?req)) ?s = Some ?c"
    by (simp add: revoked7_def revoke_rows_def sample_data running)
  have "matchIssuer rev1 [ca_issuer 1 ''Root'', inter1] ?req = Some inter1"
    by (simp add: rev1_def issuerHashes_def inter1_def ca_issuer_def ca_cert_def cn_def)
  moreover have "run_state (Respond Sqlite rev1 [ca_issuer 1 ''Root'', inter1] ''ocsp'') ?s = (Inr ''revoked'', ?s)"
    using cert calculation
    by (simp add: Respond_def rev1_def revoked7_def sample_data running inter1_serial ocsp_answer_def
        revoke_rows_def)
  ultimately show ?thesis
    using revoked_in_ocsp [OF cert, of 5 deps1 "[]" "[]" ?s rev1 "''ocsp''" "[ca_issuer 1 ''Root'', inter1]"
        inter1 Sqlite "''revoked''" ?s]
    by (auto simp: rev1_def inter1_serial row_def State_Monad.return_def)
qed

end
