(* ===== verification/Enrolment.thy ===== *)
theory Enrolment
  imports Issuance
begin

text \<open>
  The ACME enrolment as a whole: nonces that work once, tokens that bind one account each, and
  orders that lead to one certificate each, whatever statements fail on the way.
\<close>

section \<open>What the protocol's bookkeeping leaves alone\<close>

text \<open>Answering with a fresh nonce changes the nonce table, the tapes and nothing else.\<close>

definition core ::
    "sys \<Rightarrow> CertificateRecord list \<times> ClientRoleRecord list \<times> AuditEntry list \<times> ACMEEABTokenRecord list \<times>
     ACMEAccountRecord list \<times> ACMEOrderRecord list \<times> CRLBuilder option \<times> Metrics option" where
  "core s = (certificates s, client_roles s, audit_log s, acme_eab_tokens s, acme_accounts s,
     acme_orders s, s_CRLBuilder s, s_Metrics s)"

lemma core_tapes [simp]:
  "core (s\<lparr>faults := f\<rparr>) = core s" "core (s\<lparr>clock := t\<rparr>) = core s"
  "core (s\<lparr>clock_tape := ts\<rparr>) = core s" "core (s\<lparr>rand_tape := rs\<rparr>) = core s"
  by (simp_all add: core_def)

lemma wp_issueAndAttachNonce [wps]:
  "(\<And>hs t. core t = core s \<Longrightarrow> Q hs t) \<Longrightarrow> wp (issueAndAttachNonce deps) Q s"
  unfolding issueAndAttachNonce_def by (auto simp: core_def intro!: wps)

lemma wp_acmeProblem [wps]:
  "(\<And>resp t. status resp = st \<Longrightarrow> core t = core s \<Longrightarrow> Q resp t) \<Longrightarrow> wp (acmeProblem deps st ty d) Q s"
  unfolding acmeProblem_def by (auto intro!: wps)

lemma wp_serverInternal [wps]:
  "(\<And>resp t. status resp = 500 \<Longrightarrow> core t = core s \<Longrightarrow> Q resp t) \<Longrightarrow> wp (serverInternal deps) Q s"
  unfolding serverInternal_def by (auto intro!: wps)

lemma wp_orderNotReady [wps]:
  "(\<And>resp t. status resp = 403 \<Longrightarrow> core t = core s \<Longrightarrow> Q resp t) \<Longrightarrow> wp (orderNotReady deps) Q s"
  unfolding orderNotReady_def by (auto intro!: wps)

lemma wp_acmeJSON [wps]:
  "(\<And>resp t. status resp = st \<Longrightarrow> rbody resp = Json v \<Longrightarrow> (\<forall>k x. (k, x) \<in> set hs \<longrightarrow> (k, x) \<in> set (headers resp)) \<Longrightarrow>
     core t = core s \<Longrightarrow> Q resp t) \<Longrightarrow> wp (acmeJSON deps st hs v) Q s"
  unfolding acmeJSON_def by (auto simp: writeJSON_def intro!: wps)

lemma wp_randomACMEID [wps]:
  "(\<And>i rs. length i = 32 \<Longrightarrow> Q (Some i) (s\<lparr>rand_tape := rs\<rparr>)) \<Longrightarrow> (\<And>rs. Q None (s\<lparr>rand_tape := rs\<rparr>)) \<Longrightarrow>
   wp randomACMEID Q s"
  unfolding randomACMEID_def by (auto intro!: wps)

text \<open>A request that passed \<open>verifiedJWS\<close> carried a nonce that was on record and in time, and that
  nonce is gone.\<close>

definition nonce_spent :: "backend \<Rightarrow> string \<Rightarrow> sys \<Rightarrow> sys \<Rightarrow> bool" where
  "nonce_spent b n s t \<longleftrightarrow> (\<exists>e. (n, e) \<in> set (acme_nonces s) \<and> enc_of b (clock t) < e) \<and>
     (\<forall>e. (n, e) \<in> set (acme_nonces t) \<longrightarrow> e \<le> enc_of b (clock t))"

lemma wp_verifiedJWS [wps]:
  assumes "\<And>jws t. core t = core s \<Longrightarrow> nonce_spent (d_Store deps) (h_Nonce (j_Header jws)) s t \<Longrightarrow>
      h_URL (j_Header jws) = u \<Longrightarrow> ParseJWS (d_jose deps) (take (2 ^ 20) (q_Body r)) = Inr jws \<Longrightarrow> Q (Inr jws) t"
    and "\<And>p t. status p \<in> {400, 500} \<Longrightarrow> core t = core s \<Longrightarrow> Q (Inl p) t"
  shows "wp (verifiedJWS deps r u) Q s"
  unfolding verifiedJWS_def
  by (auto simp: core_def nonce_spent_def nonce_valid_def readBody_def read_limited_def
      intro!: wps assms split: if_splits option.splits) blast

text \<open>C10. A signed ACME request is accepted only with a nonce that is on record and has not expired, and
  accepting it uses the nonce up: no entry for it that is still valid remains, so that the same
  request is refused when it is replayed. Its \<open>url\<close> header names the resource it was sent to.\<close>

theorem nonce_single_use:
  assumes "run_state (verifiedJWS deps r u) s = (Inr jws, t)"
  shows "h_URL (j_Header jws) = u \<and>
    (\<exists>e. (h_Nonce (j_Header jws), e) \<in> set (acme_nonces s) \<and> enc_of (d_Store deps) (clock t) < e) \<and>
    (\<forall>now. enc_of (d_Store deps) (clock t) \<le> now \<longrightarrow> \<not> nonce_valid (h_Nonce (j_Header jws)) now t)"
proof -
  have "wp (verifiedJWS deps r u) (\<lambda>res t. \<forall>jws. res = Inr jws \<longrightarrow>
      h_URL (j_Header jws) = u \<and> nonce_spent (d_Store deps) (h_Nonce (j_Header jws)) s t) s"
    by (auto intro!: wps)
  from wp_run [OF this assms] show ?thesis
    by (force simp: nonce_spent_def nonce_valid_def)
qed

theorem nonce_single_use_witness:
  "\<exists>jws t. run_state (verifiedJWS deps1 (signed1 ''account'' []) ''https://ca/v1/acme/new-account'') sys1 = (Inr jws, t) \<and>
     \<not> nonce_valid (h_Nonce (j_Header jws)) (rfc3339 (clock t)) t"
proof -
  obtain sig where "ParseJWS jose1 ''account'' = Inr \<lparr>j_Header = \<lparr>h_Alg = ''RS256'', h_Nonce = ''n1'',
      h_URL = ''https://ca/v1/acme/new-account'', h_Kid = [], h_JWK = ''jwk''\<rparr>, j_Payload = ''account'',
      j_signingInput = sig, j_signature = replicate 3 (char_of (0 :: nat))\<rparr>" (is "_ = Inr ?jws")
    by (rule ParseJWS1 [of "''account''"]) (simp_all add: jose1_def)
  then have run: "\<exists>t. run_state (verifiedJWS deps1 (signed1 ''account'' []) ''https://ca/v1/acme/new-account'') sys1 = (Inr ?jws, t)"
    by (simp add: verifiedJWS_def readBody_def read_limited_def signed1_def sample_data running
        now1_def Second_def rfc3339_def Truncate_second_def)
  then obtain t where run: "run_state (verifiedJWS deps1 (signed1 ''account'' []) ''https://ca/v1/acme/new-account'') sys1 = (Inr ?jws, t)"
    by blast
  from nonce_single_use [OF run] run show ?thesis
    by (auto simp: deps1_def enc_of_def)
qed

section \<open>Tokens and accounts\<close>

definition account_of :: "string \<Rightarrow> string \<Rightarrow> string \<Rightarrow> ACMEEABTokenRecord \<Rightarrow> time \<Rightarrow> ACMEAccountRecord" where
  "account_of i thumb jwk tok now = \<lparr>acct_ID = i, acct_JWKThumbprint = thumb, acct_PublicKeyJWK = jwk,
     acct_Role = eab_Role tok, acct_EABKeyID = eab_KeyID tok, acct_CreatedAt = now\<rparr>"

text \<open>\<open>bound_to\<close>: the token was unused and in time, is used now, and the new account has its role.\<close>

definition bound_to ::
    "backend \<Rightarrow> ACMEEABTokenRecord \<Rightarrow> string \<Rightarrow> string \<Rightarrow> string \<Rightarrow> time \<Rightarrow> sys \<Rightarrow> sys \<Rightarrow> bool" where
  "bound_to b tok i thumb jwk now s s' \<longleftrightarrow>
     select_eab_token (eab_KeyID tok) s = Some tok \<and> \<not> eab_Consumed tok \<and>
     claimable (eab_KeyID tok) (enc_of b now) (acme_eab_tokens s) \<and>
     acme_eab_tokens s' = consume_rows (eab_KeyID tok) (enc_of b now) (acme_eab_tokens s) \<and>
     thumb \<notin> acct_JWKThumbprint ` set (acme_accounts s) \<and>
     acme_accounts s' = acme_accounts s @ [acct_row b (account_of i thumb jwk tok now)] \<and>
     certificates s' = certificates s \<and> client_roles s' = client_roles s \<and> acme_orders s' = acme_orders s"

lemma account_of_simps [simp]:
  "acct_ID (account_of i thumb jwk tok now) = i" "acct_JWKThumbprint (account_of i thumb jwk tok now) = thumb"
  "acct_Role (account_of i thumb jwk tok now) = eab_Role tok"
  "acct_EABKeyID (account_of i thumb jwk tok now) = eab_KeyID tok"
  by (simp_all add: account_of_def)

lemma wp_createAccount:
  "wp (createAccount deps r jws thumb tok now) (\<lambda>resp s'. status resp = 201 \<longrightarrow> (\<exists>i.
     thumb \<notin> acct_JWKThumbprint ` set (acme_accounts s) \<and>
     acme_accounts s' = acme_accounts s @ [acct_row (d_Store deps) (account_of i thumb (h_JWK (j_Header jws)) tok now)] \<and>
     acme_eab_tokens s' = acme_eab_tokens s \<and> certificates s' = certificates s \<and>
     client_roles s' = client_roles s \<and> acme_orders s' = acme_orders s)) s"
  unfolding createAccount_def account_of_def [symmetric] by (auto simp: core_def intro!: wps) blast+

lemma eab_token_key: "select_eab_token k s = Some tok \<Longrightarrow> eab_KeyID tok = k"
  by (auto simp: select_eab_token_def dest: find_Some_in)

text \<open>\<open>account_bound\<close>: the binding \<open>eab\<close> over the account's key was signed with the secret of the token.\<close>

definition account_bound :: "Deps \<Rightarrow> JWS \<Rightarrow> string \<Rightarrow> string \<Rightarrow> sys \<Rightarrow> sys \<Rightarrow> bool" where
  "account_bound deps jws thumb eab s s' \<longleftrightarrow>
     (\<exists>eabJWS tok i now. ParseJWS (d_jose deps) eab = Inr eabJWS \<and> j_Payload eabJWS = h_JWK (j_Header jws) \<and>
        h_URL (j_Header eabJWS) = h_URL (j_Header jws) \<and> h_Kid (j_Header eabJWS) = eab_KeyID tok \<and>
        VerifyHMAC (d_jose deps) eabJWS (eab_HMACKey tok) = Inr () \<and>
        bound_to (d_Store deps) tok i thumb (h_JWK (j_Header jws)) now s s')"

lemma account_bound_core:
  "account_bound deps jws thumb eab t s' \<Longrightarrow> core t = core s \<Longrightarrow> account_bound deps jws thumb eab s s'"
  by (fastforce simp: account_bound_def bound_to_def core_def select_eab_token_def)

lemma account_bound_faults [simp]:
  "account_bound deps jws thumb eab (t\<lparr>faults := f\<rparr>) s' = account_bound deps jws thumb eab t s'"
  using account_bound_core [of deps jws thumb eab t s' "t\<lparr>faults := f\<rparr>"]
    account_bound_core [of deps jws thumb eab "t\<lparr>faults := f\<rparr>" s' t] by auto

lemma wp_bindAccount:
  "wp (bindAccount deps r jws thumb eab) (\<lambda>resp s'. status resp = 201 \<longrightarrow>
     account_bound deps jws thumb eab s s') s"
  unfolding bindAccount_def bound_to_def account_bound_def
  by (auto simp: core_def eab_token_key intro!: wps wp_mono [OF wp_createAccount]) (metis eab_token_key)

definition account_created :: "Deps \<Rightarrow> request \<Rightarrow> sys \<Rightarrow> sys \<Rightarrow> bool" where
  "account_created deps r s s' \<longleftrightarrow>
     (\<exists>jws pub thumb tos eab. ParseJWS (d_jose deps) (take (2 ^ 20) (q_Body r)) = Inr jws \<and>
        dec_newAccount (d_json deps) (j_Payload jws) = Inr (tos, eab) \<and>
        JWKPublicKey (d_jose deps) (h_JWK (j_Header jws)) = Inr pub \<and> Verify (d_jose deps) jws pub = Inr () \<and>
        Thumbprint (d_jose deps) pub = Inr thumb \<and> account_bound deps jws thumb eab s s')"

lemma account_createdI:
  "account_bound deps jws thumb eab t s' \<Longrightarrow> core t = core s \<Longrightarrow>
   ParseJWS (d_jose deps) (take 1048576 (q_Body r)) = Inr jws \<Longrightarrow>
   JWKPublicKey (d_jose deps) (h_JWK (j_Header jws)) = Inr pub \<Longrightarrow> Verify (d_jose deps) jws pub = Inr () \<Longrightarrow>
   dec_newAccount (d_json deps) (j_Payload jws) = Inr (tos, eab) \<Longrightarrow>
   Thumbprint (d_jose deps) pub = Inr thumb \<Longrightarrow> account_created deps r s s'"
  unfolding account_created_def by (auto dest: account_bound_core)

lemma wp_handleACMENewAccount:
  "wp (handleACMENewAccount deps r) (\<lambda>resp s'. status resp = 201 \<longrightarrow> account_created deps r s s') s"
  unfolding handleACMENewAccount_def
  by (auto intro!: wps wp_mono [OF wp_bindAccount]) (rule account_createdI; assumption)

lemma bound_to_consequences:
  assumes "bound_to b tok i thumb jwk now s s'" and "schema s"
  shows "select_account_by_thumbprint thumb s' = Some (acct_row b (account_of i thumb jwk tok now))"
    and "\<not> token_consumed (eab_KeyID tok) s" and "token_consumed (eab_KeyID tok) s'"
    and "eab_Role tok \<in> roles_allowed"
proof -
  have "find (\<lambda>r. acct_JWKThumbprint r = thumb) (acme_accounts s) = None"
    using assms(1) by (auto simp: bound_to_def find_None_iff_all)
  then show "select_account_by_thumbprint thumb s' = Some (acct_row b (account_of i thumb jwk tok now))"
    using assms(1) by (simp add: bound_to_def select_account_by_thumbprint_def find_append acct_row_def)
  show "\<not> token_consumed (eab_KeyID tok) s"
    using assms(1) by (simp add: bound_to_def token_consumed_def)
  have "claimable (eab_KeyID tok) (enc_of b now) (acme_eab_tokens s)"
    using assms(1) by (simp add: bound_to_def)
  then obtain x where "find (\<lambda>x. eab_KeyID x = eab_KeyID tok)
      (consume_rows (eab_KeyID tok) (enc_of b now) (acme_eab_tokens s)) = Some (x\<lparr>eab_Consumed := True\<rparr>)"
    using consume_rows_select [OF schema_distinct(2) [OF assms(2)]] by metis
  then show "token_consumed (eab_KeyID tok) s'"
    using assms(1) by (simp add: bound_to_def token_consumed_def select_eab_token_def)
  have "tok \<in> set (acme_eab_tokens s)"
    using assms(1) by (auto simp: bound_to_def select_eab_token_def dest: find_Some_in)
  then show "eab_Role tok \<in> roles_allowed"
    using assms(2) by (simp add: schema_def acme_ok_def)
qed

text \<open>C9. An account that is created (201) is created for a key that signed the request. The payload of the request
  has an external account binding: a signed object that names a token and this URL, whose payload is the account
  key, and whose signature is valid under the secret of that token. The token was unused and is used from now on; and the account
  can be found by the thumbprint of its key and has the role of the token, no other.\<close>

theorem new_account_effect:
  assumes "run_state (handleACMENewAccount deps r) s = (resp, s')" and "status resp = 201" and "schema s"
  shows "\<exists>jws pub tos eab eabJWS tok thumb acct. ParseJWS (d_jose deps) (take (2 ^ 20) (q_Body r)) = Inr jws \<and>
    JWKPublicKey (d_jose deps) (h_JWK (j_Header jws)) = Inr pub \<and> Verify (d_jose deps) jws pub = Inr () \<and>
    dec_newAccount (d_json deps) (j_Payload jws) = Inr (tos, eab) \<and> ParseJWS (d_jose deps) eab = Inr eabJWS \<and>
    h_URL (j_Header eabJWS) = h_URL (j_Header jws) \<and> j_Payload eabJWS = h_JWK (j_Header jws) \<and> h_Kid (j_Header eabJWS) = eab_KeyID tok \<and>
    VerifyHMAC (d_jose deps) eabJWS (eab_HMACKey tok) = Inr () \<and>
    select_eab_token (eab_KeyID tok) s = Some tok \<and> \<not> token_consumed (eab_KeyID tok) s \<and>
    token_consumed (eab_KeyID tok) s' \<and> Thumbprint (d_jose deps) pub = Inr thumb \<and>
    select_account_by_thumbprint thumb s' = Some acct \<and> acct_Role acct = eab_Role tok \<and>
    acct_Role acct \<in> roles_allowed \<and> acct_PublicKeyJWK acct = h_JWK (j_Header jws)"
proof -
  obtain jws pub tos eab eabJWS thumb tok i now where
    J: "ParseJWS (d_jose deps) (take (2 ^ 20) (q_Body r)) = Inr jws"
      "JWKPublicKey (d_jose deps) (h_JWK (j_Header jws)) = Inr pub" "Verify (d_jose deps) jws pub = Inr ()"
      "dec_newAccount (d_json deps) (j_Payload jws) = Inr (tos, eab)" "ParseJWS (d_jose deps) eab = Inr eabJWS"
      "h_URL (j_Header eabJWS) = h_URL (j_Header jws)"
      "Thumbprint (d_jose deps) pub = Inr thumb" "j_Payload eabJWS = h_JWK (j_Header jws)"
      "h_Kid (j_Header eabJWS) = eab_KeyID tok" "VerifyHMAC (d_jose deps) eabJWS (eab_HMACKey tok) = Inr ()"
    and B: "bound_to (d_Store deps) tok i thumb (h_JWK (j_Header jws)) now s s'"
    using wp_run [OF wp_handleACMENewAccount assms(1)] assms(2)
    by (auto simp: account_created_def account_bound_def)
  let ?a = "acct_row (d_Store deps) (account_of i thumb (h_JWK (j_Header jws)) tok now)"
  have "acct_Role ?a = eab_Role tok" "acct_PublicKeyJWK ?a = h_JWK (j_Header jws)"
    by (simp_all add: acct_row_def account_of_def)
  with J B bound_to_consequences [OF B assms(3)] show ?thesis
    by (intro exI [of _ jws] exI [of _ pub] exI [of _ tos] exI [of _ eab] exI [of _ eabJWS] exI [of _ tok] exI [of _ thumb] 
      exI [of _ ?a]) (simp add: bound_to_def)
qed

lemma account_created1: "status (fst (run_state (handleACMENewAccount deps1 (signed1 ''account'' [])) sys1)) = 201"
proof -
  obtain sig where jws: "ParseJWS jose1 ''account'' = Inr \<lparr>j_Header = \<lparr>h_Alg = ''RS256'', h_Nonce = ''n1'',
      h_URL = ''https://ca/v1/acme/new-account'', h_Kid = [], h_JWK = ''jwk''\<rparr>, j_Payload = ''account'',
      j_signingInput = sig, j_signature = replicate 3 (char_of (0 :: nat))\<rparr>"
    by (rule ParseJWS1 [of "''account''"]) (simp_all add: jose1_def)
  obtain sig' where eab: "ParseJWS jose1 ''jwk'' = Inr \<lparr>j_Header = \<lparr>h_Alg = ''HS256'', h_Nonce = [],
      h_URL = ''https://ca/v1/acme/new-account'', h_Kid = ''k1'', h_JWK = []\<rparr>, j_Payload = ''jwk'',
      j_signingInput = sig', j_signature = replicate 3 (char_of (0 :: nat))\<rparr>"
    by (rule ParseJWS1 [of "''jwk''"]) (simp_all add: jose1_def)
  obtain n e where key: "JWKPublicKey jose1 ''jwk'' = Inr (RSAKey n e)"
    by (rule JWK1)
  obtain t where thumb: "Thumbprint jose1 (RSAKey n e) = Inr t"
    by (rule Thumbprint1)
  show ?thesis
    using jws eab key thumb
    by (simp add: handleACMENewAccount_def verifiedJWS_def readBody_def read_limited_def signed1_def sample_data
        running acmeURL_def Verify1 json1_def bindAccount_def VerifyHMAC1 createAccount_def randomACMEID_def
        acmeJSON_def issueAndAttachNonce_def writeJSON_def
        now1_def Second_def rfc3339_def Truncate_second_def)
qed

theorem new_account_effect_witness:
  "status (fst (run_state (handleACMENewAccount deps1 (signed1 ''account'' [])) sys1)) = 201 \<and>
   (\<exists>k. token_consumed k (snd (run_state (handleACMENewAccount deps1 (signed1 ''account'' [])) sys1)) \<and>
      \<not> token_consumed k sys1)"
  using new_account_effect [OF surjective_pairing account_created1 sys1_schema] account_created1 by blast

section \<open>Orders\<close>

lemma wp_resolveACMEAccount [wps]:
  assumes "\<And>acct f. select_account_by_id (acct_ID acct) s = Some acct \<Longrightarrow>
      h_Kid (j_Header jws) = acmeURL deps (''account/'' @ acct_ID acct) \<Longrightarrow>
      (\<exists>pub. JWKPublicKey (d_jose deps) (acct_PublicKeyJWK acct) = Inr pub \<and> Verify (d_jose deps) jws pub = Inr ()) \<Longrightarrow>
      Q (Inr acct) (s\<lparr>faults := f\<rparr>)"
    and "\<And>e f. Q (Inl e) (s\<lparr>faults := f\<rparr>)"
  shows "wp (resolveACMEAccount deps jws) Q s"
proof -
  have refused: "Q (Inl e) s" for e
    using assms(2) [of e "faults s"] by (simp add: faults_eta)
  have id: "acct_ID acct = i" if "select_account_by_id i s = Some acct" for i acct
    using that by (auto simp: select_account_by_id_def dest: find_Some_in)
  have kid: "h_Kid (j_Header jws) = acmeURL deps (''account/'' @ TrimPrefix (h_Kid (j_Header jws)) (acmeURL deps ''account/''))"
    if "HasPrefix (h_Kid (j_Header jws)) (acmeURL deps ''account/'')"
    using that append_take_drop_id [of "length (acmeURL deps ''account/'')" "h_Kid (j_Header jws)"]
    by (simp add: HasPrefix_def TrimPrefix_def acmeURL_def)
  show ?thesis
    unfolding resolveACMEAccount_def Let_def using id kid
    by (auto intro!: wps assms refused)
qed

lemma wp_getOrderOr404 [wps]:
  assumes "\<And>ord f. select_order i s = Some ord \<Longrightarrow> order_ID ord = i \<Longrightarrow> Q (Inr ord) (s\<lparr>faults := f\<rparr>)"
    and "\<And>p t. status p \<in> {404, 500} \<Longrightarrow> core t = core s \<Longrightarrow> Q (Inl p) t"
  shows "wp (getOrderOr404 deps i d) Q s"
proof -
  have "order_ID ord = i" if "select_order i s = Some ord" for ord
    using that by (auto simp: select_order_def dest: find_Some_in)
  then show ?thesis
    unfolding getOrderOr404_def by (auto intro!: wps assms)
qed

lemma wp_account_problem [wps]:
  "(\<And>resp t. status resp = 401 \<Longrightarrow> core t = core s \<Longrightarrow> Q resp t) \<Longrightarrow> wp (account_problem deps e) Q s"
  unfolding account_problem_def
  by (cases e) (auto intro!: wps split: store_error.splits)

subsection \<open>An order on the sample installation\<close>

definition order1 :: ACMEOrderRecord where
  "order1 = \<lparr>order_ID = ''o1'', order_AccountID = ''a1'', order_Identifier = ''app'',
     order_Status = ACMEOrderStatusReady, order_CertSerial = [], order_CreatedAt = 0\<rparr>"

definition sys2 :: sys where
  "sys2 = sys1\<lparr>acme_accounts := [\<lparr>acct_ID = ''a1'', acct_JWKThumbprint = ''t'', acct_PublicKeyJWK = ''jwk'',
       acct_Role = RoleManager, acct_EABKeyID = ''k1'', acct_CreatedAt = 0\<rparr>],
     acme_orders := [order1]\<rparr>"

definition finalize1 :: request where "finalize1 = signed1 ''finalize'' ''o1''"

lemma now1_in_time: "rfc3339 now1 < 2000 * Second" "n_CommonName (cn x) = x"
  by (simp_all add: now1_def Second_def rfc3339_def Truncate_second_def cn_def)

lemma sys2_schema: "schema sys2"
  using sys1_schema
  by (simp add: schema_def schema_parts sys2_def sys1_def order1_def roles_allowed_def)

lemma finalize1_ok:
  "status (fst (run_state (handleACMEFinalize deps1 finalize1) sys2)) = 200"
  "certificates (snd (run_state (handleACMEFinalize deps1 finalize1) sys2)) \<noteq> certificates sys2"
proof -
  obtain sig where "ParseJWS jose1 ''finalize'' = Inr \<lparr>j_Header = \<lparr>h_Alg = ''RS256'', h_Nonce = ''n1'',
      h_URL = ''https://ca/v1/acme/order/o1/finalize'', h_Kid = ''https://ca/v1/acme/account/a1'', h_JWK = []\<rparr>,
      j_Payload = ''finalize'', j_signingInput = sig, j_signature = replicate 3 (char_of (0 :: nat))\<rparr>"
    by (rule ParseJWS1 [of "''finalize''"]) (simp_all add: jose1_def)
  moreover obtain n e where "JWKPublicKey jose1 ''jwk'' = Inr (RSAKey n e)"
    by (rule JWK1)
  ultimately have run: "status (fst (run_state (handleACMEFinalize deps1 finalize1) sys2)) = 200 \<and>
      certificates (snd (run_state (handleACMEFinalize deps1 finalize1) sys2)) \<noteq> certificates sys2"
    by (simp add: handleACMEFinalize_def finalize1_def verifiedJWS_def readBody_def read_limited_def signed1_def
        sys2_def order1_def sample_data running acmeURL_def resolveACMEAccount_def HasPrefix_def TrimPrefix_def
        Verify1 getOrderOr404_def finalizeReady_def json1_def b64_roundtrip issuing_sample
        finalizeClaimed_def issueLeafCertificate_def assignRoleOrRevoke_def count_issued_def
        acmeJSON_def issueAndAttachNonce_def writeJSON_def ACMEOrderStatusReady_def
        ACMEOrderStatusProcessing_def ACMEOrderStatusValid_def now1_in_time)
  then show "status (fst (run_state (handleACMEFinalize deps1 finalize1) sys2)) = 200"
    "certificates (snd (run_state (handleACMEFinalize deps1 finalize1) sys2)) \<noteq> certificates sys2"
    by blast+
qed

subsection \<open>An order leads to one certificate\<close>

text \<open>Whatever happens after the claim, a finalize request that changes the ledger of certificates is
  the one that took the order.\<close>

lemma order_taken_orders: "acme_orders t = acme_orders s \<Longrightarrow> order_taken i t = order_taken i s"
  by (simp add: order_taken_def select_order_def)

lemma order_taken_claimed:
  assumes "distinct (map order_ID (acme_orders s))" and "in_status i ACMEOrderStatusReady (acme_orders s)"
  shows "\<not> order_taken i s"
    and "order_taken i (s\<lparr>faults := f, acme_orders :=
      status_rows i ACMEOrderStatusReady ACMEOrderStatusProcessing x (acme_orders s)\<rparr>)"
proof -
  obtain r where "order_Status r = ACMEOrderStatusReady" "find (\<lambda>x. order_ID x = i) (acme_orders s) = Some r"
    "find (\<lambda>x. order_ID x = i) (status_rows i ACMEOrderStatusReady ACMEOrderStatusProcessing x (acme_orders s)) =
       Some (r\<lparr>order_Status := ACMEOrderStatusProcessing, order_CertSerial := x\<rparr>)"
    using status_rows_select [OF assms] by metis
  then show "\<not> order_taken i s" "order_taken i (s\<lparr>faults := f, acme_orders :=
      status_rows i ACMEOrderStatusReady ACMEOrderStatusProcessing x (acme_orders s)\<rparr>)"
    by (simp_all add: order_taken_def select_order_def ACMEOrderStatusReady_def ACMEOrderStatusProcessing_def)
qed

definition issues_only_by_taking :: "string \<Rightarrow> sys \<Rightarrow> sys \<Rightarrow> bool" where
  "issues_only_by_taking i s s' \<longleftrightarrow> certificates s' = certificates s \<or> (\<not> order_taken i s \<and> order_taken i s')"

lemma wp_finalizeReady_once:
  assumes "distinct (map order_ID (acme_orders s))"
  shows "wp (finalizeReady deps jws acct ord) (\<lambda>_ s'. issues_only_by_taking (order_ID ord) s s') s"
proof -
  have "wp (finalizeClaimed deps acct ord csr) (\<lambda>_ s'. issues_only_by_taking (order_ID ord) s s')
      (s\<lparr>faults := f, acme_orders := status_rows (order_ID ord) ACMEOrderStatusReady
        ACMEOrderStatusProcessing x (acme_orders s)\<rparr>)"
    if "in_status (order_ID ord) ACMEOrderStatusReady (acme_orders s)" for csr f x
    using order_taken_claimed [OF assms that] order_taken_stays
    by (intro wp_mono [OF wp_state_io_rel [OF keeps_finalizeClaimed]])
      (blast intro: issues_only_by_taking_def [THEN iffD2])
  then show ?thesis
    unfolding finalizeReady_def
    by (auto simp: core_def issues_only_by_taking_def [of _ s] intro!: wps)
qed

lemma issues_core:
  "core t = core s \<Longrightarrow> issues_only_by_taking i t s' \<Longrightarrow> issues_only_by_taking i s s'"
  by (auto simp: issues_only_by_taking_def core_def order_taken_def select_order_def)

lemma wp_handleACMEFinalize_once:
  assumes "distinct (map order_ID (acme_orders s))"
  shows "wp (handleACMEFinalize deps r) (\<lambda>_ s'. issues_only_by_taking (q_PathValue r) s s') s"
proof -
  have done_already: "issues_only_by_taking (q_PathValue r) s s'" if "core s' = core s" for s'
    using that by (simp add: issues_only_by_taking_def core_def)
  have "wp (finalizeReady deps jws acct ord) (\<lambda>_ s'. issues_only_by_taking (q_PathValue r) s s') t"
    if "core t = core s" and "order_ID ord = q_PathValue r" for jws acct ord t
  proof (rule wp_mono [OF wp_finalizeReady_once])
    show "distinct (map order_ID (acme_orders t))"
      using that(1) assms by (simp add: core_def)
    show "issues_only_by_taking (order_ID ord) t s' \<Longrightarrow> issues_only_by_taking (q_PathValue r) s s'" for s'
      using issues_core [OF that(1)] that(2) by simp
  qed
  with done_already show ?thesis
    unfolding handleACMEFinalize_def by (auto intro!: wps)
qed

text \<open>C8. No order is ever finalized twice: if one finalize request for an order added to or changed the
  ledger of certificates, then after any further requests another finalize request for the
  same order leaves the ledger as it finds it, even if the first one failed half way.\<close>

theorem no_double_issuance:
  assumes "schema s" and "run_state (handleACMEFinalize deps r) s = (resp, s1)"
    and "certificates s1 \<noteq> certificates s" and "run_state (serve_all deps rs) s1 = (resps, s2)"
    and "q_PathValue r' = q_PathValue r" and "run_state (handleACMEFinalize deps r') s2 = (resp', s3)"
  shows "certificates s3 = certificates s2"
proof -
  have le: "ledger_le s s1" "ledger_le s1 s2"
    using keeps_handleACMEFinalize keeps_serve_all assms(2,4) by (blast dest: state_io_relD)+
  then have "schema s2"
    using assms(1) by (simp add: ledger_le_def)
  have "order_taken (q_PathValue r) s1"
    using wp_run [OF wp_handleACMEFinalize_once assms(2)] schema_distinct(5) [OF assms(1)] assms(3)
    by (auto simp: issues_only_by_taking_def)
  then have "order_taken (q_PathValue r) s2"
    using le(2) by (rule order_taken_stays [rotated])
  then show ?thesis
    using wp_run [OF wp_handleACMEFinalize_once assms(6)] schema_distinct(5) [OF \<open>schema s2\<close>] assms(5)
    by (auto simp: issues_only_by_taking_def)
qed

theorem no_double_issuance_witness:
  "let (resp, s1) = run_state (handleACMEFinalize deps1 finalize1) sys2;
       (resp', s2) = run_state (handleACMEFinalize deps1 finalize1) s1
   in certificates s1 \<noteq> certificates sys2 \<and> certificates s2 = certificates s1"
  using no_double_issuance [OF sys2_schema surjective_pairing finalize1_ok(2), of "[]" "[]" _ finalize1, OF _ _ surjective_pairing]
    finalize1_ok(2)
  by (simp add: case_prod_beta State_Monad.return_def)

subsection \<open>What a finalized order holds\<close>

lemma status_rows_none: "\<not> in_status i from rows \<Longrightarrow> status_rows i from to x rows = rows"
  by (auto simp: in_status_def status_rows_def intro!: update_where_none)

text \<open>\<open>fulfilled\<close>: the order went from ready to valid, with the certificate issued to the account.\<close>

definition fulfilled ::
    "Deps \<Rightarrow> ACMEAccountRecord \<Rightarrow> ACMEOrderRecord \<Rightarrow> CertificateRequest \<Rightarrow> CertificateRecord \<Rightarrow> sys \<Rightarrow> sys \<Rightarrow> bool" where
  "fulfilled deps acct ord csr rec s s' \<longleftrightarrow>
     enrolled_as deps (csr_Subject csr) (csr_PublicKey csr) (csr_DNSNames csr) (''acme:'' @ acct_ID acct)
       ''acme-issue'' (order_ID ord) (acct_Role acct) rec s s' \<and>
     acme_orders s' = status_rows (order_ID ord) ACMEOrderStatusProcessing ACMEOrderStatusValid (Serial rec)
       (acme_orders s)"

lemma wp_finalizeClaimed:
  assumes "x509_faithful (d_pki deps)"
  shows "wp (finalizeClaimed deps acct ord csr) (\<lambda>resp s'. status resp = 200 \<longrightarrow>
    (\<exists>rec. fulfilled deps acct ord csr rec s s')) s"
proof -
  have "\<exists>rec. fulfilled deps acct ord csr rec s s'"
    if "leaf_row deps (WithIssuerURLs Default (d_PublicBaseURL deps) (EnableRevocation (d_ModuleConfig deps)))
        (csr_Subject csr) (csr_PublicKey csr) (csr_DNSNames csr) now rec"
      "Serial rec \<notin> Serial ` set (certificates s)"
      "audited (''acme:'' @ acct_ID acct) ''acme-issue'' (Serial rec) (order_ID ord) e"
      "audit_log s' = audit_log s @ [e]" "certificates s' = certificates s @ [cert_row (d_Store deps) rec]"
      "client_roles s' = assign_rows \<lparr>role_CertSerial = Serial rec, role_Role = acct_Role acct, role_CreatedAt = t\<rparr>
        (client_roles s)"
      "acme_orders s' = status_rows (order_ID ord) ACMEOrderStatusProcessing ACMEOrderStatusValid (Serial rec)
        (acme_orders s)" for now rec e t s'
    using enrolled_asI [OF that(1-6)] that(7) by (auto simp: fulfilled_def)
  then show ?thesis
    unfolding finalizeClaimed_def count_issued_def using assms
    by (auto simp: Let_def core_def status_rows_none
        intro!: wps wp_issueLeafCertificate wp_assignRoleOrRevoke)
qed

text \<open>The CSR that the payload of a finalize request carries.\<close>

definition asked_csr :: "Deps \<Rightarrow> JWS \<Rightarrow> CertificateRequest \<Rightarrow> bool" where
  "asked_csr deps jws csr \<longleftrightarrow> (\<exists>payload_CSR der. dec_finalize (d_json deps) (j_Payload jws) = Inr payload_CSR \<and>
     b64_DecodeString payload_CSR = Some der \<and> ParseCSR (d_pki deps) der = Inr csr)"

definition finalized ::
    "Deps \<Rightarrow> JWS \<Rightarrow> ACMEAccountRecord \<Rightarrow> ACMEOrderRecord \<Rightarrow> sys \<Rightarrow> sys \<Rightarrow> bool" where
  "finalized deps jws acct ord s s' \<longleftrightarrow> in_status (order_ID ord) ACMEOrderStatusReady (acme_orders s) \<and>
     (\<exists>csr rec. asked_csr deps jws csr \<and> n_CommonName (csr_Subject csr) = order_Identifier ord \<and>
        enrolled_as deps (csr_Subject csr) (csr_PublicKey csr) (csr_DNSNames csr) (''acme:'' @ acct_ID acct)
          ''acme-issue'' (order_ID ord) (acct_Role acct) rec s s' \<and>
        acme_orders s' = status_rows (order_ID ord) ACMEOrderStatusProcessing ACMEOrderStatusValid (Serial rec)
          (status_rows (order_ID ord) ACMEOrderStatusReady ACMEOrderStatusProcessing (order_CertSerial ord)
            (acme_orders s)))"

lemma enrolled_as_orders:
  "enrolled_as deps sub pub dns actor act det role rec (s\<lparr>faults := f, acme_orders := os\<rparr>) s' =
   enrolled_as deps sub pub dns actor act det role rec s s'"
  by (simp add: enrolled_as_def issued_as_def)

lemma wp_finalizeReady:
  assumes "x509_faithful (d_pki deps)"
  shows "wp (finalizeReady deps jws acct ord) (\<lambda>resp s'. status resp = 200 \<longrightarrow> finalized deps jws acct ord s s') s"
proof -
  have "wp (finalizeClaimed deps acct ord csr) (\<lambda>resp s'. status resp = 200 \<longrightarrow> finalized deps jws acct ord s s')
      (s\<lparr>faults := f, acme_orders := status_rows (order_ID ord) ACMEOrderStatusReady
        ACMEOrderStatusProcessing (order_CertSerial ord) (acme_orders s)\<rparr>)"
    if "in_status (order_ID ord) ACMEOrderStatusReady (acme_orders s)"
      and "n_CommonName (csr_Subject csr) = order_Identifier ord" and "asked_csr deps jws csr" for csr f
    using that
    by (intro wp_mono [OF wp_finalizeClaimed [OF assms]])
      (auto simp: finalized_def fulfilled_def enrolled_as_orders)
  then show ?thesis
    unfolding finalizeReady_def by (auto simp: asked_csr_def intro!: wps)
qed

lemma finalized_core:
  "core t = core s \<Longrightarrow> finalized deps jws acct ord t s' \<Longrightarrow> finalized deps jws acct ord s s'"
  by (auto simp: finalized_def core_def enrolled_as_def issued_as_def)

text \<open>The account that signed the request, as far as the ledger and the keys say.\<close>

definition signed_by_account :: "Deps \<Rightarrow> request \<Rightarrow> JWS \<Rightarrow> ACMEAccountRecord \<Rightarrow> sys \<Rightarrow> bool" where
  "signed_by_account deps r jws acct s \<longleftrightarrow> select_account_by_id (acct_ID acct) s = Some acct \<and>
     ParseJWS (d_jose deps) (take (2 ^ 20) (q_Body r)) = Inr jws \<and>
     (\<exists>pub. JWKPublicKey (d_jose deps) (acct_PublicKeyJWK acct) = Inr pub \<and> Verify (d_jose deps) jws pub = Inr ())"

definition finalize_ok :: "Deps \<Rightarrow> request \<Rightarrow> sys \<Rightarrow> sys \<Rightarrow> bool" where
  "finalize_ok deps r s s' \<longleftrightarrow> (\<exists>jws acct ord.
     signed_by_account deps r jws acct s \<and> select_order (q_PathValue r) s = Some ord \<and>
     order_ID ord = q_PathValue r \<and> order_AccountID ord = acct_ID acct \<and>
     (if order_Status ord = ACMEOrderStatusValid then certificates s' = certificates s
      else finalized deps jws acct ord s s'))"

lemma finalize_okI:
  assumes "select_account_by_id (acct_ID acct) t = Some acct" and "core t = core s"
    and "ParseJWS (d_jose deps) (take 1048576 (q_Body r)) = Inr jws"
    and "\<exists>pub. JWKPublicKey (d_jose deps) (acct_PublicKeyJWK acct) = Inr pub \<and> Verify (d_jose deps) jws pub = Inr ()"
    and "select_order (q_PathValue r) t = Some ord" and "order_ID ord = q_PathValue r"
    and "order_AccountID ord = acct_ID acct"
    and "order_Status ord = ACMEOrderStatusValid \<and> core s' = core t \<or>
      order_Status ord \<noteq> ACMEOrderStatusValid \<and> finalized deps jws acct ord t s'"
  shows "finalize_ok deps r s s'"
proof -
  have "select_order (q_PathValue r) s = Some ord" "signed_by_account deps r jws acct s"
    using assms(1-5) by (auto simp: core_def select_order_def select_account_by_id_def signed_by_account_def)
  with assms finalized_core [OF assms(2)] show ?thesis
    unfolding finalize_ok_def by (intro exI [of _ jws] exI [of _ acct] exI [of _ ord]) (auto simp: core_def)
qed

lemma finalized_faults [simp]: "finalized deps jws acct ord (t\<lparr>faults := f\<rparr>) s' = finalized deps jws acct ord t s'"
  using finalized_core [of "t\<lparr>faults := f\<rparr>" t deps jws acct ord s'] finalized_core [of t "t\<lparr>faults := f\<rparr>" deps jws acct ord s']
  by auto

lemma wp_handleACMEFinalize:
  assumes "x509_faithful (d_pki deps)"
  shows "wp (handleACMEFinalize deps r) (\<lambda>resp s'. status resp = 200 \<longrightarrow> finalize_ok deps r s s') s"
  unfolding handleACMEFinalize_def
  by (auto intro!: wps wp_mono [OF wp_finalizeReady [OF assms]])
    (erule finalize_okI; (assumption | blast | auto simp: ACMEOrderStatusReady_def ACMEOrderStatusValid_def))+

lemma finalized_order:
  assumes "finalized deps jws acct ord s s'" and "select_order (order_ID ord) s = Some ord" and "schema s"
  shows "\<exists>csr rec. asked_csr deps jws csr \<and> n_CommonName (csr_Subject csr) = order_Identifier ord \<and>
    enrolled_as deps (csr_Subject csr) (csr_PublicKey csr) (csr_DNSNames csr) (''acme:'' @ acct_ID acct)
      ''acme-issue'' (order_ID ord) (acct_Role acct) rec s s' \<and>
    select_order (order_ID ord) s' = Some (ord\<lparr>order_Status := ACMEOrderStatusValid, order_CertSerial := Serial rec\<rparr>)"
proof -
  obtain csr rec where R: "asked_csr deps jws csr" "in_status (order_ID ord) ACMEOrderStatusReady (acme_orders s)"
    "n_CommonName (csr_Subject csr) = order_Identifier ord"
    "enrolled_as deps (csr_Subject csr) (csr_PublicKey csr) (csr_DNSNames csr) (''acme:'' @ acct_ID acct)
      ''acme-issue'' (order_ID ord) (acct_Role acct) rec s s'"
    "acme_orders s' = status_rows (order_ID ord) ACMEOrderStatusProcessing ACMEOrderStatusValid (Serial rec)
      (status_rows (order_ID ord) ACMEOrderStatusReady ACMEOrderStatusProcessing (order_CertSerial ord) (acme_orders s))"
    using assms(1) by (auto simp: finalized_def)
  have "order_Status ord = ACMEOrderStatusReady"
    using status_rows_select [OF schema_distinct(5) [OF assms(3)] R(2)] assms(2)
    by (metis option.inject select_order_def)
  then have "select_order (order_ID ord) s' = Some (ord\<lparr>order_Status := ACMEOrderStatusValid, order_CertSerial := Serial rec\<rparr>)"
    using assms(2) R(5) by (simp add: select_order_def status_rows_def find_update_where)
  with R show ?thesis by blast
qed

text \<open>C32. A finalize request that is answered 200 was signed with the key of the account that owns the
  order. Either the order was valid before, and no certificate is issued; or a certificate is
  issued for the CSR in the request's payload, whose common name is the one the order was placed for, it gets the role of the account, and the
  order is valid from now on and names that certificate.\<close>

theorem finalize_effect:
  assumes "x509_faithful (d_pki deps)" and "schema s"
    and "run_state (handleACMEFinalize deps r) s = (resp, s')" and "status resp = 200"
  shows "\<exists>jws acct ord. signed_by_account deps r jws acct s \<and> select_order (q_PathValue r) s = Some ord \<and>
    order_AccountID ord = acct_ID acct \<and>
    (if order_Status ord = ACMEOrderStatusValid then certificates s' = certificates s
     else \<exists>csr rec. asked_csr deps jws csr \<and> n_CommonName (csr_Subject csr) = order_Identifier ord \<and>
       enrolled_as deps (csr_Subject csr) (csr_PublicKey csr) (csr_DNSNames csr) (''acme:'' @ acct_ID acct)
         ''acme-issue'' (order_ID ord) (acct_Role acct) rec s s' \<and>
       select_order (q_PathValue r) s' =
         Some (ord\<lparr>order_Status := ACMEOrderStatusValid, order_CertSerial := Serial rec\<rparr>))"
proof -
  obtain jws acct ord where "signed_by_account deps r jws acct s" "select_order (q_PathValue r) s = Some ord"
    "order_ID ord = q_PathValue r" "order_AccountID ord = acct_ID acct"
    "if order_Status ord = ACMEOrderStatusValid then certificates s' = certificates s
     else finalized deps jws acct ord s s'"
    using wp_run [OF wp_handleACMEFinalize [OF assms(1)] assms(3)] assms(4) by (auto simp: finalize_ok_def)
  with finalized_order [of deps jws acct ord s s'] assms(2) show ?thesis
    by (intro exI [of _ jws] exI [of _ acct] exI [of _ ord]) auto
qed

theorem finalize_effect_witness:
  "status (fst (run_state (handleACMEFinalize deps1 finalize1) sys2)) = 200 \<and>
   (\<exists>jws acct. signed_by_account deps1 finalize1 jws acct sys2)"
proof -
  have "x509_faithful (d_pki deps1)"
    by (simp add: deps1_def x509_pki1)
  from finalize_effect [OF this sys2_schema surjective_pairing finalize1_ok(1)] finalize1_ok(1) show ?thesis
    by blast
qed

end
