(* ===== verification/Datastore.thy ===== *)
theory Datastore
  imports Enrolment
begin

text \<open>
  What the datastore promises its callers, for SQLite and PostgreSQL alike: what was written can be
  read back after anything the service does in between, and a claim on a row (a revocation, a
  token, an order) is won at most once, however the statements of concurrent requests interleave.
  \<open>ledger_le\<close> stands for any such interleaving: every statement moves along it.
\<close>

section \<open>Reading back\<close>

text \<open>A certificate that was created can be read by its serial ever after. What is read is what was
  written, with times as the backend keeps them, except that it may have been revoked meanwhile.\<close>

theorem certificate_read_back:
  assumes "run_state (Certificates_Create b r) s = (Inr (), t)" and "ledger_le t u" and "faults u = []"
  shows "\<exists>r'. fst (run_state (Certificates_GetBySerial b (Serial r)) u) = Inr r' \<and> cert_le (cert_row b r) r'"
  by (rule certs.read_back [OF assms])

theorem certificate_read_back_witness:
  "\<exists>t. run_state (Certificates_Create Sqlite (row ''9'' CertKindLeaf ''2'')) sys1 = (Inr (), t) \<and>
     (\<exists>r'. fst (run_state (Certificates_GetBySerial Sqlite ''9'') t) = Inr r')"
proof -
  let ?r = "row ''9'' CertKindLeaf ''2''"
  obtain t where t: "run_state (Certificates_Create Sqlite ?r) sys1 = (Inr (), t)" "faults t = []"
    by (simp add: sample_data running)
  from certificate_read_back [OF t(1) ledger.R_refl t(2)] t(1) show ?thesis
    by (auto simp: row_def)
qed

text \<open>An enrolment token that was created can be read by its key identifier ever after, with its
  secret, its role and its expiry as the backend keeps times; at most it has been consumed.\<close>

theorem token_read_back:
  assumes "run_state (ACMEEABTokens_Create b r) s = (Inr (), t)" and "ledger_le t u" and "faults u = []"
  shows "\<exists>r'. fst (run_state (ACMEEABTokens_Get b (eab_KeyID r)) u) = Inr r' \<and>
    eab_HMACKey r' = eab_HMACKey r \<and> eab_Role r' = eab_Role r \<and> eab_ExpiresAt r' = enc_of b (eab_ExpiresAt r)"
  using eabs.read_back [OF assms] by (auto simp: eab_le_def eab_row_def)

definition token2 :: ACMEEABTokenRecord where
  "token2 = \<lparr>eab_KeyID = ''k2'', eab_HMACKey = ''s2'', eab_Role = RoleAdmin, eab_CreatedAt = 0,
     eab_ExpiresAt = 9 * Second, eab_Consumed = False\<rparr>"

theorem token_read_back_witness:
  "\<exists>t r'. run_state (ACMEEABTokens_Create Sqlite token2) sys1 = (Inr (), t) \<and>
     fst (run_state (ACMEEABTokens_Get Sqlite (eab_KeyID token2)) t) = Inr r' \<and> eab_Role r' = eab_Role token2"
proof -
  obtain t where t: "run_state (ACMEEABTokens_Create Sqlite token2) sys1 = (Inr (), t)" "faults t = []"
    by (simp add: token2_def sample_data running)
  from token_read_back [OF t(1) ledger.R_refl t(2)] t(1) show ?thesis by blast
qed

text \<open>An ACME order that was created can be read by its identifier ever after: account, identifier
  and creation time stay; the status only moves forward.\<close>

theorem order_read_back:
  assumes "run_state (ACMEOrders_Create b r) s = (Inr (), t)" and "ledger_le t u" and "faults u = []"
  shows "\<exists>r'. fst (run_state (ACMEOrders_Get b (order_ID r)) u) = Inr r' \<and> order_le (order_row b r) r'"
  by (rule orders.read_back [OF assms])

theorem order_read_back_witness:
  "\<exists>t r'. run_state (ACMEOrders_Create Sqlite (order1\<lparr>order_ID := ''o2''\<rparr>)) sys2 = (Inr (), t) \<and>
     fst (run_state (ACMEOrders_Get Sqlite ''o2'') t) = Inr r'"
proof -
  let ?r = "order1\<lparr>order_ID := ''o2''\<rparr>"
  obtain t where t: "run_state (ACMEOrders_Create Sqlite ?r) sys2 = (Inr (), t)" "faults t = []"
    by (simp add: sys2_def order1_def sample_data running)
  from order_read_back [OF t(1) ledger.R_refl t(2)] t(1) show ?thesis
    by auto
qed

section \<open>Claims\<close>

text \<open>An enrolment token is claimed at most once: after one successful \<open>MarkConsumed\<close>, whatever
  happens in between, another one for the same token does not succeed.\<close>

theorem token_claimed_once:
  assumes "schema s" and "run_state (ACMEEABTokens_MarkConsumed b k t1) s = (Inr (), s1)"
    and "ledger_le s1 s2" and "run_state (ACMEEABTokens_MarkConsumed b k t2) s2 = (res, s3)"
  shows "res \<noteq> Inr ()"
proof
  assume won: "res = Inr ()"
  have "token.history b s ([] @ [k]) s1"
    by (rule token.history.win [OF token.history.start assms(2)]) simp
  then have "token.history b s ([] @ [k]) s2"
    by (rule token.history.move [OF _ assms(3)])
  then have "token.history b s (([] @ [k]) @ [k]) s3"
    using won by (rule token.history.win [OF _ assms(4)])
  from token.at_most_once [OF this assms(1)] show False by simp
qed

theorem token_claimed_once_witness:
  "\<exists>s1. run_state (ACMEEABTokens_MarkConsumed Sqlite ''k1'' now1) sys1 = (Inr (), s1) \<and>
     fst (run_state (ACMEEABTokens_MarkConsumed Sqlite ''k1'' now1) s1) \<noteq> Inr ()"
proof -
  obtain s1 where s1: "run_state (ACMEEABTokens_MarkConsumed Sqlite ''k1'' now1) sys1 = (Inr (), s1)"
    by (simp add: sample_data running now1_def Second_def rfc3339_def Truncate_second_def)
  from token_claimed_once [OF sys1_schema this ledger.R_refl surjective_pairing] s1 show ?thesis
    by blast
qed

text \<open>An ACME order is claimed for finalization at most once: of all the compare-and-swaps from
  ready to processing, by whatever interleaving of requests, one wins.\<close>

theorem order_claimed_once:
  assumes "schema s"
    and "run_state (ACMEOrders_UpdateStatus b i ACMEOrderStatusReady ACMEOrderStatusProcessing x) s = (Inr True, s1)"
    and "ledger_le s1 s2"
    and "run_state (ACMEOrders_UpdateStatus b i ACMEOrderStatusReady ACMEOrderStatusProcessing y) s2 = (res, s3)"
  shows "res \<noteq> Inr True"
proof
  assume won: "res = Inr True"
  have "order.history b s ([] @ [i]) s1"
    by (rule order.history.win [OF order.history.start assms(2)]) simp
  then have "order.history b s ([] @ [i]) s2"
    by (rule order.history.move [OF _ assms(3)])
  then have "order.history b s (([] @ [i]) @ [i]) s3"
    using won by (rule order.history.win [OF _ assms(4)])
  from order.at_most_once [OF this assms(1)] show False by simp
qed

theorem order_claimed_once_witness:
  "\<exists>s1. run_state (ACMEOrders_UpdateStatus Sqlite ''o1'' ACMEOrderStatusReady ACMEOrderStatusProcessing []) sys2 =
       (Inr True, s1) \<and>
     fst (run_state (ACMEOrders_UpdateStatus Sqlite ''o1'' ACMEOrderStatusReady ACMEOrderStatusProcessing []) s1) \<noteq> Inr True"
proof -
  obtain s1 where s1: "run_state (ACMEOrders_UpdateStatus Sqlite ''o1'' ACMEOrderStatusReady
      ACMEOrderStatusProcessing []) sys2 = (Inr True, s1)"
    by (simp add: sys2_def order1_def sample_data running)
  from order_claimed_once [OF sys2_schema this ledger.R_refl surjective_pairing] s1 show ?thesis
    by blast
qed

section \<open>The two backends\<close>

text \<open>Revoking through PostgreSQL, which updates first and looks the certificate up only when
  nothing was updated, gives the same result and the same tables as revoking through SQLite,
  which looks it up first.\<close>

theorem backends_revoke_alike:
  assumes "schema w" and "faults w = []"
  shows "run_state (pg_Certificates_Revoke rfc3339 serial reason at) w =
    run_state (sqlite_Certificates_Revoke serial reason at) w"
  by (rule revoke_backends [OF assms])

theorem backends_revoke_alike_witness:
  "run_state (pg_Certificates_Revoke rfc3339 ''8'' ''superseded'' 5) sys1 =
   run_state (sqlite_Certificates_Revoke ''8'' ''superseded'' 5) sys1"
  using backends_revoke_alike [OF sys1_schema] by (simp add: sys1_def)

end
