(* ===== verification/Modules.thy ===== *)
theory Modules
  imports Datastore
begin

text \<open>
  What the parts around the ledger promise: the time-stamp authority, the key store, the profile
  registry, the certificate builder, the revocation list and the JWK codec.
\<close>

section \<open>Time stamps\<close>

lemma wp_Respond_forward:
  "wp (Respond_ts T r raw) (\<lambda>(res, r') _. rs_lastGenTime r \<le> rs_lastGenTime r' \<and>
     (whole (rs_lastGenTime r) \<longrightarrow> whole (rs_lastGenTime r')) \<and>
     (\<forall>resp. res = Inr resp \<longrightarrow> rs_lastGenTime r < rs_lastGenTime r' \<and>
        (\<exists>ts c sg. CreateResponseWithOpts T ts c sg = Some resp \<and> tst_Time ts = rs_lastGenTime r'))) w"
  unfolding Respond_ts_def
  by (auto simp: Let_def intro!: wps wp_mono [OF snapshot_forward] split: option.splits) force+

text \<open>The responder over a run of the service: requests, whatever they are, whatever the clock says and whether or not
  signing succeeds, and rotations, in any order. \<open>grants T r resps r'\<close> collects the tokens that were granted on
  the way.\<close>

inductive grants :: "tsa_prims \<Rightarrow> Responder \<Rightarrow> string list \<Rightarrow> Responder \<Rightarrow> bool" for T r where
  idle: "grants T r [] r"
| refused: "grants T r resps r1 \<Longrightarrow> run_state (Respond_ts T r1 raw) (w :: sys) = ((Inl e, r2), w') \<Longrightarrow>
    grants T r resps r2"
| granted: "grants T r resps r1 \<Longrightarrow> run_state (Respond_ts T r1 raw) (w :: sys) = ((Inr resp, r2), w') \<Longrightarrow>
    grants T r (resps @ [resp]) r2"
| rotate: "grants T r resps r1 \<Longrightarrow> grants T r resps (Rotate iss r1)"

text \<open>What is relied on of the library that encodes tokens: the time that is read from a token, which is in whole
  seconds, is the time it was made with.\<close>

definition tokens_tell_time :: "tsa_prims \<Rightarrow> (string \<Rightarrow> int) \<Rightarrow> bool" where
  "tokens_tell_time T genTime \<longleftrightarrow>
     (\<forall>ts c sg resp. CreateResponseWithOpts T ts c sg = Some resp \<longrightarrow> genTime resp = Unix (tst_Time ts))"

lemma grants_increasing:
  assumes "grants T r resps r'" and "tokens_tell_time T genTime" and "whole (rs_lastGenTime r)"
  shows "sorted_wrt (<) (map genTime resps) \<and> (\<forall>resp\<in>set resps. genTime resp \<le> Unix (rs_lastGenTime r')) \<and>
    whole (rs_lastGenTime r')"
  using assms(1)
proof (induction rule: grants.induct)
  case (refused resps r1 raw w e r2 w')
  have "Unix (rs_lastGenTime r1) \<le> Unix (rs_lastGenTime r2)" "whole (rs_lastGenTime r2)"
    using wp_run [OF wp_Respond_forward refused.hyps(2)] refused.IH
    by (auto simp: Unix_def intro: zdiv_mono1 order_less_imp_le [OF Second_pos])
  with refused.IH show ?case by (meson order_trans)
next
  case (granted resps r1 raw w resp r2 w')
  obtain ts c sg where T: "CreateResponseWithOpts T ts c sg = Some resp" "tst_Time ts = rs_lastGenTime r2"
    and t: "rs_lastGenTime r1 < rs_lastGenTime r2" "whole (rs_lastGenTime r2)"
    using wp_run [OF wp_Respond_forward granted.hyps(2)] granted.IH by auto
  have "genTime resp = Unix (rs_lastGenTime r2)"
    using assms(2) T unfolding tokens_tell_time_def by metis
  moreover have "Unix (rs_lastGenTime r1) < Unix (rs_lastGenTime r2)"
    using granted.IH t by (intro whole_Unix_less) auto
  ultimately show ?case
    using granted.IH t(2) by (fastforce simp: sorted_wrt_append)
qed (simp_all add: assms(3) Rotate_def)

text \<open>C37. The tokens that one responder grants carry strictly increasing times, read from the tokens, in whole
  seconds: for any sequence of requests, whether or not they are well-formed and can be signed, and of rotations,
  and whatever the clock does in between, even if it stands still or is set back.\<close>

theorem timestamps_increase:
  assumes "tokens_tell_time T genTime" and "grants T (NewResponder issuer intermediate) resps r"
  shows "sorted_wrt (<) (map genTime resps)"
proof -
  have "whole (rs_lastGenTime (NewResponder issuer intermediate))"
    by (simp add: NewResponder_def whole_def zero_time_def Truncate_second_def Second_def)
  with grants_increasing [OF assms(2,1)] show ?thesis by simp
qed

text \<open>Two requests in the same nanosecond get times one second apart.\<close>

definition tsa_clear :: tsa_prims where
  "tsa_clear = tsa1\<lparr>CreateResponseWithOpts := (\<lambda>t c sg. Some (Int_String (Unix (tst_Time t))))\<rparr>"

theorem timestamps_increase_witness:
  "\<exists>r. grants tsa_clear (NewResponder inter1 None) [Int_String 1000, Int_String 1001] r \<and>
     sorted_wrt (<) (map (the \<circ> SetString10) [Int_String 1000, Int_String 1001])"
proof -
  let ?r = "\<lambda>t. (NewResponder inter1 None)\<lparr>rs_lastGenTime := t\<rparr>"
  have "run_state (Respond_ts tsa_clear (NewResponder inter1 None) ''q'') sys1 = ((Inr (Int_String 1000), ?r now1), sys1)"
    "run_state (Respond_ts tsa_clear (?r now1) ''q'') sys1 = ((Inr (Int_String 1001), ?r (now1 + Second)), sys1)"
    by (simp_all add: Respond_ts_def tsa_clear_def tsa1_def crypto_SHA1_def snapshot_def effects Let_def NewResponder_def
        now1_def Truncate_second_def Second_def zero_time_def sys1_def Unix_def State_Monad.return_def)
  from grants.granted [OF grants.granted [OF grants.idle this(1)] this(2)]
  have "grants tsa_clear (NewResponder inter1 None) [Int_String 1000, Int_String 1001] (?r (now1 + Second))"
    by simp
  moreover have "tokens_tell_time tsa_clear (the \<circ> SetString10)"
    by (auto simp: tokens_tell_time_def tsa_clear_def)
  ultimately show ?thesis
    using timestamps_increase by blast
qed

lemma wp_Respond_ts:
  "wp (Respond_ts T r raw) (\<lambda>(res, r') _. \<forall>resp. res = Inr resp \<longrightarrow>
     (\<exists>req ts. tsa_ParseRequest T raw = Some req \<and>
        CreateResponseWithOpts T ts (i_Cert (CurrentIssuer r)) (i_Signer (CurrentIssuer r)) = Some resp \<and>
        tq_HashAlgorithm req \<noteq> crypto_SHA1 \<and> tst_HashAlgorithm ts = tq_HashAlgorithm req \<and>
        tst_HashedMessage ts = tq_HashedMessage req \<and> tst_Nonce ts = tq_Nonce req \<and>
        tst_Policy ts = PolicyOID \<and> tst_Time ts = rs_lastGenTime r' \<and> rs_lastGenTime r < rs_lastGenTime r')) w"
  unfolding Respond_ts_def CurrentIssuer_def
  by (auto simp: Let_def intro!: wps wp_mono [OF snapshot_forward] split: option.splits)
    (rule exI, rule conjI, assumption, simp)+

text \<open>A token is granted only for a request with another hash than SHA-1. It repeats the request's
  hash algorithm, digest and nonce under the service's policy, is signed by the current identity,
  and carries a time later than that of any token before.\<close>

theorem timestamp_matches_request:
  assumes "run_state (Respond_ts T r raw) w = ((Inr resp, r'), w')"
  shows "\<exists>req ts. tsa_ParseRequest T raw = Some req \<and>
    CreateResponseWithOpts T ts (i_Cert (CurrentIssuer r)) (i_Signer (CurrentIssuer r)) = Some resp \<and>
    tq_HashAlgorithm req \<noteq> crypto_SHA1 \<and> tst_HashAlgorithm ts = tq_HashAlgorithm req \<and>
    tst_HashedMessage ts = tq_HashedMessage req \<and> tst_Nonce ts = tq_Nonce req \<and>
    tst_Policy ts = PolicyOID \<and> tst_Time ts = rs_lastGenTime r' \<and> rs_lastGenTime r < rs_lastGenTime r'"
  using wp_run [OF wp_Respond_ts assms] by simp

theorem timestamp_matches_request_witness:
  "\<exists>r' w'. run_state (Respond_ts tsa1 (NewResponder inter1 None) ''q'') sys1 = ((Inr ''tst'', r'), w') \<and>
     rs_lastGenTime (NewResponder inter1 None) < rs_lastGenTime r'"
proof -
  obtain r' w' where run: "run_state (Respond_ts tsa1 (NewResponder inter1 None) ''q'') sys1 = ((Inr ''tst'', r'), w')"
    by (simp add: Respond_ts_def tsa1_def snapshot_def running sys1_def crypto_SHA1_def)
  from timestamp_matches_request [OF this] run show ?thesis by blast
qed

section \<open>Keys\<close>

text \<open>A key that \<open>Generate\<close> returned is the key \<open>Get\<close> returns under that reference ever after, whatever
  other keys are generated or fetched in between and whatever file operations fail: no operation
  overwrites a key file.\<close>

theorem generated_key_stays:
  fixes w :: "'x world_scheme"
  assumes "fks_ok P ks" and "run_state (FileKeyStore_Generate P ks ref alg) w = ((Inr sg, ka), w1)"
    and "fks.evolves TYPE('x) P ka kb" and "run_state (FileKeyStore_Get P kb ref) (w2 :: 'x world_scheme) = ((Inr sg', kc), w3)"
  shows "sg' = sg"
  using fks.generated_key_is_kept [OF _ TrueI] assms by blast

lemma empty_store_ok: "fks_ok ks1 (s_KeyStore sys1)"
  by (simp add: fks_ok_def ks_faithful_ks1 sys1_def)

theorem generated_key_stays_witness:
  "\<exists>sg st1 t1 st2 t2. run_state (FileKeyStore_Generate ks1 (s_KeyStore sys1) ''ca'' AlgorithmRSA2048) sys1 = ((Inr sg, st1), t1) \<and>
     run_state (FileKeyStore_Get ks1 st1 ''ca'') t1 = ((Inr sg, st2), t2)"
proof -
  let ?g = "run_state (FileKeyStore_Generate ks1 (s_KeyStore sys1) ''ca'' AlgorithmRSA2048) sys1"
  let ?s = "\<lparr>sg_Public = key1, sg_secret = fill 32 ''A''\<rparr>"
  have g: "fst (fst ?g) = Inr ?s" "map_of (fk_cached (snd (fst ?g))) ''ca'' = Some ?s"
    by (simp_all add: FileKeyStore_Generate_def FileKeyStore_Exists_def generateKey_def writeKeyFileAtomic_def
        io_def next_fault_def drop_fault_def path_def ks1_def running sys1_def split_def)
  then have gen: "?g = ((Inr ?s, snd (fst ?g)), snd ?g)"
    by (metis prod.collapse)
  have get: "run_state (FileKeyStore_Get ks1 (snd (fst ?g)) ''ca'') (snd ?g) = ((Inr ?s, snd (fst ?g)), snd ?g)"
    using g(2) by (simp add: FileKeyStore_Get_def State_Monad.return_def)
  from generated_key_stays [OF empty_store_ok gen fks.evolves.same get] gen get show ?thesis
    by blast
qed

text \<open>\<open>FreshRef\<close> returns only a reference under which no key is stored: the prefix, a dash and
  eight hexadecimal digits.\<close>

theorem fresh_ref_is_unused:
  assumes "run_state (FreshRef (FileKeyStore_Exists ks) pre) w = (Inr r, w')"
  shows "\<not> fks_present ks r \<and> (\<exists>hex. length hex = 8 \<and> r = pre @ ''-'' @ hex)"
  using wp_run [OF fks.fresh_ref_unused assms] by simp

theorem fresh_ref_is_unused_witness:
  "\<exists>r w'. run_state (FreshRef (FileKeyStore_Exists (s_KeyStore sys1)) ''tsa'') sys1 = (Inr r, w') \<and>
     \<not> fks_present (s_KeyStore sys1) r"
proof -
  have "\<exists>r w'. run_state (FreshRef (FileKeyStore_Exists (s_KeyStore sys1)) ''tsa'') sys1 = (Inr r, w')"
    by (simp add: FreshRef_def freshRefAttempts_def eval_nat_numeral FileKeyStore_Exists_def io_def next_fault_def
        drop_fault_def running sys1_def)
  then show ?thesis
    using fresh_ref_is_unused by blast
qed

section \<open>Certificates\<close>

text \<open>The profiles the program has: the built-in ones and those of profile files.\<close>

definition program_profile :: "Profile \<Rightarrow> bool" where
  "program_profile p \<longleftrightarrow> p \<in> set All \<or> (\<exists>pd c. toProfile pd c = Inr p)"

lemma usage_bits_defined:
  "usage_bits ku ss = Inr ku' \<Longrightarrow> defined_usage ku \<Longrightarrow> defined_usage ku'"
proof (induction ku ss rule: usage_bits.induct)
  case (2 ku s ss)
  then obtain b where b: "map_of keyUsageBits s = Some b" "usage_bits (ku OR b) ss = Inr ku'"
    by (auto split: option.splits)
  then have "0 \<le> b \<and> b < 2 ^ 9"
    by (auto simp: keyUsageBits_def KeyUsage_defs split: if_splits)
  then have "defined_usage (ku OR b)"
    using 2(3) OR_upper [of ku 9 b] by (auto simp: defined_usage_def)
  with 2(1) b show ?case by blast
qed simp

lemma program_profile_fields:
  assumes "program_profile p"
  shows "p_CDPTemplate p = []" "p_OCSPTemplate p = []" "defined_usage (p_KeyUsage p)"
proof -
  have "p_CDPTemplate p = [] \<and> p_OCSPTemplate p = [] \<and> defined_usage (p_KeyUsage p)"
    if "toProfile pd c = Inr p" for pd c
    using that usage_bits_defined [of 0 "c_KeyUsage c"]
    by (auto simp: toProfile_def no_profile_def defined_usage_def split: if_splits option.splits sum.splits)
  moreover have "p_CDPTemplate p = [] \<and> p_OCSPTemplate p = [] \<and> defined_usage (p_KeyUsage p)" if "p \<in> set All"
    using that by (auto simp: All_def builtin_defs defined_usage_def KeyUsage_defs)
  ultimately show "p_CDPTemplate p = []" "p_OCSPTemplate p = []" "defined_usage (p_KeyUsage p)"
    using assms by (auto simp: program_profile_def)
qed

text \<open>C39. A leaf certificate is what the profile and the caller asked for. For a profile that is built in or comes
  from a profile file, the certificate that is issued under it has the subject, key, names and validity the caller
  gave and the key usage of the profile; its extended key usages are those of the profile, in an extension that
  is marked critical exactly if the profile says so; it is no CA, its serial is a number of at most 159 bits that
  is not negative, it was made with the issuer's certificate and key and names the issuer, and it points to a
  revocation list or an OCSP responder exactly if the profile says so and the revocation module is on.\<close>

theorem leaf_follows_profile:
  assumes "x509_faithful P" and "program_profile p"
    and "run_state (IssueLeaf P (WithIssuerURLs p base on) sub pub iss nb na dns) w = (Inr c, w')"
  shows "x_Subject c = sub \<and> x_PublicKey c = pub \<and> x_DNSNames c = dns \<and> \<not> x_IsCA c \<and>
    x_NotBefore c = Truncate_second nb \<and> x_NotAfter c = Truncate_second na \<and> x_KeyUsage c = p_KeyUsage p \<and>
    x_ExtKeyUsage c = p_ExtKeyUsage p \<and>
    ((\<exists>e\<in>set (x_Extensions c). ext_Id e = [2, 5, 29, 37] \<and> ext_Critical e) \<longleftrightarrow> p_CriticalEKU p) \<and>
    x_Issuer c = x_Subject (i_Cert iss) \<and> x_AuthorityKeyId c = x_SubjectKeyId (i_Cert iss) \<and>
    (\<exists>tmpl. CreateCertificate P tmpl (i_Cert iss) pub (i_Signer iss) = Some (x_Raw c)) \<and>
    0 \<le> SerialNumber c \<and> SerialNumber c < 2 ^ 159 \<and>
    x_IssuingCertificateURL c = [base @ ''/v1/ca/intermediate.pem''] \<and>
    x_CRLDistributionPoints c = (if on \<and> p_EnableCRL p then [base @ ''/v1/crl/intermediate.crl''] else []) \<and>
    x_OCSPServer c = (if on \<and> p_EnableOCSP p then [base @ ''/v1/ocsp''] else [])"
proof -
  have "wp (IssueLeaf P (WithIssuerURLs p base on) sub pub iss nb na dns)
      (\<lambda>res _. \<forall>c. res = Inr c \<longrightarrow> leaf_of P (WithIssuerURLs p base on) sub pub iss nb na dns c) w"
    using assms(1) by (auto intro!: wp_IssueLeaf)
  from wp_run [OF this assms(3)] have leaf: "leaf_of P (WithIssuerURLs p base on) sub pub iss nb na dns c"
    by simp
  then have "(\<exists>e\<in>set (x_Extensions c). ext_Id e = [2, 5, 29, 37] \<and> ext_Critical e) \<longleftrightarrow> p_CriticalEKU p"
    by (force simp: leaf_of_def certificate_eku_def oidExtKeyUsage_def critical_eku_def split: if_splits)
  with leaf program_profile_fields [OF assms(2)] show ?thesis
    by (simp add: leaf_of_def certificate_eku_def WithIssuerURLs_def Let_def one_url_def)
qed

theorem leaf_follows_profile_witness:
  "\<exists>w'. run_state (IssueLeaf pki1 (WithIssuerURLs Default ''https://ca'' True) (cn ''app'') key1 inter1
     now1 (now1 + p_Validity Default) []) sys1 = (Inr cert1, w') \<and> x_OCSPServer cert1 = [] \<and>
     x_ExtKeyUsage cert1 = [ExtKeyUsageClientAuth]"
proof -
  have "rand_tape sys1 = Some ''A'' # [Some ''B'', Some ''C'']"
    by (simp add: sys1_def)
  note run = issueLeaf1 [OF this]
  have "program_profile Default"
    by (simp add: program_profile_def All_def)
  from leaf_follows_profile [OF x509_pki1 this run] run show ?thesis
    by (simp add: Default_def no_profile_def)
qed

text \<open>A time-stamping certificate is requested with exactly one extended key usage, time stamping,
  in an extension marked critical; the library's own list of usages is left empty, so that the
  extension does not occur twice.\<close>

theorem tsa_usage_critical:
  assumes "run_state (LeafTemplate (WithIssuerURLs TSA base on) sub pub nb na dns) w = (Inr t, w')"
  shows "x_ExtKeyUsage t = [] \<and> x_ExtraExtensions t =
    [\<lparr>ext_Id = [2, 5, 29, 37], ext_Critical = True, ext_Value = [[1, 3, 6, 1, 5, 5, 7, 3, 8]]\<rparr>]"
proof -
  have "wp (LeafTemplate (WithIssuerURLs TSA base on) sub pub nb na dns) (\<lambda>res _. \<forall>t. res = Inr t \<longrightarrow>
      (\<exists>s. template (leaf_request (WithIssuerURLs TSA base on) sub pub nb na dns) s = Inr t)) w"
    by (auto intro!: wp_LeafTemplate)
  from wp_run [OF this assms] show ?thesis
    by (auto simp: template_def leaf_request_def TSA_def no_profile_def Let_def extKeyUsageOIDs_def oidExtKeyUsage_def critical_eku_def)
qed

theorem tsa_usage_critical_witness:
  "\<exists>t w'. run_state (LeafTemplate (WithIssuerURLs TSA ''https://ca'' True) (cn ''tsa'') key1 0 1 []) sys1 = (Inr t, w') \<and>
     x_ExtKeyUsage t = []"
proof -
  obtain t w' where run: "run_state (LeafTemplate (WithIssuerURLs TSA ''https://ca'' True) (cn ''tsa'') key1 0 1 []) sys1 = (Inr t, w')"
    by (simp add: LeafTemplate_def buildTemplate_def GenerateSerial_def running sys1_def template_def
        leaf_request_def TSA_def no_profile_def extKeyUsageOIDs_def)
  from tsa_usage_critical [OF this] run show ?thesis by blast
qed

section \<open>The profile registry\<close>

text \<open>C40. Reloading the profile directory never disturbs the built-in profiles. If any file or any write
  fails the registry stays what it was; otherwise it has the built-in profiles, unchanged, and one
  profile per file, each under its own name. \<open>walk\<close> is the order in which the loaded profiles
  are visited.\<close>

theorem reload_keeps_builtins:
  assumes "registry_ok r" and "\<And>xs. mset (walk xs) = mset xs"
    and "run_state (Registry_Load b Marshal pd walk dir files r) w = ((res, r'), w')"
  shows "registry_ok r' \<and> ((\<exists>e. res = Inl e) \<longrightarrow> r' = r) \<and>
    (\<forall>p\<in>set All. Registry_Lookup r' (p_Name p) = Some p)"
proof -
  have "wp (Registry_Load b Marshal pd walk dir files r)
      (\<lambda>(res, r') _. registry_ok r' \<and> ((\<exists>e. res = Inl e) \<longrightarrow> r' = r)) w"
    unfolding Registry_Load_def using assms(1) registry_swap_ok [OF assms(1) _ assms(2)]
    by (auto intro!: wps wp_mono [OF wp_upsert_all])
  from wp_run [OF this assms(3)] show ?thesis
    by (auto simp: registry_ok_def Registry_Lookup_def)
qed

definition custom :: profileConfig where
  "custom = \<lparr>c_Name = ''vpn'', c_KeyAlgorithm = ''ecdsa-p256'', c_KeyUsage = [''digitalSignature''],
     c_ExtKeyUsage = [''clientAuth''], c_CriticalEKU = False, c_Validity = ''1h'', c_EnableOCSP = False,
     c_EnableCRL = True\<rparr>"

definition registry1 :: Registry where
  "registry1 = \<lparr>r_profiles = map (\<lambda>p. (p_Name p, p)) All, r_builtins = map p_Name All\<rparr>"

lemma registry1_ok: "registry_ok registry1"
  by (auto simp: registry_ok_def registry1_def All_def builtin_defs)

theorem reload_keeps_builtins_witness:
  "registry_ok (snd (fst (run_state (Registry_Load Sqlite p_Name (\<lambda>_. Some Hour) (\<lambda>xs. xs) ''dir''
     [(''vpn.yaml'', Holds custom)] registry1) sys1)))"
  using reload_keeps_builtins [OF registry1_ok, of "\<lambda>xs. xs"] by (metis prod.collapse)

text \<open>Loading an unchanged profile file again keeps the recorded version only while that version is
  1. From version 2 on every further load of the same file records a new version, because the
  file's content is encoded with version 1 before it is compared with the stored encoding.\<close>

theorem unchanged_profile_bumped:
  assumes "faults w = []" and "p_Version p = 1"
    and "\<And>v. v \<noteq> 1 \<Longrightarrow> Marshal (p\<lparr>p_Version := v\<rparr>) \<noteq> Marshal p"
    and "run_state (upsertVersioned b Marshal p) w = (Inr q, w1)"
  shows "fst (run_state (upsertVersioned b Marshal p) w1) =
    Inr (if p_Version q = 1 then q else p\<lparr>p_Version := p_Version q + 1\<rparr>)"
proof -
  obtain v r where "q = p\<lparr>p_Version := v\<rparr>" "faults w1 = []" "select_profile (p_Name p) w1 = Some r"
      "prof_Version r = v" "prof_Data r = Marshal (p\<lparr>p_Version := v\<rparr>)"
    using upsertVersioned_runs [OF assms(1), of b Marshal p] assms(4) by (metis Inr_inject prod.inject)
  moreover have "p\<lparr>p_Version := 1\<rparr> = p"
    using assms(2) by (cases p) simp
  ultimately show ?thesis
    using assms(3) [of v] by (auto simp: upsertVersioned_result next_version_def)
qed

text \<open>A profile whose content was changed once, from \<open>rsa-2048\<close> to \<open>ecdsa-p256\<close>, and is then loaded twice.\<close>

definition encode1 :: "Profile \<Rightarrow> string" where
  "encode1 p = p_KeyAlgorithm p @ Int_String (p_Version p)"

theorem unchanged_profile_bumped_witness:
  "\<exists>q w1. run_state (upsertVersioned Sqlite encode1 Default)
       (sys1\<lparr>profiles := [\<lparr>prof_Name = ''default'', prof_Version = 1, prof_Data = ''rsa-20481'', prof_CreatedAt = 0\<rparr>]\<rparr>) = (Inr q, w1) \<and>
     fst (run_state (upsertVersioned Sqlite encode1 Default) w1) = Inr (Default\<lparr>p_Version := 3\<rparr>)"
proof -
  let ?w = "sys1\<lparr>profiles := [\<lparr>prof_Name = ''default'', prof_Version = 1, prof_Data = ''rsa-20481'', prof_CreatedAt = 0\<rparr>]\<rparr>"
  have w: "faults ?w = []" "next_version encode1 Default (select_profile (p_Name Default) ?w) = 2"
    by (simp_all add: sys1_def select_profile_def next_version_def Default_def no_profile_def encode1_def
        AlgorithmECDSAP256_def)
  obtain w1 where run: "run_state (upsertVersioned Sqlite encode1 Default) ?w = (Inr (Default\<lparr>p_Version := 2\<rparr>), w1)"
    using upsertVersioned_runs [OF w(1), of Sqlite encode1 Default] w(2) by metis
  have "p_Version Default = 1" "encode1 (Default\<lparr>p_Version := v\<rparr>) \<noteq> encode1 Default" if "v \<noteq> 1" for v
    using that Int_String_inject [of v 1]
    by (simp_all add: encode1_def Default_def no_profile_def del: Int_String_inject)
  from unchanged_profile_bumped [OF w(1) _ this(2) run] run show ?thesis
    by (auto simp: Default_def no_profile_def)
qed

end
