(* ===== verification/Config.thy ===== *)
theory Config
  imports Gostd
begin

text \<open>
  The configuration, \<open>internal/config\<close>: built-in defaults, an optional YAML file laid over them, and
  environment variables laid over both. Reading a file, decoding YAML onto a value and parsing
  a URL are parameters (\<open>readFile\<close>, \<open>yaml_Unmarshal\<close>, \<open>url_Parse\<close>, which yields scheme and host);
  \<open>env\<close> is the process environment.
\<close>

record ServerConfig =
  ListenAddr :: string
  TLSSANs :: "string list"
  PublicBaseURL :: string

record ModulesConfig =
  mod_Revocation :: bool
  mod_TSA :: bool
  mod_ACME :: bool
  mod_Discovery :: bool

record StoreConfig =
  store_Driver :: string
  store_DSN :: string

record VaultKeystoreConfig =
  v_Address :: string
  v_TransitMount :: string

record PKCS11KeystoreConfig =
  ModulePath :: string
  TokenLabel :: string
  SlotNumber :: "int option"

record KeystoreConfig =
  ks_Driver :: string
  ks_Dir :: string
  ks_Vault :: VaultKeystoreConfig
  ks_PKCS11 :: PKCS11KeystoreConfig

record BootstrapConfig =
  OutputDir :: string
  RootValidity :: duration
  IntermediateValidity :: duration
  AdminValidity :: duration
  ServerValidity :: duration
  TSAValidity :: duration

record Config =
  InstanceName :: string
  cfg_Server :: ServerConfig
  cfg_Log_Level :: string
  cfg_Modules :: ModulesConfig
  cfg_Store :: StoreConfig
  cfg_Keystore :: KeystoreConfig
  cfg_Bootstrap :: BootstrapConfig
  cfg_Profiles_Dir :: string

datatype config_error =
    ConfigUnreadable string
  | ConfigUnparsable string
  | UnsupportedStoreDriver string
  | UnsupportedKeystoreDriver string
  | TokenLabelAndSlot
  | BadBaseURL string

definition RootCommonName :: "Config \<Rightarrow> string" where
  "RootCommonName c = InstanceName c @ '' Root CA''"
definition IntermediateCommonName :: "Config \<Rightarrow> string" where
  "IntermediateCommonName c = InstanceName c @ '' Intermediate CA''"
definition AdminCommonName :: "Config \<Rightarrow> string" where
  "AdminCommonName c = InstanceName c @ '' Admin Access''"
definition ServerCommonName :: "Config \<Rightarrow> string" where
  "ServerCommonName c = InstanceName c @ '' REST API''"
definition TSACommonName :: "Config \<Rightarrow> string" where
  "TSACommonName c = InstanceName c @ '' TSA''"

definition Defaults :: Config where
  "Defaults =
     \<lparr>InstanceName = ''TrustMate'',
      cfg_Server = \<lparr>ListenAddr = '':8080'', TLSSANs = [''localhost''], PublicBaseURL = ''https://localhost:8080''\<rparr>,
      cfg_Log_Level = ''INFO'',
      cfg_Modules = \<lparr>mod_Revocation = True, mod_TSA = True, mod_ACME = False, mod_Discovery = True\<rparr>,
      cfg_Store = \<lparr>store_Driver = ''sqlite'', store_DSN = ''./data/trustmate.db''\<rparr>,
      cfg_Keystore = \<lparr>ks_Driver = ''file'', ks_Dir = ''./data/keys'',
        ks_Vault = \<lparr>v_Address = [], v_TransitMount = []\<rparr>,
        ks_PKCS11 = \<lparr>ModulePath = [], TokenLabel = [], SlotNumber = None\<rparr>\<rparr>,
      cfg_Bootstrap = \<lparr>OutputDir = ''./data/bootstrap'', RootValidity = 10 * 365 * 24 * Hour,
        IntermediateValidity = 5 * 365 * 24 * Hour, AdminValidity = 365 * 24 * Hour,
        ServerValidity = 365 * 24 * Hour, TSAValidity = 2 * 365 * 24 * Hour\<rparr>,
      cfg_Profiles_Dir = []\<rparr>"

section \<open>Overrides\<close>

text \<open>Each takes the current value and returns the new one.\<close>

definition strVar :: "(string \<Rightarrow> string option) \<Rightarrow> string \<Rightarrow> string \<Rightarrow> string" where
  "strVar env key cur = (case env key of Some v \<Rightarrow> v | None \<Rightarrow> cur)"

definition strSliceVar :: "(string \<Rightarrow> string option) \<Rightarrow> string \<Rightarrow> string list \<Rightarrow> string list" where
  "strSliceVar env key cur = (case env key of
     None \<Rightarrow> cur
   | Some v \<Rightarrow> filter (\<lambda>part. part \<noteq> []) (map TrimSpace (Split (CHR '','') v)))"

definition boolVar :: "(string \<Rightarrow> string option) \<Rightarrow> string \<Rightarrow> bool \<Rightarrow> bool" where
  "boolVar env key cur = (case env key of
     None \<Rightarrow> cur
   | Some v \<Rightarrow> (case ParseBool v of None \<Rightarrow> cur | Some b \<Rightarrow> b))"

definition intPtrVar :: "(string \<Rightarrow> string option) \<Rightarrow> string \<Rightarrow> int option \<Rightarrow> int option" where
  "intPtrVar env key cur = (case env key of
     None \<Rightarrow> cur
   | Some v \<Rightarrow> (case Atoi v of None \<Rightarrow> cur | Some n \<Rightarrow> Some n))"

definition ApplyEnvOverrides :: "(string \<Rightarrow> string option) \<Rightarrow> Config \<Rightarrow> Config" where
  "ApplyEnvOverrides env c =
     \<lparr>InstanceName = strVar env ''TRUSTMATE_INSTANCE_NAME'' (InstanceName c),
      cfg_Server =
        \<lparr>ListenAddr = strVar env ''TRUSTMATE_LISTEN_ADDR'' (ListenAddr (cfg_Server c)),
         TLSSANs = strSliceVar env ''TRUSTMATE_TLS_SANS'' (TLSSANs (cfg_Server c)),
         PublicBaseURL = strVar env ''TRUSTMATE_PUBLIC_BASE_URL'' (PublicBaseURL (cfg_Server c))\<rparr>,
      cfg_Log_Level = strVar env ''TRUSTMATE_LOG_LEVEL'' (cfg_Log_Level c),
      cfg_Modules =
        \<lparr>mod_Revocation = boolVar env ''TRUSTMATE_ENABLE_REVOCATION'' (mod_Revocation (cfg_Modules c)),
         mod_TSA = boolVar env ''TRUSTMATE_ENABLE_TSA'' (mod_TSA (cfg_Modules c)),
         mod_ACME = boolVar env ''TRUSTMATE_ENABLE_ACME'' (mod_ACME (cfg_Modules c)),
         mod_Discovery = boolVar env ''TRUSTMATE_ENABLE_DISCOVERY'' (mod_Discovery (cfg_Modules c))\<rparr>,
      cfg_Store =
        \<lparr>store_Driver = strVar env ''TRUSTMATE_STORE_DRIVER'' (store_Driver (cfg_Store c)),
         store_DSN = strVar env ''TRUSTMATE_STORE_DSN'' (store_DSN (cfg_Store c))\<rparr>,
      cfg_Keystore =
        \<lparr>ks_Driver = strVar env ''TRUSTMATE_KEYSTORE_DRIVER'' (ks_Driver (cfg_Keystore c)),
         ks_Dir = strVar env ''TRUSTMATE_KEYSTORE_DIR'' (ks_Dir (cfg_Keystore c)),
         ks_Vault =
           \<lparr>v_Address = strVar env ''TRUSTMATE_VAULT_ADDR'' (v_Address (ks_Vault (cfg_Keystore c))),
            v_TransitMount = strVar env ''TRUSTMATE_VAULT_TRANSIT_MOUNT'' (v_TransitMount (ks_Vault (cfg_Keystore c)))\<rparr>,
         ks_PKCS11 =
           \<lparr>ModulePath = strVar env ''TRUSTMATE_PKCS11_MODULE_PATH'' (ModulePath (ks_PKCS11 (cfg_Keystore c))),
            TokenLabel = strVar env ''TRUSTMATE_PKCS11_TOKEN_LABEL'' (TokenLabel (ks_PKCS11 (cfg_Keystore c))),
            SlotNumber = intPtrVar env ''TRUSTMATE_PKCS11_SLOT_NUMBER'' (SlotNumber (ks_PKCS11 (cfg_Keystore c)))\<rparr>\<rparr>,
      cfg_Bootstrap = (cfg_Bootstrap c)\<lparr>OutputDir :=
        strVar env ''TRUSTMATE_BOOTSTRAP_OUTPUT_DIR'' (OutputDir (cfg_Bootstrap c))\<rparr>,
      cfg_Profiles_Dir = strVar env ''TRUSTMATE_PROFILES_DIR'' (cfg_Profiles_Dir c)\<rparr>"

section \<open>Loading\<close>

definition validate ::
    "(string \<Rightarrow> (string \<times> string) option) \<Rightarrow> Config \<Rightarrow> config_error + Config" where
  "validate url_Parse cfg =
     (if store_Driver (cfg_Store cfg) \<notin> set [''sqlite'', ''postgres'']
      then Inl (UnsupportedStoreDriver (store_Driver (cfg_Store cfg)))
      else if ks_Driver (cfg_Keystore cfg) \<notin> set [''file'', ''vault'', ''pkcs11'']
      then Inl (UnsupportedKeystoreDriver (ks_Driver (cfg_Keystore cfg)))
      else if TokenLabel (ks_PKCS11 (cfg_Keystore cfg)) \<noteq> [] \<and> SlotNumber (ks_PKCS11 (cfg_Keystore cfg)) \<noteq> None
      then Inl TokenLabelAndSlot
      else case url_Parse (PublicBaseURL (cfg_Server cfg)) of
        None \<Rightarrow> Inl (BadBaseURL (PublicBaseURL (cfg_Server cfg)))
      | Some (scheme, host) \<Rightarrow>
          (if scheme = [] \<or> host = [] then Inl (BadBaseURL (PublicBaseURL (cfg_Server cfg)))
           else Inr (cfg\<lparr>cfg_Server := (cfg_Server cfg)\<lparr>PublicBaseURL :=
                  TrimRight (PublicBaseURL (cfg_Server cfg)) ''/''\<rparr>\<rparr>)))"

definition Load ::
    "(string \<Rightarrow> string option) \<Rightarrow> (string \<Rightarrow> Config \<Rightarrow> Config option) \<Rightarrow>
     (string \<Rightarrow> (string \<times> string) option) \<Rightarrow> string \<Rightarrow> config_error + Config" where
  "Load readFile yaml_Unmarshal url_Parse path =
     (if path = [] then Inr Defaults
      else case readFile path of
        None \<Rightarrow> Inl (ConfigUnreadable path)
      | Some data \<Rightarrow>
          (case yaml_Unmarshal data Defaults of
             None \<Rightarrow> Inl (ConfigUnparsable path)
           | Some cfg \<Rightarrow> validate url_Parse cfg))"

definition LoadFromEnv ::
    "(string \<Rightarrow> string option) \<Rightarrow> (string \<Rightarrow> string option) \<Rightarrow> (string \<Rightarrow> Config \<Rightarrow> Config option) \<Rightarrow>
     (string \<Rightarrow> (string \<times> string) option) \<Rightarrow> string \<Rightarrow> config_error + Config" where
  "LoadFromEnv env readFile yaml_Unmarshal url_Parse path =
     (case Load readFile yaml_Unmarshal url_Parse path of
        Inl e \<Rightarrow> Inl e
      | Inr cfg \<Rightarrow> validate url_Parse (ApplyEnvOverrides env cfg))"

section \<open>What a loaded configuration is\<close>

definition valid_config :: "Config \<Rightarrow> bool" where
  "valid_config c \<longleftrightarrow> store_Driver (cfg_Store c) \<in> {''sqlite'', ''postgres''} \<and>
     ks_Driver (cfg_Keystore c) \<in> {''file'', ''vault'', ''pkcs11''} \<and>
     (TokenLabel (ks_PKCS11 (cfg_Keystore c)) = [] \<or> SlotNumber (ks_PKCS11 (cfg_Keystore c)) = None) \<and>
     (PublicBaseURL (cfg_Server c) = [] \<or> last (PublicBaseURL (cfg_Server c)) \<noteq> CHR ''/'')"

lemma validate_ok:
  assumes "validate url_Parse cfg = Inr c"
  shows "valid_config c" and "c = cfg\<lparr>cfg_Server := (cfg_Server cfg)\<lparr>PublicBaseURL :=
      TrimRight (PublicBaseURL (cfg_Server cfg)) ''/''\<rparr>\<rparr>"
    and "\<exists>scheme host. url_Parse (PublicBaseURL (cfg_Server cfg)) = Some (scheme, host) \<and> scheme \<noteq> [] \<and> host \<noteq> []"
  using assms TrimRight_last [of "PublicBaseURL (cfg_Server cfg)" "''/''"]
  by (auto simp: validate_def valid_config_def split: if_splits option.splits)

lemma LoadFromEnv_ok:
  assumes "LoadFromEnv env readFile yaml_Unmarshal url_Parse path = Inr c"
  obtains base where "Load readFile yaml_Unmarshal url_Parse path = Inr base"
    "validate url_Parse (ApplyEnvOverrides env base) = Inr c"
  using assms by (auto simp: LoadFromEnv_def split: sum.splits)

lemma Defaults_valid: "valid_config Defaults"
  by (simp add: valid_config_def Defaults_def)

lemma Load_valid: "Load readFile yaml_Unmarshal url_Parse path = Inr c \<Longrightarrow> valid_config c"
  using Defaults_valid validate_ok(1) by (auto simp: Load_def split: if_splits option.splits)

lemmas override_defs = ApplyEnvOverrides_def strVar_def strSliceVar_def boolVar_def intPtrVar_def

lemma boolVar_bind: "boolVar env key cur = (case Option.bind (env key) ParseBool of Some b \<Rightarrow> b | None \<Rightarrow> cur)"
  by (cases "env key") (simp_all add: boolVar_def)

lemma intPtrVar_bind: "intPtrVar env key cur = (case Option.bind (env key) Atoi of Some n \<Rightarrow> Some n | None \<Rightarrow> cur)"
  by (cases "env key") (simp_all add: intPtrVar_def)

text \<open>The documented variables: the setting a text variable is for, and the module a switch is for.\<close>

definition text_variables :: "(string \<times> (Config \<Rightarrow> string)) list" where
  "text_variables =
     [(''TRUSTMATE_INSTANCE_NAME'', InstanceName),
      (''TRUSTMATE_LISTEN_ADDR'', \<lambda>c. ListenAddr (cfg_Server c)),
      (''TRUSTMATE_LOG_LEVEL'', cfg_Log_Level),
      (''TRUSTMATE_STORE_DRIVER'', \<lambda>c. store_Driver (cfg_Store c)),
      (''TRUSTMATE_STORE_DSN'', \<lambda>c. store_DSN (cfg_Store c)),
      (''TRUSTMATE_KEYSTORE_DRIVER'', \<lambda>c. ks_Driver (cfg_Keystore c)),
      (''TRUSTMATE_KEYSTORE_DIR'', \<lambda>c. ks_Dir (cfg_Keystore c)),
      (''TRUSTMATE_VAULT_ADDR'', \<lambda>c. v_Address (ks_Vault (cfg_Keystore c))),
      (''TRUSTMATE_VAULT_TRANSIT_MOUNT'', \<lambda>c. v_TransitMount (ks_Vault (cfg_Keystore c))),
      (''TRUSTMATE_PKCS11_MODULE_PATH'', \<lambda>c. ModulePath (ks_PKCS11 (cfg_Keystore c))),
      (''TRUSTMATE_PKCS11_TOKEN_LABEL'', \<lambda>c. TokenLabel (ks_PKCS11 (cfg_Keystore c))),
      (''TRUSTMATE_BOOTSTRAP_OUTPUT_DIR'', \<lambda>c. OutputDir (cfg_Bootstrap c)),
      (''TRUSTMATE_PROFILES_DIR'', cfg_Profiles_Dir)]"

definition module_switches :: "(string \<times> (ModulesConfig \<Rightarrow> bool)) list" where
  "module_switches =
     [(''TRUSTMATE_ENABLE_REVOCATION'', mod_Revocation), (''TRUSTMATE_ENABLE_TSA'', mod_TSA),
      (''TRUSTMATE_ENABLE_ACME'', mod_ACME), (''TRUSTMATE_ENABLE_DISCOVERY'', mod_Discovery)]"

text \<open>C31. A configuration that is loaded is well-formed, whatever the file and the environment hold: known
  drivers, one way to choose a token, no slash at the end of the base URL. Each of the twenty variables rules its
  own setting: a text that is set wins over the file and the defaults (the base URL without the slashes at its
  end); a switch and the slot number win if their value is a boolean or an integer, and are ignored otherwise; the
  list of names is split at the commas, each part trimmed, the empty ones dropped. What has no variable is as
  the file and the defaults say.\<close>

theorem environment_wins:
  assumes "LoadFromEnv env readFile yaml_Unmarshal url_Parse path = Inr c"
  shows "valid_config c \<and> (\<exists>base. Load readFile yaml_Unmarshal url_Parse path = Inr base \<and> valid_config base \<and>
    list_all (\<lambda>(var, setting). setting c = (case env var of Some v \<Rightarrow> v | None \<Rightarrow> setting base)) text_variables \<and>
    list_all (\<lambda>(var, switch). switch (cfg_Modules c) =
      (case Option.bind (env var) ParseBool of Some b \<Rightarrow> b | None \<Rightarrow> switch (cfg_Modules base))) module_switches \<and>
    PublicBaseURL (cfg_Server c) = TrimRight
      (case env ''TRUSTMATE_PUBLIC_BASE_URL'' of Some v \<Rightarrow> v | None \<Rightarrow> PublicBaseURL (cfg_Server base)) ''/'' \<and>
    SlotNumber (ks_PKCS11 (cfg_Keystore c)) =
      (case Option.bind (env ''TRUSTMATE_PKCS11_SLOT_NUMBER'') Atoi of
         Some n \<Rightarrow> Some n | None \<Rightarrow> SlotNumber (ks_PKCS11 (cfg_Keystore base))) \<and>
    TLSSANs (cfg_Server c) =
      (case env ''TRUSTMATE_TLS_SANS'' of
         Some v \<Rightarrow> [san \<leftarrow> map TrimSpace (Split (CHR '','') v). san \<noteq> []] | None \<Rightarrow> TLSSANs (cfg_Server base)) \<and>
    cfg_Bootstrap c = (cfg_Bootstrap base)\<lparr>OutputDir := OutputDir (cfg_Bootstrap c)\<rparr>)"
proof -
  obtain base where L: "Load readFile yaml_Unmarshal url_Parse path = Inr base"
    and V: "validate url_Parse (ApplyEnvOverrides env base) = Inr c"
    using assms by (rule LoadFromEnv_ok)
  have "c = ApplyEnvOverrides env base\<lparr>cfg_Server := cfg_Server (ApplyEnvOverrides env base)\<lparr>PublicBaseURL :=
      TrimRight (PublicBaseURL (cfg_Server (ApplyEnvOverrides env base))) ''/''\<rparr>\<rparr>"
    using validate_ok(2) [OF V] .
  with validate_ok(1) [OF V] L Load_valid [OF L] show ?thesis
    by (simp add: text_variables_def module_switches_def ApplyEnvOverrides_def strVar_def strSliceVar_def boolVar_bind
        intPtrVar_bind)
qed

theorem environment_wins_witness:
  "\<exists>c. LoadFromEnv [''TRUSTMATE_ENABLE_ACME'' \<mapsto> ''true'', ''TRUSTMATE_LISTEN_ADDR'' \<mapsto> '':9'',
       ''TRUSTMATE_PUBLIC_BASE_URL'' \<mapsto> ''https://ca//''] (\<lambda>_. None) (\<lambda>_. Some) (\<lambda>_. Some (''https'', ''ca'')) [] = Inr c \<and>
     ListenAddr (cfg_Server c) = '':9'' \<and> mod_ACME (cfg_Modules c) \<and> PublicBaseURL (cfg_Server c) = ''https://ca''"
proof -
  let ?env = "[''TRUSTMATE_ENABLE_ACME'' \<mapsto> ''true'', ''TRUSTMATE_LISTEN_ADDR'' \<mapsto> '':9'',
       ''TRUSTMATE_PUBLIC_BASE_URL'' \<mapsto> ''https://ca//'']"
  obtain c where c: "LoadFromEnv ?env (\<lambda>_. None) (\<lambda>_. Some) (\<lambda>_. Some (''https'', ''ca'')) [] = Inr c"
    by (simp add: LoadFromEnv_def Load_def validate_def override_defs Defaults_def)
  then show ?thesis
    using environment_wins [OF c]
    by (auto simp: text_variables_def module_switches_def ParseBool_def TrimRight_def)
qed

end
