(* ===== verification/Bootstrap.thy ===== *)
theory Bootstrap
  imports Tsa Config
begin

text \<open>
  First run and start-up, \<open>internal/bootstrap\<close>: the generation of root, intermediate, administrator's,
  server and time-stamping certificates, and their reloading at every start. The key store is any
  implementation of the interface: \<open>gen\<close> and \<open>get\<close> are its \<open>Generate\<close> and \<open>Get\<close>, which take its
  state and return the new one. The output directory is an association list from file names to mode
  and content.
\<close>

definition refRoot :: KeyRef where "refRoot = ''root''"
definition refServerTLS :: KeyRef where "refServerTLS = ''server-tls''"
definition refTSA :: KeyRef where "refTSA = ''tsa''"
definition IntermediateKeyRef :: KeyRef where "IntermediateKeyRef = ''intermediate''"
definition bootstrapAlgorithm :: Algorithm where "bootstrapAlgorithm = AlgorithmECDSAP256"

text \<open>What it uses of the libraries besides \<open>crypto/x509\<close>: drawing a P-256 key, PKCS#8, PEM with the
  label of private keys, JSON of profiles, and the order in which Go ranges over a map.\<close>

record boot_prims =
  b_pki :: pki_prims
  b_ks :: ks_prims
  pem_EncodeKey :: "string \<Rightarrow> string"
  b_Marshal :: "Profile \<Rightarrow> string"
  b_walk :: "(string \<times> string) list \<Rightarrow> (string \<times> string) list"

datatype boot_error =
    BootCheck store_error
  | BootProfile string store_error
  | BootKey KeyRef ks_error
  | BootIssue string pki_error
  | BootPersist store_error
  | BootRole store_error
  | BootTSA tsa_error
  | BootOutput string
  | BootAudit store_error
  | BootLoad string store_error
  | BootMissing string
  | BootUndecodable string

type_synonym output_dir = "(string \<times> (nat \<times> string)) list"

section \<open>Generating\<close>

definition encodePEM :: "boot_prims \<Rightarrow> string \<Rightarrow> string" where
  "encodePEM B der = pem_Encode (b_pki B) der"

definition createCertRecord ::
    "backend \<Rightarrow> boot_prims \<Rightarrow> Certificate \<Rightarrow> CertKind \<Rightarrow> string \<Rightarrow> string \<Rightarrow> string \<Rightarrow>
     ('x world_scheme, unit res) state" where
  "createCertRecord b B cert kind profileName issuerSerial keyRef = do {
     now \<leftarrow> time_Now;
     Certificates_Create b
       \<lparr>Serial = Int_String (SerialNumber cert), Kind = kind, ProfileName = profileName,
        Subject = Name_String (b_pki B) (x_Subject cert), IssuerSerial = issuerSerial,
        NotBefore = x_NotBefore cert, NotAfter = x_NotAfter cert, PEM = encodePEM B (x_Raw cert),
        KeyRef = keyRef, CreatedAt = now, RevokedAt = None, RevocationReason = []\<rparr>
   }"

fun persist_profiles ::
    "backend \<Rightarrow> boot_prims \<Rightarrow> Profile list \<Rightarrow> ('x world_scheme, boot_error + unit) state" where
  "persist_profiles b B [] = ret (Inr ())"
| "persist_profiles b B (p # ps) = do {
     now \<leftarrow> time_Now;
     r \<leftarrow> Profiles_Upsert b \<lparr>prof_Name = p_Name p, prof_Version = p_Version p, prof_Data = b_Marshal B p,
            prof_CreatedAt = now\<rparr>;
     (case r of Inl e \<Rightarrow> ret (Inl (BootProfile (p_Name p) e)) | Inr _ \<Rightarrow> persist_profiles b B ps)
   }"

definition persistDefaultProfiles :: "backend \<Rightarrow> boot_prims \<Rightarrow> ('x world_scheme, boot_error + unit) state" where
  "persistDefaultProfiles b B = persist_profiles b B [Default, ServerTLS, TSA]"

text \<open>A certificate that was issued is recorded and, with its signer, becomes an issuer.\<close>

definition recorded_issuer ::
    "backend \<Rightarrow> boot_prims \<Rightarrow> string \<Rightarrow> pki_error + Certificate \<Rightarrow> CertKind \<Rightarrow> string \<Rightarrow> string \<Rightarrow> string \<Rightarrow>
     signer \<Rightarrow> ('x world_scheme, boot_error + Issuer) state" where
  "recorded_issuer b B what issued kind profileName issuerSerial keyRef sg =
     (case issued of
        Inl e \<Rightarrow> ret (Inl (BootIssue what e))
      | Inr cert \<Rightarrow> do {
          r \<leftarrow> createCertRecord b B cert kind profileName issuerSerial keyRef;
          (case r of
             Inl e \<Rightarrow> ret (Inl (BootPersist e))
           | Inr _ \<Rightarrow> ret (Inr \<lparr>i_Cert = cert, i_Signer = sg\<rparr>))
        })"

definition generateRoot ::
    "backend \<Rightarrow> boot_prims \<Rightarrow>
     ('k \<Rightarrow> KeyRef \<Rightarrow> Algorithm \<Rightarrow> ('x world_scheme, (ks_error + signer) \<times> 'k) state) \<Rightarrow>
     Config \<Rightarrow> 'k \<Rightarrow> ('x world_scheme, (boot_error + Issuer) \<times> 'k) state" where
  "generateRoot b B gen cfg ks = do {
     (g, ks1) \<leftarrow> gen ks refRoot bootstrapAlgorithm;
     (case g of
        Inl e \<Rightarrow> ret (Inl (BootKey refRoot e), ks1)
      | Inr sg \<Rightarrow> do {
          now \<leftarrow> time_Now;
          c \<leftarrow> SelfSignedCA (b_pki B)
            \<lparr>cr_Subject = cn (RootCommonName cfg), cr_PublicKey = KeyOther [], cr_NotBefore = now,
             cr_NotAfter = now + RootValidity (cfg_Bootstrap cfg), cr_IsCA = True, cr_PathLenZero = False,
             cr_KeyUsage = KeyUsageCertSign OR KeyUsageCRLSign, cr_ExtKeyUsage = [],
             cr_CriticalExtKeyUsage = False, cr_DNSNames = [], cr_AIAIssuerURL = [], cr_OCSPURL = [],
             cr_CRLURL = []\<rparr> sg;
          res \<leftarrow> recorded_issuer b B ''root CA'' c CertKindRoot [] [] refRoot sg;
          ret (res, ks1)
        })
   }"

definition generateIntermediate ::
    "backend \<Rightarrow> boot_prims \<Rightarrow>
     ('k \<Rightarrow> KeyRef \<Rightarrow> Algorithm \<Rightarrow> ('x world_scheme, (ks_error + signer) \<times> 'k) state) \<Rightarrow>
     Config \<Rightarrow> 'k \<Rightarrow> Issuer \<Rightarrow> ('x world_scheme, (boot_error + Issuer) \<times> 'k) state" where
  "generateIntermediate b B gen cfg ks root = do {
     (g, ks1) \<leftarrow> gen ks IntermediateKeyRef bootstrapAlgorithm;
     (case g of
        Inl e \<Rightarrow> ret (Inl (BootKey IntermediateKeyRef e), ks1)
      | Inr sg \<Rightarrow> do {
          notBefore \<leftarrow> time_Now;
          now \<leftarrow> time_Now;
          let base = PublicBaseURL (cfg_Server cfg);
          let req = \<lparr>cr_Subject = cn (IntermediateCommonName cfg), cr_PublicKey = sg_Public sg,
             cr_NotBefore = notBefore, cr_NotAfter = now + IntermediateValidity (cfg_Bootstrap cfg),
             cr_IsCA = True, cr_PathLenZero = True, cr_KeyUsage = KeyUsageCertSign OR KeyUsageCRLSign,
             cr_ExtKeyUsage = [], cr_CriticalExtKeyUsage = False, cr_DNSNames = [],
             cr_AIAIssuerURL = base @ ''/v1/ca/root.pem'',
             cr_OCSPURL = (if mod_Revocation (cfg_Modules cfg) then base @ ''/v1/ocsp'' else []),
             cr_CRLURL = (if mod_Revocation (cfg_Modules cfg) then base @ ''/v1/crl/root.crl'' else [])\<rparr>;
          c \<leftarrow> IssueCA (b_pki B) req root;
          res \<leftarrow> recorded_issuer b B ''intermediate CA'' c CertKindIntermediate []
            (Int_String (SerialNumber (i_Cert root))) IntermediateKeyRef sg;
          ret (res, ks1)
        })
   }"

definition generateAdminLeaf ::
    "backend \<Rightarrow> boot_prims \<Rightarrow> Config \<Rightarrow> Issuer \<Rightarrow> ('x world_scheme, boot_error + Issuer) state" where
  "generateAdminLeaf b B cfg intermed = do {
     r \<leftarrow> rand_Read 32;
     (case Option.bind r (GenerateKey (b_ks B) AlgorithmECDSAP256) of
        None \<Rightarrow> ret (Inl (BootKey ''admin'' EntropyFailed))
      | Some key \<Rightarrow> do {
          let profile = WithIssuerURLs Default (PublicBaseURL (cfg_Server cfg)) (mod_Revocation (cfg_Modules cfg));
          now \<leftarrow> time_Now;
          c \<leftarrow> IssueLeaf (b_pki B) profile (cn (AdminCommonName cfg)) (sg_Public key) intermed now
            (now + AdminValidity (cfg_Bootstrap cfg)) [];
          recorded_issuer b B ''admin certificate'' c CertKindLeaf (p_Name profile)
            (Int_String (SerialNumber (i_Cert intermed))) [] key
        })
   }"

definition generateServerTLSLeaf ::
    "backend \<Rightarrow> boot_prims \<Rightarrow>
     ('k \<Rightarrow> KeyRef \<Rightarrow> Algorithm \<Rightarrow> ('x world_scheme, (ks_error + signer) \<times> 'k) state) \<Rightarrow>
     Config \<Rightarrow> 'k \<Rightarrow> Issuer \<Rightarrow> ('x world_scheme, (boot_error + Issuer) \<times> 'k) state" where
  "generateServerTLSLeaf b B gen cfg ks intermed = do {
     (g, ks1) \<leftarrow> gen ks refServerTLS bootstrapAlgorithm;
     (case g of
        Inl e \<Rightarrow> ret (Inl (BootKey refServerTLS e), ks1)
      | Inr sg \<Rightarrow> do {
          let profile = WithIssuerURLs ServerTLS (PublicBaseURL (cfg_Server cfg)) (mod_Revocation (cfg_Modules cfg));
          now \<leftarrow> time_Now;
          c \<leftarrow> IssueLeaf (b_pki B) profile (cn (ServerCommonName cfg)) (sg_Public sg) intermed now
            (now + ServerValidity (cfg_Bootstrap cfg)) (TLSSANs (cfg_Server cfg));
          res \<leftarrow> recorded_issuer b B ''server-tls certificate'' c CertKindLeaf (p_Name profile)
            (Int_String (SerialNumber (i_Cert intermed))) refServerTLS sg;
          ret (res, ks1)
        })
   }"

definition generateTSALeaf ::
    "backend \<Rightarrow> boot_prims \<Rightarrow>
     ('k \<Rightarrow> KeyRef \<Rightarrow> Algorithm \<Rightarrow> ('x world_scheme, (ks_error + signer) \<times> 'k) state) \<Rightarrow>
     Config \<Rightarrow> 'k \<Rightarrow> Issuer \<Rightarrow> ('x world_scheme, (boot_error + Issuer) \<times> 'k) state" where
  "generateTSALeaf b B gen cfg ks intermed = do {
     (res, ks1) \<leftarrow> IssueIdentity b (b_pki B) (gen ks) refTSA
       \<lparr>ip_CommonName = TSACommonName cfg, ip_Validity = TSAValidity (cfg_Bootstrap cfg),
        ip_PublicBaseURL = PublicBaseURL (cfg_Server cfg), ip_RevocationEnabled = mod_Revocation (cfg_Modules cfg)\<rparr> intermed;
     (case res of
        Inl e \<Rightarrow> ret (Inl (BootTSA e), ks1)
      | Inr (issuer, _) \<Rightarrow> ret (Inr issuer, ks1))
   }"

section \<open>The output directory\<close>

text \<open>Each file is written beside its place and renamed onto it.\<close>

fun write_files ::
    "(string \<times> string) list \<Rightarrow> output_dir \<Rightarrow> ('x world_scheme, (boot_error + unit) \<times> output_dir) state" where
  "write_files [] dir = ret (Inr (), dir)"
| "write_files ((name, data) # rest) dir = do {
     let perm = (if name = ''admin-key.pem'' then 384 else 420);
     let tmp = name @ ''.tmp'';
     f \<leftarrow> io;
     (if f \<noteq> Runs then ret (Inl (BootOutput tmp), if f = AckLost then put tmp (perm, data) dir else dir)
      else do {
        g \<leftarrow> io;
        (let moved = put name (perm, data) (filter (\<lambda>(q, _). q \<noteq> tmp) dir)
         in case g of
              Runs \<Rightarrow> write_files rest moved
            | StmtFails \<Rightarrow> ret (Inl (BootOutput name), put tmp (perm, data) dir)
            | AckLost \<Rightarrow> ret (Inl (BootOutput name), moved))
      })
   }"

definition writeBootstrapOutput ::
    "boot_prims \<Rightarrow> Certificate \<Rightarrow> Certificate \<Rightarrow> Certificate \<Rightarrow> signer \<Rightarrow> Certificate option \<Rightarrow> output_dir \<Rightarrow>
     ('x world_scheme, (boot_error + unit) \<times> output_dir) state" where
  "writeBootstrapOutput B root intermed admin adminKey tsa dir = do {
     f \<leftarrow> io;
     (if f \<noteq> Runs then ret (Inl (BootOutput ''dir''), dir)
      else case MarshalPKCS8PrivateKey (b_ks B) adminKey of
        None \<Rightarrow> ret (Inl (BootOutput ''admin key''), dir)
      | Some keyDER \<Rightarrow>
          write_files (b_walk B
            ([(''root.pem'', encodePEM B (x_Raw root)),
              (''intermediate.pem'', encodePEM B (x_Raw intermed)),
              (''chain.pem'', encodePEM B (x_Raw intermed) @ encodePEM B (x_Raw root)),
              (''admin.pem'', encodePEM B (x_Raw admin)),
              (''admin-key.pem'', pem_EncodeKey B keyDER)] @
             (case tsa of None \<Rightarrow> [] | Some c \<Rightarrow> [(''tsa.pem'', encodePEM B (x_Raw c))]))) dir)
   }"

section \<open>The first run\<close>

fun append_all :: "backend \<Rightarrow> AuditEntry list \<Rightarrow> ('x world_scheme, boot_error + unit) state" where
  "append_all b [] = ret (Inr ())"
| "append_all b (e # es) = do {
     r \<leftarrow> Audit_Append b e;
     (case r of Inl err \<Rightarrow> ret (Inl (BootAudit err)) | Inr _ \<Rightarrow> append_all b es)
   }"

definition boot_entry :: "Certificate \<Rightarrow> string \<Rightarrow> ('x world_scheme, AuditEntry) state" where
  "boot_entry cert detail = do {
     now \<leftarrow> time_Now;
     ret \<lparr>audit_ID = 0, audit_Timestamp = now, audit_Actor = ''bootstrap'', audit_Action = ''issue'',
       audit_Target = Int_String (SerialNumber cert), audit_Detail = detail\<rparr>
   }"

text \<open>The part of \<open>Run\<close> that follows the server certificate.\<close>

definition finish_run ::
    "backend \<Rightarrow> boot_prims \<Rightarrow>
     ('k \<Rightarrow> KeyRef \<Rightarrow> Algorithm \<Rightarrow> ('x world_scheme, (ks_error + signer) \<times> 'k) state) \<Rightarrow>
     Config \<Rightarrow> 'k \<Rightarrow> output_dir \<Rightarrow> Issuer \<Rightarrow> Issuer \<Rightarrow> Issuer \<Rightarrow> Issuer \<Rightarrow>
     ('x world_scheme, (boot_error + bool) \<times> 'k \<times> output_dir) state" where
  "finish_run b B gen cfg ks dir root intermed admin server = do {
     e1 \<leftarrow> boot_entry (i_Cert root) ''root CA'';
     e2 \<leftarrow> boot_entry (i_Cert intermed) ''intermediate CA'';
     e3 \<leftarrow> boot_entry (i_Cert admin) ''admin access certificate'';
     e4 \<leftarrow> boot_entry (i_Cert server) ''server TLS certificate'';
     (t, ks') \<leftarrow> (if mod_TSA (cfg_Modules cfg)
       then do {
         (r, ks1) \<leftarrow> generateTSALeaf b B gen cfg ks intermed;
         (case r of
            Inl e \<Rightarrow> ret (Inl e, ks1)
          | Inr issuer \<Rightarrow> do {
              e5 \<leftarrow> boot_entry (i_Cert issuer) ''TSA signing certificate'';
              ret (Inr (Some (i_Cert issuer), [e5]), ks1)
            })
       }
       else ret (Inr (None, []), ks));
     (case t of
        Inl e \<Rightarrow> ret (Inl e, ks', dir)
      | Inr (tsaCert, e5) \<Rightarrow> do {
          (w, dir') \<leftarrow> writeBootstrapOutput B (i_Cert root) (i_Cert intermed) (i_Cert admin) (i_Signer admin) tsaCert dir;
          (case w of
             Inl e \<Rightarrow> ret (Inl e, ks', dir')
           | Inr _ \<Rightarrow> do {
               a \<leftarrow> append_all b ([e1, e2, e3, e4] @ e5);
               (case a of
                  Inl e \<Rightarrow> ret (Inl e, ks', dir')
                | Inr _ \<Rightarrow> ret (Inr False, ks', dir'))
             })
        })
   }"

text \<open>\<open>Run\<close>. The result tells whether the CA was already there.\<close>

definition Bootstrap_Run ::
    "backend \<Rightarrow> boot_prims \<Rightarrow>
     ('k \<Rightarrow> KeyRef \<Rightarrow> Algorithm \<Rightarrow> ('x world_scheme, (ks_error + signer) \<times> 'k) state) \<Rightarrow>
     Config \<Rightarrow> 'k \<Rightarrow> output_dir \<Rightarrow> ('x world_scheme, (boot_error + bool) \<times> 'k \<times> output_dir) state" where
  "Bootstrap_Run b B gen cfg ks dir = do {
     roots \<leftarrow> Certificates_FindByKind b CertKindRoot;
     (case roots of
        Inl e \<Rightarrow> ret (Inl (BootCheck e), ks, dir)
      | Inr rs \<Rightarrow>
          (if rs \<noteq> [] then ret (Inr True, ks, dir)
           else do {
             p \<leftarrow> persistDefaultProfiles b B;
             (case p of
                Inl e \<Rightarrow> ret (Inl e, ks, dir)
              | Inr _ \<Rightarrow> do {
                  (r1, ks1) \<leftarrow> generateRoot b B gen cfg ks;
                  (case r1 of
                     Inl e \<Rightarrow> ret (Inl e, ks1, dir)
                   | Inr root \<Rightarrow> do {
                       (r2, ks2) \<leftarrow> generateIntermediate b B gen cfg ks1 root;
                       (case r2 of
                          Inl e \<Rightarrow> ret (Inl e, ks2, dir)
                        | Inr intermed \<Rightarrow> do {
                            r3 \<leftarrow> generateAdminLeaf b B cfg intermed;
                            (case r3 of
                               Inl e \<Rightarrow> ret (Inl e, ks2, dir)
                             | Inr admin \<Rightarrow> do {
                                 now \<leftarrow> time_Now;
                                 a \<leftarrow> ClientRoles_Assign b \<lparr>role_CertSerial = Int_String (SerialNumber (i_Cert admin)),
                                        role_Role = RoleAdmin, role_CreatedAt = now\<rparr>;
                                 (case a of
                                    Inl e \<Rightarrow> ret (Inl (BootRole e), ks2, dir)
                                  | Inr _ \<Rightarrow> do {
                                      (r4, ks4) \<leftarrow> generateServerTLSLeaf b B gen cfg ks2 intermed;
                                      (case r4 of
                                         Inl e \<Rightarrow> ret (Inl e, ks4, dir)
                                       | Inr server \<Rightarrow> finish_run b B gen cfg ks4 dir root intermed admin server)
                                    })
                               })
                          })
                     })
                })
           }))
   }"

section \<open>Reloading\<close>

definition derFromPEM :: "boot_prims \<Rightarrow> string \<Rightarrow> string option" where
  "derFromPEM B data = pem_Decode (b_pki B) data"

text \<open>The newest certificate of a kind; its PEM decoded and parsed; the key under a reference.\<close>

definition newest_of_kind ::
    "backend \<Rightarrow> CertKind \<Rightarrow> ('x world_scheme, boot_error + CertificateRecord) state" where
  "newest_of_kind b kind = do {
     found \<leftarrow> Certificates_FindByKind b kind;
     (case found of
        Inl e \<Rightarrow> ret (Inl (BootLoad kind e))
      | Inr recs \<Rightarrow> ret (if recs = [] then Inl (BootMissing kind) else Inr (last recs)))
   }"

definition issuer_from ::
    "boot_prims \<Rightarrow> ('k \<Rightarrow> KeyRef \<Rightarrow> ('x world_scheme, (ks_error + signer) \<times> 'k) state) \<Rightarrow> 'k \<Rightarrow>
     CertificateRecord \<Rightarrow> KeyRef \<Rightarrow> ('x world_scheme, (boot_error + Issuer) \<times> 'k) state" where
  "issuer_from B get ks rec ref =
     (case Option.bind (derFromPEM B (PEM rec)) (ParseCertificate (b_pki B)) of
        None \<Rightarrow> ret (Inl (BootUndecodable (Serial rec)), ks)
      | Some cert \<Rightarrow> do {
          (g, ks') \<leftarrow> get ks ref;
          (case g of
             Inl e \<Rightarrow> ret (Inl (BootKey ref e), ks')
           | Inr sg \<Rightarrow> ret (Inr \<lparr>i_Cert = cert, i_Signer = sg\<rparr>, ks'))
        })"

definition LoadIntermediateIssuer ::
    "backend \<Rightarrow> boot_prims \<Rightarrow> ('k \<Rightarrow> KeyRef \<Rightarrow> ('x world_scheme, (ks_error + signer) \<times> 'k) state) \<Rightarrow> 'k \<Rightarrow>
     ('x world_scheme, (boot_error + Issuer) \<times> 'k) state" where
  "LoadIntermediateIssuer b B get ks = do {
     r \<leftarrow> newest_of_kind b CertKindIntermediate;
     (case r of Inl e \<Rightarrow> ret (Inl e, ks) | Inr rec \<Rightarrow> issuer_from B get ks rec IntermediateKeyRef)
   }"

definition LoadRootIssuer ::
    "backend \<Rightarrow> boot_prims \<Rightarrow> ('k \<Rightarrow> KeyRef \<Rightarrow> ('x world_scheme, (ks_error + signer) \<times> 'k) state) \<Rightarrow> 'k \<Rightarrow>
     ('x world_scheme, (boot_error + Issuer) \<times> 'k) state" where
  "LoadRootIssuer b B get ks = do {
     r \<leftarrow> newest_of_kind b CertKindRoot;
     (case r of Inl e \<Rightarrow> ret (Inl e, ks) | Inr rec \<Rightarrow> issuer_from B get ks rec refRoot)
   }"

definition LoadTSAIssuer ::
    "backend \<Rightarrow> boot_prims \<Rightarrow> ('k \<Rightarrow> KeyRef \<Rightarrow> ('x world_scheme, (ks_error + signer) \<times> 'k) state) \<Rightarrow> 'k \<Rightarrow>
     ('x world_scheme, (boot_error + Issuer) \<times> 'k) state" where
  "LoadTSAIssuer b B get ks = do {
     r \<leftarrow> Certificates_GetLatestByProfile b (p_Name TSA);
     (case r of
        Inl e \<Rightarrow> ret (Inl (BootLoad ''tsa'' e), ks)
      | Inr rec \<Rightarrow> issuer_from B get ks rec (CertificateRecord.KeyRef rec))
   }"

record tls_Config =
  tls_ClientCAs :: "string list"
  tls_Certificate :: "string list"
  tls_PrivateKey :: signer

definition LoadServerTLSConfig ::
    "backend \<Rightarrow> boot_prims \<Rightarrow> ('k \<Rightarrow> KeyRef \<Rightarrow> ('x world_scheme, (ks_error + signer) \<times> 'k) state) \<Rightarrow> 'k \<Rightarrow>
     ('x world_scheme, (boot_error + tls_Config) \<times> 'k) state" where
  "LoadServerTLSConfig b B get ks = do {
     l \<leftarrow> Certificates_GetLatestByProfile b (p_Name ServerTLS);
     (case l of
        Inl e \<Rightarrow> ret (Inl (BootLoad ''server-tls'' e), ks)
      | Inr leafRec \<Rightarrow> do {
          i \<leftarrow> newest_of_kind b CertKindIntermediate;
          (case i of
             Inl e \<Rightarrow> ret (Inl e, ks)
           | Inr interRec \<Rightarrow> do {
               r \<leftarrow> newest_of_kind b CertKindRoot;
               (case r of
                  Inl e \<Rightarrow> ret (Inl e, ks)
                | Inr rootRec \<Rightarrow>
                    (case derFromPEM B (PEM leafRec) of
                       None \<Rightarrow> ret (Inl (BootUndecodable (Serial leafRec)), ks)
                     | Some leafDER \<Rightarrow>
                         (case derFromPEM B (PEM interRec) of
                            None \<Rightarrow> ret (Inl (BootUndecodable (Serial interRec)), ks)
                          | Some interDER \<Rightarrow> do {
                              (g, ks') \<leftarrow> get ks refServerTLS;
                              (case g of
                                 Inl e \<Rightarrow> ret (Inl (BootKey refServerTLS e), ks')
                               | Inr sg \<Rightarrow>
                                   (if Option.bind (derFromPEM B (PEM interRec)) (ParseCertificate (b_pki B)) = None
                                    then ret (Inl (BootUndecodable (Serial interRec)), ks')
                                    else if Option.bind (derFromPEM B (PEM rootRec)) (ParseCertificate (b_pki B)) = None
                                    then ret (Inl (BootUndecodable (Serial rootRec)), ks')
                                    else ret (Inr \<lparr>tls_ClientCAs = [PEM interRec, PEM rootRec],
                                      tls_Certificate = [leafDER, interDER], tls_PrivateKey = sg\<rparr>, ks')))
                            })))
             })
        })
   }"

section \<open>What a first run leaves behind\<close>

definition boot_view ::
    "'x world_scheme \<Rightarrow> CertificateRecord list \<times> ClientRoleRecord list \<times> AuditEntry list" where
  "boot_view w = (certificates w, client_roles w, audit_log w)"

lemma steps_keep_view [keeps]:
  "state_io_rel (unchanged boot_view) time_Now"
  "state_io_rel (unchanged boot_view) (rand_Read n)"
  "state_io_rel (unchanged boot_view) io"
  "state_io_rel (unchanged boot_view) (Profiles_Upsert b r)"
  "state_io_rel (unchanged boot_view) (Certificates_FindByKind b k)"
  by (rule unchangedI; auto simp: boot_view_def intro!: wps)+

lemma build_keeps_view [keeps]: "state_io_rel (unchanged boot_view) (buildTemplate req)"
  unfolding buildTemplate_def GenerateSerial_def by (auto intro!: keeps)

lemma issue_keeps_view [keeps]:
  "state_io_rel (unchanged boot_view) (SelfSignedCA P req sg)"
  "state_io_rel (unchanged boot_view) (IssueCA P req iss)"
  "state_io_rel (unchanged boot_view) (IssueLeaf P p sub pub iss nb na dns)"
  unfolding SelfSignedCA_def IssueCA_def IssueLeaf_def LeafTemplate_def
  by (auto simp: Let_def intro!: keeps)

lemma profiles_keep_view [keeps]:
  "state_io_rel (unchanged boot_view) (persist_profiles b B ps)"
  by (induction b B ps rule: persist_profiles.induct) (auto intro!: keeps)

lemma files_keep_view [keeps]: "state_io_rel (unchanged boot_view) (write_files fs dir)"
  by (induction fs dir rule: write_files.induct) (auto simp: Let_def intro!: keeps)

lemma output_keeps_view [keeps]:
  "state_io_rel (unchanged boot_view) (writeBootstrapOutput B root intermed admin key tsa dir)"
  unfolding writeBootstrapOutput_def by (auto intro!: keeps)

lemma entry_keeps_view [keeps]: "state_io_rel (unchanged boot_view) (boot_entry c d)"
  unfolding boot_entry_def by (auto intro!: keeps)

lemma wp_kept:
  assumes "state_io_rel (unchanged boot_view) m" and "\<And>a t. boot_view t = boot_view s \<Longrightarrow> Q a t"
  shows "wp m Q s"
  using wp_state_io_rel [OF assms(1), of s] assms(2) by (auto simp: wp_iff unchanged_def)

text \<open>\<open>adds\<close>: one certificate more, nothing else that counts here.\<close>

definition adds :: "'x world_scheme \<Rightarrow> 'x world_scheme \<Rightarrow> CertificateRecord \<Rightarrow> bool" where
  "adds w w' row \<longleftrightarrow> boot_view w' = (certificates w @ [row], client_roles w, audit_log w)"

definition row_for ::
    "Issuer \<Rightarrow> CertKind \<Rightarrow> string \<Rightarrow> string \<Rightarrow> string \<Rightarrow> CertificateRecord \<Rightarrow> bool" where
  "row_for iss kind profileName issuerSerial ref row \<longleftrightarrow>
     Serial row = Int_String (SerialNumber (i_Cert iss)) \<and> Kind row = kind \<and> ProfileName row = profileName \<and>
     IssuerSerial row = issuerSerial \<and> CertificateRecord.KeyRef row = ref \<and> RevokedAt row = None"

lemma adds_frame: "boot_view v = boot_view w \<Longrightarrow> adds v u row \<longleftrightarrow> adds w u row"
  by (simp add: adds_def boot_view_def)

lemma wp_recorded_issuer:
  "wp (recorded_issuer b B what issued kind pn is ref sg)
     (\<lambda>r w'. \<forall>iss. r = Inr iss \<longrightarrow> (\<exists>row. adds w w' row \<and> row_for iss kind pn is ref row)) w"
  unfolding recorded_issuer_def createCertRecord_def
  by (auto simp: adds_def row_for_def boot_view_def cert_row_def intro!: wps)

lemma wp_recorded_after:
  assumes "boot_view v = boot_view w"
  shows "wp (recorded_issuer b B what issued kind pn is ref sg)
     (\<lambda>r w'. \<forall>iss. r = Inr iss \<longrightarrow> (\<exists>row. adds w w' row \<and> row_for iss kind pn is ref row)) v"
  using wp_recorded_issuer [of b B what issued kind pn "is" ref sg v] adds_frame [OF assms] by simp

lemma wp_append_all:
  "wp (append_all b es) (\<lambda>r w'. r = Inr () \<longrightarrow> certificates w' = certificates w \<and> client_roles w' = client_roles w \<and>
     map audit_Target (audit_log w') = map audit_Target (audit_log w) @ map audit_Target es) w"
proof (induction es arbitrary: w)
  case (Cons e es)
  then show ?case
    by (auto intro!: wp_Audit_Append wp_mono [OF Cons.IH])
qed simp

lemma wp_boot_entry:
  "wp (boot_entry c d) (\<lambda>e w'. boot_view w' = boot_view w \<and> audit_Target e = Int_String (SerialNumber c)) w"
  unfolding boot_entry_def by (auto simp: boot_view_def intro!: wps)

definition boot_audit :: "Issuer list \<Rightarrow> string list" where
  "boot_audit is = map (\<lambda>i. Int_String (SerialNumber (i_Cert i))) is"

definition tsa_rows :: "Config \<Rightarrow> Issuer \<Rightarrow> CertificateRecord list \<Rightarrow> bool" where
  "tsa_rows cfg intermed ts \<longleftrightarrow>
     (if mod_TSA (cfg_Modules cfg) then \<exists>t iss. ts = [t] \<and> row_for iss CertKindLeaf (p_Name TSA)
        (Int_String (SerialNumber (i_Cert intermed))) refTSA t
      else ts = [])"

text \<open>\<open>first_run\<close>: a chain from the root to the leaves, the administrator's role, and an audit entry
  for each certificate.\<close>

definition first_run :: "backend \<Rightarrow> Config \<Rightarrow> 'x world_scheme \<Rightarrow> 'x world_scheme \<Rightarrow> bool" where
  "first_run b cfg w w' \<longleftrightarrow> (\<exists>root intermed admin server r i a s ts now.
     certificates w' = certificates w @ [r, i, a, s] @ ts \<and>
     row_for root CertKindRoot [] [] refRoot r \<and>
     row_for intermed CertKindIntermediate [] (Serial r) IntermediateKeyRef i \<and>
     row_for admin CertKindLeaf (p_Name Default) (Serial i) [] a \<and>
     row_for server CertKindLeaf (p_Name ServerTLS) (Serial i) refServerTLS s \<and>
     tsa_rows cfg intermed ts \<and>
     client_roles w' = assign_rows \<lparr>role_CertSerial = Serial a, role_Role = RoleAdmin,
       role_CreatedAt = enc_of b now\<rparr> (client_roles w) \<and>
     map audit_Target (audit_log w') = map audit_Target (audit_log w) @ map Serial ([r, i, a, s] @ ts))"

lemma first_runI:
  assumes "row_for root CertKindRoot [] [] refRoot r"
    and "row_for intermed CertKindIntermediate [] (Int_String (SerialNumber (i_Cert root))) IntermediateKeyRef i"
    and "row_for admin CertKindLeaf (p_Name Default) (Int_String (SerialNumber (i_Cert intermed))) [] a"
    and "row_for server CertKindLeaf (p_Name ServerTLS) (Int_String (SerialNumber (i_Cert intermed))) refServerTLS s"
    and "tsa_rows cfg intermed ts" and "certificates w' = certificates w @ r # i # a # s # ts"
    and "client_roles w' = assign_rows \<lparr>role_CertSerial = Int_String (SerialNumber (i_Cert admin)),
      role_Role = RoleAdmin, role_CreatedAt = enc_of b now\<rparr> (client_roles w)"
    and "map audit_Target (audit_log w') = map audit_Target (audit_log w) @ Int_String (SerialNumber (i_Cert root)) #
      Int_String (SerialNumber (i_Cert intermed)) # Int_String (SerialNumber (i_Cert admin)) #
      Int_String (SerialNumber (i_Cert server)) # map Serial ts"
  shows "first_run b cfg w w'"
proof -
  have "Serial r = Int_String (SerialNumber (i_Cert root))" "Serial i = Int_String (SerialNumber (i_Cert intermed))"
    "Serial a = Int_String (SerialNumber (i_Cert admin))" "Serial s = Int_String (SerialNumber (i_Cert server))"
    using assms(1-4) by (simp_all add: row_for_def)
  with assms show ?thesis
    unfolding first_run_def
    by - (rule exI [of _ root], rule exI [of _ intermed], rule exI [of _ admin], rule exI [of _ server],
        rule exI [of _ r], rule exI [of _ i], rule exI [of _ a], rule exI [of _ s],
        rule exI [of _ ts], rule exI [of _ now], simp)
qed

text \<open>What is needed of a key store here: its operations do not touch the tables.\<close>

locale boot_store = key_store Exists Generate Get present stored ok ref_ok
  for Exists :: "'k \<Rightarrow> KeyRef \<Rightarrow> ('x world_scheme, ks_error + bool) state"
    and Generate :: "'k \<Rightarrow> KeyRef \<Rightarrow> Algorithm \<Rightarrow> ('x world_scheme, (ks_error + signer) \<times> 'k) state"
    and Get :: "'k \<Rightarrow> KeyRef \<Rightarrow> ('x world_scheme, (ks_error + signer) \<times> 'k) state"
    and present stored ok ref_ok +
  assumes generate_calm: "state_io_rel (unchanged tables) (Generate k r alg)"
    and get_calm: "state_io_rel (unchanged tables) (Get k r)"
begin

lemma generate_keeps_view: "state_io_rel (unchanged boot_view) (Generate k r alg)"
  using generate_calm by (auto simp: unchanged_def tables_def boot_view_def state_io_rel_def)

lemmas view_rules = wp_kept [OF generate_keeps_view] wp_kept [OF issue_keeps_view(1)]
  wp_kept [OF issue_keeps_view(2)] wp_kept [OF issue_keeps_view(3)] wp_kept [OF steps_keep_view(1)]
  wp_kept [OF steps_keep_view(2)]

lemma wp_generateRoot:
  "wp (generateRoot b B Generate cfg k) (\<lambda>(r, k') w'. \<forall>iss. r = Inr iss \<longrightarrow>
     (\<exists>row. adds w w' row \<and> row_for iss CertKindRoot [] [] refRoot row)) w"
  unfolding generateRoot_def
  by (auto intro!: view_rules wp_mono [OF wp_recorded_after] split: sum.splits)

lemma wp_generateIntermediate:
  "wp (generateIntermediate b B Generate cfg k root) (\<lambda>(r, k') w'. \<forall>iss. r = Inr iss \<longrightarrow>
     (\<exists>row. adds w w' row \<and> row_for iss CertKindIntermediate []
        (Int_String (SerialNumber (i_Cert root))) IntermediateKeyRef row)) w"
  unfolding generateIntermediate_def Let_def
  by (auto intro!: view_rules wp_mono [OF wp_recorded_after] split: sum.splits)

lemma wp_generateServerTLSLeaf:
  "wp (generateServerTLSLeaf b B Generate cfg k intermed) (\<lambda>(r, k') w'. \<forall>iss. r = Inr iss \<longrightarrow>
     (\<exists>row. adds w w' row \<and> row_for iss CertKindLeaf (p_Name ServerTLS)
        (Int_String (SerialNumber (i_Cert intermed))) refServerTLS row)) w"
  unfolding generateServerTLSLeaf_def Let_def
  by (auto intro!: view_rules wp_mono [OF wp_recorded_after] split: sum.splits)

lemma wp_generateAdminLeaf:
  "wp (generateAdminLeaf b B cfg intermed) (\<lambda>r w'. \<forall>iss. r = Inr iss \<longrightarrow>
     (\<exists>row. adds w w' row \<and> row_for iss CertKindLeaf (p_Name Default)
        (Int_String (SerialNumber (i_Cert intermed))) [] row)) w"
  unfolding generateAdminLeaf_def Let_def
  by (auto intro!: view_rules wp_mono [OF wp_recorded_after] split: option.splits)

lemma wp_generateTSALeaf:
  "wp (generateTSALeaf b B Generate cfg k intermed) (\<lambda>(r, k') w'. \<forall>iss. r = Inr iss \<longrightarrow>
     (\<exists>row. adds w w' row \<and> row_for iss CertKindLeaf (p_Name TSA)
        (Int_String (SerialNumber (i_Cert intermed))) refTSA row)) w"
  unfolding generateTSALeaf_def IssueIdentity_def Let_def
  by (auto simp: adds_def row_for_def boot_view_def cert_row_def
      intro!: view_rules wp_Certificates_Create split: sum.splits prod.splits)

lemma wp_finish_run:
  "wp (finish_run b B Generate cfg k dir root intermed admin server) (\<lambda>(r, k', dir') w'. r = Inr False \<longrightarrow>
     (\<exists>ts. certificates w' = certificates w @ ts \<and> client_roles w' = client_roles w \<and> tsa_rows cfg intermed ts \<and>
       map audit_Target (audit_log w') =
         map audit_Target (audit_log w) @ boot_audit [root, intermed, admin, server] @ map Serial ts)) w"
  unfolding finish_run_def
  by (auto simp: adds_def boot_view_def tsa_rows_def boot_audit_def row_for_def
      intro!: wp_mono [OF wp_boot_entry] wp_mono [OF wp_generateTSALeaf] wp_kept [OF output_keeps_view]
        wp_mono [OF wp_append_all] wps) blast

lemma wp_Bootstrap_Run:
  "wp (Bootstrap_Run b B Generate cfg k dir) (\<lambda>(r, k', dir') w'.
     (select_by_kind CertKindRoot w \<noteq> [] \<longrightarrow> k' = k \<and> dir' = dir \<and> boot_view w' = boot_view w \<and> r \<noteq> Inr False) \<and>
     (r = Inr False \<longrightarrow> first_run b cfg w w')) w"
  unfolding Bootstrap_Run_def persistDefaultProfiles_def
  by (auto simp: adds_def boot_view_def boot_audit_def
      intro!: wp_mono [OF wp_generateRoot] wp_mono [OF wp_generateIntermediate]
        wp_mono [OF wp_generateServerTLSLeaf] wp_mono [OF wp_generateAdminLeaf] wp_mono [OF wp_finish_run]
        wp_kept [OF profiles_keep_view] wps) (rule first_runI; assumption)

end

section \<open>A first run that gets stuck\<close>

text \<open>The errors by which \<open>Run\<close> stops between the root and the intermediate.\<close>

definition intermediate_error :: "boot_error \<Rightarrow> bool" where
  "intermediate_error e \<longleftrightarrow> (case e of
     BootKey ref _ \<Rightarrow> ref = IntermediateKeyRef
   | BootIssue what _ \<Rightarrow> what = ''intermediate CA''
   | _ \<Rightarrow> False)"

lemma intermediate_error_simps [simp]:
  "\<not> intermediate_error (BootCheck x)" "\<not> intermediate_error (BootProfile n x)"
  "\<not> intermediate_error (BootPersist x)" "\<not> intermediate_error (BootRole x)"
  "\<not> intermediate_error (BootTSA t)" "\<not> intermediate_error (BootOutput n)"
  "\<not> intermediate_error (BootAudit x)"
  by (simp_all add: intermediate_error_def)

lemma wp_recorded_error:
  "wp (recorded_issuer b B what issued kind pn is ref sg) (\<lambda>r w'. \<forall>e. r = Inl e \<longrightarrow> intermediate_error e \<longrightarrow>
     what = ''intermediate CA'' \<and> boot_view w' = boot_view w) w"
  unfolding recorded_issuer_def createCertRecord_def
  by (auto simp: intermediate_error_def intro!: wps)

lemma wp_recorded_error_after:
  "boot_view v = boot_view w \<Longrightarrow> wp (recorded_issuer b B what issued kind pn is ref sg)
     (\<lambda>r w'. \<forall>e. r = Inl e \<longrightarrow> intermediate_error e \<longrightarrow> what = ''intermediate CA'' \<and> boot_view w' = boot_view w) v"
  using wp_recorded_error [of b B what issued kind pn "is" ref sg v] by simp

lemmas ref_defs = refRoot_def refServerTLS_def refTSA_def IntermediateKeyRef_def

lemma wp_persist_profiles_error:
  "wp (persist_profiles b B ps) (\<lambda>r w'. \<forall>e. r = Inl e \<longrightarrow> \<not> intermediate_error e) w"
  by (induction ps arbitrary: w) (auto simp: intermediate_error_def intro!: wps)

lemma wp_write_files_error:
  "wp (write_files fs dir) (\<lambda>(r, dir') w'. \<forall>e. r = Inl e \<longrightarrow> \<not> intermediate_error e) w"
  by (induction fs dir arbitrary: w rule: write_files.induct)
    (auto simp: intermediate_error_def Let_def intro!: wps split: fault.splits)

lemma wp_append_all_error:
  "wp (append_all b es) (\<lambda>r w'. \<forall>e. r = Inl e \<longrightarrow> \<not> intermediate_error e) w"
  by (induction es arbitrary: w) (auto simp: intermediate_error_def intro!: wps)

context boot_store
begin

lemma wp_root_error:
  "wp (generateRoot b B Generate cfg k) (\<lambda>(r, k') w'. \<forall>e. r = Inl e \<longrightarrow> \<not> intermediate_error e) w"
  unfolding generateRoot_def
  by (auto simp: intermediate_error_def ref_defs
      intro!: view_rules wp_mono [OF wp_recorded_error] split: sum.splits)

lemma wp_intermediate_error:
  "wp (generateIntermediate b B Generate cfg k root) (\<lambda>(r, k') w'. \<forall>e. r = Inl e \<longrightarrow> intermediate_error e \<longrightarrow>
     boot_view w' = boot_view w) w"
  unfolding generateIntermediate_def Let_def
  by (auto intro!: view_rules wp_mono [OF wp_recorded_error_after] split: sum.splits)

lemma wp_admin_error:
  "wp (generateAdminLeaf b B cfg intermed) (\<lambda>r w'. \<forall>e. r = Inl e \<longrightarrow> \<not> intermediate_error e) w"
  unfolding generateAdminLeaf_def Let_def
  by (auto simp: intermediate_error_def ref_defs
      intro!: view_rules wp_mono [OF wp_recorded_error] split: option.splits)

lemma wp_server_error:
  "wp (generateServerTLSLeaf b B Generate cfg k intermed) (\<lambda>(r, k') w'. \<forall>e. r = Inl e \<longrightarrow> \<not> intermediate_error e) w"
  unfolding generateServerTLSLeaf_def Let_def
  by (auto simp: intermediate_error_def ref_defs
      intro!: view_rules wp_mono [OF wp_recorded_error] split: sum.splits)

lemma wp_tsa_error:
  "wp (generateTSALeaf b B Generate cfg k intermed) (\<lambda>(r, k') w'. \<forall>e. r = Inl e \<longrightarrow> \<not> intermediate_error e) w"
  unfolding generateTSALeaf_def
  by (auto simp: wp_iff split: sum.splits prod.splits)

lemma wp_finish_error:
  "wp (finish_run b B Generate cfg k dir root intermed admin server)
     (\<lambda>(r, k', dir') w'. \<forall>e. r = Inl e \<longrightarrow> \<not> intermediate_error e) w"
  unfolding finish_run_def writeBootstrapOutput_def
  by (auto intro!: wp_mono [OF wp_boot_entry] wp_mono [OF wp_write_files_error]
      wp_mono [OF wp_append_all_error] wp_mono [OF wp_tsa_error] wps)

lemma wp_run_error:
  "wp (Bootstrap_Run b B Generate cfg k dir) (\<lambda>(r, k', dir') w'. \<forall>e. r = Inl e \<longrightarrow> intermediate_error e \<longrightarrow>
     (\<exists>row. adds w w' row \<and> Kind row = CertKindRoot)) w"
  unfolding Bootstrap_Run_def persistDefaultProfiles_def
  by (auto simp: adds_def boot_view_def row_for_def
      intro!: wp_mono [OF wp_conj [OF wp_generateRoot wp_root_error]] wp_mono [OF wp_intermediate_error]
        wp_mono [OF wp_server_error] wp_mono [OF wp_admin_error] wp_mono [OF wp_finish_error]
        wp_mono [OF wp_conj [OF wp_kept [OF profiles_keep_view] wp_persist_profiles_error]] wps)

end

section \<open>With the file store\<close>

lemma io_keeps_tables [keeps]: "state_io_rel (unchanged tables) io"
  by (rule state_io_relI) (auto simp: io_def drop_fault_def unchanged_def tables_def)

lemma file_store_calm:
  "state_io_rel (unchanged tables) (FileKeyStore_Generate P ks r alg)"
  "state_io_rel (unchanged tables) (FileKeyStore_Get P ks r)"
  unfolding FileKeyStore_Generate_def FileKeyStore_Exists_def generateKey_def writeKeyFileAtomic_def
    FileKeyStore_Get_def
  by (auto simp: Let_def intro!: keeps split: option.splits fault.splits)

interpretation boot: boot_store FileKeyStore_Exists "FileKeyStore_Generate P" "FileKeyStore_Get P"
  fks_present "fks_stored P" "fks_ok P" "\<lambda>_. True" for P
  by unfold_locales (rule file_store_calm)+

end
