(* ===== verification/Migrate.thy ===== *)
theory Migrate
  imports Ledger
begin

text \<open>
  Schema migration, \<open>internal/store/migrate\<close>. The database beyond the ledger table
  \<open>schema_migrations\<close> is a value of any type \<open>'d\<close>; what a script does to it is the parameter
  \<open>exec_script\<close>, \<open>None\<close> when the database refuses the script. Every statement and every
  \<open>Begin\<close> and \<open>Commit\<close> takes an entry of the fault tape.
\<close>

record 'd mig_db = world +
  schema_migrations :: "(int \<times> time) list"
  mig_data :: 'd

datatype mig_error =
    MissingVersionPrefix string
  | NonNumericVersion string
  | CreatingTable
  | CheckingMigration int
  | ReadingMigration string
  | ApplyingMigration string

definition parseVersion :: "string \<Rightarrow> mig_error + int" where
  "parseVersion name = (case Cut (CHR ''_'') name of
     (pre, _, ok) \<Rightarrow>
       (if \<not> ok then Inl (MissingVersionPrefix name)
        else case Atoi pre of
          None \<Rightarrow> Inl (NonNumericVersion name)
        | Some version \<Rightarrow> Inr version))"

text \<open>\<open>apply\<close>: Begin, the script, the row of the ledger table, Commit; everything between takes effect
  with Commit or not at all. A version already in the table violates its primary key. The answer of
  Commit can get lost after it took effect.\<close>

definition apply_tx ::
    "(string \<Rightarrow> 'd \<Rightarrow> 'd option) \<Rightarrow> int \<Rightarrow> string \<Rightarrow> ('d mig_db, unit option) state" where
  "apply_tx exec_script version script = do {
     begun \<leftarrow> QueryContext (\<lambda>_. ());
     (case begun of
        Inl _ \<Rightarrow> ret None
      | Inr _ \<Rightarrow> do {
          ran \<leftarrow> QueryContext (\<lambda>w. exec_script script (mig_data w));
          (case ran of
             Inr (Some d) \<Rightarrow> do {
               now \<leftarrow> time_Now;
               inserted \<leftarrow> QueryContext (\<lambda>w. version \<notin> fst ` set (schema_migrations w));
               (case inserted of
                  Inr True \<Rightarrow> do {
                    committed \<leftarrow> ExecContext (\<lambda>w. Inr (1, w\<lparr>mig_data := d,
                      schema_migrations := schema_migrations w @ [(version, now)]\<rparr>));
                    (case committed of Inl _ \<Rightarrow> ret None | Inr _ \<Rightarrow> ret (Some ()))
                  }
                | _ \<Rightarrow> ret None)
             }
           | _ \<Rightarrow> ret None)
        })
   }"

fun run_names ::
    "(string \<Rightarrow> 'd \<Rightarrow> 'd option) \<Rightarrow> (string \<Rightarrow> string option) \<Rightarrow> string list \<Rightarrow>
     ('d mig_db, mig_error + unit) state" where
  "run_names exec_script readFile [] = ret (Inr ())"
| "run_names exec_script readFile (name # names) =
     (case parseVersion name of
        Inl e \<Rightarrow> ret (Inl e)
      | Inr version \<Rightarrow> do {
          count \<leftarrow> QueryContext (\<lambda>w. version \<in> fst ` set (schema_migrations w));
          (case count of
             Inl _ \<Rightarrow> ret (Inl (CheckingMigration version))
           | Inr present \<Rightarrow>
               (if present then run_names exec_script readFile names
                else case readFile name of
                  None \<Rightarrow> ret (Inl (ReadingMigration name))
                | Some script \<Rightarrow> do {
                    applied \<leftarrow> apply_tx exec_script version script;
                    (case applied of
                       None \<Rightarrow> ret (Inl (ApplyingMigration name))
                     | Some _ \<Rightarrow> run_names exec_script readFile names)
                  }))
        })"

text \<open>\<open>entries\<close> is the directory listing with the flag \<open>IsDir\<close>. \<open>CREATE TABLE IF NOT EXISTS\<close> leaves an
  existing ledger table alone; here the table always exists and starts out empty.\<close>

definition Migrate_Run ::
    "(string \<Rightarrow> 'd \<Rightarrow> 'd option) \<Rightarrow> (string \<Rightarrow> string option) \<Rightarrow> (string \<times> bool) list \<Rightarrow>
     ('d mig_db, mig_error + unit) state" where
  "Migrate_Run exec_script readFile entries = do {
     created \<leftarrow> ExecContext (\<lambda>w. Inr (0, w));
     (case created of
        Inl _ \<Rightarrow> ret (Inl CreatingTable)
      | Inr _ \<Rightarrow> run_names exec_script readFile
          (sort (map fst (filter (\<lambda>(_, isDir). \<not> isDir) entries))))
   }"

section \<open>Every script runs once, in order\<close>

text \<open>The scripts of some files, run one after the other.\<close>

fun run_scripts ::
    "(string \<Rightarrow> 'd \<Rightarrow> 'd option) \<Rightarrow> (string \<Rightarrow> string option) \<Rightarrow> string list \<Rightarrow> 'd \<Rightarrow> 'd option" where
  "run_scripts ex rf [] d = Some d"
| "run_scripts ex rf (n # ns) d =
     (case rf n of None \<Rightarrow> None | Some script \<Rightarrow>
        (case ex script d of None \<Rightarrow> None | Some d' \<Rightarrow> run_scripts ex rf ns d'))"

definition recorded :: "'d mig_db \<Rightarrow> int set" where
  "recorded w = fst ` set (schema_migrations w)"

text \<open>\<open>migrated\<close>: the files \<open>ns\<close> took effect between \<open>w\<close> and \<open>w'\<close>, each of a version not recorded
  before, and are recorded.\<close>

definition migrated ::
    "(string \<Rightarrow> 'd \<Rightarrow> 'd option) \<Rightarrow> (string \<Rightarrow> string option) \<Rightarrow> string list \<Rightarrow> 'd mig_db \<Rightarrow> 'd mig_db \<Rightarrow> bool" where
  "migrated ex rf ns w w' \<longleftrightarrow>
     run_scripts ex rf ns (mig_data w) = Some (mig_data w') \<and>
     map (Inr \<circ> fst) (schema_migrations w') = map (Inr \<circ> fst) (schema_migrations w) @ map parseVersion ns \<and>
     (distinct (map fst (schema_migrations w)) \<longrightarrow> distinct (map fst (schema_migrations w')))"

lemma recorded_faults [simp]: "recorded (w\<lparr>faults := f\<rparr>) = recorded w"
  by (simp add: recorded_def)

lemma migrated_none:
  "mig_data w' = mig_data w \<Longrightarrow> schema_migrations w' = schema_migrations w \<Longrightarrow> migrated ex rf [] w w'"
  by (simp add: migrated_def)

lemma migrated_one:
  assumes "mig_data v = mig_data w" "schema_migrations v = schema_migrations w" "parseVersion n = Inr version"
    and "rf n = Some script" "ex script (mig_data w) = Some d" "version \<notin> recorded w"
    and "mig_data w' = d" "schema_migrations w' = schema_migrations w @ [(version, now)]"
  shows "migrated ex rf [n] w w'"
  using assms by (auto simp: migrated_def recorded_def)

lemma migrated_trans:
  assumes "migrated ex rf [n] w v" and "migrated ex rf ns v u"
  shows "migrated ex rf (n # ns) w u"
  using assms by (auto simp: migrated_def split: option.splits)

lemma migrated_frame:
  "mig_data v = mig_data w \<Longrightarrow> schema_migrations v = schema_migrations w \<Longrightarrow>
   migrated ex rf ns v u \<longleftrightarrow> migrated ex rf ns w u"
  by (simp add: migrated_def)

lemma migrated_records:
  "migrated ex rf ns w w' \<Longrightarrow> recorded w \<subseteq> recorded w'"
proof -
  assume "migrated ex rf ns w w'"
  then have "set (map (Inr \<circ> fst) (schema_migrations w)) \<subseteq> set (map (Inr \<circ> fst :: _ \<Rightarrow> mig_error + int) (schema_migrations w'))"
    by (auto simp: migrated_def)
  then show ?thesis
    by (auto simp: recorded_def image_iff)
qed

lemma wp_apply_tx:
  assumes "parseVersion n = Inr version" and "rf n = Some script" and "version \<notin> recorded w"
    and "\<And>v a. migrated ex rf [n] w v \<Longrightarrow> version \<in> recorded v \<Longrightarrow> Q a v"
    and "\<And>v. migrated ex rf [] w v \<Longrightarrow> Q None v"
  shows "wp (apply_tx ex version script) Q w"
proof -
  have "Q None v" if "mig_data v = mig_data w" "schema_migrations v = schema_migrations w" for v
    using that assms(5) by (blast intro: migrated_none)
  moreover have "Q a (v\<lparr>mig_data := d, schema_migrations := schema_migrations w @ [(version, now)]\<rparr>)"
    if "ex script (mig_data w) = Some d" for a v d now
    using that assms(1-4) by (intro assms(4)) (auto simp: migrated_def recorded_def)
  ultimately show ?thesis
    unfolding apply_tx_def by (auto intro!: wps split: option.splits bool.splits)
qed

definition migration_post ::
    "(string \<Rightarrow> 'd \<Rightarrow> 'd option) \<Rightarrow> (string \<Rightarrow> string option) \<Rightarrow> string list \<Rightarrow> 'd mig_db \<Rightarrow>
     mig_error + unit \<Rightarrow> 'd mig_db \<Rightarrow> bool" where
  "migration_post ex rf names w res w' \<longleftrightarrow> (\<exists>ns. subseq ns names \<and> migrated ex rf ns w w') \<and>
     (res = Inr () \<longrightarrow> (\<forall>n\<in>set names. \<exists>v\<in>recorded w'. parseVersion n = Inr v))"

lemma migration_post_stop: "migrated ex rf [] w v \<Longrightarrow> migration_post ex rf names w (Inl e) v"
  unfolding migration_post_def by (auto intro: exI [of _ "[]"])

lemma migration_post_stop_one:
  "migrated ex rf [n] w v \<Longrightarrow> migration_post ex rf (n # names) w (Inl e) v"
  unfolding migration_post_def by (auto intro!: exI [of _ "[n]"])

lemma migration_post_skip:
  assumes "migration_post ex rf names v res u" and "parseVersion n = Inr version" and "version \<in> recorded w"
    and "mig_data v = mig_data w" "schema_migrations v = schema_migrations w"
  shows "migration_post ex rf (n # names) w res u"
proof -
  obtain ns where ns: "subseq ns names" "migrated ex rf ns w u"
    using assms(1,4,5) migrated_frame [of v w] by (auto simp: migration_post_def)
  then have "version \<in> recorded u"
    using assms(3) migrated_records by blast
  with ns assms(1,2) show ?thesis
    by (auto simp: migration_post_def)
qed

lemma migration_post_step:
  assumes "migration_post ex rf names v res u" and "migrated ex rf [n] w v"
    and "parseVersion n = Inr version" and "version \<in> recorded v"
  shows "migration_post ex rf (n # names) w res u"
proof -
  obtain ns where ns: "subseq ns names" "migrated ex rf ns v u"
    using assms(1) by (auto simp: migration_post_def)
  then have "version \<in> recorded u"
    using assms(4) migrated_records by blast
  moreover have "migrated ex rf (n # ns) w u" "subseq (n # ns) (n # names)"
    using migrated_trans [OF assms(2) ns(2)] ns(1) by simp_all
  ultimately show ?thesis
    using assms(1,3) unfolding migration_post_def by auto
qed

lemma wp_run_names: "wp (run_names ex rf names) (migration_post ex rf names w) w"
proof (induction names arbitrary: w)
  case Nil
  then show ?case
    by (auto simp: migration_post_def migrated_none intro!: exI [of _ "[]"])
next
  case (Cons n names)
  have skip: "wp (run_names ex rf names) (migration_post ex rf (n # names) w) (w\<lparr>faults := f\<rparr>)"
    if "parseVersion n = Inr version" "version \<in> recorded w" for version f
    by (rule wp_mono [OF Cons.IH]) (erule migration_post_skip [OF _ that], simp_all)
  have step: "wp (apply_tx ex version script) (\<lambda>applied. wp (case applied of
      None \<Rightarrow> ret (Inl (ApplyingMigration n)) | Some _ \<Rightarrow> run_names ex rf names)
      (migration_post ex rf (n # names) w)) (w\<lparr>faults := f\<rparr>)"
    if v: "parseVersion n = Inr version" "rf n = Some script" "version \<notin> recorded w" for version script f
  proof (rule wp_apply_tx [of n version rf])
    fix u :: "'a mig_db"
    assume "migrated ex rf [] (w\<lparr>faults := f\<rparr>) u"
    then show "wp (case None of None \<Rightarrow> ret (Inl (ApplyingMigration n)) | Some _ \<Rightarrow> run_names ex rf names)
        (migration_post ex rf (n # names) w) u"
      by (auto simp: migrated_frame [of "w\<lparr>faults := f\<rparr>" w] intro: migration_post_stop)
  next
    fix u :: "'a mig_db" and a :: "unit option"
    assume "migrated ex rf [n] (w\<lparr>faults := f\<rparr>) u" and rec: "version \<in> recorded u"
    then have one: "migrated ex rf [n] w u"
      by (simp add: migrated_frame [of "w\<lparr>faults := f\<rparr>" w])
    show "wp (case a of None \<Rightarrow> ret (Inl (ApplyingMigration n)) | Some _ \<Rightarrow> run_names ex rf names)
        (migration_post ex rf (n # names) w) u"
      by (auto intro!: wps migration_post_stop_one one wp_mono [OF Cons.IH]
          intro: migration_post_step [OF _ one v(1) rec])
  qed (use v in \<open>simp_all add: recorded_def\<close>)
  show ?case
    by (auto simp: migrated_none recorded_def [symmetric] 
        intro!: wps migration_post_stop step split: sum.splits) (rule skip; assumption)
qed

lemma run_names_again:
  assumes "faults w = []" and "\<forall>n\<in>set names. \<exists>v\<in>recorded w. parseVersion n = Inr v"
  shows "run_state (run_names ex rf names) w = (Inr (), w)"
  using assms
proof (induction names)
  case (Cons n names)
  then obtain v where "parseVersion n = Inr v" "v \<in> fst ` set (schema_migrations w)"
    by (auto simp: recorded_def)
  with Cons show ?case
    by (simp add: effects)
qed (simp add: State_Monad.return_def)

definition migration_files :: "(string \<times> bool) list \<Rightarrow> string list" where
  "migration_files entries = sort (map fst (filter (\<lambda>(_, isDir). \<not> isDir) entries))"

lemma wp_Migrate_Run:
  "wp (Migrate_Run ex rf entries) (migration_post ex rf (migration_files entries) w) w"
proof -
  have "wp (run_names ex rf (migration_files entries)) (migration_post ex rf (migration_files entries) w) (w\<lparr>faults := f\<rparr>)" for f
    by (rule wp_mono [OF wp_run_names]) (auto simp: migration_post_def migrated_frame [of "w\<lparr>faults := f\<rparr>" w])
  then show ?thesis
    unfolding Migrate_Run_def migration_files_def [symmetric]
    by (auto simp: migrated_none intro!: wps migration_post_stop)
qed

text \<open>C30. Migrating runs scripts in the order of the file names, each file at most once and never one
  whose version is recorded, and records exactly what took effect, whatever fails on the way and even
  if the acknowledgement of a commit is lost; when it succeeds, every file's version is recorded.\<close>

theorem migrations_once_in_order:
  assumes "run_state (Migrate_Run ex rf entries) w = (res, w')"
  shows "(\<exists>ns. subseq ns (migration_files entries) \<and> run_scripts ex rf ns (mig_data w) = Some (mig_data w') \<and>
      map (Inr \<circ> fst) (schema_migrations w') = map (Inr \<circ> fst) (schema_migrations w) @ map parseVersion ns) \<and>
    (distinct (map fst (schema_migrations w)) \<longrightarrow> distinct (map fst (schema_migrations w'))) \<and>
    (res = Inr () \<longrightarrow> (\<forall>n\<in>set (migration_files entries). \<exists>v\<in>recorded w'. parseVersion n = Inr v))"
  using wp_run [OF wp_Migrate_Run assms] by (auto simp: migration_post_def migrated_def)

definition two_files :: "(string \<times> bool) list" where
  "two_files = [(''0002_acme.sql'', False), (''old'', True), (''0001_init.sql'', False)]"

definition db1 :: "string list mig_db" where
  "db1 = \<lparr>certificates = [], client_roles = [], profiles = [], audit_log = [], acme_eab_tokens = [],
     acme_accounts = [], acme_orders = [], acme_nonces = [], faults = [], clock = 0, clock_tape = [],
     rand_tape = [], schema_migrations = [], mig_data = []\<rparr>"

text \<open>The acknowledgement of the first commit is lost: the run fails, and the script has run once.\<close>

theorem migrations_once_in_order_witness:
  "\<exists>w'. run_state (Migrate_Run (\<lambda>s d. Some (d @ [s])) Some two_files)
       (db1\<lparr>faults := [Runs, Runs, Runs, Runs, Runs, AckLost]\<rparr>) = (Inl (ApplyingMigration ''0001_init.sql''), w') \<and>
     mig_data w' = [''0001_init.sql''] \<and> distinct (map fst (schema_migrations w'))"
proof -
  let ?r = "run_state (Migrate_Run (\<lambda>s d. Some (d @ [s])) Some two_files)
       (db1\<lparr>faults := [Runs, Runs, Runs, Runs, Runs, AckLost]\<rparr>)"
  have "fst ?r = Inl (ApplyingMigration ''0001_init.sql'')" "mig_data (snd ?r) = [''0001_init.sql'']"
    by code_simp+
  moreover have "distinct (map fst (schema_migrations (snd ?r)))"
    using migrations_once_in_order [of "\<lambda>s d. Some (d @ [s])" Some two_files _ "fst ?r" "snd ?r"]
    by (simp add: db1_def)
  ultimately show ?thesis
    by (metis prod.collapse)
qed

text \<open>Migrating is idempotent: after a run that succeeded, another run against a database that
  answers succeeds and changes nothing at all.\<close>

theorem migrations_idempotent:
  assumes "run_state (Migrate_Run ex rf entries) w = (Inr (), w')" and "faults w' = []"
  shows "run_state (Migrate_Run ex rf entries) w' = (Inr (), w')"
proof -
  have "\<forall>n\<in>set (migration_files entries). \<exists>v\<in>recorded w'. parseVersion n = Inr v"
    using wp_run [OF wp_Migrate_Run assms(1)] by (simp add: migration_post_def)
  from run_names_again [OF assms(2) this] show ?thesis
    using assms(2) by (simp add: Migrate_Run_def migration_files_def effects)
qed

theorem migrations_idempotent_witness:
  "\<exists>w'. run_state (Migrate_Run (\<lambda>s d. Some (d @ [s])) Some two_files) db1 = (Inr (), w') \<and>
     mig_data w' = [''0001_init.sql'', ''0002_acme.sql''] \<and>
     run_state (Migrate_Run (\<lambda>s d. Some (d @ [s])) Some two_files) w' = (Inr (), w')"
proof -
  let ?r = "run_state (Migrate_Run (\<lambda>s d. Some (d @ [s])) Some two_files) db1"
  have r: "fst ?r = Inr ()" "faults (snd ?r) = []" "mig_data (snd ?r) = [''0001_init.sql'', ''0002_acme.sql'']"
    by code_simp+
  from migrations_idempotent [OF _ r(2), of "\<lambda>s d. Some (d @ [s])" Some two_files db1] r show ?thesis
    by (metis prod.collapse)
qed

end
