(* ===== verification/Keystore_Remote.thy ===== *)
theory Keystore_Remote
  imports Acme_Jws
begin

text \<open>
  The key stores whose keys live elsewhere: HashiCorp Vault's transit engine
  (\<open>internal/keystore/vaultkeystore.go\<close>) and a PKCS#11 token (\<open>pkcs11keystore.go\<close>). The Vault server
  and the token library are parameters; a call of either takes an entry of the fault tape: it
  runs, fails, or takes effect although its answer is lost. What is relied on of them is
  \<open>transit_keeps\<close> and \<open>token_keeps\<close>. With that both are interpretations of \<open>key_store\<close>, next to the
  file store.
\<close>

section \<open>Vault\<close>

record 'v VaultKeyStore =
  vk_addr :: string
  vk_mount :: string
  vk_token :: string
  vk_server :: 'v

record VaultConfig =
  vc_Address :: string
  vc_TransitMount :: string

text \<open>The answer to a key-read: type, latest version, and the public key of each version.\<close>

record vault_key =
  vt_Type :: string
  vt_LatestVersion :: int
  vt_Keys :: "(string \<times> string) list"

text \<open>The server answers a GET from its state and may change it on a POST; both see the URL and the
  token. Beside it: whether a URL can be requested at all, JSON decoding of the two kinds of
  answer, PEM and public keys.\<close>

record 'v vault_prims =
  v_URLOk :: "string \<Rightarrow> bool"
  v_GET :: "'v \<Rightarrow> string \<Rightarrow> string \<Rightarrow> nat \<times> string"
  v_POST :: "'v \<Rightarrow> string \<Rightarrow> string \<Rightarrow> string \<Rightarrow> (nat \<times> string) \<times> 'v"
  v_Unmarshal_key :: "string \<Rightarrow> vault_key option"
  v_Unmarshal_signature :: "string \<Rightarrow> string option"
  v_pem_Decode :: "string \<Rightarrow> string option"
  v_ParsePKIXPublicKey :: "string \<Rightarrow> pubkey option"

datatype crypto_Hash = SHA256

record vaultSigner =
  vs_ref :: KeyRef
  vs_public :: pubkey
  vs_sigAlg :: string
  vs_hash :: crypto_Hash

definition Trim :: "string \<Rightarrow> string \<Rightarrow> string" where
  "Trim s cutset = TrimLeft (TrimRight s cutset) cutset"

definition NewVaultKeyStore :: "'v \<Rightarrow> VaultConfig \<Rightarrow> string \<Rightarrow> ks_error + 'v VaultKeyStore" where
  "NewVaultKeyStore server cfg token =
     (if vc_Address cfg = [] then Inl (Unconfigured ''vault address'')
      else if token = [] then Inl (Unconfigured ''vault token'')
      else let mount = (if vc_TransitMount cfg = [] then ''transit'' else vc_TransitMount cfg)
           in Inr \<lparr>vk_addr = TrimRight (vc_Address cfg) ''/'', vk_mount = Trim mount ''/'', vk_token = token,
                vk_server = server\<rparr>)"

definition LoadVaultToken :: "(string \<Rightarrow> string option) \<Rightarrow> (string \<Rightarrow> string option) \<Rightarrow> ks_error + string" where
  "LoadVaultToken env readFile = loadSecret env readFile ''TRUSTMATE_VAULT_TOKEN_FILE'' ''TRUSTMATE_VAULT_TOKEN''"

definition vault_url :: "'v VaultKeyStore \<Rightarrow> string \<Rightarrow> string" where
  "vault_url k p = vk_addr k @ ''/v1/'' @ vk_mount k @ ''/'' @ p"

definition keys_path :: "KeyRef \<Rightarrow> string" where
  "keys_path r = ''keys/'' @ r"

text \<open>\<open>do\<close>, for the two methods it is called with.\<close>

definition do_GET ::
    "'v vault_prims \<Rightarrow> 'v VaultKeyStore \<Rightarrow> string \<Rightarrow> ('x world_scheme, ks_error + nat \<times> string) state" where
  "do_GET V k p =
     (if \<not> v_URLOk V (vault_url k p) then ret (Inl IOFailed)
      else do {
        f \<leftarrow> io;
        ret (if f = Runs then Inr (v_GET V (vk_server k) (vault_url k p) (vk_token k)) else Inl IOFailed)
      })"

definition do_POST ::
    "'v vault_prims \<Rightarrow> 'v VaultKeyStore \<Rightarrow> string \<Rightarrow> string \<Rightarrow>
     ('x world_scheme, (ks_error + nat \<times> string) \<times> 'v VaultKeyStore) state" where
  "do_POST V k p body =
     (if \<not> v_URLOk V (vault_url k p) then ret (Inl IOFailed, k)
      else do {
        f \<leftarrow> io;
        (let (answer, server) = v_POST V (vk_server k) (vault_url k p) (vk_token k) body
         in ret (case f of
              Runs \<Rightarrow> (Inr answer, k\<lparr>vk_server := server\<rparr>)
            | StmtFails \<Rightarrow> (Inl IOFailed, k)
            | AckLost \<Rightarrow> (Inl IOFailed, k\<lparr>vk_server := server\<rparr>)))
      })"

definition vaultKeyType :: "Algorithm \<Rightarrow> ks_error + string" where
  "vaultKeyType alg =
     (if alg = AlgorithmECDSAP256 then Inr ''ecdsa-p256''
      else if alg = AlgorithmRSA2048 then Inr ''rsa-2048''
      else Inl (UnsupportedAlgorithm alg))"

definition vaultSignatureParams :: "string \<Rightarrow> ks_error + string \<times> crypto_Hash" where
  "vaultSignatureParams vaultType =
     (if vaultType = ''ecdsa-p256'' then Inr ([], SHA256)
      else if vaultType = ''rsa-2048'' then Inr (''pkcs1v15'', SHA256)
      else Inl (UnsupportedAlgorithm vaultType))"

definition VaultKeyStore_Exists ::
    "'v vault_prims \<Rightarrow> 'v VaultKeyStore \<Rightarrow> KeyRef \<Rightarrow> ('x world_scheme, ks_error + bool) state" where
  "VaultKeyStore_Exists V k r = do {
     a \<leftarrow> do_GET V k (keys_path r);
     (case a of
        Inl e \<Rightarrow> ret (Inl e)
      | Inr (st, _) \<Rightarrow>
          (if st = 200 then ret (Inr True)
           else if st = 404 then ret (Inr False)
           else ret (Inl (UnexpectedStatus r st))))
   }"

text \<open>What \<open>Get\<close> makes of the answer to a key-read.\<close>

definition read_key :: "'v vault_prims \<Rightarrow> KeyRef \<Rightarrow> nat \<times> string \<Rightarrow> ks_error + vaultSigner" where
  "read_key V r answer = (case answer of (st, body) \<Rightarrow>
     (if st = 404 then Inl (KeyNotFound r)
      else if st \<noteq> 200 then Inl (UnexpectedStatus r st)
      else case v_Unmarshal_key V body of
        None \<Rightarrow> Inl (BadAnswer r)
      | Some resp \<Rightarrow>
          (case map_of (vt_Keys resp) (Int_String (vt_LatestVersion resp)) of
             None \<Rightarrow> Inl (BadAnswer r)
           | Some pk \<Rightarrow>
               (if pk = [] then Inl (BadAnswer r)
                else case v_pem_Decode V pk of
                  None \<Rightarrow> Inl (BadAnswer r)
                | Some der \<Rightarrow>
                    (case v_ParsePKIXPublicKey V der of
                       None \<Rightarrow> Inl (KeyUnparsable r)
                     | Some pub \<Rightarrow>
                         (case vaultSignatureParams (vt_Type resp) of
                            Inl e \<Rightarrow> Inl e
                          | Inr (sigAlg, hash) \<Rightarrow>
                              Inr \<lparr>vs_ref = r, vs_public = pub, vs_sigAlg = sigAlg, vs_hash = hash\<rparr>))))))"

definition VaultKeyStore_Get ::
    "'v vault_prims \<Rightarrow> 'v VaultKeyStore \<Rightarrow> KeyRef \<Rightarrow>
     ('x world_scheme, (ks_error + vaultSigner) \<times> 'v VaultKeyStore) state" where
  "VaultKeyStore_Get V k r = do {
     a \<leftarrow> do_GET V k (keys_path r);
     (case a of
        Inl e \<Rightarrow> ret (Inl e, k)
      | Inr answer \<Rightarrow> ret (read_key V r answer, k))
   }"

definition VaultKeyStore_Generate ::
    "'v vault_prims \<Rightarrow> 'v VaultKeyStore \<Rightarrow> KeyRef \<Rightarrow> Algorithm \<Rightarrow>
     ('x world_scheme, (ks_error + vaultSigner) \<times> 'v VaultKeyStore) state" where
  "VaultKeyStore_Generate V k r alg = do {
     e \<leftarrow> VaultKeyStore_Exists V k r;
     (case e of
        Inl err \<Rightarrow> ret (Inl err, k)
      | Inr present \<Rightarrow>
          (if present then ret (Inl (KeyAlreadyExists r), k)
           else case vaultKeyType alg of
             Inl err \<Rightarrow> ret (Inl err, k)
           | Inr vaultType \<Rightarrow> do {
               (a, k') \<leftarrow> do_POST V k (keys_path r) (json_object [(''type'', vaultType)]);
               (case a of
                  Inl err \<Rightarrow> ret (Inl err, k')
                | Inr (st, _) \<Rightarrow>
                    (if st \<noteq> 200 \<and> st \<noteq> 204 then ret (Inl (UnexpectedStatus r st), k')
                     else VaultKeyStore_Get V k' r))
             }))
   }"

text \<open>\<open>json.Marshal\<close> of the request map of \<open>Sign\<close>, whose keys come out sorted.\<close>

definition sign_body :: "vaultSigner \<Rightarrow> string \<Rightarrow> string" where
  "sign_body sg digest =
     ''{'' @ quoted ''hash_algorithm'' @ '':'' @ quoted ''sha2-256'' @ '','' @
     quoted ''input'' @ '':'' @ quoted (std64_EncodeToString digest) @ '','' @
     quoted ''prehashed'' @ '':true'' @
     (if vs_sigAlg sg = [] then [] else '','' @ quoted ''signature_algorithm'' @ '':'' @ quoted (vs_sigAlg sg)) @ ''}''"

definition vaultSigner_Sign ::
    "'v vault_prims \<Rightarrow> 'v VaultKeyStore \<Rightarrow> vaultSigner \<Rightarrow> string \<Rightarrow>
     ('x world_scheme, (ks_error + string) \<times> 'v VaultKeyStore) state" where
  "vaultSigner_Sign V k sg digest = do {
     (a, k') \<leftarrow> do_POST V k (''sign/'' @ vs_ref sg) (sign_body sg digest);
     (case a of
        Inl e \<Rightarrow> ret (Inl e, k')
      | Inr (st, body) \<Rightarrow>
          (if st \<noteq> 200 then ret (Inl (UnexpectedStatus (vs_ref sg) st), k')
           else case v_Unmarshal_signature V body of
             None \<Rightarrow> ret (Inl (BadAnswer (vs_ref sg)), k')
           | Some signature \<Rightarrow>
               (case Cut (CHR '':'') signature of (_, versioned, ok1) \<Rightarrow>
                (case Cut (CHR '':'') versioned of (_, encoded, ok2) \<Rightarrow>
                  (if \<not> (ok1 \<and> ok2) then ret (Inl (BadAnswer (vs_ref sg)), k')
                   else case std64_DecodeString encoded of
                     None \<Rightarrow> ret (Inl (BadAnswer (vs_ref sg)), k')
                   | Some sig \<Rightarrow> ret (Inr sig, k'))))))
   }"

section \<open>The Vault store keeps the contract\<close>

text \<open>The references that are one segment of a path and need no escaping there.\<close>

definition vault_ref :: "KeyRef \<Rightarrow> bool" where
  "vault_ref r \<longleftrightarrow> r \<noteq> [] \<and> set r \<subseteq> set ''abcdefghijklmnopqrstuvwxyz0123456789-''"

text \<open>What is relied on of the transit engine, for plain names: to create a key under one name does not change what
  is read of a key that is there under another name. What it does to a key of the same name is not assumed.\<close>

definition transit_keeps :: "'v vault_prims \<Rightarrow> 'v VaultKeyStore \<Rightarrow> bool" where
  "transit_keeps V k \<longleftrightarrow> (\<forall>server r r' body. vault_ref r \<longrightarrow> vault_ref r' \<longrightarrow> r' \<noteq> r \<longrightarrow>
     fst (v_GET V server (vault_url k (keys_path r')) (vk_token k)) = 200 \<longrightarrow>
     v_GET V (snd (v_POST V server (vault_url k (keys_path r)) (vk_token k) body))
       (vault_url k (keys_path r')) (vk_token k) =
     v_GET V server (vault_url k (keys_path r')) (vk_token k))"

definition vault_read :: "'v vault_prims \<Rightarrow> 'v VaultKeyStore \<Rightarrow> KeyRef \<Rightarrow> nat \<times> string" where
  "vault_read V k r = v_GET V (vk_server k) (vault_url k (keys_path r)) (vk_token k)"

definition vault_present :: "'v vault_prims \<Rightarrow> 'v VaultKeyStore \<Rightarrow> KeyRef \<Rightarrow> bool" where
  "vault_present V k r \<longleftrightarrow> fst (vault_read V k r) = 200"

definition vault_stored :: "'v vault_prims \<Rightarrow> 'v VaultKeyStore \<Rightarrow> KeyRef \<Rightarrow> vaultSigner option" where
  "vault_stored V k r = (case read_key V r (vault_read V k r) of Inl _ \<Rightarrow> None | Inr sg \<Rightarrow> Some sg)"

lemma vault_url_server [simp]: "vault_url (k\<lparr>vk_server := v\<rparr>) p = vault_url k p"
  by (simp add: vault_url_def)

lemma transit_keeps_server [simp]: "transit_keeps V (k\<lparr>vk_server := v\<rparr>) = transit_keeps V k"
  by (simp add: transit_keeps_def)

lemma wp_do_GET:
  assumes "\<And>e w'. Q (Inl e) w'"
    and "\<And>w'. Q (Inr (v_GET V (vk_server k) (vault_url k p) (vk_token k))) w'"
  shows "wp (do_GET V k p) Q w"
  unfolding do_GET_def using assms by (auto intro!: wps)

lemma wp_Get_vault:
  assumes "\<And>e w'. Q (Inl e, k) w'"
    and "\<And>sg w'. read_key V r (vault_read V k r) = Inr sg \<Longrightarrow> Q (Inr sg, k) w'"
  shows "wp (VaultKeyStore_Get V k r) Q w"
proof -
  have "Q (read_key V r (vault_read V k r), k) w'" for w'
    using assms by (cases "read_key V r (vault_read V k r)") auto
  then show ?thesis
    unfolding VaultKeyStore_Get_def using assms(1) by (auto simp: vault_read_def intro!: wp_do_GET)
qed

lemma wp_Exists_vault:
  assumes "\<And>e w'. Q (Inl e) w'" and "\<And>w'. Q (Inr (vault_present V k r)) w'"
  shows "wp (VaultKeyStore_Exists V k r) Q w"
  unfolding VaultKeyStore_Exists_def using assms
  by (auto simp: vault_present_def vault_read_def intro!: wp_do_GET split: prod.split)

lemma read_key_found:
  "read_key V r (vault_read V k r) = Inr sg \<Longrightarrow> vault_present V k r"
  "read_key V r (vault_read V k r) = Inr sg \<Longrightarrow> vault_stored V k r = Some sg"
  by (auto simp: read_key_def vault_present_def vault_stored_def split: if_splits prod.splits)

text \<open>What is there stays, whatever becomes of the creation of a key that is not there.\<close>

definition vault_kept :: "'v vault_prims \<Rightarrow> 'v VaultKeyStore \<Rightarrow> 'v VaultKeyStore \<Rightarrow> bool" where
  "vault_kept V k k' \<longleftrightarrow> transit_keeps V k' \<and>
     (\<forall>x. vault_ref x \<longrightarrow> vault_present V k x \<longrightarrow> vault_present V k' x \<and> vault_stored V k' x = vault_stored V k x)"

lemma wp_create_key:
  assumes ok: "transit_keeps V k" and r: "vault_ref r" and new: "\<not> vault_present V k r" and Q: "\<And>a k' w'. vault_kept V k k' \<Longrightarrow> Q (a, k') w'"
  shows "wp (do_POST V k (keys_path r) body) Q w"
proof -
  obtain answer server where post: "v_POST V (vk_server k) (vault_url k (keys_path r)) (vk_token k) body = (answer, server)"
    by (cases "v_POST V (vk_server k) (vault_url k (keys_path r)) (vk_token k) body")
  have "vault_read V (k\<lparr>vk_server := server\<rparr>) x = vault_read V k x" if "vault_ref x" "vault_present V k x" for x
  proof -
    have "x \<noteq> r"
      using new that(2) by blast
    then show ?thesis
      using ok [unfolded transit_keeps_def, rule_format, OF r that(1), of "vk_server k" body] that(2) post
      by (simp add: vault_read_def vault_present_def)
  qed
  then have "vault_kept V k (k\<lparr>vk_server := server\<rparr>)" "vault_kept V k k"
    using ok by (auto simp: vault_kept_def vault_present_def vault_stored_def)
  then show ?thesis
    unfolding do_POST_def post Let_def prod.case using Q
    by (auto intro!: wps split: fault.split)
qed

interpretation vks: key_store "VaultKeyStore_Exists V" "VaultKeyStore_Generate V" "VaultKeyStore_Get V"
  "vault_present V" "vault_stored V" "transit_keeps V" vault_ref for V :: "'v vault_prims"
proof unfold_locales
  fix k :: "'v VaultKeyStore" and r alg and w :: "'a world_scheme"
  show "wp (VaultKeyStore_Exists V k r) (\<lambda>a _. \<forall>b. a = Inr b \<longrightarrow> b = vault_present V k r) w"
    by (rule wp_Exists_vault) auto
  assume ok: "transit_keeps V k"
  show "wp (VaultKeyStore_Get V k r) (\<lambda>(a, k') _. transit_keeps V k' \<and>
      (\<forall>sg. a = Inr sg \<longrightarrow> vault_stored V k r = Some sg) \<and>
      (\<forall>r'. vault_present V k' r' = vault_present V k r' \<and> vault_stored V k' r' = vault_stored V k r')) w"
    by (rule wp_Get_vault) (auto simp: ok vault_stored_def)
  assume r: "vault_ref r"
  show "wp (VaultKeyStore_Generate V k r alg) (\<lambda>(a, k') _. transit_keeps V k' \<and>
      (\<forall>sg. a = Inr sg \<longrightarrow> \<not> vault_present V k r \<and> vault_present V k' r \<and> vault_stored V k' r = Some sg) \<and>
      (\<forall>r'. vault_ref r' \<longrightarrow> vault_present V k r' \<longrightarrow> vault_present V k' r' \<and> vault_stored V k' r' = vault_stored V k r')) w"
    unfolding VaultKeyStore_Generate_def using ok
    by (auto simp: vault_kept_def intro!: wp_Exists_vault wp_create_key [OF ok r] wp_Get_vault
        split: sum.split prod.split) (erule read_key_found)+
qed

section \<open>PKCS\#11\<close>

text \<open>What is used of the token library: a session, the lookups by identifier and label, and the
  generation of a pair, which changes the token. A lookup of a single pair may fail, find nothing
  (a nil signer, without an error) or find one.\<close>

record 't p11_prims =
  crypto11_Configure :: "string \<Rightarrow> string \<Rightarrow> int option \<Rightarrow> string \<Rightarrow> 't option"
  FindKeyPairs :: "'t \<Rightarrow> string \<Rightarrow> string \<Rightarrow> signer list option"
  FindKeyPair :: "'t \<Rightarrow> string \<Rightarrow> string \<Rightarrow> signer option option"
  GenerateECDSAKeyPairWithLabel :: "'t \<Rightarrow> string \<Rightarrow> string \<Rightarrow> signer option \<times> 't"
  GenerateRSAKeyPairWithLabel :: "'t \<Rightarrow> string \<Rightarrow> string \<Rightarrow> nat \<Rightarrow> signer option \<times> 't"

record PKCS11Config =
  p11_ModulePath :: string
  p11_TokenLabel :: string
  p11_SlotNumber :: "int option"

definition NewPKCS11KeyStore :: "'t p11_prims \<Rightarrow> PKCS11Config \<Rightarrow> string \<Rightarrow> ks_error + 't" where
  "NewPKCS11KeyStore T cfg pin =
     (case crypto11_Configure T (p11_ModulePath cfg) (p11_TokenLabel cfg) (p11_SlotNumber cfg) pin of
        None \<Rightarrow> Inl (Unconfigured ''pkcs11'')
      | Some t \<Rightarrow> Inr t)"

definition PKCS11KeyStore_Exists ::
    "'t p11_prims \<Rightarrow> 't \<Rightarrow> KeyRef \<Rightarrow> ('x world_scheme, ks_error + bool) state" where
  "PKCS11KeyStore_Exists T t r = do {
     f \<leftarrow> io;
     (if f \<noteq> Runs then ret (Inl IOFailed)
      else case FindKeyPairs T t r r of
        None \<Rightarrow> ret (Inl IOFailed)
      | Some signers \<Rightarrow> ret (Inr (0 < length signers)))
   }"

text \<open>One call that generates: its answer may get lost.\<close>

definition generate_call ::
    "signer option \<times> 't \<Rightarrow> 't \<Rightarrow> ('x world_scheme, (ks_error + signer option) \<times> 't) state" where
  "generate_call outcome t = do {
     f \<leftarrow> io;
     ret (case f of
       Runs \<Rightarrow> (case fst outcome of None \<Rightarrow> (Inl IOFailed, snd outcome) | Some sg \<Rightarrow> (Inr (Some sg), snd outcome))
     | StmtFails \<Rightarrow> (Inl IOFailed, t)
     | AckLost \<Rightarrow> (Inl IOFailed, snd outcome))
   }"

definition PKCS11KeyStore_Generate ::
    "'t p11_prims \<Rightarrow> 't \<Rightarrow> KeyRef \<Rightarrow> Algorithm \<Rightarrow> ('x world_scheme, (ks_error + signer option) \<times> 't) state" where
  "PKCS11KeyStore_Generate T t r alg = do {
     e \<leftarrow> PKCS11KeyStore_Exists T t r;
     (case e of
        Inl err \<Rightarrow> ret (Inl err, t)
      | Inr present \<Rightarrow>
          (if present then ret (Inl (KeyAlreadyExists r), t)
           else if alg = AlgorithmECDSAP256 then generate_call (GenerateECDSAKeyPairWithLabel T t r r) t
           else if alg = AlgorithmRSA2048 then generate_call (GenerateRSAKeyPairWithLabel T t r r 2048) t
           else ret (Inl (UnsupportedAlgorithm alg), t)))
   }"

definition PKCS11KeyStore_Get ::
    "'t p11_prims \<Rightarrow> 't \<Rightarrow> KeyRef \<Rightarrow> ('x world_scheme, (ks_error + signer option) \<times> 't) state" where
  "PKCS11KeyStore_Get T t r = do {
     f \<leftarrow> io;
     (if f \<noteq> Runs then ret (Inl (KeyNotFound r), t)
      else case FindKeyPair T t r r of
        None \<Rightarrow> ret (Inl (KeyNotFound r), t)
      | Some sg \<Rightarrow> ret (Inr sg, t))
   }"

definition p11_present :: "'t p11_prims \<Rightarrow> 't \<Rightarrow> KeyRef \<Rightarrow> bool" where
  "p11_present T t r \<longleftrightarrow> (case FindKeyPairs T t r r of None \<Rightarrow> False | Some signers \<Rightarrow> signers \<noteq> [])"

text \<open>What is relied on of the library: a pair that was generated where there was none is found, and
  generating one leaves the lookups of the pairs that are there under other labels alone.\<close>

definition token_keeps :: "'t p11_prims \<Rightarrow> bool" where
  "token_keeps T \<longleftrightarrow> (\<forall>t r out. out = GenerateECDSAKeyPairWithLabel T t r r \<or> out = GenerateRSAKeyPairWithLabel T t r r 2048 \<longrightarrow>
     (\<forall>sg. fst out = Some sg \<longrightarrow> FindKeyPairs T t r r = Some [] \<longrightarrow>
        p11_present T (snd out) r \<and> FindKeyPair T (snd out) r r = Some (Some sg)) \<and>
     (\<forall>r'. r' \<noteq> r \<longrightarrow> p11_present T t r' \<longrightarrow> p11_present T (snd out) r' \<and> FindKeyPair T (snd out) r' r' = FindKeyPair T t r' r'))"

lemma wp_generate_call:
  assumes "token_keeps T" and "FindKeyPairs T t r r = Some []"
    and "out = GenerateECDSAKeyPairWithLabel T t r r \<or> out = GenerateRSAKeyPairWithLabel T t r r 2048"
  shows "wp (generate_call out t) (\<lambda>(a, t') _.
      (\<forall>sg. a = Inr sg \<longrightarrow> p11_present T t' r \<and> FindKeyPair T t' r r = Some sg) \<and>
      (\<forall>r'. p11_present T t r' \<longrightarrow> p11_present T t' r' \<and> FindKeyPair T t' r' r' = FindKeyPair T t r' r')) w"
proof -
  have "\<not> p11_present T t r"
    using assms(2) by (simp add: p11_present_def)
  then have "r' \<noteq> r" if "p11_present T t r'" for r'
    using that by blast
  with assms(1) [unfolded token_keeps_def, rule_format, OF assms(3)] assms(2) show ?thesis
    unfolding generate_call_def by (auto intro!: wps split: fault.splits option.splits)
qed

interpretation pks: key_store "PKCS11KeyStore_Exists T" "PKCS11KeyStore_Generate T" "PKCS11KeyStore_Get T"
  "p11_present T" "\<lambda>t r. FindKeyPair T t r r" "\<lambda>_. token_keeps T" "\<lambda>_. True" for T :: "'t p11_prims"
proof unfold_locales
  fix t :: 't and r alg and w :: "'a world_scheme"
  show "wp (PKCS11KeyStore_Exists T t r) (\<lambda>a _. \<forall>b. a = Inr b \<longrightarrow> b = p11_present T t r) w"
    unfolding PKCS11KeyStore_Exists_def by (auto simp: p11_present_def intro!: wps split: option.splits)
  assume ok: "token_keeps T"
  show "wp (PKCS11KeyStore_Get T t r) (\<lambda>(a, t') _. token_keeps T \<and>
      (\<forall>sg. a = Inr sg \<longrightarrow> FindKeyPair T t r r = Some sg) \<and>
      (\<forall>r'. p11_present T t' r' = p11_present T t r' \<and> FindKeyPair T t' r' r' = FindKeyPair T t r' r')) w"
    unfolding PKCS11KeyStore_Get_def using ok by (auto intro!: wps split: option.splits)
  show "wp (PKCS11KeyStore_Generate T t r alg) (\<lambda>(a, t') _. token_keeps T \<and>
      (\<forall>sg. a = Inr sg \<longrightarrow> \<not> p11_present T t r \<and> p11_present T t' r \<and> FindKeyPair T t' r r = Some sg) \<and>
      (\<forall>r'. True \<longrightarrow> p11_present T t r' \<longrightarrow> p11_present T t' r' \<and> FindKeyPair T t' r' r' = FindKeyPair T t r' r')) w"
    unfolding PKCS11KeyStore_Generate_def PKCS11KeyStore_Exists_def using ok
    by (auto simp: p11_present_def [of T t r] intro!: wps wp_mono [OF wp_generate_call] split: option.splits)
qed

section \<open>Properties\<close>

text \<open>C38. With Vault's transit engine, \<open>Get\<close> returns the key that \<open>Generate\<close> returned under that reference,
  whatever is generated (under the same name or others) or fetched in between and whatever calls fail or lose their
  answer. Of Vault it is only assumed that creating a key leaves the keys of other plain names alone: a key is
  never created under a name that is taken.\<close>

theorem vault_key_stays:
  assumes "transit_keeps V ka" and "vault_ref ref"
    and "run_state (VaultKeyStore_Generate V ka ref alg) (w :: 'x world_scheme) = ((Inr sg, kb), w1)"
    and "vks.evolves TYPE('x) V kb kc" and "run_state (VaultKeyStore_Get V kc ref) (w2 :: 'x world_scheme) = ((Inr sg', kd), w3)"
  shows "sg' = sg"
  using vks.generated_key_is_kept [OF assms(1,2,3,4,5)] .

text \<open>A server that keeps the body of the first request to create a key as the key.\<close>

definition vault1 :: "(string \<times> string) list vault_prims" where
  "vault1 = \<lparr>v_URLOk = (\<lambda>_. True),
     v_GET = (\<lambda>server u _. case map_of server u of None \<Rightarrow> (404, []) | Some b \<Rightarrow> (200, b)),
     v_POST = (\<lambda>server u _ body. ((204, []), if map_of server u = None then (u, body) # server else server)),
     v_Unmarshal_key = (\<lambda>b. Some \<lparr>vt_Type = ''ecdsa-p256'', vt_LatestVersion = 1, vt_Keys = [(''1'', b)]\<rparr>),
     v_Unmarshal_signature = Some, v_pem_Decode = Some, v_ParsePKIXPublicKey = (\<lambda>_. Some (P256 1 2))\<rparr>"

definition vault_store1 :: "(string \<times> string) list VaultKeyStore" where
  "vault_store1 = \<lparr>vk_addr = ''https://vault'', vk_mount = ''transit'', vk_token = ''t'', vk_server = []\<rparr>"

definition calm :: world where
  "calm = \<lparr>certificates = [], client_roles = [], profiles = [], audit_log = [], acme_eab_tokens = [],
     acme_accounts = [], acme_orders = [], acme_nonces = [], faults = [], clock = 0, clock_tape = [],
     rand_tape = []\<rparr>"

lemma vault1_keeps: "transit_keeps vault1 vault_store1"
  by (auto simp: transit_keeps_def vault1_def split: option.splits)

theorem vault_key_stays_witness:
  "\<exists>sg kb. fst (run_state (VaultKeyStore_Generate vault1 vault_store1 ''tsa'' AlgorithmECDSAP256) calm) = (Inr sg, kb) \<and>
     fst (fst (run_state (VaultKeyStore_Get vault1 kb ''tsa'') calm)) = Inr sg"
proof -
  let ?gen = "run_state (VaultKeyStore_Generate vault1 vault_store1 ''tsa'' AlgorithmECDSAP256) calm"
  let ?kb = "snd (fst ?gen)"
  let ?get = "run_state (VaultKeyStore_Get vault1 ?kb ''tsa'') calm"
  have v: "Int_String 1 = ''1''"
    by code_simp
  note run = VaultKeyStore_Generate_def VaultKeyStore_Exists_def VaultKeyStore_Get_def do_GET_def do_POST_def read_key_def
    vault1_def vault_store1_def calm_def io_def next_fault_def drop_fault_def vaultKeyType_def vaultSignatureParams_def
    keys_path_def vault_url_def AlgorithmECDSAP256_def json_object_def v State_Monad.return_def
  obtain sg where gen: "?gen = ((Inr sg, ?kb), snd ?gen)"
    by (simp add: run)
  obtain sg' where get: "?get = ((Inr sg', snd (fst ?get)), snd ?get)"
    by (simp add: run)
  have "vault_ref ''tsa''"
    by (simp add: vault_ref_def)
  from vault_key_stays [OF vault1_keeps this gen vks.evolves.same get] gen get show ?thesis
    by (metis fst_conv)
qed

text \<open>Signing with a Vault key: if the server answers with \<open>vault:v<version>:<base64>\<close>, then
  \<open>Sign\<close> returns exactly the bytes of the signature; what it sends is the digest, marked as already
  hashed, to the path of the key's own reference.\<close>

lemma vault_sign_decodes:
  assumes "faults w = []" and "v_URLOk V (vault_url k (''sign/'' @ vs_ref sg))"
    and "v_POST V (vk_server k) (vault_url k (''sign/'' @ vs_ref sg)) (vk_token k) (sign_body sg digest) = ((200, body), server)"
    and "v_Unmarshal_signature V body = Some (''vault:v'' @ version @ '':'' @ std64_EncodeToString signature)"
    and "CHR '':'' \<notin> set version"
  shows "run_state (vaultSigner_Sign V k sg digest) w = ((Inr signature, k\<lparr>vk_server := server\<rparr>), w)"
proof -
  have "Cut (CHR '':'') (''vault:v'' @ version @ '':'' @ std64_EncodeToString signature) =
      (''vault'', ''v'' @ version @ '':'' @ std64_EncodeToString signature, True)"
    using Cut_found [of "CHR '':''" "''vault''"] by simp
  moreover have "Cut (CHR '':'') (''v'' @ version @ '':'' @ std64_EncodeToString signature) =
      (''v'' @ version, std64_EncodeToString signature, True)"
    using Cut_found [of "CHR '':''" "''v'' @ version"] assms(5) by simp
  ultimately show ?thesis
    using assms by (simp add: vaultSigner_Sign_def do_POST_def io_def next_fault_def drop_fault_def
        faults_eta std64_roundtrip State_Monad.return_def)
qed

text \<open>With a PKCS\#11 token, \<open>Get\<close> finds the pair that \<open>Generate\<close> returned under that reference, whatever is
  generated or looked up in between and whatever calls fail or lose their answer.\<close>

theorem pkcs11_key_stays:
  assumes "token_keeps T"
    and "run_state (PKCS11KeyStore_Generate T ta ref alg) (w :: 'x world_scheme) = ((Inr sg, tb), w1)"
    and "pks.evolves TYPE('x) T tb tc" and "run_state (PKCS11KeyStore_Get T tc ref) (w2 :: 'x world_scheme) = ((Inr sg', td), w3)"
  shows "sg' = sg"
  using pks.generated_key_is_kept [OF assms(1) TrueI assms(2,3,4)] .

text \<open>A token that holds one pair per label.\<close>

definition token1 :: "(string \<times> signer) list p11_prims" where
  "token1 = \<lparr>crypto11_Configure = (\<lambda>_ _ _ _. Some []),
     FindKeyPairs = (\<lambda>t i l. Some (case map_of t l of None \<Rightarrow> [] | Some sg \<Rightarrow> [sg])),
     FindKeyPair = (\<lambda>t i l. Some (map_of t l)),
     GenerateECDSAKeyPairWithLabel = (\<lambda>t i l. case map_of t l of
        None \<Rightarrow> (Some \<lparr>sg_Public = P256 1 2, sg_secret = l\<rparr>, (l, \<lparr>sg_Public = P256 1 2, sg_secret = l\<rparr>) # t)
      | Some _ \<Rightarrow> (None, t)),
     GenerateRSAKeyPairWithLabel = (\<lambda>t i l n. (None, t))\<rparr>"

lemma token1_keeps: "token_keeps token1"
  by (auto simp: token_keeps_def token1_def p11_present_def split: option.splits)

theorem pkcs11_key_stays_witness:
  "\<exists>sg tb. fst (run_state (PKCS11KeyStore_Generate token1 [] ''tsa'' AlgorithmECDSAP256) calm) = (Inr sg, tb) \<and>
     fst (fst (run_state (PKCS11KeyStore_Get token1 tb ''tsa'') calm)) = Inr sg"
proof -
  let ?gen = "run_state (PKCS11KeyStore_Generate token1 [] ''tsa'' AlgorithmECDSAP256) calm"
  let ?get = "run_state (PKCS11KeyStore_Get token1 (snd (fst ?gen)) ''tsa'') calm"
  note run = PKCS11KeyStore_Generate_def PKCS11KeyStore_Exists_def PKCS11KeyStore_Get_def generate_call_def token1_def
    calm_def io_def next_fault_def drop_fault_def State_Monad.return_def
  obtain sg where gen: "?gen = ((Inr sg, snd (fst ?gen)), snd ?gen)"
    by (simp add: run)
  obtain sg' where get: "?get = ((Inr sg', snd (fst ?get)), snd ?get)"
    by (simp add: run)
  from pkcs11_key_stays [OF token1_keeps gen pks.evolves.same get] gen get show ?thesis
    by (metis fst_conv)
qed

end
