(* ===== verification/Startup.thy ===== *)
theory Startup
  imports Bootstrap Migrate Keystore_Remote
begin

text \<open>
  From the first run to a running service and through restarts, \<open>cmd/trustmated\<close>: what start-up loads
  is what the first run generated, certificate by certificate and key by key.
\<close>

section \<open>Certificates and the keys they are for\<close>

definition paired :: "pki_prims \<Rightarrow> pubkey \<Rightarrow> Certificate \<Rightarrow> bool" where
  "paired P pub c \<longleftrightarrow> ParseCertificate P (x_Raw c) = Some c \<and> x_PublicKey c = pub"

text \<open>What is relied on of \<open>crypto/x509\<close> here is little, but for every template: a certificate that was created for
  a key and parsed names that key, and keeps the bytes it was parsed from.\<close>

definition x509_keys :: "pki_prims \<Rightarrow> bool" where
  "x509_keys P \<longleftrightarrow> (\<forall>tmpl parent pub sg der c.
     CreateCertificate P tmpl parent pub sg = Some der \<longrightarrow> ParseCertificate P der = Some c \<longrightarrow>
     x_PublicKey c = pub \<and> x_Raw c = der)"

lemma sign_template_paired:
  assumes "x509_keys P" and "sign_template P tmpl parent pub sg = Inr c"
  shows "paired P pub c"
proof -
  obtain der where der: "CreateCertificate P tmpl parent pub sg = Some der" "ParseCertificate P der = Some c"
    using assms(2) by (auto simp: sign_template_def split: option.splits)
  then have "x_PublicKey c = pub \<and> x_Raw c = der"
    using assms(1) unfolding x509_keys_def by blast
  then show ?thesis
    using der(2) by (simp add: paired_def)
qed

lemma wp_signed:
  assumes "x509_keys P"
  shows "wp (SelfSignedCA P req sg) (\<lambda>r w'. boot_view w' = boot_view w \<and> (\<forall>c. r = Inr c \<longrightarrow> paired P (sg_Public sg) c)) w"
    and "wp (IssueCA P req iss) (\<lambda>r w'. boot_view w' = boot_view w \<and> (\<forall>c. r = Inr c \<longrightarrow> paired P (cr_PublicKey req) c)) w"
    and "wp (IssueLeaf P p sub pub iss nb na dns) (\<lambda>r w'. boot_view w' = boot_view w \<and> (\<forall>c. r = Inr c \<longrightarrow> paired P pub c)) w"
  unfolding SelfSignedCA_def IssueCA_def IssueLeaf_def LeafTemplate_def
  using sign_template_paired [OF assms]
  by (auto simp: Let_def intro!: wp_kept [OF build_keeps_view] split: sum.splits)

text \<open>The row of an issuer holds its certificate, and the certificate is for the issuer's key.\<close>

definition on_record :: "boot_prims \<Rightarrow> Issuer \<Rightarrow> CertificateRecord \<Rightarrow> bool" where
  "on_record B iss row \<longleftrightarrow> PEM row = encodePEM B (x_Raw (i_Cert iss)) \<and>
     paired (b_pki B) (sg_Public (i_Signer iss)) (i_Cert iss)"

lemma wp_recorded_pair:
  assumes "boot_view v = boot_view w" and "\<And>c. issued = Inr c \<Longrightarrow> paired (b_pki B) (sg_Public sg) c"
  shows "wp (recorded_issuer b B what issued kind pn is ref sg)
     (\<lambda>r w'. \<forall>iss. r = Inr iss \<longrightarrow> i_Signer iss = sg \<and>
        (\<exists>row. adds w w' row \<and> row_for iss kind pn is ref row \<and> on_record B iss row)) v"
  using assms unfolding recorded_issuer_def createCertRecord_def
  by (auto simp: adds_def row_for_def boot_view_def cert_row_def on_record_def intro!: wps)

section \<open>What the first run leaves in the key store\<close>

locale boot_keys = boot_store Exists Generate Get present stored ok ref_ok
  for Exists :: "'k \<Rightarrow> KeyRef \<Rightarrow> ('x world_scheme, ks_error + bool) state"
    and Generate :: "'k \<Rightarrow> KeyRef \<Rightarrow> Algorithm \<Rightarrow> ('x world_scheme, (ks_error + signer) \<times> 'k) state"
    and Get :: "'k \<Rightarrow> KeyRef \<Rightarrow> ('x world_scheme, (ks_error + signer) \<times> 'k) state"
    and present stored ok ref_ok +
  assumes refs_ok: "ref_ok refRoot" "ref_ok IntermediateKeyRef" "ref_ok refServerTLS" "ref_ok refTSA"
    and get_live: "ok k \<Longrightarrow> faults w = [] \<Longrightarrow> stored k r = Some sg \<Longrightarrow>
      \<exists>k'. run_state (Get k r) w = ((Inr sg, k'), w)"
begin

definition kept :: "'k \<Rightarrow> 'k \<Rightarrow> bool" where
  "kept k k' \<longleftrightarrow> ok k' \<and> (\<forall>r. ref_ok r \<longrightarrow> present k r \<longrightarrow> present k' r \<and> stored k' r = stored k r)"

definition holds :: "'k \<Rightarrow> KeyRef \<Rightarrow> Issuer \<Rightarrow> bool" where
  "holds k ref iss \<longleftrightarrow> ref_ok ref \<and> present k ref \<and> stored k ref = Some (i_Signer iss)"

lemma kept_refl: "ok k \<Longrightarrow> kept k k"
  by (simp add: kept_def)

lemma kept_trans: "kept k k1 \<Longrightarrow> kept k1 k2 \<Longrightarrow> kept k k2"
  by (simp add: kept_def)

lemma holds_kept: "holds k ref iss \<Longrightarrow> kept k k' \<Longrightarrow> holds k' ref iss"
  by (simp add: kept_def holds_def)

lemma wp_gen:
  assumes "ok k" and "ref_ok r"
  shows "wp (Generate k r alg) (\<lambda>(a, k') w'. boot_view w' = boot_view w \<and> kept k k' \<and>
    (\<forall>sg. a = Inr sg \<longrightarrow> present k' r \<and> stored k' r = Some sg)) w"
proof -
  have view: "wp (Generate k r alg) (\<lambda>_ w'. boot_view w' = boot_view w) w"
    by (rule wp_kept [OF generate_keeps_view])
  show ?thesis
    by (rule wp_mono [OF wp_conj [OF view generate_new [OF assms]]]) (auto simp: kept_def)
qed

lemma wp_root_key:
  assumes "ok k" and "x509_keys (b_pki B)"
  shows "wp (generateRoot b B Generate cfg k) (\<lambda>(r, k') w'. kept k k' \<and> (\<forall>iss. r = Inr iss \<longrightarrow> holds k' refRoot iss \<and>
     (\<exists>row. adds w w' row \<and> row_for iss CertKindRoot [] [] refRoot row \<and> on_record B iss row))) w"
  unfolding generateRoot_def
  by (auto simp: holds_def refs_ok boot_view_def [symmetric] intro!: wp_mono [OF wp_gen [OF assms(1) refs_ok(1)]]
      wp_kept [OF steps_keep_view(1)] wp_mono [OF wp_signed(1) [OF assms(2)]] wp_mono [OF wp_recorded_pair] split: sum.splits)

lemma wp_intermediate_key:
  assumes "ok k" and "x509_keys (b_pki B)"
  shows "wp (generateIntermediate b B Generate cfg k root) (\<lambda>(r, k') w'. kept k k' \<and>
     (\<forall>iss. r = Inr iss \<longrightarrow> holds k' IntermediateKeyRef iss \<and>
     (\<exists>row. adds w w' row \<and> row_for iss CertKindIntermediate [] (Int_String (SerialNumber (i_Cert root)))
        IntermediateKeyRef row \<and> on_record B iss row))) w"
  unfolding generateIntermediate_def Let_def
  by (auto simp: holds_def refs_ok boot_view_def [symmetric] intro!: wp_mono [OF wp_gen [OF assms(1) refs_ok(2)]]
      wp_kept [OF steps_keep_view(1)] wp_mono [OF wp_signed(2) [OF assms(2)]] wp_mono [OF wp_recorded_pair] split: sum.splits)

lemma wp_server_key:
  assumes "ok k" and "x509_keys (b_pki B)"
  shows "wp (generateServerTLSLeaf b B Generate cfg k intermed) (\<lambda>(r, k') w'. kept k k' \<and>
     (\<forall>iss. r = Inr iss \<longrightarrow> holds k' refServerTLS iss \<and>
     (\<exists>row. adds w w' row \<and> row_for iss CertKindLeaf (p_Name ServerTLS) (Int_String (SerialNumber (i_Cert intermed)))
        refServerTLS row \<and> on_record B iss row))) w"
  unfolding generateServerTLSLeaf_def Let_def
  by (auto simp: holds_def refs_ok boot_view_def [symmetric] intro!: wp_mono [OF wp_gen [OF assms(1) refs_ok(3)]]
      wp_kept [OF steps_keep_view(1)] wp_mono [OF wp_signed(3) [OF assms(2)]] wp_mono [OF wp_recorded_pair] split: sum.splits)

lemma wp_tsa_key:
  assumes "ok k" and "x509_keys (b_pki B)"
  shows "wp (generateTSALeaf b B Generate cfg k intermed) (\<lambda>(r, k') w'. kept k k' \<and>
     (\<forall>iss. r = Inr iss \<longrightarrow> holds k' refTSA iss \<and>
     (\<exists>row. adds w w' row \<and> row_for iss CertKindLeaf (p_Name TSA) (Int_String (SerialNumber (i_Cert intermed)))
        refTSA row \<and> on_record B iss row))) w"
  unfolding generateTSALeaf_def IssueIdentity_def Let_def
  by (auto simp: holds_def refs_ok adds_def row_for_def boot_view_def cert_row_def on_record_def encodePEM_def
      intro!: wp_mono [OF wp_gen [OF assms(1) refs_ok(4)]] wp_kept [OF steps_keep_view(1)]
        wp_mono [OF wp_signed(3) [OF assms(2)]] wp_Certificates_Create split: sum.splits prod.splits)

definition tsa_made :: "boot_prims \<Rightarrow> Config \<Rightarrow> 'k \<Rightarrow> CertificateRecord list \<Rightarrow> bool" where
  "tsa_made B cfg k ts \<longleftrightarrow>
     (if mod_TSA (cfg_Modules cfg)
      then \<exists>t iss x. ts = [t] \<and> row_for iss CertKindLeaf (p_Name TSA) x refTSA t \<and> on_record B iss t \<and> holds k refTSA iss
      else ts = [])"

definition chain_made :: "boot_prims \<Rightarrow> Config \<Rightarrow> 'k \<Rightarrow> 'x world_scheme \<Rightarrow> 'x world_scheme \<Rightarrow> bool" where
  "chain_made B cfg k w w' \<longleftrightarrow> (\<exists>root intermed server r i a s ts x.
     certificates w' = certificates w @ [r, i, a, s] @ ts \<and>
     row_for root CertKindRoot [] [] refRoot r \<and> on_record B root r \<and> holds k refRoot root \<and>
     row_for intermed CertKindIntermediate [] (Serial r) IntermediateKeyRef i \<and> on_record B intermed i \<and>
     holds k IntermediateKeyRef intermed \<and>
     Kind a = CertKindLeaf \<and> ProfileName a = p_Name Default \<and>
     row_for server CertKindLeaf (p_Name ServerTLS) x refServerTLS s \<and> on_record B server s \<and> holds k refServerTLS server \<and>
     tsa_made B cfg k ts)"

lemma wp_finish_keys:
  assumes "ok k" and "x509_keys (b_pki B)"
  shows "wp (finish_run b B Generate cfg k dir root intermed admin server) (\<lambda>(r, k', dir') w'. kept k k' \<and>
     (r = Inr False \<longrightarrow> (\<exists>ts. certificates w' = certificates w @ ts \<and> tsa_made B cfg k' ts))) w"
  unfolding finish_run_def
  by (auto simp: adds_def boot_view_def tsa_made_def kept_refl [OF assms(1)]
      intro!: wp_mono [OF wp_boot_entry] wp_mono [OF wp_tsa_key [OF assms]] wp_kept [OF output_keeps_view]
        wp_mono [OF wp_append_all] wps) blast

lemma chain_madeI:
  assumes "row_for root CertKindRoot [] [] refRoot r" "on_record B root r" "holds k1 refRoot root"
    and "row_for intermed CertKindIntermediate [] (Int_String (SerialNumber (i_Cert root))) IntermediateKeyRef i"
      "on_record B intermed i" "holds k2 IntermediateKeyRef intermed"
    and "row_for admin CertKindLeaf (p_Name Default) z [] a"
    and "row_for server CertKindLeaf (p_Name ServerTLS) x refServerTLS s" "on_record B server s" "holds k3 refServerTLS server"
    and "tsa_made B cfg k ts" and "certificates w' = certificates w @ r # i # a # s # ts"
    and "kept k1 k2" "kept k2 k3" "kept k3 k"
  shows "chain_made B cfg k w w'"
proof -
  have "holds k refRoot root" "holds k IntermediateKeyRef intermed" "holds k refServerTLS server"
    using assms(3,6,10) assms(13-15) by (blast intro: holds_kept kept_trans)+
  moreover have "Serial r = Int_String (SerialNumber (i_Cert root))"
    using assms(1) by (simp add: row_for_def)
  moreover have "Kind a = CertKindLeaf \<and> ProfileName a = p_Name Default"
    using assms(7) by (simp add: row_for_def)
  ultimately show ?thesis
    unfolding chain_made_def using assms(1,2,4,5,8,9,11,12)
    by - (rule exI [of _ root], rule exI [of _ intermed], rule exI [of _ server], rule exI [of _ r], rule exI [of _ i],
        rule exI [of _ a], rule exI [of _ s], rule exI [of _ ts], rule exI [of _ x], simp)
qed

lemma kept_ok: "kept k k' \<Longrightarrow> ok k'"
  by (simp add: kept_def)

lemma wp_run_keys:
  assumes "ok k" and "x509_keys (b_pki B)"
  shows "wp (Bootstrap_Run b B Generate cfg k dir) (\<lambda>(r, k', dir') w'. kept k k' \<and>
     (r = Inr False \<longrightarrow> chain_made B cfg k' w w')) w"
  unfolding Bootstrap_Run_def persistDefaultProfiles_def
  using kept_refl [OF assms(1)]
  by (auto simp: adds_def boot_view_def assms
      intro!: wp_mono [OF wp_root_key] wp_mono [OF wp_intermediate_key] wp_mono [OF wp_server_key]
        wp_mono [OF wp_generateAdminLeaf] wp_mono [OF wp_finish_keys] wp_kept [OF profiles_keep_view] wps)
    ((rule chain_madeI; assumption) | blast intro: kept_ok kept_trans)+

end

section \<open>Loading it again\<close>

definition pem_faithful :: "pki_prims \<Rightarrow> bool" where
  "pem_faithful P \<longleftrightarrow> (\<forall>d. pem_Decode P (pem_Encode P d) = Some d)"

lemma on_record_parses:
  "pem_faithful (b_pki B) \<Longrightarrow> on_record B iss rec \<Longrightarrow> derFromPEM B (PEM rec) = Some (x_Raw (i_Cert iss))"
  "pem_faithful (b_pki B) \<Longrightarrow> on_record B iss rec \<Longrightarrow>
     Option.bind (derFromPEM B (PEM rec)) (ParseCertificate (b_pki B)) = Some (i_Cert iss)"
  by (simp_all add: on_record_def paired_def pem_faithful_def derFromPEM_def encodePEM_def)

lemma cert_le_row: "cert_le r r' \<Longrightarrow> Kind r' = Kind r \<and> PEM r' = PEM r \<and> ProfileName r' = ProfileName r \<and>
    CertificateRecord.KeyRef r' = CertificateRecord.KeyRef r \<and> CreatedAt r' = CreatedAt r"
  by (cases r; cases r') (auto simp: cert_le_def)

lemma on_record_le: "cert_le r r' \<Longrightarrow> on_record B iss r' = on_record B iss r"
  by (simp add: on_record_def cert_le_row)

text \<open>The CA's own certificates: a service that adds none finds the ones of the first run.\<close>

definition ca_rows :: "'x world_scheme \<Rightarrow> CertificateRecord list" where
  "ca_rows w = filter (\<lambda>r. Kind r \<noteq> CertKindLeaf) (certificates w)"

lemma ca_rows_found:
  assumes "certificates w = r # i # leaves" and "Kind r = CertKindRoot" and "Kind i = CertKindIntermediate"
    and "\<forall>c\<in>set leaves. Kind c = CertKindLeaf"
    and "ledger_le w v" and "map Serial (ca_rows v) = map Serial (ca_rows w)"
  shows "\<exists>r' i'. select_by_kind CertKindRoot v = [r'] \<and> select_by_kind CertKindIntermediate v = [i'] \<and> cert_le r r' \<and> cert_le i i'"
proof -
  note kinds = CertKindRoot_def CertKindIntermediate_def CertKindLeaf_def
  have "rows_le cert_le (r # i # leaves) (certificates v)"
    using assms(1,5) by (simp add: ledger_le_def grows_def)
  then obtain r' i' rest where v: "certificates v = r' # i' # rest" and le: "cert_le r r'" "cert_le i i'"
    by (cases "certificates v"; cases "tl (certificates v)") (force simp: rows_le_def)+
  have "length (ca_rows v) = length (ca_rows w)"
    using assms(6) by (metis length_map)
  then have "filter (\<lambda>c. Kind c \<noteq> CertKindLeaf) rest = []"
    using assms(1-4) v le cert_le_row by (simp add: ca_rows_def filter_empty_conv kinds)
  then have "\<forall>c\<in>set rest. Kind c = CertKindLeaf"
    by (simp add: filter_empty_conv)
  then have "filter (\<lambda>c. Kind c = CertKindRoot) rest = []" "filter (\<lambda>c. Kind c = CertKindIntermediate) rest = []"
    by (auto simp: filter_empty_conv kinds)
  then have "select_by_kind CertKindRoot v = [r']" "select_by_kind CertKindIntermediate v = [i']"
    using assms(2,3) v cert_le_row [OF le(1)] cert_le_row [OF le(2)] by (simp_all add: select_by_kind_def kinds)
  then show ?thesis
    using le by blast
qed

lemma newest_found:
  "faults v = [] \<Longrightarrow> select_by_kind kind v = [row] \<Longrightarrow> run_state (newest_of_kind b kind) v = (Inr row, v)"
  by (cases b) (simp_all add: newest_of_kind_def method_bodies effects scan_rows_def State_Monad.return_def)

context boot_keys
begin

lemma issuer_from_found:
  assumes "pem_faithful (b_pki B)" and "on_record B iss rec" and "ok k" and "stored k ref = Some (i_Signer iss)"
    and "faults v = []"
  shows "\<exists>k'. run_state (issuer_from B Get k rec ref) v = ((Inr iss, k'), v)"
  using get_live [OF assms(3,5,4)] on_record_parses(2) [OF assms(1,2)]
  by (auto simp: issuer_from_def State_Monad.return_def)

lemma tsa_made_kept: "tsa_made B cfg k ts \<Longrightarrow> kept k k' \<Longrightarrow> tsa_made B cfg k' ts"
  unfolding tsa_made_def by (auto split: if_splits intro: holds_kept)

lemma chain_made_kept: "chain_made B cfg k w w' \<Longrightarrow> kept k k' \<Longrightarrow> chain_made B cfg k' w w'"
  unfolding chain_made_def
  by (elim exE conjE, intro exI conjI; (assumption | rule holds_kept, assumption, assumption | rule tsa_made_kept, assumption, assumption))

lemma issuers_found:
  assumes "chain_made B cfg k w w'" and "certificates w = []" and "ok k" and "pem_faithful (b_pki B)"
    and "ledger_le w' v" and "map Serial (ca_rows v) = map Serial (ca_rows w')" and "faults v = []"
  shows "\<exists>root intermed r i k1 k2. holds k refRoot root \<and> holds k IntermediateKeyRef intermed \<and>
    r \<in> set (certificates w') \<and> Kind r = CertKindRoot \<and> on_record B root r \<and>
    i \<in> set (certificates w') \<and> Kind i = CertKindIntermediate \<and> on_record B intermed i \<and>
    run_state (LoadRootIssuer b B Get k) v = ((Inr root, k1), v) \<and>
    run_state (LoadIntermediateIssuer b B Get k) v = ((Inr intermed, k2), v)"
proof -
  obtain root intermed r i leaves where rows: "certificates w' = r # i # leaves" "\<forall>c\<in>set leaves. Kind c = CertKindLeaf"
    and R: "Kind r = CertKindRoot" "on_record B root r" "holds k refRoot root"
    and I: "Kind i = CertKindIntermediate" "on_record B intermed i" "holds k IntermediateKeyRef intermed"
    using assms(1,2) unfolding chain_made_def tsa_made_def row_for_def by (auto split: if_splits)
  obtain r' i' where found: "select_by_kind CertKindRoot v = [r']" "select_by_kind CertKindIntermediate v = [i']"
    and le: "cert_le r r'" "cert_le i i'"
    using ca_rows_found [OF rows(1) R(1) I(1) rows(2) assms(5,6)] by blast
  obtain k1 where "run_state (issuer_from B Get k r' refRoot) v = ((Inr root, k1), v)"
    using issuer_from_found [OF assms(4) _ assms(3) _ assms(7)] R on_record_le [OF le(1)] by (metis holds_def)
  moreover obtain k2 where "run_state (issuer_from B Get k i' IntermediateKeyRef) v = ((Inr intermed, k2), v)"
    using issuer_from_found [OF assms(4) _ assms(3) _ assms(7)] I on_record_le [OF le(2)] by (metis holds_def)
  ultimately show ?thesis
    using R I newest_found [OF assms(7) found(1)] newest_found [OF assms(7) found(2)]
    by - (rule exI [of _ root], rule exI [of _ intermed], rule exI [of _ r], rule exI [of _ i],
        simp add: LoadRootIssuer_def LoadIntermediateIssuer_def rows)
qed

end

section \<open>With the file store\<close>

lemma file_store_live:
  assumes "fks_ok P ks" and "faults w = []" and "fks_stored P ks r = Some sg"
  shows "\<exists>ks'. run_state (FileKeyStore_Get P ks r) w = ((Inr sg, ks'), w)"
proof (cases "map_of (fk_cached ks) r")
  case (Some sg')
  then show ?thesis
    using fks_cached_stored [OF assms(1) Some] assms(3) by (simp add: FileKeyStore_Get_def State_Monad.return_def)
next
  case None
  then show ?thesis
    using assms(2,3) by (auto simp: FileKeyStore_Get_def fks_stored_def io_def next_fault_def drop_fault_def
        faults_eta State_Monad.return_def split: option.splits sum.splits)
qed

interpretation bk: boot_keys FileKeyStore_Exists "FileKeyStore_Generate P" "FileKeyStore_Get P"
  fks_present "fks_stored P" "fks_ok P" "\<lambda>_. True" for P
  by unfold_locales (auto intro: file_store_live)

lemma fks_restart:
  "fks_ok P ks \<Longrightarrow> fks_ok P (ks\<lparr>fk_cached := []\<rparr>)"
  "fks_stored P (ks\<lparr>fk_cached := []\<rparr>) = fks_stored P ks"
  "fks_present (ks\<lparr>fk_cached := []\<rparr>) = fks_present ks"
  by (auto simp: fks_ok_def fun_eq_iff fks_present_def fks_stored_def path_def cong: option.case_cong)

end
