(* ===== verification/Leaves_Only.thy ===== *)
theory Leaves_Only
  imports Access_Control Startup
begin

text \<open>
  No request adds to the CA's own certificates: whatever the service does after the first run, root
  and intermediate stay the ones that start-up loads.
\<close>

definition ca_list :: "CertificateRecord list \<Rightarrow> string list" where
  "ca_list rows = map Serial (filter (\<lambda>r. Kind r \<noteq> CertKindLeaf) rows)"

definition ca_serials :: "'x world_scheme \<Rightarrow> string list" where
  "ca_serials w = ca_list (certificates w)"

lemma ca_serials_rows: "ca_serials w = map Serial (ca_rows w)"
  by (simp add: ca_serials_def ca_list_def ca_rows_def)

lemma ca_list_simps [simp]:
  "ca_list (revoke_rows x reason at rows) = ca_list rows"
  "Kind rec = CertKindLeaf \<Longrightarrow> ca_list (rows @ [cert_row b rec]) = ca_list rows"
  by (induction rows) (auto simp: ca_list_def revoke_rows_def update_where_def cert_row_def)

lemma reads_keep_ca [keeps]:
  "state_io_rel (unchanged ca_serials) (QueryContext q)"
  "state_io_rel (unchanged ca_serials) time_Now"
  "state_io_rel (unchanged ca_serials) (rand_Read n)"
  "state_io_rel (unchanged ca_serials) io"
  "state_io_rel (unchanged ca_serials) (Certificates_GetBySerial b x)"
  "state_io_rel (unchanged ca_serials) (Certificates_FindByKind b k)"
  "state_io_rel (unchanged ca_serials) (Certificates_FindRevoked b)"
  "state_io_rel (unchanged ca_serials) (ClientRoles_Get b x)"
  "state_io_rel (unchanged ca_serials) (ClientRoles_List b)"
  "state_io_rel (unchanged ca_serials) (Profiles_Get b x)"
  "state_io_rel (unchanged ca_serials) (Audit_List b l)"
  "state_io_rel (unchanged ca_serials) (ACMEEABTokens_Get b x)"
  "state_io_rel (unchanged ca_serials) (ACMEAccounts_GetByThumbprint b x)"
  "state_io_rel (unchanged ca_serials) (ACMEAccounts_GetByID b x)"
  "state_io_rel (unchanged ca_serials) (ACMEOrders_Get b x)"
  by (rule unchangedI; auto simp: ca_serials_def intro!: wps)+

lemma writes_keep_ca [keeps]:
  "Kind rec = CertKindLeaf \<Longrightarrow> state_io_rel (unchanged ca_serials) (Certificates_Create b rec)"
  "state_io_rel (unchanged ca_serials) (Certificates_Revoke b x reason at)"
  "state_io_rel (unchanged ca_serials) (ClientRoles_Assign b role)"
  "state_io_rel (unchanged ca_serials) (Profiles_Upsert b prof)"
  "state_io_rel (unchanged ca_serials) (Audit_Append b e)"
  "state_io_rel (unchanged ca_serials) (ACMEEABTokens_Create b tok)"
  "state_io_rel (unchanged ca_serials) (ACMEEABTokens_MarkConsumed b x now)"
  "state_io_rel (unchanged ca_serials) (ACMEAccounts_Create b acct)"
  "state_io_rel (unchanged ca_serials) (ACMEOrders_Create b ord)"
  "state_io_rel (unchanged ca_serials) (ACMEOrders_UpdateStatus b x from to serial)"
  "state_io_rel (unchanged ca_serials) (ACMENonces_Issue b t)"
  "state_io_rel (unchanged ca_serials) (ACMENonces_ConsumeIfValid b x t)"
  by (rule unchangedI; auto simp: ca_serials_def intro!: wps)+

lemma memory_keeps_ca [keeps]: "state_io_rel (unchanged ca_serials) (meter g)"
  by (rule unchangedI) (simp add: ca_serials_def)

lemma unchanged_ca_sys [simp]:
  "unchanged ca_serials s (s\<lparr>s_CRLBuilder := x\<rparr>)" "unchanged ca_serials s (s\<lparr>s_RootCRLBuilder := x\<rparr>)"
  "unchanged ca_serials s (s\<lparr>s_TSAResponder := y\<rparr>)" "unchanged ca_serials s (s\<lparr>s_Profiles := z\<rparr>)"
  "unchanged ca_serials s (s\<lparr>s_KeyStore := ks\<rparr>)"
  by (simp_all add: unchanged_def ca_serials_def)

section \<open>Every handler\<close>

lemma builder_keeps_ca [keeps]:
  "state_io_rel (unchanged ca_serials) (LeafTemplate p sub pub nb na dns)"
  "state_io_rel (unchanged ca_serials) (IssueLeaf P p sub pub iss nb na dns)"
  unfolding IssueLeaf_def LeafTemplate_def buildTemplate_def GenerateSerial_def
  by (auto simp: Let_def intro!: keeps)

lemma issue_keeps_ca [keeps]:
  "state_io_rel (unchanged ca_serials) (issueLeafCertificate deps p sub pub dns now actor act det)"
  "state_io_rel (unchanged ca_serials) (assignRoleOrRevoke deps rec role now)"
  unfolding issueLeafCertificate_def assignRoleOrRevoke_def by (auto simp: Let_def intro!: keeps)

lemma open_handlers_keep_ca [keeps]:
  "state_io_rel (unchanged ca_serials) (handleHealthz deps r)"
  "state_io_rel (unchanged ca_serials) (handleReadyz deps (Some ready) r)"
  "state_io_rel (unchanged ca_serials) (handleMetrics deps r)"
  "state_io_rel (unchanged ca_serials) (handleCAPem deps kind r)"
  "state_io_rel (unchanged ca_serials) (handleCRL deps r)"
  "state_io_rel (unchanged ca_serials) (handleOCSP deps r)"
  "state_io_rel (unchanged ca_serials) (handleTSA deps r)"
  "state_io_rel (unchanged ca_serials) (handleOpenAPI deps r)"
  "state_io_rel (unchanged ca_serials) (handleLLMsTxt deps r)"
  unfolding open_handler_defs
  by (auto simp: Let_def intro!: keeps keeps_modify split: prod.splits sum.splits store_error.splits)

lemma manager_handlers_keep_ca [keeps]:
  "state_io_rel (unchanged ca_serials) (handleIssueCertificate deps r)"
  "state_io_rel (unchanged ca_serials) (handleGetCertificate deps r)"
  "state_io_rel (unchanged ca_serials) (handleRevokeCertificate deps r)"
  "state_io_rel (unchanged ca_serials) (handleListProfiles deps r)"
  unfolding handleIssueCertificate_def lookupProfile_def profileNames_def
    count_issued_def handleGetCertificate_def handleRevokeCertificate_def handleListProfiles_def
  by (auto simp: Let_def intro!: keeps keeps_modify)

lemma list_clients_keeps_ca [keeps]: "state_io_rel (unchanged ca_serials) (list_clients deps out roles)"
  by (induction roles arbitrary: out) (auto intro!: keeps)

lemma registry_keeps_ca [keeps]:
  "state_io_rel (unchanged ca_serials) (upsert_all b Marshal acc todo)"
  by (induction b Marshal acc todo rule: upsert_all.induct) (auto simp: upsertVersioned_def Let_def intro!: keeps)

lemma reload_keeps_ca [keeps]:
  "state_io_rel (unchanged ca_serials) (Registry_Load b Marshal pd walk dir files reg)"
  unfolding Registry_Load_def by (auto intro!: keeps)

lemma key_store_keeps_ca [keeps]:
  "state_io_rel (unchanged ca_serials) (FileKeyStore_Exists ks x)"
  "state_io_rel (unchanged ca_serials) (FileKeyStore_Generate P ks x alg)"
  unfolding FileKeyStore_Generate_def FileKeyStore_Exists_def generateKey_def writeKeyFileAtomic_def
  by (auto simp: Let_def intro!: keeps split: option.splits)

lemma fresh_ref_keeps_ca [keeps]: "state_io_rel (unchanged ca_serials) (FreshRef (FileKeyStore_Exists ks) pre)"
proof -
  have "state_io_rel (unchanged ca_serials) (fresh_ref_loop (FileKeyStore_Exists ks) pre n)" for n
    by (induction n) (auto simp: Let_def intro!: keeps)
  then show ?thesis
    by (simp add: FreshRef_def)
qed

lemma acme_steps_keep_ca [keeps]:
  "state_io_rel (unchanged ca_serials) (issueAndAttachNonce deps)"
  "state_io_rel (unchanged ca_serials) randomACMEID"
  "state_io_rel (unchanged ca_serials) (resolveACMEAccount deps jws)"
  unfolding issueAndAttachNonce_def randomACMEID_def resolveACMEAccount_def
  by (auto simp: Let_def intro!: keeps)

lemma admin_handlers_keep_ca [keeps]:
  "state_io_rel (unchanged ca_serials) (handleReloadProfiles deps r)"
  "state_io_rel (unchanged ca_serials) (handleIssueClient deps r)"
  "state_io_rel (unchanged ca_serials) (handleListClients deps r)"
  "state_io_rel (unchanged ca_serials) (handleListAudit deps r)"
  "state_io_rel (unchanged ca_serials) (handleRotateTSA deps r)"
  "state_io_rel (unchanged ca_serials) (handleIssueEABToken deps r)"
  unfolding handleReloadProfiles_def handleIssueClient_def handleListClients_def handleListAudit_def
    handleRotateTSA_def IssueIdentity_def handleIssueEABToken_def count_issued_def
  by (auto simp: Let_def intro!: keeps keeps_modify)

lemma acme_answers_keep_ca [keeps]:
  "state_io_rel (unchanged ca_serials) (acmeProblem deps st t d)"
  "state_io_rel (unchanged ca_serials) (acmeJSON deps st hs v)"
  "state_io_rel (unchanged ca_serials) (serverInternal deps)"
  "state_io_rel (unchanged ca_serials) (orderNotReady deps)"
  unfolding serverInternal_def orderNotReady_def acmeProblem_def acmeJSON_def
  by (auto intro!: keeps)

lemma acme_parts_keep_ca [keeps]:
  "state_io_rel (unchanged ca_serials) (account_problem deps e)"
  "state_io_rel (unchanged ca_serials) (verifiedJWS deps r u)"
  "state_io_rel (unchanged ca_serials) (createAccount deps r jws t tok now)"
  "state_io_rel (unchanged ca_serials) (getOrderOr404 deps i d)"
  "state_io_rel (unchanged ca_serials) (finalizeClaimed deps acct ord csr)"
  unfolding account_problem_def verifiedJWS_def createAccount_def getOrderOr404_def finalizeClaimed_def
    count_issued_def
  by (cases e; auto simp: Let_def intro!: keeps)+

lemma acme_binding_keeps_ca [keeps]:
  "state_io_rel (unchanged ca_serials) (bindAccount deps r jws t e)"
  "state_io_rel (unchanged ca_serials) (finalizeReady deps jws acct ord)"
  unfolding bindAccount_def finalizeReady_def by (auto simp: Let_def intro!: keeps)

lemma acme_handlers_keep_ca [keeps]:
  "state_io_rel (unchanged ca_serials) (handleACMEDirectory deps r)"
  "state_io_rel (unchanged ca_serials) (handleACMENewNonce deps r)"
  "state_io_rel (unchanged ca_serials) (handleACMENewAccount deps r)"
  "state_io_rel (unchanged ca_serials) (handleACMENewOrder deps r)"
  "state_io_rel (unchanged ca_serials) (handleACMEGetOrder deps r)"
  "state_io_rel (unchanged ca_serials) (handleACMEFinalize deps r)"
  "state_io_rel (unchanged ca_serials) (handleACMEGetAuthorization deps r)"
  "state_io_rel (unchanged ca_serials) (handleACMECertificate deps r)"
  unfolding handleACMEDirectory_def handleACMENewNonce_def handleACMENewAccount_def handleACMENewOrder_def
    handleACMEGetOrder_def handleACMEFinalize_def handleACMEGetAuthorization_def handleACMECertificate_def
  by (auto simp: Let_def intro!: keeps split: list.splits)

lemma requireRole_keeps_ca [keeps]:
  "state_io_rel (unchanged ca_serials) (h r) \<Longrightarrow> state_io_rel (unchanged ca_serials) (requireRole deps least h r)"
  unfolding requireRole_def by (auto simp: Let_def intro!: keeps)

lemma serve_keeps_ca: "state_io_rel (unchanged ca_serials) (serve deps r)"
proof (rule serve_rel)
  fix rt v
  assume "rt \<in> set (NewRouter deps)"
  then show "state_io_rel (unchanged ca_serials) (rt_Handler rt (r\<lparr>q_PathValue := v\<rparr>))"
    by (auto simp: NewRouter_def Let_def route_defs route_def intro!: keeps split: if_splits)
qed (simp add: unchanged_def)

lemma serve_all_keeps_ca: "state_io_rel (unchanged ca_serials) (serve_all deps rs)"
  by (induction rs) (auto intro!: keeps serve_keeps_ca)

end
