(* ===== verification/Daemon.thy ===== *)
theory Daemon
  imports Router Startup
begin

text \<open>
  The server process, \<open>cmd/trustmated\<close>: opening of the datastore (\<open>internal/store/sqlite/sqlite.go\<close>,
  \<open>internal/store/postgres/postgres.go\<close>, with the migrations of both) and of the key store, the first
  run under the exclusive lock, and the order in which \<open>main\<close> loads what the router needs. The state
  is the database with its migration table. Listening, signals and shutdown are not part of it.
\<close>

section \<open>Opening the datastore\<close>

text \<open>\<open>sql_Open driver dsn\<close> tells whether the driver accepts the data source name, \<open>filepath_Dir\<close> is that
  function of \<open>path/filepath\<close>; each backend comes with its directory of scripts.\<close>

record 'd db_prims =
  sql_Open :: "string \<Rightarrow> string \<Rightarrow> bool"
  filepath_Dir :: "string \<Rightarrow> string"
  exec_script :: "string \<Rightarrow> 'd \<Rightarrow> 'd option"
  sqlite_scripts :: "(string \<Rightarrow> string option) \<times> (string \<times> bool) list"
  pg_scripts :: "(string \<Rightarrow> string option) \<times> (string \<times> bool) list"
  pg_enc :: "time \<Rightarrow> time"

datatype open_error = OpenDir string | OpenRefused string | OpenPragma | OpenMigration mig_error

definition sqlite_runMigrations :: "'d db_prims \<Rightarrow> ('d mig_db, mig_error + unit) state" where
  "sqlite_runMigrations D = Migrate_Run (exec_script D) (fst (sqlite_scripts D)) (snd (sqlite_scripts D))"

definition pg_runMigrations :: "'d db_prims \<Rightarrow> ('d mig_db, mig_error + unit) state" where
  "pg_runMigrations D = Migrate_Run (exec_script D) (fst (pg_scripts D)) (snd (pg_scripts D))"

definition sqlite_Open :: "'d db_prims \<Rightarrow> string \<Rightarrow> ('d mig_db, open_error + backend) state" where
  "sqlite_Open D dsn = do {
     f \<leftarrow> (if filepath_Dir D dsn \<noteq> ''.'' then io else ret Runs);
     (if f \<noteq> Runs then ret (Inl (OpenDir dsn))
      else if \<not> sql_Open D ''sqlite'' dsn then ret (Inl (OpenRefused dsn))
      else do {
        pragma \<leftarrow> ExecContext (\<lambda>w. Inr (0, w));
        (case pragma of
           Inl _ \<Rightarrow> ret (Inl OpenPragma)
         | Inr _ \<Rightarrow> do {
             m \<leftarrow> sqlite_runMigrations D;
             (case m of Inl e \<Rightarrow> ret (Inl (OpenMigration e)) | Inr _ \<Rightarrow> ret (Inr Sqlite))
           })
      })
   }"

definition pg_Open :: "'d db_prims \<Rightarrow> string \<Rightarrow> ('d mig_db, open_error + backend) state" where
  "pg_Open D dsn =
     (if \<not> sql_Open D ''pgx'' dsn then ret (Inl (OpenRefused dsn))
      else do {
        m \<leftarrow> pg_runMigrations D;
        (case m of Inl e \<Rightarrow> ret (Inl (OpenMigration e)) | Inr _ \<Rightarrow> ret (Inr (Postgres (pg_enc D))))
      })"

definition openStore :: "'d db_prims \<Rightarrow> StoreConfig \<Rightarrow> ('d mig_db, open_error + backend) state" where
  "openStore D cfg =
     (if store_Driver cfg = ''postgres'' then pg_Open D (store_DSN cfg) else sqlite_Open D (store_DSN cfg))"

section \<open>Opening the key store\<close>

datatype ('v, 't) opened = OpenedVault "'v VaultKeyStore" | OpenedPKCS11 't | OpenedFile FileKeyStore

text \<open>\<open>pkcs11_built\<close>: whether the binary was built with PKCS\#11 support; without it the driver is refused.\<close>

definition newPKCS11KeyStore ::
    "bool \<Rightarrow> 't p11_prims \<Rightarrow> (string \<Rightarrow> string option) \<Rightarrow> (string \<Rightarrow> string option) \<Rightarrow> PKCS11KeystoreConfig \<Rightarrow> ks_error + 't" where
  "newPKCS11KeyStore pkcs11_built T env readFile cfg =
     (if \<not> pkcs11_built then Inl (Unconfigured ''pkcs11 support not compiled in'')
      else case LoadPKCS11PIN env readFile of
        Inl e \<Rightarrow> Inl e
      | Inr pin \<Rightarrow> NewPKCS11KeyStore T
          \<lparr>p11_ModulePath = ModulePath cfg, p11_TokenLabel = TokenLabel cfg, p11_SlotNumber = SlotNumber cfg\<rparr> pin)"

definition openKeyStore ::
    "bool \<Rightarrow> 't p11_prims \<Rightarrow> 'v \<Rightarrow> (string \<times> file_content) list \<Rightarrow> (string \<Rightarrow> string option) \<Rightarrow> (string \<Rightarrow> string option) \<Rightarrow>
     KeystoreConfig \<Rightarrow> ('x world_scheme, ks_error + ('v, 't) opened) state" where
  "openKeyStore pkcs11_built T server disk env readFile cfg =
     (if ks_Driver cfg = ''vault'' then
        (case LoadVaultToken env readFile of
           Inl e \<Rightarrow> ret (Inl e)
         | Inr token \<Rightarrow>
             (case NewVaultKeyStore server
                \<lparr>vc_Address = v_Address (ks_Vault cfg), vc_TransitMount = v_TransitMount (ks_Vault cfg)\<rparr> token of
                Inl e \<Rightarrow> ret (Inl e)
              | Inr k \<Rightarrow> ret (Inr (OpenedVault k))))
      else if ks_Driver cfg = ''pkcs11'' then
        (case newPKCS11KeyStore pkcs11_built T env readFile (ks_PKCS11 cfg) of
           Inl e \<Rightarrow> ret (Inl e)
         | Inr t \<Rightarrow> ret (Inr (OpenedPKCS11 t)))
      else
        (case LoadKEK env readFile of
           Inl e \<Rightarrow> ret (Inl e)
         | Inr kek \<Rightarrow> do {
             k \<leftarrow> NewFileKeyStore (ks_Dir cfg) kek disk;
             (case k of Inl e \<Rightarrow> ret (Inl e) | Inr k \<Rightarrow> ret (Inr (OpenedFile k)))
           }))"

section \<open>The exclusive lock\<close>

definition WithAdvisoryLock :: "'a \<Rightarrow> ('x world_scheme, 'a) state \<Rightarrow> ('x world_scheme, 'a) state" where
  "WithAdvisoryLock failed fn = do {
     conn \<leftarrow> QueryContext (\<lambda>_. ());
     (case conn of
        Inl _ \<Rightarrow> ret failed
      | Inr _ \<Rightarrow> do {
          locked \<leftarrow> ExecContext (\<lambda>w. Inr (1, w));
          (case locked of
             Inl _ \<Rightarrow> ret failed
           | Inr _ \<Rightarrow> do {
               r \<leftarrow> fn;
               _ \<leftarrow> ExecContext (\<lambda>w. Inr (1, w));
               ret r
             })
        })
   }"

definition WithExclusiveLock :: "backend \<Rightarrow> 'a \<Rightarrow> ('x world_scheme, 'a) state \<Rightarrow> ('x world_scheme, 'a) state" where
  "WithExclusiveLock b failed fn = (case b of Sqlite \<Rightarrow> fn | Postgres _ \<Rightarrow> WithAdvisoryLock failed fn)"

section \<open>Start-up\<close>

datatype start_error =
    StartConfig config_error
  | StartStore open_error
  | StartKeys ks_error
  | StartBootstrap boot_error
  | StartLock
  | StartTLS boot_error
  | StartIntermediate boot_error
  | StartRoot boot_error
  | StartTSA boot_error
  | StartProfiles profile_error

definition runBootstrap ::
    "backend \<Rightarrow> boot_prims \<Rightarrow>
     ('k \<Rightarrow> KeyRef \<Rightarrow> Algorithm \<Rightarrow> ('x world_scheme, (ks_error + signer) \<times> 'k) state) \<Rightarrow>
     Config \<Rightarrow> 'k \<Rightarrow> output_dir \<Rightarrow> ('x world_scheme, (start_error + unit) \<times> 'k \<times> output_dir) state" where
  "runBootstrap b B gen cfg ks dir = WithExclusiveLock b (Inl StartLock, ks, dir) (do {
     (r, ks', dir') \<leftarrow> Bootstrap_Run b B gen cfg ks dir;
     ret (case r of Inl e \<Rightarrow> Inl (StartBootstrap e) | Inr _ \<Rightarrow> Inr (), ks', dir')
   })"

record service =
  sv_cfg :: Config
  sv_store :: backend
  sv_tls :: tls_Config
  sv_intermediate :: Issuer
  sv_root :: Issuer
  sv_mods :: ModuleConfig
  sv_tsa :: "Responder option"
  sv_profiles :: Registry

definition mods_of :: "Config \<Rightarrow> ModuleConfig" where
  "mods_of cfg = \<lparr>EnableRevocation = mod_Revocation (cfg_Modules cfg), EnableTSA = mod_TSA (cfg_Modules cfg),
     EnableACME = mod_ACME (cfg_Modules cfg), EnableDiscovery = mod_Discovery (cfg_Modules cfg)\<rparr>"

text \<open>What profiles need: JSON of a profile, durations, the order of a map, and the files of the directory.\<close>

record reg_prims =
  rp_Marshal :: "Profile \<Rightarrow> string"
  rp_ParseDuration :: "string \<Rightarrow> duration option"
  rp_walk :: "(string \<times> Profile) list \<Rightarrow> (string \<times> Profile) list"
  rp_files :: "(string \<times> profile_file) list"

definition load_tsa ::
    "backend \<Rightarrow> boot_prims \<Rightarrow> ('k \<Rightarrow> KeyRef \<Rightarrow> ('x world_scheme, (ks_error + signer) \<times> 'k) state) \<Rightarrow> Config \<Rightarrow>
     Issuer \<Rightarrow> 'k \<Rightarrow> ('x world_scheme, (start_error + Responder option) \<times> 'k) state" where
  "load_tsa b B get cfg intermed ks =
     (if \<not> mod_TSA (cfg_Modules cfg) then ret (Inr None, ks)
      else do {
        (t, ks') \<leftarrow> LoadTSAIssuer b B get ks;
        (case t of
           Inl e \<Rightarrow> ret (Inl (StartTSA e), ks')
         | Inr tsaIssuer \<Rightarrow> ret (Inr (Some (NewResponder tsaIssuer (Some (i_Cert intermed)))), ks'))
      })"

text \<open>The part of \<open>main\<close> between the first run and the router, and the two together.\<close>

definition load_service ::
    "backend \<Rightarrow> boot_prims \<Rightarrow> ('k \<Rightarrow> KeyRef \<Rightarrow> ('x world_scheme, (ks_error + signer) \<times> 'k) state) \<Rightarrow> reg_prims \<Rightarrow>
     Config \<Rightarrow> 'k \<Rightarrow> ('x world_scheme, (start_error + service) \<times> 'k) state" where
  "load_service b B get R cfg ks1 = do {
     (t, ks2) \<leftarrow> LoadServerTLSConfig b B get ks1;
     (case t of
        Inl e \<Rightarrow> ret (Inl (StartTLS e), ks2)
      | Inr tls \<Rightarrow> do {
          (i, ks3) \<leftarrow> LoadIntermediateIssuer b B get ks2;
          (case i of
             Inl e \<Rightarrow> ret (Inl (StartIntermediate e), ks3)
           | Inr intermed \<Rightarrow> do {
               (r, ks4) \<leftarrow> LoadRootIssuer b B get ks3;
               (case r of
                  Inl e \<Rightarrow> ret (Inl (StartRoot e), ks4)
                | Inr root \<Rightarrow> do {
                    (ts, ks5) \<leftarrow> load_tsa b B get cfg intermed ks4;
                    (case ts of
                       Inl e \<Rightarrow> ret (Inl e, ks5)
                     | Inr tsa \<Rightarrow> do {
                         reg \<leftarrow> NewRegistry b (rp_Marshal R) (rp_ParseDuration R) (rp_walk R)
                           (cfg_Profiles_Dir cfg) (rp_files R);
                         (case reg of
                            Inl e \<Rightarrow> ret (Inl (StartProfiles e), ks5)
                          | Inr profileRegistry \<Rightarrow>
                              ret (Inr \<lparr>sv_cfg = cfg, sv_store = b, sv_tls = tls, sv_intermediate = intermed,
                                sv_root = root, sv_mods = mods_of cfg, sv_tsa = tsa,
                                sv_profiles = profileRegistry\<rparr>, ks5))
                       })
                  })
             })
        })
   }"

definition start_service ::
    "backend \<Rightarrow> boot_prims \<Rightarrow>
     ('k \<Rightarrow> KeyRef \<Rightarrow> Algorithm \<Rightarrow> ('x world_scheme, (ks_error + signer) \<times> 'k) state) \<Rightarrow>
     ('k \<Rightarrow> KeyRef \<Rightarrow> ('x world_scheme, (ks_error + signer) \<times> 'k) state) \<Rightarrow> reg_prims \<Rightarrow>
     Config \<Rightarrow> 'k \<Rightarrow> output_dir \<Rightarrow> ('x world_scheme, (start_error + service) \<times> 'k \<times> output_dir) state" where
  "start_service b B gen get R cfg ks dir = do {
     (booted, ks1, dir1) \<leftarrow> runBootstrap b B gen cfg ks dir;
     (case booted of
        Inl e \<Rightarrow> ret (Inl e, ks1, dir1)
      | Inr _ \<Rightarrow> do {
          (sv, ks2) \<leftarrow> load_service b B get R cfg ks1;
          ret (sv, ks2, dir1)
        })
   }"

text \<open>\<open>main\<close> up to the router. \<open>open_ks\<close> is \<open>openKeyStore\<close> for the driver at hand; the two openings run
  concurrently in the program and touch nothing in common.\<close>

definition trustmated ::
    "(string \<Rightarrow> string option) \<Rightarrow> (string \<Rightarrow> string option) \<Rightarrow> (string \<Rightarrow> Config \<Rightarrow> Config option) \<Rightarrow>
     (string \<Rightarrow> (string \<times> string) option) \<Rightarrow> 'd db_prims \<Rightarrow> (KeystoreConfig \<Rightarrow> ('d mig_db, ks_error + 'k) state) \<Rightarrow>
     boot_prims \<Rightarrow> ('k \<Rightarrow> KeyRef \<Rightarrow> Algorithm \<Rightarrow> ('d mig_db, (ks_error + signer) \<times> 'k) state) \<Rightarrow>
     ('k \<Rightarrow> KeyRef \<Rightarrow> ('d mig_db, (ks_error + signer) \<times> 'k) state) \<Rightarrow> reg_prims \<Rightarrow> output_dir \<Rightarrow>
     ('d mig_db, (start_error + service) \<times> 'k option \<times> output_dir) state" where
  "trustmated env readFile yaml_Unmarshal url_Parse D open_ks B gen get R dir =
     (case LoadFromEnv env readFile yaml_Unmarshal url_Parse
        (case env ''TRUSTMATE_CONFIG_FILE'' of None \<Rightarrow> [] | Some p \<Rightarrow> p) of
        Inl e \<Rightarrow> ret (Inl (StartConfig e), None, dir)
      | Inr cfg \<Rightarrow> do {
          db \<leftarrow> openStore D (cfg_Store cfg);
          ks \<leftarrow> open_ks (cfg_Keystore cfg);
          (case db of
             Inl e \<Rightarrow> ret (Inl (StartStore e), (case ks of Inl _ \<Rightarrow> None | Inr k \<Rightarrow> Some k), dir)
           | Inr b \<Rightarrow>
               (case ks of
                  Inl e \<Rightarrow> ret (Inl (StartKeys e), None, dir)
                | Inr k \<Rightarrow> do {
                    (r, k', dir') \<leftarrow> start_service b B gen get R cfg k dir;
                    ret (r, Some k', dir')
                  }))
        })"

text \<open>What \<open>main\<close> hands to the router; \<open>D\<close> holds the libraries and embedded files.\<close>

definition router_deps :: "Deps \<Rightarrow> service \<Rightarrow> Deps" where
  "router_deps D sv = D\<lparr>d_Store := sv_store sv, d_InstanceName := InstanceName (sv_cfg sv),
     d_IntermediateIssuer := sv_intermediate sv, d_OCSPIssuers := [sv_root sv, sv_intermediate sv],
     d_PublicBaseURL := PublicBaseURL (cfg_Server (sv_cfg sv)), d_TSACommonName := TSACommonName (sv_cfg sv),
     d_TSAValidity := TSAValidity (cfg_Bootstrap (sv_cfg sv)), d_ModuleConfig := sv_mods sv,
     d_profilesDir := cfg_Profiles_Dir (sv_cfg sv)\<rparr>"

definition running_sys :: "service \<Rightarrow> FileKeyStore \<Rightarrow> 'x world_scheme \<Rightarrow> sys" where
  "running_sys sv ks w =
     \<lparr>certificates = certificates w, client_roles = client_roles w, profiles = profiles w, audit_log = audit_log w,
      acme_eab_tokens = acme_eab_tokens w, acme_accounts = acme_accounts w, acme_orders = acme_orders w,
      acme_nonces = acme_nonces w, faults = faults w, clock = clock w, clock_tape = clock_tape w, rand_tape = rand_tape w,
      s_KeyStore = ks, s_CRLBuilder = Some (NewCRLBuilder (sv_intermediate sv)),
      s_RootCRLBuilder = Some (NewCRLBuilder (sv_root sv)), s_TSAResponder = sv_tsa sv,
      s_Profiles = Some (sv_profiles sv), s_Metrics = Some NewMetrics\<rparr>"

section \<open>A first start\<close>

text \<open>A service whose certificates are for the keys it holds.\<close>

definition service_paired :: "boot_prims \<Rightarrow> service \<Rightarrow> bool" where
  "service_paired B sv \<longleftrightarrow>
     paired (b_pki B) (sg_Public (i_Signer (sv_root sv))) (i_Cert (sv_root sv)) \<and>
     paired (b_pki B) (sg_Public (i_Signer (sv_intermediate sv))) (i_Cert (sv_intermediate sv)) \<and>
     (\<exists>leaf. paired (b_pki B) (sg_Public (tls_PrivateKey (sv_tls sv))) leaf \<and>
        tls_Certificate (sv_tls sv) = [x_Raw leaf, x_Raw (i_Cert (sv_intermediate sv))]) \<and>
     (case sv_tsa sv of
        None \<Rightarrow> \<not> mod_TSA (cfg_Modules (sv_cfg sv))
      | Some r \<Rightarrow> paired (b_pki B) (sg_Public (i_Signer (rs_issuer r))) (i_Cert (rs_issuer r)) \<and>
          rs_intermediate r = Some (i_Cert (sv_intermediate sv)))"

lemma wp_any: "(\<And>a t. Q a t) \<Longrightarrow> wp m Q s"
  by (simp add: wp_iff)

lemma wp_newest:
  "wp (newest_of_kind b kind) (\<lambda>r v'. tables v' = tables v \<and> (\<forall>rec. r = Inr rec \<longrightarrow>
     select_by_kind kind v \<noteq> [] \<and> rec = last (select_by_kind kind v))) v"
  unfolding newest_of_kind_def by (auto simp: tables_def intro!: wps)

lemma wp_newest_after:
  "tables u = tables v \<Longrightarrow> wp (newest_of_kind b kind) (\<lambda>r v'. tables v' = tables v \<and> (\<forall>rec. r = Inr rec \<longrightarrow>
     rec = last (select_by_kind kind v))) u"
  by (rule wp_mono [OF wp_newest]) (auto simp: tables_def select_by_kind_def)

lemma wp_latest:
  "wp (Certificates_GetLatestByProfile b p) (\<lambda>r v'. tables v' = tables v \<and> (\<forall>rec. r = Inr rec \<longrightarrow>
     select_latest_by_profile p v = Some rec)) v"
  by (auto simp: tables_def intro!: wps)

context boot_keys
begin

lemma wp_issuer_from:
  assumes "pem_faithful (b_pki B)" and "on_record B iss rec" and "ok k" and "stored k ref = Some (i_Signer iss)"
  shows "wp (issuer_from B Get k rec ref) (\<lambda>(r, k') v'. kept k k' \<and> tables v' = tables v \<and> (\<forall>x. r = Inr x \<longrightarrow> x = iss)) v"
proof -
  have calm: "wp (Get k ref) (\<lambda>_ v'. tables v' = tables v) v"
    using wp_state_io_rel [OF get_calm [of k ref], of v] by (simp add: unchanged_def)
  have "wp (Get k ref) (\<lambda>(a, k') v'. kept k k' \<and> tables v' = tables v \<and> (\<forall>sg. a = Inr sg \<longrightarrow> sg = i_Signer iss)) v"
    by (rule wp_mono [OF wp_conj [OF calm get_tells [OF assms(3)]]]) (auto simp: kept_def assms(4))
  then show ?thesis
    unfolding issuer_from_def on_record_parses(2) [OF assms(1,2)]
    by (auto elim!: wp_mono split: sum.splits)
qed

end

lemmas any_outcome =
  wp_any [where m = "persistDefaultProfiles b B" for b B]
  wp_any [where m = "generateRoot b B gen cfg k" for b B gen cfg k]
  wp_any [where m = "generateIntermediate b B gen cfg k root" for b B gen cfg k root]
  wp_any [where m = "generateAdminLeaf b B cfg intermed" for b B cfg intermed]
  wp_any [where m = "generateServerTLSLeaf b B gen cfg k intermed" for b B gen cfg k intermed]
  wp_any [where m = "generateTSALeaf b B gen cfg k intermed" for b B gen cfg k intermed]
  wp_any [where m = "ClientRoles_Assign b role" for b role]
  wp_any [where m = "boot_entry c d" for c d]
  wp_any [where m = "writeBootstrapOutput B root intermed admin adminKey tsa dir" for B root intermed admin adminKey tsa dir]
  wp_any [where m = "append_all b es" for b es]
  wp_any [where m = time_Now]

lemma run_true:
  "wp (Bootstrap_Run b B gen cfg k dir) (\<lambda>(r, k', dir') w'. r = Inr True \<longrightarrow> select_by_kind CertKindRoot w \<noteq> []) w"
  unfolding Bootstrap_Run_def finish_run_def
  by (auto intro!: any_outcome wps)

lemma lock_rule:
  assumes "\<And>w1. tables w1 = tables w \<Longrightarrow> wp fn (\<lambda>a w2. \<forall>w'. tables w' = tables w2 \<longrightarrow> Q a w') w1"
    and "\<And>w'. Q failed w'"
  shows "wp (WithExclusiveLock b failed fn) Q w"
proof -
  have direct: "wp fn Q w1" if "tables w1 = tables w" for w1
    by (rule wp_mono [OF assms(1) [OF that]]) simp
  have locked: "wp fn (\<lambda>a. wp (ExecContext (\<lambda>w. Inr (1, w))) (\<lambda>_. Q a)) w1" if "tables w1 = tables w" for w1
    by (rule wp_mono [OF assms(1) [OF that]]) (auto simp: tables_def intro!: wps)
  show ?thesis
    unfolding WithExclusiveLock_def WithAdvisoryLock_def using direct locked assms(2)
    by (auto simp: tables_def intro!: wps split: backend.split)
qed

text \<open>The rows that the first run left, as start-up finds them.\<close>

lemma chain_found:
  assumes "certificates v = [r, i, a, s] @ ts" and "Kind r = CertKindRoot" and "Kind i = CertKindIntermediate"
    and "Kind a = CertKindLeaf" and "Kind s = CertKindLeaf" and "ProfileName r = []" and "ProfileName i = []"
    and "ProfileName a = p_Name Default" and "ProfileName s = p_Name ServerTLS"
    and "list_all (\<lambda>t. Kind t = CertKindLeaf \<and> ProfileName t = p_Name TSA) ts"
  shows "select_by_kind CertKindRoot v = [r]" and "select_by_kind CertKindIntermediate v = [i]"
    and "select_latest_by_profile (p_Name ServerTLS) v = Some s"
    and "ts = [t] \<Longrightarrow> select_latest_by_profile (p_Name TSA) v = Some t"
proof -
  have names: "p_Name Default = ''default''" "p_Name ServerTLS = ''server-tls''" "p_Name TSA = ''tsa''"
    by (simp_all add: builtin_defs)
  note kinds = CertKindRoot_def CertKindIntermediate_def CertKindLeaf_def
  have none: "filter (\<lambda>t. Kind t = CertKindRoot) ts = []" "filter (\<lambda>t. Kind t = CertKindIntermediate) ts = []"
    "filter (\<lambda>t. ProfileName t = p_Name ServerTLS) ts = []"
    using assms(10) by (auto simp: filter_empty_conv list_all_iff kinds names)
  then show "select_by_kind CertKindRoot v = [r]" "select_by_kind CertKindIntermediate v = [i]"
    "select_latest_by_profile (p_Name ServerTLS) v = Some s"
    using assms(1-9) by (simp_all add: select_by_kind_def select_latest_by_profile_def kinds names)
  show "ts = [t] \<Longrightarrow> select_latest_by_profile (p_Name TSA) v = Some t"
    using assms by (simp add: select_latest_by_profile_def kinds names)
qed

lemma tables_selects:
  assumes "tables v = tables w"
  shows "certificates v = certificates w" "select_by_kind kind v = select_by_kind kind w"
    "select_latest_by_profile p v = select_latest_by_profile p w"
  using assms by (simp_all add: tables_def select_by_kind_def select_latest_by_profile_def)

context boot_keys
begin

text \<open>\<open>loadable\<close>: the issuers that are on record in \<open>v\<close> and whose keys the store holds.\<close>

definition loadable :: "boot_prims \<Rightarrow> Config \<Rightarrow> 'k \<Rightarrow> Issuer \<Rightarrow> Issuer \<Rightarrow> Issuer \<Rightarrow> Issuer \<Rightarrow> 'x world_scheme \<Rightarrow> bool" where
  "loadable B cfg k root intermed server tsa v \<longleftrightarrow> ok k \<and> (\<exists>r i s.
     select_by_kind CertKindRoot v = [r] \<and> on_record B root r \<and> holds k refRoot root \<and>
     select_by_kind CertKindIntermediate v = [i] \<and> on_record B intermed i \<and> holds k IntermediateKeyRef intermed \<and>
     select_latest_by_profile (p_Name ServerTLS) v = Some s \<and> on_record B server s \<and> holds k refServerTLS server \<and>
     (mod_TSA (cfg_Modules cfg) \<longrightarrow> (\<exists>t. select_latest_by_profile (p_Name TSA) v = Some t \<and> on_record B tsa t \<and>
        CertificateRecord.KeyRef t = refTSA \<and> holds k refTSA tsa)))"

lemma loadable_kept:
  "loadable B cfg k root intermed server tsa v \<Longrightarrow> kept k k' \<Longrightarrow> tables v' = tables v \<Longrightarrow>
   loadable B cfg k' root intermed server tsa v'"
  unfolding loadable_def using tables_selects [of v' v] by (auto intro: kept_ok holds_kept)

lemma chain_loadable:
  assumes "chain_made B cfg k w v" and "certificates w = []" and "ok k"
  shows "\<exists>root intermed server tsa. loadable B cfg k root intermed server tsa v"
proof -
  obtain root intermed server r i a s ts x where
    rows: "certificates v = [r, i, a, s] @ ts" and
    R: "row_for root CertKindRoot [] [] refRoot r" "on_record B root r" "holds k refRoot root" and
    I: "row_for intermed CertKindIntermediate [] (Serial r) IntermediateKeyRef i" "on_record B intermed i"
      "holds k IntermediateKeyRef intermed" and
    A: "Kind a = CertKindLeaf" "ProfileName a = p_Name Default" and
    S: "row_for server CertKindLeaf (p_Name ServerTLS) x refServerTLS s" "on_record B server s" "holds k refServerTLS server" and
    T: "tsa_made B cfg k ts"
    using assms(1,2) unfolding chain_made_def by auto
  have leaves: "list_all (\<lambda>t. Kind t = CertKindLeaf \<and> ProfileName t = p_Name TSA) ts"
    using T by (auto simp: tsa_made_def row_for_def split: if_splits)
  note found = chain_found [OF rows _ _ A(1) _ _ _ A(2) _ leaves]
  obtain tsa where "mod_TSA (cfg_Modules cfg) \<longrightarrow> (\<exists>t. ts = [t] \<and> on_record B tsa t \<and>
      CertificateRecord.KeyRef t = refTSA \<and> holds k refTSA tsa)"
    using T by (auto simp: tsa_made_def row_for_def split: if_splits)
  then show ?thesis
    using R I S assms(3) found unfolding loadable_def row_for_def by metis
qed

lemma wp_issuer_from_after:
  assumes "tables v = tables u" and "pem_faithful (b_pki B)" and "on_record B iss rec" and "ok k" and "holds k ref iss"
  shows "wp (issuer_from B Get k rec ref) (\<lambda>(r, k') v'. kept k k' \<and> tables v' = tables u \<and> (\<forall>x. r = Inr x \<longrightarrow> x = iss)) v"
  using wp_issuer_from [OF assms(2-4), of ref v] assms(1,5) by (simp add: holds_def)

lemma wp_LoadRoot:
  assumes "loadable B cfg k root intermed server tsa v" and "pem_faithful (b_pki B)"
  shows "wp (LoadRootIssuer b B Get k) (\<lambda>(r, k') v'. kept k k' \<and> tables v' = tables v \<and> (\<forall>x. r = Inr x \<longrightarrow> x = root)) v"
  using assms unfolding LoadRootIssuer_def loadable_def
  by (auto intro!: wp_mono [OF wp_newest] wp_issuer_from_after kept_refl split: sum.splits)

lemma wp_LoadIntermediate:
  assumes "loadable B cfg k root intermed server tsa v" and "pem_faithful (b_pki B)"
  shows "wp (LoadIntermediateIssuer b B Get k) (\<lambda>(r, k') v'. kept k k' \<and> tables v' = tables v \<and> (\<forall>x. r = Inr x \<longrightarrow> x = intermed)) v"
  using assms unfolding LoadIntermediateIssuer_def loadable_def
  by (auto intro!: wp_mono [OF wp_newest] wp_issuer_from_after kept_refl split: sum.splits)

lemma wp_load_tsa:
  assumes "loadable B cfg k root intermed server tsa v" and "pem_faithful (b_pki B)"
  shows "wp (load_tsa b B Get cfg intermed k) (\<lambda>(r, k') v'. \<forall>x. r = Inr x \<longrightarrow>
    x = (if mod_TSA (cfg_Modules cfg) then Some (NewResponder tsa (Some (i_Cert intermed))) else None) \<and>
    (mod_TSA (cfg_Modules cfg) \<longrightarrow> paired (b_pki B) (sg_Public (i_Signer tsa)) (i_Cert tsa))) v"
  using assms unfolding load_tsa_def LoadTSAIssuer_def loadable_def
  by (auto simp: on_record_def intro!: wp_mono [OF wp_latest] wp_mono [OF wp_issuer_from_after] split: sum.splits)

lemma wp_get_after:
  assumes "ok k" and "holds k ref iss" and "tables v = tables u"
  shows "wp (Get k ref) (\<lambda>(a, k') v'. kept k k' \<and> tables v' = tables u \<and> (\<forall>sg. a = Inr sg \<longrightarrow> sg = i_Signer iss)) v"
proof -
  have calm: "wp (Get k ref) (\<lambda>_ v'. tables v' = tables u) v"
    using wp_state_io_rel [OF get_calm [of k ref], of v] assms(3) by (simp add: unchanged_def)
  show ?thesis
    by (rule wp_mono [OF wp_conj [OF calm get_tells [OF assms(1)]]]) (use assms(2) in \<open>auto simp: kept_def holds_def\<close>)
qed

lemma wp_LoadTLS:
  assumes "loadable B cfg k root intermed server tsa v" and "pem_faithful (b_pki B)"
  shows "wp (LoadServerTLSConfig b B Get k) (\<lambda>(r, k') v'. kept k k' \<and> tables v' = tables v \<and> (\<forall>x. r = Inr x \<longrightarrow>
    tls_PrivateKey x = i_Signer server \<and> tls_Certificate x = [x_Raw (i_Cert server), x_Raw (i_Cert intermed)])) v"
proof -
  obtain r i s where
    "select_by_kind CertKindRoot v = [r]" "on_record B root r"
    "select_by_kind CertKindIntermediate v = [i]" "on_record B intermed i"
    "select_latest_by_profile (p_Name ServerTLS) v = Some s" "on_record B server s" and
    k: "ok k" "holds k refServerTLS server"
    using assms(1) unfolding loadable_def by blast
  moreover note on_record_parses [OF assms(2)]
  ultimately show ?thesis
    unfolding LoadServerTLSConfig_def
    by (auto intro!: wp_mono [OF wp_latest] wp_mono [OF wp_newest_after [where v = v]]
        wp_mono [OF wp_get_after [OF k, where u = v]] kept_refl split: sum.splits)
qed

lemma wp_runBootstrap:
  assumes "ok k" and "x509_keys (b_pki B)" and "certificates w = []"
  shows "wp (runBootstrap b B Generate cfg k dir) (\<lambda>(r, k', dir') v. r = Inr () \<longrightarrow>
    (\<exists>root intermed server tsa. loadable B cfg k' root intermed server tsa v)) w"
  unfolding runBootstrap_def
proof (rule lock_rule)
  fix u :: "'x world_scheme"
  assume u: "tables u = tables w"
  then have empty: "certificates u = []" "select_by_kind CertKindRoot u = []"
    using assms(3) by (simp_all add: tables_def select_by_kind_def)
  have "\<exists>root intermed server tsa. loadable B cfg k' root intermed server tsa v'"
    if "kept k k'" "chain_made B cfg k' u v" "tables v' = tables v" for k' v v'
    using chain_loadable [OF that(2) empty(1) kept_ok [OF that(1)]] loadable_kept kept_refl [OF kept_ok [OF that(1)]] that(3)
    by blast
  then show "wp (do {
      (r, ks', dir') \<leftarrow> Bootstrap_Run b B Generate cfg k dir;
      ret (case r of Inl e \<Rightarrow> Inl (StartBootstrap e) | Inr _ \<Rightarrow> Inr (), ks', dir')
    }) (\<lambda>a v. \<forall>v'. tables v' = tables v \<longrightarrow> (case a of (r, k', dir') \<Rightarrow> \<lambda>v. r = Inr () \<longrightarrow>
      (\<exists>root intermed server tsa. loadable B cfg k' root intermed server tsa v)) v') u"
    using empty(2)
    by (auto intro!: wp_mono [OF wp_conj [OF wp_run_keys [OF assms(1,2)] run_true]] split: sum.splits)
qed simp

lemma wp_load_service:
  assumes "loadable B cfg k root intermed server tsa v" and "pem_faithful (b_pki B)"
  shows "wp (load_service b B Get R cfg k) (\<lambda>(r, k') v'. \<forall>sv. r = Inr sv \<longrightarrow>
    sv_cfg sv = cfg \<and> sv_root sv = root \<and> sv_intermediate sv = intermed \<and> service_paired B sv) v"
proof -
  have pairs: "paired (b_pki B) (sg_Public (i_Signer root)) (i_Cert root)"
    "paired (b_pki B) (sg_Public (i_Signer intermed)) (i_Cert intermed)"
    "paired (b_pki B) (sg_Public (i_Signer server)) (i_Cert server)"
    using assms(1) by (auto simp: loadable_def on_record_def)
  have on: "loadable B cfg k' root intermed server tsa v'" if "kept k k'" "tables v' = tables v" for k' v'
    using loadable_kept [OF assms(1) that] .
  note rules = wp_LoadTLS [OF on assms(2)] wp_LoadIntermediate [OF on assms(2)] wp_LoadRoot [OF on assms(2)]
    wp_load_tsa [OF on assms(2)]
  have k: "kept k k"
    using assms(1) kept_refl by (simp add: loadable_def)
  show ?thesis
    unfolding load_service_def using pairs k
    by (auto simp: service_paired_def NewResponder_def intro!: wp_mono [OF rules(1)] wp_mono [OF rules(2)] wp_mono [OF rules(3)]
        wp_mono [OF rules(4)] wp_any [where m = "NewRegistry b M pd wk d fs" for b M pd wk d fs]
        split: sum.splits if_splits) (blast intro: kept_trans)+
qed

lemma wp_start:
  assumes "ok k" and "x509_keys (b_pki B)" and "pem_faithful (b_pki B)" and "certificates w = []"
  shows "wp (start_service b B Generate Get R cfg k dir) (\<lambda>(r, k', dir') w'. \<forall>sv. r = Inr sv \<longrightarrow>
    sv_cfg sv = cfg \<and> service_paired B sv) w"
  unfolding start_service_def
  by (auto intro!: wp_mono [OF wp_runBootstrap [OF assms(1,2,4)]] wp_mono [OF wp_load_service [OF _ assms(3)]]
      split: sum.splits)

end

section \<open>Main, with the file store\<close>

text \<open>\<open>openKeyStore\<close> where the driver is the file store.\<close>

definition file_driver ::
    "'t p11_prims \<Rightarrow> 'v \<Rightarrow> (string \<times> file_content) list \<Rightarrow> (string \<Rightarrow> string option) \<Rightarrow> (string \<Rightarrow> string option) \<Rightarrow>
     KeystoreConfig \<Rightarrow> ('x world_scheme, ks_error + FileKeyStore) state" where
  "file_driver T server disk env readFile cfg = do {
     k \<leftarrow> openKeyStore True T server disk env readFile cfg;
     ret (case k of Inl e \<Rightarrow> Inl e | Inr (OpenedFile ks) \<Rightarrow> Inr ks | Inr _ \<Rightarrow> Inl (Unconfigured ''driver''))
   }"

lemma exec_keeps_certificates:
  "state_io_rel (unchanged certificates) (ExecContext (\<lambda>w. Inr (n, w)))"
  "state_io_rel (unchanged certificates) (QueryContext q)" "state_io_rel (unchanged certificates) io"
  "state_io_rel (unchanged certificates) time_Now"
  by (rule unchangedI; auto intro!: wps)+

lemma migration_keeps_certificates:
  "state_io_rel (unchanged certificates) (apply_tx ex version script)"
  unfolding apply_tx_def
  by (rule unchangedI) (auto intro!: wps split: option.splits bool.splits)

lemma run_names_keeps_certificates: "state_io_rel (unchanged certificates) (run_names ex rf names)"
  by (induction names) (auto intro!: keeps exec_keeps_certificates migration_keeps_certificates split: sum.splits)

lemma openStore_keeps_certificates: "state_io_rel (unchanged certificates) (openStore D cfg)"
  unfolding openStore_def sqlite_Open_def pg_Open_def sqlite_runMigrations_def pg_runMigrations_def Migrate_Run_def
  by (auto intro!: keeps exec_keeps_certificates run_names_keeps_certificates)

lemma wp_file_driver:
  assumes "ks_faithful P"
  shows "wp (file_driver T server disk env rf cfg) (\<lambda>r w'. certificates w' = certificates w \<and> (\<forall>k. r = Inr k \<longrightarrow> fks_ok P k)) w"
  unfolding file_driver_def openKeyStore_def NewFileKeyStore_def
  using assms by (auto simp: fks_ok_def intro!: wps split: sum.splits)

lemma wp_trustmated:
  assumes "ks_faithful P" and "x509_keys (b_pki B)" and "pem_faithful (b_pki B)" and "certificates w = []"
  shows "wp (trustmated env rf yaml url D (file_driver T server disk env rf) B (FileKeyStore_Generate P) (FileKeyStore_Get P) R dir)
    (\<lambda>(r, k', dir') w'. \<forall>sv. r = Inr sv \<longrightarrow> valid_config (sv_cfg sv) \<and> service_paired B sv) w"
proof (cases "LoadFromEnv env rf yaml url (case env ''TRUSTMATE_CONFIG_FILE'' of None \<Rightarrow> [] | Some p \<Rightarrow> p)")
  case (Inl e)
  then show ?thesis
    by (simp add: trustmated_def)
next
  case (Inr cfg)
  have cfg: "valid_config cfg"
    using LoadFromEnv_ok [OF Inr] validate_ok(1) by metis
  have store: "wp (openStore D (cfg_Store cfg)) (\<lambda>_ w'. certificates w' = []) w"
    using wp_state_io_rel [OF openStore_keeps_certificates [of D "cfg_Store cfg"], of w] assms(4) by (simp add: unchanged_def)
  have keys: "wp (file_driver T server disk env rf (cfg_Keystore cfg)) (\<lambda>r w'. certificates w' = [] \<and> (\<forall>k. r = Inr k \<longrightarrow> fks_ok P k)) u"
    if "certificates u = []" for u
    using wp_file_driver [OF assms(1), of T server disk env rf "cfg_Keystore cfg" u] that by simp
  show ?thesis
    unfolding trustmated_def Inr using cfg
    by (auto intro!: wp_mono [OF store] wp_mono [OF keys] wp_mono [OF bk.wp_start] assms(2,3) split: sum.splits)
qed

end
