(* ===== verification/Lifecycle.thy ===== *)
theory Lifecycle
  imports Modules Leaves_Only Daemon
begin

text \<open>
  From an empty installation to a running service and through restarts: configuration, first run,
  and what start-up makes of the ledger.
\<close>

section \<open>A sample first run\<close>

definition pki2 :: pki_prims where
  "pki2 = pki1\<lparr>CreateCertificate := (\<lambda>t p k sg. if k = key1 then Some (Int_String (SerialNumber t)) else None),
     ParseCertificate := (\<lambda>d. case SetString10 d of None \<Rightarrow> None | Some n \<Rightarrow> Some ((ca_cert n d)\<lparr>x_Raw := d\<rparr>)),
     pem_Encode := (\<lambda>d. d), pem_Decode := Some\<rparr>"

definition boot1 :: boot_prims where
  "boot1 = \<lparr>b_pki = pki2, b_ks = ks1, pem_EncodeKey = (\<lambda>d. d), b_Marshal = p_Name, b_walk = (\<lambda>m. m)\<rparr>"

definition cfg1 :: Config where
  "cfg1 = Defaults\<lparr>cfg_Modules := \<lparr>mod_Revocation = True, mod_TSA = False, mod_ACME = False, mod_Discovery = True\<rparr>\<rparr>"

definition world1 :: "fault list \<Rightarrow> world" where
  "world1 fs = \<lparr>certificates = [], client_roles = [], profiles = [], audit_log = [], acme_eab_tokens = [],
     acme_accounts = [], acme_orders = [], acme_nonces = [], faults = fs, clock = now1, clock_tape = [],
     rand_tape = map (\<lambda>c. Some [c]) ''abcdefghijklmn''\<rparr>"

definition store0 :: FileKeyStore where
  "store0 = \<lparr>fk_dir = ''keys'', fk_passphrase = ''pw'', fk_disk = [], fk_cached = []\<rparr>"

definition run1 :: "fault list \<Rightarrow> ((boot_error + bool) \<times> FileKeyStore \<times> output_dir) \<times> world" where
  "run1 fs = run_state (Bootstrap_Run Sqlite boot1 (FileKeyStore_Generate ks1) cfg1 store0 []) (world1 fs)"

lemma run1_is:
  "fst (fst (run1 fs)) = res \<Longrightarrow> run_state (Bootstrap_Run Sqlite boot1 (FileKeyStore_Generate ks1) cfg1 store0 [])
     (world1 fs) = ((res, fst (snd (fst (run1 fs))), snd (snd (fst (run1 fs)))), snd (run1 fs))"
  by (simp add: run1_def prod_eq_iff)

definition serial_of :: "string \<Rightarrow> int" where
  "serial_of x = int (SetBytes (clear_top_bit (fill 20 x)))"

lemma GenerateSerial_next:
  "rand_tape w = Some x # rs \<Longrightarrow> run_state GenerateSerial w = (Inr (serial_of x), w\<lparr>rand_tape := rs\<rparr>)"
  by (simp add: GenerateSerial_def effects serialBytes_def serial_of_def State_Monad.return_def)

lemma serial_of_ascii: "of_char c < (128 :: nat) \<Longrightarrow> serial_of [c] = int (of_char c) * 256 ^ 19"
proof -
  assume c: "of_char c < (128 :: nat)"
  have "of_char c AND (0x7F :: nat) = take_bit 7 (of_char c)"
    by (simp add: take_bit_eq_mask mask_eq_exp_minus_1)
  also have "\<dots> = of_char c"
    using c by (simp add: take_bit_nat_eq_self)
  finally have "clear_top_bit (fill 20 [c]) = c # replicate 19 (char_of (0 :: nat))"
    by (simp add: clear_top_bit_def fill_def)
  then show ?thesis
    using SetBytes_zeros [of 19 "[]"] by (simp add: serial_of_def SetBytes_Cons)
qed

lemma serials_differ:
  "serial_of ''d'' \<noteq> serial_of ''h''" "serial_of ''d'' \<noteq> serial_of ''j''" "serial_of ''d'' \<noteq> serial_of ''n''"
  "serial_of ''h'' \<noteq> serial_of ''j''" "serial_of ''h'' \<noteq> serial_of ''n''" "serial_of ''j'' \<noteq> serial_of ''n''"
  by (simp_all add: serial_of_ascii)

lemmas booting = run1_def store0_def world1_def cfg1_def Defaults_def boot1_def pki2_def pki1_def ks1_def
  Bootstrap_Run_def persistDefaultProfiles_def generateRoot_def generateIntermediate_def
  generateAdminLeaf_def generateServerTLSLeaf_def finish_run_def writeBootstrapOutput_def
  recorded_issuer_def createCertRecord_def boot_entry_def SelfSignedCA_def IssueCA_def IssueLeaf_def
  LeafTemplate_def buildTemplate_def template_def leaf_request_def sign_template_def subjectKeyID_def
  encodePEM_def WithIssuerURLs_def builtin_defs refRoot_def IntermediateKeyRef_def refServerTLS_def
  bootstrapAlgorithm_def AlgorithmECDSAP256_def io_def next_fault_def drop_fault_def put_def
  FileKeyStore_Generate_def FileKeyStore_Exists_def generateKey_def writeKeyFileAtomic_def path_def
  GenerateSerial_next ca_cert_def

lemma run1_ok: "fst (fst (run1 [])) = Inr False"
  by (simp add: booting running serials_differ serials_differ [symmetric])

section \<open>The first run\<close>

lemma assign_rows_other:
  assumes "x \<noteq> role_CertSerial r"
  shows "find (\<lambda>y. role_CertSerial y = x) (assign_rows r rows) = find (\<lambda>y. role_CertSerial y = x) rows"
proof (cases "find (\<lambda>y. role_CertSerial y = x) rows")
  case (Some y)
  then have "role_CertSerial y = x"
    using find_Some_in by fastforce
  with Some assms show ?thesis
    by (auto simp: assign_rows_def find_update_where find_append)
qed (use assms in \<open>auto simp: assign_rows_def find_update_where find_append\<close>)

text \<open>C12. A first run that succeeds adds a chain to the ledger: a root, an intermediate issued by it, and
  under the intermediate the administrator's and the server's certificate, and a time-stamping
  certificate if that module is on. The administrator's certificate has the administrator's
  role, no other certificate's role changes, its key is not in the key store, and the audit log
  names every certificate.\<close>

theorem bootstrap_effect:
  assumes "run_state (Bootstrap_Run b B (FileKeyStore_Generate P) cfg ks dir) w = ((Inr False, ks', dir'), w')"
  shows "\<exists>r i a s ts role. certificates w' = certificates w @ [r, i, a, s] @ ts \<and>
    Kind r = CertKindRoot \<and> IssuerSerial r = [] \<and> CertificateRecord.KeyRef r = ''root'' \<and>
    Kind i = CertKindIntermediate \<and> IssuerSerial i = Serial r \<and> CertificateRecord.KeyRef i = ''intermediate'' \<and>
    Kind a = CertKindLeaf \<and> IssuerSerial a = Serial i \<and> CertificateRecord.KeyRef a = [] \<and>
    Kind s = CertKindLeaf \<and> IssuerSerial s = Serial i \<and> ProfileName s = ''server-tls'' \<and>
    length ts = (if mod_TSA (cfg_Modules cfg) then 1 else 0) \<and>
    list_all (\<lambda>t. Kind t = CertKindLeaf \<and> IssuerSerial t = Serial i \<and> ProfileName t = ''tsa'') ts \<and>
    select_client_role (Serial a) w' = Some role \<and> role_Role role = RoleAdmin \<and>
    (\<forall>x. x \<noteq> Serial a \<longrightarrow> select_client_role x w' = select_client_role x w) \<and>
    map audit_Target (audit_log w') = map audit_Target (audit_log w) @ map Serial ([r, i, a, s] @ ts)"
proof -
  obtain root intermed admin server r i a s ts now where
    C: "certificates w' = certificates w @ [r, i, a, s] @ ts"
    and R: "row_for root CertKindRoot [] [] refRoot r"
      "row_for intermed CertKindIntermediate [] (Serial r) IntermediateKeyRef i"
      "row_for admin CertKindLeaf (p_Name Default) (Serial i) [] a"
      "row_for server CertKindLeaf (p_Name ServerTLS) (Serial i) refServerTLS s"
    and T: "tsa_rows cfg intermed ts"
    and A: "client_roles w' = assign_rows \<lparr>role_CertSerial = Serial a, role_Role = RoleAdmin,
        role_CreatedAt = enc_of b now\<rparr> (client_roles w)"
    and L: "map audit_Target (audit_log w') = map audit_Target (audit_log w) @ map Serial ([r, i, a, s] @ ts)"
    using wp_run [OF boot.wp_Bootstrap_Run assms] by (auto simp: first_run_def)
  note role = assign_rows_select [of "\<lparr>role_CertSerial = Serial a, role_Role = RoleAdmin,
        role_CreatedAt = enc_of b now\<rparr>" "client_roles w"]
  from role obtain role where
    "select_client_role (Serial a) w' = Some role" "role_Role role = RoleAdmin"
    "\<forall>x. x \<noteq> Serial a \<longrightarrow> select_client_role x w' = select_client_role x w"
    using A assign_rows_other [of _ "\<lparr>role_CertSerial = Serial a, role_Role = RoleAdmin,
        role_CreatedAt = enc_of b now\<rparr>" "client_roles w"] by (auto simp: select_client_role_def)
  moreover have "length ts = (if mod_TSA (cfg_Modules cfg) then 1 else 0)"
    "list_all (\<lambda>t. Kind t = CertKindLeaf \<and> IssuerSerial t = Serial i \<and> ProfileName t = ''tsa'') ts"
    using T R(2) by (auto simp: tsa_rows_def row_for_def TSA_def no_profile_def split: if_splits)
  ultimately show ?thesis
    using C R L
    by - (rule exI [of _ r], rule exI [of _ i], rule exI [of _ a], rule exI [of _ s], rule exI [of _ ts],
        rule exI [of _ role], simp add: row_for_def refRoot_def IntermediateKeyRef_def ServerTLS_def no_profile_def)
qed

theorem bootstrap_effect_witness:
  "fst (fst (run1 [])) = Inr False \<and> length (certificates (snd (run1 []))) = 4"
  using bootstrap_effect [OF run1_is [OF run1_ok]] run1_ok by (auto simp: world1_def cfg1_def)

section \<open>Running again\<close>

lemma select_by_kind_empty: "select_by_kind k w = [] \<longleftrightarrow> (\<forall>r\<in>set (certificates w). Kind r \<noteq> k)"
  using arg_cong [OF set_sort [of CreatedAt "filter (\<lambda>r. Kind r = k) (certificates w)"], of "\<lambda>S. S = {}"]
  by (auto simp: select_by_kind_def filter_empty_conv simp del: set_sort)

lemma cert_le_kind: "cert_le r r' \<Longrightarrow> Kind r' = Kind r"
  by (cases r; cases r') (auto simp: cert_le_def)

lemma roots_stay:
  assumes "select_by_kind k w \<noteq> []" and "ledger_le w w'"
  shows "select_by_kind k w' \<noteq> []"
proof -
  obtain r where r: "r \<in> set (certificates w)" "Kind r = k"
    using assms(1) by (auto simp: select_by_kind_empty)
  then obtain r' where "r' \<in> set (certificates w')" "cert_le r r'"
    using rows_le_in [of cert_le "certificates w"] assms(2) by (auto simp: ledger_le_def grows_def)
  then show ?thesis
    using r cert_le_kind by (auto simp: select_by_kind_empty)
qed

lemma run_again:
  assumes "select_by_kind CertKindRoot w \<noteq> []" and "faults w = []"
  shows "run_state (Bootstrap_Run b B gen cfg ks dir) w = ((Inr True, ks, dir), w)"
  using assms by (cases b) (simp_all add: Bootstrap_Run_def method_bodies effects scan_rows_def State_Monad.return_def)

text \<open>The CA is generated once: after a first run that succeeded, and whatever the service did since,
  another run adds no certificate, no role and no audit entry and touches neither the key store
  nor the output directory; if the datastore answers it reports that the CA is there.\<close>

theorem bootstrap_once:
  assumes "run_state (Bootstrap_Run b B (FileKeyStore_Generate P) cfg ks dir) w = ((Inr False, ka, da), w1)"
    and "ledger_le w1 w2"
    and "run_state (Bootstrap_Run b B (FileKeyStore_Generate P) cfg' kb db) w2 = ((res, kc, dc), w3)"
  shows "kc = kb \<and> dc = db \<and> certificates w3 = certificates w2 \<and> client_roles w3 = client_roles w2 \<and>
    audit_log w3 = audit_log w2 \<and> res \<noteq> Inr False \<and> (faults w2 = [] \<longrightarrow> res = Inr True)"
proof -
  have "select_by_kind CertKindRoot w1 \<noteq> []"
    using wp_run [OF boot.wp_Bootstrap_Run assms(1)]
    by (auto simp: first_run_def row_for_def select_by_kind_empty)
  then have root: "select_by_kind CertKindRoot w2 \<noteq> []"
    using assms(2) by (rule roots_stay)
  then show ?thesis
    using wp_run [OF boot.wp_Bootstrap_Run assms(3)] run_again [OF root, of b B "FileKeyStore_Generate P" cfg' kb db] assms(3)
    by (auto simp: boot_view_def)
qed

theorem bootstrap_once_witness:
  "fst (fst (run1 [])) = Inr False \<and>
   fst (fst (run_state (Bootstrap_Run Sqlite boot1 (FileKeyStore_Generate ks1) cfg1 store0 []) (snd (run1 [])))) \<noteq> Inr False"
  using bootstrap_once [OF run1_is [OF run1_ok] ledger.R_refl, of cfg1 store0 "[]"] run1_ok
  by (metis prod.collapse)

text \<open>C35. A first run is not resumed: if it stops after the root was recorded, because the key or the
  certificate of the intermediate CA could not be made, then every further run reports that the
  CA is there, and the service does not start, since there is no intermediate CA to load.\<close>

theorem bootstrap_stuck:
  assumes "run_state (Bootstrap_Run b B (FileKeyStore_Generate P) cfg ks dir) w = ((Inl e, ka, da), w1)"
    and "intermediate_error e" and "certificates w = []" and "faults w1 = []"
  shows "run_state (Bootstrap_Run b B (FileKeyStore_Generate P) cfg ka da) w1 = ((Inr True, ka, da), w1) \<and>
    run_state (LoadIntermediateIssuer b B (FileKeyStore_Get P) ka) w1 = ((Inl (BootMissing CertKindIntermediate), ka), w1)"
proof -
  obtain row where "certificates w1 = [row]" "Kind row = CertKindRoot"
    using wp_run [OF boot.wp_run_error assms(1)] assms(2,3) by (auto simp: adds_def boot_view_def)
  then have "select_by_kind CertKindRoot w1 \<noteq> []" "select_by_kind CertKindIntermediate w1 = []"
    by (auto simp: select_by_kind_empty CertKindRoot_def CertKindIntermediate_def)
  then show ?thesis
    using assms(4) run_again [of w1 b B "FileKeyStore_Generate P" cfg ka da]
    by (cases b) (simp_all add: LoadIntermediateIssuer_def newest_of_kind_def method_bodies effects scan_rows_def
        State_Monad.return_def)
qed

definition stuck1 :: "fault list" where "stuck1 = replicate 8 Runs @ [StmtFails]"

lemma run1_stuck:
  "fst (fst (run1 stuck1)) = Inl (BootKey IntermediateKeyRef IOFailed)" "faults (snd (run1 stuck1)) = []"
  by (simp_all add: booting running stuck1_def eval_nat_numeral ExecContext_def QueryContext_def)

theorem bootstrap_stuck_witness:
  "fst (fst (run_state (LoadIntermediateIssuer Sqlite boot1 (FileKeyStore_Get ks1) (fst (snd (fst (run1 stuck1)))))
     (snd (run1 stuck1)))) = Inl (BootMissing CertKindIntermediate)"
  using bootstrap_stuck [OF run1_is [OF run1_stuck(1)] _ _ run1_stuck(2)]
  by (simp add: intermediate_error_def world1_def)

section \<open>Restarting\<close>

lemma insort_key_snoc: "f x \<le> f r \<Longrightarrow> insort_key f x (ys @ [r]) = insort_key f x ys @ [r]"
  by (induction ys) auto

lemma sort_key_snoc: "(\<And>x. x \<in> set xs \<Longrightarrow> f x \<le> f r) \<Longrightarrow> sort_key f (xs @ [r]) = sort_key f xs @ [r]"
  by (induction xs) (simp_all add: insort_key_snoc)

lemma select_latest_snoc:
  assumes "certificates w = cs @ [r]" and "\<And>c. c \<in> set cs \<Longrightarrow> CreatedAt c \<le> CreatedAt r"
  shows "select_latest_by_profile (ProfileName r) w = Some r"
proof -
  have "sort_key CreatedAt (filter (\<lambda>c. ProfileName c = ProfileName r) (cs @ [r])) =
      sort_key CreatedAt (filter (\<lambda>c. ProfileName c = ProfileName r) cs) @ [r]"
    using sort_key_snoc [of "filter (\<lambda>c. ProfileName c = ProfileName r) cs" CreatedAt r] assms(2) by fastforce
  then show ?thesis
    by (cases "sort_key CreatedAt (filter (\<lambda>c. ProfileName c = ProfileName r) cs)")
      (simp_all add: select_latest_by_profile_def assms(1))
qed

lemma wp_issued_row:
  "wp (handleIssueCertificate deps r) (\<lambda>resp s'. status resp = 201 \<longrightarrow>
     (\<exists>req prof rec. dec_issueCertificate (d_json deps) (q_Body r) = Inr req \<and>
        (case s_Profiles s of Some reg \<Rightarrow> Registry_Lookup reg (ic_Profile req) | None \<Rightarrow> Lookup (ic_Profile req)) = Some prof \<and>
        certificates s' = certificates s @ [cert_row (d_Store deps) rec] \<and> ProfileName rec = p_Name prof \<and>
        CertificateRecord.KeyRef rec = [] \<and> CreatedAt rec = clock s')) s"
  unfolding handleIssueCertificate_def lookupProfile_def profileNames_def count_issued_def issueLeafCertificate_def
  by (auto simp: Let_def problem_defs writeJSON_def intro!: wps wp_LeafTemplate split: option.splits)
    (rule exI, rule conjI, rule refl, simp)+

lemma Lookup_name: "Lookup n = Some p \<Longrightarrow> p_Name p = n"
  by (auto simp: Lookup_def dest: find_Some_in)

lemma Registry_Lookup_name: "registry_ok reg \<Longrightarrow> Registry_Lookup reg n = Some p \<Longrightarrow> p_Name p = n"
  by (auto simp: registry_ok_def Registry_Lookup_def dest!: map_of_SomeD)

lemma tables_ledger_le:
  assumes "tables s = tables w"
  shows "ledger_le w s" and "ca_serials s = ca_serials w"
  using assms by (simp_all add: tables_def ledger_le_def grows_def rows_le_refl schema_def schema_parts ca_serials_def)

lemma evolved_kept:
  "fks.evolves TYPE('x) P ka kb \<Longrightarrow> fks_ok P ka \<Longrightarrow> bk.kept P ka (kb\<lparr>fk_cached := []\<rparr>)"
  using fks.never_overwritten [of P ka kb] fks.evolved_ok [of P ka kb]
  by (auto simp: bk.kept_def fks_restart)

text \<open>C13. The CA outlives restarts: after a first run that succeeded on an empty datastore, whatever
  requests the service then answers and whatever keys it generates, the next start finds the root
  and the intermediate of the first run, each with the key that its certificate is for, although
  the key cache is empty again.\<close>

theorem restart_same_ca:
  fixes w :: sys
  assumes "run_state (Bootstrap_Run b B (FileKeyStore_Generate P) cfg ks dir) w = ((Inr False, ka, da), w1)"
    and "certificates w = []" and "fks_ok P ks" and "x509_keys (b_pki B)" and "pem_faithful (b_pki B)"
    and "tables s = tables w1" and "run_state (serve_all deps rs) s = (resps, s')" and "faults s' = []"
    and "fks.evolves TYPE('x) P ka kb"
  shows "\<exists>root intermed r i k1 k2.
    run_state (LoadRootIssuer b B (FileKeyStore_Get P) (kb\<lparr>fk_cached := []\<rparr>)) s' = ((Inr root, k1), s') \<and>
    run_state (LoadIntermediateIssuer b B (FileKeyStore_Get P) (kb\<lparr>fk_cached := []\<rparr>)) s' = ((Inr intermed, k2), s') \<and>
    r \<in> set (certificates w1) \<and> Kind r = CertKindRoot \<and> PEM r = encodePEM B (x_Raw (i_Cert root)) \<and>
    i \<in> set (certificates w1) \<and> Kind i = CertKindIntermediate \<and> PEM i = encodePEM B (x_Raw (i_Cert intermed)) \<and>
    fks_stored P ka ''root'' = Some (i_Signer root) \<and> x_PublicKey (i_Cert root) = sg_Public (i_Signer root) \<and>
    fks_stored P ka ''intermediate'' = Some (i_Signer intermed) \<and>
    x_PublicKey (i_Cert intermed) = sg_Public (i_Signer intermed)"
proof -
  have made: "bk.chain_made P B cfg ka w w1" and ka: "fks_ok P ka"
    using wp_run [OF bk.wp_run_keys [OF assms(3,4)] assms(1)] bk.kept_ok by auto
  have kept: "bk.kept P ka (kb\<lparr>fk_cached := []\<rparr>)"
    using assms(9) ka by (rule evolved_kept)
  have "ledger_le s s'" "ca_serials s' = ca_serials s"
    using state_io_relD [OF keeps_serve_all assms(7)] state_io_relD [OF serve_all_keeps_ca assms(7)]
    by (simp_all add: unchanged_def)
  then have "ledger_le w1 s'" "map Serial (ca_rows s') = map Serial (ca_rows w1)"
    using tables_ledger_le [OF assms(6)] by (auto intro: ledger.R_trans simp: ca_serials_rows)
  from bk.issuers_found [OF bk.chain_made_kept [OF made kept] assms(2) bk.kept_ok [OF kept] assms(5) this assms(8)]
  obtain root intermed r i k1 k2 where found:
    "bk.holds P (kb\<lparr>fk_cached := []\<rparr>) refRoot root" "bk.holds P (kb\<lparr>fk_cached := []\<rparr>) IntermediateKeyRef intermed"
    "r \<in> set (certificates w1)" "Kind r = CertKindRoot" "on_record B root r"
    "i \<in> set (certificates w1)" "Kind i = CertKindIntermediate" "on_record B intermed i"
    "run_state (LoadRootIssuer b B (FileKeyStore_Get P) (kb\<lparr>fk_cached := []\<rparr>)) s' = ((Inr root, k1), s')"
    "run_state (LoadIntermediateIssuer b B (FileKeyStore_Get P) (kb\<lparr>fk_cached := []\<rparr>)) s' = ((Inr intermed, k2), s')"
    by metis
  have "fks_stored P ka refRoot = Some (i_Signer root)" "fks_stored P ka IntermediateKeyRef = Some (i_Signer intermed)"
    using made kept found(1,2) by (auto simp: bk.chain_made_def bk.holds_def bk.kept_def)
  then show ?thesis
    using found by - (rule exI [of _ root], rule exI [of _ intermed], rule exI [of _ r], rule exI [of _ i],
        simp add: on_record_def paired_def refRoot_def IntermediateKeyRef_def)
qed

definition sys0 :: sys where
  "sys0 = \<lparr>certificates = [], client_roles = [], profiles = [], audit_log = [], acme_eab_tokens = [],
     acme_accounts = [], acme_orders = [], acme_nonces = [], faults = [], clock = now1, clock_tape = [],
     rand_tape = map (\<lambda>c. Some [c]) ''abcdefghijklmn'', s_KeyStore = store0, s_CRLBuilder = None,
     s_RootCRLBuilder = None, s_TSAResponder = None, s_Profiles = None, s_Metrics = None\<rparr>"

definition run2 :: "((boot_error + bool) \<times> FileKeyStore \<times> output_dir) \<times> sys" where
  "run2 = run_state (Bootstrap_Run Sqlite boot1 (FileKeyStore_Generate ks1) cfg1 store0 []) sys0"

lemma run2_ok: "fst (fst run2) = Inr False" "faults (snd run2) = []"
  by (simp_all add: run2_def sys0_def booting running serials_differ serials_differ [symmetric])

lemma pki2_faithful: "x509_keys pki2" "pem_faithful pki2"
  by (auto simp: x509_keys_def pem_faithful_def pki2_def pki1_def ca_cert_def split: option.splits if_splits)

theorem restart_same_ca_witness:
  "\<exists>root k1. run_state (LoadRootIssuer Sqlite boot1 (FileKeyStore_Get ks1) ((fst (snd (fst run2)))\<lparr>fk_cached := []\<rparr>))
     (snd run2) = ((Inr root, k1), snd run2)"
proof -
  have run: "run_state (Bootstrap_Run Sqlite boot1 (FileKeyStore_Generate ks1) cfg1 store0 []) sys0 =
      ((Inr False, fst (snd (fst run2)), snd (snd (fst run2))), snd run2)"
    using run2_ok(1) by (simp add: run2_def prod_eq_iff)
  have "run_state (serve_all deps1 []) (snd run2) = ([], snd run2)"
    by (simp add: State_Monad.return_def)
  from restart_same_ca [OF run _ _ _ _ refl this run2_ok(2) fks.evolves.same] show ?thesis
    using ks_faithful_ks1 pki2_faithful
    by (auto simp: sys0_def fks_ok_def store0_def boot1_def)
qed

section \<open>The server process\<close>

text \<open>Whatever the environment and the configuration file hold: if the server process comes up on a
  datastore without certificates, its configuration is well-formed, and the root, the intermediate,
  the TLS certificate it presents and, if the module is on, the time-stamping certificate are each
  for the private key the process then uses with it; the TLS chain ends in the intermediate.\<close>

theorem first_start:
  assumes "run_state (trustmated env readFile yaml_Unmarshal url_Parse D (file_driver T server disk env readFile) B
      (FileKeyStore_Generate P) (FileKeyStore_Get P) R dir) w = ((Inr sv, ks', dir'), w')"
    and "certificates w = []" and "ks_faithful P" and "x509_keys (b_pki B)" and "pem_faithful (b_pki B)"
  shows "valid_config (sv_cfg sv) \<and> service_paired B sv"
  using wp_run [OF wp_trustmated [OF assms(3-5,2)] assms(1)] by simp

definition env1 :: "string \<Rightarrow> string option" where
  "env1 = [''TRUSTMATE_KEK'' \<mapsto> ''pw'', ''TRUSTMATE_ENABLE_TSA'' \<mapsto> ''false'']"

definition db1 :: "unit db_prims" where
  "db1 = \<lparr>sql_Open = (\<lambda>_ _. True), filepath_Dir = (\<lambda>_. ''.''), exec_script = (\<lambda>_. Some), sqlite_scripts = (\<lambda>_. None, []),
     pg_scripts = (\<lambda>_. None, []), pg_enc = (\<lambda>t. t)\<rparr>"

definition p11_none :: "unit p11_prims" where
  "p11_none = \<lparr>crypto11_Configure = (\<lambda>_ _ _ _. None), FindKeyPairs = (\<lambda>_ _ _. None), FindKeyPair = (\<lambda>_ _ _. None),
     GenerateECDSAKeyPairWithLabel = (\<lambda>t _ _. (None, t)), GenerateRSAKeyPairWithLabel = (\<lambda>t _ _ _. (None, t))\<rparr>"

definition reg1 :: reg_prims where
  "reg1 = \<lparr>rp_Marshal = p_Name, rp_ParseDuration = (\<lambda>_. None), rp_walk = (\<lambda>m. m), rp_files = []\<rparr>"

definition disk0 :: "unit mig_db" where
  "disk0 = \<lparr>certificates = [], client_roles = [], profiles = [], audit_log = [], acme_eab_tokens = [],
     acme_accounts = [], acme_orders = [], acme_nonces = [], faults = [], clock = now1, clock_tape = [],
     rand_tape = map (\<lambda>c. Some [c]) ''abcdefghijklmn'', schema_migrations = [], mig_data = ()\<rparr>"

definition start1 :: "((start_error + service) \<times> FileKeyStore option \<times> output_dir) \<times> unit mig_db" where
  "start1 = run_state (trustmated env1 (\<lambda>_. None) (\<lambda>_. Some) (\<lambda>_. Some (''https'', ''ca'')) db1
     (file_driver p11_none () [] env1 (\<lambda>_. None)) boot1 (FileKeyStore_Generate ks1) (FileKeyStore_Get ks1) reg1 []) disk0"

lemma load1: "LoadFromEnv env1 (\<lambda>_. None) (\<lambda>_. Some) (\<lambda>_. Some (''https'', ''ca'')) [] =
    Inr (Defaults\<lparr>cfg_Modules := (cfg_Modules Defaults)\<lparr>mod_TSA := False\<rparr>\<rparr>)"
  by (simp add: LoadFromEnv_def Load_def validate_def override_defs Defaults_def env1_def ParseBool_def TrimRight_def)

lemmas starting = trustmated_def openStore_def sqlite_Open_def sqlite_runMigrations_def Migrate_Run_def file_driver_def
  openKeyStore_def LoadKEK_def loadSecret_def NewFileKeyStore_def start_service_def runBootstrap_def WithExclusiveLock_def
  load_service_def LoadServerTLSConfig_def LoadIntermediateIssuer_def LoadRootIssuer_def load_tsa_def newest_of_kind_def
  issuer_from_def FileKeyStore_Get_def derFromPEM_def NewRegistry_def Registry_Load_def db1_def reg1_def disk0_def

lemma env1_has: "env1 ''TRUSTMATE_CONFIG_FILE'' = None" "env1 ''TRUSTMATE_KEK_FILE'' = None" "env1 ''TRUSTMATE_KEK'' = Some ''pw''"
  by (simp_all add: env1_def)

lemma start1_ok: "\<exists>sv. fst (fst start1) = Inr sv"
  by (simp add: start1_def load1 env1_has starting booting running serials_differ serials_differ [symmetric])

theorem first_start_witness:
  "\<exists>sv. fst (fst start1) = Inr sv \<and> valid_config (sv_cfg sv) \<and> service_paired boot1 sv"
proof -
  obtain sv where sv: "fst (fst start1) = Inr sv"
    using start1_ok by blast
  then have "run_state (trustmated env1 (\<lambda>_. None) (\<lambda>_. Some) (\<lambda>_. Some (''https'', ''ca'')) db1
      (file_driver p11_none () [] env1 (\<lambda>_. None)) boot1 (FileKeyStore_Generate ks1) (FileKeyStore_Get ks1) reg1 []) disk0 =
      ((Inr sv, fst (snd (fst start1)), snd (snd (fst start1))), snd start1)"
    by (simp add: start1_def prod_eq_iff)
  from first_start [OF this] show ?thesis
    using sv ks_faithful_ks1 pki2_faithful by (simp add: disk0_def boot1_def)
qed

lemma Get_absent:
  assumes "fks_ok P ks" and "\<not> fks_present ks ref"
  shows "\<exists>e. fst (fst (run_state (FileKeyStore_Get P ks ref) w)) = Inl e"
proof -
  have "map_of (fk_cached ks) ref = None"
    using assms(2) fks_cached_stored [OF assms(1), of ref]
    by (cases "map_of (fk_cached ks) ref") (simp_all add: fks_stored_def fks_present_def)
  then show ?thesis
    using assms(2) by (cases "run_state io w") (simp add: FileKeyStore_Get_def fks_present_def running)
qed

text \<open>\<open>tsa_stuck\<close>: there is a root on record, so that nothing is bootstrapped, and the newest certificate under the
  profile \<open>tsa\<close> is the row \<open>rec\<close>, which names no key.\<close>

definition tsa_stuck :: "ks_prims \<Rightarrow> CertificateRecord \<Rightarrow> FileKeyStore \<Rightarrow> 'x world_scheme \<Rightarrow> bool" where
  "tsa_stuck P rec k v \<longleftrightarrow> fks_ok P k \<and> \<not> fks_present k [] \<and> select_by_kind CertKindRoot v \<noteq> [] \<and>
     select_latest_by_profile (p_Name TSA) v = Some rec \<and> CertificateRecord.KeyRef rec = []"

lemma tsa_stuck_step:
  "tsa_stuck P rec k v \<Longrightarrow> certificates v' = certificates v \<Longrightarrow> fks_ok P k' \<Longrightarrow>
   fks_present k' [] = fks_present k [] \<Longrightarrow> tsa_stuck P rec k' v'"
  by (simp add: tsa_stuck_def select_by_kind_def select_latest_by_profile_def)

lemma tsa_stuck_frame: "tsa_stuck P rec k v \<Longrightarrow> certificates v' = certificates v \<Longrightarrow> tsa_stuck P rec k v'"
  by (simp add: tsa_stuck_def select_by_kind_def select_latest_by_profile_def)

lemma tsa_stuck_faults [simp]: "tsa_stuck P rec k (v\<lparr>faults := f\<rparr>) = tsa_stuck P rec k v"
  by (simp add: tsa_stuck_def select_by_kind_def select_latest_by_profile_def)

lemma wp_get_stuck:
  assumes "tsa_stuck P rec k v"
  shows "wp (FileKeyStore_Get P k ref) (\<lambda>(a, k') v'. tsa_stuck P rec k' v') v"
proof -
  have calm: "wp (FileKeyStore_Get P k ref) (\<lambda>_ v'. certificates v' = certificates v) v"
    unfolding FileKeyStore_Get_def by (auto intro!: wps split: option.splits)
  have ok: "fks_ok P k"
    using assms by (simp add: tsa_stuck_def)
  show ?thesis
    by (rule wp_mono [OF wp_conj [OF calm fks.get_tells [OF ok]]])
      (auto intro: tsa_stuck_step [OF assms])
qed

lemma wp_issuer_stuck:
  "tsa_stuck P rec k v \<Longrightarrow>
   wp (issuer_from B (FileKeyStore_Get P) k c ref) (\<lambda>(r, k') v'. tsa_stuck P rec k' v') v"
  unfolding issuer_from_def by (auto intro!: wp_mono [OF wp_get_stuck] split: option.splits sum.splits)

lemma wp_newest_stuck:
  "tsa_stuck P rec k v \<Longrightarrow> wp (newest_of_kind b kind) (\<lambda>r v'. tsa_stuck P rec k v') v"
  unfolding newest_of_kind_def by (auto intro!: wps)

lemma wp_loads_stuck:
  assumes "tsa_stuck P rec k v"
  shows "wp (LoadServerTLSConfig b B (FileKeyStore_Get P) k) (\<lambda>(r, k') v'. tsa_stuck P rec k' v') v"
    and "wp (LoadIntermediateIssuer b B (FileKeyStore_Get P) k) (\<lambda>(r, k') v'. tsa_stuck P rec k' v') v"
    and "wp (LoadRootIssuer b B (FileKeyStore_Get P) k) (\<lambda>(r, k') v'. tsa_stuck P rec k' v') v"
  unfolding LoadServerTLSConfig_def LoadIntermediateIssuer_def LoadRootIssuer_def using assms
  by (auto intro!: wp_Certificates_GetLatestByProfile wp_mono [OF wp_newest_stuck] wp_mono [OF wp_get_stuck] wp_issuer_stuck
      split: option.splits sum.splits)

lemma wp_load_tsa_stuck:
  assumes "tsa_stuck P rec k v" and "mod_TSA (cfg_Modules cfg)"
  shows "wp (load_tsa b B (FileKeyStore_Get P) cfg intermed k) (\<lambda>(r, k') v'. \<exists>e. r = Inl e) v"
proof -
  have absent: "fks_ok P k" "\<not> fks_present k []"
    using assms(1) by (simp_all add: tsa_stuck_def)
  have get: "wp (FileKeyStore_Get P k []) (\<lambda>(a, k') v'. \<exists>e. a = Inl e) u" for u :: "'a world_scheme"
    using Get_absent [OF absent, of u] by (simp add: wp_def split_def)
  have issuer: "wp (issuer_from B (FileKeyStore_Get P) k rec []) (\<lambda>(r, k') v'. \<exists>e. r = Inl e) u" for u :: "'a world_scheme"
    unfolding issuer_from_def by (auto intro!: wp_mono [OF get] split: option.splits)
  show ?thesis
    unfolding load_tsa_def LoadTSAIssuer_def using assms
    by (auto simp: tsa_stuck_def intro!: wp_Certificates_GetLatestByProfile wp_mono [OF issuer])
qed

lemma wp_load_service_stuck:
  assumes "tsa_stuck P rec k v" and "mod_TSA (cfg_Modules cfg)"
  shows "wp (load_service b B (FileKeyStore_Get P) R cfg k) (\<lambda>(r, k') v'. \<exists>e. r = Inl e) v"
  unfolding load_service_def using assms
  by (auto intro!: wp_mono [OF wp_loads_stuck(1)] wp_mono [OF wp_loads_stuck(2)] wp_mono [OF wp_loads_stuck(3)]
      wp_mono [OF wp_load_tsa_stuck] split: sum.splits)

lemma wp_boot_again:
  assumes "tsa_stuck P rec k w"
  shows "wp (runBootstrap b B gen cfg k dir) (\<lambda>(r, k', dir') v. r = Inr () \<longrightarrow> tsa_stuck P rec k' v) w"
  unfolding runBootstrap_def
proof (rule lock_rule)
  fix u :: "'a world_scheme"
  assume "tables u = tables w"
  with assms have "tsa_stuck P rec k u"
    by (auto simp: tables_def intro: tsa_stuck_frame)
  then show "wp (do {
      (r, ks', dir') \<leftarrow> Bootstrap_Run b B gen cfg k dir;
      ret (case r of Inl e \<Rightarrow> Inl (StartBootstrap e) | Inr _ \<Rightarrow> Inr (), ks', dir')
    }) (\<lambda>a v. \<forall>v'. tables v' = tables v \<longrightarrow> (case a of (r, k', dir') \<Rightarrow> \<lambda>v. r = Inr () \<longrightarrow> tsa_stuck P rec k' v) v') u"
    unfolding Bootstrap_Run_def
    by (auto simp: tables_def intro!: wp_Certificates_FindByKind elim!: tsa_stuck_frame) (simp add: tsa_stuck_def)
qed simp

lemma wp_trustmated_stuck:
  assumes "LoadFromEnv env rf yaml url (case env ''TRUSTMATE_CONFIG_FILE'' of None \<Rightarrow> [] | Some p \<Rightarrow> p) = Inr cfg"
    and "mod_TSA (cfg_Modules cfg)" and "ks_faithful P" and "map_of disk (ks_Dir (cfg_Keystore cfg) @ ''/.json'') = None"
    and "select_by_kind CertKindRoot w \<noteq> []" and "select_latest_by_profile (p_Name TSA) w = Some rec"
    and "CertificateRecord.KeyRef rec = []"
  shows "wp (trustmated env rf yaml url D (file_driver T server disk env rf) B (FileKeyStore_Generate P) (FileKeyStore_Get P) R dir)
    (\<lambda>(r, k', dir') w'. \<exists>e. r = Inl e) w"
proof -
  have store: "wp (openStore D (cfg_Store cfg)) (\<lambda>_ w'. certificates w' = certificates w) w"
    using wp_state_io_rel [OF openStore_keeps_certificates [of D "cfg_Store cfg"], of w] by (simp add: unchanged_def)
  have keys: "wp (file_driver T server disk env rf (cfg_Keystore cfg)) (\<lambda>r w'. \<forall>k. r = Inr k \<longrightarrow> tsa_stuck P rec k w') u"
    if "certificates u = certificates w" for u
    unfolding file_driver_def openKeyStore_def NewFileKeyStore_def
    using assms(3-7) that
    by (auto simp: fks_ok_def tsa_stuck_def fks_present_def path_def select_by_kind_def select_latest_by_profile_def
        intro!: wps split: sum.splits)
  have start: "wp (start_service b B (FileKeyStore_Generate P) (FileKeyStore_Get P) R cfg k dir) (\<lambda>(r, k', dir') w'. \<exists>e. r = Inl e) u"
    if "tsa_stuck P rec k u" for b k u
    unfolding start_service_def using that assms(2)
    by (auto intro!: wp_mono [OF wp_boot_again] wp_mono [OF wp_load_service_stuck] split: sum.splits)
  show ?thesis
    unfolding trustmated_def assms(1)
    by (auto intro!: wp_mono [OF store] wp_mono [OF keys] wp_mono [OF start] split: sum.splits)
qed

text \<open>C36. A certificate that is issued over the API under the profile \<open>tsa\<close> keeps the server from starting again as long
  as the time-stamping module is on: it is the newest under that profile and therefore taken for the authority's
  own, but its row names no key. The server process, started on the datastore that the request left, with any
  environment and file that switch the module on and the file key store, ends with an error, whatever else
  happens on the way. (It is assumed that the CA's root is on record, that no key file has the name of the
  empty reference, and that the clock was later than the creation time of every certificate on record.)\<close>

theorem issued_tsa_blocks_start:
  assumes "run_state (handleIssueCertificate deps r) s = (resp, s')" and "status resp = 201"
    and "dec_issueCertificate (d_json deps) (q_Body r) = Inr req" and "ic_Profile req = ''tsa''"
    and "case s_Profiles s of None \<Rightarrow> True | Some reg \<Rightarrow> registry_ok reg"
    and "\<forall>c\<in>set (certificates s). CreatedAt c < enc_of (d_Store deps) (clock s')"
    and "certificates w = certificates s'" and "select_by_kind CertKindRoot w \<noteq> []"
    and "LoadFromEnv env readFile yaml_Unmarshal url_Parse
      (case env ''TRUSTMATE_CONFIG_FILE'' of None \<Rightarrow> [] | Some p \<Rightarrow> p) = Inr cfg" and "mod_TSA (cfg_Modules cfg)"
    and "ks_faithful P" and "map_of disk (ks_Dir (cfg_Keystore cfg) @ ''/.json'') = None"
  shows "\<exists>e. fst (fst (run_state (trustmated env readFile yaml_Unmarshal url_Parse D (file_driver T server disk env readFile) B
      (FileKeyStore_Generate P) (FileKeyStore_Get P) R dir) w)) = Inl e"
proof -
  obtain prof rec where
    prof: "(case s_Profiles s of Some reg \<Rightarrow> Registry_Lookup reg ''tsa'' | None \<Rightarrow> Lookup ''tsa'') = Some prof"
    and C: "certificates s' = certificates s @ [cert_row (d_Store deps) rec]"
    and rec: "ProfileName rec = p_Name prof" "CertificateRecord.KeyRef rec = []" "CreatedAt rec = clock s'"
    using wp_run [OF wp_issued_row assms(1), rule_format, OF assms(2)] assms(3,4)
    by (metis Inr_inject)
  have "p_Name prof = p_Name TSA"
    using prof assms(5) by (auto simp: TSA_def split: option.splits dest: Lookup_name Registry_Lookup_name)
  then have "select_latest_by_profile (p_Name TSA) w = Some (cert_row (d_Store deps) rec)"
    using select_latest_snoc [OF C [folded assms(7)]] assms(6) rec by (simp add: cert_row_def order.strict_implies_order)
  from wp_trustmated_stuck [OF assms(9-12,8) this] rec(2) show ?thesis
    by (simp add: cert_row_def wp_def split_def)
qed

definition deps_tsa :: Deps where
  "deps_tsa = deps1\<lparr>d_pki := pki2, d_json := json1\<lparr>dec_issueCertificate :=
     (\<lambda>_. Inr \<lparr>ic_Profile = ''tsa'', ic_CSR = ''csr''\<rparr>)\<rparr>\<rparr>"

lemma tsa_found: "Lookup ''tsa'' = Some TSA"
  by (simp add: Lookup_def All_def builtin_defs)

lemma serial_A: "Int_String (serial_of ''A'') \<noteq> ''1''" "Int_String (serial_of ''A'') \<noteq> ''2''"
  "Int_String (serial_of ''A'') \<noteq> ''7''" "Int_String (serial_of ''A'') \<noteq> ''8''"
  unfolding sample_serials [symmetric] Int_String_inject by (simp_all add: serial_of_ascii)

lemma issue_tsa_ok:
  "status (fst (run_state (handleIssueCertificate deps_tsa issue7) sys1)) = 201"
  "faults (snd (run_state (handleIssueCertificate deps_tsa issue7) sys1)) = []"
  "clock (snd (run_state (handleIssueCertificate deps_tsa issue7) sys1)) = now1"
  by (simp_all add: deps_tsa_def handleIssueCertificate_def issue7_def sample_data running Query_Get_def json1_def
      missing_fields_def lookupProfile_def issueLeafCertificate_def count_issued_def tsa_found inter1_def ca_issuer_def
      serial_A serial_A [symmetric] booting ParseCSR_def extKeyUsageOIDs_def)

definition env2 :: "string \<Rightarrow> string option" where
  "env2 = [''TRUSTMATE_KEK'' \<mapsto> ''pw'']"

theorem issued_tsa_blocks_start_witness:
  "\<exists>e. fst (fst (run_state (trustmated env2 (\<lambda>_. None) (\<lambda>_. Some) (\<lambda>_. Some (''https'', ''ca'')) db1
     (file_driver p11_none () [] env2 (\<lambda>_. None)) boot1 (FileKeyStore_Generate ks1) (FileKeyStore_Get ks1) reg1 [])
     (disk0\<lparr>certificates := certificates (snd (run_state (handleIssueCertificate deps_tsa issue7) sys1))\<rparr>))) = Inl e"
proof -
  let ?s = "snd (run_state (handleIssueCertificate deps_tsa issue7) sys1)"
  let ?w = "disk0\<lparr>certificates := certificates ?s\<rparr>"
  have cfg: "LoadFromEnv env2 (\<lambda>_. None) (\<lambda>_. Some) (\<lambda>_. Some (''https'', ''ca''))
      (case env2 ''TRUSTMATE_CONFIG_FILE'' of None \<Rightarrow> [] | Some p \<Rightarrow> p) = Inr Defaults"
    by (simp add: LoadFromEnv_def Load_def validate_def override_defs Defaults_def env2_def TrimRight_def)
  have "\<exists>x. certificates ?s = certificates sys1 @ [x]"
    using wp_run [OF wp_issued_row surjective_pairing, of deps_tsa issue7 sys1] issue_tsa_ok(1) by blast
  moreover have "\<exists>cs. certificates sys1 = row ''1'' CertKindRoot [] # cs"
    by (simp add: sys1_def)
  ultimately have root: "select_by_kind CertKindRoot ?w \<noteq> []"
    by (auto simp: select_by_kind_def row_def)
  have req: "dec_issueCertificate (d_json deps_tsa) (q_Body issue7) = Inr \<lparr>ic_Profile = ''tsa'', ic_CSR = ''csr''\<rparr>"
    "case s_Profiles sys1 of None \<Rightarrow> True | Some reg \<Rightarrow> registry_ok reg"
    by (simp_all add: deps_tsa_def deps1_def json1_def sys1_def)
  have "d_Store deps_tsa = Sqlite" "\<forall>c\<in>set (certificates sys1). CreatedAt c = 0"
    by (simp_all add: deps_tsa_def deps1_def sys1_def row_def)
  then have later: "\<forall>c\<in>set (certificates sys1). CreatedAt c < enc_of (d_Store deps_tsa) (clock ?s)"
    using issue_tsa_ok(3) by (simp add: enc_of_def now1_def rfc3339_def Second_def Truncate_second_def)
  have "mod_TSA (cfg_Modules Defaults)" "ic_Profile \<lparr>ic_Profile = ''tsa'', ic_CSR = ''csr''\<rparr> = ''tsa''"
    "certificates ?w = certificates ?s" "map_of [] (ks_Dir (cfg_Keystore Defaults) @ ''/.json'') = (None :: file_content option)"
    by (simp_all add: Defaults_def)
  from issued_tsa_blocks_start [OF surjective_pairing issue_tsa_ok(1) req(1) this(2) req(2) later this(3) root cfg this(1)
      ks_faithful_ks1 this(4)]
  show ?thesis .
qed

end
