(* ===== verification/Client.thy ===== *)
theory Client
  imports Gostd
begin

text \<open>
  The client side: the REST client \<open>internal/cliclient/client.go\<close>, what is used of Go's \<open>flag\<close>
  package, and the two operator tools \<open>cmd/trustmate-admin\<close> and \<open>cmd/trustmate-management\<close>. A tool is a
  program over the state of whatever answers its requests; leaving the process is a value with the
  exit code and what was written to both outputs. The HTTP exchange, TLS key pairs and JSON are
  parameters.
\<close>

section \<open>Requests\<close>

record http_req =
  hq_Method :: string
  hq_URL :: string
  hq_ContentType :: string
  hq_Body :: string

record http_resp =
  hs_StatusCode :: nat
  hs_Status :: string
  hs_ContentType :: string
  hs_Body :: string

text \<open>\<open>http_Do identity roots request\<close> is one exchange: \<open>None\<close> if it fails, be it before or after the server
  acted. \<open>AppendCertsFromPEM\<close> tells whether a bundle holds a certificate.\<close>

record ('i, 's) client_prims =
  http_Do :: "'i \<Rightarrow> string option \<Rightarrow> http_req \<Rightarrow> ('s, http_resp option) state"
  URLOk :: "string \<Rightarrow> bool"
  LoadX509KeyPair :: "string \<Rightarrow> string \<Rightarrow> 'i option"
  c_ReadFile :: "string \<Rightarrow> string option"
  AppendCertsFromPEM :: "string \<Rightarrow> bool"
  Marshal_map :: "(string \<times> string) list \<Rightarrow> string"
  Unmarshal_any :: "string \<Rightarrow> json option"
  MarshalIndent :: "json \<Rightarrow> string"

section \<open>The client library\<close>

record Flags =
  f_Server :: string
  f_Cert :: string
  f_Key :: string
  f_CA :: string

definition envOr :: "(string \<Rightarrow> string option) \<Rightarrow> string \<Rightarrow> string \<Rightarrow> string" where
  "envOr env key def = (case env key of Some v \<Rightarrow> v | None \<Rightarrow> def)"

text \<open>The defaults of the shared flags.\<close>

definition RegisterFlags :: "(string \<Rightarrow> string option) \<Rightarrow> Flags" where
  "RegisterFlags env = \<lparr>f_Server = envOr env ''TRUSTMATE_CLIENT_SERVER'' ''https://localhost:8080'',
     f_Cert = envOr env ''TRUSTMATE_CLIENT_CERT'' [], f_Key = envOr env ''TRUSTMATE_CLIENT_KEY'' [],
     f_CA = envOr env ''TRUSTMATE_CLIENT_CA'' []\<rparr>"

record 'i Client =
  c_identity :: 'i
  c_RootCAs :: "string option"
  c_baseURL :: string

record APIError =
  e_StatusCode :: nat
  e_Status :: string
  e_ContentType :: string
  e_Body :: string

datatype client_error =
    NoIdentity
  | BadKeyPair
  | CAUnreadable string
  | CAEmpty string
  | BadRequest
  | RequestFailed
  | BadResponse
  | FileUnreadable string
  | ServerSaid APIError

definition New :: "('i, 's) client_prims \<Rightarrow> Flags \<Rightarrow> client_error + 'i Client" where
  "New P f =
     (if f_Cert f = [] \<or> f_Key f = [] then Inl NoIdentity
      else case LoadX509KeyPair P (f_Cert f) (f_Key f) of
        None \<Rightarrow> Inl BadKeyPair
      | Some cert \<Rightarrow>
          (if f_CA f = []
           then Inr \<lparr>c_identity = cert, c_RootCAs = None, c_baseURL = TrimRight (f_Server f) ''/''\<rparr>
           else case c_ReadFile P (f_CA f) of
             None \<Rightarrow> Inl (CAUnreadable (f_CA f))
           | Some caPEM \<Rightarrow>
               (if \<not> AppendCertsFromPEM P caPEM then Inl (CAEmpty (f_CA f))
                else Inr \<lparr>c_identity = cert, c_RootCAs = Some caPEM, c_baseURL = TrimRight (f_Server f) ''/''\<rparr>)))"

definition doRaw ::
    "('i, 's) client_prims \<Rightarrow> 'i Client \<Rightarrow> string \<Rightarrow> string \<Rightarrow> string \<Rightarrow> string \<Rightarrow> ('s, client_error + string) state" where
  "doRaw P c method p contentType body =
     (if \<not> URLOk P (c_baseURL c @ p) then ret (Inl BadRequest)
      else do {
        resp \<leftarrow> http_Do P (c_identity c) (c_RootCAs c)
          \<lparr>hq_Method = method, hq_URL = c_baseURL c @ p, hq_ContentType = contentType, hq_Body = body\<rparr>;
        (case resp of
           None \<Rightarrow> ret (Inl RequestFailed)
         | Some r \<Rightarrow>
             (if hs_StatusCode r \<ge> 300
              then ret (Inl (ServerSaid \<lparr>e_StatusCode = hs_StatusCode r, e_Status = hs_Status r,
                     e_ContentType = hs_ContentType r, e_Body = hs_Body r\<rparr>))
              else ret (Inr (hs_Body r))))
      })"

text \<open>\<open>do\<close> up to the decoding of the answer, which depends on the type the caller decodes into: an empty
  answer leaves the caller's value as it was, \<open>zero\<close>.\<close>

definition do_json ::
    "('i, 's) client_prims \<Rightarrow> 'i Client \<Rightarrow> (string \<Rightarrow> 'o option) \<Rightarrow> 'o \<Rightarrow> string \<Rightarrow> string \<Rightarrow>
     (string \<times> string) list option \<Rightarrow> ('s, client_error + 'o) state" where
  "do_json P c Unmarshal zero method p body = do {
     data \<leftarrow> (case body of
       None \<Rightarrow> doRaw P c method p [] []
     | Some kvs \<Rightarrow> doRaw P c method p ''application/json'' (Marshal_map P kvs));
     (case data of
        Inl e \<Rightarrow> ret (Inl e)
      | Inr d \<Rightarrow>
          (if d = [] then ret (Inr zero)
           else case Unmarshal d of
             None \<Rightarrow> ret (Inl BadResponse)
           | Some out \<Rightarrow> ret (Inr out)))
   }"

definition Client_Get ::
    "('i, 's) client_prims \<Rightarrow> 'i Client \<Rightarrow> (string \<Rightarrow> 'o option) \<Rightarrow> 'o \<Rightarrow> string \<Rightarrow> ('s, client_error + 'o) state" where
  "Client_Get P c Unmarshal zero p = do_json P c Unmarshal zero ''GET'' p None"

definition Client_Post ::
    "('i, 's) client_prims \<Rightarrow> 'i Client \<Rightarrow> (string \<Rightarrow> 'o option) \<Rightarrow> 'o \<Rightarrow> string \<Rightarrow> (string \<times> string) list option \<Rightarrow>
     ('s, client_error + 'o) state" where
  "Client_Post P c Unmarshal zero p body = do_json P c Unmarshal zero ''POST'' p body"

definition GetRaw :: "('i, 's) client_prims \<Rightarrow> 'i Client \<Rightarrow> string \<Rightarrow> ('s, client_error + string) state" where
  "GetRaw P c p = doRaw P c ''GET'' p [] []"

definition PostRaw ::
    "('i, 's) client_prims \<Rightarrow> 'i Client \<Rightarrow> string \<Rightarrow> string \<Rightarrow> string \<Rightarrow> ('s, client_error + string) state" where
  "PostRaw P c p contentType body = doRaw P c ''POST'' p contentType body"

definition Problem :: "('i, 's) client_prims \<Rightarrow> APIError \<Rightarrow> (string \<times> json) list option" where
  "Problem P e =
     (if \<not> HasPrefix (e_ContentType e) ''application/problem+json'' then None
      else case Unmarshal_any P (e_Body e) of Some (JObj p) \<Rightarrow> Some p | _ \<Rightarrow> None)"

definition ExitFailure :: nat where "ExitFailure = 1"
definition ExitUsage :: nat where "ExitUsage = 2"
definition ExitRejected :: nat where "ExitRejected = 3"
definition ExitServer :: nat where "ExitServer = 4"

definition ExitCode :: "client_error \<Rightarrow> nat" where
  "ExitCode err = (case err of
     ServerSaid e \<Rightarrow> (if e_StatusCode e \<ge> 500 then ExitServer else ExitRejected)
   | _ \<Rightarrow> ExitFailure)"

text \<open>What a process leaves behind; texts of local errors are not spelled out.\<close>

datatype stderr_text = UsageText | Document string | Complaint string client_error | Remark string string

record exited =
  x_code :: nat
  x_stdout :: "string list"
  x_stderr :: "stderr_text list"

definition Fail :: "('i, 's) client_prims \<Rightarrow> string \<Rightarrow> client_error \<Rightarrow> exited" where
  "Fail P prog err = \<lparr>x_code = ExitCode err, x_stdout = [], x_stderr =
     [case err of
        ServerSaid e \<Rightarrow> (if Problem P e \<noteq> None then Document (TrimSpace (e_Body e)) else Complaint prog err)
      | _ \<Rightarrow> Complaint prog err]\<rparr>"

definition usage :: exited where
  "usage = \<lparr>x_code = ExitUsage, x_stdout = [], x_stderr = [UsageText]\<rparr>"

definition fatalUsage :: "string \<Rightarrow> string \<Rightarrow> exited" where
  "fatalUsage prog msg = \<lparr>x_code = ExitUsage, x_stdout = [], x_stderr = [Remark prog msg]\<rparr>"

definition printed :: "string \<Rightarrow> exited" where
  "printed s = \<lparr>x_code = 0, x_stdout = [s], x_stderr = []\<rparr>"

definition printJSON :: "('i, 's) client_prims \<Rightarrow> json \<Rightarrow> exited" where
  "printJSON P v = printed (MarshalIndent P v)"

section \<open>The flag package\<close>

datatype flag_kind = StringFlag | IntFlag | BoolFlag

datatype flag_error = ErrHelp | BadSyntax string | NotDefined string | NeedsArgument string | InvalidValue string string

definition lower :: "char \<Rightarrow> char" where
  "lower c = (if of_char c < (128 :: nat) then char_of ((of_char c :: nat) OR 32) else c)"

definition base_digit :: "char \<Rightarrow> nat option" where
  "base_digit c = (case undigit c of
     Some d \<Rightarrow> Some d
   | None \<Rightarrow> (let n = of_char (lower c) in if 97 \<le> n \<and> n \<le> (122 :: nat) then Some (n - 87) else None))"

text \<open>\<open>strconv.ParseInt(s, 0, 64)\<close>: the base from the prefix, underscores between digits.\<close>

fun underscores_ok :: "bool \<Rightarrow> char \<Rightarrow> string \<Rightarrow> bool" where
  "underscores_ok hex saw [] = (saw \<noteq> CHR ''_'')"
| "underscores_ok hex saw (c # cs) =
     (if undigit c \<noteq> None \<or> (hex \<and> lower c \<in> set ''abcdef'') then underscores_ok hex (CHR ''0'') cs
      else if c = CHR ''_'' then saw = CHR ''0'' \<and> underscores_ok hex (CHR ''_'') cs
      else saw \<noteq> CHR ''_'' \<and> underscores_ok hex (CHR ''!'') cs)"

definition base_prefix :: "string \<Rightarrow> nat \<times> string" where
  "base_prefix s =
     (case s of
        c # d # ds \<Rightarrow>
          (if c \<noteq> CHR ''0'' then (10, s)
           else if ds \<noteq> [] \<and> lower d = CHR ''b'' then (2, ds)
           else if ds \<noteq> [] \<and> lower d = CHR ''o'' then (8, ds)
           else if ds \<noteq> [] \<and> lower d = CHR ''x'' then (16, ds)
           else (8, d # ds))
      | _ \<Rightarrow> (10, s))"

fun base_digits :: "nat \<Rightarrow> nat \<Rightarrow> string \<Rightarrow> nat option" where
  "base_digits base acc [] = Some acc"
| "base_digits base acc (c # cs) =
     (if c = CHR ''_'' then base_digits base acc cs
      else case base_digit c of
        None \<Rightarrow> None
      | Some d \<Rightarrow> if d \<ge> base then None else base_digits base (base * acc + d) cs)"

definition ParseUint0 :: "string \<Rightarrow> nat option" where
  "ParseUint0 s =
     (if s = [] then None
      else case base_prefix s of (base, ds) \<Rightarrow>
        (let marked = take 1 s = ''0'' \<and> length s \<ge> 2 \<and> lower (s ! 1) \<in> set ''box''
         in if CHR ''_'' \<in> set ds \<and>
                \<not> underscores_ok (marked \<and> lower (s ! 1) = CHR ''x'') (if marked then CHR ''0'' else CHR ''^'')
                  (if marked then drop 2 s else s)
            then None else base_digits base 0 ds))"

definition ParseInt0 :: "string \<Rightarrow> int option" where
  "ParseInt0 s =
     (case s of
        [] \<Rightarrow> None
      | c # cs \<Rightarrow>
          (let neg = (c = CHR ''-'')
           in case ParseUint0 (if c \<in> set ''+-'' then cs else s) of
                None \<Rightarrow> None
              | Some n \<Rightarrow>
                  (if neg then (if n \<le> 2 ^ 63 then Some (- int n) else None)
                   else (if n < 2 ^ 63 then Some (int n) else None))))"

text \<open>\<open>FlagSet.Parse\<close>: the settings in order of their places, the latest first, and the arguments that are
  left. A value that does not parse stops the tool.\<close>

definition value_ok :: "flag_kind \<Rightarrow> string \<Rightarrow> bool" where
  "value_ok k v = (case k of
     StringFlag \<Rightarrow> True
   | IntFlag \<Rightarrow> ParseInt0 v \<noteq> None
   | BoolFlag \<Rightarrow> ParseBool v \<noteq> None)"

fun Parse_flags ::
    "(string \<times> flag_kind) list \<Rightarrow> (string \<times> string) list \<Rightarrow> string list \<Rightarrow>
     flag_error + (string \<times> string) list \<times> string list" where
  "Parse_flags formal given [] = Inr (given, [])"
| "Parse_flags formal given (s # args) =
     (if length s < 2 \<or> take 1 s \<noteq> ''-'' then Inr (given, s # args)
      else if s = ''--'' then Inr (given, args)
      else let name = drop (if take 2 s = ''--'' then 2 else 1) s in
        if name = [] \<or> take 1 name \<in> {''-'', ''=''} then Inl (BadSyntax s)
        else case Cut (CHR ''='') name of (n, v, hasValue) \<Rightarrow>
          (case map_of formal n of
             None \<Rightarrow> Inl (if n \<in> {''help'', ''h''} then ErrHelp else NotDefined n)
           | Some k \<Rightarrow>
               (if hasValue \<or> k = BoolFlag
                then let value = (if hasValue then v else ''true'') in
                  (if value_ok k value then Parse_flags formal ((n, value) # given) args else Inl (InvalidValue n value))
                else case args of
                  [] \<Rightarrow> Inl (NeedsArgument n)
                | value # rest \<Rightarrow>
                    (if value_ok k value then Parse_flags formal ((n, value) # given) rest
                     else Inl (InvalidValue n value)))))"

declare Parse_flags.simps [simp del]

definition connection_flags :: "(string \<times> flag_kind) list" where
  "connection_flags = map (\<lambda>n. (n, StringFlag)) [''server'', ''cert'', ''key'', ''ca'']"

definition flag_or :: "(string \<times> string) list \<Rightarrow> string \<Rightarrow> string \<Rightarrow> string" where
  "flag_or given n def = (case map_of given n of Some v \<Rightarrow> v | None \<Rightarrow> def)"

definition connection_of :: "(string \<Rightarrow> string option) \<Rightarrow> (string \<times> string) list \<Rightarrow> Flags" where
  "connection_of env given =
     (let f = RegisterFlags env
      in \<lparr>f_Server = flag_or given ''server'' (f_Server f), f_Cert = flag_or given ''cert'' (f_Cert f),
          f_Key = flag_or given ''key'' (f_Key f), f_CA = flag_or given ''ca'' (f_CA f)\<rparr>)"

text \<open>Flags that do not parse end the process (\<open>flag.ExitOnError\<close>); \<open>mustClient\<close> ends it without a client.\<close>

definition mustClient ::
    "('i, 's) client_prims \<Rightarrow> (string \<Rightarrow> string option) \<Rightarrow> string \<Rightarrow> (string \<times> flag_kind) list \<Rightarrow> string list \<Rightarrow>
     ('i Client \<Rightarrow> (string \<times> string) list \<Rightarrow> string list \<Rightarrow> ('s, exited) state) \<Rightarrow> ('s, exited) state" where
  "mustClient P env prog own args body =
     (case Parse_flags (connection_flags @ own) [] args of
        Inl ErrHelp \<Rightarrow> ret \<lparr>x_code = 0, x_stdout = [], x_stderr = [UsageText]\<rparr>
      | Inl _ \<Rightarrow> ret usage
      | Inr (given, rest) \<Rightarrow>
          (case New P (connection_of env given) of
             Inl e \<Rightarrow> ret (Fail P prog e)
           | Inr c \<Rightarrow> body c given rest))"

text \<open>A request whose answer is printed.\<close>

definition show_answer ::
    "('i, 's) client_prims \<Rightarrow> string \<Rightarrow> ('s, client_error + json) state \<Rightarrow> ('s, exited) state" where
  "show_answer P prog request = do {
     a \<leftarrow> request;
     ret (case a of Inl e \<Rightarrow> Fail P prog e | Inr out \<Rightarrow> printJSON P out)
   }"

section \<open>trustmate-admin\<close>

definition runProfiles ::
    "('i, 's) client_prims \<Rightarrow> (string \<Rightarrow> string option) \<Rightarrow> string list \<Rightarrow> ('s, exited) state" where
  "runProfiles P env args = (case args of
     [] \<Rightarrow> ret usage
   | sub # rest \<Rightarrow> mustClient P env ''trustmate-admin'' [] rest (\<lambda>c given _.
       if sub = ''list''
       then show_answer P ''trustmate-admin'' (Client_Get P c (Unmarshal_any P) JNull ''/v1/profiles'')
       else if sub = ''reload''
       then show_answer P ''trustmate-admin'' (Client_Post P c (Unmarshal_any P) JNull ''/v1/profiles/reload'' None)
       else ret usage))"

definition runClients ::
    "('i, 's) client_prims \<Rightarrow> (string \<Rightarrow> string option) \<Rightarrow> string list \<Rightarrow> ('s, exited) state" where
  "runClients P env args = (case args of
     [] \<Rightarrow> ret usage
   | sub # rest \<Rightarrow>
       mustClient P env ''trustmate-admin'' [(''csr'', StringFlag), (''role'', StringFlag)] rest (\<lambda>c given _.
         let csrPath = flag_or given ''csr'' []; role = flag_or given ''role'' [] in
         if sub = ''add''
         then (if csrPath = [] \<or> role = [] then ret (fatalUsage ''trustmate-admin'' ''--csr and --role are required'')
               else case c_ReadFile P csrPath of
                 None \<Rightarrow> ret (Fail P ''trustmate-admin'' (FileUnreadable csrPath))
               | Some csrPEM \<Rightarrow> show_answer P ''trustmate-admin''
                   (Client_Post P c (Unmarshal_any P) JNull ''/v1/clients'' (Some [(''csr'', csrPEM), (''role'', role)])))
         else if sub = ''list''
         then show_answer P ''trustmate-admin'' (Client_Get P c (Unmarshal_any P) JNull ''/v1/clients'')
         else ret usage))"

definition runAudit ::
    "('i, 's) client_prims \<Rightarrow> (string \<Rightarrow> string option) \<Rightarrow> string list \<Rightarrow> ('s, exited) state" where
  "runAudit P env args = (case args of
     [] \<Rightarrow> ret usage
   | sub # rest \<Rightarrow>
       (if sub \<noteq> ''list'' then ret usage
        else mustClient P env ''trustmate-admin'' [(''limit'', IntFlag)] rest (\<lambda>c given _.
          let limit = (case map_of given ''limit'' of None \<Rightarrow> 0 | Some v \<Rightarrow> the (ParseInt0 v));
              p = (if limit > 0 then ''/v1/audit?limit='' @ Int_String limit else ''/v1/audit'')
          in show_answer P ''trustmate-admin'' (Client_Get P c (Unmarshal_any P) JNull p))))"

definition runACME ::
    "('i, 's) client_prims \<Rightarrow> (string \<Rightarrow> string option) \<Rightarrow> string list \<Rightarrow> ('s, exited) state" where
  "runACME P env args = (case args of
     [] \<Rightarrow> ret usage
   | sub # rest \<Rightarrow>
       (if sub \<noteq> ''issue-eab-token'' then ret usage
        else mustClient P env ''trustmate-admin'' [(''role'', StringFlag)] rest (\<lambda>c given _.
          show_answer P ''trustmate-admin'' (Client_Post P c (Unmarshal_any P) JNull ''/v1/acme/eab-tokens''
            (Some [(''role'', flag_or given ''role'' ''manager'')])))))"

definition trustmate_admin ::
    "('i, 's) client_prims \<Rightarrow> string \<Rightarrow> (string \<Rightarrow> string option) \<Rightarrow> string list \<Rightarrow> ('s, exited) state" where
  "trustmate_admin P version env args = (case args of
     [] \<Rightarrow> ret usage
   | cmd # rest \<Rightarrow>
       (if cmd = ''profiles'' then runProfiles P env rest
        else if cmd = ''clients'' then runClients P env rest
        else if cmd = ''audit'' then runAudit P env rest
        else if cmd = ''acme'' then runACME P env rest
        else if cmd \<in> {''version'', ''--version'', ''-version''} then ret (printed (''trustmate-admin '' @ version))
        else ret usage))"

section \<open>trustmate-management\<close>

definition runCertificates ::
    "('i, 's) client_prims \<Rightarrow> (string \<Rightarrow> string option) \<Rightarrow> string list \<Rightarrow> ('s, exited) state" where
  "runCertificates P env args = (case args of
     [] \<Rightarrow> ret usage
   | sub # args' \<Rightarrow>
       mustClient P env ''trustmate-management''
         [(''profile'', StringFlag), (''csr'', StringFlag), (''reason'', StringFlag), (''dry-run'', BoolFlag)] args'
         (\<lambda>c given rest.
         let profile = flag_or given ''profile'' []; csrPath = flag_or given ''csr'' []; reason = flag_or given ''reason'' [];
             dryRun = (case map_of given ''dry-run'' of None \<Rightarrow> False | Some v \<Rightarrow> the (ParseBool v)) in
         if sub = ''issue''
         then (if profile = [] \<or> csrPath = []
               then ret (fatalUsage ''trustmate-management'' ''--profile and --csr are required'')
               else case c_ReadFile P csrPath of
                 None \<Rightarrow> ret (Fail P ''trustmate-management'' (FileUnreadable csrPath))
               | Some csrPEM \<Rightarrow> show_answer P ''trustmate-management''
                   (Client_Post P c (Unmarshal_any P) JNull
                     (if dryRun then ''/v1/certificates?dry_run=true'' else ''/v1/certificates'')
                     (Some [(''profile'', profile), (''csr'', csrPEM)])))
         else if sub = ''get''
         then (case rest of
                 [serial] \<Rightarrow> show_answer P ''trustmate-management''
                   (Client_Get P c (Unmarshal_any P) JNull (''/v1/certificates/'' @ serial))
               | _ \<Rightarrow> ret (fatalUsage ''trustmate-management'' ''expected exactly one serial argument''))
         else if sub = ''revoke''
         then (case rest of
                 [serial] \<Rightarrow> show_answer P ''trustmate-management''
                   (Client_Post P c (Unmarshal_any P) JNull (''/v1/certificates/'' @ serial @ ''/revoke'')
                     (if reason = [] then None else Some [(''reason'', reason)]))
               | _ \<Rightarrow> ret (fatalUsage ''trustmate-management'' ''expected exactly one serial argument''))
         else ret usage))"

definition runTSA ::
    "('i, 's) client_prims \<Rightarrow> (string \<Rightarrow> string option) \<Rightarrow> string list \<Rightarrow> ('s, exited) state" where
  "runTSA P env args = (case args of
     [] \<Rightarrow> ret usage
   | sub # rest \<Rightarrow>
       (if sub \<noteq> ''rotate'' then ret usage
        else mustClient P env ''trustmate-management'' [] rest (\<lambda>c given _.
          show_answer P ''trustmate-management'' (Client_Post P c (Unmarshal_any P) JNull ''/v1/tsa/rotate'' None))))"

definition trustmate_management ::
    "('i, 's) client_prims \<Rightarrow> string \<Rightarrow> (string \<Rightarrow> string option) \<Rightarrow> string list \<Rightarrow> ('s, exited) state" where
  "trustmate_management P version env args = (case args of
     [] \<Rightarrow> ret usage
   | cmd # rest \<Rightarrow>
       (if cmd = ''certificates'' then runCertificates P env rest
        else if cmd = ''tsa'' then runTSA P env rest
        else if cmd \<in> {''version'', ''--version'', ''-version''} then ret (printed (''trustmate-management '' @ version))
        else ret usage))"

section \<open>What an exit code tells\<close>

text \<open>A server that answers anything, depending on all it was asked so far, with the exchanges on record.\<close>

definition recorder ::
    "('i \<Rightarrow> string option \<Rightarrow> (http_req \<times> http_resp option) list \<Rightarrow> http_req \<Rightarrow> http_resp option) \<Rightarrow>
     'i \<Rightarrow> string option \<Rightarrow> http_req \<Rightarrow> ((http_req \<times> http_resp option) list, http_resp option) state" where
  "recorder ans i roots req = State (\<lambda>log. let a = ans i roots log req in (a, log @ [(req, a)]))"

text \<open>Two command lines that are not about the server: one that asks for the version, and one with a flag that asks
  for help, as \<open>-h\<close>, \<open>-help\<close>, \<open>--help\<close> and the like do.\<close>

definition asks_version :: "string \<Rightarrow> string \<Rightarrow> string list \<Rightarrow> string option" where
  "asks_version prog version args = (case args of
     [] \<Rightarrow> None
   | cmd # _ \<Rightarrow> if cmd \<in> {''version'', ''--version'', ''-version''} then Some (prog @ '' '' @ version) else None)"

definition help_word :: "string \<Rightarrow> bool" where
  "help_word s \<longleftrightarrow> take 1 s = ''-'' \<and>
     (case Cut (CHR ''='') (drop (if take 2 s = ''--'' then 2 else 1) s) of (n, _) \<Rightarrow> n \<in> {''help'', ''h''})"

definition asks_help :: "string list \<Rightarrow> bool" where
  "asks_help args \<longleftrightarrow> list_ex help_word args"

text \<open>Errors that arise before anything is sent: no client could be set up, a file could not be read, or
  the URL is none.\<close>

definition local_failure :: "('i, 's) client_prims \<Rightarrow> client_error \<Rightarrow> bool" where
  "local_failure P e \<longleftrightarrow> (\<exists>f. New P f = Inl e) \<or> (\<exists>f. c_ReadFile P f = None \<and> e = FileUnreadable f) \<or>
     ((\<exists>u. \<not> URLOk P u) \<and> e = BadRequest)"

definition exit_tells ::
    "('i, 's) client_prims \<Rightarrow> string option \<Rightarrow> bool \<Rightarrow> exited \<Rightarrow> (http_req \<times> http_resp option) list \<Rightarrow> bool" where
  "exit_tells P hello help x log = (case log of
     [] \<Rightarrow>
       (if x_code x = 0
        then (case hello of Some v \<Rightarrow> x_stdout x = [v] \<and> x_stderr x = []
                          | None \<Rightarrow> help \<and> x_stdout x = [] \<and> x_stderr x = [UsageText])
        else if x_code x = ExitFailure
        then x_stdout x = [] \<and> (\<exists>prog e. x_stderr x = [Complaint prog e] \<and> local_failure P e)
        else x_code x = ExitUsage \<and> x_stdout x = [] \<and>
          (x_stderr x = [UsageText] \<or> (\<exists>prog msg. x_stderr x = [Remark prog msg])))
   | [(req, None)] \<Rightarrow> x_code x = ExitFailure \<and> x_stdout x = []
   | [(req, Some r)] \<Rightarrow>
       (if hs_StatusCode r \<ge> 500 then x_code x = ExitServer \<and> x_stdout x = []
        else if hs_StatusCode r \<ge> 300 then x_code x = ExitRejected \<and> x_stdout x = []
        else if hs_Body r \<noteq> [] \<and> Unmarshal_any P (hs_Body r) = None then x_code x = ExitFailure \<and> x_stdout x = []
        else x_code x = 0 \<and> x_stderr x = [] \<and>
          x_stdout x = [MarshalIndent P (if hs_Body r = [] then JNull else the (Unmarshal_any P (hs_Body r)))])
   | _ \<Rightarrow> False)"

lemmas exit_codes = ExitFailure_def ExitUsage_def ExitRejected_def ExitServer_def

lemma local_failures:
  "New P f = Inl e \<Longrightarrow> local_failure P e" "c_ReadFile P file = None \<Longrightarrow> local_failure P (FileUnreadable file)"
  "\<not> URLOk P u \<Longrightarrow> local_failure P BadRequest"
  by (auto simp: local_failure_def)

lemma local_exits:
  assumes "local_failure P e" and "\<And>a. e \<noteq> ServerSaid a"
  shows "exit_tells P None h (Fail P prog e) []"
  using assms by (cases e) (auto simp: exit_tells_def Fail_def ExitCode_def exit_codes)

lemma New_fails: "New P f = Inl e \<Longrightarrow> exit_tells P None h (Fail P prog e) []"
  by (rule local_exits) (auto simp: local_failures New_def split: if_splits option.splits)

lemma help_exits: "h \<Longrightarrow> exit_tells P None h \<lparr>x_code = 0, x_stdout = [], x_stderr = [UsageText]\<rparr> []"
  by (simp add: exit_tells_def)

lemma quiet_exits:
  "exit_tells P None h usage []" "exit_tells P None h (fatalUsage prog msg) []" "exit_tells P (Some v) h (printed v) []"
  "c_ReadFile P file = None \<Longrightarrow> exit_tells P None h (Fail P prog (FileUnreadable file)) []"
  by (simp add: exit_tells_def usage_def exit_codes, simp add: exit_tells_def fatalUsage_def exit_codes,
      simp add: exit_tells_def printed_def, rule local_exits, simp_all add: local_failures)

lemma Parse_flags_help: "Parse_flags formal given args = Inl ErrHelp \<Longrightarrow> asks_help args"
proof (induction args arbitrary: given rule: length_induct)
  case (1 args)
  show ?case
  proof (cases args)
    case Nil
    with 1(2) show ?thesis by (simp add: Parse_flags.simps)
  next
    case (Cons s rest)
    have "help_word s \<or> (\<exists>g. Parse_flags formal g rest = Inl ErrHelp) \<or>
        (\<exists>g v rest'. rest = v # rest' \<and> Parse_flags formal g rest' = Inl ErrHelp)"
      using 1(2) unfolding Cons
      by (subst (asm) Parse_flags.simps)
        (auto simp: Let_def help_word_def split: if_splits prod.splits option.splits list.splits)
    then consider "help_word s" | g where "Parse_flags formal g rest = Inl ErrHelp"
      | g v rest' where "rest = v # rest'" "Parse_flags formal g rest' = Inl ErrHelp"
      by blast
    then show ?thesis
    proof cases
      case 2
      with 1(1) Cons have "asks_help rest" by fastforce
      with Cons show ?thesis by (simp add: asks_help_def)
    next
      case 3
      with 1(1) Cons have "asks_help rest'" by (metis length_Cons less_SucI lessI)
      with Cons 3(1) show ?thesis by (simp add: asks_help_def)
    qed (simp add: Cons asks_help_def)
  qed
qed

lemma exit_tells_help:
  assumes "exit_tells P v h x log" and "h \<Longrightarrow> h'"
  shows "exit_tells P v h' x log"
proof (cases log)
  case Nil
  with assms show ?thesis by (cases v) (auto simp: exit_tells_def split: if_splits)
next
  case (Cons a l)
  with assms(1) show ?thesis by (simp add: exit_tells_def)
qed

lemma answer_exits:
  "exit_tells P None h (Fail P prog RequestFailed) [(req, None)]"
  "hs_StatusCode r \<ge> 300 \<Longrightarrow> exit_tells P None h (Fail P prog (ServerSaid \<lparr>e_StatusCode = hs_StatusCode r, e_Status = t,
     e_ContentType = ty, e_Body = b\<rparr>)) [(req, Some r)]"
  "\<not> hs_StatusCode r \<ge> 300 \<Longrightarrow> hs_Body r = [] \<Longrightarrow> exit_tells P None h (printJSON P JNull) [(req, Some r)]"
  "\<not> hs_StatusCode r \<ge> 300 \<Longrightarrow> hs_Body r \<noteq> [] \<Longrightarrow> Unmarshal_any P (hs_Body r) = None \<Longrightarrow>
     exit_tells P None h (Fail P prog BadResponse) [(req, Some r)]"
  "\<not> hs_StatusCode r \<ge> 300 \<Longrightarrow> hs_Body r \<noteq> [] \<Longrightarrow> Unmarshal_any P (hs_Body r) = Some v \<Longrightarrow>
     exit_tells P None h (printJSON P v) [(req, Some r)]"
  by (simp_all add: exit_tells_def Fail_def ExitCode_def exit_codes printJSON_def printed_def)

lemma wp_show_json:
  assumes "http_Do P = recorder ans"
  shows "wp (show_answer P prog (do_json P c (Unmarshal_any P) JNull m p body)) (exit_tells P None h) []"
proof (cases "URLOk P (c_baseURL c @ p)")
  case True
  have sent: "wp (doRaw P c m p ct b) (\<lambda>d. wp (case d of
        Inl e \<Rightarrow> ret (Inl e)
      | Inr d \<Rightarrow> if d = [] then ret (Inr JNull)
          else (case Unmarshal_any P d of None \<Rightarrow> ret (Inl BadResponse) | Some out \<Rightarrow> ret (Inr out)))
      (\<lambda>a. exit_tells P None h (case a of Inl e \<Rightarrow> Fail P prog e | Inr out \<Rightarrow> printJSON P out))) []" for ct b
    using True by (auto simp: doRaw_def assms recorder_def wp_iff Let_def answer_exits split: option.split)
  then show ?thesis
    unfolding show_answer_def do_json_def by (cases body) simp_all
next
  case False
  then have "exit_tells P None h (Fail P prog BadRequest) []"
    by (intro local_exits) (auto simp: local_failures)
  with False show ?thesis
    by (simp add: show_answer_def do_json_def doRaw_def wp_iff split: option.split)
qed

lemma wp_show_answer:
  assumes "http_Do P = recorder ans"
  shows "wp (show_answer P prog (Client_Get P c (Unmarshal_any P) JNull p)) (exit_tells P None h) []"
    and "wp (show_answer P prog (Client_Post P c (Unmarshal_any P) JNull p body)) (exit_tells P None h) []"
  unfolding Client_Get_def Client_Post_def by (rule wp_show_json [OF assms])+

lemma wp_mustClient:
  assumes "\<And>c given rest. wp (body c given rest) (exit_tells P None (asks_help args)) []"
  shows "wp (mustClient P env prog own args body) (exit_tells P None (asks_help args)) []"
  using assms quiet_exits(1) Parse_flags_help [of "connection_flags @ own" "[]" args]
  by (auto simp: mustClient_def New_fails help_exits split: sum.split prod.split flag_error.split)

lemma wp_run_commands:
  assumes "http_Do P = recorder ans"
  shows "wp (runProfiles P env args) (exit_tells P None (asks_help (tl args))) []"
    and "wp (runClients P env args) (exit_tells P None (asks_help (tl args))) []"
    and "wp (runAudit P env args) (exit_tells P None (asks_help (tl args))) []"
    and "wp (runACME P env args) (exit_tells P None (asks_help (tl args))) []"
    and "wp (runTSA P env args) (exit_tells P None (asks_help (tl args))) []"
  unfolding runProfiles_def runClients_def runAudit_def runACME_def runTSA_def Let_def
  by (cases args; simp add: quiet_exits; intro wp_mustClient wp_if impI conjI;
      simp add: quiet_exits wp_show_answer [OF assms] split: option.split)+

lemma wp_runCertificates:
  assumes "http_Do P = recorder ans"
  shows "wp (runCertificates P env args) (exit_tells P None (asks_help (tl args))) []"
  unfolding runCertificates_def Let_def
  by (cases args; simp add: quiet_exits; intro wp_mustClient wp_if impI conjI;
      simp add: quiet_exits wp_show_answer [OF assms] split: option.split list.split)

lemma asks_help_tl: "asks_help (tl args) \<Longrightarrow> asks_help (cmd # args)"
  by (cases args) (auto simp: asks_help_def)

lemma wp_help_mono:
  "wp m (exit_tells P None (asks_help (tl rest))) [] \<Longrightarrow> wp m (exit_tells P None (asks_help (cmd # rest))) []"
  by (erule wp_mono) (blast intro: exit_tells_help asks_help_tl)

lemma wp_tools:
  assumes "http_Do P = recorder ans"
  shows "wp (trustmate_admin P version env args)
      (exit_tells P (asks_version ''trustmate-admin'' version args) (asks_help args)) []"
    and "wp (trustmate_management P version env args)
      (exit_tells P (asks_version ''trustmate-management'' version args) (asks_help args)) []"
  unfolding trustmate_admin_def trustmate_management_def
  by (cases args; simp add: quiet_exits asks_version_def wp_run_commands [OF assms, THEN wp_help_mono]
      wp_runCertificates [OF assms, THEN wp_help_mono])+

text \<open>C28. The exit code of both operator tools says what happened, for every command line, environment and
  server. A tool sends at most one request. If it sends none, the code is 0 only for a command line that asks for
  the version, which is then printed, or for help; it is 1 with a complaint about a client that could not be set
  up (say for want of an identity), a file that could not be read or a bad URL; and otherwise it is 2, with the usage on
  standard error. If the exchange failed the code is 1; a status from 500 gives 4, any other from 300 gives 3, with
  nothing on standard output; below that the answer is printed as JSON and the code is 0, or it is no JSON and the
  code is 1.\<close>

theorem cli_exit_code:
  assumes "http_Do P = recorder ans"
  shows "(case run_state (trustmate_admin P version env args) [] of (x, log) \<Rightarrow>
      exit_tells P (asks_version ''trustmate-admin'' version args) (asks_help args) x log) \<and>
    (case run_state (trustmate_management P version env args) [] of (x, log) \<Rightarrow>
      exit_tells P (asks_version ''trustmate-management'' version args) (asks_help args) x log)"
  using wp_tools [OF assms] unfolding wp_def by (intro conjI)

definition cli1 :: "(string, (http_req \<times> http_resp option) list) client_prims" where
  "cli1 = \<lparr>http_Do = recorder (\<lambda>_ _ _ _. Some \<lparr>hs_StatusCode = 409, hs_Status = ''409 Conflict'', hs_ContentType = ''text/plain'',
       hs_Body = ''no''\<rparr>), URLOk = (\<lambda>_. True), LoadX509KeyPair = (\<lambda>c _. Some c), c_ReadFile = (\<lambda>_. None),
     AppendCertsFromPEM = (\<lambda>_. False), Marshal_map = (\<lambda>_. ''{}''), Unmarshal_any = (\<lambda>_. None), MarshalIndent = (\<lambda>_. [])\<rparr>"

lemma flags1:
  "Parse_flags (connection_flags @ [(''profile'', StringFlag), (''csr'', StringFlag), (''reason'', StringFlag), (''dry-run'', BoolFlag)])
     [] [''--cert=c'', ''-key'', ''k'', ''7''] = Inr ([(''key'', ''k''), (''cert'', ''c'')], [''7''])"
  by code_simp

theorem cli_exit_code_witness:
  "\<exists>x. fst (run_state (trustmate_management cli1 ''1'' (\<lambda>_. None)
       [''certificates'', ''revoke'', ''--cert=c'', ''-key'', ''k'', ''7'']) []) = x \<and> x_code x = ExitRejected"
proof -
  let ?run = "run_state (trustmate_management cli1 ''1'' (\<lambda>_. None)
       [''certificates'', ''revoke'', ''--cert=c'', ''-key'', ''k'', ''7'']) []"
  have "\<exists>req. snd ?run = [(req, Some \<lparr>hs_StatusCode = 409, hs_Status = ''409 Conflict'', hs_ContentType = ''text/plain'',
       hs_Body = ''no''\<rparr>)]"
    by (simp add: trustmate_management_def runCertificates_def mustClient_def flags1
        connection_of_def New_def flag_or_def RegisterFlags_def envOr_def cli1_def show_answer_def Client_Post_def
        do_json_def doRaw_def recorder_def Let_def State_Monad.bind_def State_Monad.return_def)
  moreover have "http_Do cli1 = recorder (\<lambda>_ _ _ _. Some \<lparr>hs_StatusCode = 409, hs_Status = ''409 Conflict'',
        hs_ContentType = ''text/plain'', hs_Body = ''no''\<rparr>)"
    by (simp add: cli1_def)
  from cli_exit_code [OF this, where version = "''1''" and env = "\<lambda>_. None" and
      args = "[''certificates'', ''revoke'', ''--cert=c'', ''-key'', ''k'', ''7'']"]
  have "\<exists>v h. exit_tells cli1 v h (fst ?run) (snd ?run)"
    by (auto split: prod.splits)
  ultimately show ?thesis
    by (auto simp: exit_tells_def)
qed

end
