(* ===== verification/Mcp.thy ===== *)
theory Mcp
  imports Client Router
begin

text \<open>
  The local tool server \<open>cmd/trustmate-mcp\<close>: its tools (\<open>tools.go\<close>), the files they write
  (\<open>files.go\<close>) and its resources (\<open>resources.go\<close>). The state is the operator's machine, its files
  with their modes, and whatever answers the requests; each local operation can fail, and a write
  that fails may leave a part of the data. Key generation, DER and PEM, JSON and the time-stamp
  formats are parameters; prompts, which are only texts, are left out.
\<close>

section \<open>The operator's machine\<close>

datatype outcome = Done | Broken nat

record 's host =
  h_remote :: 's
  h_files :: "(string \<times> string \<times> nat) list"
  h_outcomes :: "outcome list"
  h_random :: "string option list"

definition local :: "('s host, outcome) state" where
  "local = State (\<lambda>h. case h_outcomes h of [] \<Rightarrow> (Done, h) | x # xs \<Rightarrow> (x, h\<lparr>h_outcomes := xs\<rparr>))"

definition draw :: "('s host, string option) state" where
  "draw = State (\<lambda>h. case h_random h of [] \<Rightarrow> (None, h) | x # xs \<Rightarrow> (x, h\<lparr>h_random := xs\<rparr>))"

definition remote :: "('s, 'a) state \<Rightarrow> ('s host, 'a) state" where
  "remote m = State (\<lambda>h. case run_state m (h_remote h) of (a, s) \<Rightarrow> (a, h\<lparr>h_remote := s\<rparr>))"

text \<open>\<open>filepath.Join\<close> of a clean directory and a name without separators.\<close>

definition filepath_Join :: "string \<Rightarrow> string \<Rightarrow> string" where
  "filepath_Join dir name = (if dir = ''/'' then ''/'' @ name else dir @ ''/'' @ name)"

definition write_file :: "string \<Rightarrow> string \<Rightarrow> nat \<Rightarrow> ('s host, unit) state" where
  "write_file p data mode = modify (\<lambda>h. h\<lparr>h_files := (p, data, mode) # filter (\<lambda>(q, _). q \<noteq> p) (h_files h)\<rparr>)"

definition os_Remove :: "string \<Rightarrow> ('s host, unit) state" where
  "os_Remove p = do {
     x \<leftarrow> local;
     (if x = Done then modify (\<lambda>h. h\<lparr>h_files := filter (\<lambda>(q, _). q \<noteq> p) (h_files h)\<rparr>) else ret ())
   }"

section \<open>Files\<close>

datatype mcp_error =
    BadInput string
  | AlreadyThere string
  | FileFailed string
  | KeyFailed
  | FromClient client_error
  | BadReply
  | IssuedButKeyLost string mcp_error
  | IssuedButUnwritten string mcp_error
  | NoSuchTool
  | ResourceNotFound string

definition letter_or_digit :: "char \<Rightarrow> bool" where
  "letter_or_digit c \<longleftrightarrow> (let n = of_char c :: nat in
     (48 \<le> n \<and> n \<le> 57) \<or> (65 \<le> n \<and> n \<le> 90) \<or> (97 \<le> n \<and> n \<le> 122))"

definition safeName :: "string \<Rightarrow> bool" where
  "safeName s \<longleftrightarrow> s \<noteq> [] \<and> length s \<le> 100 \<and> letter_or_digit (hd s) \<and>
     list_all (\<lambda>c. letter_or_digit c \<or> c \<in> set ''._-'') (tl s)"

definition validateName :: "string \<Rightarrow> mcp_error + unit" where
  "validateName name = (if safeName name then Inr () else Inl (BadInput ''name''))"

definition keyTypes :: "string list" where
  "keyTypes = [''ecdsa-p256'', ''ecdsa-p384'', ''rsa-3072'', ''rsa-4096'']"

definition defaultKeyType :: string where "defaultKeyType = ''ecdsa-p256''"

text \<open>Answers the tools decode into records: what the server says of a new certificate (\<open>ir_Role\<close> for a
  client's) and of a new time-stamping identity.\<close>

record issued_answer =
  ir_Serial :: string
  ir_Profile :: string
  ir_Role :: string
  ir_NotBefore :: time
  ir_NotAfter :: time
  ir_PEM :: string

record rotateTSAOutput =
  ro_Serial :: string
  ro_PreviousSerial :: string
  ro_Profile :: string
  ro_NotBefore :: time
  ro_NotAfter :: time

record parsed_crl =
  pl_Issuer :: Name
  pl_Number :: "int option"
  pl_ThisUpdate :: time
  pl_NextUpdate :: time
  pl_Entries :: "RevocationListEntry list"

record reply_token = Timestamp +
  tst_SerialNumber :: int

text \<open>\<open>m_GenerateKey\<close> and \<open>m_CreateCertificateRequest\<close> take randomness. The order in which Go reads a variable
  and calls a function that changes it, in one list of results, is not specified; \<open>m_reads_late\<close> is
  the compiler's choice.\<close>

record ('i, 's) mcp_prims =
  m_http :: "('i, 's) client_prims"
  m_pki :: pki_prims
  m_GenerateKey :: "string \<Rightarrow> string \<Rightarrow> signer option"
  m_MarshalPKCS8PrivateKey :: "signer \<Rightarrow> string option"
  m_CreateCertificateRequest :: "Name \<Rightarrow> string list \<Rightarrow> signer \<Rightarrow> string \<Rightarrow> string option"
  m_pem_key :: "string \<Rightarrow> string"
  m_pem_csr :: "string \<Rightarrow> string"
  m_Unmarshal_issued :: "string \<Rightarrow> issued_answer option"
  m_Unmarshal_rotated :: "string \<Rightarrow> rotateTSAOutput option"
  m_ParseRevocationList :: "string \<Rightarrow> parsed_crl option"
  m_sha256 :: "string \<Rightarrow> string"
  m_read :: "string \<Rightarrow> string option"
  m_Marshal_query :: "tsa_Request \<Rightarrow> string option"
  m_ParseResponse :: "string \<Rightarrow> reply_token option"
  m_OID_String :: "nat list \<Rightarrow> string"
  m_reads_late :: bool

record 'i toolset =
  t_client :: "'i Client"
  t_outputDir :: string

definition generateKeyAndCSR ::
    "('i, 's) mcp_prims \<Rightarrow> string \<Rightarrow> string \<Rightarrow> string list \<Rightarrow> ('s host, mcp_error + string \<times> string) state" where
  "generateKeyAndCSR P keyType commonName dnsNames =
     (let kt = (if keyType = [] then defaultKeyType else keyType) in
      if kt \<notin> set keyTypes then ret (Inl (BadInput ''key_type''))
      else do {
        seed \<leftarrow> draw;
        (case Option.bind seed (m_GenerateKey P kt) of
           None \<Rightarrow> ret (Inl KeyFailed)
         | Some key \<Rightarrow>
             (case m_MarshalPKCS8PrivateKey P key of
                None \<Rightarrow> ret (Inl KeyFailed)
              | Some der \<Rightarrow> do {
                  salt \<leftarrow> draw;
                  (case Option.bind salt (m_CreateCertificateRequest P (cn commonName) dnsNames key) of
                     None \<Rightarrow> ret (Inl KeyFailed)
                   | Some csrDER \<Rightarrow> ret (Inr (m_pem_key P der, m_pem_csr P csrDER)))
                }))
      })"

definition writeNew :: "'i toolset \<Rightarrow> string \<Rightarrow> string \<Rightarrow> nat \<Rightarrow> ('s host, mcp_error + string) state" where
  "writeNew t name data mode = do {
     made \<leftarrow> local;
     (if made \<noteq> Done then ret (Inl (FileFailed (t_outputDir t)))
      else do {
        let p = filepath_Join (t_outputDir t) name;
        files \<leftarrow> gets h_files;
        opened \<leftarrow> local;
        (if map_of files p \<noteq> None then ret (Inl (AlreadyThere p))
         else if opened \<noteq> Done then ret (Inl (FileFailed p))
         else do {
           write_file p [] mode;
           written \<leftarrow> local;
           (case written of
              Broken n \<Rightarrow> do {
                write_file p (take n data) mode;
                os_Remove p;
                ret (Inl (FileFailed p))
              }
            | Done \<Rightarrow> do {
                write_file p data mode;
                closed \<leftarrow> local;
                (if closed \<noteq> Done then do {
                   os_Remove p;
                   ret (Inl (FileFailed p))
                 }
                 else ret (Inr p))
              })
         })
      })
   }"

fun checkFree :: "'i toolset \<Rightarrow> string list \<Rightarrow> ('s host, mcp_error + unit) state" where
  "checkFree t [] = ret (Inr ())"
| "checkFree t (n # names) = do {
     stat \<leftarrow> local;
     files \<leftarrow> gets h_files;
     (if stat = Done \<and> map_of files (filepath_Join (t_outputDir t) n) \<noteq> None
      then ret (Inl (AlreadyThere (filepath_Join (t_outputDir t) n)))
      else checkFree t names)
   }"

section \<open>Tools that read\<close>

definition ask :: "('s, client_error + 'a) state \<Rightarrow> ('s host, mcp_error + 'a) state" where
  "ask m = do { a \<leftarrow> remote m; ret (case a of Inl e \<Rightarrow> Inl (FromClient e) | Inr x \<Rightarrow> Inr x) }"

definition checkSerial :: "string \<Rightarrow> mcp_error + unit" where
  "checkSerial serial =
     (if 1 \<le> length serial \<and> length serial \<le> 80 \<and> list_all (\<lambda>c. undigit c \<noteq> None) serial then Inr ()
      else Inl (BadInput ''serial''))"

definition checkCA :: "string \<Rightarrow> mcp_error + unit" where
  "checkCA ca = (if ca \<noteq> ''root'' \<and> ca \<noteq> ''intermediate'' then Inl (BadInput ''ca'') else Inr ())"

record caCertificateOutput =
  co_Subject :: string
  co_Issuer :: string
  co_Serial :: string
  co_NotBefore :: time
  co_NotAfter :: time
  co_PEM :: string

record crlOutput =
  cr_Issuer :: string
  cr_Number :: string
  cr_ThisUpdate :: time
  cr_NextUpdate :: time
  cr_Revoked :: "(string \<times> time \<times> int) list"

record issuedOutput =
  io_Serial :: string
  io_Subject :: string
  io_Profile :: string
  io_Role :: string
  io_NotBefore :: time
  io_NotAfter :: time
  io_CertPath :: string
  io_KeyPath :: string

record timestampOutput =
  to_TokenPath :: string
  to_SHA256 :: string
  to_Time :: time
  to_Serial :: string
  to_Policy :: string
  to_TSA :: string

datatype tool_output =
    Health json "json option"
  | Answer json
  | CACert caCertificateOutput
  | Crl crlOutput
  | Issued issuedOutput
  | Rotated rotateTSAOutput
  | Stamped timestampOutput
  | Contents string string

text \<open>Decoding into a \<open>map[string]any\<close> and into a list of such.\<close>

definition to_map :: "json \<Rightarrow> json option" where
  "to_map j = (case j of JObj _ \<Rightarrow> Some j | JNull \<Rightarrow> Some j | _ \<Rightarrow> None)"

definition to_maps :: "json \<Rightarrow> json option" where
  "to_maps j = (case j of
     JArr js \<Rightarrow> (if list_all (\<lambda>x. to_map x \<noteq> None) js then Some j else None)
   | JNull \<Rightarrow> Some j
   | _ \<Rightarrow> None)"

definition Unmarshal_to :: "('i, 's) mcp_prims \<Rightarrow> (json \<Rightarrow> json option) \<Rightarrow> string \<Rightarrow> json option" where
  "Unmarshal_to P as data = Option.bind (Unmarshal_any (m_http P) data) as"

text \<open>A failed readiness check is part of the answer: no document, then.\<close>

definition getHealth :: "('i, 's) mcp_prims \<Rightarrow> 'i toolset \<Rightarrow> ('s host, mcp_error + tool_output) state" where
  "getHealth P t = do {
     h \<leftarrow> ask (Client_Get (m_http P) (t_client t) (Unmarshal_to P to_map) JNull ''/healthz'');
     (case h of
        Inl e \<Rightarrow> ret (Inl e)
      | Inr health \<Rightarrow> do {
          r \<leftarrow> ask (Client_Get (m_http P) (t_client t) (Unmarshal_to P to_map) JNull ''/readyz'');
          ret (Inr (Health health (case r of Inl _ \<Rightarrow> None | Inr v \<Rightarrow> Some v)))
        })
   }"

definition get_any ::
    "('i, 's) mcp_prims \<Rightarrow> 'i toolset \<Rightarrow> (json \<Rightarrow> json option) \<Rightarrow> string \<Rightarrow> ('s host, mcp_error + tool_output) state" where
  "get_any P t as p = do {
     a \<leftarrow> ask (Client_Get (m_http P) (t_client t) (Unmarshal_to P as) JNull p);
     ret (case a of Inl e \<Rightarrow> Inl e | Inr v \<Rightarrow> Inr (Answer v))
   }"

definition post_any ::
    "('i, 's) mcp_prims \<Rightarrow> 'i toolset \<Rightarrow> string \<Rightarrow> (string \<times> string) list option \<Rightarrow>
     ('s host, mcp_error + tool_output) state" where
  "post_any P t p body = do {
     a \<leftarrow> ask (Client_Post (m_http P) (t_client t) (Unmarshal_to P to_map) JNull p body);
     ret (case a of Inl e \<Rightarrow> Inl e | Inr v \<Rightarrow> Inr (Answer v))
   }"

definition listProfiles :: "('i, 's) mcp_prims \<Rightarrow> 'i toolset \<Rightarrow> ('s host, mcp_error + tool_output) state" where
  "listProfiles P t = get_any P t to_maps ''/v1/profiles''"

definition getCertificate ::
    "('i, 's) mcp_prims \<Rightarrow> 'i toolset \<Rightarrow> string \<Rightarrow> ('s host, mcp_error + tool_output) state" where
  "getCertificate P t serial = (case checkSerial serial of
     Inl e \<Rightarrow> ret (Inl e)
   | Inr _ \<Rightarrow> get_any P t to_map (''/v1/certificates/'' @ serial))"

definition getCACertificate ::
    "('i, 's) mcp_prims \<Rightarrow> 'i toolset \<Rightarrow> string \<Rightarrow> ('s host, mcp_error + tool_output) state" where
  "getCACertificate P t ca = (case checkCA ca of
     Inl e \<Rightarrow> ret (Inl e)
   | Inr _ \<Rightarrow> do {
       a \<leftarrow> ask (GetRaw (m_http P) (t_client t) (''/v1/ca/'' @ ca @ ''.pem''));
       ret (case a of
         Inl e \<Rightarrow> Inl e
       | Inr data \<Rightarrow>
           (case Option.bind (pem_Decode (m_pki P) data) (ParseCertificate (m_pki P)) of
              None \<Rightarrow> Inl BadReply
            | Some cert \<Rightarrow> Inr (CACert \<lparr>co_Subject = Name_String (m_pki P) (x_Subject cert),
                co_Issuer = Name_String (m_pki P) (x_Issuer cert), co_Serial = Int_String (SerialNumber cert),
                co_NotBefore = x_NotBefore cert, co_NotAfter = x_NotAfter cert, co_PEM = data\<rparr>)))
     })"

definition getCRL ::
    "('i, 's) mcp_prims \<Rightarrow> 'i toolset \<Rightarrow> string \<Rightarrow> ('s host, mcp_error + tool_output) state" where
  "getCRL P t ca = (case checkCA ca of
     Inl e \<Rightarrow> ret (Inl e)
   | Inr _ \<Rightarrow> do {
       a \<leftarrow> ask (GetRaw (m_http P) (t_client t) (''/v1/crl/'' @ ca @ ''.crl''));
       ret (case a of
         Inl e \<Rightarrow> Inl e
       | Inr der \<Rightarrow>
           (case m_ParseRevocationList P der of
              None \<Rightarrow> Inl BadReply
            | Some crl \<Rightarrow> Inr (Crl \<lparr>cr_Issuer = Name_String (m_pki P) (pl_Issuer crl),
                cr_Number = (case pl_Number crl of None \<Rightarrow> [] | Some n \<Rightarrow> Int_String n),
                cr_ThisUpdate = pl_ThisUpdate crl, cr_NextUpdate = pl_NextUpdate crl,
                cr_Revoked = map (\<lambda>e. (Int_String (rle_SerialNumber e), rle_RevocationTime e, rle_ReasonCode e))
                  (pl_Entries crl)\<rparr>)))
     })"

definition listClients :: "('i, 's) mcp_prims \<Rightarrow> 'i toolset \<Rightarrow> ('s host, mcp_error + tool_output) state" where
  "listClients P t = get_any P t to_maps ''/v1/clients''"

definition listAudit :: "('i, 's) mcp_prims \<Rightarrow> 'i toolset \<Rightarrow> int \<Rightarrow> ('s host, mcp_error + tool_output) state" where
  "listAudit P t limit =
     get_any P t to_maps (if limit > 0 then ''/v1/audit?limit='' @ Int_String limit else ''/v1/audit'')"

record previewCertificateInput =
  pv_Profile :: string
  pv_CommonName :: string
  pv_DNSNames :: "string list"
  pv_KeyType :: string
  pv_CSRPEM :: string

definition previewCertificate ::
    "('i, 's) mcp_prims \<Rightarrow> 'i toolset \<Rightarrow> previewCertificateInput \<Rightarrow> ('s host, mcp_error + tool_output) state" where
  "previewCertificate P t i =
     (if pv_Profile i = [] then ret (Inl (BadInput ''profile''))
      else if pv_CSRPEM i \<noteq> []
      then (if pv_CommonName i \<noteq> [] \<or> pv_DNSNames i \<noteq> [] \<or> pv_KeyType i \<noteq> [] then ret (Inl (BadInput ''csr_pem''))
            else post_any P t ''/v1/certificates?dry_run=true'' (Some [(''profile'', pv_Profile i), (''csr'', pv_CSRPEM i)]))
      else if pv_CommonName i = [] \<and> pv_DNSNames i = [] then ret (Inl (BadInput ''common_name''))
      else do {
        g \<leftarrow> generateKeyAndCSR P (pv_KeyType i) (pv_CommonName i) (pv_DNSNames i);
        (case g of
           Inl e \<Rightarrow> ret (Inl e)
         | Inr (_, csrPEM) \<Rightarrow>
             post_any P t ''/v1/certificates?dry_run=true'' (Some [(''profile'', pv_Profile i), (''csr'', csrPEM)]))
      })"

section \<open>Tools that change something\<close>

definition prepareOutputs :: "'i toolset \<Rightarrow> string \<Rightarrow> bool \<Rightarrow> ('s host, mcp_error + unit) state" where
  "prepareOutputs t name withKey = (case validateName name of
     Inl e \<Rightarrow> ret (Inl e)
   | Inr _ \<Rightarrow> checkFree t ([name @ ''.cert.pem''] @ (if withKey then [name @ ''.key.pem''] else [])))"

text \<open>\<open>saveIssued\<close> fills in its last argument: the record comes back, with the error if there is one.\<close>

definition saveIssued ::
    "('i, 's) mcp_prims \<Rightarrow> 'i toolset \<Rightarrow> string \<Rightarrow> string option \<Rightarrow> string \<Rightarrow> issuedOutput \<Rightarrow>
     ('s host, issuedOutput \<times> mcp_error option) state" where
  "saveIssued P t name keyPEM certPEM out = do {
     let out1 = (case Option.bind (pem_Decode (m_pki P) certPEM) (ParseCertificate (m_pki P)) of
           None \<Rightarrow> out
         | Some cert \<Rightarrow> out\<lparr>io_Subject := Name_String (m_pki P) (x_Subject cert), io_NotBefore := x_NotBefore cert,
             io_NotAfter := x_NotAfter cert\<rparr>);
     k \<leftarrow> (case keyPEM of None \<Rightarrow> ret (Inr []) | Some key \<Rightarrow> writeNew t (name @ ''.key.pem'') key 0x180);
     (case k of
        Inl e \<Rightarrow> ret (out1, Some (IssuedButKeyLost (io_Serial out) e))
      | Inr keyPath \<Rightarrow> do {
          let out2 = (if keyPEM = None then out1 else out1\<lparr>io_KeyPath := keyPath\<rparr>);
          c \<leftarrow> writeNew t (name @ ''.cert.pem'') certPEM 0x1A4;
          (case c of
             Inl e \<Rightarrow> ret (out2, Some (IssuedButUnwritten (io_Serial out) e))
           | Inr certPath \<Rightarrow> ret (out2\<lparr>io_CertPath := certPath\<rparr>, None))
        })
   }"

definition return_issued :: "('i, 's) mcp_prims \<Rightarrow> issuedOutput \<Rightarrow> issuedOutput \<times> mcp_error option \<Rightarrow> mcp_error + tool_output" where
  "return_issued P out saved = (case saved of
     (_, Some e) \<Rightarrow> Inl e
   | (out', None) \<Rightarrow> Inr (Issued (if m_reads_late P then out' else out)))"

definition no_answer :: issued_answer where
  "no_answer = \<lparr>ir_Serial = [], ir_Profile = [], ir_Role = [], ir_NotBefore = zero_time, ir_NotAfter = zero_time, ir_PEM = []\<rparr>"

record issueCertificateInput =
  is_Profile :: string
  is_Name :: string
  is_CommonName :: string
  is_DNSNames :: "string list"
  is_KeyType :: string
  is_CSRPEM :: string

definition issueCertificate ::
    "('i, 's) mcp_prims \<Rightarrow> 'i toolset \<Rightarrow> issueCertificateInput \<Rightarrow> ('s host, mcp_error + tool_output) state" where
  "issueCertificate P t i =
     (let generate = (is_CSRPEM i = []) in
      if is_Profile i = [] then ret (Inl (BadInput ''profile''))
      else if \<not> generate \<and> (is_CommonName i \<noteq> [] \<or> is_DNSNames i \<noteq> [] \<or> is_KeyType i \<noteq> [])
      then ret (Inl (BadInput ''csr_pem''))
      else if generate \<and> is_CommonName i = [] \<and> is_DNSNames i = [] then ret (Inl (BadInput ''common_name''))
      else do {
        free \<leftarrow> prepareOutputs t (is_Name i) generate;
        (case free of
           Inl e \<Rightarrow> ret (Inl e)
         | Inr _ \<Rightarrow> do {
             g \<leftarrow> (if generate
                 then do {
                   g \<leftarrow> generateKeyAndCSR P (is_KeyType i) (is_CommonName i) (is_DNSNames i);
                   ret (case g of Inl e \<Rightarrow> Inl e | Inr (keyPEM, csrPEM) \<Rightarrow> Inr (Some keyPEM, csrPEM))
                 }
                 else ret (Inr (None, is_CSRPEM i)));
             (case g of
                Inl e \<Rightarrow> ret (Inl e)
              | Inr (keyPEM, csrPEM) \<Rightarrow> do {
                  a \<leftarrow> ask (Client_Post (m_http P) (t_client t) (m_Unmarshal_issued P) no_answer ''/v1/certificates''
                    (Some [(''profile'', is_Profile i), (''csr'', csrPEM)]));
                  (case a of
                     Inl e \<Rightarrow> ret (Inl e)
                   | Inr resp \<Rightarrow> do {
                       let out = \<lparr>io_Serial = ir_Serial resp, io_Subject = [], io_Profile = ir_Profile resp, io_Role = [],
                             io_NotBefore = ir_NotBefore resp, io_NotAfter = ir_NotAfter resp, io_CertPath = [],
                             io_KeyPath = []\<rparr>;
                       saved \<leftarrow> saveIssued P t (is_Name i) keyPEM (ir_PEM resp) out;
                       ret (return_issued P out saved)
                     })
                })
           })
      })"

record issueClientInput =
  il_Role :: string
  il_Name :: string
  il_CommonName :: string
  il_KeyType :: string

definition issueClientCertificate ::
    "('i, 's) mcp_prims \<Rightarrow> 'i toolset \<Rightarrow> issueClientInput \<Rightarrow> ('s host, mcp_error + tool_output) state" where
  "issueClientCertificate P t i =
     (if il_Role i \<noteq> ''admin'' \<and> il_Role i \<noteq> ''manager'' then ret (Inl (BadInput ''role''))
      else if il_CommonName i = [] then ret (Inl (BadInput ''common_name''))
      else do {
        free \<leftarrow> prepareOutputs t (il_Name i) True;
        (case free of
           Inl e \<Rightarrow> ret (Inl e)
         | Inr _ \<Rightarrow> do {
             g \<leftarrow> generateKeyAndCSR P (il_KeyType i) (il_CommonName i) [];
             (case g of
                Inl e \<Rightarrow> ret (Inl e)
              | Inr (keyPEM, csrPEM) \<Rightarrow> do {
                  a \<leftarrow> ask (Client_Post (m_http P) (t_client t) (m_Unmarshal_issued P) no_answer ''/v1/clients''
                    (Some [(''csr'', csrPEM), (''role'', il_Role i)]));
                  (case a of
                     Inl e \<Rightarrow> ret (Inl e)
                   | Inr resp \<Rightarrow> do {
                       let out = \<lparr>io_Serial = ir_Serial resp, io_Subject = [], io_Profile = [], io_Role = ir_Role resp,
                             io_NotBefore = zero_time, io_NotAfter = zero_time, io_CertPath = [], io_KeyPath = []\<rparr>;
                       saved \<leftarrow> saveIssued P t (il_Name i) (Some keyPEM) (ir_PEM resp) out;
                       ret (return_issued P out saved)
                     })
                })
           })
      })"

definition revokeCertificate ::
    "('i, 's) mcp_prims \<Rightarrow> 'i toolset \<Rightarrow> string \<Rightarrow> string \<Rightarrow> ('s host, mcp_error + tool_output) state" where
  "revokeCertificate P t serial reason = (case checkSerial serial of
     Inl e \<Rightarrow> ret (Inl e)
   | Inr _ \<Rightarrow> post_any P t (''/v1/certificates/'' @ serial @ ''/revoke'')
       (if reason = [] then None else Some [(''reason'', reason)]))"

definition reloadProfiles :: "('i, 's) mcp_prims \<Rightarrow> 'i toolset \<Rightarrow> ('s host, mcp_error + tool_output) state" where
  "reloadProfiles P t = post_any P t ''/v1/profiles/reload'' None"

definition rotateTSA :: "('i, 's) mcp_prims \<Rightarrow> 'i toolset \<Rightarrow> ('s host, mcp_error + tool_output) state" where
  "rotateTSA P t = do {
     a \<leftarrow> ask (Client_Post (m_http P) (t_client t) (m_Unmarshal_rotated P)
       \<lparr>ro_Serial = [], ro_PreviousSerial = [], ro_Profile = [], ro_NotBefore = zero_time, ro_NotAfter = zero_time\<rparr>
       ''/v1/tsa/rotate'' None);
     ret (case a of Inl e \<Rightarrow> Inl e | Inr v \<Rightarrow> Inr (Rotated v))
   }"

text \<open>\<open>crypto.SHA256\<close> is the constant 5; \<open>rand.Int\<close> below \<open>2\<^sup>64\<close> takes eight bytes.\<close>

definition crypto_SHA256 :: nat where "crypto_SHA256 = 5"

definition sha256File :: "('i, 's) mcp_prims \<Rightarrow> string \<Rightarrow> ('s host, mcp_error + string) state" where
  "sha256File P p = do {
     x \<leftarrow> local;
     ret (case (x, m_read P p) of (Done, Some data) \<Rightarrow> Inr (m_sha256 P data) | _ \<Rightarrow> Inl (FileFailed p))
   }"

definition timestampFile ::
    "('i, 's) mcp_prims \<Rightarrow> 'i toolset \<Rightarrow> string \<Rightarrow> string \<Rightarrow> ('s host, mcp_error + tool_output) state" where
  "timestampFile P t file_path name = (case validateName name of
     Inl e \<Rightarrow> ret (Inl e)
   | Inr _ \<Rightarrow> do {
       free \<leftarrow> checkFree t [name @ ''.tsr''];
       (case free of
          Inl e \<Rightarrow> ret (Inl e)
        | Inr _ \<Rightarrow> do {
            d \<leftarrow> sha256File P file_path;
            (case d of
               Inl e \<Rightarrow> ret (Inl e)
             | Inr digest \<Rightarrow> do {
                 seed \<leftarrow> draw;
                 (case seed of
                    None \<Rightarrow> ret (Inl KeyFailed)
                  | Some x \<Rightarrow> do {
                      let nonce = int (SetBytes (fill 8 x));
                      (case m_Marshal_query P \<lparr>tq_HashAlgorithm = crypto_SHA256, tq_HashedMessage = digest,
                             tq_Nonce = Some nonce, tq_Certificates = True\<rparr> of
                         None \<Rightarrow> ret (Inl BadReply)
                       | Some query \<Rightarrow> do {
                           a \<leftarrow> ask (PostRaw (m_http P) (t_client t) ''/v1/tsa'' ''application/timestamp-query'' query);
                           (case a of
                              Inl e \<Rightarrow> ret (Inl e)
                            | Inr reply \<Rightarrow>
                                (case m_ParseResponse P reply of
                                   None \<Rightarrow> ret (Inl BadReply)
                                 | Some ts \<Rightarrow>
                                     (if tst_HashedMessage ts \<noteq> digest \<or> tst_Nonce ts \<noteq> Some nonce then ret (Inl BadReply)
                                      else do {
                                        w \<leftarrow> writeNew t (name @ ''.tsr'') reply 0x1A4;
                                        ret (case w of
                                          Inl e \<Rightarrow> Inl e
                                        | Inr p \<Rightarrow> Inr (Stamped \<lparr>to_TokenPath = p, to_SHA256 = hex_EncodeToString digest,
                                            to_Time = tst_Time ts, to_Serial = Int_String (tst_SerialNumber ts),
                                            to_Policy = m_OID_String P (tst_Policy ts),
                                            to_TSA = (case tst_Certificates ts of [] \<Rightarrow> []
                                              | c # _ \<Rightarrow> Name_String (m_pki P) (x_Subject c))\<rparr>))
                                      })))
                         })
                    })
               })
          })
     })"

section \<open>Resources and the server\<close>

definition certificateURIPrefix :: string where "certificateURIPrefix = ''trustmate://certificates/''"

definition resources :: "(string \<times> string) list" where
  "resources = [(''trustmate://ca/root.pem'', ''/v1/ca/root.pem''),
     (''trustmate://ca/intermediate.pem'', ''/v1/ca/intermediate.pem''),
     (''trustmate://profiles'', ''/v1/profiles''), (''trustmate://openapi.yaml'', ''/v1/openapi.yaml'')]"

definition read_raw ::
    "('i, 's) mcp_prims \<Rightarrow> 'i toolset \<Rightarrow> string \<Rightarrow> string \<Rightarrow> ('s host, mcp_error + tool_output) state" where
  "read_raw P t uri p = do {
     a \<leftarrow> ask (GetRaw (m_http P) (t_client t) p);
     ret (case a of Inl e \<Rightarrow> Inl e | Inr data \<Rightarrow> Inr (Contents uri data))
   }"

definition readResource ::
    "('i, 's) mcp_prims \<Rightarrow> 'i toolset \<Rightarrow> string \<Rightarrow> ('s host, mcp_error + tool_output) state" where
  "readResource P t uri = (case map_of resources uri of
     Some p \<Rightarrow> read_raw P t uri p
   | None \<Rightarrow>
       (if \<not> HasPrefix uri certificateURIPrefix then ret (Inl (ResourceNotFound uri))
        else let serial = TrimPrefix uri certificateURIPrefix in
          case checkSerial serial of
            Inl _ \<Rightarrow> ret (Inl (ResourceNotFound uri))
          | Inr _ \<Rightarrow> read_raw P t uri (''/v1/certificates/'' @ serial)))"

datatype mcp_call =
    GetHealth
  | ListProfiles
  | GetCertificate string
  | GetCACertificate string
  | GetCRL string
  | PreviewCertificate previewCertificateInput
  | ListClients
  | ListAudit int
  | ReadResource string
  | IssueCertificate issueCertificateInput
  | RevokeCertificate string string
  | IssueClientCertificate issueClientInput
  | ReloadProfiles
  | RotateTSA
  | TimestampFile string string

fun tool_name :: "mcp_call \<Rightarrow> string" where
  "tool_name GetHealth = ''get_health''"
| "tool_name ListProfiles = ''list_profiles''"
| "tool_name (GetCertificate _) = ''get_certificate''"
| "tool_name (GetCACertificate _) = ''get_ca_certificate''"
| "tool_name (GetCRL _) = ''get_crl''"
| "tool_name (PreviewCertificate _) = ''preview_certificate''"
| "tool_name ListClients = ''list_clients''"
| "tool_name (ListAudit _) = ''list_audit''"
| "tool_name (ReadResource _) = ''resources/read''"
| "tool_name (IssueCertificate _) = ''issue_certificate''"
| "tool_name (RevokeCertificate _ _) = ''revoke_certificate''"
| "tool_name (IssueClientCertificate _) = ''issue_client_certificate''"
| "tool_name ReloadProfiles = ''reload_profiles''"
| "tool_name RotateTSA = ''rotate_tsa''"
| "tool_name (TimestampFile _ _) = ''timestamp_file''"

text \<open>The names \<open>newServer\<close> registers; reading resources is possible in both modes.\<close>

definition newServer :: "bool \<Rightarrow> string list" where
  "newServer readOnly =
     [''resources/read'', ''get_health'', ''list_profiles'', ''get_certificate'', ''get_ca_certificate'', ''get_crl'',
      ''preview_certificate'', ''list_clients'', ''list_audit''] @
     (if readOnly then []
      else [''issue_certificate'', ''revoke_certificate'', ''issue_client_certificate'', ''reload_profiles'', ''rotate_tsa'',
        ''timestamp_file''])"

fun run_tool ::
    "('i, 's) mcp_prims \<Rightarrow> 'i toolset \<Rightarrow> mcp_call \<Rightarrow> ('s host, mcp_error + tool_output) state" where
  "run_tool P t GetHealth = getHealth P t"
| "run_tool P t ListProfiles = listProfiles P t"
| "run_tool P t (GetCertificate serial) = getCertificate P t serial"
| "run_tool P t (GetCACertificate ca) = getCACertificate P t ca"
| "run_tool P t (GetCRL ca) = getCRL P t ca"
| "run_tool P t (PreviewCertificate i) = previewCertificate P t i"
| "run_tool P t ListClients = listClients P t"
| "run_tool P t (ListAudit limit) = listAudit P t limit"
| "run_tool P t (ReadResource uri) = readResource P t uri"
| "run_tool P t (IssueCertificate i) = issueCertificate P t i"
| "run_tool P t (RevokeCertificate serial reason) = revokeCertificate P t serial reason"
| "run_tool P t (IssueClientCertificate i) = issueClientCertificate P t i"
| "run_tool P t ReloadProfiles = reloadProfiles P t"
| "run_tool P t RotateTSA = rotateTSA P t"
| "run_tool P t (TimestampFile f name) = timestampFile P t f name"

definition call_tool ::
    "('i, 's) mcp_prims \<Rightarrow> 'i toolset \<Rightarrow> bool \<Rightarrow> mcp_call \<Rightarrow> ('s host, mcp_error + tool_output) state" where
  "call_tool P t readOnly c =
     (if tool_name c \<in> set (newServer readOnly) then run_tool P t c else ret (Inl NoSuchTool))"

section \<open>Prompts and the process\<close>

text \<open>A prompt is one of three fixed texts with values filled in; what is modelled is which one, with which values.\<close>

datatype prompt_text = StatusPrompt string | IssuePrompt string string | RevokePrompt string string

definition addPrompts :: "bool \<Rightarrow> string list" where
  "addPrompts readOnly =
     ''certificate-status'' # (if readOnly then [] else [''issue-certificate'', ''revoke-certificate''])"

definition prompt_arg :: "(string \<times> string) list \<Rightarrow> string \<Rightarrow> string" where
  "prompt_arg args name = (case map_of args name of Some v \<Rightarrow> v | None \<Rightarrow> [])"

definition get_prompt :: "bool \<Rightarrow> string \<Rightarrow> (string \<times> string) list \<Rightarrow> mcp_error + prompt_text" where
  "get_prompt readOnly name args =
     (if name \<notin> set (addPrompts readOnly) then Inl NoSuchTool
      else if name = ''issue-certificate'' then
        (let common = TrimSpace (prompt_arg args ''common_name''); purpose = TrimSpace (prompt_arg args ''purpose'') in
         if common = [] then Inl (BadInput ''common_name'')
         else Inr (IssuePrompt common
           (if purpose = [] then ''not stated; ask the user if the profile choice is ambiguous'' else purpose)))
      else (let serial = prompt_arg args ''serial''; reason = prompt_arg args ''reason'' in
        case checkSerial serial of
          Inl e \<Rightarrow> Inl e
        | Inr _ \<Rightarrow>
            (if name = ''certificate-status'' then Inr (StatusPrompt serial)
             else Inr (RevokePrompt serial
               (if reason = [] then ''not given; ask the user, defaulting to unspecified'' else reason)))))"

text \<open>What an assistant sends: a call of a tool (or a read of a resource), or a request for a prompt.\<close>

datatype mcp_message = Call mcp_call | GetPrompt string "(string \<times> string) list"

datatype mcp_reply = CallReply "mcp_error + tool_output" | PromptReply "mcp_error + prompt_text"

fun serve_session ::
    "('i, 's) mcp_prims \<Rightarrow> 'i toolset \<Rightarrow> bool \<Rightarrow> mcp_message list \<Rightarrow> ('s host, mcp_reply list) state" where
  "serve_session P t readOnly [] = ret []"
| "serve_session P t readOnly (Call c # ms) = do {
     r \<leftarrow> call_tool P t readOnly c;
     rs \<leftarrow> serve_session P t readOnly ms;
     ret (CallReply r # rs)
   }"
| "serve_session P t readOnly (GetPrompt name args # ms) = do {
     rs \<leftarrow> serve_session P t readOnly ms;
     ret (PromptReply (get_prompt readOnly name args) # rs)
   }"

definition mcp_flags :: "(string \<times> flag_kind) list" where
  "mcp_flags = connection_flags @ [(''output-dir'', StringFlag), (''read-only'', BoolFlag), (''version'', BoolFlag)]"

definition read_only_mode :: "(string \<Rightarrow> string option) \<Rightarrow> (string \<times> string) list \<Rightarrow> bool" where
  "read_only_mode env given = (case map_of given ''read-only'' of
     Some v \<Rightarrow> ParseBool v = Some True
   | None \<Rightarrow> envOr env ''TRUSTMATE_MCP_READ_ONLY'' [] = ''true'')"

definition mcp_fatal :: "stderr_text \<Rightarrow> exited" where
  "mcp_fatal text = \<lparr>x_code = 1, x_stdout = [], x_stderr = [text]\<rparr>"

text \<open>\<open>main\<close>: it ends before serving, or serves the messages of one session. \<open>filepath_Abs\<close> is the working directory's
  part in making a path absolute.\<close>

definition trustmate_mcp ::
    "('i, 's) mcp_prims \<Rightarrow> (string \<Rightarrow> string option) \<Rightarrow> string \<Rightarrow> (string \<Rightarrow> string option) \<Rightarrow> string list \<Rightarrow>
     mcp_message list \<Rightarrow> ('s host, exited + mcp_reply list) state" where
  "trustmate_mcp P filepath_Abs version env args ms =
     (case Parse_flags mcp_flags [] args of
        Inl ErrHelp \<Rightarrow> ret (Inl \<lparr>x_code = 0, x_stdout = [], x_stderr = [UsageText]\<rparr>)
      | Inl _ \<Rightarrow> ret (Inl usage)
      | Inr (given, _) \<Rightarrow>
          (if ParseBool (flag_or given ''version'' ''false'') = Some True
           then ret (Inl (printed (''trustmate-mcp '' @ version)))
           else case New (m_http P) (connection_of env given) of
             Inl e \<Rightarrow> ret (Inl (mcp_fatal (Complaint ''trustmate-mcp'' e)))
           | Inr c \<Rightarrow>
               (case filepath_Abs (flag_or given ''output-dir'' (envOr env ''TRUSTMATE_MCP_OUTPUT_DIR'' ''.'')) of
                  None \<Rightarrow> ret (Inl (mcp_fatal (Remark ''trustmate-mcp'' ''output-dir'')))
                | Some dir \<Rightarrow> do {
                    rs \<leftarrow> serve_session P \<lparr>t_client = c, t_outputDir = dir\<rparr> (read_only_mode env given) ms;
                    ret (Inr rs)
                  })))"

section \<open>What the tools write\<close>

text \<open>Files stay, and new ones are in the output directory, under a safe name; keys are for the owner only.\<close>

definition confined :: "string \<Rightarrow> 's host \<Rightarrow> 's host \<Rightarrow> bool" where
  "confined dir h h' \<longleftrightarrow>
     (\<forall>p f. map_of (h_files h) p = Some f \<longrightarrow> map_of (h_files h') p = Some f) \<and>
     (\<forall>p data mode. map_of (h_files h) p = None \<longrightarrow> map_of (h_files h') p = Some (data, mode) \<longrightarrow>
        (\<exists>name. safeName name \<and>
          (p = filepath_Join dir (name @ ''.key.pem'') \<and> mode = 0x180 \<or>
           p \<in> {filepath_Join dir (name @ ''.cert.pem''), filepath_Join dir (name @ ''.tsr'')} \<and> mode = 0x1A4)))"

interpretation confine: state_preorder "confined dir" for dir
proof
  fix s t u :: "'s host"
  assume st: "confined dir s t" and tu: "confined dir t u"
  have "\<exists>name. safeName name \<and> (p = filepath_Join dir (name @ ''.key.pem'') \<and> mode = 0x180 \<or>
      p \<in> {filepath_Join dir (name @ ''.cert.pem''), filepath_Join dir (name @ ''.tsr'')} \<and> mode = 0x1A4)"
    if "map_of (h_files s) p = None" "map_of (h_files u) p = Some (d, mode)" for p d mode
  proof (cases "map_of (h_files t) p")
    case None
    with tu that(2) show ?thesis
      unfolding confined_def by blast
  next
    case (Some f)
    with tu have "map_of (h_files u) p = Some f"
      unfolding confined_def by blast
    with Some that(2) have "map_of (h_files t) p = Some (d, mode)"
      by simp
    with st that(1) show ?thesis
      unfolding confined_def by blast
  qed
  with st tu show "confined dir s u"
    unfolding confined_def by blast
qed (simp add: confined_def)

lemmas [keeps] = confine.keeps_monad

lemma state_io_rel_wp: "(\<And>s. wp m (\<lambda>_ t. R s t) s) \<Longrightarrow> state_io_rel R m"
  by (rule state_io_relI) (rule wp_run)

lemma confined_same: "h_files h' = h_files h \<Longrightarrow> confined dir h h'"
  by (simp add: confined_def)

lemma wp_local [wps]: "(\<And>x os. Q x (h\<lparr>h_outcomes := os\<rparr>)) \<Longrightarrow> wp local Q h"
  unfolding local_def wp_iff
  by (auto split: list.split) (metis host.surjective host.update_convs(3))

lemma keeps_quiet [keeps]:
  "state_io_rel (confined dir) local" "state_io_rel (confined dir) draw" "state_io_rel (confined dir) (remote m)"
  unfolding local_def draw_def remote_def
  by (rule state_io_relI; auto intro!: confined_same split: list.splits prod.splits)+

lemma keeps_asking [keeps]: "state_io_rel (confined dir) (ask m)"
  unfolding ask_def by (intro keeps)

lemma map_of_without: "map_of (filter (\<lambda>(q, _). q \<noteq> p) fs) x = (if x = p then None else map_of fs x)"
  by (induction fs) auto

definition output_name :: "string \<Rightarrow> nat \<Rightarrow> bool" where
  "output_name n mode \<longleftrightarrow> (\<exists>name. safeName name \<and>
     (n = name @ ''.key.pem'' \<and> mode = 0x180 \<or> n \<in> {name @ ''.cert.pem'', name @ ''.tsr''} \<and> mode = 0x1A4))"

lemma confined_new:
  assumes "\<forall>d m. map_of (h_files h) (filepath_Join dir n) \<noteq> Some (d, m)" and "output_name n mode"
    and "\<And>x. x \<noteq> filepath_Join dir n \<Longrightarrow> map_of (h_files h') x = map_of (h_files h) x"
    and "\<And>d m. map_of (h_files h') (filepath_Join dir n) = Some (d, m) \<Longrightarrow> m = mode"
  shows "confined dir h h'"
  unfolding confined_def
proof (intro conjI allI impI)
  fix q f
  assume q: "map_of (h_files h) q = Some f"
  with assms(1) have "q \<noteq> filepath_Join dir n"
    by (cases f) auto
  with q assms(3) show "map_of (h_files h') q = Some f"
    by simp
next
  fix q d m
  assume q: "map_of (h_files h) q = None" "map_of (h_files h') q = Some (d, m)"
  then have "q = filepath_Join dir n"
    using assms(3) by force
  with q assms(2,4) show "\<exists>name. safeName name \<and> (q = filepath_Join dir (name @ ''.key.pem'') \<and> m = 0x180 \<or>
      q \<in> {filepath_Join dir (name @ ''.cert.pem''), filepath_Join dir (name @ ''.tsr'')} \<and> m = 0x1A4)"
    by (auto simp: output_name_def)
qed

lemma keeps_writeNew:
  assumes "output_name n mode"
  shows "state_io_rel (confined (t_outputDir t)) (writeNew t n data mode)"
proof -
  have "wp (writeNew t n data mode) (\<lambda>_ h'. confined (t_outputDir t) h h') h" for h
    unfolding writeNew_def write_file_def os_Remove_def
    by (auto simp: Let_def confined_same map_of_without intro!: wps confined_new [OF _ assms]
        split: outcome.splits if_splits)
  then show ?thesis
    by (rule state_io_rel_wp)
qed

lemma keeps_checkFree [keeps]: "state_io_rel (confined dir) (checkFree t ns)"
  by (induction ns) (auto intro!: keeps)

lemma output_names:
  "safeName name \<Longrightarrow> output_name (name @ ''.key.pem'') 0x180" "safeName name \<Longrightarrow> output_name (name @ ''.cert.pem'') 0x1A4"
  "safeName name \<Longrightarrow> output_name (name @ ''.tsr'') 0x1A4"
  by (auto simp: output_name_def)

lemma keeps_generate [keeps]: "state_io_rel (confined dir) (generateKeyAndCSR P kt common dns)"
  unfolding generateKeyAndCSR_def by (auto simp: Let_def intro!: keeps)

lemma keeps_any [keeps]:
  "state_io_rel (confined dir) (get_any P t as p)" "state_io_rel (confined dir) (post_any P t p body)"
  "state_io_rel (confined dir) (read_raw P t uri p)"
  unfolding get_any_def post_any_def read_raw_def by (intro keeps)+

lemma keeps_saveIssued:
  assumes "safeName name"
  shows "state_io_rel (confined (t_outputDir t)) (saveIssued P t name key cert out)"
  unfolding saveIssued_def
  by (auto simp: Let_def intro!: keeps keeps_writeNew output_names assms)

lemma wp_prepareOutputs: "wp (prepareOutputs t name withKey) (\<lambda>r h'. confined dir h h' \<and> (r = Inr () \<longrightarrow> safeName name)) h"
  by (auto simp: prepareOutputs_def validateName_def confine.R_refl simp del: checkFree.simps
      intro!: wp_mono [OF wp_state_io_rel [OF keeps_checkFree]])

lemma keeps_prepare:
  assumes "safeName name \<Longrightarrow> state_io_rel (confined dir) (f (Inr ()))" and "\<And>e. state_io_rel (confined dir) (f (Inl e))"
  shows "state_io_rel (confined dir) (State_Monad.bind (prepareOutputs t name withKey) f)"
proof (rule state_io_rel_wp)
  fix h
  have "wp (f r) (\<lambda>_ u. confined dir h u) v" if "confined dir h v \<and> (r = Inr () \<longrightarrow> safeName name)" for r v
  proof -
    have "state_io_rel (confined dir) (f r)"
      using assms that by (cases r) auto
    then show ?thesis
      using that by (auto intro!: wp_mono [OF wp_state_io_rel] intro: confine.R_trans)
  qed
  then show "wp (State_Monad.bind (prepareOutputs t name withKey) f) (\<lambda>_ u. confined dir h u) h"
    by (auto intro: wp_mono [OF wp_prepareOutputs])
qed

lemma keeps_tools:
  "state_io_rel (confined (t_outputDir t)) (issueCertificate P t i)"
  "state_io_rel (confined (t_outputDir t)) (issueClientCertificate P t j)"
  unfolding issueCertificate_def issueClientCertificate_def
  by (auto simp: Let_def intro!: keeps keeps_prepare keeps_saveIssued)

lemma keeps_run_tool: "state_io_rel (confined (t_outputDir t)) (run_tool P t c)"
  by (cases c)
    (auto simp: getHealth_def listProfiles_def getCertificate_def getCACertificate_def getCRL_def previewCertificate_def
      listClients_def listAudit_def readResource_def revokeCertificate_def reloadProfiles_def rotateTSA_def
      timestampFile_def sha256File_def validateName_def Let_def keeps_tools
      intro!: keeps keeps_writeNew output_names split: if_splits)

lemma no_separator: "\<not> letter_or_digit (CHR ''/'')"
  by (simp add: letter_or_digit_def)

lemma safeName_flat: "safeName name \<Longrightarrow> CHR ''/'' \<notin> set name"
  using no_separator by (cases name) (auto simp: safeName_def list_all_iff)

end
