(* ===== verification/Operations.thy ===== *)
theory Operations
  imports Mcp Issuance
begin

text \<open>
  The operator's tools against the service itself: the exchange of one request over TLS, and what
  tools and service do together.
\<close>

section \<open>The exchange\<close>

text \<open>How the server reads a URL (path as the router sees it, and query), the caller's certificates, the
  bytes of a body and the line of a status. An exchange takes an entry of the fault tape: the
  request is served, it does not arrive, or its answer is lost.\<close>

record 'i network =
  n_target :: "string \<Rightarrow> (string \<times> (string \<times> string) list) option"
  n_peer :: "'i \<Rightarrow> int list"
  n_addr :: "'i \<Rightarrow> string"
  n_render :: "payload \<Rightarrow> string"
  n_status :: "nat \<Rightarrow> string"

definition wire :: "'i network \<Rightarrow> 'i \<Rightarrow> http_req \<Rightarrow> request option" where
  "wire N i q = (case n_target N (hq_URL q) of
     None \<Rightarrow> None
   | Some (p, query) \<Rightarrow> Some \<lparr>q_Method = hq_Method q, q_Path = p, q_PathValue = [], q_Query = query,
       q_ContentType = hq_ContentType q, q_RemoteAddr = n_addr N i, q_PeerSerials = n_peer N i,
       q_ContentLength = int (length (hq_Body q)), q_Body = hq_Body q, q_BodyFails = False\<rparr>)"

definition reply :: "'i network \<Rightarrow> response \<Rightarrow> http_resp" where
  "reply N resp = \<lparr>hs_StatusCode = status resp, hs_Status = n_status N (status resp),
     hs_ContentType = (case map_of (headers resp) ''Content-Type'' of None \<Rightarrow> [] | Some ct \<Rightarrow> ct),
     hs_Body = n_render N (rbody resp)\<rparr>"

definition connect ::
    "Deps \<Rightarrow> 'i network \<Rightarrow> 'i \<Rightarrow> string option \<Rightarrow> http_req \<Rightarrow> (sys, http_resp option) state" where
  "connect deps N i roots q = (case wire N i q of
     None \<Rightarrow> ret None
   | Some r \<Rightarrow> do {
       f \<leftarrow> io;
       (if f = StmtFails then ret None
        else do {
          resp \<leftarrow> serve deps r;
          ret (if f = AckLost \<or> resp = panicked then None else Some (reply N resp))
        })
     })"

text \<open>What is relied on of URLs: a clean path of plain characters after the base arrives as it is, with a
  query of one plain pair or none.\<close>

definition path_char :: "char \<Rightarrow> bool" where
  "path_char c \<longleftrightarrow> letter_or_digit c \<or> c \<in> set ''/._-''"

definition clean :: "string \<Rightarrow> bool" where
  "clean p \<longleftrightarrow> list_all path_char p \<and>
     (case Split (CHR ''/'') p of [] # segs \<Rightarrow> segs \<noteq> [] \<and> list_all (\<lambda>s. s \<notin> {[], ''.'', ''..''}) segs | _ \<Rightarrow> False)"

definition reads_target :: "'i network \<Rightarrow> string \<Rightarrow> bool" where
  "reads_target N base \<longleftrightarrow>
     (\<forall>p. clean p \<longrightarrow> n_target N (base @ p) = Some (p, [])) \<and>
     (\<forall>p k v. clean p \<longrightarrow> list_all path_char k \<longrightarrow> list_all path_char v \<longrightarrow>
        n_target N (base @ p @ ''?'' @ k @ ''='' @ v) = Some (p, [(k, v)]))"

section \<open>Requests that only read\<close>

definition reads :: "request \<Rightarrow> bool" where
  "reads r \<longleftrightarrow> q_Method r = ''GET'' \<and> take 3 (Split (CHR ''/'') (q_Path r)) \<noteq> [[], ''v1'', ''acme''] \<or>
     q_Method r = ''POST'' \<and> q_Path r = ''/v1/certificates'' \<and> ParseBool (Query_Get r ''dry_run'') = Some True"

lemma wp_serve_matched:
  assumes "\<And>rt v. rt \<in> set (NewRouter deps) \<Longrightarrow> method_ok rt r \<Longrightarrow> path_value rt r = Some v \<Longrightarrow>
      wp (rt_Handler rt (r\<lparr>q_PathValue := v\<rparr>)) Q s"
    and "\<And>resp. status resp \<in> {404, 405} \<Longrightarrow> Q resp s"
  shows "wp (serve deps r) Q s"
  using assms unfolding serve_def
  by (auto simp: Let_def http_Error_def dest!: find_Some_in split: option.splits)

lemma more_reads_keep_tables [keeps]:
  "state_io_rel (unchanged tables) (ClientRoles_List b)" "state_io_rel (unchanged tables) (Audit_List b n)"
  by (rule unchangedI; auto simp: tables_def intro!: wps)+

lemma list_clients_keeps [keeps]: "state_io_rel (unchanged tables) (list_clients deps out roles)"
  by (induction deps out roles rule: list_clients.induct) (auto intro!: keeps)

lemma reading_handlers_keep:
  "state_io_rel (unchanged tables) (handleGetCertificate deps r)"
  "state_io_rel (unchanged tables) (handleListProfiles deps r)"
  "state_io_rel (unchanged tables) (handleListClients deps r)"
  "state_io_rel (unchanged tables) (handleListAudit deps r)"
  unfolding handleGetCertificate_def handleListProfiles_def handleListClients_def handleListAudit_def
  by (auto intro!: keeps split: store_error.splits)

lemma wp_dry_run:
  assumes "ParseBool (Query_Get r ''dry_run'') = Some True"
  shows "wp (handleIssueCertificate deps r) (\<lambda>_ s'. tables s' = tables s) s"
proof -
  have "Query_Get r ''dry_run'' \<noteq> []"
    using assms by (auto simp: ParseBool_def split: if_splits)
  with assms show ?thesis
    unfolding handleIssueCertificate_def lookupProfile_def profileNames_def
    by (auto simp: Let_def problem_defs tables_def intro!: wps wp_LeafTemplate)
qed

lemma wp_guarded:
  assumes "\<And>f. wp (h r) (\<lambda>_ t. tables t = tables s) (s\<lparr>faults := f\<rparr>)"
  shows "wp (requireRole deps least h r) (\<lambda>_ t. tables t = tables s) s"
  using assms by (intro wp_requireRole) auto

lemma matchPath_fixed:
  "matchPath (a # b # c # ps) segs v = Some x \<Longrightarrow> \<not> wildcard a \<Longrightarrow> \<not> wildcard b \<Longrightarrow> \<not> wildcard c \<Longrightarrow> take 3 segs = [a, b, c]"
  by (cases segs; cases "tl segs"; cases "tl (tl segs)") (auto split: if_splits)

lemma acme_paths:
  assumes "rt \<in> set (acme_routes deps)" and "path_value rt r = Some v"
  shows "take 3 (Split (CHR ''/'') (q_Path r)) = [[], ''v1'', ''acme'']"
proof -
  have "\<exists>ps. Split (CHR ''/'') (rt_Pattern rt) = [] # ''v1'' # ''acme'' # ps"
    using assms(1) by (auto simp: acme_routes_def route_def)
  with assms(2) show ?thesis
    by (auto simp: path_value_def wildcard_def dest!: matchPath_fixed)
qed

definition reading_handlers :: "Deps \<Rightarrow> (request \<Rightarrow> (sys, response) state) list" where
  "reading_handlers deps = [requireRole deps RoleManager (handleGetCertificate deps),
     requireRole deps RoleManager (handleListProfiles deps), requireRole deps RoleAdmin (handleListClients deps),
     requireRole deps RoleAdmin (handleListAudit deps)]"

lemma get_routes:
  assumes "rt \<in> set (NewRouter deps)" and "rt_Method rt = ''GET''" and "rt \<notin> set (acme_routes deps)"
  shows "rt_Handler rt \<in> set (open_handlers deps @ reading_handlers deps)"
proof -
  have "rt \<in> set (public_routes deps @ core_routes deps @ revocation_routes deps @ tsa_routes deps @ discovery_routes deps)"
    using assms(1,3) by (auto simp: NewRouter_def Let_def split: if_splits)
  then show ?thesis
    using assms(2) unfolding open_handlers_def reading_handlers_def public_routes_def core_routes_def
      revocation_routes_def tsa_routes_def discovery_routes_def route_def
      set_append list.set Un_iff insert_iff empty_iff
    by (elim disjE; simp)
qed

lemma issue_route:
  assumes "rt \<in> set (NewRouter deps)" and "rt_Method rt = ''POST''" and "q_Path r = ''/v1/certificates''"
    and "path_value rt r = Some v"
  shows "rt_Handler rt = requireRole deps RoleManager (handleIssueCertificate deps)"
  using assms by (auto simp: NewRouter_def Let_def route_defs route_def path_value_def wildcard_def split: if_splits)

lemma wp_reading_handler:
  assumes "h \<in> set (reading_handlers deps)"
  shows "wp (h r) (\<lambda>_ t. tables t = tables s) s"
proof -
  have "wp (g r) (\<lambda>_ t. tables t = tables s) (s\<lparr>faults := f\<rparr>)"
    if "g \<in> {handleGetCertificate deps, handleListProfiles deps, handleListClients deps, handleListAudit deps}" for g f
    using that wp_unchanged [of tables "g r" "s\<lparr>faults := f\<rparr>"] reading_handlers_keep by auto
  with assms show ?thesis
    unfolding reading_handlers_def by (auto intro!: wp_guarded)
qed

lemma serve_reads:
  assumes "reads r"
  shows "wp (serve deps r) (\<lambda>_ t. tables t = tables s) s"
proof (rule wp_serve_matched)
  fix rt v
  assume rt: "rt \<in> set (NewRouter deps)" "method_ok rt r" "path_value rt r = Some v"
  show "wp (rt_Handler rt (r\<lparr>q_PathValue := v\<rparr>)) (\<lambda>_ t. tables t = tables s) s"
  proof (cases "q_Method r = ''GET''")
    case True
    with assms rt(2) acme_paths [OF _ rt(3), of deps] have "rt_Method rt = ''GET''" "rt \<notin> set (acme_routes deps)"
      by (auto simp: method_ok_def reads_def)
    from get_routes [OF rt(1) this] show ?thesis
      using wp_unchanged [OF open_handlers_keep(1)] wp_reading_handler by auto
  next
    case False
    with assms rt(2) have r: "rt_Method rt = ''POST''" "q_Path r = ''/v1/certificates''"
      "ParseBool (Query_Get r ''dry_run'') = Some True"
      by (auto simp: method_ok_def reads_def)
    have "wp (handleIssueCertificate deps (r\<lparr>q_PathValue := v\<rparr>)) (\<lambda>_ t. tables t = tables s) (s\<lparr>faults := f\<rparr>)" for f
      using wp_dry_run [of "r\<lparr>q_PathValue := v\<rparr>" deps "s\<lparr>faults := f\<rparr>"] r(3) by (simp add: Query_Get_def)
    then show ?thesis
      unfolding issue_route [OF rt(1) r(1,2) rt(3)] by (rule wp_guarded)
  qed
qed simp

section \<open>Paths the tools ask for\<close>

definition digits :: "string \<Rightarrow> bool" where
  "digits s \<longleftrightarrow> s \<noteq> [] \<and> list_all (\<lambda>c. undigit c \<noteq> None) s"

lemma checkSerial_digits: "checkSerial serial = Inr () \<Longrightarrow> digits serial"
  by (auto simp: checkSerial_def digits_def split: if_splits)

lemma digit_plain: "undigit c \<noteq> None \<Longrightarrow> path_char c \<and> c \<noteq> CHR ''/'' \<and> c \<noteq> CHR ''.''"
  by (auto simp: undigit_def path_char_def letter_or_digit_def Let_def split: if_splits)

lemma Int_String_digits: "0 \<le> n \<Longrightarrow> digits (Int_String n)"
  using set_decimal_digits [of _ "nat n"] by (fastforce simp: digits_def Int_String_def list_all_iff)

lemma digits_segment:
  assumes "digits s"
  shows "list_all path_char s" and "Split (CHR ''/'') s = [s]" and "s \<notin> {[], ''.'', ''..''}"
proof -
  have plain: "path_char c" "c \<noteq> CHR ''/''" "c \<noteq> CHR ''.''" if "c \<in> set s" for c
    using assms that digit_plain [of c] by (auto simp: digits_def list_all_iff)
  show "list_all path_char s"
    using plain(1) by (simp add: list_all_iff)
  show "Split (CHR ''/'') s = [s]"
    using plain(2) by (intro Split_single) blast
  show "s \<notin> {[], ''.'', ''..''}"
    using plain(3) assms by (auto simp: digits_def)
qed

text \<open>Paths that are clean and not below the enrolment routes.\<close>

definition plain_path :: "string \<Rightarrow> bool" where
  "plain_path p \<longleftrightarrow> clean p \<and> take 3 (Split (CHR ''/'') p) \<noteq> [[], ''v1'', ''acme'']"

lemma fixed_paths:
  "plain_path ''/healthz''" "plain_path ''/readyz''" "plain_path ''/v1/profiles''" "plain_path ''/v1/clients''"
  "plain_path ''/v1/audit''" "plain_path ''/v1/openapi.yaml''" "plain_path ''/v1/certificates''"
  "plain_path ''/v1/ca/root.pem''" "plain_path ''/v1/ca/intermediate.pem''"
  "plain_path ''/v1/crl/root.crl''" "plain_path ''/v1/crl/intermediate.crl''"
  by (simp_all add: plain_path_def clean_def path_char_def letter_or_digit_def)

lemma certificate_path: "digits serial \<Longrightarrow> plain_path (''/v1/certificates/'' @ serial)"
  using digits_segment [of serial] by (simp add: plain_path_def clean_def path_char_def letter_or_digit_def)

section \<open>Reading changes nothing\<close>

text \<open>The tables of the service and the operator's files.\<close>

definition stock :: "sys host \<Rightarrow> _" where
  "stock h = (tables (h_remote h), h_files h)"

lemma connect_reads:
  assumes "\<And>r. wire N i q = Some r \<Longrightarrow> reads r"
  shows "state_io_rel (unchanged tables) (connect deps N i roots q)"
proof (rule unchangedI)
  fix s :: sys
  have "wp (serve deps r) (\<lambda>_ t. tables t = tables s) (s\<lparr>faults := f\<rparr>)" if "wire N i q = Some r" for r f
    using serve_reads [OF assms [OF that], of deps "s\<lparr>faults := f\<rparr>"] by simp
  then show "wp (connect deps N i roots q) (\<lambda>_ t. tables t = tables s) s"
    unfolding connect_def by (auto intro!: wps split: option.splits)
qed

lemma doRaw_reads:
  assumes "http_Do P = connect deps N"
    and "\<And>r. wire N (c_identity c) \<lparr>hq_Method = method, hq_URL = c_baseURL c @ p, hq_ContentType = ct, hq_Body = body\<rparr> = Some r \<Longrightarrow>
      reads r"
  shows "state_io_rel (unchanged tables) (doRaw P c method p ct body)"
  unfolding doRaw_def assms(1) by (auto intro!: keeps connect_reads assms(2))

lemma target_reads:
  assumes "reads_target N base"
  shows "plain_path p \<Longrightarrow> n_target N (base @ p) = Some (p, [])"
    and "plain_path p \<Longrightarrow> list_all path_char k \<Longrightarrow> list_all path_char v \<Longrightarrow>
      n_target N (base @ p @ ''?'' @ k @ ''='' @ v) = Some (p, [(k, v)])"
  using assms by (simp_all add: reads_target_def plain_path_def)

definition readable :: "'i network \<Rightarrow> string \<Rightarrow> string \<Rightarrow> bool" where
  "readable N base p \<longleftrightarrow> (\<exists>q query. n_target N (base @ p) = Some (q, query) \<and> plain_path q)"

lemma stock_steps [keeps]:
  "state_io_rel (unchanged stock) local" "state_io_rel (unchanged stock) draw"
  unfolding local_def draw_def
  by (rule state_io_relI; auto simp: unchanged_def stock_def split: list.splits)+

lemma stock_ask: "state_io_rel (unchanged tables) m \<Longrightarrow> state_io_rel (unchanged stock) (ask m)"
  unfolding ask_def remote_def
  by (rule state_io_relI) (auto simp: unchanged_def stock_def split: prod.splits dest!: state_io_relD)

lemma stock_gets:
  assumes "http_Do P = connect deps N" and "readable N (c_baseURL c) p"
  shows "state_io_rel (unchanged stock) (ask (Client_Get P c un z p))"
    and "state_io_rel (unchanged stock) (ask (GetRaw P c p))"
proof -
  have "state_io_rel (unchanged tables) (doRaw P c ''GET'' p ct body)" for ct body
    using assms(2) by (intro doRaw_reads [OF assms(1)]) (auto simp: readable_def wire_def reads_def plain_path_def)
  then show "state_io_rel (unchanged stock) (ask (Client_Get P c un z p))"
    "state_io_rel (unchanged stock) (ask (GetRaw P c p))"
    unfolding Client_Get_def do_json_def GetRaw_def by (auto intro!: stock_ask keeps)
qed

lemma stock_preview:
  assumes "http_Do P = connect deps N" and "reads_target N (c_baseURL c)"
  shows "state_io_rel (unchanged stock) (ask (Client_Post P c un z ''/v1/certificates?dry_run=true'' body))"
proof -
  have "n_target N (c_baseURL c @ ''/v1/certificates?dry_run=true'') = Some (''/v1/certificates'', [(''dry_run'', ''true'')])"
    using target_reads(2) [OF assms(2) fixed_paths(7), of "''dry_run''" "''true''"]
    by (simp add: path_char_def letter_or_digit_def)
  then have "state_io_rel (unchanged tables) (doRaw P c ''POST'' ''/v1/certificates?dry_run=true'' ct data)" for ct data
    by (intro doRaw_reads [OF assms(1)]) (auto simp: wire_def reads_def Query_Get_def ParseBool_def)
  then show ?thesis
    unfolding Client_Post_def do_json_def by (auto intro!: stock_ask keeps)
qed

lemma stock_generate [keeps]: "state_io_rel (unchanged stock) (generateKeyAndCSR P kt common dns)"
  unfolding generateKeyAndCSR_def by (auto simp: Let_def intro!: keeps)

lemma stock_any:
  assumes "http_Do (m_http P) = connect deps N" and "readable N (c_baseURL (t_client t)) p"
  shows "state_io_rel (unchanged stock) (get_any P t as p)" and "state_io_rel (unchanged stock) (read_raw P t uri p)"
  unfolding get_any_def read_raw_def by (intro keeps stock_gets [OF assms])+

lemma readable_paths:
  assumes "reads_target N base"
  shows "plain_path p \<Longrightarrow> readable N base p"
    and "digits n \<Longrightarrow> readable N base (''/v1/audit?limit='' @ n)"
  using target_reads(1) [OF assms, of p] target_reads(2) [OF assms fixed_paths(5), of "''limit''" n] digits_segment(1) [of n]
    fixed_paths(5)
  by (auto simp: readable_def path_char_def letter_or_digit_def)

lemma stock_run_tool:
  assumes "http_Do (m_http P) = connect deps N" and "reads_target N (c_baseURL (t_client t))"
    and "tool_name c \<in> set (newServer True)"
  shows "state_io_rel (unchanged stock) (run_tool P t c)"
proof -
  note asks = stock_any [OF assms(1)] stock_gets [OF assms(1)] stock_preview [OF assms(1,2)]
  note fixed = fixed_paths [THEN readable_paths(1) [OF assms(2)]]
  have serial: "readable N (c_baseURL (t_client t)) (''/v1/certificates/'' @ x)" if "checkSerial x = Inr ()" for x
    using that by (intro readable_paths(1) [OF assms(2)] certificate_path checkSerial_digits)
  have ca: "readable N (c_baseURL (t_client t)) (''/v1/ca/'' @ x @ ''.pem'')"
    "readable N (c_baseURL (t_client t)) (''/v1/crl/'' @ x @ ''.crl'')" if "checkCA x = Inr ()" for x
    using that fixed by (auto simp: checkCA_def split: if_splits)
  have resource: "readable N (c_baseURL (t_client t)) p" if "map_of resources uri = Some p" for uri p
    using that fixed by (auto simp: resources_def split: if_splits)
  have limit: "readable N (c_baseURL (t_client t)) (''/v1/audit?limit='' @ Int_String n)" if "0 < n" for n
    using that by (intro readable_paths(2) [OF assms(2)] Int_String_digits) simp
  show ?thesis
    using assms(3)
    by (cases c) (auto simp: newServer_def getHealth_def listProfiles_def getCertificate_def getCACertificate_def getCRL_def
        previewCertificate_def post_any_def listClients_def listAudit_def readResource_def Let_def
        intro!: keeps asks fixed serial [simplified] ca [simplified] limit [simplified] intro: resource)
qed

lemma session_reads:
  assumes "http_Do (m_http P) = connect deps N" and "reads_target N (c_baseURL (t_client t))"
  shows "state_io_rel (unchanged stock) (serve_session P t True ms)"
proof (induction ms)
  case (Cons m ms)
  have "state_io_rel (unchanged stock) (call_tool P t True c)" for c
    using stock_run_tool [OF assms] by (auto simp: call_tool_def intro!: keeps)
  with Cons show ?case
    by (cases m) (auto intro!: keeps)
qed (auto intro!: keeps)

lemma New_base: "New P f = Inr c \<Longrightarrow> c_baseURL c = TrimRight (f_Server f) ''/''"
  by (auto simp: New_def split: if_splits option.splits)

text \<open>C26. Started in read-only mode, by its flag or by its environment, the tool server changes nothing, whatever
  messages an assistant sends: the service's tables and the operator's files are what they were,
  whatever fails on either side.\<close>

theorem mcp_read_only:
  assumes "http_Do (m_http P) = connect deps N" and "Parse_flags mcp_flags [] args = Inr (given, rest)"
    and "read_only_mode env given" and "reads_target N (TrimRight (f_Server (connection_of env given)) ''/'')"
    and "run_state (trustmate_mcp P filepath_Abs version env args ms) h = (r, h')"
  shows "tables (h_remote h') = tables (h_remote h) \<and> h_files h' = h_files h"
proof -
  have "state_io_rel (unchanged stock) (serve_session P \<lparr>t_client = c, t_outputDir = dir\<rparr> True ms)"
    if "New (m_http P) (connection_of env given) = Inr c" for c dir
    using assms(4) by (intro session_reads [OF assms(1)]) (simp add: New_base [OF that])
  then have "state_io_rel (unchanged stock) (trustmate_mcp P filepath_Abs version env args ms)"
    unfolding trustmate_mcp_def assms(2) using assms(3) by (auto intro!: keeps split: sum.split option.split)
  from state_io_relD [OF this assms(5)] show ?thesis
    by (simp add: unchanged_def stock_def)
qed

section \<open>Issuing from the operator's machine\<close>

text \<open>What is relied on where both ends meet: the service reads the client's JSON, the client reads the
  members of an answer, and a request for a certificate carries the key, subject and names it was
  made for.\<close>

definition ends_agree :: "('i, 's) mcp_prims \<Rightarrow> Deps \<Rightarrow> 'i network \<Rightarrow> bool" where
  "ends_agree P deps N \<longleftrightarrow>
     (\<forall>p c. dec_issueCertificate (d_json deps) (Marshal_map (m_http P) [(''profile'', p), (''csr'', c)]) =
        Inr \<lparr>ic_Profile = p, ic_CSR = c\<rparr>) \<and>
     (\<forall>j. n_render N (Json j) \<noteq> []) \<and>
     (\<forall>kvs a x y. m_Unmarshal_issued P (n_render N (Json (JObj kvs))) = Some a \<longrightarrow> map_of kvs ''serial'' = Some (JStr x) \<longrightarrow>
        map_of kvs ''pem'' = Some (JStr y) \<longrightarrow> ir_Serial a = x \<and> ir_PEM a = y)"

definition csr_faithful :: "('i, 's) mcp_prims \<Rightarrow> pki_prims \<Rightarrow> bool" where
  "csr_faithful P pki \<longleftrightarrow> (\<forall>subject dns key salt der csr.
     m_CreateCertificateRequest P subject dns key salt = Some der \<longrightarrow> ParseCSR pki (m_pem_csr P der) = Inr csr \<longrightarrow>
     csr_PublicKey csr = sg_Public key \<and> csr_Subject csr = subject \<and> csr_DNSNames csr = dns)"

text \<open>\<open>rec\<close> was added to the ledger, for the certificate \<open>c\<close> with the data of the request \<open>csrPEM\<close>.\<close>

definition issued_for :: "Deps \<Rightarrow> string \<Rightarrow> CertificateRecord \<Rightarrow> Certificate \<Rightarrow> sys \<Rightarrow> sys \<Rightarrow> bool" where
  "issued_for deps csrPEM rec c s s' \<longleftrightarrow>
     certificates s' = certificates s @ [cert_row (d_Store deps) rec] \<and> Serial rec = Int_String (SerialNumber c) \<and>
     PEM rec = encodeCertPEM deps (x_Raw c) \<and>
     (\<exists>csr. ParseCSR (d_pki deps) csrPEM = Inr csr \<and> x_PublicKey c = csr_PublicKey csr \<and> x_Subject c = csr_Subject csr \<and>
        x_DNSNames c = csr_DNSNames csr)"

lemma wp_issue_status:
  "Query_Get r ''dry_run'' = [] \<Longrightarrow> wp (handleIssueCertificate deps r) (\<lambda>resp _. status resp = 201 \<or> status resp \<ge> 300) s"
  unfolding handleIssueCertificate_def lookupProfile_def profileNames_def count_issued_def
    issueLeafCertificate_def
  by (auto simp: Let_def problem_defs writeJSON_def intro!: wps wp_LeafTemplate split: option.splits)

lemma wp_issue_for:
  assumes "x509_faithful (d_pki deps)" and "Query_Get r ''dry_run'' = []"
    and "dec_issueCertificate (d_json deps) (q_Body r) = Inr \<lparr>ic_Profile = p, ic_CSR = csrPEM\<rparr>"
  shows "wp (handleIssueCertificate deps r) (\<lambda>resp s'. status resp < 300 \<longrightarrow> (\<exists>rec c. issued_for deps csrPEM rec c s s' \<and>
     member resp ''serial'' = Some (JStr (Serial rec)) \<and> member resp ''pem'' = Some (JStr (PEM rec)))) s"
  by (rule wp_mono [OF wp_conj [OF wp_issue_status [OF assms(2)] wp_handleIssueCertificate [OF assms(1)]]])
    (use assms(3) in \<open>fastforce simp: issued_as_def leaf_row_def leaf_of_def issued_for_def\<close>)

lemma issued_for_faults [simp]: "issued_for deps csr rec c (s\<lparr>faults := f\<rparr>) s' = issued_for deps csr rec c s s'"
  by (simp add: issued_for_def)

lemma wp_serve_issue:
  assumes "x509_faithful (d_pki deps)" and "q_Method r = ''POST''" and "q_Path r = ''/v1/certificates''" and "q_Query r = []"
    and "dec_issueCertificate (d_json deps) (q_Body r) = Inr \<lparr>ic_Profile = p, ic_CSR = csrPEM\<rparr>"
  shows "wp (serve deps r) (\<lambda>resp s'. status resp < 300 \<longrightarrow> (\<exists>rec c. issued_for deps csrPEM rec c s s' \<and>
     member resp ''serial'' = Some (JStr (Serial rec)) \<and> member resp ''pem'' = Some (JStr (PEM rec)))) s"
proof (rule wp_serve_matched)
  fix rt v
  assume rt: "rt \<in> set (NewRouter deps)" "method_ok rt r" "path_value rt r = Some v"
  then have handler: "rt_Handler rt = requireRole deps RoleManager (handleIssueCertificate deps)"
    using assms(2,3) by (intro issue_route [where r = r]) (auto simp: method_ok_def)
  show "wp (rt_Handler rt (r\<lparr>q_PathValue := v\<rparr>)) (\<lambda>resp s'. status resp < 300 \<longrightarrow> (\<exists>rec c. issued_for deps csrPEM rec c s s' \<and>
     member resp ''serial'' = Some (JStr (Serial rec)) \<and> member resp ''pem'' = Some (JStr (PEM rec)))) s"
    unfolding handler
  proof (rule wp_requireRole)
    fix f
    show "wp (handleIssueCertificate deps (r\<lparr>q_PathValue := v\<rparr>)) (\<lambda>resp s'. status resp < 300 \<longrightarrow>
        (\<exists>rec c. issued_for deps csrPEM rec c s s' \<and> member resp ''serial'' = Some (JStr (Serial rec)) \<and>
         member resp ''pem'' = Some (JStr (PEM rec)))) (s\<lparr>faults := f\<rparr>)"
      using wp_issue_for [OF assms(1), of "r\<lparr>q_PathValue := v\<rparr>" p csrPEM "s\<lparr>faults := f\<rparr>"] assms(4,5)
      by (simp add: Query_Get_def)
  qed auto
qed auto

lemma wp_post_issue:
  assumes "http_Do (m_http P) = connect deps N" and "reads_target N (c_baseURL c0)" and "x509_faithful (d_pki deps)"
    and "ends_agree P deps N"
  shows "wp (Client_Post (m_http P) c0 (m_Unmarshal_issued P) z ''/v1/certificates''
      (Some [(''profile'', p), (''csr'', csrPEM)])) (\<lambda>a s'. \<forall>ans. a = Inr ans \<longrightarrow>
      (\<exists>rec c. issued_for deps csrPEM rec c s s' \<and> ir_Serial ans = Serial rec \<and> ir_PEM ans = PEM rec)) s"
proof -
  let ?body = "Marshal_map (m_http P) [(''profile'', p), (''csr'', csrPEM)]"
  let ?req = "\<lparr>hq_Method = ''POST'', hq_URL = c_baseURL c0 @ ''/v1/certificates'', hq_ContentType = ''application/json'',
      hq_Body = ?body\<rparr>"
  have target: "n_target N (c_baseURL c0 @ ''/v1/certificates'') = Some (''/v1/certificates'', [])"
    using target_reads(1) [OF assms(2) fixed_paths(7)] .
  have dec: "dec_issueCertificate (d_json deps) ?body = Inr \<lparr>ic_Profile = p, ic_CSR = csrPEM\<rparr>"
    using assms(4) by (simp add: ends_agree_def)
  have answer: "ir_Serial a = x \<and> ir_PEM a = y"
    if "m_Unmarshal_issued P (n_render N (rbody resp)) = Some a" "member resp ''serial'' = Some (JStr x)"
      "member resp ''pem'' = Some (JStr y)" for resp a x y
    using that assms(4) by (auto simp: ends_agree_def member_def split: payload.splits json.splits)
  have nonempty: "n_render N (rbody resp) \<noteq> []" if "member resp ''serial'' = Some x" for resp x
    using that assms(4) by (auto simp: ends_agree_def member_def split: payload.splits)
  have served: "wp (serve deps r) (\<lambda>resp s'. status resp < 300 \<longrightarrow> (\<exists>rec c. issued_for deps csrPEM rec c s s' \<and>
      member resp ''serial'' = Some (JStr (Serial rec)) \<and> member resp ''pem'' = Some (JStr (PEM rec)))) (s\<lparr>faults := f\<rparr>)"
    if "wire N (c_identity c0) ?req = Some r" for r f
    using wp_serve_issue [OF assms(3), of r p csrPEM "s\<lparr>faults := f\<rparr>"] that dec target by (auto simp: wire_def)
  have "wp (connect deps N (c_identity c0) (c_RootCAs c0) ?req) (\<lambda>a s'. \<forall>hr. a = Some hr \<longrightarrow> hs_StatusCode hr < 300 \<longrightarrow>
      (\<exists>rec c resp. issued_for deps csrPEM rec c s s' \<and> hs_Body hr = n_render N (rbody resp) \<and>
       member resp ''serial'' = Some (JStr (Serial rec)) \<and> member resp ''pem'' = Some (JStr (PEM rec)))) s"
    unfolding connect_def
    by (auto simp: reply_def intro!: wps wp_mono [OF served] split: option.splits if_splits) blast+
  then show ?thesis
    unfolding Client_Post_def do_json_def doRaw_def assms(1)
    by (auto elim!: wp_mono split: option.splits if_splits) (metis answer nonempty linorder_not_le)+
qed

lemma wp_draw [wps]: "(\<And>x rs. Q x (h\<lparr>h_random := rs\<rparr>)) \<Longrightarrow> wp draw Q h"
  unfolding draw_def wp_iff
  by (auto split: list.split) (metis host.surjective host.update_convs(4))

lemma wp_remote: "wp m (\<lambda>a s. Q a (h\<lparr>h_remote := s\<rparr>)) (h_remote h) \<Longrightarrow> wp (remote m) Q h"
  by (simp add: remote_def wp_def case_prod_beta)

lemma wp_writeNew:
  "wp (writeNew t n data mode) (\<lambda>r h'. h_remote h' = h_remote h \<and> (\<forall>p. r = Inr p \<longrightarrow>
     p = filepath_Join (t_outputDir t) n \<and> map_of (h_files h') p = Some (data, mode) \<and>
     (\<forall>q. q \<noteq> p \<longrightarrow> map_of (h_files h') q = map_of (h_files h) q))) h"
  unfolding writeNew_def write_file_def os_Remove_def
  by (auto simp: Let_def map_of_without intro!: wps split: outcome.splits if_splits)

lemma wp_checkFree: "wp (checkFree t ns) (\<lambda>_ h'. h_remote h' = h_remote h \<and> h_files h' = h_files h) h"
proof (induction ns arbitrary: h)
  case (Cons n ns)
  have "wp (checkFree t ns) (\<lambda>_ h'. h_remote h' = h_remote h \<and> h_files h' = h_files h) (h\<lparr>h_outcomes := os\<rparr>)" for os
    using Cons [of "h\<lparr>h_outcomes := os\<rparr>"] by simp
  then show ?case
    by (auto intro!: wps)
qed simp

lemma wp_generate:
  "wp (generateKeyAndCSR P kt common dns) (\<lambda>r h'. h_remote h' = h_remote h \<and> h_files h' = h_files h \<and>
     (\<forall>keyPEM csrPEM. r = Inr (keyPEM, csrPEM) \<longrightarrow> (\<exists>key der salt csrDER. m_MarshalPKCS8PrivateKey P key = Some der \<and>
        keyPEM = m_pem_key P der \<and> m_CreateCertificateRequest P (cn common) dns key salt = Some csrDER \<and>
        csrPEM = m_pem_csr P csrDER))) h"
  unfolding generateKeyAndCSR_def
  by (auto simp: Let_def intro!: wps split: option.splits bind_splits) blast+

lemma suffixes_differ: "name @ ''.key.pem'' \<noteq> name @ ''.cert.pem''"
  by simp

lemma filepath_Join_inj: "filepath_Join dir a = filepath_Join dir b \<longleftrightarrow> a = b"
  by (simp add: filepath_Join_def)

lemma wp_saveIssued:
  "wp (saveIssued P t name (Some key) cert out) (\<lambda>(out', err) h'. h_remote h' = h_remote h \<and> (err = None \<longrightarrow>
     map_of (h_files h') (filepath_Join (t_outputDir t) (name @ ''.key.pem'')) = Some (key, 0x180) \<and>
     map_of (h_files h') (filepath_Join (t_outputDir t) (name @ ''.cert.pem'')) = Some (cert, 0x1A4))) h"
  unfolding saveIssued_def
  by (auto simp: Let_def filepath_Join_inj intro!: wp_mono [OF wp_writeNew [where n = "name @ ''.key.pem''"]]
      wp_mono [OF wp_writeNew [where n = "name @ ''.cert.pem''"]] split: sum.splits)

lemma wp_prepare_quiet:
  "wp (prepareOutputs t name k) (\<lambda>_ h'. h_remote h' = h_remote h \<and> h_files h' = h_files h) h"
  unfolding prepareOutputs_def validateName_def
  by (auto simp del: checkFree.simps intro!: wp_checkFree)

text \<open>The files of a key and its certificate, and the row the service has of it.\<close>

definition issued_and_saved ::
    "('i, sys) mcp_prims \<Rightarrow> 'i toolset \<Rightarrow> Deps \<Rightarrow> issueCertificateInput \<Rightarrow> sys host \<Rightarrow> sys host \<Rightarrow> bool" where
  "issued_and_saved P t deps i h h' \<longleftrightarrow> (\<exists>key der rec (c :: Certificate).
     m_MarshalPKCS8PrivateKey P key = Some der \<and>
     map_of (h_files h') (filepath_Join (t_outputDir t) (is_Name i @ ''.key.pem'')) = Some (m_pem_key P der, 0x180) \<and>
     map_of (h_files h') (filepath_Join (t_outputDir t) (is_Name i @ ''.cert.pem'')) = Some (PEM rec, 0x1A4) \<and>
     certificates (h_remote h') = certificates (h_remote h) @ [cert_row (d_Store deps) rec] \<and>
     Serial rec = Int_String (SerialNumber c) \<and> PEM rec = encodeCertPEM deps (x_Raw c) \<and>
     x_PublicKey c = sg_Public key \<and> x_Subject c = cn (is_CommonName i) \<and> x_DNSNames c = is_DNSNames i)"

lemma wp_issueCertificate:
  assumes "http_Do (m_http P) = connect deps N" and "reads_target N (c_baseURL (t_client t))" and "x509_faithful (d_pki deps)"
    and "ends_agree P deps N" and "csr_faithful P (d_pki deps)" and "is_CSRPEM i = []"
  shows "wp (issueCertificate P t i) (\<lambda>r h'. \<forall>out. r = Inr out \<longrightarrow> issued_and_saved P t deps i h h') h"
proof -
  have saved: "issued_and_saved P t deps i h h'"
    if "issued_for deps (m_pem_csr P csrDER) rec c (h_remote h) s'" "m_MarshalPKCS8PrivateKey P key = Some der"
      "m_CreateCertificateRequest P (cn (is_CommonName i)) (is_DNSNames i) key salt = Some csrDER"
      "h_remote h' = s'"
      "map_of (h_files h') (filepath_Join (t_outputDir t) (is_Name i @ ''.key.pem'')) = Some (m_pem_key P der, 0x180)"
      "map_of (h_files h') (filepath_Join (t_outputDir t) (is_Name i @ ''.cert.pem'')) = Some (PEM rec, 0x1A4)"
    for rec c s' key der salt csrDER h'
  proof -
    have "x_PublicKey c = sg_Public key" "x_Subject c = cn (is_CommonName i)" "x_DNSNames c = is_DNSNames i"
      using that(1,3) assms(5) by (auto simp: issued_for_def csr_faithful_def)
    then show ?thesis
      unfolding issued_and_saved_def
      by (intro exI [of _ key] exI [of _ der] exI [of _ rec] exI [of _ c]) (use that in \<open>simp add: issued_for_def\<close>)
  qed
  note post = wp_post_issue [OF assms(1-4)]
  show ?thesis
    unfolding issueCertificate_def ask_def Let_def
    by (auto simp: assms(6) return_issued_def intro!: wp_mono [OF wp_prepare_quiet] wp_mono [OF wp_generate] wp_remote
        wp_mono [OF post] wp_mono [OF wp_saveIssued] split: sum.splits option.splits prod.splits)
      (rule saved, assumption, assumption, assumption, rule refl, assumption, assumption)+
qed

text \<open>C25. Issuing through the tool server, with a key it generates: if the tool reports success, the service
  has put exactly one new certificate on record, with the requested subject and names; the key
  file holds the private key that certificate is for, readable by its owner only, and the
  certificate file holds that certificate.\<close>

theorem mcp_issue_effect:
  assumes "http_Do (m_http P) = connect deps N" and "reads_target N (c_baseURL (t_client t))" and "x509_faithful (d_pki deps)"
    and "ends_agree P deps N" and "csr_faithful P (d_pki deps)" and "is_CSRPEM i = []"
    and "run_state (issueCertificate P t i) h = (Inr out, h')"
  shows "\<exists>key der rec (c :: Certificate). m_MarshalPKCS8PrivateKey P key = Some der \<and>
     map_of (h_files h') (filepath_Join (t_outputDir t) (is_Name i @ ''.key.pem'')) = Some (m_pem_key P der, 0x180) \<and>
     map_of (h_files h') (filepath_Join (t_outputDir t) (is_Name i @ ''.cert.pem'')) = Some (PEM rec, 0x1A4) \<and>
     certificates (h_remote h') = certificates (h_remote h) @ [cert_row (d_Store deps) rec] \<and>
     Serial rec = Int_String (SerialNumber c) \<and> PEM rec = encodeCertPEM deps (x_Raw c) \<and>
     x_PublicKey c = sg_Public key \<and> x_Subject c = cn (is_CommonName i) \<and> x_DNSNames c = is_DNSNames i"
  using wp_run [OF wp_issueCertificate [OF assms(1-6)] assms(7)] by (simp add: issued_and_saved_def)

section \<open>What is written\<close>

text \<open>C27. Whatever an assistant asks of the tool server, and whatever the service answers: files that were
  there stay as they were, and what is new lies directly in the output directory, under a safe
  name chosen by the caller and one of the known endings, a private key readable by its owner
  only. Failing writes included.\<close>

theorem mcp_writes_confined:
  assumes "run_state (call_tool P t readOnly c) h = (r, h')"
  shows "confined (t_outputDir t) h h' \<and>
    (\<forall>p f. map_of (h_files h) p = None \<longrightarrow> map_of (h_files h') p = Some f \<longrightarrow>
      (\<exists>n. CHR ''/'' \<notin> set n \<and> p = filepath_Join (t_outputDir t) n))"
proof -
  have c: "confined (t_outputDir t) h h'"
    using state_io_relD [OF keeps_run_tool] assms by (auto simp: call_tool_def confine.R_refl split: if_splits)
  have "\<exists>n. CHR ''/'' \<notin> set n \<and> p = filepath_Join (t_outputDir t) n"
    if new: "map_of (h_files h) p = None" "map_of (h_files h') p = Some (d, mode)" for p d mode
  proof -
    obtain name where n: "safeName name" and p: "p = filepath_Join (t_outputDir t) (name @ ''.key.pem'') \<or>
        p = filepath_Join (t_outputDir t) (name @ ''.cert.pem'') \<or> p = filepath_Join (t_outputDir t) (name @ ''.tsr'')"
      using c new unfolding confined_def by blast
    have "CHR ''/'' \<notin> set (name @ ''.key.pem'')" "CHR ''/'' \<notin> set (name @ ''.cert.pem'')" "CHR ''/'' \<notin> set (name @ ''.tsr'')"
      using safeName_flat [OF n] by simp_all
    with p show ?thesis
      by blast
  qed
  with c show ?thesis
    by auto
qed

section \<open>An operator of the sample installation\<close>

text \<open>Two strings in one, for the JSON of the sample.\<close>

definition pair_up :: "string \<Rightarrow> string \<Rightarrow> string" where
  "pair_up a b = replicate (length a) (CHR ''x'') @ ''.'' @ a @ b"

definition unpair :: "string \<Rightarrow> string \<times> string" where
  "unpair s = (let n = length (takeWhile (\<lambda>c. c = CHR ''x'') s); r = drop (Suc n) s in (take n r, drop n r))"

lemma unpair_pair_up [simp]: "unpair (pair_up a b) = (a, b)"
proof -
  have "takeWhile (\<lambda>c. c = CHR ''x'') (replicate n (CHR ''x'') @ ''.'' @ r) = replicate n (CHR ''x'')" for n r
    by (induction n) auto
  then have "takeWhile (\<lambda>c. c = CHR ''x'') (pair_up a b) = replicate (length a) (CHR ''x'')"
    by (simp only: pair_up_def)
  then show ?thesis
    by (simp add: unpair_def Let_def pair_up_def)
qed

lemma pair_up_nonempty [simp]: "pair_up a b \<noteq> []"
  by (simp add: pair_up_def)

definition net1 :: "int network" where
  "net1 = \<lparr>n_target = (\<lambda>u. case Cut (CHR ''?'') u of (p, q, ok) \<Rightarrow>
       if ok then (case Cut (CHR ''='') q of (k, v, _) \<Rightarrow> Some (p, [(k, v)])) else Some (p, [])),
     n_peer = (\<lambda>i. [i]), n_addr = (\<lambda>_. ''10.0.0.1''),
     n_render = (\<lambda>b. case b of Json (JObj kvs) \<Rightarrow> (case (map_of kvs ''serial'', map_of kvs ''pem'') of
         (Some (JStr x), Some (JStr y)) \<Rightarrow> pair_up x y | _ \<Rightarrow> ''.'') | _ \<Rightarrow> ''.''),
     n_status = Int_String \<circ> int\<rparr>"

lemma reads_target1: "reads_target net1 []"
proof -
  have "CHR ''?'' \<notin> set p" if "clean p" for p
    using that by (auto simp: clean_def list_all_iff path_char_def letter_or_digit_def)
  moreover have "CHR ''='' \<notin> set k" if "list_all path_char k" for k
    using that by (auto simp: list_all_iff path_char_def letter_or_digit_def)
  ultimately show ?thesis
    by (simp add: reads_target_def net1_def Cut_found Cut_absent)
qed

definition deps_op :: Deps where
  "deps_op = deps1\<lparr>d_json := json1\<lparr>dec_issueCertificate := (\<lambda>body. case unpair body of
     (p, c) \<Rightarrow> Inr \<lparr>ic_Profile = p, ic_CSR = c\<rparr>)\<rparr>\<rparr>"

definition mcp1 :: "(int, sys) mcp_prims" where
  "mcp1 = \<lparr>m_http = \<lparr>http_Do = connect deps_op net1, URLOk = (\<lambda>_. True), LoadX509KeyPair = (\<lambda>_ _. None),
       c_ReadFile = (\<lambda>_. None), AppendCertsFromPEM = (\<lambda>_. False),
       Marshal_map = (\<lambda>kvs. case kvs of [(_, a), (_, b)] \<Rightarrow> pair_up a b | _ \<Rightarrow> []), Unmarshal_any = (\<lambda>_. None),
       MarshalIndent = (\<lambda>_. [])\<rparr>,
     m_pki = pki1, m_GenerateKey = (\<lambda>_ seed. Some \<lparr>sg_Public = key1, sg_secret = seed\<rparr>),
     m_MarshalPKCS8PrivateKey = (\<lambda>sg. Some (sg_secret sg)),
     m_CreateCertificateRequest = (\<lambda>sub dns key _. if sub = cn ''app'' \<and> dns = [] \<and> sg_Public key = key1 then Some ''csr'' else None),
     m_pem_key = (\<lambda>d. d), m_pem_csr = (\<lambda>d. d),
     m_Unmarshal_issued = (\<lambda>d. case unpair d of (x, y) \<Rightarrow> Some (no_answer\<lparr>ir_Serial := x, ir_PEM := y\<rparr>)),
     m_Unmarshal_rotated = (\<lambda>_. None), m_ParseRevocationList = (\<lambda>_. None), m_sha256 = (\<lambda>d. d), m_read = (\<lambda>_. None),
     m_Marshal_query = (\<lambda>_. None), m_ParseResponse = (\<lambda>_. None), m_OID_String = (\<lambda>_. []), m_reads_late = True\<rparr>"

definition tools1 :: "int toolset" where
  "tools1 = \<lparr>t_client = \<lparr>c_identity = 7, c_RootCAs = None, c_baseURL = []\<rparr>, t_outputDir = ''/out''\<rparr>"

definition host1 :: "sys host" where
  "host1 = \<lparr>h_remote = sys1, h_files = [(''/out/old'', ''data'', 0x1A4)], h_outcomes = [], h_random = [Some ''seed'', Some ''salt'']\<rparr>"

definition issue_app :: issueCertificateInput where
  "issue_app = \<lparr>is_Profile = ''default'', is_Name = ''app'', is_CommonName = ''app'', is_DNSNames = [], is_KeyType = [],
     is_CSRPEM = []\<rparr>"

lemma faithful1: "ends_agree mcp1 deps_op net1" "csr_faithful mcp1 pki1" "http_Do (m_http mcp1) = connect deps_op net1"
  by (auto simp: ends_agree_def csr_faithful_def mcp1_def deps_op_def net1_def no_answer_def csr1
      split: option.splits json.splits if_splits)

lemma op_issues: "\<exists>out. fst (run_state (issueCertificate mcp1 tools1 issue_app) host1) = Inr out"
  by (simp add: issueCertificate_def issue_app_def tools1_def host1_def prepareOutputs_def validateName_def safeName_def
      letter_or_digit_def local_def draw_def filepath_Join_def generateKeyAndCSR_def keyTypes_def defaultKeyType_def
      ask_def remote_def mcp1_def Client_Post_def do_json_def doRaw_def connect_def wire_def net1_def
      io_def next_fault_def drop_fault_def serve_def NewRouter_def deps_op_def route_defs route_def path_value_def wildcard_def
      method_ok_def requireRole_def roleSatisfies_def handleIssueCertificate_def sample_data running Query_Get_def json1_def
      missing_fields_def lookupProfile_def issueLeafCertificate_def count_issued_def issuing_sample
      reply_def saveIssued_def writeNew_def write_file_def return_issued_def no_answer_def writeJSON_def panicked_def)

theorem mcp_issue_effect_witness:
  "\<exists>rec. certificates (h_remote (snd (run_state (issueCertificate mcp1 tools1 issue_app) host1))) = certificates sys1 @ [rec]"
proof -
  obtain out where "run_state (issueCertificate mcp1 tools1 issue_app) host1 =
      (Inr out, snd (run_state (issueCertificate mcp1 tools1 issue_app) host1))"
    using op_issues by (metis prod.collapse)
  from mcp_issue_effect [OF faithful1(3) _ _ faithful1(1) _ _ this] show ?thesis
    using reads_target1 x509_pki1 faithful1(2)
    by (auto simp: tools1_def deps_op_def deps1_def issue_app_def host1_def)
qed

definition mcp_env :: "string \<Rightarrow> string option" where
  "mcp_env = map_of [(''TRUSTMATE_CLIENT_SERVER'', []), (''TRUSTMATE_CLIENT_CERT'', ''c''), (''TRUSTMATE_CLIENT_KEY'', ''k'')]"

theorem mcp_read_only_witness:
  "tables (h_remote (snd (run_state (trustmate_mcp mcp1 Some ''dev'' mcp_env [''--read-only'']
     [Call (GetCertificate ''7''), Call (IssueCertificate issue_app)]) host1))) = tables sys1"
proof -
  have flags: "Parse_flags mcp_flags [] [''--read-only''] = Inr ([(''read-only'', ''true'')], [])"
    by code_simp
  have "reads_target net1 (TrimRight (f_Server (connection_of mcp_env [(''read-only'', ''true'')])) ''/'')"
    using reads_target1 by (simp add: connection_of_def flag_or_def RegisterFlags_def envOr_def mcp_env_def TrimRight_def)
  moreover have "read_only_mode mcp_env [(''read-only'', ''true'')]"
    by (simp add: read_only_mode_def ParseBool_def)
  ultimately show ?thesis
    using mcp_read_only [OF faithful1(3) flags _ _ surjective_pairing, of mcp_env Some "''dev''" _ host1]
    by (simp add: host1_def)
qed

theorem mcp_writes_confined_witness:
  "map_of (h_files (snd (run_state (call_tool mcp1 tools1 False (IssueCertificate issue_app)) host1))) ''/out/old'' =
     Some (''data'', 0x1A4)"
  using mcp_writes_confined [OF surjective_pairing, where P = mcp1 and t = tools1 and readOnly = False and c = "IssueCertificate issue_app" and h = host1]
  by (simp add: confined_def host1_def)

end
