(* ===== verification/Conformance.thy ===== *)
theory Conformance
  imports Store_Iface
begin

text \<open>
  The contract suite every datastore backend has to pass, \<open>internal/store/storetest\<close>, as programs
  over the backend's methods. A test returns whether it passed: \<open>t.Fatalf\<close> ends it, \<open>t.Errorf\<close> marks
  it failed and goes on. Both backends pass the whole suite on a fresh datastore that answers, for
  every clock and for every random source that does not repeat itself (theorem \<open>store_conforms\<close>).
  The identifiers are those of the tests.
\<close>

section \<open>Tests and their verdicts\<close>

definition Fatalf :: "('s, bool) state" where
  "Fatalf = ret False"

definition Errorf_if :: "bool \<Rightarrow> ('s, bool) state \<Rightarrow> ('s, bool) state" where
  "Errorf_if bad rest = do {
     ok \<leftarrow> rest;
     ret (\<not> bad \<and> ok)
   }"

definition Fatalf_if :: "bool \<Rightarrow> ('s, bool) state \<Rightarrow> ('s, bool) state" where
  "Fatalf_if bad rest = (if bad then Fatalf else rest)"

text \<open>\<open>x, err := ...; if err != nil { t.Fatalf }\<close>\<close>

definition must :: "'e + 'a \<Rightarrow> ('a \<Rightarrow> ('s, bool) state) \<Rightarrow> ('s, bool) state" where
  "must r k = (case r of Inl _ \<Rightarrow> Fatalf | Inr x \<Rightarrow> k x)"

definition passed :: "('s, bool) state" where
  "passed = ret True"

text \<open>\<open>t.Run\<close> runs every subtest, whatever became of the ones before.\<close>

fun run_subtests :: "(string \<times> ('s, bool) state) list \<Rightarrow> ('s, (string \<times> bool) list) state" where
  "run_subtests [] = ret []"
| "run_subtests ((name, test) # rest) = do {
     ok \<leftarrow> test;
     oks \<leftarrow> run_subtests rest;
     ret ((name, ok) # oks)
   }"

definition zero_cert :: CertificateRecord where
  "zero_cert = \<lparr>Serial = [], Kind = [], ProfileName = [], Subject = [], IssuerSerial = [],
     NotBefore = 0, NotAfter = 0, PEM = [], KeyRef = [], CreatedAt = 0, RevokedAt = None, RevocationReason = []\<rparr>"

section \<open>The tests\<close>

definition testCertificateRepositoryCRUD :: "backend \<Rightarrow> ('x world_scheme, bool) state" where
  "testCertificateRepositoryCRUD db = do {
     t \<leftarrow> time_Now;
     let now = Truncate_second t;
     c1 \<leftarrow> Certificates_Create db (zero_cert\<lparr>Serial := ''storetest-aa'', Kind := CertKindRoot, Subject := ''CN=Root'',
            NotBefore := now, NotAfter := now + 24 * Hour, PEM := ''root-pem'', KeyRef := ''root'', CreatedAt := now\<rparr>);
     must c1 (\<lambda>_. do {
     c2 \<leftarrow> Certificates_Create db (zero_cert\<lparr>Serial := ''storetest-bb'', Kind := CertKindLeaf, ProfileName := ''server-tls'',
            Subject := ''CN=server'', IssuerSerial := ''storetest-aa'', NotBefore := now, NotAfter := now + 24 * Hour,
            PEM := ''leaf-pem'', KeyRef := ''server-tls'', CreatedAt := now + Second\<rparr>);
     must c2 (\<lambda>_. do {
     g \<leftarrow> Certificates_GetBySerial db ''storetest-aa'';
     must g (\<lambda>got. Errorf_if (Subject got \<noteq> ''CN=Root'' \<or> Kind got \<noteq> CertKindRoot) (do {
     rs \<leftarrow> Certificates_FindByKind db CertKindRoot;
     must rs (\<lambda>roots. Fatalf_if (length roots \<noteq> 1) (do {
     ls \<leftarrow> Certificates_FindByKind db CertKindLeaf;
     must ls (\<lambda>leaves. Fatalf_if (length leaves \<noteq> 1 \<or> IssuerSerial (leaves ! 0) \<noteq> ''storetest-aa'') (do {
     la \<leftarrow> Certificates_GetLatestByProfile db ''server-tls'';
     must la (\<lambda>latest. Errorf_if (Serial latest \<noteq> ''storetest-bb'') (do {
     m \<leftarrow> Certificates_GetBySerial db ''does-not-exist'';
     Errorf_if (m \<noteq> Inl ErrNotFound) passed
     })) })) })) })) }) })
   }"

definition testGetLatestByProfileTiebreak :: "backend \<Rightarrow> ('x world_scheme, bool) state" where
  "testGetLatestByProfileTiebreak db = do {
     t \<leftarrow> time_Now;
     let now = Truncate_second t;
     c1 \<leftarrow> Certificates_Create db (zero_cert\<lparr>Serial := ''storetest-tsa-1'', Kind := CertKindLeaf,
            ProfileName := ''storetest-tsa'', Subject := ''CN=tsa-1'', NotBefore := now, NotAfter := now + Hour,
            PEM := ''pem-1'', KeyRef := ''tsa'', CreatedAt := now\<rparr>);
     must c1 (\<lambda>_. do {
     c2 \<leftarrow> Certificates_Create db (zero_cert\<lparr>Serial := ''storetest-tsa-2'', Kind := CertKindLeaf,
            ProfileName := ''storetest-tsa'', Subject := ''CN=tsa-2'', NotBefore := now, NotAfter := now + Hour,
            PEM := ''pem-2'', KeyRef := ''tsa-2'', CreatedAt := now\<rparr>);
     must c2 (\<lambda>_. do {
     la \<leftarrow> Certificates_GetLatestByProfile db ''storetest-tsa'';
     must la (\<lambda>latest. Errorf_if (Serial latest \<noteq> ''storetest-tsa-2'') passed)
     }) })
   }"

definition testProfileRepositoryVersioning ::
    "(string \<Rightarrow> 'k::linorder) \<Rightarrow> backend \<Rightarrow> ('x world_scheme, bool) state" where
  "testProfileRepositoryVersioning collate db = do {
     t \<leftarrow> time_Now;
     let now = Truncate_second t;
     u1 \<leftarrow> Profiles_Upsert db \<lparr>prof_Name = ''storetest-default'', prof_Version = 1, prof_Data = ''v1'', prof_CreatedAt = now\<rparr>;
     must u1 (\<lambda>_. do {
     u2 \<leftarrow> Profiles_Upsert db \<lparr>prof_Name = ''storetest-default'', prof_Version = 2, prof_Data = ''v2'', prof_CreatedAt = now + Second\<rparr>;
     must u2 (\<lambda>_. do {
     g \<leftarrow> Profiles_Get db ''storetest-default'';
     must g (\<lambda>got. Errorf_if (prof_Version got \<noteq> 2 \<or> prof_Data got \<noteq> ''v2'') (do {
     al \<leftarrow> Profiles_List collate db;
     must al (\<lambda>all_rows. Fatalf_if (length (filter (\<lambda>rec. prof_Name rec = ''storetest-default'') all_rows) \<noteq> 2) (do {
     m \<leftarrow> Profiles_Get db ''storetest-missing'';
     Errorf_if (m \<noteq> Inl ErrNotFound) passed
     })) })) }) })
   }"

definition testCertificateRepositoryRevoke :: "backend \<Rightarrow> ('x world_scheme, bool) state" where
  "testCertificateRepositoryRevoke db = do {
     t \<leftarrow> time_Now;
     let now = Truncate_second t;
     c1 \<leftarrow> Certificates_Create db (zero_cert\<lparr>Serial := ''storetest-cc'', Kind := CertKindLeaf, Subject := ''CN=leaf'',
            NotBefore := now, NotAfter := now + Hour, PEM := ''leaf-pem'', CreatedAt := now\<rparr>);
     must c1 (\<lambda>_. do {
     let revokedAt = now + Minute;
     r1 \<leftarrow> Certificates_Revoke db ''storetest-cc'' ''keyCompromise'' revokedAt;
     must r1 (\<lambda>_. do {
     g \<leftarrow> Certificates_GetBySerial db ''storetest-cc'';
     must g (\<lambda>got.
       Errorf_if (RevokedAt got \<noteq> Some revokedAt) (
       Errorf_if (RevocationReason got \<noteq> ''keyCompromise'') (do {
     r2 \<leftarrow> Certificates_Revoke db ''storetest-cc'' ''superseded'' now;
     Errorf_if (r2 \<noteq> Inl ErrAlreadyRevoked) (do {
     r3 \<leftarrow> Certificates_Revoke db ''does-not-exist'' ''unspecified'' now;
     Errorf_if (r3 \<noteq> Inl ErrNotFound) (do {
     fr \<leftarrow> Certificates_FindRevoked db;
     must fr (\<lambda>revoked. Fatalf_if (\<not> list_ex (\<lambda>rec. Serial rec = ''storetest-cc'') revoked) passed)
     }) }) }))) }) })
   }"

definition testClientRoleRepository :: "backend \<Rightarrow> ('x world_scheme, bool) state" where
  "testClientRoleRepository db = do {
     t \<leftarrow> time_Now;
     let now = Truncate_second t;
     c1 \<leftarrow> Certificates_Create db (zero_cert\<lparr>Serial := ''storetest-dd'', Kind := CertKindLeaf, Subject := ''CN=client'',
            NotBefore := now, NotAfter := now + Hour, PEM := ''client-pem'', CreatedAt := now\<rparr>);
     must c1 (\<lambda>_. do {
     a1 \<leftarrow> ClientRoles_Assign db \<lparr>role_CertSerial = ''storetest-dd'', role_Role = RoleManager, role_CreatedAt = now\<rparr>;
     must a1 (\<lambda>_. do {
     g1 \<leftarrow> ClientRoles_Get db ''storetest-dd'';
     must g1 (\<lambda>got. Errorf_if (role_Role got \<noteq> RoleManager) (do {
     a2 \<leftarrow> ClientRoles_Assign db \<lparr>role_CertSerial = ''storetest-dd'', role_Role = RoleAdmin, role_CreatedAt = now\<rparr>;
     must a2 (\<lambda>_. do {
     g2 \<leftarrow> ClientRoles_Get db ''storetest-dd'';
     must g2 (\<lambda>got. Errorf_if (role_Role got \<noteq> RoleAdmin) (do {
     m \<leftarrow> ClientRoles_Get db ''does-not-exist'';
     Errorf_if (m \<noteq> Inl ErrNotFound) passed
     })) }) })) }) })
   }"

text \<open>The loop \<open>for i := 0; i < 3; i++\<close> of the audit test, followed by the rest of the test.\<close>

fun append_entries :: "backend \<Rightarrow> nat \<Rightarrow> ('x world_scheme, bool) state \<Rightarrow> ('x world_scheme, bool) state" where
  "append_entries db 0 rest = rest"
| "append_entries db (Suc n) rest = do {
     t \<leftarrow> time_Now;
     r \<leftarrow> Audit_Append db \<lparr>audit_ID = 0, audit_Timestamp = t, audit_Actor = ''storetest'', audit_Action = ''issue'',
            audit_Target = ''cert'', audit_Detail = ''detail''\<rparr>;
     must r (\<lambda>_. append_entries db n rest)
   }"

definition testAuditRepositoryAppendAndList :: "backend \<Rightarrow> ('x world_scheme, bool) state" where
  "testAuditRepositoryAppendAndList db = append_entries db 3 (do {
     l1 \<leftarrow> Audit_List db 10;
     must l1 (\<lambda>entries. Fatalf_if (length entries < 3)
       (Errorf_if (audit_ID (entries ! 0) < audit_ID (entries ! 1)) (do {
     l2 \<leftarrow> Audit_List db 2;
     must l2 (\<lambda>limited. Fatalf_if (length limited \<noteq> 2) passed)
     })))
   })"


subsection \<open>The ACME repositories\<close>

text \<open>One test in four parts, in the order of the code: tokens, accounts, orders, nonces. Each part goes on
  with the next.\<close>

definition storetest_eab :: "time \<Rightarrow> ACMEEABTokenRecord" where
  "storetest_eab now = \<lparr>eab_KeyID = ''storetest-eab-1'', eab_HMACKey = ''hmac-secret'', eab_Role = RoleManager,
     eab_CreatedAt = now, eab_ExpiresAt = now + Hour, eab_Consumed = False\<rparr>"

definition storetest_expired :: "time \<Rightarrow> ACMEEABTokenRecord" where
  "storetest_expired now = \<lparr>eab_KeyID = ''storetest-eab-expired'', eab_HMACKey = ''hmac-secret'', eab_Role = RoleManager,
     eab_CreatedAt = now, eab_ExpiresAt = now - Minute, eab_Consumed = False\<rparr>"

definition test_tokens ::
    "backend \<Rightarrow> time \<Rightarrow> ('x world_scheme, bool) state \<Rightarrow> ('x world_scheme, bool) state" where
  "test_tokens db now rest = do {
     c \<leftarrow> ACMEEABTokens_Create db (storetest_eab now);
     must c (\<lambda>_. do {
     g1 \<leftarrow> ACMEEABTokens_Get db (eab_KeyID (storetest_eab now));
     must g1 (\<lambda>got. Errorf_if (eab_Consumed got \<or> eab_Role got \<noteq> RoleManager \<or> eab_HMACKey got \<noteq> ''hmac-secret'') (do {
     m1 \<leftarrow> ACMEEABTokens_MarkConsumed db (eab_KeyID (storetest_eab now)) now;
     must m1 (\<lambda>_. do {
     g2 \<leftarrow> ACMEEABTokens_Get db (eab_KeyID (storetest_eab now));
     must g2 (\<lambda>got. Errorf_if (\<not> eab_Consumed got) (do {
     m2 \<leftarrow> ACMEEABTokens_MarkConsumed db (eab_KeyID (storetest_eab now)) now;
     Errorf_if (m2 \<noteq> Inl ErrAlreadyConsumed) (do {
     m3 \<leftarrow> ACMEEABTokens_MarkConsumed db ''storetest-eab-missing'' now;
     Errorf_if (m3 \<noteq> Inl ErrNotFound) (do {
     g3 \<leftarrow> ACMEEABTokens_Get db ''storetest-eab-missing'';
     Errorf_if (g3 \<noteq> Inl ErrNotFound) (do {
     c2 \<leftarrow> ACMEEABTokens_Create db (storetest_expired now);
     must c2 (\<lambda>_. do {
     m4 \<leftarrow> ACMEEABTokens_MarkConsumed db (eab_KeyID (storetest_expired now)) now;
     Errorf_if (m4 \<noteq> Inl ErrAlreadyConsumed) rest
     }) }) }) }) })) }) })) })
   }"

definition storetest_acct :: "time \<Rightarrow> ACMEAccountRecord" where
  "storetest_acct now = \<lparr>acct_ID = ''storetest-acct-1'', acct_JWKThumbprint = ''storetest-thumbprint-1'',
     acct_PublicKeyJWK = ''{'' @ [CHR 0x22] @ ''kty'' @ [CHR 0x22] @ '':'' @ [CHR 0x22] @ ''EC'' @ [CHR 0x22] @ ''}'',
     acct_Role = RoleManager, acct_EABKeyID = ''storetest-eab-1'', acct_CreatedAt = now\<rparr>"

definition test_accounts ::
    "backend \<Rightarrow> time \<Rightarrow> ('x world_scheme, bool) state \<Rightarrow> ('x world_scheme, bool) state" where
  "test_accounts db now rest = do {
     c \<leftarrow> ACMEAccounts_Create db (storetest_acct now);
     must c (\<lambda>_. do {
     g1 \<leftarrow> ACMEAccounts_GetByID db (acct_ID (storetest_acct now));
     must g1 (\<lambda>byID. Errorf_if (acct_JWKThumbprint byID \<noteq> acct_JWKThumbprint (storetest_acct now)) (do {
     g2 \<leftarrow> ACMEAccounts_GetByThumbprint db (acct_JWKThumbprint (storetest_acct now));
     must g2 (\<lambda>byThumb. Errorf_if (acct_ID byThumb \<noteq> acct_ID (storetest_acct now)) (do {
     g3 \<leftarrow> ACMEAccounts_GetByThumbprint db ''storetest-missing-thumbprint'';
     Errorf_if (g3 \<noteq> Inl ErrNotFound) (do {
     c2 \<leftarrow> ACMEAccounts_Create db ((storetest_acct now)\<lparr>acct_ID := ''storetest-acct-2''\<rparr>);
     Errorf_if (c2 \<noteq> Inl ErrAlreadyExists) rest
     }) })) })) })
   }"

definition storetest_order :: "time \<Rightarrow> ACMEOrderRecord" where
  "storetest_order now = \<lparr>order_ID = ''storetest-order-1'', order_AccountID = ''storetest-acct-1'',
     order_Identifier = ''CN=storetest-client'', order_Status = ACMEOrderStatusReady, order_CertSerial = [],
     order_CreatedAt = now\<rparr>"

definition test_orders ::
    "backend \<Rightarrow> time \<Rightarrow> ('x world_scheme, bool) state \<Rightarrow> ('x world_scheme, bool) state" where
  "test_orders db now rest = do {
     c \<leftarrow> ACMEOrders_Create db (storetest_order now);
     must c (\<lambda>_. do {
     g1 \<leftarrow> ACMEOrders_Get db (order_ID (storetest_order now));
     must g1 (\<lambda>got. Errorf_if (order_Status got \<noteq> ACMEOrderStatusReady \<or> order_CertSerial got \<noteq> []) (do {
     u1 \<leftarrow> ACMEOrders_UpdateStatus db (order_ID (storetest_order now)) ACMEOrderStatusProcessing ACMEOrderStatusValid ''storetest-wrong-cas'';
     must u1 (\<lambda>applied. Errorf_if applied (do {
     g2 \<leftarrow> ACMEOrders_Get db (order_ID (storetest_order now));
     must g2 (\<lambda>got. Errorf_if (order_Status got \<noteq> ACMEOrderStatusReady \<or> order_CertSerial got \<noteq> []) (do {
     u2 \<leftarrow> ACMEOrders_UpdateStatus db (order_ID (storetest_order now)) ACMEOrderStatusReady ACMEOrderStatusValid ''storetest-cert-serial'';
     must u2 (\<lambda>applied. Errorf_if (\<not> applied) (do {
     g3 \<leftarrow> ACMEOrders_Get db (order_ID (storetest_order now));
     must g3 (\<lambda>got. Errorf_if (order_Status got \<noteq> ACMEOrderStatusValid \<or> order_CertSerial got \<noteq> ''storetest-cert-serial'') (do {
     u3 \<leftarrow> ACMEOrders_UpdateStatus db ''storetest-order-missing'' ACMEOrderStatusReady ACMEOrderStatusValid [];
     Errorf_if (u3 \<noteq> Inl ErrNotFound) rest
     })) })) })) })) })) })
   }"

definition test_nonces :: "backend \<Rightarrow> time \<Rightarrow> ('x world_scheme, bool) state" where
  "test_nonces db now = do {
     i1 \<leftarrow> ACMENonces_Issue db (now + Hour);
     must i1 (\<lambda>nonce. Fatalf_if (nonce = []) (do {
     c1 \<leftarrow> ACMENonces_ConsumeIfValid db nonce now;
     must c1 (\<lambda>ok. Errorf_if (\<not> ok) (do {
     c2 \<leftarrow> ACMENonces_ConsumeIfValid db nonce now;
     must c2 (\<lambda>ok. Errorf_if ok (do {
     i2 \<leftarrow> ACMENonces_Issue db (now - Minute);
     must i2 (\<lambda>expired. do {
     c3 \<leftarrow> ACMENonces_ConsumeIfValid db expired now;
     must c3 (\<lambda>ok. Errorf_if ok passed)
     }) })) })) }))
   }"

definition testACMERepositories :: "backend \<Rightarrow> ('x world_scheme, bool) state" where
  "testACMERepositories db = do {
     t \<leftarrow> time_Now;
     let now = Truncate_second t;
     test_tokens db now (test_accounts db now (test_orders db now (test_nonces db now)))
   }"

definition storetest_Run ::
    "(string \<Rightarrow> 'k::linorder) \<Rightarrow> backend \<Rightarrow> ('x world_scheme, (string \<times> bool) list) state" where
  "storetest_Run collate db = run_subtests
     [(''CertificateRepositoryCRUD'', testCertificateRepositoryCRUD db),
      (''GetLatestByProfileBreaksTiesByInsertionOrder'', testGetLatestByProfileTiebreak db),
      (''ProfileRepositoryVersioning'', testProfileRepositoryVersioning collate db),
      (''CertificateRepositoryRevoke'', testCertificateRepositoryRevoke db),
      (''ClientRoleRepository'', testClientRoleRepository db),
      (''AuditRepositoryAppendAndList'', testAuditRepositoryAppendAndList db),
      (''ACMERepositories'', testACMERepositories db)]"

section \<open>Passing the suite\<close>

text \<open>The methods on a datastore that answers, for both backends.\<close>

lemma run_time_Now:
  obtains t ts where "run_state time_Now w = (t, w\<lparr>clock := t, clock_tape := ts\<rparr>)"
proof (cases "clock_tape w")
  case Nil
  then have "run_state time_Now w = (clock w, w\<lparr>clock := clock w, clock_tape := []\<rparr>)"
    by (cases w) (simp add: time_Now_def)
  then show ?thesis
    by (rule that)
qed (simp add: time_Now_def that)

lemma cert_row_simps [simp]:
  "Serial (cert_row b r) = Serial r" "Kind (cert_row b r) = Kind r"
  "ProfileName (cert_row b r) = ProfileName r" "Subject (cert_row b r) = Subject r"
  "IssuerSerial (cert_row b r) = IssuerSerial r" "CreatedAt (cert_row b r) = enc_of b (CreatedAt r)"
  "RevokedAt (cert_row b r) = None"
  by (simp_all add: cert_row_def)

lemma run_Certificates_Create:
  assumes "faults w = []" and "Kind r \<in> {CertKindRoot, CertKindIntermediate, CertKindLeaf}"
    and "Serial r \<notin> Serial ` set (certificates w)"
    and "IssuerSerial r = [] \<or> IssuerSerial r \<in> Serial ` set (certificates w)"
  shows "run_state (Certificates_Create b r) w = (Inr (), w\<lparr>certificates := certificates w @ [cert_row b r]\<rparr>)"
  using assms
  by (cases b) (auto simp: method_bodies effects insert_certificate_def has_key_iff cert_row_def enc_of_def exec_done_def
      State_Monad.return_def)


lemma run_reads:
  assumes "faults w = []"
  shows "run_state (Certificates_GetBySerial b x) w = (scan_row (Inr (select_certificate x w)), w)"
    and "run_state (Certificates_FindByKind b k) w = (Inr (select_by_kind k w), w)"
    and "run_state (Certificates_GetLatestByProfile b x) w = (scan_row (Inr (select_latest_by_profile x w)), w)"
    and "run_state (Certificates_FindRevoked b) w = (Inr (select_revoked w), w)"
    and "run_state (ClientRoles_Get b x) w = (scan_row (Inr (select_client_role x w)), w)"
    and "run_state (Profiles_Get b x) w = (scan_row (Inr (select_profile x w)), w)"
    and "run_state (ACMEEABTokens_Get b x) w = (scan_row (Inr (select_eab_token x w)), w)"
    and "run_state (ACMEAccounts_GetByThumbprint b x) w = (scan_row (Inr (select_account_by_thumbprint x w)), w)"
    and "run_state (ACMEAccounts_GetByID b x) w = (scan_row (Inr (select_account_by_id x w)), w)"
    and "run_state (ACMEOrders_Get b x) w = (scan_row (Inr (select_order x w)), w)"
  using assms by (cases b; simp add: method_bodies effects scan_rows_def State_Monad.return_def)+

lemma run_Profiles_List:
  "faults w = [] \<Longrightarrow> run_state (Profiles_List collate b) w =
     (Inr (if b = Sqlite then select_profiles (\<lambda>name. name) w else select_profiles collate w), w)"
  by (cases b) (simp_all add: method_bodies effects scan_rows_def State_Monad.return_def)

lemma run_Certificates_Revoke:
  assumes "faults w = []"
  shows "select_certificate x w = Some r \<Longrightarrow> RevokedAt r = None \<Longrightarrow>
      run_state (Certificates_Revoke b x reason at) w =
        (Inr (), w\<lparr>certificates := revoke_rows x reason (enc_of b at) (certificates w)\<rparr>)"
    and "select_certificate x w = Some r \<Longrightarrow> \<not> unrevoked x (certificates w) \<Longrightarrow>
      run_state (Certificates_Revoke b x reason at) w = (Inl ErrAlreadyRevoked, w)"
    and "select_certificate x w = None \<Longrightarrow>
      run_state (Certificates_Revoke b x reason at) w = (Inl ErrNotFound, w)"
proof -
  have some: "r \<in> set (certificates w) \<and> Serial r = x" if "select_certificate x w = Some r" for r
    using that by (auto simp: select_certificate_def find_Some_iff)
  have pos: "0 < count_where (\<lambda>r. Serial r = x \<and> RevokedAt r = None) (certificates w) \<longleftrightarrow> unrevoked x (certificates w)"
    by (auto simp: count_where_pos unrevoked_def)
  have none: "revoke_rows x reason (enc_of b at) (certificates w) = certificates w" if "\<not> unrevoked x (certificates w)"
    using that by (auto simp: revoke_rows_def unrevoked_def intro!: update_where_none)
  show "run_state (Certificates_Revoke b x reason at) w =
        (Inr (), w\<lparr>certificates := revoke_rows x reason (enc_of b at) (certificates w)\<rparr>)"
    if r: "select_certificate x w = Some r" "RevokedAt r = None"
  proof -
    have "unrevoked x (certificates w)"
      using some [OF r(1)] r(2) by (auto simp: unrevoked_def)
    then show ?thesis
      using pos assms r
      by (cases b) (simp_all add: method_bodies effects scan_row_def update_revoked_def Let_def revoke_rows_def enc_of_def
        State_Monad.return_def)
  qed
  show "run_state (Certificates_Revoke b x reason at) w = (Inl ErrAlreadyRevoked, w)"
    if r: "select_certificate x w = Some r" "\<not> unrevoked x (certificates w)"
  proof -
    have "RevokedAt r \<noteq> None"
      using some [OF r(1)] r(2) by (auto simp: unrevoked_def)
    then show ?thesis
      using pos none [OF r(2)] assms r
      by (cases b) (simp_all add: method_bodies effects scan_row_def update_revoked_def Let_def revoke_rows_def enc_of_def
        State_Monad.return_def)
  qed
  show "run_state (Certificates_Revoke b x reason at) w = (Inl ErrNotFound, w)"
    if r: "select_certificate x w = None"
  proof -
    have nu: "\<not> unrevoked x (certificates w)"
      using r by (auto simp: select_certificate_def find_None_iff unrevoked_def)
    show ?thesis
      using pos none [OF nu] nu assms r
      by (cases b) (simp_all add: method_bodies effects scan_row_def update_revoked_def Let_def revoke_rows_def enc_of_def
        State_Monad.return_def)
  qed
qed

definition whole_seconds :: "backend \<Rightarrow> bool" where
  "whole_seconds b \<longleftrightarrow> (\<forall>k. enc_of b (k * Second) = k * Second)"

lemmas test_defs = must_def Fatalf_def Errorf_if_def Fatalf_if_def passed_def

definition cert_ids :: "'x world_scheme \<Rightarrow> (string \<times> string) list" where
  "cert_ids w = map (\<lambda>r. (Serial r, ProfileName r)) (certificates w)"

definition other_tables where
  "other_tables w = (client_roles w, profiles w, acme_eab_tokens w, acme_accounts w, acme_orders w, acme_nonces w, rand_tape w)"

lemma cert_ids_fresh:
  "x \<notin> fst ` set (cert_ids w) \<Longrightarrow> x \<notin> Serial ` set (certificates w)"
  "p \<notin> snd ` set (cert_ids w) \<Longrightarrow> filter (\<lambda>r. ProfileName r = p) (certificates w) = []"
  by (force simp: cert_ids_def filter_empty_conv)+

lemmas test_run = wp_def Let_def must_def Fatalf_def Errorf_if_def Fatalf_if_def passed_def zero_cert_def
  run_Certificates_Create run_reads scan_row_def State_Monad.return_def cert_ids_def other_tables_def

lemma pass_GetLatestByProfileTiebreak:
  assumes "faults w = []" and "''storetest-tsa-1'' \<notin> fst ` set (cert_ids w)"
    and "''storetest-tsa-2'' \<notin> fst ` set (cert_ids w)" and "''storetest-tsa'' \<notin> snd ` set (cert_ids w)"
  shows "wp (testGetLatestByProfileTiebreak b) (\<lambda>ok w'. ok \<and> faults w' = [] \<and> other_tables w' = other_tables w \<and>
     cert_ids w' = cert_ids w @ [(''storetest-tsa-1'', ''storetest-tsa''), (''storetest-tsa-2'', ''storetest-tsa'')]) w"
proof -
  obtain t ts where t: "run_state time_Now w = (t, w\<lparr>clock := t, clock_tape := ts\<rparr>)"
    by (rule run_time_Now)
  note fresh = assms(2,3) [THEN cert_ids_fresh(1)] assms(4) [THEN cert_ids_fresh(2)]
  show ?thesis
    by (simp add: testGetLatestByProfileTiebreak_def t test_run assms(1) fresh select_latest_by_profile_def)
qed

lemma pass_CertificateRepositoryCRUD:
  assumes "faults w = []" and "cert_ids w = []"
  shows "wp (testCertificateRepositoryCRUD b) (\<lambda>ok w'. ok \<and> faults w' = [] \<and> other_tables w' = other_tables w \<and>
     cert_ids w' = [(''storetest-aa'', []), (''storetest-bb'', ''server-tls'')]) w"
proof -
  obtain t ts where t: "run_state time_Now w = (t, w\<lparr>clock := t, clock_tape := ts\<rparr>)"
    by (rule run_time_Now)
  have "certificates w = []"
    using assms(2) by (simp add: cert_ids_def)
  then show ?thesis
    by (simp add: testCertificateRepositoryCRUD_def t test_run assms(1) select_latest_by_profile_def select_by_kind_def select_certificate_def)
qed

lemma pass_ProfileRepositoryVersioning:
  assumes "faults w = []" and "profiles w = []"
  shows "wp (testProfileRepositoryVersioning collate b) (\<lambda>ok w'. ok \<and> faults w' = [] \<and> cert_ids w' = cert_ids w \<and>
     other_tables w' = other_tables (w\<lparr>profiles := profiles w'\<rparr>)) w"
proof -
  obtain t ts where t: "run_state time_Now w = (t, w\<lparr>clock := t, clock_tape := ts\<rparr>)"
    by (rule run_time_Now)
  have up: "run_state (Profiles_Upsert b r) v =
      (Inr (), v\<lparr>profiles := profiles v @ [r\<lparr>prof_CreatedAt := enc_of b (prof_CreatedAt r)\<rparr>]\<rparr>)"
    if "faults v = []" "\<forall>x\<in>set (profiles v). prof_Version x \<noteq> prof_Version r" for r :: ProfileRecord and v :: "'a world_scheme"
    using that by (cases b) (auto simp: method_bodies effects exec_done_def upsert_profile_def Let_def list_ex_iff enc_of_def State_Monad.return_def)
  show ?thesis
    by (simp add: testProfileRepositoryVersioning_def t test_run assms up run_Profiles_List select_profile_def select_profiles_def)
qed

lemma find_fresh: "x \<notin> f ` set rows \<Longrightarrow> find (\<lambda>r. f r = x) rows = None"
  by (auto simp: find_None_iff)

lemma Truncate_times:
  "whole_seconds b \<Longrightarrow> enc_of b (Truncate_second t) = Truncate_second t"
  "whole_seconds b \<Longrightarrow> enc_of b (Truncate_second t + Minute) = Truncate_second t + Minute"
  "whole_seconds b \<Longrightarrow> enc_of b (Truncate_second t + Hour) = Truncate_second t + Hour"
  "whole_seconds b \<Longrightarrow> enc_of b (Truncate_second t - Minute) = Truncate_second t - Minute"
proof -
  assume *: "whole_seconds b"
  have "Truncate_second t = t div Second * Second" "Truncate_second t + Minute = (t div Second + 60) * Second"
    "Truncate_second t + Hour = (t div Second + 3600) * Second" "Truncate_second t - Minute = (t div Second - 60) * Second"
    by (simp_all add: Truncate_second_def duration_defs algebra_simps)
  with * show "enc_of b (Truncate_second t) = Truncate_second t"
    "enc_of b (Truncate_second t + Minute) = Truncate_second t + Minute"
    "enc_of b (Truncate_second t + Hour) = Truncate_second t + Hour"
    "enc_of b (Truncate_second t - Minute) = Truncate_second t - Minute"
    unfolding whole_seconds_def by metis+
qed

lemma revoke_fresh:
  assumes "x \<notin> Serial ` set rows"
  shows "revoke_rows x reason at (rows @ [r]) = rows @ revoke_rows x reason at [r]"
    and "unrevoked x (rows @ [r]) \<longleftrightarrow> Serial r = x \<and> RevokedAt r = None"
    and "find (\<lambda>r. Serial r = x) (rows @ [r]) = find (\<lambda>r. Serial r = x) [r]"
  using assms
  by (auto simp: revoke_rows_def update_where_def unrevoked_def find_append find_fresh intro!: map_idI)

lemma revoke_row:
  "Serial r = x \<Longrightarrow> RevokedAt r = None \<Longrightarrow>
     revoke_rows x reason at [r] = [r\<lparr>RevokedAt := Some at, RevocationReason := reason\<rparr>]"
  by (simp add: revoke_rows_def update_where_def)

lemma pass_CertificateRepositoryRevoke:
  assumes "faults w = []" and "whole_seconds b"
    and "''storetest-cc'' \<notin> fst ` set (cert_ids w)" and "''does-not-exist'' \<notin> fst ` set (cert_ids w)"
  shows "wp (testCertificateRepositoryRevoke b) (\<lambda>ok w'. ok \<and> faults w' = [] \<and> other_tables w' = other_tables w \<and>
     cert_ids w' = cert_ids w @ [(''storetest-cc'', [])]) w"
proof -
  obtain t ts where t: "run_state time_Now w = (t, w\<lparr>clock := t, clock_tape := ts\<rparr>)"
    by (rule run_time_Now)
  note fresh = assms(3,4) [THEN cert_ids_fresh(1)]
  have found: "Bex (set (select_revoked v)) (\<lambda>r. Serial r = x) \<longleftrightarrow>
      (\<exists>r\<in>set (certificates v). Serial r = x \<and> RevokedAt r \<noteq> None)" for v :: "'a world_scheme" and x
    by (auto simp: select_revoked_def)
  show ?thesis
    by (simp add: testCertificateRepositoryRevoke_def t test_run assms(1) fresh select_certificate_def
       run_Certificates_Revoke revoke_fresh Truncate_times assms(2) found list_ex_iff revoke_row)
qed


lemma pass_ClientRoleRepository:
  assumes "faults w = []" and "client_roles w = []" and "''storetest-dd'' \<notin> fst ` set (cert_ids w)"
  shows "wp (testClientRoleRepository b) (\<lambda>ok w'. ok \<and> faults w' = [] \<and>
     other_tables w' = other_tables (w\<lparr>client_roles := client_roles w'\<rparr>)) w"
proof -
  obtain t ts where t: "run_state time_Now w = (t, w\<lparr>clock := t, clock_tape := ts\<rparr>)"
    by (rule run_time_Now)
  have assign: "run_state (ClientRoles_Assign b r) v = (Inr (), v\<lparr>client_roles :=
      assign_rows (r\<lparr>role_CreatedAt := enc_of b (role_CreatedAt r)\<rparr>) (client_roles v)\<rparr>)"
    if "faults v = []" "role_Role r \<in> roles_allowed" "role_CertSerial r \<in> Serial ` set (certificates v)"
    for r :: ClientRoleRecord and v :: "'a world_scheme"
    using that by (cases b) (auto simp: method_bodies effects exec_done_def upsert_client_role_def assign_rows_def
        has_key_iff enc_of_def State_Monad.return_def)
  show ?thesis
    by (simp add: testClientRoleRepository_def t test_run assms(1,2) assign cert_ids_fresh(1) [OF assms(3)]
        roles_allowed_def assign_rows_def has_key_def update_where_def select_client_role_def)
qed

lemma run_Audit:
  assumes "faults w = []"
  shows "run_state (Audit_Append b e) w = (Inr (), w\<lparr>audit_log := audit_log w @
      [e\<lparr>audit_Timestamp := enc_of b (audit_Timestamp e), audit_ID := int (length (audit_log w)) + 1\<rparr>]\<rparr>)"
    and "0 \<le> k \<Longrightarrow> run_state (Audit_List b k) w = (Inr (take (nat k) (rev (audit_log w))), w)"
  using assms by (cases b; simp add: method_bodies effects exec_done_def scan_rows_def insert_audit_def select_audit_def
      enc_of_def State_Monad.return_def)+

lemma pass_append_entries:
  assumes "faults w = []"
    and "\<And>v es. faults v = [] \<Longrightarrow> other_tables v = other_tables w \<Longrightarrow> length es = n \<Longrightarrow>
      audit_log v = audit_log w @ es \<Longrightarrow>
      (\<forall>i<n. audit_ID (es ! i) = int (length (audit_log w)) + int i + 1) \<Longrightarrow> wp rest Q v"
  shows "wp (append_entries b n rest) Q w"
  using assms
proof (induction n arbitrary: w)
  case 0
  then show ?case
    using "0.prems"(2) [of w "[]"] by simp
next
  case (Suc n)
  obtain t ts where t: "run_state time_Now w = (t, w\<lparr>clock := t, clock_tape := ts\<rparr>)"
    by (rule run_time_Now)
  define e where "e = \<lparr>audit_ID = int (length (audit_log w)) + 1, audit_Timestamp = enc_of b t, audit_Actor = ''storetest'',
    audit_Action = ''issue'', audit_Target = ''cert'', audit_Detail = ''detail''\<rparr>"
  define w1 where "w1 = w\<lparr>clock := t, clock_tape := ts, audit_log := audit_log w @ [e]\<rparr>"
  have "wp (append_entries b n rest) Q w1"
  proof (rule Suc.IH)
    show "faults w1 = []"
      using Suc.prems(1) by (simp add: w1_def)
    fix v :: "'a world_scheme" and es
    assume v: "faults v = []" "other_tables v = other_tables w1" "length es = n" "audit_log v = audit_log w1 @ es"
      "\<forall>i<n. audit_ID (es ! i) = int (length (audit_log w1)) + int i + 1"
    show "wp rest Q v"
    proof (rule Suc.prems(2) [of v "e # es"])
      show "\<forall>i<Suc n. audit_ID ((e # es) ! i) = int (length (audit_log w)) + int i + 1"
        using v(5) by (auto simp: nth_Cons e_def w1_def split: nat.splits)
    qed (use v in \<open>auto simp: w1_def other_tables_def\<close>)
  qed
  then show ?case
    using Suc.prems(1) by (simp add: wp_def t run_Audit must_def e_def w1_def)
qed

lemma pass_AuditRepositoryAppendAndList:
  assumes "faults w = []"
  shows "wp (testAuditRepositoryAppendAndList b) (\<lambda>ok w'. ok \<and> faults w' = [] \<and> other_tables w' = other_tables w) w"
  unfolding testAuditRepositoryAppendAndList_def
proof (rule pass_append_entries [OF assms])
  fix v :: "'a world_scheme" and es
  assume v: "faults v = []" "other_tables v = other_tables w" "length es = 3" "audit_log v = audit_log w @ es"
    "\<forall>i<3. audit_ID (es ! i) = int (length (audit_log w)) + int i + 1"
  then obtain e0 e1 e2 where es: "es = [e0, e1, e2]"
    by (auto simp: numeral_3_eq_3 length_Suc_conv)
  have "audit_ID e1 < audit_ID e2"
    using v(5) by (auto simp: es numeral_3_eq_3 All_less_Suc)
  then show "wp (do {
     l1 \<leftarrow> Audit_List b 10;
     must l1 (\<lambda>entries. Fatalf_if (length entries < 3)
       (Errorf_if (audit_ID (entries ! 0) < audit_ID (entries ! 1)) (do {
     l2 \<leftarrow> Audit_List b 2;
     must l2 (\<lambda>limited. Fatalf_if (length limited \<noteq> 2) passed)
     })))
   }) (\<lambda>ok w'. ok \<and> faults w' = [] \<and> other_tables w' = other_tables w) v"
    using v by (simp add: run_Audit test_run es)
qed


text \<open>A check that holds leaves the verdict to the rest of the test.\<close>

lemma Errorf_if_False [simp]: "Errorf_if False rest = rest"
  by (simp add: Errorf_if_def)

lemma Fatalf_if_False [simp]: "Fatalf_if False rest = rest"
  by (simp add: Fatalf_if_def)

lemma must_Inr [simp]: "must (Inr x) k = k x"
  by (simp add: must_def)

lemma enc_of_cases: "enc_of Sqlite = rfc3339" "enc_of (Postgres enc) = enc"
  by (simp_all add: enc_of_def)

lemmas acme_run = method_bodies effects exec_done_def scan_row_def State_Monad.return_def Let_def statement_defs query_defs
  has_key_def update_where_def count_where_def roles_allowed_def

lemma pass_tokens:
  assumes "faults w = []" and "acme_eab_tokens w = []" and "whole_seconds b" and "now = Truncate_second t"
    and "wp rest Q (w\<lparr>acme_eab_tokens := [(storetest_eab now)\<lparr>eab_Consumed := True\<rparr>, storetest_expired now]\<rparr>)"
  shows "wp (test_tokens b now rest) Q w"
proof -
  have times: "enc_of b now = now" "enc_of b (now + Hour) = now + Hour" "enc_of b (now - Minute) = now - Minute"
    using assms(3,4) by (simp_all add: Truncate_times)
  show ?thesis
    using assms(1,2,5) times
    by (cases b)
      (simp_all add: test_tokens_def wp_iff acme_run storetest_eab_def storetest_expired_def enc_of_cases duration_defs)
qed


lemma pass_accounts:
  assumes "faults w = []" and "acme_accounts w = []" and "has_key eab_KeyID ''storetest-eab-1'' (acme_eab_tokens w)"
    and "wp rest Q (w\<lparr>acme_accounts := [acct_row b (storetest_acct now)]\<rparr>)"
  shows "wp (test_accounts b now rest) Q w"
  using assms
  by (cases b)
    (simp_all add: test_accounts_def wp_iff acme_run storetest_acct_def acct_row_def enc_of_cases sqlite_isUniqueViolation_def
      pg_isUniqueViolation_def)

lemma pass_orders:
  assumes "faults w = []" and "acme_orders w = []" and "has_key acct_ID ''storetest-acct-1'' (acme_accounts w)"
    and "\<And>os. wp rest Q (w\<lparr>acme_orders := os\<rparr>)"
  shows "wp (test_orders b now rest) Q w"
  using assms
  by (cases b)
    (simp_all add: test_orders_def wp_iff acme_run storetest_order_def enc_of_cases)

lemma b64_fill: "b64_EncodeToString (fill ACMENonceBytes r) \<noteq> []"
  using length_fill [of ACMENonceBytes r] by (auto simp: b64_empty ACMENonceBytes_def simp del: length_fill)

lemma pass_nonces:
  assumes "faults w = []" and "acme_nonces w = []" and "rand_tape w = Some r1 # Some r2 # rs"
    and "whole_seconds b" and "now = Truncate_second t"
  shows "wp (test_nonces b now) (\<lambda>ok w'. ok) w"
proof -
  have times: "enc_of b now = now" "enc_of b (now + Hour) = now + Hour" "enc_of b (now - Minute) = now - Minute"
    using assms(4,5) by (simp_all add: Truncate_times)
  have rand: "run_state (rand_Read n) v = (Some (fill n x), v\<lparr>rand_tape := xs\<rparr>)"
    if "rand_tape v = Some x # xs" for n x xs and v :: "'a world_scheme"
    using that by (simp add: rand_Read_def)
  show ?thesis
    using assms(1-3) times
    by (cases b)
      (simp_all add: test_nonces_def wp_iff acme_run rand enc_of_cases duration_defs b64_fill passed_def)
qed


definition fresh_store :: "'x world_scheme \<Rightarrow> bool" where
  "fresh_store w \<longleftrightarrow> certificates w = [] \<and> client_roles w = [] \<and> profiles w = [] \<and> audit_log w = [] \<and>
     acme_eab_tokens w = [] \<and> acme_accounts w = [] \<and> acme_orders w = [] \<and> acme_nonces w = []"

lemma pass_ACMERepositories:
  assumes "faults w = []" and "acme_eab_tokens w = []" and "acme_accounts w = []" and "acme_orders w = []"
    and "acme_nonces w = []" and "rand_tape w = Some r1 # Some r2 # rs" and "whole_seconds b"
  shows "wp (testACMERepositories b) (\<lambda>ok w'. ok) w"
proof -
  obtain t ts where t: "run_state time_Now w = (t, w\<lparr>clock := t, clock_tape := ts\<rparr>)"
    by (rule run_time_Now)
  let ?now = "Truncate_second t"
  have "wp (test_tokens b ?now (test_accounts b ?now (test_orders b ?now (test_nonces b ?now)))) (\<lambda>ok w'. ok)
      (w\<lparr>clock := t, clock_tape := ts\<rparr>)"
    using assms
    by (intro pass_tokens [OF _ _ assms(7) refl] pass_accounts pass_orders pass_nonces [OF _ _ _ assms(7) refl])
      (simp_all add: has_key_def storetest_eab_def acct_row_def storetest_acct_def)
  then show ?thesis
    by (simp add: testACMERepositories_def wp_def t Let_def)
qed

text \<open>C16. Either backend passes every test of the contract suite when it is run on a fresh datastore that
  answers, whatever the clock says, provided that the backend keeps whole seconds and the random source works.\<close>

theorem store_conforms:
  assumes "fresh_store w" and "faults w = []" and "rand_tape w = Some r1 # Some r2 # rs" and "whole_seconds b"
  shows "map snd (fst (run_state (storetest_Run collate b) w)) = replicate 7 True"
proof -
  have "wp (storetest_Run collate b) (\<lambda>oks w'. map snd oks = replicate 7 True) w"
    unfolding storetest_Run_def run_subtests.simps wp_bind wp_return
    using assms unfolding fresh_store_def
    by (intro wp_mono [OF pass_CertificateRepositoryCRUD] wp_mono [OF pass_GetLatestByProfileTiebreak]
      wp_mono [OF pass_ProfileRepositoryVersioning] wp_mono [OF pass_CertificateRepositoryRevoke]
      wp_mono [OF pass_ClientRoleRepository] wp_mono [OF pass_AuditRepositoryAppendAndList]
      wp_mono [OF pass_ACMERepositories])
      (simp_all add: other_tables_def cert_ids_def numeral_nat)
  then show ?thesis
    by (simp add: wp_iff)
qed


definition blank :: "string option list \<Rightarrow> world" where
  "blank tape = \<lparr>certificates = [], client_roles = [], profiles = [], audit_log = [], acme_eab_tokens = [],
     acme_accounts = [], acme_orders = [], acme_nonces = [], faults = [], clock = 5 * Second, clock_tape = [],
     rand_tape = tape\<rparr>"

theorem store_conforms_witness:
  "map snd (fst (run_state (storetest_Run (\<lambda>name. name) Sqlite) (blank [Some ''A'', Some ''B'']))) = replicate 7 True \<and>
   map snd (fst (run_state (storetest_Run length (Postgres (\<lambda>t. t div 1000 * 1000))) (blank [Some ''A'', Some ''B'']))) =
     replicate 7 True"
proof
  have w: "fresh_store (blank ts)" "faults (blank ts) = []" "rand_tape (blank ts) = ts" for ts
    by (simp_all add: fresh_store_def blank_def)
  have "whole_seconds Sqlite" "whole_seconds (Postgres (\<lambda>t. t div 1000 * 1000))"
    by (simp_all add: whole_seconds_def enc_of_cases rfc3339_def Truncate_second_def Second_def)
  note secs = this
  show "map snd (fst (run_state (storetest_Run (\<lambda>name. name) Sqlite) (blank [Some ''A'', Some ''B'']))) = replicate 7 True"
    by (rule store_conforms [OF w(1,2,3) secs(1)])
  show "map snd (fst (run_state (storetest_Run length (Postgres (\<lambda>t. t div 1000 * 1000))) (blank [Some ''A'', Some ''B'']))) =
     replicate 7 True"
    by (rule store_conforms [OF w(1,2,3) secs(2)])
qed

end
