(* ===== verification/Key_Conformance.thy ===== *)
theory Key_Conformance
  imports Conformance Keystore_Remote
begin

text \<open>
  The contract suite of the key stores, \<open>internal/keystore/keystoretest\<close>, as programs over the
  operations of a store. What a store needs beyond \<open>key_store\<close> to pass it is the locale
  \<open>answering_key_store\<close>: with nothing failing, operations answer, generation succeeds for a new
  reference and touches no other, and signatures verify. The suite is shown to pass there once, and the locale
  is interpreted on the two stores the tests run against, the file store and Vault. The one test of the suite that
  starts goroutines is in \<open>Ref_Lock\<close>, where their steps are.
\<close>

section \<open>The tests\<close>

definition testExists ::
    "('k \<Rightarrow> KeyRef \<Rightarrow> ('s, ks_error + bool) state) \<Rightarrow>
     ('k \<Rightarrow> KeyRef \<Rightarrow> Algorithm \<Rightarrow> ('s, (ks_error + 'g) \<times> 'k) state) \<Rightarrow> 'k \<Rightarrow> KeyRef \<Rightarrow> ('s, bool \<times> 'k) state" where
  "testExists Exists Generate ks ref = do {
     e1 \<leftarrow> Exists ks ref;
     (if e1 \<noteq> Inr False then ret (False, ks)
      else do {
        (g, ks1) \<leftarrow> Generate ks ref AlgorithmECDSAP256;
        (case g of
           Inl _ \<Rightarrow> ret (False, ks1)
         | Inr _ \<Rightarrow> do {
             e2 \<leftarrow> Exists ks1 ref;
             ret (e2 = Inr True, ks1)
           })
      })
   }"

definition testGenerateGetRoundTrip ::
    "('k \<Rightarrow> KeyRef \<Rightarrow> Algorithm \<Rightarrow> ('s, (ks_error + 'g) \<times> 'k) state) \<Rightarrow>
     ('k \<Rightarrow> KeyRef \<Rightarrow> ('s, (ks_error + 'g) \<times> 'k) state) \<Rightarrow> ('g \<Rightarrow> pubkey) \<Rightarrow> 'k \<Rightarrow> KeyRef \<Rightarrow> ('s, bool \<times> 'k) state" where
  "testGenerateGetRoundTrip Generate Get Public ks ref = do {
     (g, ks1) \<leftarrow> Generate ks ref AlgorithmECDSAP256;
     (case g of
        Inl _ \<Rightarrow> ret (False, ks1)
      | Inr signer \<Rightarrow> do {
          (h, ks2) \<leftarrow> Get ks1 ref;
          (case h of
             Inl _ \<Rightarrow> ret (False, ks2)
           | Inr got \<Rightarrow> ret (Public signer = Public got, ks2))
        })
   }"

definition testGenerateExistingRefErrors ::
    "('k \<Rightarrow> KeyRef \<Rightarrow> Algorithm \<Rightarrow> ('s, (ks_error + 'g) \<times> 'k) state) \<Rightarrow> 'k \<Rightarrow> KeyRef \<Rightarrow> ('s, bool \<times> 'k) state" where
  "testGenerateExistingRefErrors Generate ks ref = do {
     (g1, ks1) \<leftarrow> Generate ks ref AlgorithmECDSAP256;
     (case g1 of
        Inl _ \<Rightarrow> ret (False, ks1)
      | Inr _ \<Rightarrow> do {
          (g2, ks2) \<leftarrow> Generate ks1 ref AlgorithmECDSAP256;
          (case g2 of Inl _ \<Rightarrow> ret (True, ks2) | Inr _ \<Rightarrow> ret (False, ks2))
        })
   }"

text \<open>The type assertion to \<open>*ecdsa.PublicKey\<close>.\<close>

definition is_ecdsa :: "pubkey \<Rightarrow> bool" where
  "is_ecdsa pub = (case pub of P256 _ _ \<Rightarrow> True | ECOther _ \<Rightarrow> True | _ \<Rightarrow> False)"

definition testSignVerifiable ::
    "('k \<Rightarrow> KeyRef \<Rightarrow> Algorithm \<Rightarrow> ('s, (ks_error + 'g) \<times> 'k) state) \<Rightarrow>
     ('k \<Rightarrow> 'g \<Rightarrow> string \<Rightarrow> ('s, (ks_error + string) \<times> 'k) state) \<Rightarrow> ('g \<Rightarrow> pubkey) \<Rightarrow>
     (pubkey \<Rightarrow> string \<Rightarrow> string \<Rightarrow> bool) \<Rightarrow> (string \<Rightarrow> string) \<Rightarrow> 'k \<Rightarrow> KeyRef \<Rightarrow> ('s, bool \<times> 'k) state" where
  "testSignVerifiable Generate Sign Public VerifyASN1 Sum256 ks ref = do {
     (g, ks1) \<leftarrow> Generate ks ref AlgorithmECDSAP256;
     (case g of
        Inl _ \<Rightarrow> ret (False, ks1)
      | Inr signer \<Rightarrow> do {
          let digest = Sum256 ''keystoretest message'';
          (s, ks2) \<leftarrow> Sign ks1 signer digest;
          (case s of
             Inl _ \<Rightarrow> ret (False, ks2)
           | Inr sig \<Rightarrow>
               (if \<not> is_ecdsa (Public signer) then ret (False, ks2)
                else ret (VerifyASN1 (Public signer) digest sig, ks2)))
        })
   }"

text \<open>\<open>Run\<close> without the test that starts goroutines.\<close>

definition keystoretest_Sequential ::
    "('k \<Rightarrow> KeyRef \<Rightarrow> ('s, ks_error + bool) state) \<Rightarrow>
     ('k \<Rightarrow> KeyRef \<Rightarrow> Algorithm \<Rightarrow> ('s, (ks_error + 'g) \<times> 'k) state) \<Rightarrow>
     ('k \<Rightarrow> KeyRef \<Rightarrow> ('s, (ks_error + 'g) \<times> 'k) state) \<Rightarrow>
     ('k \<Rightarrow> 'g \<Rightarrow> string \<Rightarrow> ('s, (ks_error + string) \<times> 'k) state) \<Rightarrow> ('g \<Rightarrow> pubkey) \<Rightarrow>
     (pubkey \<Rightarrow> string \<Rightarrow> string \<Rightarrow> bool) \<Rightarrow> (string \<Rightarrow> string) \<Rightarrow> 'k \<Rightarrow> KeyRef \<Rightarrow> ('s, bool list \<times> 'k) state" where
  "keystoretest_Sequential Exists Generate Get Sign Public VerifyASN1 Sum256 ks pre = do {
     (ok1, ks1) \<leftarrow> testExists Exists Generate ks (pre @ ''-exists'');
     (ok2, ks2) \<leftarrow> testGenerateGetRoundTrip Generate Get Public ks1 (pre @ ''-roundtrip'');
     (ok3, ks3) \<leftarrow> testGenerateExistingRefErrors Generate ks2 (pre @ ''-noclobber'');
     (ok5, ks5) \<leftarrow> testSignVerifiable Generate Sign Public VerifyASN1 Sum256 ks3 (pre @ ''-sign'');
     ret ([ok1, ok2, ok3, ok5], ks5)
   }"

section \<open>A store that answers\<close>

text \<open>\<open>stock n w\<close>: nothing fails in \<open>w\<close>, and what \<open>n\<close> generations need is there. \<open>usable\<close> are the signers that
  can sign.\<close>

locale answering_key_store = key_store Exists Generate Get present stored ok ref_ok
  for Exists :: "'k \<Rightarrow> KeyRef \<Rightarrow> ('x world_scheme, ks_error + bool) state"
    and Generate :: "'k \<Rightarrow> KeyRef \<Rightarrow> Algorithm \<Rightarrow> ('x world_scheme, (ks_error + 'g) \<times> 'k) state"
    and Get :: "'k \<Rightarrow> KeyRef \<Rightarrow> ('x world_scheme, (ks_error + 'g) \<times> 'k) state"
    and present :: "'k \<Rightarrow> KeyRef \<Rightarrow> bool" and stored :: "'k \<Rightarrow> KeyRef \<Rightarrow> 'g option"
    and ok :: "'k \<Rightarrow> bool" and ref_ok :: "KeyRef \<Rightarrow> bool" +
  fixes Sign :: "'k \<Rightarrow> 'g \<Rightarrow> string \<Rightarrow> ('x world_scheme, (ks_error + string) \<times> 'k) state"
    and Public :: "'g \<Rightarrow> pubkey"
    and VerifyASN1 :: "pubkey \<Rightarrow> string \<Rightarrow> string \<Rightarrow> bool"
    and stock :: "nat \<Rightarrow> 'x world_scheme \<Rightarrow> bool"
    and usable :: "'k \<Rightarrow> 'g \<Rightarrow> bool"
    and live :: "'k \<Rightarrow> bool"
  assumes exists_answers: "live k \<Longrightarrow> ref_ok r \<Longrightarrow> stock n w \<Longrightarrow>
      wp (Exists k r) (\<lambda>a w'. a = Inr (present k r) \<and> stock n w') w"
    and generate_succeeds: "live k \<Longrightarrow> ok k \<Longrightarrow> ref_ok r \<Longrightarrow> \<not> present k r \<Longrightarrow> stock (Suc n) w \<Longrightarrow>
      wp (Generate k r AlgorithmECDSAP256) (\<lambda>(a, k') w'. live k' \<and> stock n w' \<and>
        (\<exists>sg. a = Inr sg \<and> usable k' sg) \<and> (\<forall>r'. ref_ok r' \<longrightarrow> r' \<noteq> r \<longrightarrow> present k' r' = present k r')) w"
    and generate_refuses: "live k \<Longrightarrow> ref_ok r \<Longrightarrow> present k r \<Longrightarrow> stock n w \<Longrightarrow>
      wp (Generate k r alg) (\<lambda>(a, k') w'. a = Inl (KeyAlreadyExists r) \<and> k' = k \<and> stock n w') w"
    and get_succeeds: "live k \<Longrightarrow> ok k \<Longrightarrow> ref_ok r \<Longrightarrow> stored k r = Some sg \<Longrightarrow> stock n w \<Longrightarrow>
      wp (Get k r) (\<lambda>(a, k') w'. live k' \<and> a = Inr sg \<and> stock n w') w"
    and sign_verifies: "live k \<Longrightarrow> usable k sg \<Longrightarrow> stock n w \<Longrightarrow>
      wp (Sign k sg digest) (\<lambda>(a, k') w'. \<exists>sig. a = Inr sig \<and> VerifyASN1 (Public sg) digest sig) w"
    and usable_ecdsa: "usable k sg \<Longrightarrow> is_ecdsa (Public sg)"
begin

text \<open>What a generation under a new reference gives, laws of both contracts together.\<close>

definition generated :: "'k \<Rightarrow> KeyRef \<Rightarrow> nat \<Rightarrow> 'g \<Rightarrow> 'k \<Rightarrow> 'x world_scheme \<Rightarrow> bool" where
  "generated k r n sg k' w' \<longleftrightarrow> live k' \<and> ok k' \<and> stock n w' \<and> usable k' sg \<and> present k' r \<and> stored k' r = Some sg \<and>
     (\<forall>r'. ref_ok r' \<longrightarrow> r' \<noteq> r \<longrightarrow> present k' r' = present k r')"

lemma answered_generate:
  assumes "live k" and "ok k" and "ref_ok r" and "\<not> present k r" and "stock (Suc n) w"
    and "\<And>sg k' w'. generated k r n sg k' w' \<Longrightarrow> Q (Inr sg, k') w'"
  shows "wp (Generate k r AlgorithmECDSAP256) Q w"
  using wp_conj [OF generate_succeeds [OF assms(1-5)] generate_new [OF assms(2,3)]]
  by (rule wp_mono) (auto simp: generated_def intro!: assms(6))

definition passes :: "'k \<Rightarrow> KeyRef \<Rightarrow> nat \<Rightarrow> bool \<times> 'k \<Rightarrow> 'x world_scheme \<Rightarrow> bool" where
  "passes k r n = (\<lambda>(verdict, k') w'. verdict \<and> live k' \<and> ok k' \<and> stock n w' \<and>
     (\<forall>r'. ref_ok r' \<longrightarrow> r' \<noteq> r \<longrightarrow> present k' r' = present k r'))"

lemma pass_Exists:
  assumes "live k" and "ok k" and "ref_ok r" and "\<not> present k r" and "stock (Suc n) w"
  shows "wp (testExists Exists Generate k r) (passes k r n) w"
  unfolding testExists_def wp_bind
proof (rule wp_mono [OF exists_answers [OF assms(1,3,5)]])
  fix a t
  assume a: "a = Inr (present k r) \<and> stock (Suc n) t"
  have "wp (Exists k' r) (\<lambda>a w'. passes k r n (a = Inr True, k') w') w'" if "generated k r n sg k' w'" for sg k' w'
    using that by (intro wp_mono [OF exists_answers [of k' r n]]) (auto simp: generated_def passes_def assms(3))
  with a assms show "wp (if a \<noteq> Inr False then ret (False, k)
      else do {
        (g, ks1) \<leftarrow> Generate k r AlgorithmECDSAP256;
        (case g of Inl _ \<Rightarrow> ret (False, ks1)
         | Inr _ \<Rightarrow> do { e2 \<leftarrow> Exists ks1 r; ret (e2 = Inr True, ks1) })
      }) (passes k r n) t"
    by (auto intro!: answered_generate)
qed

lemma pass_RoundTrip:
  assumes "live k" and "ok k" and "ref_ok r" and "\<not> present k r" and "stock (Suc n) w"
  shows "wp (testGenerateGetRoundTrip Generate Get Public k r) (passes k r n) w"
proof -
  have "wp (Get k' r) (\<lambda>(h, k2). wp (case h of Inl _ \<Rightarrow> ret (False, k2) | Inr got \<Rightarrow> ret (Public sg = Public got, k2))
      (passes k r n)) w'" if g: "generated k r n sg k' w'" for sg k' w'
  proof -
    have k': "live k'" "ok k'" "stored k' r = Some sg" "stock n w'"
      using g by (simp_all add: generated_def)
    show ?thesis
      by (rule wp_mono [OF wp_conj [OF get_succeeds [OF k'(1,2) assms(3) k'(3,4)] get_tells [OF k'(2)]]])
        (use g in \<open>auto simp: generated_def passes_def\<close>)
  qed
  with assms show ?thesis
    unfolding testGenerateGetRoundTrip_def by (auto simp: case_prod_unfold intro!: answered_generate)
qed

lemma pass_ExistingRefErrors:
  assumes "live k" and "ok k" and "ref_ok r" and "\<not> present k r" and "stock (Suc n) w"
  shows "wp (testGenerateExistingRefErrors Generate k r) (passes k r n) w"
proof -
  have "wp (Generate k' r AlgorithmECDSAP256) (\<lambda>(h, k2). wp (case h of Inl _ \<Rightarrow> ret (True, k2) | Inr _ \<Rightarrow> ret (False, k2))
      (passes k r n)) w'" if g: "generated k r n sg k' w'" for sg k' w'
    using g assms(3) by (intro wp_mono [OF generate_refuses [of k' r n]]) (auto simp: generated_def passes_def)
  with assms show ?thesis
    unfolding testGenerateExistingRefErrors_def by (auto simp: case_prod_unfold intro!: answered_generate)
qed

lemma pass_SignVerifiable:
  assumes "live k" and "ok k" and "ref_ok r" and "\<not> present k r" and "stock (Suc n) w"
  shows "wp (testSignVerifiable Generate Sign Public VerifyASN1 Sum256 k r) (\<lambda>(verdict, k') w'. verdict) w"
proof -
  have "wp (Sign k' sg d) (\<lambda>(s, k2). wp (case s of Inl _ \<Rightarrow> ret (False, k2)
      | Inr sig \<Rightarrow> (if \<not> is_ecdsa (Public sg) then ret (False, k2) else ret (VerifyASN1 (Public sg) d sig, k2)))
      (\<lambda>(verdict, k') w'. verdict)) w'" if g: "generated k r n sg k' w'" for sg k' w' d
    using g by (intro wp_mono [OF sign_verifies [of k' sg n]]) (auto simp: generated_def usable_ecdsa)
  with assms show ?thesis
    unfolding testSignVerifiable_def by (auto simp: case_prod_unfold Let_def intro!: answered_generate)
qed

text \<open>The references of the five tests, and that none of a list of them is in use.\<close>

definition unused :: "'k \<Rightarrow> KeyRef list \<Rightarrow> bool" where
  "unused k rs \<longleftrightarrow> distinct rs \<and> (\<forall>r\<in>set rs. ref_ok r \<and> \<not> present k r)"

definition ready_for :: "KeyRef list \<Rightarrow> 'k \<Rightarrow> nat \<Rightarrow> 'x world_scheme \<Rightarrow> bool" where
  "ready_for rs k n w \<longleftrightarrow> live k \<and> ok k \<and> stock n w \<and> unused k rs"

lemma test_step:
  assumes "ready_for (r # rs) k m w"
    and "live k \<Longrightarrow> ok k \<Longrightarrow> ref_ok r \<Longrightarrow> \<not> present k r \<Longrightarrow> stock m w \<Longrightarrow> wp test (passes k r n) w"
    and "\<And>k' w'. ready_for rs k' n w' \<Longrightarrow> Q (True, k') w'"
  shows "wp test Q w"
proof -
  have "wp test (passes k r n) w"
    using assms(1) by (intro assms(2)) (auto simp: ready_for_def unused_def)
  moreover have "ready_for rs k' n w'" if "passes k r n (verdict, k') w'" for verdict k' w'
    using that assms(1) unfolding passes_def ready_for_def unused_def by simp metis
  ultimately show ?thesis
    by (auto simp: passes_def intro!: assms(3) elim!: wp_mono)
qed

lemma test_steps:
  assumes "ready_for (r # rs) k (Suc n) w" and "\<And>k' w'. ready_for rs k' n w' \<Longrightarrow> Q (True, k') w'"
  shows "wp (testExists Exists Generate k r) Q w"
    and "wp (testGenerateGetRoundTrip Generate Get Public k r) Q w"
    and "wp (testGenerateExistingRefErrors Generate k r) Q w"
  using assms by (blast intro: test_step pass_Exists pass_RoundTrip pass_ExistingRefErrors)+

lemma sign_step:
  assumes "ready_for [r] k (Suc n) w" and "\<And>k' w'. Q (True, k') w'"
  shows "wp (testSignVerifiable Generate Sign Public VerifyASN1 Sum256 k r) Q w"
  using assms(1) by (intro wp_mono [OF pass_SignVerifiable [of k r n]]) (auto simp: ready_for_def unused_def intro: assms(2))

lemma sequential_passes:
  assumes "ready_for [pre @ ''-exists'', pre @ ''-roundtrip'', pre @ ''-noclobber'', pre @ ''-sign'']
     k (Suc (Suc (Suc (Suc n)))) w"
  shows "wp (keystoretest_Sequential Exists Generate Get Sign Public VerifyASN1 Sum256 k pre)
     (\<lambda>(oks, k') w'. oks = replicate 4 True) w"
  unfolding keystoretest_Sequential_def wp_bind
  by (rule test_steps(1) [OF assms], simp, erule test_steps(2), simp, erule test_steps(3), simp, erule sign_step)
    (simp add: eval_nat_numeral)

end

section \<open>The file store\<close>

text \<open>A key that is in memory signs by the library's \<open>crypto/ecdsa\<close>, the parameter \<open>sign\<close>.\<close>

definition FileKeyStore_Sign ::
    "(signer \<Rightarrow> string \<Rightarrow> string option) \<Rightarrow> FileKeyStore \<Rightarrow> signer \<Rightarrow> string \<Rightarrow>
     ('x world_scheme, (ks_error + string) \<times> FileKeyStore) state" where
  "FileKeyStore_Sign sign ks sg digest =
     ret (case sign sg digest of None \<Rightarrow> Inl EntropyFailed | Some s \<Rightarrow> Inr s, ks)"

definition signs :: "(signer \<Rightarrow> string \<Rightarrow> string option) \<Rightarrow> (pubkey \<Rightarrow> string \<Rightarrow> string \<Rightarrow> bool) \<Rightarrow> signer \<Rightarrow> bool" where
  "signs sign verify sg \<longleftrightarrow> is_ecdsa (sg_Public sg) \<and>
     (\<forall>digest. \<exists>s. sign sg digest = Some s \<and> verify (sg_Public sg) digest s)"

text \<open>What is relied on of \<open>crypto/ecdsa\<close>: from a seed comes a key that can be marshalled and signs.\<close>

definition ecdsa_works ::
    "ks_prims \<Rightarrow> (signer \<Rightarrow> string \<Rightarrow> string option) \<Rightarrow> (pubkey \<Rightarrow> string \<Rightarrow> string \<Rightarrow> bool) \<Rightarrow> bool" where
  "ecdsa_works P sign verify \<longleftrightarrow> (\<forall>seed. \<exists>sg der. GenerateKey P AlgorithmECDSAP256 seed = Some sg \<and>
     MarshalPKCS8PrivateKey P sg = Some der \<and> signs sign verify sg)"

text \<open>A generation draws three times: the seed of the key, the salt and the nonce of its envelope.\<close>

definition entropy :: "nat \<Rightarrow> 'x world_scheme \<Rightarrow> bool" where
  "entropy n w \<longleftrightarrow> faults w = [] \<and> (\<exists>xs rs. rand_tape w = map Some xs @ rs \<and> length xs = 3 * n)"

lemma io_calm: "faults w = [] \<Longrightarrow> run_state io w = (Runs, w)"
  by (simp add: io_def next_fault_def drop_fault_def faults_eta)

lemma entropy_Suc:
  assumes "entropy (Suc n) w"
  obtains a b c rs where "rand_tape w = Some a # Some b # Some c # rs"
    and "\<forall>t ts. entropy n (w\<lparr>rand_tape := rs, clock := t, clock_tape := ts\<rparr>)" and "faults w = []"
proof -
  obtain xs rs where xs: "rand_tape w = map Some xs @ rs" "length xs = 3 * Suc n" "faults w = []"
    using assms by (auto simp: entropy_def)
  then obtain a b c ys where "xs = a # b # c # ys" "length ys = 3 * n"
    by (auto simp: length_Suc_conv eval_nat_numeral)
  with xs show thesis
    by (intro that [of a b c "map Some ys @ rs"]) (auto simp: entropy_def)
qed

lemma file_generates:
  assumes "ecdsa_works P sign verify" and "\<not> fks_present k r" and "entropy (Suc n) w"
  shows "wp (FileKeyStore_Generate P k r AlgorithmECDSAP256) (\<lambda>(a, k') w'. entropy n w' \<and>
     (\<exists>sg. a = Inr sg \<and> signs sign verify sg) \<and> (\<forall>r'. r' \<noteq> r \<longrightarrow> fks_present k' r' = fks_present k r')) w"
proof -
  obtain a b c rs where tape: "rand_tape w = Some a # Some b # Some c # rs"
    and rest: "\<forall>t ts. entropy n (w\<lparr>rand_tape := rs, clock := t, clock_tape := ts\<rparr>)" and calm: "faults w = []"
    using assms(3) by (rule entropy_Suc)
  have rand: "run_state (rand_Read m) v = (Some (fill m x), v\<lparr>rand_tape := xs\<rparr>)"
    if "rand_tape v = Some x # xs" for m x xs and v :: "'a world_scheme"
    using that by (simp add: rand_Read_def)
  obtain sg der where sg: "GenerateKey P AlgorithmECDSAP256 (fill 32 a) = Some sg"
      "MarshalPKCS8PrivateKey P sg = Some der" "signs sign verify sg"
    using assms(1) unfolding ecdsa_works_def by blast
  obtain t ts where t: "run_state time_Now (w\<lparr>rand_tape := rs\<rparr>) =
      (t, w\<lparr>rand_tape := rs, clock := t, clock_tape := ts\<rparr>)"
    using run_time_Now [of "w\<lparr>rand_tape := rs\<rparr>"] by metis
  have absent: "map_of (fk_disk k) (path k r) = None"
    using assms(2) by (simp add: fks_present_def)
  show ?thesis
    using rest sg
    by (simp add: wp_def FileKeyStore_Generate_def FileKeyStore_Exists_def generateKey_def writeKeyFileAtomic_def
        io_calm calm tape absent rand t Let_def State_Monad.return_def fks_present_def map_of_filter_key)
qed

interpretation fks_answers: answering_key_store FileKeyStore_Exists "FileKeyStore_Generate P" "FileKeyStore_Get P"
  fks_present "fks_stored P" "fks_ok P" "\<lambda>_. True" "FileKeyStore_Sign sign" sg_Public verify entropy
  "\<lambda>_. signs sign verify" "\<lambda>_. ecdsa_works P sign verify" for P sign verify
proof unfold_locales
  fix k r n sg digest alg and w :: "'a world_scheme"
  assume w: "entropy n w"
  then have calm: "faults w = []"
    by (simp add: entropy_def)
  show "wp (FileKeyStore_Exists k r) (\<lambda>a w'. a = Inr (fks_present k r) \<and> entropy n w') w"
    using w calm by (simp add: wp_def FileKeyStore_Exists_def io_calm fks_present_def State_Monad.return_def)
  show "wp (FileKeyStore_Generate P k r alg) (\<lambda>(a, k') w'. a = Inl (KeyAlreadyExists r) \<and> k' = k \<and> entropy n w') w"
    if "fks_present k r"
    using w calm that
    by (simp add: wp_def FileKeyStore_Generate_def FileKeyStore_Exists_def io_calm fks_present_def State_Monad.return_def)
  show "wp (FileKeyStore_Get P k r) (\<lambda>(a, k') w'. ecdsa_works P sign verify \<and> a = Inr sg \<and> entropy n w') w"
    if "ecdsa_works P sign verify" "fks_ok P k" "fks_stored P k r = Some sg"
    using w calm that fks_cached_stored [OF that(2), of r]
    by (auto simp: wp_def FileKeyStore_Get_def io_calm fks_stored_def State_Monad.return_def split: option.splits sum.splits)
  show "wp (FileKeyStore_Sign sign k sg digest) (\<lambda>(a, k') w'. \<exists>sig. a = Inr sig \<and> verify (sg_Public sg) digest sig) w"
    if "signs sign verify sg"
    using that by (auto simp: FileKeyStore_Sign_def signs_def split: option.splits) (metis option.distinct(1) option.inject)
next
  fix k r n and w :: "'a world_scheme"
  assume "ecdsa_works P sign verify" "\<not> fks_present k r" "entropy (Suc n) w"
  from file_generates [OF this]
  show "wp (FileKeyStore_Generate P k r AlgorithmECDSAP256) (\<lambda>(a, k') w'. ecdsa_works P sign verify \<and> entropy n w' \<and>
     (\<exists>sg. a = Inr sg \<and> signs sign verify sg) \<and> (\<forall>r'. True \<longrightarrow> r' \<noteq> r \<longrightarrow> fks_present k' r' = fks_present k r')) w"
    by (rule wp_mono) (use \<open>ecdsa_works P sign verify\<close> in auto)
qed (auto simp: signs_def)

section \<open>Vault\<close>

text \<open>What is relied on of a Vault server that works: every key path can be requested; a key is read (200) or is not
  there (404); creating one that is not there succeeds, makes an ECDSA key that can be read, and leaves what is read
  of other names; signing under the name of such a key gives a signature in Vault's form that verifies.\<close>

definition transit_signs :: "'v vault_prims \<Rightarrow> (pubkey \<Rightarrow> string \<Rightarrow> string \<Rightarrow> bool) \<Rightarrow> 'v VaultKeyStore \<Rightarrow> vaultSigner \<Rightarrow> bool" where
  "transit_signs V verify k sg \<longleftrightarrow> is_ecdsa (vs_public sg) \<and> v_URLOk V (vault_url k (''sign/'' @ vs_ref sg)) \<and>
     (\<forall>digest. \<exists>body server version signature.
        v_POST V (vk_server k) (vault_url k (''sign/'' @ vs_ref sg)) (vk_token k) (sign_body sg digest) = ((200, body), server) \<and>
        v_Unmarshal_signature V body = Some (''vault:v'' @ version @ '':'' @ std64_EncodeToString signature) \<and>
        CHR '':'' \<notin> set version \<and> verify (vs_public sg) digest signature)"

definition transit_reads :: "'v vault_prims \<Rightarrow> 'v VaultKeyStore \<Rightarrow> bool" where
  "transit_reads V k \<longleftrightarrow> (\<forall>r. vault_ref r \<longrightarrow> v_URLOk V (vault_url k (keys_path r)) \<and>
     fst (vault_read V k r) \<in> {200, 404})"

definition transit_creates ::
    "'v vault_prims \<Rightarrow> (pubkey \<Rightarrow> string \<Rightarrow> string \<Rightarrow> bool) \<Rightarrow> 'v VaultKeyStore \<Rightarrow> bool" where
  "transit_creates V verify k \<longleftrightarrow> (\<forall>server r. vault_ref r \<longrightarrow>
     fst (v_GET V server (vault_url k (keys_path r)) (vk_token k)) = 404 \<longrightarrow>
     (\<exists>st body server' sg. v_POST V server (vault_url k (keys_path r)) (vk_token k)
          (json_object [(''type'', ''ecdsa-p256'')]) = ((st, body), server') \<and> st \<in> {200, 204} \<and>
        read_key V r (v_GET V server' (vault_url k (keys_path r)) (vk_token k)) = Inr sg \<and>
        transit_signs V verify (k\<lparr>vk_server := server'\<rparr>) sg \<and>
        (\<forall>r'. vault_ref r' \<longrightarrow> r' \<noteq> r \<longrightarrow> v_GET V server' (vault_url k (keys_path r')) (vk_token k) =
           v_GET V server (vault_url k (keys_path r')) (vk_token k))))"

definition transit_works :: "'v vault_prims \<Rightarrow> (pubkey \<Rightarrow> string \<Rightarrow> string \<Rightarrow> bool) \<Rightarrow> 'v VaultKeyStore \<Rightarrow> bool" where
  "transit_works V verify k \<longleftrightarrow> transit_reads V k \<and> transit_creates V verify k"

lemma get_calm:
  "faults w = [] \<Longrightarrow> transit_reads V k \<Longrightarrow> vault_ref r \<Longrightarrow>
    run_state (do_GET V k (keys_path r)) w = (Inr (vault_read V k r), w)"
  by (simp add: do_GET_def transit_reads_def vault_read_def io_calm State_Monad.return_def)

lemma exists_calm:
  assumes "faults w = []" and "transit_reads V k" and "vault_ref r"
  shows "run_state (VaultKeyStore_Exists V k r) w = (Inr (vault_present V k r), w)"
proof -
  have "fst (vault_read V k r) = 200 \<or> fst (vault_read V k r) = 404"
    using assms(2,3) by (auto simp: transit_reads_def)
  then show ?thesis
    using get_calm [OF assms]
    by (cases "vault_read V k r") (auto simp: VaultKeyStore_Exists_def vault_present_def State_Monad.return_def)
qed

lemma vault_generates:
  assumes "transit_works V verify k" and "vault_ref r" and "\<not> vault_present V k r" and "faults w = []"
  obtains sg server where "run_state (VaultKeyStore_Generate V k r AlgorithmECDSAP256) w = ((Inr sg, k\<lparr>vk_server := server\<rparr>), w)"
    and "transit_works V verify (k\<lparr>vk_server := server\<rparr>)" and "transit_signs V verify (k\<lparr>vk_server := server\<rparr>) sg"
    and "\<And>r'. vault_ref r' \<Longrightarrow> r' \<noteq> r \<Longrightarrow> vault_present V (k\<lparr>vk_server := server\<rparr>) r' = vault_present V k r'"
proof -
  have reads: "transit_reads V k" and creates: "transit_creates V verify k"
    using assms(1) by (simp_all add: transit_works_def)
  have "fst (vault_read V k r) = 404"
    using reads assms(2,3) by (auto simp: transit_reads_def vault_present_def)
  then obtain st body server sg where
    post: "v_POST V (vk_server k) (vault_url k (keys_path r)) (vk_token k) (json_object [(''type'', ''ecdsa-p256'')]) =
      ((st, body), server)" "st = 200 \<or> st = 204"
    and read: "read_key V r (vault_read V (k\<lparr>vk_server := server\<rparr>) r) = Inr sg"
    and sig: "transit_signs V verify (k\<lparr>vk_server := server\<rparr>) sg"
    and other: "\<And>r'. vault_ref r' \<Longrightarrow> r' \<noteq> r \<Longrightarrow> vault_read V (k\<lparr>vk_server := server\<rparr>) r' = vault_read V k r'"
    using creates [unfolded transit_creates_def, rule_format, OF assms(2), of "vk_server k"]
    by (auto simp: vault_read_def)
  have "fst (vault_read V (k\<lparr>vk_server := server\<rparr>) r) = 200"
    using read_key_found(1) [OF read] by (simp add: vault_present_def)
  then have reads': "transit_reads V (k\<lparr>vk_server := server\<rparr>)"
    using reads other unfolding transit_reads_def by (metis insertCI vault_url_server)
  moreover have "transit_creates V verify (k\<lparr>vk_server := server\<rparr>)"
    using creates by (simp add: transit_creates_def)
  ultimately have "transit_works V verify (k\<lparr>vk_server := server\<rparr>)"
    by (simp add: transit_works_def)
  moreover have "v_URLOk V (vault_url k (keys_path r))"
    using reads assms(2) by (simp add: transit_reads_def)
  then have "run_state (VaultKeyStore_Generate V k r AlgorithmECDSAP256) w = ((Inr sg, k\<lparr>vk_server := server\<rparr>), w)"
    using post exists_calm [OF assms(4) reads assms(2)] get_calm [OF assms(4) reads' assms(2)] assms(3,4) read
    by (auto simp: VaultKeyStore_Generate_def VaultKeyStore_Get_def do_POST_def vaultKeyType_def io_calm State_Monad.return_def)
  ultimately show thesis
    using sig other by (intro that) (auto simp: vault_present_def)
qed


interpretation vks_answers: answering_key_store "VaultKeyStore_Exists V" "VaultKeyStore_Generate V" "VaultKeyStore_Get V"
  "vault_present V" "vault_stored V" "transit_keeps V" vault_ref "vaultSigner_Sign V" vs_public verify
  "\<lambda>_ w. faults w = []" "transit_signs V verify" "transit_works V verify" for V :: "'v vault_prims" and verify
proof unfold_locales
  fix k :: "'v VaultKeyStore" and r alg sg digest and w :: "'a world_scheme"
  assume w: "faults w = []"
  show "wp (VaultKeyStore_Exists V k r) (\<lambda>a w'. a = Inr (vault_present V k r) \<and> faults w' = []) w"
    if "transit_works V verify k" "vault_ref r"
    using that w by (simp add: wp_def exists_calm transit_works_def)
  show "wp (VaultKeyStore_Generate V k r AlgorithmECDSAP256) (\<lambda>(a, k') w'. transit_works V verify k' \<and> faults w' = [] \<and>
      (\<exists>sg. a = Inr sg \<and> transit_signs V verify k' sg) \<and>
      (\<forall>r'. vault_ref r' \<longrightarrow> r' \<noteq> r \<longrightarrow> vault_present V k' r' = vault_present V k r')) w"
    if g: "transit_works V verify k" "vault_ref r" "\<not> vault_present V k r"
  proof (rule vault_generates [OF g w])
    fix sg server
    assume "run_state (VaultKeyStore_Generate V k r AlgorithmECDSAP256) w = ((Inr sg, k\<lparr>vk_server := server\<rparr>), w)"
      "transit_works V verify (k\<lparr>vk_server := server\<rparr>)" "transit_signs V verify (k\<lparr>vk_server := server\<rparr>) sg"
      "\<And>r'. vault_ref r' \<Longrightarrow> r' \<noteq> r \<Longrightarrow> vault_present V (k\<lparr>vk_server := server\<rparr>) r' = vault_present V k r'"
    then show ?thesis
      using w by (simp add: wp_def)
  qed
  show "wp (VaultKeyStore_Generate V k r alg) (\<lambda>(a, k') w'. a = Inl (KeyAlreadyExists r) \<and> k' = k \<and> faults w' = []) w"
    if "transit_works V verify k" "vault_ref r" "vault_present V k r"
    using that w by (simp add: wp_def VaultKeyStore_Generate_def exists_calm transit_works_def State_Monad.return_def)
  show "wp (VaultKeyStore_Get V k r) (\<lambda>(a, k') w'. transit_works V verify k' \<and> a = Inr sg \<and> faults w' = []) w"
    if "transit_works V verify k" "vault_ref r" "vault_stored V k r = Some sg"
    using that w
    by (simp add: wp_def VaultKeyStore_Get_def get_calm transit_works_def vault_stored_def State_Monad.return_def split: sum.splits)
  show "wp (vaultSigner_Sign V k sg digest) (\<lambda>(a, k') w'. \<exists>sig. a = Inr sig \<and> verify (vs_public sg) digest sig) w"
    if s: "transit_signs V verify k sg"
  proof -
    obtain body server version signature where
      "v_POST V (vk_server k) (vault_url k (''sign/'' @ vs_ref sg)) (vk_token k) (sign_body sg digest) = ((200, body), server)"
      "v_Unmarshal_signature V body = Some (''vault:v'' @ version @ '':'' @ std64_EncodeToString signature)"
      "CHR '':'' \<notin> set version" "verify (vs_public sg) digest signature"
      using s unfolding transit_signs_def by blast
    then show ?thesis
      using vault_sign_decodes [OF w, of V k sg digest body server version signature] s
      by (simp add: wp_def transit_signs_def)
  qed
qed (auto simp: transit_signs_def)

section \<open>What the stores pass\<close>

definition suite_refs :: "KeyRef \<Rightarrow> KeyRef list" where
  "suite_refs pre = map (\<lambda>s. pre @ s) [''-exists'', ''-roundtrip'', ''-noclobber'', ''-concurrent'', ''-sign'']"

lemma vault_store_conforms:
  assumes "transit_keeps V ks" and "transit_works V verify ks" and "faults w = []" and "vault_ref pre"
    and "\<forall>r\<in>set (suite_refs pre). \<not> vault_present V ks r"
  shows "fst (fst (run_state (keystoretest_Sequential (VaultKeyStore_Exists V) (VaultKeyStore_Generate V) (VaultKeyStore_Get V)
     (vaultSigner_Sign V) vs_public verify Sum256 ks pre) w)) = replicate 4 True"
proof -
  have "vks_answers.ready_for V verify [pre @ ''-exists'', pre @ ''-roundtrip'', pre @ ''-noclobber'', pre @ ''-sign''] ks
      (Suc (Suc (Suc (Suc 0)))) w"
    unfolding vks_answers.ready_for_def vks_answers.unused_def
    using assms by (simp add: suite_refs_def vault_ref_def)
  then show ?thesis
    using vks_answers.sequential_passes [of V verify pre ks 0 w Sum256]
    by (simp add: wp_iff case_prod_unfold)
qed

section \<open>A sample of each\<close>

definition ecdsa1 :: ks_prims where
  "ecdsa1 = \<lparr>GenerateKey = (\<lambda>_ seed. Some \<lparr>sg_Public = P256 1 2, sg_secret = seed\<rparr>),
     MarshalPKCS8PrivateKey = (\<lambda>sg. if sg_Public sg = P256 1 2 then Some (sg_secret sg) else None),
     ParsePKCS8PrivateKey = (\<lambda>der. Some (Some \<lparr>sg_Public = P256 1 2, sg_secret = der\<rparr>)),
     gcm_Seal = (\<lambda>p salt nonce m. m), gcm_Open = (\<lambda>p salt nonce m. Some m)\<rparr>"

definition file_store1 :: FileKeyStore where
  "file_store1 = \<lparr>fk_dir = ''keys'', fk_passphrase = ''pw'', fk_disk = [], fk_cached = []\<rparr>"

text \<open>A server that keeps the body of the first request to create a key, and answers a request to sign with the
  request.\<close>

definition vault3 :: "(string \<times> string) list vault_prims" where
  "vault3 = vault1\<lparr>v_POST := (\<lambda>server u tok body. if take 30 u = ''https://vault/v1/transit/keys/''
     then v_POST vault1 server u tok body
     else ((200, ''vault:v'' @ ''1'' @ '':'' @ std64_EncodeToString body), server))\<rparr>"

definition echoes :: "pubkey \<Rightarrow> string \<Rightarrow> string \<Rightarrow> bool" where
  "echoes pub digest sig \<longleftrightarrow>
     sig = sign_body \<lparr>vs_ref = [], vs_public = pub, vs_sigAlg = [], vs_hash = SHA256\<rparr> digest"

lemma vault3_works: "transit_keeps vault3 vault_store1" "transit_works vault3 echoes vault_store1"
proof -
  have url: "take 30 (vault_url vault_store1 (keys_path r)) = ''https://vault/v1/transit/keys/''"
    "take 30 (vault_url vault_store1 (''sign/'' @ r)) \<noteq> ''https://vault/v1/transit/keys/''" for r
    by (simp_all add: vault_url_def keys_path_def vault_store1_def)
  have same: "vault_url vault_store1 (keys_path r) = vault_url vault_store1 (keys_path r') \<longleftrightarrow> r = r'" for r r'
    by (simp add: vault_url_def keys_path_def)
  have v: "Int_String 1 = ''1''"
    by code_simp
  show "transit_keeps vault3 vault_store1"
    by (auto simp: transit_keeps_def url vault3_def vault1_def split: option.splits)
  have read: "read_key vault3 r (200, json_object [(''type'', ''ecdsa-p256'')]) =
      Inr \<lparr>vs_ref = r, vs_public = P256 1 2, vs_sigAlg = [], vs_hash = SHA256\<rparr>" for r
    by (simp add: read_key_def vault3_def vault1_def v vaultSignatureParams_def json_object_def)
  have "transit_signs vault3 echoes (vault_store1\<lparr>vk_server := server\<rparr>)
      \<lparr>vs_ref = r, vs_public = P256 1 2, vs_sigAlg = [], vs_hash = SHA256\<rparr>" for server r
    by (auto simp: transit_signs_def is_ecdsa_def url(2) [simplified] vault3_def vault1_def echoes_def sign_body_def
        intro!: exI [of _ "''1''"])
  moreover have "v_GET vault3 server u tok = (case map_of server u of None \<Rightarrow> (404, []) | Some b \<Rightarrow> (200, b))"
    "v_URLOk vault3 u"
    "take 30 u = ''https://vault/v1/transit/keys/'' \<Longrightarrow> v_POST vault3 server u tok body =
       ((204, []), if map_of server u = None then (u, body) # server else server)" for server u tok body
    by (simp_all add: vault3_def vault1_def)
  ultimately show "transit_works vault3 echoes vault_store1"
    unfolding transit_works_def transit_reads_def transit_creates_def vault_read_def
    by (auto simp: url same read split: option.splits)
qed

end
