(* ===== verification/Service.thy ===== *)
theory Service
  imports Lifecycle Operations Key_Conformance
begin

text \<open>
  The service as a whole answers: with a datastore that answers and libraries that do their work, a manager's
  request to issue or to revoke succeeds, the search for a fresh key reference ends within its five
  attempts, and the tables satisfy the constraints of the schema from the first run on. These
  are the counterparts of the safety properties: nothing here is conditional on a success.
\<close>

section \<open>Well-formed tables\<close>

lemma keeps_bootstrap_steps [keeps]:
  "state_io_rel ledger_le (persist_profiles b B ps)" "state_io_rel ledger_le (append_all b es)"
  "state_io_rel ledger_le (write_files fs dir)" "state_io_rel ledger_le (boot_entry c detail)"
  "state_io_rel ledger_le (recorded_issuer b B what issued kind profileName issuerSerial keyRef sg)"
proof -
  show "state_io_rel ledger_le (persist_profiles b B ps)"
    by (induction b B ps rule: persist_profiles.induct) (auto intro!: keeps)
  show "state_io_rel ledger_le (append_all b es)"
    by (induction b es rule: append_all.induct) (auto intro!: keeps)
  show "state_io_rel ledger_le (write_files fs dir)"
    by (induction fs dir rule: write_files.induct) (auto simp: Let_def intro!: keeps)
qed (auto simp: boot_entry_def recorded_issuer_def createCertRecord_def intro!: keeps)

lemma keeps_Bootstrap_Run:
  assumes "\<And>k r alg. state_io_rel ledger_le (gen k r alg)"
  shows "state_io_rel ledger_le (Bootstrap_Run b B gen cfg ks dir)"
  unfolding Bootstrap_Run_def persistDefaultProfiles_def generateRoot_def generateIntermediate_def generateAdminLeaf_def
    generateServerTLSLeaf_def generateTSALeaf_def finish_run_def writeBootstrapOutput_def
  by (auto simp: Let_def intro!: keeps assms split: prod.splits)

text \<open>The tables are well-formed at all times. Whatever the first run did to tables that satisfy the constraints
  of the schema (empty ones, say), and whatever requests the service then answers, with any pattern of failures:
  primary keys are unique, kinds and roles are among the declared ones, and every reference
  (issuer, role, token, account) has its target.\<close>

lemma tables_well_formed:
  fixes w :: sys
  assumes "schema w" and "run_state (Bootstrap_Run b B (FileKeyStore_Generate P) cfg ks dir) w = (r, w1)"
    and "tables s = tables w1" and "run_state (serve_all deps rs) s = (resps, s')"
  shows "certificates_ok s' \<and> roles_ok s' \<and> profiles_ok s' \<and> acme_ok s'"
proof -
  have "ledger_le w w1"
    using state_io_relD [OF keeps_Bootstrap_Run [OF keeps_FileKeyStore_Generate] assms(2)] .
  moreover have "ledger_le w1 s"
    using assms(3) by (rule tables_ledger_le)
  moreover have "ledger_le s s'"
    using state_io_relD [OF keeps_serve_all assms(4)] .
  ultimately show ?thesis
    using assms(1) by (simp add: ledger_le_def schema_def)
qed

section \<open>A manager's requests succeed\<close>

lemma authorized_passes:
  "faults s = [] \<Longrightarrow> authorized least r s \<Longrightarrow> run_state (requireRole deps least h r) s = run_state (h r) s"
  by (auto simp: requireRole_def authorized_def run_reads scan_row_def Let_def)

lemma serve_issue:
  assumes "q_Method r = ''POST''" and "q_Path r = ''/v1/certificates''"
  shows "serve deps r = requireRole deps RoleManager (handleIssueCertificate deps) (r\<lparr>q_PathValue := []\<rparr>)"
  using assms
  by (simp add: serve_def Let_def NewRouter_def route_defs route_def path_value_def wildcard_def method_ok_def)

lemma serve_revoke:
  assumes "q_Method r = ''POST''" and "Split (CHR ''/'') (q_Path r) = [[], ''v1'', ''certificates'', serial, ''revoke'']"
    and "serial \<noteq> []"
  shows "serve deps r = requireRole deps RoleManager (handleRevokeCertificate deps) (r\<lparr>q_PathValue := serial\<rparr>)"
  using assms
  by (simp add: serve_def Let_def NewRouter_def route_defs route_def path_value_def wildcard_def method_ok_def)

definition drawn_serial :: "string \<Rightarrow> int" where
  "drawn_serial x = int (SetBytes (clear_top_bit (fill serialBytes x)))"

text \<open>What is relied on of the X.509 library for the request at hand: the public key can be marshalled, and the
  certificate that the profile asks for is signed and can be read back.\<close>

definition x509_signs ::
    "pki_prims \<Rightarrow> Profile \<Rightarrow> Name \<Rightarrow> pubkey \<Rightarrow> Issuer \<Rightarrow> time \<Rightarrow> string list \<Rightarrow> int \<Rightarrow> bool" where
  "x509_signs P p sub pub iss now dns serial \<longleftrightarrow> (\<exists>ski tmpl der c. subjectKeyID P pub = Inr ski \<and>
     template (leaf_request p sub pub now (now + p_Validity p) dns) serial = Inr tmpl \<and>
     CreateCertificate P (tmpl\<lparr>x_SubjectKeyId := ski, x_AuthorityKeyId := x_SubjectKeyId (i_Cert iss)\<rparr>)
       (i_Cert iss) pub (i_Signer iss) = Some der \<and> ParseCertificate P der = Some c)"

lemma IssueLeaf_runs:
  assumes "rand_tape w = Some x # xs" and "x509_faithful P" and "x509_signs P p sub pub iss now dns (drawn_serial x)"
  obtains cert where "run_state (IssueLeaf P p sub pub iss now (now + p_Validity p) dns) w = (Inr cert, w\<lparr>rand_tape := xs\<rparr>)"
    and "SerialNumber cert = drawn_serial x"
proof -
  obtain ski tmpl der c where c: "subjectKeyID P pub = Inr ski"
     "template (leaf_request p sub pub now (now + p_Validity p) dns) (drawn_serial x) = Inr tmpl"
     "CreateCertificate P (tmpl\<lparr>x_SubjectKeyId := ski, x_AuthorityKeyId := x_SubjectKeyId (i_Cert iss)\<rparr>)
       (i_Cert iss) pub (i_Signer iss) = Some der" "ParseCertificate P der = Some c"
    using assms(3) unfolding x509_signs_def by blast
  have "certificate_of (tmpl\<lparr>x_SubjectKeyId := ski, x_AuthorityKeyId := x_SubjectKeyId (i_Cert iss)\<rparr>) (i_Cert iss) pub der
      (p_ExtKeyUsage p) (p_CriticalEKU p) c"
    using assms(2) [unfolded x509_faithful_def, rule_format, OF leaf_template_built [OF c(2)] c(3,4)] .
  moreover have "SerialNumber tmpl = drawn_serial x"
    using c(2) by (rule template_serial)
  ultimately have "SerialNumber c = drawn_serial x"
    by (simp add: certificate_of_def)
  moreover have "run_state (IssueLeaf P p sub pub iss now (now + p_Validity p) dns) w = (Inr c, w\<lparr>rand_tape := xs\<rparr>)"
    using c unfolding drawn_serial_def
    by (simp add: IssueLeaf_def LeafTemplate_def buildTemplate_def GenerateSerial_def rand_Read_def assms(1) sign_template_def
        State_Monad.return_def)
  ultimately show thesis
    using that by blast
qed

text \<open>A request to issue that leaves nothing to object to: it decodes, names a known profile and a CSR that verifies,
  the library signs, and the serial that is drawn next is not in use.\<close>

definition issuable :: "Deps \<Rightarrow> request \<Rightarrow> sys \<Rightarrow> bool" where
  "issuable deps r s \<longleftrightarrow> Query_Get r ''dry_run'' = [] \<and>
     (\<exists>p csrPEM prof csr x xs. dec_issueCertificate (d_json deps) (q_Body r) = Inr \<lparr>ic_Profile = p, ic_CSR = csrPEM\<rparr> \<and>
        p \<noteq> [] \<and> csrPEM \<noteq> [] \<and>
        (case s_Profiles s of Some reg \<Rightarrow> Registry_Lookup reg p | None \<Rightarrow> Lookup p) = Some prof \<and>
        ParseCSR (d_pki deps) csrPEM = Inr csr \<and> rand_tape s = Some x # xs \<and>
        x509_signs (d_pki deps) (WithIssuerURLs prof (d_PublicBaseURL deps) (EnableRevocation (d_ModuleConfig deps)))
          (csr_Subject csr) (csr_PublicKey csr) (d_IntermediateIssuer deps) (fst (run_state time_Now s)) (csr_DNSNames csr)
          (drawn_serial x) \<and>
        Int_String (drawn_serial x) \<notin> Serial ` set (certificates s)) \<and>
     Int_String (SerialNumber (i_Cert (d_IntermediateIssuer deps))) \<in> Serial ` set (certificates s)"

lemma handle_issue_succeeds:
  assumes "faults s = []" and "x509_faithful (d_pki deps)" and "issuable deps r s"
  shows "status (fst (run_state (handleIssueCertificate deps r) s)) = 201"
proof -
  obtain t ts where t: "run_state time_Now s = (t, s\<lparr>clock := t, clock_tape := ts\<rparr>)"
    by (rule run_time_Now)
  define profile where "profile prof = WithIssuerURLs prof (d_PublicBaseURL deps) (EnableRevocation (d_ModuleConfig deps))" for prof
  obtain p csrPEM prof csr x xs where r: "Query_Get r ''dry_run'' = []"
      "dec_issueCertificate (d_json deps) (q_Body r) = Inr \<lparr>ic_Profile = p, ic_CSR = csrPEM\<rparr>"
      "missing_fields \<lparr>ic_Profile = p, ic_CSR = csrPEM\<rparr> = []"
      "(case s_Profiles s of Some reg \<Rightarrow> Registry_Lookup reg p | None \<Rightarrow> Lookup p) = Some prof"
      "ParseCSR (d_pki deps) csrPEM = Inr csr"
    and sig: "x509_signs (d_pki deps) (profile prof) (csr_Subject csr) (csr_PublicKey csr) (d_IntermediateIssuer deps)
      t (csr_DNSNames csr) (drawn_serial x)"
    and serial: "rand_tape s = Some x # xs" "Int_String (drawn_serial x) \<notin> Serial ` set (certificates s)"
    using assms(3) unfolding issuable_def t fst_conv profile_def by (auto simp: missing_fields_def)
  have issuer: "Int_String (SerialNumber (i_Cert (d_IntermediateIssuer deps))) \<in> Serial ` set (certificates s)"
    using assms(3) by (simp add: issuable_def)
  have "rand_tape (s\<lparr>clock := t, clock_tape := ts\<rparr>) = Some x # xs"
    using serial(1) by simp
  from this assms(2) sig
  obtain cert where cert: "run_state (IssueLeaf (d_pki deps) (profile prof) (csr_Subject csr) (csr_PublicKey csr)
      (d_IntermediateIssuer deps) t (t + p_Validity (profile prof)) (csr_DNSNames csr)) (s\<lparr>clock := t, clock_tape := ts\<rparr>) =
      (Inr cert, s\<lparr>clock := t, clock_tape := ts, rand_tape := xs\<rparr>)" "SerialNumber cert = drawn_serial x"
    by (rule IssueLeaf_runs)
  show ?thesis
    using serial(2) issuer
    by (simp add: handleIssueCertificate_def r lookupProfile_def t issueLeafCertificate_def cert run_Certificates_Create
        run_Audit count_issued_def run_meter assms(1) Let_def State_Monad.return_def writeJSON_def flip: profile_def)
qed

text \<open>C6. A manager's valid request to issue is served. With a datastore that answers, a caller whose
  certificate has the role, and a request that leaves nothing to object to, \<open>POST /v1/certificates\<close> is
  answered 201, whatever modules are enabled.\<close>

theorem issuance_served:
  assumes "faults s = []" and "authorized RoleManager r s" and "q_Method r = ''POST''" and "q_Path r = ''/v1/certificates''"
    and "x509_faithful (d_pki deps)" and "issuable deps r s"
  shows "status (fst (run_state (serve deps r) s)) = 201"
proof -
  have "issuable deps (r\<lparr>q_PathValue := []\<rparr>) s"
    using assms(6) by (simp add: issuable_def Query_Get_def)
  then show ?thesis
    using handle_issue_succeeds [OF assms(1,5)] assms(1,2)
    by (simp add: serve_issue [OF assms(3,4)] authorized_passes)
qed

text \<open>C7. A manager's valid request to revoke is served: for a leaf certificate on record that is not yet
  revoked, with a known reason or none, it is answered 200, and the certificate is revoked.\<close>

theorem revocation_served:
  assumes "faults s = []" and "authorized RoleManager r s" and "q_Method r = ''POST''"
    and "Split (CHR ''/'') (q_Path r) = [[], ''v1'', ''certificates'', serial, ''revoke'']" and "serial \<noteq> []"
    and "select_certificate serial s = Some c" and "Kind c = CertKindLeaf" and "RevokedAt c = None"
    and "q_ContentLength r = 0 \<or> (\<exists>reason\<in>set revocationReasons. dec_revokeCertificate (d_json deps) (q_Body r) = Inr reason)"
  shows "status (fst (run_state (serve deps r) s)) = 200 \<and> cert_revoked serial (snd (run_state (serve deps r) s))"
proof -
  obtain t ts where t: "run_state time_Now s = (t, s\<lparr>clock := t, clock_tape := ts\<rparr>)"
    by (rule run_time_Now)
  have c: "Serial c = serial"
    using find_Some_in [OF assms(6) [unfolded select_certificate_def]] by simp
  obtain given where given: "given = [] \<and> q_ContentLength r = 0 \<or>
      q_ContentLength r \<noteq> 0 \<and> dec_revokeCertificate (d_json deps) (q_Body r) = Inr given"
      and reason: "given = [] \<or> given \<in> set revocationReasons"
    using assms(9) by (cases "q_ContentLength r = 0") auto
  have unspecified: "''unspecified'' \<in> set revocationReasons"
    by (simp add: revocationReasons_def)
  have sel: "select_certificate serial (s\<lparr>clock := t, clock_tape := ts\<rparr>) = Some c"
    using assms(6) by (simp add: select_certificate_def)
  show ?thesis
    using given reason assms(6) c
    by (elim disjE conjE; simp add: unspecified serve_revoke [OF assms(3-5)] authorized_passes assms(1,2,7,8) handleRevokeCertificate_def run_reads scan_row_def
        t run_Certificates_Revoke(1) [OF _ sel assms(8)] run_Audit Let_def run_meter State_Monad.return_def writeJSON_def
        cert_revoked_def select_certificate_def revoke_rows_def find_update_where)
qed

section \<open>The search for a fresh reference ends\<close>

definition candidate :: "string \<Rightarrow> string \<Rightarrow> KeyRef" where
  "candidate pre x = pre @ ''-'' @ hex_EncodeToString (fill 4 x)"

definition first_unused :: "FileKeyStore \<Rightarrow> string \<Rightarrow> string list \<Rightarrow> ks_error + KeyRef" where
  "first_unused ks pre xs =
     (case find (\<lambda>r. \<not> fks_present ks r) (map (candidate pre) xs) of None \<Rightarrow> Inl (NoUnusedRef pre) | Some r \<Rightarrow> Inr r)"

lemma fresh_ref_loop_ends:
  assumes "faults w = []" and "rand_tape w = map Some xs @ rs"
  shows "\<exists>n\<le>length xs. run_state (fresh_ref_loop (FileKeyStore_Exists ks) pre (length xs)) w =
     (first_unused ks pre xs, w\<lparr>rand_tape := drop n (rand_tape w)\<rparr>)"
  using assms
proof (induction xs arbitrary: w)
  case Nil
  then show ?case
    by (simp add: first_unused_def State_Monad.return_def)
next
  case (Cons x xs)
  let ?w = "w\<lparr>rand_tape := map Some xs @ rs\<rparr>"
  have step: "run_state (fresh_ref_loop (FileKeyStore_Exists ks) pre (length (x # xs))) w =
      (if fks_present ks (candidate pre x) then run_state (fresh_ref_loop (FileKeyStore_Exists ks) pre (length xs)) ?w
       else (Inr (candidate pre x), ?w))"
    using Cons.prems by (simp add: rand_Read_def FileKeyStore_Exists_def io_calm fks_present_def candidate_def Let_def
        State_Monad.return_def)
  obtain n where n: "n \<le> length xs" "run_state (fresh_ref_loop (FileKeyStore_Exists ks) pre (length xs)) ?w =
      (first_unused ks pre xs, ?w\<lparr>rand_tape := drop n (map Some xs @ rs)\<rparr>)"
    using Cons.IH [of ?w] Cons.prems(1) by auto
  show ?case
  proof (cases "fks_present ks (candidate pre x)")
    case True
    then show ?thesis
      using n Cons.prems(2) unfolding step by (intro exI [of _ "Suc n"]) (simp add: first_unused_def)
  next
    case False
    then show ?thesis
      using Cons.prems(2) unfolding step by (intro exI [of _ "Suc 0"]) (simp add: first_unused_def)
  qed
qed

text \<open>The search for a fresh key reference ends: within five draws from the random source it returns the first
  candidate that is not in use, and after five candidates in use it gives up with an error. The store
  is not touched.\<close>

theorem fresh_ref_ends:
  assumes "faults w = []" and "rand_tape w = map Some xs @ rs" and "length xs = freshRefAttempts"
  shows "\<exists>n\<le>5. run_state (FreshRef (FileKeyStore_Exists ks) pre) w =
     (case find (\<lambda>r. \<not> fks_present ks r) (map (candidate pre) xs) of None \<Rightarrow> Inl (NoUnusedRef pre) | Some r \<Rightarrow> Inr r,
      w\<lparr>rand_tape := drop n (rand_tape w)\<rparr>)"
  using fresh_ref_loop_ends [OF assms(1,2), of ks pre] assms(3)
  by (simp add: FreshRef_def first_unused_def freshRefAttempts_def)

theorem fresh_ref_ends_witness:
  "\<exists>n\<le>5. run_state (FreshRef (FileKeyStore_Exists store0) ''tsa'') (blank (replicate 5 (Some ''A''))) =
     (Inr (candidate ''tsa'' ''A''), (blank (replicate 5 (Some ''A'')))\<lparr>rand_tape := drop n (replicate 5 (Some ''A''))\<rparr>)"
  using fresh_ref_ends [of "blank (replicate 5 (Some ''A''))" "replicate 5 ''A''" "[]" store0 "''tsa''"]
  by (simp add: blank_def freshRefAttempts_def fks_present_def store0_def eval_nat_numeral)

lemma issuable1: "issuable deps1 issue7 sys1"
proof -
  let ?p = "WithIssuerURLs Default ''https://ca'' True"
  obtain t where t: "template (leaf_request ?p (cn ''app'') key1 now1 (now1 + p_Validity ?p) []) serial1 = Inr t"
    by (auto simp: template_def leaf_request_def Default_def no_profile_def WithIssuerURLs_def Let_def)
  then have tmpl: "tmpl1 = t\<lparr>x_SubjectKeyId := ''ski'', x_AuthorityKeyId := ''skiInter''\<rparr>"
    by (simp add: tmpl1_def profile1_def)
  have serial: "SerialNumber cert1 = serial1"
    using template_serial [OF t] by (simp add: cert1_def tmpl)
  have drawn: "drawn_serial ''A'' = serial1"
    by (simp add: drawn_serial_def serial1_def serialBytes_def)
  have "x_SubjectKeyId (i_Cert inter1) = ''skiInter''"
    by (simp add: inter1_def ca_issuer_def ca_cert_def)
  with t have "x509_signs pki1 ?p (cn ''app'') key1 inter1 now1 [] serial1"
    unfolding x509_signs_def by - (rule exI [of _ "''ski''"], rule exI [of _ t], simp add: subjectKeyID_def pki1_def flip: tmpl)
  moreover have "fst (run_state time_Now sys1) = now1"
    by (simp add: time_Now_def sys1_def)
  ultimately show ?thesis
    using fresh_serial1 unfolding issuable_def
    by (simp add: issue7_def Query_Get_def sample_data json1_def default1 csr1 drawn serial inter1_serial)
qed

theorem issuance_served_witness: "status (fst (run_state (serve deps1 issue7) sys1)) = 201"
proof (rule issuance_served [OF _ _ _ _ _ issuable1])
  show "authorized RoleManager issue7 sys1"
    by (simp add: authorized_def issue7_def sample_data running roleSatisfies_def)
  show "x509_faithful (d_pki deps1)"
    using x509_pki1 by (simp add: deps1_def)
qed (simp_all add: issue7_def req1_def sys1_def)

theorem revocation_served_witness:
  "status (fst (run_state (serve deps1 (req1 [7] ''POST'' ''/v1/certificates/8/revoke'')) sys1)) = 200"
proof -
  let ?r = "req1 [7] ''POST'' ''/v1/certificates/8/revoke''"
  have "authorized RoleManager ?r sys1"
    by (simp add: authorized_def sample_data running roleSatisfies_def)
  moreover have "select_certificate ''8'' sys1 = Some (row ''8'' CertKindLeaf ''2'')"
    by (simp add: select_certificate_def sys1_def row_def)
  moreover have "Split (CHR ''/'') (q_Path ?r) = [[], ''v1'', ''certificates'', ''8'', ''revoke'']"
    by (simp add: req1_def)
  ultimately show ?thesis
    using revocation_served [of sys1 ?r "''8''" "row ''8'' CertKindLeaf ''2''" deps1]
    by (simp add: req1_def row_def) (simp add: sys1_def)
qed

end
