(* ===== verification/Authority.thy ===== *)
theory Authority
  imports Access_Control
begin

text \<open>
  The service seen from outside, as a state machine of a few lines: certificates are issued and
  revoked by managers, roles are granted by administrators, and nothing else happens. The router
  with everything behind it refines this machine while the ACME module is off; what holds of the
  machine (a revocation is final, rights are not gained without an administrator) therefore
  holds of the service.
\<close>

section \<open>The machine\<close>

text \<open>The state of a certificate is \<open>None\<close> while it is good, and when and why it was revoked after.\<close>

record authority =
  a_status :: "string \<rightharpoonup> (time \<times> string) option"
  a_roles :: "string \<rightharpoonup> ClientRole"

definition a_may :: "authority \<Rightarrow> string option \<Rightarrow> ClientRole \<Rightarrow> bool" where
  "a_may a caller least \<longleftrightarrow> (case caller of
     None \<Rightarrow> False
   | Some x \<Rightarrow> a_status a x = Some None \<and> (case a_roles a x of None \<Rightarrow> False | Some role \<Rightarrow> roleSatisfies role least))"

inductive a_step :: "bool \<Rightarrow> bool \<Rightarrow> authority \<Rightarrow> authority \<Rightarrow> bool" for manager admin where
  issue: "manager \<Longrightarrow> a_status a x = None \<Longrightarrow>
    a_step manager admin a (a\<lparr>a_status := (a_status a)(x \<mapsto> None)\<rparr>)"
| revoke: "manager \<Longrightarrow> a_status a x = Some None \<Longrightarrow>
    a_step manager admin a (a\<lparr>a_status := (a_status a)(x \<mapsto> Some (at, reason))\<rparr>)"
| grant: "admin \<Longrightarrow> x \<in> dom (a_status a) \<Longrightarrow> role \<in> roles_allowed \<Longrightarrow>
    a_step manager admin a (a\<lparr>a_roles := (a_roles a)(x \<mapsto> role)\<rparr>)"

text \<open>A request is any number of such steps, with the rights its caller had when it came in.\<close>

definition a_request :: "string option \<Rightarrow> authority \<Rightarrow> authority \<Rightarrow> bool" where
  "a_request caller a = (a_step (a_may a caller RoleManager) (a_may a caller RoleAdmin))\<^sup>*\<^sup>* a"

inductive a_trace :: "string option list \<Rightarrow> authority \<Rightarrow> authority \<Rightarrow> bool" where
  a_Nil: "a_trace [] a a"
| a_Cons: "a_request c a b \<Longrightarrow> a_trace cs b d \<Longrightarrow> a_trace (c # cs) a d"

inductive_cases a_trace_ConsE: "a_trace (c # cs) a d"

section \<open>What holds of the machine\<close>

definition a_wf :: "authority \<Rightarrow> bool" where
  "a_wf a \<longleftrightarrow> dom (a_roles a) \<subseteq> dom (a_status a) \<and> ran (a_roles a) \<subseteq> roles_allowed"

definition a_final :: "authority \<Rightarrow> authority \<Rightarrow> bool" where
  "a_final a b \<longleftrightarrow> (\<forall>x c. a_status a x = Some c \<longrightarrow>
     (\<exists>c'. a_status b x = Some c' \<and> (c \<noteq> None \<longrightarrow> c' = c)))"

lemma a_final_trans: "a_final a b \<Longrightarrow> a_final b c \<Longrightarrow> a_final a c"
  unfolding a_final_def by metis

lemma a_step_final: "a_step m adm a b \<Longrightarrow> a_wf a \<Longrightarrow> a_final a b \<and> a_wf b \<and> (\<not> adm \<longrightarrow> a_roles b = a_roles a)"
  by (induction rule: a_step.induct) (auto simp: a_final_def a_wf_def ran_def roles_allowed_def)

lemma a_steps_final:
  "(a_step m adm)\<^sup>*\<^sup>* a b \<Longrightarrow> a_wf a \<Longrightarrow> a_final a b \<and> a_wf b \<and> (\<not> adm \<longrightarrow> a_roles b = a_roles a)"
proof (induction rule: rtranclp_induct)
  case (step b c)
  then show ?case
    using a_step_final [of m adm b c] a_final_trans [of a b c] by auto
qed (auto simp: a_final_def)

text \<open>Rights are not gained: as long as no administrator calls, the roles stay as they are, and so
  nobody becomes an administrator.\<close>

lemma a_may_back:
  assumes "a_final a b" and "a_wf a" and "a_roles b = a_roles a" and "a_may b caller least"
  shows "a_may a caller least"
proof -
  obtain x role where x: "caller = Some x" "a_status b x = Some None" "a_roles a x = Some role" "roleSatisfies role least"
    using assms(3,4) by (auto simp: a_may_def split: option.splits)
  then obtain c where "a_status a x = Some c"
    using assms(2) by (auto simp: a_wf_def)
  then have "a_status a x = Some None"
    using assms(1) x(2) by (cases c) (fastforce simp: a_final_def)+
  then show ?thesis
    using x by (simp add: a_may_def)
qed

lemma a_trace_no_admin:
  "a_trace cs a b \<Longrightarrow> a_wf a \<Longrightarrow> \<forall>c\<in>set cs. \<not> a_may a c RoleAdmin \<Longrightarrow> a_roles b = a_roles a"
proof (induction rule: a_trace.induct)
  case (a_Cons c a b cs d)
  have step: "a_final a b" "a_wf b" "a_roles b = a_roles a"
    using a_Cons.hyps(1) a_Cons.prems a_steps_final unfolding a_request_def by auto
  then have "\<forall>c\<in>set cs. \<not> a_may b c RoleAdmin"
    using a_Cons.prems a_may_back [OF step(1) _ step(3)] by auto
  then show ?case
    using a_Cons.IH step by simp
qed simp

section \<open>The ledger as such a machine\<close>

definition status_of :: "CertificateRecord \<Rightarrow> (time \<times> string) option" where
  "status_of r = map_option (\<lambda>at. (at, RevocationReason r)) (RevokedAt r)"

definition authority_of :: "'x world_scheme \<Rightarrow> authority" where
  "authority_of w =
     \<lparr>a_status = (\<lambda>x. map_option status_of (select_certificate x w)),
      a_roles = (\<lambda>x. map_option role_Role (select_client_role x w))\<rparr>"

definition caller_of :: "request \<Rightarrow> string option" where
  "caller_of r = (case q_PeerSerials r of [] \<Rightarrow> None | peer # _ \<Rightarrow> Some (Int_String peer))"

lemma a_may_authorized: "a_may (authority_of w) (caller_of r) least \<longleftrightarrow> authorized least r w"
  by (auto simp: a_may_def authority_of_def caller_of_def authorized_def status_of_def split: list.splits option.splits)

text \<open>Between two states of the ledger there is a path of steps.\<close>

lemma one_status:
  assumes "\<And>c. a_status a x = Some c \<Longrightarrow> c' = c \<or> c = None"
  shows "(a_step True adm)\<^sup>*\<^sup>* a (a\<lparr>a_status := (a_status a)(x \<mapsto> c')\<rparr>)"
proof -
  let ?issued = "a\<lparr>a_status := (a_status a)(x \<mapsto> None)\<rparr>"
  have revoked: "(a_step True adm)\<^sup>*\<^sup>* b (b\<lparr>a_status := (a_status b)(x \<mapsto> c')\<rparr>)" if "a_status b x = Some None" for b
  proof (cases c')
    case None
    with that show ?thesis
      by (simp add: map_upd_triv)
  next
    case (Some y)
    then show ?thesis
      using a_step.revoke [of True b x adm "fst y" "snd y"] that by auto
  qed
  show ?thesis
  proof (cases "a_status a x")
    case None
    then have "a_step True adm a ?issued"
      by (intro a_step.issue) auto
    then show ?thesis
      using revoked [of ?issued] by (simp add: converse_rtranclp_into_rtranclp)
  next
    case (Some c)
    then show ?thesis
      using assms [OF Some] revoked [of a] by (auto simp: map_upd_triv)
  qed
qed

lemma statuses_reached:
  assumes "finite D"
  shows "\<lbrakk>\<forall>x. x \<notin> D \<longrightarrow> a_status a x = g x; \<forall>x\<in>D. \<exists>c'. g x = Some c' \<and> (\<forall>c. a_status a x = Some c \<longrightarrow> c' = c \<or> c = None)\<rbrakk>
    \<Longrightarrow> (a_step True adm)\<^sup>*\<^sup>* a (a\<lparr>a_status := g\<rparr>)"
  using assms
proof (induction D arbitrary: a rule: finite_induct)
  case empty
  then have "a_status a = g"
    by auto
  then show ?case
    by auto
next
  case (insert x D)
  then obtain c' where c': "g x = Some c'" "\<forall>c. a_status a x = Some c \<longrightarrow> c' = c \<or> c = None"
    by auto
  let ?b = "a\<lparr>a_status := (a_status a)(x \<mapsto> c')\<rparr>"
  have "(a_step True adm)\<^sup>*\<^sup>* ?b (?b\<lparr>a_status := g\<rparr>)"
    using insert.prems insert.hyps(2) c'(1) by (intro insert.IH) auto
  then show ?case
    using one_status [of a x c' adm] c'(2) by auto
qed

lemma roles_reached:
  assumes "finite D"
  shows "\<lbrakk>\<forall>x. x \<notin> D \<longrightarrow> a_roles a x = g x; \<forall>x\<in>D. \<exists>role\<in>roles_allowed. g x = Some role \<and> x \<in> dom (a_status a)\<rbrakk>
    \<Longrightarrow> (a_step m True)\<^sup>*\<^sup>* a (a\<lparr>a_roles := g\<rparr>)"
  using assms
proof (induction D arbitrary: a rule: finite_induct)
  case empty
  then have "a_roles a = g"
    by auto
  then show ?case
    by auto
next
  case (insert x D)
  then obtain role where role: "g x = Some role" "role \<in> roles_allowed" "x \<in> dom (a_status a)"
    by auto
  let ?b = "a\<lparr>a_roles := (a_roles a)(x \<mapsto> role)\<rparr>"
  have "(a_step m True)\<^sup>*\<^sup>* ?b (?b\<lparr>a_roles := g\<rparr>)"
    using insert.prems insert.hyps(2) role(1) by (intro insert.IH) auto
  moreover have "a_step m True a ?b"
    using role by (intro a_step.grant) auto
  ultimately show ?case
    by (simp add: converse_rtranclp_into_rtranclp)
qed

lemma find_finite: "finite {x. find (\<lambda>r. key r = x) rows \<noteq> None}"
  by (rule finite_subset [of _ "key ` set rows"]) (auto dest: find_Some_in)

lemma role_on_record:
  assumes "roles_ok w" and "select_client_role x w = Some r"
  shows "role_Role r \<in> roles_allowed \<and> select_certificate x w \<noteq> None"
proof -
  have "r \<in> set (client_roles w)" "role_CertSerial r = x"
    using find_Some_in [OF assms(2) [unfolded select_client_role_def]] by simp_all
  then have "role_Role r \<in> roles_allowed" "x \<in> Serial ` set (certificates w)"
    using assms(1) unfolding roles_ok_def by blast+
  then show ?thesis
    by (auto simp: select_certificate_def find_None_iff_all)
qed

lemma status_le:
  assumes "ledger_le w w'" and "select_certificate x w = Some c"
  shows "\<exists>c'. select_certificate x w' = Some c' \<and> (status_of c' = status_of c \<or> status_of c = None)"
proof -
  have "rows_le cert_le (certificates w) (certificates w')"
    using assms(1) by (simp add: ledger_le_def grows_def)
  from rows_le_find [OF this row_le_keys(1)] assms(2) show ?thesis
    by (fastforce simp: select_certificate_def cert_le_def status_of_def)
qed

lemma status_path:
  assumes "ledger_le w w'"
  shows "(a_step True adm)\<^sup>*\<^sup>* (authority_of w) ((authority_of w)\<lparr>a_status := a_status (authority_of w')\<rparr>)"
proof (rule statuses_reached [where D = "{x. select_certificate x w' \<noteq> None}"])
  show "finite {x. select_certificate x w' \<noteq> None}"
    using find_finite [of Serial "certificates w'"] by (simp add: select_certificate_def)
  have "a_status (authority_of w) x = a_status (authority_of w') x" if "select_certificate x w' = None" for x
    using status_le [OF assms, of x] that by (cases "select_certificate x w") (auto simp: authority_of_def)
  then show "\<forall>x. x \<notin> {x. select_certificate x w' \<noteq> None} \<longrightarrow> a_status (authority_of w) x = a_status (authority_of w') x"
    by simp
  have "\<exists>c'. a_status (authority_of w') x = Some c' \<and> (\<forall>c. a_status (authority_of w) x = Some c \<longrightarrow> c' = c \<or> c = None)"
    if "select_certificate x w' \<noteq> None" for x
    using status_le [OF assms, of x] that by (cases "select_certificate x w") (auto simp: authority_of_def)
  then show "\<forall>x\<in>{x. select_certificate x w' \<noteq> None}. \<exists>c'. a_status (authority_of w') x = Some c' \<and>
      (\<forall>c. a_status (authority_of w) x = Some c \<longrightarrow> c' = c \<or> c = None)"
    by simp
qed

lemma role_path:
  assumes "ledger_le w w'" and "schema w"
  shows "(a_step m True)\<^sup>*\<^sup>* ((authority_of w)\<lparr>a_status := a_status (authority_of w')\<rparr>) (authority_of w')"
proof -
  have le: "rows_le role_le (client_roles w) (client_roles w')" and ok: "roles_ok w'"
    using assms by (auto simp: ledger_le_def grows_def schema_def)
  have "select_client_role x w' \<noteq> None" if "select_client_role x w \<noteq> None" for x
    using rows_le_find [OF le row_le_keys(4)] that by (fastforce simp: select_client_role_def)
  then have "(a_step m True)\<^sup>*\<^sup>* ((authority_of w)\<lparr>a_status := a_status (authority_of w')\<rparr>)
      ((authority_of w)\<lparr>a_status := a_status (authority_of w'), a_roles := a_roles (authority_of w')\<rparr>)"
    using roles_reached [where D = "{x. select_client_role x w' \<noteq> None}" and g = "a_roles (authority_of w')"
        and a = "(authority_of w)\<lparr>a_status := a_status (authority_of w')\<rparr>" and m = m]
      role_on_record [OF ok] find_finite [of role_CertSerial "client_roles w'"]
    by (force simp: authority_of_def select_client_role_def)
  then show ?thesis
    by (simp add: authority_of_def)
qed

lemma serve_refines:
  assumes "\<not> EnableACME (d_ModuleConfig deps)" and "schema s" and "run_state (serve deps r) s = (resp, s')"
  shows "a_request (caller_of r) (authority_of s) (authority_of s')"
proof -
  have le: "ledger_le s s'"
    using keeps_serve assms(3) by (blast dest: state_io_relD)
  consider "\<not> authorized RoleManager r s" | "authorized RoleManager r s" "\<not> authorized RoleAdmin r s"
    | "authorized RoleManager r s" "authorized RoleAdmin r s"
    using authorized_admin by blast
  then show ?thesis
  proof cases
    case 1
    then have "authority_of s' = authority_of s"
      using wp_run [OF wp_serve_outsider [OF assms(1) 1] assms(3)]
      by (simp add: tables_def authority_of_def select_certificate_def select_client_role_def)
    then show ?thesis
      by (simp add: a_request_def)
  next
    case 2
    then have "a_roles (authority_of s') = a_roles (authority_of s)"
      using wp_run [OF wp_serve_manager [OF assms(1) 2(2)] assms(3)]
      by (simp add: grants_def authority_of_def select_client_role_def)
    then have "(authority_of s)\<lparr>a_status := a_status (authority_of s')\<rparr> = authority_of s'"
      by (simp add: authority_of_def)
    then show ?thesis
      using status_path [OF le, of False] 2 by (simp add: a_request_def a_may_authorized)
  next
    case 3
    then show ?thesis
      using rtranclp_trans [OF status_path [OF le, of True] role_path [OF le assms(2), of True]]
      by (simp add: a_request_def a_may_authorized)
  qed
qed

lemma serve_all_refines:
  assumes "\<not> EnableACME (d_ModuleConfig deps)" and "schema s" and "run_state (serve_all deps rs) s = (resps, s')"
  shows "a_trace (map caller_of rs) (authority_of s) (authority_of s')"
  using assms(2,3)
proof (induction rs arbitrary: s resps)
  case (Cons r rs)
  obtain resp s1 resps1 where one: "run_state (serve deps r) s = (resp, s1)"
    and rest: "run_state (serve_all deps rs) s1 = (resps1, s')"
    using Cons.prems(2) by (auto split: prod.splits)
  have "ledger_le s s1"
    using keeps_serve one by (blast dest: state_io_relD)
  then have "schema s1"
    using Cons.prems(1) by (simp add: ledger_le_def)
  then show ?case
    using serve_refines [OF assms(1) Cons.prems(1) one] Cons.IH [OF _ rest] by (auto intro: a_Cons)
qed (auto intro: a_Nil)

lemma authority_of_wf: "schema w \<Longrightarrow> a_wf (authority_of w)"
  using role_on_record [of w] by (force simp: schema_def a_wf_def authority_of_def ran_def dom_def)

text \<open>C3. The service refines the machine: while the ACME module is off, what any sequence of requests
  does to the ledger is a run of the machine with the same callers. So certificates appear and get
  revoked only on a manager's request, a revocation is final, roles are granted only by
  administrators and only for certificates on record, and nothing disappears, whatever statements
  fail on the way.\<close>

theorem service_refines_authority:
  assumes "\<not> EnableACME (d_ModuleConfig deps)" and "schema s" and "run_state (serve_all deps rs) s = (resps, s')"
  shows "a_trace (map caller_of rs) (authority_of s) (authority_of s')"
  using assms by (rule serve_all_refines)

theorem service_refines_authority_witness:
  "a_trace [None, Some ''7''] (authority_of sys1)
     (authority_of (snd (run_state (serve_all deps1 [req1 [] ''POST'' ''/v1/clients'',
        req1 [7] ''POST'' ''/v1/certificates/8/revoke'']) sys1)))"
  using service_refines_authority [OF _ sys1_schema surjective_pairing, of deps1
      "[req1 [] ''POST'' ''/v1/clients'', req1 [7] ''POST'' ''/v1/certificates/8/revoke'']"]
  by (simp add: deps1_def caller_of_def req1_def)

text \<open>C21. Rights are not gained from within: if none of the callers of a sequence of requests is an
  administrator when it starts, then the roles are the same when it ends; neither a manager nor an
  outsider becomes an administrator, and nobody gets a role for a new certificate.\<close>

theorem no_escalation:
  assumes "\<not> EnableACME (d_ModuleConfig deps)" and "schema s" and "run_state (serve_all deps rs) s = (resps, s')"
    and "\<forall>r\<in>set rs. \<not> authorized RoleAdmin r s"
  shows "map_option role_Role (select_client_role x s') = map_option role_Role (select_client_role x s)"
proof -
  have "a_roles (authority_of s') = a_roles (authority_of s)"
    using a_trace_no_admin [OF serve_all_refines [OF assms(1-3)] authority_of_wf [OF assms(2)]] assms(4)
    by (simp add: a_may_authorized)
  then show ?thesis
    by (simp add: authority_of_def fun_eq_iff)
qed

theorem no_escalation_witness:
  "map_option role_Role (select_client_role ''8'' (snd (run_state (serve_all deps1 [req1 [8] ''POST'' ''/v1/clients'',
      req1 [8] ''POST'' ''/v1/certificates'']) sys1))) = None"
proof -
  let ?rs = "[req1 [8] ''POST'' ''/v1/clients'', req1 [8] ''POST'' ''/v1/certificates'']"
  have "\<forall>r\<in>set ?rs. \<not> authorized RoleAdmin r sys1"
    by (simp add: authorized_def sample_data running)
  then show ?thesis
    using no_escalation [OF _ sys1_schema surjective_pairing, of deps1 ?rs "''8''"]
    by (simp add: sample_data select_client_role_def)
qed

end
