(* ===== verification/Ref_Lock.thy ===== *)
theory Ref_Lock
  imports Key_Conformance
begin

text \<open>
  Goroutines that call \<open>Generate\<close> and \<open>Get\<close> of one file key store at the same time, and the
  \<open>refLocker\<close> of \<open>internal/keystore/keystore.go\<close> that keeps two \<open>Generate\<close> for one reference apart. A
  goroutine is a place in the code; a step is what no other goroutine can see half done: taking or
  releasing a mutex, one file operation, one access to the cache under \<open>f.mu\<close>. The drawing of the key,
  salt and nonce touches nothing shared but the tapes, and is one step. Mutexes are addresses in a heap,
  since \<open>lock\<close> hands out pointers. A schedule is the list of goroutines that move, in order; one that is
  blocked or has returned stays where it is. \<open>Generate\<close> of \<open>Keystore\<close> is what one goroutine alone does.
\<close>

section \<open>The locks\<close>

record refLocker =
  rl_mu :: "nat option"
  rl_locks :: "(KeyRef \<times> nat) list"
  rl_heap :: "nat option list"

definition newRefLocker :: refLocker where
  "newRefLocker = \<lparr>rl_mu = None, rl_locks = [], rl_heap = []\<rparr>"

datatype lock_at = AtMu | InMap | HasMutex nat | AtMutex nat | Locked nat

fun lock_step :: "nat \<Rightarrow> KeyRef \<Rightarrow> lock_at \<Rightarrow> refLocker \<Rightarrow> (lock_at \<times> refLocker) option" where
  "lock_step g r AtMu l = (if rl_mu l = None then Some (InMap, l\<lparr>rl_mu := Some g\<rparr>) else None)"
| "lock_step g r InMap l =
     (case map_of (rl_locks l) r of
        Some m \<Rightarrow> Some (HasMutex m, l)
      | None \<Rightarrow>
          (let m = length (rl_heap l) in
           Some (HasMutex m, l\<lparr>rl_locks := (r, m) # rl_locks l, rl_heap := rl_heap l @ [None]\<rparr>)))"
| "lock_step g r (HasMutex m) l = Some (AtMutex m, l\<lparr>rl_mu := None\<rparr>)"
| "lock_step g r (AtMutex m) l =
     (if rl_heap l ! m = None then Some (Locked m, l\<lparr>rl_heap := (rl_heap l)[m := Some g]\<rparr>) else None)"
| "lock_step g r (Locked m) l = None"

definition unlock :: "nat \<Rightarrow> refLocker \<Rightarrow> refLocker" where
  "unlock m l = l\<lparr>rl_heap := (rl_heap l)[m := None]\<rparr>"

section \<open>Goroutines\<close>

datatype goroutine =
    Locking KeyRef Algorithm lock_at
  | AtExists KeyRef Algorithm nat
  | AtKey KeyRef Algorithm nat
  | AtWrite KeyRef nat keyFile signer
  | AtRename KeyRef nat signer
  | AtCache KeyRef nat signer
  | AtUnlock KeyRef nat "ks_error + signer"
  | Returned KeyRef "ks_error + signer"
  | AtLookup KeyRef
  | AtRead KeyRef
  | AtPut KeyRef signer
  | Fetched KeyRef "ks_error + signer"

definition sealed_key ::
    "ks_prims \<Rightarrow> string \<Rightarrow> Algorithm \<Rightarrow> ('x world_scheme, ks_error + signer \<times> keyFile) state" where
  "sealed_key P passphrase alg = do {
     g \<leftarrow> generateKey P alg;
     (case g of
        Inl err \<Rightarrow> ret (Inl err)
      | Inr (sg, der) \<Rightarrow> do {
          s \<leftarrow> rand_Read saltLen;
          n \<leftarrow> (case s of None \<Rightarrow> ret None | Some _ \<Rightarrow> rand_Read NonceSize);
          (case (s, n) of
             (Some salt, Some nonce) \<Rightarrow> do {
               now \<leftarrow> time_Now;
               ret (Inr (sg,
                 \<lparr>kf_Version = 1, kf_KeyAlgorithm = alg, kf_KDF = ''argon2id'', kf_Salt = salt, kf_Nonce = nonce,
                  kf_Ciphertext = gcm_Seal P passphrase salt nonce der, kf_CreatedAt = now\<rparr>))
             }
           | _ \<Rightarrow> ret (Inl EntropyFailed))
        })
   }"

definition tmp_path :: "FileKeyStore \<Rightarrow> KeyRef \<Rightarrow> string" where
  "tmp_path k r = path k r @ ''.tmp''"

definition WriteFile_step ::
    "FileKeyStore \<Rightarrow> KeyRef \<Rightarrow> keyFile \<Rightarrow> ('x world_scheme, (ks_error + unit) \<times> FileKeyStore) state" where
  "WriteFile_step k r kf = do {
     f \<leftarrow> io;
     let k' = k\<lparr>fk_disk := put (tmp_path k r) (Envelope kf) (fk_disk k)\<rparr>;
     ret (case f of Runs \<Rightarrow> (Inr (), k') | StmtFails \<Rightarrow> (Inl IOFailed, k) | AckLost \<Rightarrow> (Inl IOFailed, k'))
   }"

text \<open>A rename moves whatever is at the temporary name.\<close>

definition Rename_step ::
    "FileKeyStore \<Rightarrow> KeyRef \<Rightarrow> ('x world_scheme, (ks_error + unit) \<times> FileKeyStore) state" where
  "Rename_step k r = do {
     f \<leftarrow> io;
     (case map_of (fk_disk k) (tmp_path k r) of
        None \<Rightarrow> ret (Inl IOFailed, k)
      | Some c \<Rightarrow> do {
          let k' = k\<lparr>fk_disk := put (path k r) c (filter (\<lambda>(q, _). q \<noteq> tmp_path k r) (fk_disk k))\<rparr>;
          ret (case f of Runs \<Rightarrow> (Inr (), k') | StmtFails \<Rightarrow> (Inl IOFailed, k) | AckLost \<Rightarrow> (Inl IOFailed, k'))
        })
   }"

text \<open>The places of \<open>Generate\<close> once the lock is taken, and those of \<open>Get\<close>.\<close>

fun generate_step ::
    "ks_prims \<Rightarrow> goroutine \<Rightarrow> FileKeyStore \<Rightarrow> ('x world_scheme, goroutine \<times> FileKeyStore) state" where
  "generate_step P (AtExists r a m) k = do {
     e \<leftarrow> FileKeyStore_Exists k r;
     ret (case e of
            Inl err \<Rightarrow> AtUnlock r m (Inl err)
          | Inr present \<Rightarrow> (if present then AtUnlock r m (Inl (KeyAlreadyExists r)) else AtKey r a m), k)
   }"
| "generate_step P (AtKey r a m) k = do {
     s \<leftarrow> sealed_key P (fk_passphrase k) a;
     ret (case s of Inl err \<Rightarrow> AtUnlock r m (Inl err) | Inr (sg, kf) \<Rightarrow> AtWrite r m kf sg, k)
   }"
| "generate_step P (AtWrite r m kf sg) k = do {
     (res, k') \<leftarrow> WriteFile_step k r kf;
     ret (case res of Inl err \<Rightarrow> AtUnlock r m (Inl err) | Inr _ \<Rightarrow> AtRename r m sg, k')
   }"
| "generate_step P (AtRename r m sg) k = do {
     (res, k') \<leftarrow> Rename_step k r;
     ret (case res of Inl err \<Rightarrow> AtUnlock r m (Inl err) | Inr _ \<Rightarrow> AtCache r m sg, k')
   }"
| "generate_step P (AtCache r m sg) k = ret (AtUnlock r m (Inr sg), k\<lparr>fk_cached := put r sg (fk_cached k)\<rparr>)"
| "generate_step P pc k = ret (pc, k)"

fun get_step ::
    "ks_prims \<Rightarrow> goroutine \<Rightarrow> FileKeyStore \<Rightarrow> ('x world_scheme, goroutine \<times> FileKeyStore) state" where
  "get_step P (AtLookup r) k =
     ret (case map_of (fk_cached k) r of Some sg \<Rightarrow> Fetched r (Inr sg) | None \<Rightarrow> AtRead r, k)"
| "get_step P (AtRead r) k = do {
     f \<leftarrow> io;
     ret (if f \<noteq> Runs then Fetched r (Inl IOFailed)
          else case map_of (fk_disk k) (path k r) of
                 None \<Rightarrow> Fetched r (Inl (KeyNotFound r))
               | Some c \<Rightarrow> (case unseal P (fk_passphrase k) r c of Inl err \<Rightarrow> Fetched r (Inl err) | Inr sg \<Rightarrow> AtPut r sg), k)
   }"
| "get_step P (AtPut r sg) k = ret (Fetched r (Inr sg), k\<lparr>fk_cached := put r sg (fk_cached k)\<rparr>)"
| "get_step P pc k = ret (pc, k)"

record 'x calls =
  c_locks :: refLocker
  c_store :: FileKeyStore
  c_world :: "'x world_scheme"
  c_goroutines :: "goroutine list"

definition moved :: "nat \<Rightarrow> 'x calls \<Rightarrow> (goroutine \<times> FileKeyStore) \<times> 'x world_scheme \<Rightarrow> 'x calls" where
  "moved g s out = (case out of ((pc, k), w) \<Rightarrow>
     s\<lparr>c_store := k, c_world := w, c_goroutines := (c_goroutines s)[g := pc]\<rparr>)"

definition step :: "ks_prims \<Rightarrow> nat \<Rightarrow> 'x calls \<Rightarrow> 'x calls option" where
  "step P g s =
     (if g \<ge> length (c_goroutines s) then None
      else case c_goroutines s ! g of
        Locking r a p \<Rightarrow>
          (case lock_step g r p (c_locks s) of
             None \<Rightarrow> None
           | Some (p', l) \<Rightarrow>
               Some (s\<lparr>c_locks := l, c_goroutines := (c_goroutines s)[g :=
                 (case p' of Locked m \<Rightarrow> AtExists r a m | _ \<Rightarrow> Locking r a p')]\<rparr>))
      | AtUnlock r m res \<Rightarrow>
          Some (s\<lparr>c_locks := unlock m (c_locks s), c_goroutines := (c_goroutines s)[g := Returned r res]\<rparr>)
      | Returned r res \<Rightarrow> None
      | Fetched r res \<Rightarrow> None
      | AtLookup r \<Rightarrow> Some (moved g s (run_state (get_step P (AtLookup r) (c_store s)) (c_world s)))
      | AtRead r \<Rightarrow> Some (moved g s (run_state (get_step P (AtRead r) (c_store s)) (c_world s)))
      | AtPut r sg \<Rightarrow> Some (moved g s (run_state (get_step P (AtPut r sg) (c_store s)) (c_world s)))
      | pc \<Rightarrow> Some (moved g s (run_state (generate_step P pc (c_store s)) (c_world s))))"

fun schedule :: "ks_prims \<Rightarrow> nat list \<Rightarrow> 'x calls \<Rightarrow> 'x calls" where
  "schedule P [] s = s"
| "schedule P (g # gs) s = schedule P gs (case step P g s of None \<Rightarrow> s | Some t \<Rightarrow> t)"

fun call_of :: "KeyRef \<times> Algorithm option \<Rightarrow> goroutine" where
  "call_of (r, Some alg) = Locking r alg AtMu"
| "call_of (r, None) = AtLookup r"

text \<open>Every goroutine at the start of its call: \<open>Generate\<close> where an algorithm is given, \<open>Get\<close> otherwise.\<close>

definition launch :: "FileKeyStore \<Rightarrow> 'x world_scheme \<Rightarrow> (KeyRef \<times> Algorithm option) list \<Rightarrow> 'x calls" where
  "launch k w cs = \<lparr>c_locks = newRefLocker, c_store = k, c_world = w, c_goroutines = map call_of cs\<rparr>"

section \<open>What each place knows\<close>

definition holds :: "refLocker \<Rightarrow> nat \<Rightarrow> KeyRef \<Rightarrow> nat \<Rightarrow> bool" where
  "holds l g r m \<longleftrightarrow> map_of (rl_locks l) r = Some m \<and> m < length (rl_heap l) \<and> rl_heap l ! m = Some g"

definition got :: "ks_prims \<Rightarrow> FileKeyStore \<Rightarrow> KeyRef \<Rightarrow> ks_error + signer \<Rightarrow> bool" where
  "got P k r res \<longleftrightarrow> (\<forall>sg. res = Inr sg \<longrightarrow> fks_stored P k r = Some sg)"

fun place_ok :: "ks_prims \<Rightarrow> refLocker \<Rightarrow> FileKeyStore \<Rightarrow> nat \<Rightarrow> goroutine \<Rightarrow> bool" where
  "place_ok P l k g (Locking r a p) =
     (case p of
        AtMu \<Rightarrow> True
      | InMap \<Rightarrow> rl_mu l = Some g
      | HasMutex m \<Rightarrow> rl_mu l = Some g \<and> map_of (rl_locks l) r = Some m
      | AtMutex m \<Rightarrow> map_of (rl_locks l) r = Some m
      | Locked m \<Rightarrow> False)"
| "place_ok P l k g (AtExists r a m) = holds l g r m"
| "place_ok P l k g (AtKey r a m) = (holds l g r m \<and> \<not> fks_present k r)"
| "place_ok P l k g (AtWrite r m kf sg) =
     (holds l g r m \<and> \<not> fks_present k r \<and> unseal P (fk_passphrase k) r (Envelope kf) = Inr sg)"
| "place_ok P l k g (AtRename r m sg) = (holds l g r m \<and> \<not> fks_present k r \<and>
     (\<exists>c. map_of (fk_disk k) (tmp_path k r) = Some c \<and> unseal P (fk_passphrase k) r c = Inr sg))"
| "place_ok P l k g (AtCache r m sg) = (holds l g r m \<and> fks_stored P k r = Some sg)"
| "place_ok P l k g (AtUnlock r m res) = (holds l g r m \<and> got P k r res)"
| "place_ok P l k g (Returned r res) = got P k r res"
| "place_ok P l k g (AtLookup r) = True"
| "place_ok P l k g (AtRead r) = True"
| "place_ok P l k g (AtPut r sg) = (fks_stored P k r = Some sg)"
| "place_ok P l k g (Fetched r res) = got P k r res"

text \<open>What a step of \<open>g\<close> leaves to the others: their mutexes, every key, and the files of the references
  they hold.\<close>

definition store_le :: "ks_prims \<Rightarrow> FileKeyStore \<Rightarrow> FileKeyStore \<Rightarrow> bool" where
  "store_le P k k' \<longleftrightarrow> fk_dir k' = fk_dir k \<and> fk_passphrase k' = fk_passphrase k \<and>
     (\<forall>r. fks_present k r \<longrightarrow> fks_present k' r \<and> fks_stored P k' r = fks_stored P k r)"

definition locks_kept :: "nat \<Rightarrow> refLocker \<Rightarrow> refLocker \<Rightarrow> bool" where
  "locks_kept g l l' \<longleftrightarrow>
     (\<forall>j. j \<noteq> g \<longrightarrow> rl_mu l = Some j \<longrightarrow> rl_mu l' = Some j) \<and>
     (\<forall>r m. map_of (rl_locks l) r = Some m \<longrightarrow> map_of (rl_locks l') r = Some m) \<and>
     (\<forall>j r m. j \<noteq> g \<longrightarrow> holds l j r m \<longrightarrow> holds l' j r m)"

definition files_kept :: "nat \<Rightarrow> refLocker \<Rightarrow> FileKeyStore \<Rightarrow> FileKeyStore \<Rightarrow> bool" where
  "files_kept g l k k' \<longleftrightarrow> (\<forall>j r m. j \<noteq> g \<longrightarrow> holds l j r m \<longrightarrow>
     map_of (fk_disk k') (path k r) = map_of (fk_disk k) (path k r) \<and>
     map_of (fk_disk k') (tmp_path k r) = map_of (fk_disk k) (tmp_path k r))"

definition locker_ok :: "refLocker \<Rightarrow> bool" where
  "locker_ok l \<longleftrightarrow> (\<forall>r m. map_of (rl_locks l) r = Some m \<longrightarrow> m < length (rl_heap l)) \<and>
     (\<forall>r r' m. map_of (rl_locks l) r = Some m \<longrightarrow> map_of (rl_locks l) r' = Some m \<longrightarrow> r = r')"

lemma stored_present: "fks_stored P k r = Some sg \<Longrightarrow> fks_present k r"
  by (auto simp: fks_stored_def fks_present_def split: option.splits)

lemma store_le_refl [simp]: "store_le P k k"
  by (simp add: store_le_def)

lemma store_le_trans: "store_le P a b \<Longrightarrow> store_le P b c \<Longrightarrow> store_le P a c"
  by (simp add: store_le_def)

lemma store_le_paths:
  "store_le P k k' \<Longrightarrow> path k' r = path k r" "store_le P k k' \<Longrightarrow> tmp_path k' r = tmp_path k r"
  by (simp_all add: store_le_def path_def tmp_path_def)

lemma store_le_stored: "store_le P k k' \<Longrightarrow> fks_stored P k r = Some sg \<Longrightarrow> fks_stored P k' r = Some sg"
  by (auto simp: store_le_def dest: stored_present)

lemma rely_refl [simp]: "locks_kept g l l" "files_kept g l k k"
  by (simp_all add: locks_kept_def files_kept_def)

lemma holds_alone: "locker_ok l \<Longrightarrow> holds l g r m \<Longrightarrow> holds l j r' m' \<Longrightarrow> m' = m \<longleftrightarrow> r' = r"
  by (auto simp: holds_def locker_ok_def)

lemma holds_unique: "holds l g r m \<Longrightarrow> holds l j r m' \<Longrightarrow> j = g"
  by (simp add: holds_def)

lemma files_keptD:
  "files_kept g l k k' \<Longrightarrow> j \<noteq> g \<Longrightarrow> holds l j r m \<Longrightarrow>
    map_of (fk_disk k') (path k r) = map_of (fk_disk k) (path k r) \<and>
    map_of (fk_disk k') (tmp_path k r) = map_of (fk_disk k) (tmp_path k r)"
  unfolding files_kept_def by blast

lemma place_ok_stable:
  assumes "place_ok P l k j pc" and "j \<noteq> g" and "locks_kept g l l'" and "store_le P k k'" and "files_kept g l k k'"
  shows "place_ok P l' k' j pc"
proof -
  have absent: "\<not> fks_present k' r" if "\<not> fks_present k r" and "holds l j r m" for r m
    using that files_keptD [OF assms(5,2)] by (simp add: fks_present_def store_le_paths [OF assms(4)])
  have pw: "fk_passphrase k' = fk_passphrase k"
    using assms(4) by (simp add: store_le_def)
  have tmp: "map_of (fk_disk k') (tmp_path k' r) = map_of (fk_disk k) (tmp_path k r)" if "holds l j r m" for r m
    using files_keptD [OF assms(5,2) that] by (simp add: store_le_paths [OF assms(4)])
  have stay: "holds l j r m \<Longrightarrow> holds l' j r m" "rl_mu l = Some j \<Longrightarrow> rl_mu l' = Some j"
      "map_of (rl_locks l) r = Some m \<Longrightarrow> map_of (rl_locks l') r = Some m" for r m
    using assms(2,3) by (auto simp: locks_kept_def)
  show ?thesis
    using assms(1) absent tmp store_le_stored [OF assms(4)]
    by (cases pc) (auto simp: got_def pw intro: stay split: lock_at.splits)
qed

section \<open>What each step does\<close>

lemma wp_sealed_key:
  assumes "\<And>sg kf w'. (\<exists>der. MarshalPKCS8PrivateKey P sg = Some der \<and>
      kf_Ciphertext kf = gcm_Seal P pw (kf_Salt kf) (kf_Nonce kf) der) \<Longrightarrow> Q (Inr (sg, kf)) w'"
    and "\<And>e w'. Q (Inl e) w'"
  shows "wp (sealed_key P pw alg) Q w"
  unfolding sealed_key_def using assms by (auto intro!: wps split: option.splits)

lemma tmp_path_inject [simp]: "tmp_path k r = tmp_path k r' \<longleftrightarrow> r = r'"
  by (simp add: tmp_path_def)

lemma tmp_not_path [simp]: "tmp_path k r \<noteq> path k r'" "path k r' \<noteq> tmp_path k r"
  by (simp_all add: tmp_path_def)

definition store_step_ok :: "ks_prims \<Rightarrow> nat \<Rightarrow> refLocker \<Rightarrow> FileKeyStore \<Rightarrow> FileKeyStore \<Rightarrow> bool" where
  "store_step_ok P g l k k' \<longleftrightarrow> fks_ok P k' \<and> store_le P k k' \<and> files_kept g l k k'"

lemma store_step_same: "fks_ok P k \<Longrightarrow> store_step_ok P g l k k"
  by (simp add: store_step_ok_def)

lemma store_step_cached:
  "fks_ok P k \<Longrightarrow> fks_stored P k r = Some sg \<Longrightarrow> store_step_ok P g l k (k\<lparr>fk_cached := put r sg (fk_cached k)\<rparr>)"
  by (simp add: store_step_ok_def fks_cache_ok store_le_def files_kept_def)

text \<open>Writing a file of a reference that has no key yet and whose lock is held.\<close>

lemma store_step_disk:
  assumes "fks_ok P k" and "\<not> fks_present k r" and "holds l g r m"
    and disk: "\<And>x. x \<noteq> r \<Longrightarrow> map_of d (path k x) = map_of (fk_disk k) (path k x) \<and>
      map_of d (tmp_path k x) = map_of (fk_disk k) (tmp_path k x)"
  shows "store_step_ok P g l k (k\<lparr>fk_disk := d\<rparr>)"
proof -
  have "x \<noteq> r" if "holds l j x m'" "j \<noteq> g" for j x m'
    using that assms(3) holds_unique by blast
  then have "files_kept g l k (k\<lparr>fk_disk := d\<rparr>)"
    using disk by (auto simp: files_kept_def)
  then show ?thesis
    using fks_written [OF assms(1,2), of "k\<lparr>fk_disk := d\<rparr>"] disk by (auto simp: store_step_ok_def store_le_def)
qed

text \<open>\<open>won\<close>: a \<open>Generate\<close> whose key file is in place.\<close>

fun won :: "goroutine \<Rightarrow> KeyRef option" where
  "won (AtCache r m sg) = Some r"
| "won (AtUnlock r m (Inr sg)) = Some r"
| "won (Returned r (Inr sg)) = Some r"
| "won pc = None"

fun rank :: "goroutine \<Rightarrow> nat" where
  "rank (Locking r a p) = (case p of AtMu \<Rightarrow> 10 | InMap \<Rightarrow> 9 | HasMutex m \<Rightarrow> 8 | AtMutex m \<Rightarrow> 7 | Locked m \<Rightarrow> 6)"
| "rank (AtExists r a m) = 6"
| "rank (AtKey r a m) = 5"
| "rank (AtWrite r m kf sg) = 4"
| "rank (AtRename r m sg) = 3"
| "rank (AtCache r m sg) = 2"
| "rank (AtUnlock r m res) = 1"
| "rank (Returned r res) = 0"
| "rank (AtLookup r) = 3"
| "rank (AtRead r) = 2"
| "rank (AtPut r sg) = 1"
| "rank (Fetched r res) = 0"

fun holding :: "goroutine \<Rightarrow> nat option" where
  "holding (AtExists r a m) = Some m"
| "holding (AtKey r a m) = Some m"
| "holding (AtWrite r m kf sg) = Some m"
| "holding (AtRename r m sg) = Some m"
| "holding (AtCache r m sg) = Some m"
| "holding (AtUnlock r m res) = Some m"
| "holding pc = None"

fun in_mu :: "goroutine \<Rightarrow> bool" where
  "in_mu (Locking r a p) = (case p of InMap \<Rightarrow> True | HasMutex m \<Rightarrow> True | _ \<Rightarrow> False)"
| "in_mu pc = False"

definition new_winner :: "FileKeyStore \<Rightarrow> goroutine \<Rightarrow> goroutine \<Rightarrow> bool" where
  "new_winner k pc pc' \<longleftrightarrow> (\<forall>r. won pc' = Some r \<longrightarrow> won pc = Some r \<or> \<not> fks_present k r)"

lemma got_error [simp]: "got P k r (Inl e)"
  by (simp add: got_def)

lemma got_signer [simp]: "got P k r (Inr sg) \<longleftrightarrow> fks_stored P k r = Some sg"
  by (simp add: got_def)

lemma unseal_sealed_key:
  "fks_ok P k \<Longrightarrow> \<exists>der. MarshalPKCS8PrivateKey P sg = Some der \<and>
    kf_Ciphertext kf = gcm_Seal P pw (kf_Salt kf) (kf_Nonce kf) der \<Longrightarrow> unseal P pw r (Envelope kf) = Inr sg"
  by (auto simp: fks_ok_def intro: unseal_sealed)

definition generate_place :: "goroutine \<Rightarrow> bool" where
  "generate_place pc \<longleftrightarrow> (case pc of AtExists _ _ _ \<Rightarrow> True | AtKey _ _ _ \<Rightarrow> True | AtWrite _ _ _ _ \<Rightarrow> True
     | AtRename _ _ _ \<Rightarrow> True | AtCache _ _ _ \<Rightarrow> True | _ \<Rightarrow> False)"

definition get_place :: "goroutine \<Rightarrow> bool" where
  "get_place pc \<longleftrightarrow> (case pc of AtLookup _ \<Rightarrow> True | AtRead _ \<Rightarrow> True | AtPut _ _ \<Rightarrow> True | _ \<Rightarrow> False)"

definition place_step_ok ::
    "ks_prims \<Rightarrow> nat \<Rightarrow> refLocker \<Rightarrow> FileKeyStore \<Rightarrow> goroutine \<Rightarrow> goroutine \<times> FileKeyStore \<Rightarrow> bool" where
  "place_step_ok P g l k pc out \<longleftrightarrow> (case out of (pc', k') \<Rightarrow>
     place_ok P l k' g pc' \<and> store_step_ok P g l k k' \<and> new_winner k pc pc' \<and> rank pc' < rank pc \<and>
     holding pc' = holding pc \<and> in_mu pc' = in_mu pc)"

lemma wp_WriteFile_step:
  assumes "fks_ok P k" and "\<not> fks_present k r" and "holds l g r m"
    and "\<And>k' w'. store_step_ok P g l k k' \<Longrightarrow> \<not> fks_present k' r \<Longrightarrow>
      map_of (fk_disk k') (tmp_path k' r) = Some (Envelope kf) \<Longrightarrow> fk_passphrase k' = fk_passphrase k \<Longrightarrow> Q (Inr (), k') w'"
    and "\<And>e k' w'. store_step_ok P g l k k' \<Longrightarrow> Q (Inl e, k') w'"
  shows "wp (WriteFile_step k r kf) Q w"
proof -
  let ?k = "k\<lparr>fk_disk := put (tmp_path k r) (Envelope kf) (fk_disk k)\<rparr>"
  have "store_step_ok P g l k ?k"
    by (rule store_step_disk [OF assms(1-3)]) simp
  moreover have "\<not> fks_present ?k r" "map_of (fk_disk ?k) (tmp_path ?k r) = Some (Envelope kf)"
    using assms(2) by (simp_all add: fks_present_def) (simp add: tmp_path_def)
  ultimately show ?thesis
    unfolding WriteFile_step_def using assms(4) [of ?k] assms(5) store_step_same [OF assms(1)]
    by (auto simp: Let_def intro!: wps split: fault.splits)
qed

lemma wp_Rename_step:
  assumes "fks_ok P k" and "\<not> fks_present k r" and "holds l g r m"
    and "map_of (fk_disk k) (tmp_path k r) = Some c" and "unseal P (fk_passphrase k) r c = Inr sg"
    and "\<And>k' w'. store_step_ok P g l k k' \<Longrightarrow> fks_stored P k' r = Some sg \<Longrightarrow> Q (Inr (), k') w'"
    and "\<And>e k' w'. store_step_ok P g l k k' \<Longrightarrow> Q (Inl e, k') w'"
  shows "wp (Rename_step k r) Q w"
proof -
  let ?k = "k\<lparr>fk_disk := put (path k r) c (filter (\<lambda>(q, _). q \<noteq> tmp_path k r) (fk_disk k))\<rparr>"
  have "store_step_ok P g l k ?k"
    by (rule store_step_disk [OF assms(1-3)]) (simp add: map_of_filter_key)
  moreover have "fks_stored P ?k r = Some sg"
    using assms(5) by (simp add: fks_stored_def)
  ultimately show ?thesis
    unfolding Rename_step_def using assms(4,6,7) store_step_same [OF assms(1)]
    by (auto simp: Let_def intro!: wps split: fault.splits)
qed

lemma wp_generate_step:
  assumes "place_ok P l k g pc" and "fks_ok P k" and "generate_place pc"
  shows "wp (generate_step P pc k) (\<lambda>out _. place_step_ok P g l k pc out) w"
proof (cases pc)
  case (AtExists r a m)
  then show ?thesis
    using assms store_step_same by (auto simp: place_step_ok_def new_winner_def fks_present_def FileKeyStore_Exists_def intro!: wps)
next
  case (AtKey r a m)
  then show ?thesis
    using assms store_step_same
    by (auto simp: place_step_ok_def new_winner_def intro!: wp_sealed_key unseal_sealed_key)
next
  case (AtWrite r m kf sg)
  then show ?thesis
    using assms(1,2) by (auto simp: place_step_ok_def new_winner_def intro!: wp_WriteFile_step [of P k r l g m])
next
  case (AtRename r m sg)
  then show ?thesis
    using assms(1,2) by (auto simp: place_step_ok_def new_winner_def intro!: wp_Rename_step [of P k r l g m _ sg])
next
  case (AtCache r m sg)
  then show ?thesis
    using assms(1,2) by (simp add: place_step_ok_def new_winner_def store_step_cached)
qed (use assms(3) in \<open>simp_all add: generate_place_def\<close>)

lemma wp_get_step:
  assumes "place_ok P l k g pc" and "fks_ok P k" and "get_place pc"
  shows "wp (get_step P pc k) (\<lambda>out _. place_step_ok P g l k pc out) w"
proof (cases pc)
  case (AtLookup r)
  then show ?thesis
    using assms store_step_same fks_cached_stored [OF assms(2), of r]
    by (auto simp: place_step_ok_def new_winner_def split: option.splits)
next
  case (AtRead r)
  then show ?thesis
    using assms store_step_same fks_storedI [of k r _ P]
    by (auto simp: place_step_ok_def new_winner_def intro!: wps split: option.splits sum.splits if_splits)
next
  case (AtPut r sg)
  then show ?thesis
    using assms(1,2) by (simp add: place_step_ok_def new_winner_def store_step_cached)
qed (use assms(3) in \<open>simp_all add: get_place_def\<close>)

text \<open>Who owns a mutex after a step of \<open>g\<close>: \<open>g\<close>, and then its place says so, or who did before.\<close>

definition owners :: "nat \<Rightarrow> goroutine \<Rightarrow> refLocker \<Rightarrow> refLocker \<Rightarrow> bool" where
  "owners g pc' l l' \<longleftrightarrow>
     (\<forall>j. rl_mu l' = Some j \<longrightarrow> (if j = g then in_mu pc' else rl_mu l = Some j)) \<and>
     (\<forall>m j. m < length (rl_heap l') \<longrightarrow> rl_heap l' ! m = Some j \<longrightarrow>
        (if j = g then holding pc' = Some m else m < length (rl_heap l) \<and> rl_heap l ! m = Some j))"

definition owned :: "refLocker \<Rightarrow> goroutine list \<Rightarrow> bool" where
  "owned l gs \<longleftrightarrow> (\<forall>j. rl_mu l = Some j \<longrightarrow> j < length gs \<and> in_mu (gs ! j)) \<and>
     (\<forall>m j. m < length (rl_heap l) \<longrightarrow> rl_heap l ! m = Some j \<longrightarrow> j < length gs \<and> holding (gs ! j) = Some m)"

definition locks_step_ok :: "nat \<Rightarrow> goroutine \<Rightarrow> refLocker \<Rightarrow> refLocker \<Rightarrow> bool" where
  "locks_step_ok g pc' l l' \<longleftrightarrow> locker_ok l' \<and> locks_kept g l l' \<and> owners g pc' l l'"

definition after_lock :: "KeyRef \<Rightarrow> Algorithm \<Rightarrow> lock_at \<Rightarrow> goroutine" where
  "after_lock r a p = (case p of Locked m \<Rightarrow> AtExists r a m | _ \<Rightarrow> Locking r a p)"

lemma locks_step_same:
  assumes "owned l gs" and "locker_ok l" and "g < length gs" and "holding pc' = holding (gs ! g)" and "in_mu pc' = in_mu (gs ! g)"
  shows "locks_step_ok g pc' l l"
  using assms by (auto simp: locks_step_ok_def owners_def owned_def)

lemma new_mutex_ok:
  assumes "locker_ok l" and "map_of (rl_locks l) r = None"
  shows "locker_ok (l\<lparr>rl_locks := (r, length (rl_heap l)) # rl_locks l, rl_heap := rl_heap l @ [None]\<rparr>)"
  using assms unfolding locker_ok_def by (auto simp: less_Suc_eq split: if_splits)

lemma lock_step_ok:
  assumes "locker_ok l" and "owned l gs" and "g < length gs" and "gs ! g = Locking r a p"
    and "place_ok P l k g (Locking r a p)" and "lock_step g r p l = Some (p', l')"
  shows "locks_step_ok g (after_lock r a p') l l' \<and> place_ok P l' k g (after_lock r a p') \<and>
    rank (after_lock r a p') < rank (Locking r a p)"
proof (cases p)
  case AtMu
  then show ?thesis
    using assms by (auto simp: after_lock_def locks_step_ok_def locker_ok_def locks_kept_def holds_def owners_def owned_def
        split: if_splits)
next
  case InMap
  show ?thesis
  proof (cases "map_of (rl_locks l) r")
    case None
    then show ?thesis
      using assms InMap new_mutex_ok [OF assms(1) None]
      by (auto simp: after_lock_def locks_step_ok_def locks_kept_def holds_def owners_def owned_def nth_append less_Suc_eq Let_def
          split: if_splits)
  next
    case (Some m)
    then show ?thesis
      using assms InMap by (auto simp: after_lock_def locks_step_ok_def locks_kept_def owners_def owned_def)
  qed
next
  case (HasMutex m)
  then show ?thesis
    using assms by (auto simp: after_lock_def locks_step_ok_def locker_ok_def locks_kept_def holds_def owners_def owned_def)
next
  case (AtMutex m)
  then have "m < length (rl_heap l)"
    using assms(1,5) by (simp add: locker_ok_def)
  with AtMutex show ?thesis
    using assms by (auto simp: after_lock_def locks_step_ok_def locker_ok_def locks_kept_def holds_def owners_def owned_def
        nth_list_update split: if_splits)
next
  case (Locked m)
  then show ?thesis
    using assms(6) by simp
qed

lemma unlock_ok:
  assumes "locker_ok l" and "owned l gs" and "g < length gs" and "gs ! g = AtUnlock r m res" and "holds l g r m"
  shows "locks_step_ok g (Returned r res) l (unlock m l)"
  using assms
  by (auto simp: locks_step_ok_def unlock_def locker_ok_def locks_kept_def holds_def owners_def owned_def nth_list_update
      split: if_splits)

section \<open>All goroutines together\<close>

definition winners_ok :: "FileKeyStore \<Rightarrow> goroutine list \<Rightarrow> bool" where
  "winners_ok k0 gs \<longleftrightarrow> (\<forall>g j r. g < length gs \<longrightarrow> j < length gs \<longrightarrow> won (gs ! g) = Some r \<longrightarrow>
     \<not> fks_present k0 r \<and> (won (gs ! j) = Some r \<longrightarrow> g = j))"

definition calls_ok :: "ks_prims \<Rightarrow> FileKeyStore \<Rightarrow> 'x calls \<Rightarrow> bool" where
  "calls_ok P k0 s \<longleftrightarrow> locker_ok (c_locks s) \<and> owned (c_locks s) (c_goroutines s) \<and> fks_ok P (c_store s) \<and>
     store_le P k0 (c_store s) \<and> winners_ok k0 (c_goroutines s) \<and>
     (\<forall>g < length (c_goroutines s). place_ok P (c_locks s) (c_store s) g (c_goroutines s ! g))"

definition step_ok :: "ks_prims \<Rightarrow> nat \<Rightarrow> 'x calls \<Rightarrow> goroutine \<Rightarrow> 'x calls \<Rightarrow> bool" where
  "step_ok P g s pc' t \<longleftrightarrow> g < length (c_goroutines s) \<and> c_goroutines t = (c_goroutines s)[g := pc'] \<and>
     locks_step_ok g pc' (c_locks s) (c_locks t) \<and> store_step_ok P g (c_locks s) (c_store s) (c_store t) \<and>
     place_ok P (c_locks t) (c_store t) g pc' \<and> new_winner (c_store s) (c_goroutines s ! g) pc' \<and>
     rank pc' < rank (c_goroutines s ! g)"

lemma moved_ok:
  assumes s: "calls_ok P k0 s" and g: "g < length (c_goroutines s)" and pc: "c_goroutines s ! g = pc"
    and m: "wp m (\<lambda>out _. place_step_ok P g (c_locks s) (c_store s) pc out) (c_world s)"
  shows "\<exists>pc'. step_ok P g s pc' (moved g s (run_state m (c_world s)))"
proof -
  obtain pc' k' w' where out: "run_state m (c_world s) = ((pc', k'), w')"
    by (metis prod.collapse)
  then have ok: "place_step_ok P g (c_locks s) (c_store s) pc (pc', k')"
    using wp_run [OF m] by simp
  have "locks_step_ok g pc' (c_locks s) (c_locks s)"
    using s ok by (intro locks_step_same [OF _ _ g]) (auto simp: calls_ok_def place_step_ok_def pc)
  then show ?thesis
    using ok g by (auto simp: step_ok_def moved_def out place_step_ok_def pc)
qed

lemma step_cases_ok:
  assumes s: "calls_ok P k0 s" and t: "step P g s = Some t"
  shows "\<exists>pc'. step_ok P g s pc' t"
proof -
  have g: "g < length (c_goroutines s)"
    using t by (auto simp: step_def split: if_splits)
  have fks: "fks_ok P (c_store s)" and pc: "place_ok P (c_locks s) (c_store s) g (c_goroutines s ! g)"
    and l: "locker_ok (c_locks s)" "owned (c_locks s) (c_goroutines s)"
    using s g by (auto simp: calls_ok_def)
  note store_moves = moved_ok [OF s g refl wp_generate_step [OF pc fks]] moved_ok [OF s g refl wp_get_step [OF pc fks]]
  show ?thesis
  proof (cases "c_goroutines s ! g")
    case (Locking r a p)
    with t g obtain p' l' where lock: "lock_step g r p (c_locks s) = Some (p', l')"
      and "t = s\<lparr>c_locks := l', c_goroutines := (c_goroutines s)[g := after_lock r a p']\<rparr>"
      by (auto simp: step_def after_lock_def split: option.splits)
    then show ?thesis
      using lock_step_ok [OF l g Locking pc [unfolded Locking] lock] g Locking store_step_same [OF fks]
      by (intro exI [of _ "after_lock r a p'"]) (auto simp: step_ok_def new_winner_def after_lock_def split: lock_at.splits)
  next
    case (AtUnlock r m res)
    then have "locks_step_ok g (Returned r res) (c_locks s) (unlock m (c_locks s))"
      using unlock_ok [OF l g] pc by simp
    then show ?thesis
      using t g AtUnlock pc store_step_same [OF fks]
      by (intro exI [of _ "Returned r res"]) (cases res; auto simp: step_def step_ok_def new_winner_def)
  qed (use t g store_moves in \<open>auto simp: step_def generate_place_def get_place_def\<close>)
qed

lemma owned_step:
  assumes "owned l gs" and "owners g pc' l l'" and "g < length gs"
  shows "owned l' (gs[g := pc'])"
  unfolding owned_def
proof (intro conjI allI impI)
  fix m j
  assume m: "m < length (rl_heap l')" "rl_heap l' ! m = Some j"
  then have "if j = g then holding pc' = Some m else m < length (rl_heap l) \<and> rl_heap l ! m = Some j"
    using assms(2) unfolding owners_def by blast
  then show "j < length (gs[g := pc'])" "holding (gs[g := pc'] ! j) = Some m"
    using assms(1,3) by (auto simp: owned_def nth_list_update split: if_splits)
qed (use assms in \<open>auto simp: owners_def owned_def nth_list_update split: if_splits\<close>)

lemma winners_step:
  assumes "winners_ok k0 gs" and "g < length gs"
    and "\<And>r. won pc' = Some r \<Longrightarrow> won (gs ! g) = Some r \<or> \<not> fks_present k r"
    and "\<And>j r. won (gs ! j) = Some r \<Longrightarrow> j < length gs \<Longrightarrow> fks_present k r"
    and "\<And>r. fks_present k0 r \<Longrightarrow> fks_present k r"
  shows "winners_ok k0 (gs[g := pc'])"
proof -
  have old: "won (gs ! j) = Some r \<or> j = g \<and> \<not> fks_present k r" if "won (gs[g := pc'] ! j) = Some r" for j r
    using that assms(2,3) by (cases "j = g") auto
  then show ?thesis
    using assms(1,4,5) unfolding winners_ok_def length_list_update by metis
qed

lemma calls_ok_step:
  assumes s: "calls_ok P k0 s" and t: "step_ok P g s pc' t"
  shows "calls_ok P k0 t"
proof -
  let ?gs = "c_goroutines s" and ?l = "c_locks s" and ?k = "c_store s"
  have gs: "c_goroutines t = ?gs[g := pc']" and g: "g < length ?gs"
    using t by (simp_all add: step_ok_def)
  have kept: "store_le P ?k (c_store t)" "store_le P k0 ?k" "locks_kept g ?l (c_locks t)" "files_kept g ?l ?k (c_store t)"
    using s t by (auto simp: step_ok_def locks_step_ok_def store_step_ok_def calls_ok_def)
  have places: "place_ok P (c_locks t) (c_store t) j (c_goroutines t ! j)" if "j < length ?gs" for j
  proof (cases "j = g")
    case True
    then show ?thesis
      using t by (simp add: step_ok_def)
  next
    case False
    have "place_ok P ?l ?k j (?gs ! j)"
      using s that by (simp add: calls_ok_def)
    with False show ?thesis
      using place_ok_stable kept(1,3,4) by (simp add: gs)
  qed
  have own: "owned (c_locks t) (c_goroutines t)"
    using s t g owned_step by (auto simp: gs step_ok_def calls_ok_def locks_step_ok_def)
  have present: "fks_present ?k r" if "won (?gs ! j) = Some r" "j < length ?gs" for j r
    using that s unfolding calls_ok_def
    by (cases "?gs ! j" rule: won.cases) (fastforce dest: stored_present)+
  have win: "won (?gs ! g) = Some r \<or> \<not> fks_present ?k r" if "won pc' = Some r" for r
    using t that by (simp add: step_ok_def new_winner_def)
  have old: "winners_ok k0 ?gs" and base: "fks_present k0 r \<Longrightarrow> fks_present ?k r" for r
    using s kept(2) by (auto simp: calls_ok_def store_le_def)
  have "winners_ok k0 (c_goroutines t)"
    unfolding gs by (rule winners_step [OF old g win present base])
  then show ?thesis
    using places own store_le_trans [OF kept(2,1)] s t
    by (auto simp: calls_ok_def step_ok_def locks_step_ok_def store_step_ok_def gs)
qed

lemma call_of_places:
  "won (call_of c) = None" "holding (call_of c) = None" "\<not> in_mu (call_of c)" "place_ok P l k g (call_of c)" "rank (call_of c) \<le> 10"
  by (cases c rule: call_of.cases; simp)+

lemma launch_ok: "fks_ok P k \<Longrightarrow> calls_ok P k (launch k w cs)"
  by (simp add: calls_ok_def launch_def newRefLocker_def locker_ok_def owned_def winners_ok_def call_of_places)

text \<open>A goroutine keeps to its call.\<close>

fun its_call :: "goroutine \<Rightarrow> KeyRef \<times> bool" where
  "its_call (Locking r a p) = (r, True)"
| "its_call (AtExists r a m) = (r, True)"
| "its_call (AtKey r a m) = (r, True)"
| "its_call (AtWrite r m kf sg) = (r, True)"
| "its_call (AtRename r m sg) = (r, True)"
| "its_call (AtCache r m sg) = (r, True)"
| "its_call (AtUnlock r m res) = (r, True)"
| "its_call (Returned r res) = (r, True)"
| "its_call (AtLookup r) = (r, False)"
| "its_call (AtRead r) = (r, False)"
| "its_call (AtPut r sg) = (r, False)"
| "its_call (Fetched r res) = (r, False)"

lemma its_call_store_steps:
  "its_call (fst (fst (run_state (generate_step P pc k) w))) = its_call pc"
  "its_call (fst (fst (run_state (get_step P pc k) w))) = its_call pc"
  by (cases pc; simp add: case_prod_beta split: sum.split option.split)+

lemma its_call_step:
  assumes "step P g s = Some t"
  shows "map its_call (c_goroutines t) = map its_call (c_goroutines s)"
proof -
  have same: "map its_call (gs[g := pc']) = map its_call gs" if "its_call pc' = its_call (gs ! g)" for gs pc'
    using that by (metis list_update_id map_update)
  show ?thesis
    using assms by (cases "c_goroutines s ! g") (auto simp: step_def moved_def case_prod_beta same its_call_store_steps
        simp del: generate_step.simps get_step.simps split: if_splits option.splits lock_at.splits)
qed

lemma its_call_schedule: "map its_call (c_goroutines (schedule P gs s)) = map its_call (c_goroutines s)"
  by (induction gs arbitrary: s) (auto split: option.split dest: its_call_step)

lemma schedule_append: "schedule P (gs @ hs) s = schedule P hs (schedule P gs s)"
  by (induction gs arbitrary: s) simp_all

section \<open>No deadlock\<close>

definition work :: "'x calls \<Rightarrow> nat" where
  "work s = sum_list (map rank (c_goroutines s))"

lemma step_works:
  assumes "step_ok P g s pc' t"
  shows "work t < work s"
proof -
  have g: "g < length (map rank (c_goroutines s))" and less: "rank pc' < map rank (c_goroutines s) ! g"
    and t: "map rank (c_goroutines t) = (map rank (c_goroutines s))[g := rank pc']"
    using assms by (simp_all add: step_ok_def map_update)
  show ?thesis
    unfolding work_def t sum_list_update [OF g] using less elem_le_sum_list [OF g] by linarith
qed

lemma step_kept:
  assumes "calls_ok P k0 s" and "step P g s = Some t"
  shows "calls_ok P k0 t" and "work t < work s"
  using step_cases_ok [OF assms] calls_ok_step [OF assms(1)] step_works by blast+

lemma schedule_kept:
  assumes "calls_ok P k0 s"
  shows "calls_ok P k0 (schedule P gs s) \<and> work (schedule P gs s) \<le> work s"
  using assms
proof (induction gs arbitrary: s)
  case (Cons g gs)
  show ?case
  proof (cases "step P g s")
    case (Some t)
    then show ?thesis
      using Cons.IH [OF step_kept(1) [OF Cons.prems Some]] step_kept(2) [OF Cons.prems Some] by simp
  qed (use Cons in simp)
qed simp

lemma schedule_advances:
  assumes "calls_ok P k0 s" and "step P g s \<noteq> None" and "g \<in> set gs"
  shows "work (schedule P gs s) < work s"
  using assms
proof (induction gs arbitrary: s)
  case (Cons h gs)
  show ?case
  proof (cases "step P h s")
    case (Some t)
    then show ?thesis
      using schedule_kept [OF step_kept(1) [OF Cons.prems(1) Some], of gs] step_kept(2) [OF Cons.prems(1) Some] by simp
  qed (use Cons in auto)
qed simp

text \<open>Only \<open>mu\<close> and the mutex of the reference make a goroutine wait, and who owns one can move.\<close>

lemma owner_steps:
  assumes "g < length (c_goroutines s)" and "holding (c_goroutines s ! g) = Some m \<or> in_mu (c_goroutines s ! g)"
  shows "step P g s \<noteq> None"
  using assms by (cases "c_goroutines s ! g") (auto simp: step_def Let_def split: lock_at.splits option.splits)

lemma waits_for_owner:
  assumes "g < length (c_goroutines s)" and "0 < rank (c_goroutines s ! g)" and "step P g s = None"
    and "place_ok P (c_locks s) (c_store s) g (c_goroutines s ! g)"
  shows "rl_mu (c_locks s) \<noteq> None \<or> (\<exists>r m. map_of (rl_locks (c_locks s)) r = Some m \<and> rl_heap (c_locks s) ! m \<noteq> None)"
  using assms by (cases "c_goroutines s ! g") (auto simp: step_def Let_def split: lock_at.splits option.splits if_splits)

lemma some_can_move:
  assumes s: "calls_ok P k0 s" and work: "0 < work s"
  shows "\<exists>g < length (c_goroutines s). step P g s \<noteq> None"
proof (rule ccontr)
  assume "\<not> ?thesis"
  then have stuck: "step P g s = None" if "g < length (c_goroutines s)" for g
    using that by blast
  have "\<exists>pc \<in> set (c_goroutines s). 0 < rank pc"
    using work by (force simp: work_def sum_list_eq_0_iff simp flip: neq0_conv)
  then obtain g where g: "g < length (c_goroutines s)" "0 < rank (c_goroutines s ! g)"
    by (auto simp: in_set_conv_nth)
  have own: "owned (c_locks s) (c_goroutines s)" and l: "locker_ok (c_locks s)"
    and "place_ok P (c_locks s) (c_store s) g (c_goroutines s ! g)"
    using s g(1) by (auto simp: calls_ok_def)
  then consider j where "rl_mu (c_locks s) = Some j"
    | r m j where "map_of (rl_locks (c_locks s)) r = Some m" "rl_heap (c_locks s) ! m = Some j"
    using waits_for_owner [OF g stuck [OF g(1)]] by blast
  then have "\<exists>j < length (c_goroutines s). (\<exists>m. holding (c_goroutines s ! j) = Some m) \<or> in_mu (c_goroutines s ! j)"
  proof cases
    case 1
    then show ?thesis
      using own unfolding owned_def by blast
  next
    case (2 r m j)
    moreover have "m < length (rl_heap (c_locks s))"
      using 2(1) l unfolding locker_ok_def by blast
    ultimately show ?thesis
      using own unfolding owned_def by blast
  qed
  then show False
    using owner_steps stuck by blast
qed

lemma rounds_work_off:
  assumes "calls_ok P k0 s" and "length (c_goroutines s) = n"
  shows "work (schedule P (concat (replicate i [0..<n])) s) \<le> work s - i"
  using assms
proof (induction i arbitrary: s)
  case (Suc i)
  let ?t = "schedule P [0..<n] s"
  have ok: "calls_ok P k0 ?t"
    using schedule_kept Suc.prems(1) by blast
  have "length (c_goroutines ?t) = n"
    using its_call_schedule [of P "[0..<n]" s] Suc.prems(2) by (metis length_map)
  then have rest: "work (schedule P (concat (replicate i [0..<n])) ?t) \<le> work ?t - i"
    by (rule Suc.IH [OF ok])
  have "work ?t < work s \<or> work s = 0"
    using some_can_move [OF Suc.prems(1)] schedule_advances [OF Suc.prems(1), of _ "[0..<n]"] Suc.prems(2) by auto
  moreover have "work ?t \<le> work s"
    using schedule_kept Suc.prems(1) by blast
  ultimately show ?case
    using rest by (simp add: schedule_append) linarith
qed simp

section \<open>When nothing fails\<close>

fun draws :: "goroutine \<Rightarrow> nat" where
  "draws (Locking r a p) = 1"
| "draws (AtExists r a m) = 1"
| "draws (AtKey r a m) = 1"
| "draws pc = 0"

text \<open>A \<open>Generate\<close> is refused only where a key is present.\<close>

fun refused_present :: "FileKeyStore \<Rightarrow> goroutine \<Rightarrow> bool" where
  "refused_present k (Locking r a p) = (a = AlgorithmECDSAP256)"
| "refused_present k (AtExists r a m) = (a = AlgorithmECDSAP256)"
| "refused_present k (AtKey r a m) = (a = AlgorithmECDSAP256)"
| "refused_present k (AtUnlock r m (Inl e)) = fks_present k r"
| "refused_present k (Returned r (Inl e)) = fks_present k r"
| "refused_present k pc = True"

lemma refused_present_le: "refused_present k pc \<Longrightarrow> store_le P k k' \<Longrightarrow> refused_present k' pc"
  by (cases "(k, pc)" rule: refused_present.cases) (auto simp: store_le_def)

lemma entropy_le: "entropy n w \<Longrightarrow> m \<le> n \<Longrightarrow> entropy m w"
  unfolding entropy_def by (metis append.assoc append_take_drop_id length_take map_append min.absorb2 mult_le_mono2)

lemma wp_sealed_key_calm:
  assumes "ecdsa_works P sign verify" and "entropy (Suc n) w" and "\<And>sg kf w'. entropy n w' \<Longrightarrow> Q (Inr (sg, kf)) w'"
  shows "wp (sealed_key P pw AlgorithmECDSAP256) Q w"
proof -
  obtain a b c rs where tape: "rand_tape w = Some a # Some b # Some c # rs"
    and rest: "\<forall>t ts. entropy n (w\<lparr>rand_tape := rs, clock := t, clock_tape := ts\<rparr>)"
    using assms(2) by (rule entropy_Suc)
  have rand: "run_state (rand_Read m) v = (Some (fill m x), v\<lparr>rand_tape := xs\<rparr>)"
    if "rand_tape v = Some x # xs" for m x xs and v :: "'a world_scheme"
    using that by (simp add: rand_Read_def)
  obtain sg der where "GenerateKey P AlgorithmECDSAP256 (fill 32 a) = Some sg" "MarshalPKCS8PrivateKey P sg = Some der"
    using assms(1) unfolding ecdsa_works_def by blast
  moreover obtain t ts where "run_state time_Now (w\<lparr>rand_tape := rs\<rparr>) = (t, w\<lparr>rand_tape := rs, clock := t, clock_tape := ts\<rparr>)"
    using run_time_Now [of "w\<lparr>rand_tape := rs\<rparr>"] by metis
  ultimately show ?thesis
    using rest assms(3) by (simp add: wp_iff sealed_key_def generateKey_def tape rand State_Monad.return_def)
qed

definition calm_step ::
    "nat \<Rightarrow> FileKeyStore \<Rightarrow> goroutine \<Rightarrow> goroutine \<times> FileKeyStore \<Rightarrow> 'x world_scheme \<Rightarrow> bool" where
  "calm_step n k pc out w \<longleftrightarrow> (case out of (pc', k') \<Rightarrow>
     refused_present k' pc' \<and> entropy (n + draws pc') w \<and> (won pc \<noteq> None \<longrightarrow> won pc' = won pc) \<and>
     (\<forall>r. fks_present k' r \<longrightarrow> fks_present k r \<or> won pc' = Some r))"

lemma put_present:
  "fks_present (k\<lparr>fk_disk := put (tmp_path k r) c d\<rparr>) x \<longleftrightarrow> fks_present (k\<lparr>fk_disk := d\<rparr>) x"
  "fks_present (k\<lparr>fk_disk := put (path k r) c d\<rparr>) x \<longleftrightarrow> x = r \<or> fks_present (k\<lparr>fk_disk := d\<rparr>) x"
  "fks_present (k\<lparr>fk_disk := filter (\<lambda>(q, _). q \<noteq> tmp_path k r) d\<rparr>) x \<longleftrightarrow> fks_present (k\<lparr>fk_disk := d\<rparr>) x"
  "fks_present (k\<lparr>fk_disk := fk_disk k\<rparr>) x \<longleftrightarrow> fks_present k x"
  by (auto simp: fks_present_def map_of_filter_key)

lemma wp_io_calm: "entropy n w \<Longrightarrow> Q Runs w \<Longrightarrow> wp io Q w"
  by (simp add: wp_def io_calm entropy_def)

lemma wp_generate_calm:
  assumes "ecdsa_works P sign verify" and "refused_present k pc" and "entropy (n + draws pc) w" and "generate_place pc"
    and "place_ok P l k g pc"
  shows "wp (generate_step P pc k) (calm_step n k pc) w"
proof (cases pc)
  case (AtExists r a m)
  then show ?thesis
    using assms entropy_le [OF assms(3), of n]
    by (auto simp: calm_step_def FileKeyStore_Exists_def fks_present_def intro!: wp_io_calm [OF assms(3)])
next
  case (AtKey r a m)
  then show ?thesis
    using assms by (auto simp: calm_step_def intro!: wp_sealed_key_calm [OF assms(1), of n])
next
  case (AtWrite r m kf sg)
  then show ?thesis
    using assms by (auto simp: calm_step_def WriteFile_step_def Let_def put_present intro!: wp_io_calm [OF assms(3)])
next
  case (AtRename r m sg)
  then show ?thesis
    using assms by (auto simp: calm_step_def Rename_step_def Let_def put_present intro!: wp_io_calm [OF assms(3)])
next
  case (AtCache r m sg)
  then show ?thesis
    using assms by (auto simp: calm_step_def)
qed (use assms(4) in \<open>simp_all add: generate_place_def\<close>)

lemma wp_get_calm:
  assumes "entropy (n + draws pc) w" and "get_place pc"
  shows "wp (get_step P pc k) (calm_step n k pc) w"
  using assms(2,1)
  by (cases pc) (auto simp: calm_step_def get_place_def intro!: wp_io_calm [OF assms(1)] split: option.splits sum.splits)

definition to_draw :: "goroutine list \<Rightarrow> nat" where
  "to_draw gs = sum_list (map draws gs)"

text \<open>Of the random source, \<open>m\<close> generations are left to spare.\<close>

definition calm_ok :: "nat \<Rightarrow> FileKeyStore \<Rightarrow> 'x calls \<Rightarrow> bool" where
  "calm_ok m k0 s \<longleftrightarrow> entropy (m + to_draw (c_goroutines s)) (c_world s) \<and>
     (\<forall>pc \<in> set (c_goroutines s). refused_present (c_store s) pc) \<and>
     (\<forall>r. fks_present (c_store s) r \<longrightarrow> fks_present k0 r \<or> (\<exists>pc \<in> set (c_goroutines s). won pc = Some r))"

lemma to_draw_update:
  assumes "g < length gs"
  obtains n where "to_draw gs = n + draws (gs ! g)" and "\<forall>pc'. to_draw (gs[g := pc']) = n + draws pc'"
proof -
  have g: "g < length (map draws gs)"
    using assms by simp
  show thesis
    using that [of "to_draw gs - draws (gs ! g)"] elem_le_sum_list [OF g] assms
    by (simp add: to_draw_def map_update sum_list_update)
qed

lemma step_calm:
  assumes s: "calls_ok P k0 s" "calm_ok m k0 s" and works: "ecdsa_works P sign verify" and t: "step P g s = Some t"
    and n: "m + to_draw (c_goroutines s) = n + draws (c_goroutines s ! g)"
  shows "\<exists>pc'. c_goroutines t = (c_goroutines s)[g := pc'] \<and>
    calm_step n (c_store s) (c_goroutines s ! g) (pc', c_store t) (c_world t)"
proof -
  have g: "g < length (c_goroutines s)"
    using t by (auto simp: step_def split: if_splits)
  then have pc: "refused_present (c_store s) (c_goroutines s ! g)" "entropy (n + draws (c_goroutines s ! g)) (c_world s)"
      "place_ok P (c_locks s) (c_store s) g (c_goroutines s ! g)"
    using s by (auto simp: calm_ok_def calls_ok_def n)
  have moves: "\<exists>pc'. c_goroutines (moved g s (run_state m (c_world s))) = (c_goroutines s)[g := pc'] \<and>
      calm_step n (c_store s) (c_goroutines s ! g) (pc', c_store (moved g s (run_state m (c_world s))))
        (c_world (moved g s (run_state m (c_world s))))"
    if "wp m (calm_step n (c_store s) (c_goroutines s ! g)) (c_world s)" for m
    using that by (auto simp: moved_def wp_def split: prod.splits)
  note store_moves = moves [OF wp_generate_calm [OF works pc(1,2) _ pc(3)]] moves [OF wp_get_calm [OF pc(2)]]
  show ?thesis
  proof (cases "c_goroutines s ! g")
    case (AtUnlock r m res)
    then show ?thesis
      using t g pc by (intro exI [of _ "Returned r res"]) (cases res; auto simp: step_def calm_step_def)
  next
    case (Locking r a p)
    then show ?thesis
      using t g pc by (auto simp: step_def calm_step_def split: option.splits lock_at.splits)
  qed (use t g store_moves in \<open>auto simp: step_def generate_place_def get_place_def\<close>)
qed

lemma calm_ok_step:
  assumes s: "calls_ok P k0 s" "calm_ok m k0 s" and works: "ecdsa_works P sign verify" and t: "step P g s = Some t"
  shows "calm_ok m k0 t"
proof -
  let ?gs = "c_goroutines s"
  have g: "g < length ?gs"
    using t by (auto simp: step_def split: if_splits)
  obtain n where n: "to_draw ?gs = n + draws (?gs ! g)" and n': "\<forall>pc'. to_draw (?gs[g := pc']) = n + draws pc'"
    by (rule to_draw_update [OF g])
  obtain pc' where gs: "c_goroutines t = ?gs[g := pc']" and calm: "calm_step (m + n) (c_store s) (?gs ! g) (pc', c_store t) (c_world t)"
    using step_calm [OF s works t, of "m + n"] n by auto
  have le: "store_le P (c_store s) (c_store t)"
    using step_cases_ok [OF s(1) t] by (auto simp: step_ok_def store_step_ok_def)
  have refused: "refused_present (c_store t) pc" if "pc \<in> set (c_goroutines t)" for pc
    using that calm s(2) refused_present_le [OF _ le] set_update_subset_insert [of ?gs g pc']
    by (auto simp: gs calm_step_def calm_ok_def)
  have kept: "\<exists>q \<in> set (c_goroutines t). won q = Some r" if pc: "won pc = Some r" "pc \<in> set ?gs" for pc r
  proof -
    obtain j where j: "j < length ?gs" "?gs ! j = pc"
      using pc(2) by (auto simp: in_set_conv_nth)
    then have "won (c_goroutines t ! j) = Some r"
      using calm pc(1) by (cases "j = g") (auto simp: gs calm_step_def)
    then show ?thesis
      using j(1) gs by (metis length_list_update nth_mem)
  qed
  have here: "pc' \<in> set (c_goroutines t)"
    using g by (simp add: gs set_update_memI)
  have "fks_present k0 r \<or> (\<exists>q \<in> set (c_goroutines t). won q = Some r)" if "fks_present (c_store t) r" for r
  proof -
    have "fks_present (c_store s) r \<or> won pc' = Some r"
      using calm that by (auto simp: calm_step_def)
    then show ?thesis
      using here kept s(2) unfolding calm_ok_def by blast
  qed
  then show ?thesis
    using refused calm n' unfolding calm_ok_def calm_step_def gs by (auto simp: add.assoc)
qed

lemma calm_schedule:
  assumes "calls_ok P k0 s" and "calm_ok m k0 s" and works: "ecdsa_works P sign verify"
  shows "calm_ok m k0 (schedule P gs s)"
  using assms(1,2)
proof (induction gs arbitrary: s)
  case (Cons g gs)
  show ?case
  proof (cases "step P g s")
    case (Some t)
    then show ?thesis
      using Cons.IH [OF step_kept(1) [OF Cons.prems(1) Some] calm_ok_step [OF Cons.prems works Some]] by simp
  qed (use Cons in simp)
qed simp

section \<open>The calls of several goroutines\<close>

definition ended :: "KeyRef \<times> Algorithm option \<Rightarrow> goroutine \<Rightarrow> bool" where
  "ended c pc \<longleftrightarrow> (case c of (r, Some alg) \<Rightarrow> (\<exists>res. pc = Returned r res) | (r, None) \<Rightarrow> (\<exists>res. pc = Fetched r res))"

text \<open>In a round every goroutine has one turn, one after the other: ten rounds for each of the \<open>n\<close> goroutines.\<close>

definition rounds :: "nat \<Rightarrow> nat list" where
  "rounds n = concat (replicate (10 * n) [0..<n])"

lemma its_call_launched:
  assumes "i < length cs" and "s = schedule P gs (launch k w cs)"
  shows "i < length (c_goroutines s)" "its_call (c_goroutines s ! i) = (fst (cs ! i), snd (cs ! i) \<noteq> None)"
proof -
  have calls: "map its_call (c_goroutines s) = map (its_call \<circ> call_of) cs"
    unfolding assms(2) its_call_schedule by (simp add: launch_def)
  then show i: "i < length (c_goroutines s)"
    using assms(1) by (metis length_map)
  have "its_call (c_goroutines s ! i) = its_call (call_of (cs ! i))"
    using arg_cong [OF calls, of "\<lambda>xs. xs ! i"] i assms(1) by simp
  then show "its_call (c_goroutines s ! i) = (fst (cs ! i), snd (cs ! i) \<noteq> None)"
    by (cases "cs ! i" rule: call_of.cases) simp_all
qed

lemma launched_ok: "fks_ok P k \<Longrightarrow> calls_ok P k (schedule P gs (launch k w cs))"
  using schedule_kept launch_ok by blast

lemma launched_length: "length (c_goroutines (schedule P gs (launch k w cs))) = length cs"
  using arg_cong [OF its_call_schedule, of length P gs "launch k w cs"] by (simp add: launch_def)

lemma launched_work: "work (launch k w cs) \<le> 10 * length cs"
proof -
  have "sum_list (map rank (map call_of cs)) \<le> sum_list (map (\<lambda>_. 10) cs)"
    by (simp only: map_map) (intro sum_list_mono, simp add: call_of_places)
  then show ?thesis
    by (simp add: work_def launch_def sum_list_triv)
qed

lemma launched_draws: "to_draw (map call_of cs) \<le> length cs"
proof (induction cs)
  case (Cons c cs)
  then show ?case
    by (cases c rule: call_of.cases) (simp_all add: to_draw_def)
qed (simp add: to_draw_def)

lemma ended_rank:
  "rank pc = 0 \<Longrightarrow> its_call pc = (fst c, snd c \<noteq> None) \<Longrightarrow> ended c pc"
  by (cases c; cases "snd c"; cases pc) (auto simp: ended_def split: lock_at.splits)

lemma rounds_end:
  assumes ok: "fks_ok P k" and i: "i < length cs"
  shows "ended (cs ! i) (c_goroutines (schedule P (gs @ rounds (length cs)) (launch k w cs)) ! i)"
proof -
  let ?s = "schedule P gs (launch k w cs)" and ?t = "schedule P (gs @ rounds (length cs)) (launch k w cs)"
  have "work ?s \<le> 10 * length cs"
    using schedule_kept [OF launch_ok [OF ok], of gs w cs] launched_work [of k w cs] by linarith
  then have "work ?t = 0"
    using rounds_work_off [OF launched_ok [OF ok, of gs w cs] launched_length, of "10 * length cs"]
    by (simp add: schedule_append rounds_def)
  moreover note call = its_call_launched [OF i refl, of P "gs @ rounds (length cs)" k w]
  ultimately have "rank (c_goroutines ?t ! i) = 0"
    by (auto simp: work_def)
  then show ?thesis
    by (rule ended_rank [OF _ call(2)])
qed

text \<open>C18. Whatever \<open>Generate\<close> and \<open>Get\<close> run at the same time, in whatever order their steps come and whatever
  file operations fail: at any moment, at most one \<open>Generate\<close> per reference has returned a key, and only for a reference
  that had none; every key a call has returned is the key on disk; and the keys that were there are still there.\<close>

theorem concurrent_calls_safe:
  assumes "fks_ok P k" and "s = schedule P gs (launch k w cs)"
  shows "(\<forall>i r sg. i < length cs \<longrightarrow> c_goroutines s ! i = Returned r (Inr sg) \<longrightarrow> \<not> fks_present k r \<and>
        (\<forall>j sg'. j < length cs \<longrightarrow> c_goroutines s ! j = Returned r (Inr sg') \<longrightarrow> j = i)) \<and>
    (\<forall>i r sg. i < length cs \<longrightarrow> c_goroutines s ! i \<in> {Returned r (Inr sg), Fetched r (Inr sg)} \<longrightarrow>
        r = fst (cs ! i) \<and> fks_stored P (c_store s) r = Some sg) \<and>
    (\<forall>r. fks_present k r \<longrightarrow> fks_present (c_store s) r \<and> fks_stored P (c_store s) r = fks_stored P k r)"
proof -
  have ok: "calls_ok P k s" and len: "length (c_goroutines s) = length cs"
    using launched_ok [OF assms(1)] launched_length by (simp_all add: assms(2))
  have one: "\<not> fks_present k r \<and> (won (c_goroutines s ! j) = Some r \<longrightarrow> j = i)"
    if "i < length cs" "j < length cs" "won (c_goroutines s ! i) = Some r" for i j r
    using ok that len unfolding calls_ok_def winners_ok_def by metis
  have place: "place_ok P (c_locks s) (c_store s) i (c_goroutines s ! i)"
    and call: "fst (its_call (c_goroutines s ! i)) = fst (cs ! i)" if "i < length cs" for i
    using ok that len its_call_launched [OF that assms(2)] by (simp_all add: calls_ok_def)
  have "\<forall>r. fks_present k r \<longrightarrow> fks_present (c_store s) r \<and> fks_stored P (c_store s) r = fks_stored P k r"
    using ok by (simp add: calls_ok_def store_le_def)
  moreover have "r = fst (cs ! i) \<and> fks_stored P (c_store s) r = Some sg"
    if "i < length cs" "c_goroutines s ! i \<in> {Returned r (Inr sg), Fetched r (Inr sg)}" for i r sg
    using place [OF that(1)] call [OF that(1)] that(2) by auto
  moreover have "\<not> fks_present k r \<and> (\<forall>j sg'. j < length cs \<longrightarrow> c_goroutines s ! j = Returned r (Inr sg') \<longrightarrow> j = i)"
    if "i < length cs" "c_goroutines s ! i = Returned r (Inr sg)" for i r sg
    using one [OF that(1)] that by fastforce
  ultimately show ?thesis
    by blast
qed

text \<open>C20. The locks cannot deadlock and every call returns: from any point of any schedule of \<open>n\<close> goroutines, ten times \<open>n\<close>
  rounds, in each of which every goroutine has one turn, are enough for all calls to return, whatever fails.\<close>

theorem concurrent_calls_end:
  assumes "fks_ok P k" and "i < length cs"
  shows "ended (cs ! i) (c_goroutines (schedule P (gs @ rounds (length cs)) (launch k w cs)) ! i)"
  using assms by (rule rounds_end)

lemma calm_launched:
  assumes "fks_ok P k" and "ecdsa_works P sign verify" and "entropy (m + length cs) w"
    and "\<forall>c \<in> set cs. snd c \<in> {None, Some AlgorithmECDSAP256}"
  shows "calm_ok m k (schedule P gs (launch k w cs))"
proof (rule calm_schedule [OF launch_ok [OF assms(1)] _ assms(2)])
  have "refused_present k (call_of c)" if "c \<in> set cs" for c
    using assms(4) that by (cases c rule: call_of.cases) auto
  then show "calm_ok m k (launch k w cs)"
    using entropy_le [OF assms(3)] launched_draws [of cs] by (auto simp: calm_ok_def launch_def)
qed

lemma one_generates:
  assumes "fks_ok P k" and "ecdsa_works P sign verify" and "entropy (length cs) w"
    and "\<forall>c \<in> set cs. snd c \<in> {None, Some AlgorithmECDSAP256}" and "(r, Some AlgorithmECDSAP256) \<in> set cs"
    and "\<not> fks_present k r" and "s = schedule P (gs @ rounds (length cs)) (launch k w cs)"
  shows "\<exists>!i. i < length cs \<and> (\<exists>sg. c_goroutines s ! i = Returned r (Inr sg))"
proof -
  have calm: "calm_ok 0 k s"
    unfolding assms(7) using calm_launched [OF assms(1,2) _ assms(4), of 0 w] assms(3) by simp
  have len: "length (c_goroutines s) = length cs"
    unfolding assms(7) by (rule launched_length)
  have ended: "ended (cs ! i) (c_goroutines s ! i)" if "i < length cs" for i
    using rounds_end [OF assms(1) that] by (simp add: assms(7))
  obtain i0 where i0: "i0 < length cs" "cs ! i0 = (r, Some AlgorithmECDSAP256)"
    using assms(5) by (auto simp: in_set_conv_nth)
  then obtain res where "c_goroutines s ! i0 = Returned r res"
    using ended by (fastforce simp: ended_def)
  then have res: "Returned r res \<in> set (c_goroutines s)"
    using i0(1) len by (metis nth_mem)
  have "\<exists>pc \<in> set (c_goroutines s). won pc = Some r"
  proof (cases res)
    case (Inl e)
    then have "fks_present (c_store s) r"
      using calm res by (auto simp: calm_ok_def)
    then show ?thesis
      using calm assms(6) by (auto simp: calm_ok_def)
  next
    case (Inr sg)
    then show ?thesis
      using res by (intro bexI [of _ "Returned r res"]) simp_all
  qed
  then obtain i where i: "i < length cs" "won (c_goroutines s ! i) = Some r"
    by (auto simp: in_set_conv_nth len)
  then have "\<exists>sg. c_goroutines s ! i = Returned r (Inr sg)"
    using ended [OF i(1)] by (cases "c_goroutines s ! i" rule: won.cases) (auto simp: ended_def split: prod.splits option.splits)
  moreover have "j = i" if "j < length cs" "c_goroutines s ! j = Returned r (Inr sg)" for j sg
    using launched_ok [OF assms(1), of "gs @ rounds (length cs)" w cs] i that len unfolding assms(7) calls_ok_def winners_ok_def
    by (metis won.simps(3))
  ultimately show ?thesis
    using i(1) by blast
qed

text \<open>C19. When nothing fails, exactly one of the goroutines that call \<open>Generate\<close> for a reference without a key
  gets one, whatever the interleaving: the contract \<open>testGenerateConcurrentSameRef\<close> samples.\<close>

theorem exactly_one_generates:
  assumes "fks_ok P k" and "ecdsa_works P sign verify" and "entropy (length cs) w"
    and "\<forall>c \<in> set cs. snd c \<in> {None, Some AlgorithmECDSAP256}" and "(r, Some AlgorithmECDSAP256) \<in> set cs"
    and "\<not> fks_present k r" and "s = schedule P (gs @ rounds (length cs)) (launch k w cs)"
  shows "\<exists>!i. i < length cs \<and> (\<exists>sg. c_goroutines s ! i = Returned r (Inr sg))"
  using one_generates [OF assms] .

section \<open>One goroutine alone\<close>

lemma Generate_by_steps:
  "run_state (FileKeyStore_Generate P k r alg) w =
     (case run_state (FileKeyStore_Exists k r) w of
        (Inl e, w1) \<Rightarrow> ((Inl e, k), w1)
      | (Inr present, w1) \<Rightarrow>
          (if present then ((Inl (KeyAlreadyExists r), k), w1)
           else case run_state (sealed_key P (fk_passphrase k) alg) w1 of
             (Inl e, w2) \<Rightarrow> ((Inl e, k), w2)
           | (Inr (sg, kf), w2) \<Rightarrow>
               (case run_state (WriteFile_step k r kf) w2 of
                  ((Inl e, k1), w3) \<Rightarrow> ((Inl e, k1), w3)
                | ((Inr _, k1), w3) \<Rightarrow>
                    (case run_state (Rename_step k1 r) w3 of
                       ((Inl e, k2), w4) \<Rightarrow> ((Inl e, k2), w4)
                     | ((Inr _, k2), w4) \<Rightarrow> ((Inr sg, k2\<lparr>fk_cached := put r sg (fk_cached k2)\<rparr>), w4)))))"
  by (auto simp: FileKeyStore_Generate_def sealed_key_def writeKeyFileAtomic_def WriteFile_step_def Rename_step_def tmp_path_def
      Let_def put_def filter_filter State_Monad.return_def State_Monad.bind_def
      split: prod.splits sum.splits option.splits fault.splits if_splits)

definition lone :: "KeyRef \<Rightarrow> nat option \<Rightarrow> FileKeyStore \<Rightarrow> 'x world_scheme \<Rightarrow> goroutine \<Rightarrow> 'x calls" where
  "lone r h k w pc = \<lparr>c_locks = \<lparr>rl_mu = None, rl_locks = [(r, 0)], rl_heap = [h]\<rparr>, c_store = k, c_world = w, c_goroutines = [pc]\<rparr>"

lemma lone_locks: "schedule P [0, 0, 0, 0] (launch k w [(r, Some alg)]) = lone r (Some 0) k w (AtExists r alg 0)"
  by (simp add: launch_def step_def newRefLocker_def Let_def lone_def)

lemma lone_moves:
  assumes "generate_place pc"
  shows "schedule P (0 # gs) (lone r h k w pc) =
    (case run_state (generate_step P pc k) w of ((pc', k'), w') \<Rightarrow> schedule P gs (lone r h k' w' pc'))"
  using assms by (cases pc) (simp_all add: generate_place_def step_def moved_def lone_def split_def del: generate_step.simps)

lemma lone_returned: "schedule P gs (lone r h k w (Returned r res)) = lone r h k w (Returned r res)"
proof (induction gs)
  case (Cons g gs)
  have "step P g (lone r h k w (Returned r res)) = None"
    by (cases g) (simp_all add: step_def lone_def)
  then show ?case
    using Cons by simp
qed simp

lemma lone_unlocks:
  "schedule P (0 # gs) (lone r (Some 0) k w (AtUnlock r 0 res)) = lone r None k w (Returned r res)"
  using lone_returned [of P gs r None k w res] by (simp add: step_def lone_def unlock_def)

lemma lone_generates:
  "schedule P [0, 0, 0, 0, 0, 0] (lone r (Some 0) k w (AtExists r alg 0)) =
     (case run_state (FileKeyStore_Generate P k r alg) w of ((res, k'), w') \<Rightarrow> lone r None k' w' (Returned r res))"
  unfolding Generate_by_steps
  by (simp add: lone_moves lone_unlocks generate_place_def State_Monad.return_def del: schedule.simps
      split: prod.split sum.split)

lemma lone_gets:
  "schedule P (replicate 3 0) (launch k w [(r, None)]) =
     (case run_state (FileKeyStore_Get P k r) w of ((res, k'), w') \<Rightarrow>
        \<lparr>c_locks = newRefLocker, c_store = k', c_world = w', c_goroutines = [Fetched r res]\<rparr>)"
proof -
  have get: "run_state (FileKeyStore_Get P k r) w = (case map_of (fk_cached k) r of
      Some sg \<Rightarrow> ((Inr sg, k), w)
    | None \<Rightarrow> (case run_state io w of (f, w') \<Rightarrow>
        if f \<noteq> Runs then ((Inl IOFailed, k), w')
        else case map_of (fk_disk k) (path k r) of
               None \<Rightarrow> ((Inl (KeyNotFound r), k), w')
             | Some c \<Rightarrow> (case unseal P (fk_passphrase k) r c of
                 Inl err \<Rightarrow> ((Inl err, k), w')
               | Inr sg \<Rightarrow> ((Inr sg, k\<lparr>fk_cached := put r sg (fk_cached k)\<rparr>), w'))))"
    by (simp add: FileKeyStore_Get_def State_Monad.return_def split: option.split prod.split sum.split)
  let ?s = "\<lambda>pc k w. \<lparr>c_locks = newRefLocker, c_store = k, c_world = w, c_goroutines = [pc]\<rparr>"
  have turns: "schedule P (replicate 3 0) s = (let t = (\<lambda>s. case step P 0 s of None \<Rightarrow> s | Some t \<Rightarrow> t) in t (t (t s)))"
      for s :: "'a calls"
    by (simp add: numeral_3_eq_3)
  have steps: "step P 0 (?s (AtLookup r) k w) = Some (?s (case map_of (fk_cached k) r of Some sg \<Rightarrow> Fetched r (Inr sg) | None \<Rightarrow> AtRead r) k w)"
    "step P 0 (?s (AtRead r) k w) = (case run_state io w of (f, w') \<Rightarrow> Some (?s
       (if f \<noteq> Runs then Fetched r (Inl IOFailed)
        else case map_of (fk_disk k) (path k r) of
               None \<Rightarrow> Fetched r (Inl (KeyNotFound r))
             | Some c \<Rightarrow> (case unseal P (fk_passphrase k) r c of Inl err \<Rightarrow> Fetched r (Inl err) | Inr sg \<Rightarrow> AtPut r sg)) k w'))"
    "step P 0 (?s (AtPut r sg) k w) = Some (?s (Fetched r (Inr sg)) (k\<lparr>fk_cached := put r sg (fk_cached k)\<rparr>) w)"
    "step P 0 (?s (Fetched r res) k w) = None" for sg res k and w :: "'a world_scheme"
    by (simp_all add: step_def moved_def State_Monad.return_def split: prod.split)
  have start: "launch k w [(r, None)] = ?s (AtLookup r) k w"
    by (simp add: launch_def)
  show ?thesis
    unfolding turns start get
    by (cases "map_of (fk_cached k) r"; cases "run_state io w") (auto simp: Let_def steps split: option.split sum.split)
qed

text \<open>A goroutine that is not interrupted does what the sequential \<open>Generate\<close> and \<open>Get\<close> say, in result, files,
  cache and effects, and leaves every lock free.\<close>

lemma alone_as_sequential:
  "schedule P (replicate 10 0) (launch k w [(r, Some alg)]) =
     (case run_state (FileKeyStore_Generate P k r alg) w of ((res, k'), w') \<Rightarrow>
        \<lparr>c_locks = \<lparr>rl_mu = None, rl_locks = [(r, 0)], rl_heap = [None]\<rparr>, c_store = k', c_world = w',
         c_goroutines = [Returned r res]\<rparr>) \<and>
   schedule P (replicate 3 0) (launch k w [(r, None)]) =
     (case run_state (FileKeyStore_Get P k r) w of ((res, k'), w') \<Rightarrow>
        \<lparr>c_locks = newRefLocker, c_store = k', c_world = w', c_goroutines = [Fetched r res]\<rparr>)"
proof
  have turns: "replicate 10 (0 :: nat) = [0, 0, 0, 0] @ [0, 0, 0, 0, 0, 0]"
    by (simp add: eval_nat_numeral)
  show "schedule P (replicate 10 0) (launch k w [(r, Some alg)]) =
     (case run_state (FileKeyStore_Generate P k r alg) w of ((res, k'), w') \<Rightarrow>
        \<lparr>c_locks = \<lparr>rl_mu = None, rl_locks = [(r, 0)], rl_heap = [None]\<rparr>, c_store = k', c_world = w',
         c_goroutines = [Returned r res]\<rparr>)"
    unfolding turns schedule_append lone_locks lone_generates by (simp add: lone_def)
  show "schedule P (replicate 3 0) (launch k w [(r, None)]) =
     (case run_state (FileKeyStore_Get P k r) w of ((res, k'), w') \<Rightarrow>
        \<lparr>c_locks = newRefLocker, c_store = k', c_world = w', c_goroutines = [Fetched r res]\<rparr>)"
    by (rule lone_gets)
qed

section \<open>The contract suite of the key stores\<close>

text \<open>What a goroutine has returned.\<close>

fun result_of :: "goroutine \<Rightarrow> (ks_error + signer) option" where
  "result_of (Returned r res) = Some res"
| "result_of (Fetched r res) = Some res"
| "result_of pc = None"

text \<open>The goroutines of \<open>testGenerateConcurrentSameRef\<close> move in any order \<open>gs\<close> for any time; \<open>wg.Wait\<close> is that they
  then run on until all have returned. The mutexes the store has from earlier calls belong to other references and are free, so
  the goroutines start with no mutex.\<close>

definition concurrent_Generate ::
    "ks_prims \<Rightarrow> nat list \<Rightarrow> nat \<Rightarrow> FileKeyStore \<Rightarrow> KeyRef \<Rightarrow>
     ('x world_scheme, (ks_error + signer) option list \<times> FileKeyStore) state" where
  "concurrent_Generate P gs attempts ks ref = State (\<lambda>w.
     let s = schedule P (gs @ rounds attempts) (launch ks w (replicate attempts (ref, Some AlgorithmECDSAP256)))
     in ((map result_of (c_goroutines s), c_store s), c_world s))"

definition succeeded :: "(ks_error + signer) option \<Rightarrow> bool" where
  "succeeded res = (case res of Some (Inr _) \<Rightarrow> True | _ \<Rightarrow> False)"

definition testGenerateConcurrentSameRef ::
    "ks_prims \<Rightarrow> nat list \<Rightarrow> FileKeyStore \<Rightarrow> KeyRef \<Rightarrow> ('x world_scheme, bool \<times> FileKeyStore) state" where
  "testGenerateConcurrentSameRef P gs ks ref = do {
     let attempts = 8;
     (results, ks1) \<leftarrow> concurrent_Generate P gs attempts ks ref;
     let successCount = length (filter succeeded results);
     ret (successCount = 1, ks1)
   }"

text \<open>\<open>Run\<close> on the file store.\<close>

definition keystoretest_Run ::
    "ks_prims \<Rightarrow> (signer \<Rightarrow> string \<Rightarrow> string option) \<Rightarrow> (pubkey \<Rightarrow> string \<Rightarrow> string \<Rightarrow> bool) \<Rightarrow> (string \<Rightarrow> string) \<Rightarrow> nat list \<Rightarrow>
     FileKeyStore \<Rightarrow> KeyRef \<Rightarrow> ('x world_scheme, bool list \<times> FileKeyStore) state" where
  "keystoretest_Run P sign VerifyASN1 Sum256 gs ks pre = do {
     (ok1, ks1) \<leftarrow> testExists FileKeyStore_Exists (FileKeyStore_Generate P) ks (pre @ ''-exists'');
     (ok2, ks2) \<leftarrow> testGenerateGetRoundTrip (FileKeyStore_Generate P) (FileKeyStore_Get P) sg_Public ks1 (pre @ ''-roundtrip'');
     (ok3, ks3) \<leftarrow> testGenerateExistingRefErrors (FileKeyStore_Generate P) ks2 (pre @ ''-noclobber'');
     (ok4, ks4) \<leftarrow> testGenerateConcurrentSameRef P gs ks3 (pre @ ''-concurrent'');
     (ok5, ks5) \<leftarrow> testSignVerifiable (FileKeyStore_Generate P) (FileKeyStore_Sign sign) sg_Public VerifyASN1 Sum256 ks4 (pre @ ''-sign'');
     ret ([ok1, ok2, ok3, ok4, ok5], ks5)
   }"

lemma one_success:
  assumes "\<exists>!i. i < length xs \<and> Q (xs ! i)"
  shows "length (filter Q xs) = 1"
proof -
  obtain i where "{i. i < length xs \<and> Q (xs ! i)} = {i}"
    using assms by blast
  then show ?thesis
    by (simp add: length_filter_conv_card)
qed

lemma succeeded_iff: "its_call pc = (r, True) \<Longrightarrow> succeeded (result_of pc) \<longleftrightarrow> (\<exists>sg. pc = Returned r (Inr sg))"
  by (cases pc) (auto simp: succeeded_def split: sum.splits)

lemma won_its_call: "won pc = Some r \<Longrightarrow> fst (its_call pc) = r"
  by (cases pc rule: won.cases) auto

lemma pass_ConcurrentSameRef:
  assumes "ecdsa_works P sign verify" and "fks_ok P k" and "\<not> fks_present k r" and "entropy (8 + n) w"
  shows "wp (testGenerateConcurrentSameRef P gs k r) (fks_answers.passes P sign verify k r n) w"
proof -
  define cs where "cs = replicate 8 (r, Some AlgorithmECDSAP256)"
  define s where "s = schedule P (gs @ rounds (length cs)) (launch k w cs)"
  have cs: "length cs = 8" "\<forall>c \<in> set cs. snd c \<in> {None, Some AlgorithmECDSAP256}" "(r, Some AlgorithmECDSAP256) \<in> set cs"
    by (simp_all add: cs_def)
  have ent: "entropy (n + length cs) w" "entropy (length cs) w"
    using assms(4) by (auto simp: cs(1) add.commute intro: entropy_le)
  have call: "its_call (c_goroutines s ! i) = (r, True)" if "i < 8" for i
    using its_call_launched(2) [of i cs s P "gs @ rounds (length cs)" k w] that by (simp add: s_def cs_def)
  have len: "length (c_goroutines s) = 8"
    by (simp add: s_def launched_length cs(1))
  have "\<exists>!i. i < length cs \<and> (\<exists>sg. c_goroutines s ! i = Returned r (Inr sg))"
    by (rule one_generates [OF assms(2,1) ent(2) cs(2,3) assms(3) s_def])
  then have "\<exists>!i. i < 8 \<and> succeeded (result_of (c_goroutines s ! i))"
    by (simp add: cs(1) succeeded_iff [OF call] cong: conj_cong)
  then have one: "length (filter succeeded (map result_of (c_goroutines s))) = 1"
    by (intro one_success) (simp add: len cong: conj_cong)
  have ok: "calls_ok P k s" and calm: "calm_ok n k s"
    unfolding s_def by (rule launched_ok [OF assms(2)], rule calm_launched [OF assms(2,1) ent(1) cs(2)])
  have "fks_present (c_store s) r' = fks_present k r'" if "r' \<noteq> r" for r'
  proof
    assume "fks_present (c_store s) r'"
    moreover have "won pc \<noteq> Some r'" if "pc \<in> set (c_goroutines s)" for pc
      using that call won_its_call \<open>r' \<noteq> r\<close> by (metis fst_conv in_set_conv_nth len)
    ultimately show "fks_present k r'"
      using calm by (auto simp: calm_ok_def)
  qed (use ok in \<open>simp add: calls_ok_def store_le_def\<close>)
  moreover have "entropy n (c_world s)" "fks_ok P (c_store s)"
    using calm ok by (auto simp: calm_ok_def calls_ok_def intro: entropy_le)
  moreover have "run_state (testGenerateConcurrentSameRef P gs k r) w = ((True, c_store s), c_world s)"
    using one by (simp add: testGenerateConcurrentSameRef_def concurrent_Generate_def s_def cs_def Let_def State_Monad.return_def)
  ultimately show ?thesis
    using assms(1) unfolding wp_def fks_answers.passes_def by simp
qed

lemma file_store_conforms:
  assumes "fks_ok P ks" and "ecdsa_works P sign verify" and "entropy 12 w"
    and "\<forall>r\<in>set (suite_refs pre). \<not> fks_present ks r"
  shows "fst (fst (run_state (keystoretest_Run P sign verify Sum256 gs ks pre) w)) = replicate 5 True"
proof -
  have "fks_answers.ready_for P sign verify (suite_refs pre) ks (Suc (Suc (Suc (8 + Suc 0)))) w"
    unfolding fks_answers.ready_for_def fks_answers.unused_def
    using assms by (simp add: suite_refs_def eval_nat_numeral)
  then have "wp (keystoretest_Run P sign verify Sum256 gs ks pre) (\<lambda>(oks, k') w'. oks = replicate 5 True) w"
    unfolding keystoretest_Run_def wp_bind suite_refs_def list.map
    apply (rule fks_answers.test_steps(1))
    apply (simp only: prod.case wp_bind)
    apply (erule fks_answers.test_steps(2))
    apply (simp only: prod.case wp_bind)
    apply (erule fks_answers.test_steps(3))
    apply (simp only: prod.case wp_bind)
    apply (erule fks_answers.test_step)
    apply (rule pass_ConcurrentSameRef; assumption)
    apply (simp only: prod.case wp_bind)
    apply (erule fks_answers.sign_step)
    apply (simp add: eval_nat_numeral)
    done
  then show ?thesis
    by (simp add: wp_iff case_prod_unfold)
qed

text \<open>C17. The key stores keep the contract of \<open>keystoretest\<close>. With nothing failing, a file store in which the five references
  are unused passes every test of \<open>Run\<close>, the one that calls \<open>Generate\<close> from eight goroutines in every interleaving of their
  steps: one succeeds. A Vault store passes the four tests that call it from one goroutine.\<close>

theorem key_stores_conform:
  assumes "fks_ok P fs" and "ecdsa_works P sign verify" and "entropy 12 w"
    and "\<forall>r\<in>set (suite_refs pre). \<not> fks_present fs r"
    and "transit_keeps V vs" and "transit_works V verify' vs" and "faults v = []" and "vault_ref pre"
    and "\<forall>r\<in>set (suite_refs pre). \<not> vault_present V vs r"
  shows "fst (fst (run_state (keystoretest_Run P sign verify Sum256 gs fs pre) w)) = replicate 5 True \<and>
    fst (fst (run_state (keystoretest_Sequential (VaultKeyStore_Exists V) (VaultKeyStore_Generate V) (VaultKeyStore_Get V)
       (vaultSigner_Sign V) vs_public verify' Sum256 vs pre) v)) = replicate 4 True"
  using file_store_conforms [OF assms(1-4)] vault_store_conforms [OF assms(5-9)] by blast

section \<open>Two goroutines and a reader\<close>

definition race1 :: "(KeyRef \<times> Algorithm option) list" where
  "race1 = [(''ca'', Some AlgorithmECDSAP256), (''ca'', Some AlgorithmECDSAP256), (''ca'', None)]"

definition race_world :: "unit world_scheme" where
  "race_world = blank (replicate 9 (Some ''A''))"

text \<open>The second goroutine fetches the mutex while the first one holds it, and moves on when it is free.\<close>

definition race_order :: "nat list" where
  "race_order = [0, 0, 0, 1, 0, 1, 1, 0, 1, 0, 0, 0, 2, 2, 0, 0, 2, 1, 1, 1]"

lemma race1_ok: "fks_ok ecdsa1 file_store1" "ecdsa_works ecdsa1 (\<lambda>_. Some) (\<lambda>_ digest sig. sig = digest)" "entropy 3 race_world"
proof -
  show "fks_ok ecdsa1 file_store1"
    by (auto simp: fks_ok_def ks_faithful_def ecdsa1_def file_store1_def)
  show "ecdsa_works ecdsa1 (\<lambda>_. Some) (\<lambda>_ digest sig. sig = digest)"
    by (simp add: ecdsa_works_def ecdsa1_def signs_def is_ecdsa_def)
  show "entropy 3 race_world"
    unfolding entropy_def race_world_def by (intro conjI exI [of _ "replicate 9 ''A''"] exI [of _ "[]"]) (simp_all add: blank_def)
qed

lemma race1_run: "\<exists>sg. c_goroutines (schedule ecdsa1 race_order (launch file_store1 race_world race1)) =
    [Returned ''ca'' (Inr sg), Returned ''ca'' (Inl (KeyAlreadyExists ''ca'')), Fetched ''ca'' (Inr sg)]"
  by (simp add: race_order_def launch_def newRefLocker_def race1_def step_def moved_def Let_def unlock_def FileKeyStore_Exists_def
      sealed_key_def generateKey_def WriteFile_step_def Rename_step_def tmp_path_def path_def io_calm race_world_def blank_def
      rand_Read_def time_Now_def ecdsa1_def file_store1_def put_def unseal_def State_Monad.return_def eval_nat_numeral)

theorem concurrent_calls_safe_witness:
  "\<exists>sg. c_goroutines (schedule ecdsa1 race_order (launch file_store1 race_world race1)) ! 0 = Returned ''ca'' (Inr sg) \<and>
     fks_stored ecdsa1 (c_store (schedule ecdsa1 race_order (launch file_store1 race_world race1))) ''ca'' = Some sg \<and>
     \<not> fks_present file_store1 ''ca''"
proof -
  obtain sg where run: "c_goroutines (schedule ecdsa1 race_order (launch file_store1 race_world race1)) ! 0 = Returned ''ca'' (Inr sg)"
    using race1_run by auto
  have "(0 :: nat) < length race1"
    by (simp add: race1_def)
  with concurrent_calls_safe [OF race1_ok(1) refl, where gs = race_order and w = race_world and cs = race1] run show ?thesis
    by blast
qed

theorem concurrent_calls_end_witness:
  "\<exists>res. c_goroutines (schedule ecdsa1 (race_order @ rounds 3) (launch file_store1 race_world race1)) ! 1 = Returned ''ca'' res"
  using concurrent_calls_end [OF race1_ok(1), of 1 race1 race_order race_world] by (simp add: race1_def ended_def numeral_3_eq_3)

theorem exactly_one_generates_witness:
  "\<exists>!i. i < 3 \<and> (\<exists>sg. c_goroutines (schedule ecdsa1 (race_order @ rounds 3) (launch file_store1 race_world race1)) ! i =
     Returned ''ca'' (Inr sg))"
  using exactly_one_generates [OF race1_ok(1,2) _ _ _ _ refl, of race1 race_world "''ca''" race_order] race1_ok(3)
  by (simp add: race1_def fks_present_def file_store1_def numeral_3_eq_3)

theorem key_stores_conform_witness:
  "fst (fst (run_state (keystoretest_Run ecdsa1 (\<lambda>_. Some) (\<lambda>_ digest sig. sig = digest) (\<lambda>m. m) race_order file_store1 ''t'')
     (blank (replicate 36 (Some ''A''))))) = replicate 5 True \<and>
   fst (fst (run_state (keystoretest_Sequential (VaultKeyStore_Exists vault3) (VaultKeyStore_Generate vault3) (VaultKeyStore_Get vault3)
     (vaultSigner_Sign vault3) vs_public echoes (\<lambda>m. m) vault_store1 ''t'') calm)) = replicate 4 True"
proof (rule key_stores_conform [OF race1_ok(1,2) _ _ vault3_works])
  show "entropy 12 (blank (replicate 36 (Some ''A'')))"
    unfolding entropy_def by (intro conjI exI [of _ "replicate 36 ''A''"] exI [of _ "[]"]) (simp_all add: blank_def)
qed (simp_all add: calm_def vault_ref_def vault_present_def vault_read_def vault3_def vault1_def vault_store1_def
    fks_present_def file_store1_def)

end
