(* ===== verification/Rfc3339.thy ===== *)
theory Rfc3339
  imports Gostd "HOL-Library.List_Lexorder" "HOL-Library.Char_ord"
begin

text \<open>
  The text of an instant as the SQLite backend stores it: \<open>t.UTC().Format(time.RFC3339)\<close> and
  \<open>time.Parse(time.RFC3339, s)\<close> of Go's package \<open>time\<close>, with the Gregorian calendar they rest on. Shown are
  the round trip, which keeps whole seconds, and that the order of two texts, byte by byte, is the order
  of the instants, both for the years 0 to 9999, whose texts have the same length.
\<close>

section \<open>The calendar\<close>

definition isLeap :: "int \<Rightarrow> bool" where
  "isLeap y \<longleftrightarrow> y mod 4 = 0 \<and> (y mod 100 \<noteq> 0 \<or> y mod 400 = 0)"

definition month_lengths :: "int \<Rightarrow> int list" where
  "month_lengths y = [31, if isLeap y then 29 else 28, 31, 30, 31, 30, 31, 31, 30, 31, 30, 31]"

definition daysIn :: "int \<Rightarrow> nat \<Rightarrow> int" where
  "daysIn y m = month_lengths y ! (m - 1)"

text \<open>Days from the first of January of the year 1 to that of the year \<open>y\<close>.\<close>

definition year_start :: "int \<Rightarrow> int" where
  "year_start y = 365 * (y - 1) + (y - 1) div 4 - (y - 1) div 100 + (y - 1) div 400"

text \<open>The year and the day in it (from 0), cutting off cycles of 400, 100, 4 years and 1 year.\<close>

definition year_day :: "int \<Rightarrow> int \<times> int" where
  "year_day d =
     (let n400 = d div 146097; d = d mod 146097;
          n100 = (let n = d div 36524 in n - n div 4); d = d - 36524 * n100;
          n4 = d div 1461; d = d - 1461 * n4;
          n1 = (let n = d div 365 in n - n div 4); d = d - 365 * n1
      in (400 * n400 + 100 * n100 + 4 * n4 + n1 + 1, d))"

fun month_day :: "nat \<Rightarrow> int list \<Rightarrow> int \<Rightarrow> nat \<times> int" where
  "month_day m [] d = (m, d + 1)"
| "month_day m (l # ls) d = (if d < l then (m, d + 1) else month_day (Suc m) ls (d - l))"

definition absDate :: "int \<Rightarrow> int \<times> nat \<times> int" where
  "absDate d = (case year_day d of (y, yd) \<Rightarrow> case month_day 1 (month_lengths y) yd of (m, day) \<Rightarrow> (y, m, day))"

definition day_number :: "int \<Rightarrow> nat \<Rightarrow> int \<Rightarrow> int" where
  "day_number y m day = year_start y + sum_list (take (m - 1) (month_lengths y)) + day - 1"

section \<open>Format\<close>

text \<open>\<open>appendInt(b, n, width)\<close>\<close>

definition appendInt :: "nat \<Rightarrow> int \<Rightarrow> string" where
  "appendInt width n =
     (let ds = decimal (nat \<bar>n\<bar>) in (if n < 0 then ''-'' else []) @ replicate (width - length ds) (digit 0) @ ds)"

definition unix_day :: int where "unix_day = 719162"

definition Format_RFC3339 :: "time \<Rightarrow> string" where
  "Format_RFC3339 t =
     (let s = Unix t; sod = s mod 86400 in
      case absDate (s div 86400 + unix_day) of (y, m, day) \<Rightarrow>
        appendInt 4 y @ ''-'' @ appendInt 2 (int m) @ ''-'' @ appendInt 2 day @ ''T'' @
        appendInt 2 (sod div 3600) @ '':'' @ appendInt 2 (sod div 60 mod 60) @ '':'' @ appendInt 2 (sod mod 60) @ ''Z'')"

section \<open>Parse\<close>

definition parseUint :: "string \<Rightarrow> nat \<Rightarrow> nat \<Rightarrow> nat option" where
  "parseUint s lo hi = (case read_digits 0 s of None \<Rightarrow> None | Some x \<Rightarrow> (if x < lo \<or> hi < x then None else Some x))"

definition is_digit :: "char \<Rightarrow> bool" where
  "is_digit c \<longleftrightarrow> undigit c \<noteq> None"

text \<open>The fraction after the seconds, in nanoseconds; digits past the ninth are dropped.\<close>

definition parseNanoseconds :: "string \<Rightarrow> nat" where
  "parseNanoseconds ds = (let kept = take 9 ds in the (read_digits 0 kept) * 10 ^ (9 - length kept))"

definition fraction :: "string \<Rightarrow> nat \<times> string" where
  "fraction s =
     (if length s \<ge> 2 \<and> hd s = CHR ''.'' \<and> is_digit (s ! 1)
      then (parseNanoseconds (takeWhile is_digit (tl s)), dropWhile is_digit (tl s))
      else (0, s))"

definition zone_offset :: "string \<Rightarrow> int option" where
  "zone_offset s =
     (if s = ''Z'' then Some 0
      else if length s \<noteq> 6 then None
      else case (parseUint (take 2 (drop 1 s)) 0 23, parseUint (drop 4 s) 0 59) of
        (Some hr, Some mm) \<Rightarrow>
          (if (hd s = CHR ''-'' \<or> hd s = CHR ''+'') \<and> s ! 3 = CHR '':''
           then Some ((if hd s = CHR ''-'' then -1 else 1) * (int hr * 60 + int mm) * 60)
           else None)
      | _ \<Rightarrow> None)"

definition parseRFC3339 :: "string \<Rightarrow> time option" where
  "parseRFC3339 s =
     (if length s < 19 then None
      else case (parseUint (take 4 s) 0 9999, parseUint (take 2 (drop 5 s)) 1 12) of
        (Some y, Some m) \<Rightarrow>
          (case (parseUint (take 2 (drop 8 s)) 1 (nat (daysIn (int y) m)), parseUint (take 2 (drop 11 s)) 0 23,
                 parseUint (take 2 (drop 14 s)) 0 59, parseUint (take 2 (drop 17 s)) 0 59) of
             (Some day, Some h, Some mi, Some sec) \<Rightarrow>
               (if \<not> (s ! 4 = CHR ''-'' \<and> s ! 7 = CHR ''-'' \<and> s ! 10 = CHR ''T'' \<and> s ! 13 = CHR '':'' \<and> s ! 16 = CHR '':'') then None
                else case fraction (drop 19 s) of (nsec, rest) \<Rightarrow>
                  (case zone_offset rest of
                     None \<Rightarrow> None
                   | Some off \<Rightarrow>
                       Some (((day_number (int y) m (int day) - unix_day) * 86400 + int h * 3600 + int mi * 60 + int sec - off) * Second
                             + int nsec)))
           | _ \<Rightarrow> None)
      | _ \<Rightarrow> None)"

text \<open>\<open>time.Parse\<close> falls back to its general parser, \<open>lenient\<close>, for a text that is not of this form.\<close>

definition Parse_RFC3339 :: "(string \<Rightarrow> time option) \<Rightarrow> string \<Rightarrow> time option" where
  "Parse_RFC3339 lenient s = (case parseRFC3339 s of Some t \<Rightarrow> Some t | None \<Rightarrow> lenient s)"

section \<open>The calendar is consistent\<close>

lemma year_start_cycles:
  assumes "0 \<le> b" "b \<le> 3" "0 \<le> c" "c \<le> 24" "0 \<le> e" "e \<le> 3"
  shows "year_start (400 * a + 100 * b + 4 * c + e + 1) = 146097 * a + 36524 * b + 1461 * c + 365 * e"
proof -
  let ?y = "400 * a + 100 * b + 4 * c + e"
  have "?y div 4 = 100 * a + 25 * b + c"
    by (rule int_div_pos_eq [of _ _ _ e]) (use assms in simp_all)
  moreover have "?y div 100 = 4 * a + b"
    by (rule int_div_pos_eq [of _ _ _ "4 * c + e"]) (use assms in simp_all)
  moreover have "?y div 400 = a"
    by (rule int_div_pos_eq [of _ _ _ "100 * b + 4 * c + e"]) (use assms in simp_all)
  ultimately show ?thesis
    by (simp add: year_start_def)
qed

lemma div_less:
  fixes x n k :: int
  assumes "0 < n" and "x < k * n"
  shows "x div n < k"
proof (rule ccontr)
  assume "\<not> x div n < k"
  then have "k * n \<le> x div n * n"
    using assms(1) by (intro mult_right_mono) simp_all
  also have "\<dots> \<le> x"
    using pos_mod_sign [OF assms(1), of x] by (simp add: minus_mod_eq_div_mult [symmetric])
  finally show False
    using assms(2) by simp
qed

text \<open>Four cycles of \<open>n\<close> days, the last one a day longer.\<close>

lemma cut_cycle:
  fixes x n :: int
  assumes n: "0 < n" and "0 \<le> x" "x < 4 * n + 1" "b = x div n - x div n div 4"
  shows "0 \<le> b" "b \<le> 3" "0 \<le> x - n * b" "x - n * b < n \<or> b = 3 \<and> x - n * b = n"
proof -
  have "0 \<le> b \<and> b \<le> 3 \<and> 0 \<le> x - n * b \<and> (x - n * b < n \<or> b = 3 \<and> x - n * b = n)"
  proof (cases "x = 4 * n")
    case True
    then show ?thesis
      using n assms(4) by simp
  next
    case False
    then have "x < 4 * n"
      using assms(3) by linarith
    then have q: "0 \<le> x div n" "x div n < 4"
      using assms(2) n by (simp_all add: pos_imp_zdiv_nonneg_iff div_less)
    then have b: "b = x div n"
      using assms(4) by (simp add: div_pos_pos_trivial)
    have "x - n * b = x mod n"
      unfolding b by (simp add: minus_mult_div_eq_mod)
    then show ?thesis
      using q n unfolding b by simp
  qed
  then show "0 \<le> b" "b \<le> 3" "0 \<le> x - n * b" "x - n * b < n \<or> b = 3 \<and> x - n * b = n"
    by simp_all
qed

lemma leap_cycle:
  assumes "0 \<le> c" "c \<le> 24" "c = 24 \<Longrightarrow> b = 3"
  shows "isLeap (400 * a + 100 * b + 4 * c + 4)"
proof -
  let ?y = "400 * a + 100 * b + 4 * c + 4"
  have "?y mod 4 = 0"
    by (rule int_mod_pos_eq [of _ _ "100 * a + 25 * b + c + 1"]) simp_all
  moreover have "?y mod 100 = 4 * c + 4" if "c \<noteq> 24"
    by (rule int_mod_pos_eq [of _ _ "4 * a + b"]) (use assms that in simp_all)
  moreover have "?y mod 400 = 0" if "c = 24"
    by (rule int_mod_pos_eq [of _ _ "a + 1"]) (use assms(3) that in simp_all)
  ultimately show ?thesis
    using assms(1) by (cases "c = 24") (auto simp: isLeap_def)
qed

lemma year_day_works:
  assumes "year_day d = (y, r)"
  shows "year_start y + r = d" and "0 \<le> r" and "r < (if isLeap y then 366 else 365)"
proof -
  define a where "a = d div 146097"
  define r1 where "r1 = d mod 146097"
  define b where "b = r1 div 36524 - r1 div 36524 div 4"
  define r2 where "r2 = r1 - 36524 * b"
  define c where "c = r2 div 1461"
  define r3 where "r3 = r2 - 1461 * c"
  define e where "e = r3 div 365 - r3 div 365 div 4"
  have y: "y = 400 * a + 100 * b + 4 * c + e + 1" and r: "r = r3 - 365 * e"
    using assms by (auto simp: year_day_def Let_def a_def r1_def b_def r2_def c_def r3_def e_def)
  have r1: "0 \<le> r1" "r1 < 4 * 36524 + 1" and d: "d = 146097 * a + r1"
    by (simp_all add: r1_def a_def)
  have pos: "(0 :: int) < 36524" "(0 :: int) < 365" "(0 :: int) < 1461"
    by simp_all
  note b = cut_cycle [OF pos(1) r1 b_def, folded r2_def]
  then have r2: "r2 < 25 * 1461"
    by linarith
  have c: "0 \<le> c" "c < 25"
    using b(3) r2 unfolding c_def by (simp_all only: pos_imp_zdiv_nonneg_iff [OF pos(3)] div_less [OF pos(3)])
  have "r3 = r2 mod 1461"
    by (simp add: r3_def c_def minus_mult_div_eq_mod)
  then have r3: "0 \<le> r3" "r3 < 4 * 365 + 1"
    by simp_all
  note e = cut_cycle [OF pos(2) r3 e_def, folded r]
  show "year_start y + r = d"
    unfolding y year_start_cycles [OF b(1,2) c(1) c(2) [THEN zle_diff1_eq [THEN iffD2], simplified] e(1,2)]
    using d by (simp add: r r3_def r2_def)
  show "0 \<le> r"
    by (rule e)
  have "isLeap y" if "e = 3" "r = 365"
  proof -
    have "c = 24 \<Longrightarrow> b = 3"
      using that b(4) r unfolding r3_def by linarith
    then show ?thesis
      using leap_cycle [of c b a] c that(1) by (simp add: y add.assoc)
  qed
  then show "r < (if isLeap y then 366 else 365)"
    using e(4) by auto
qed

lemma div_step:
  fixes y n :: int
  assumes "0 < n"
  shows "y div n = (y - 1) div n + (if y mod n = 0 then 1 else 0)"
proof (cases "y mod n = 0")
  case True
  have "(y - 1) div n = y div n - 1"
    by (rule int_div_pos_eq [of _ _ _ "n - 1"]) (use assms True in \<open>auto simp: algebra_simps\<close>)
  with True show ?thesis
    by simp
next
  case False
  have "(y - 1) div n = y div n"
  proof (rule int_div_pos_eq [of _ _ _ "y mod n - 1"])
    show "y - 1 = n * (y div n) + (y mod n - 1)"
      by (simp add: mult_div_mod_eq [symmetric])
  qed (use assms False pos_mod_bound [OF assms, of y] pos_mod_sign [OF assms, of y] in linarith)+
  with False show ?thesis
    by simp
qed

lemma leap_count:
  "(q \<longrightarrow> p) \<Longrightarrow> (r \<longrightarrow> q) \<Longrightarrow>
    365 + (if p then 1 else 0) - (if q then 1 else 0) + (if r then 1 else 0) = (if p \<and> (\<not> q \<or> r) then 366 else 365 :: int)"
  by (cases p; cases q; cases r) simp_all

lemma year_start_Suc: "year_start (y + 1) = year_start y + (if isLeap y then 366 else 365)"
proof -
  have mods: "y mod 100 = 0 \<longrightarrow> y mod 4 = 0" "y mod 400 = 0 \<longrightarrow> y mod 100 = 0"
    using dvd_trans [of 4 100 y] dvd_trans [of 100 400 y] by (simp_all add: mod_eq_0_iff_dvd)
  have step: "365 * y + (p + i) - (q + j) + (r + k) = (365 * (y - 1) + p - q + r) + (365 + i - j + k)" for p q r i j k :: int
    by simp
  have pos: "(0 :: int) < 4" "(0 :: int) < 100" "(0 :: int) < 400"
    by simp_all
  have "year_start (y + 1) = 365 * y + y div 4 - y div 100 + y div 400"
    by (simp only: year_start_def add_diff_cancel_right')
  also have "\<dots> = year_start y + (365 + (if y mod 4 = 0 then 1 else 0) - (if y mod 100 = 0 then 1 else 0) + (if y mod 400 = 0 then 1 else 0))"
    by (simp only: year_start_def div_step [OF pos(1), of y] div_step [OF pos(2), of y] div_step [OF pos(3), of y] step)
  also have "365 + (if y mod 4 = 0 then 1 else 0) - (if y mod 100 = 0 then 1 else 0) + (if y mod 400 = 0 then 1 else 0) =
      (if isLeap y then 366 else 365 :: int)"
    unfolding isLeap_def by (rule leap_count [OF mods])
  finally show ?thesis .
qed

lemma sum_month_lengths: "sum_list (month_lengths y) = (if isLeap y then 366 else 365)"
  by (simp add: month_lengths_def)

lemma month_day_works:
  assumes "month_day m ls d = (m', day)" and "0 \<le> d" and "d < sum_list ls" and "\<forall>l \<in> set ls. 0 < l"
  shows "m \<le> m'" "m' - m < length ls" "1 \<le> day" "day \<le> ls ! (m' - m)" "sum_list (take (m' - m) ls) + day - 1 = d"
  using assms by (induction m ls d rule: month_day.induct) (auto simp: Suc_diff_le nth_Cons' take_Cons' split: if_splits)

lemma month_lengths_pos: "\<forall>l \<in> set (month_lengths y). 0 < l" "length (month_lengths y) = 12"
  by (simp_all add: month_lengths_def)

definition date_ok :: "int \<Rightarrow> nat \<Rightarrow> int \<Rightarrow> bool" where
  "date_ok y m day \<longleftrightarrow> 1 \<le> m \<and> m \<le> 12 \<and> 1 \<le> day \<and> day \<le> daysIn y m"

lemma absDate_works:
  assumes "absDate d = (y, m, day)"
  shows "day_number y m day = d" "date_ok y m day"
proof -
  obtain r where r: "year_day d = (y, r)" "month_day 1 (month_lengths y) r = (m, day)"
    using assms by (auto simp: absDate_def split: prod.splits)
  note y = year_day_works [OF r(1)]
  note m = month_day_works [OF r(2) y(2) _ month_lengths_pos(1), unfolded sum_month_lengths, OF y(3)]
  show "day_number y m day = d"
    using m(5) y(1) by (simp add: day_number_def)
  show "date_ok y m day"
    using m month_lengths_pos(2) [of y] by (auto simp: date_ok_def daysIn_def)
qed

lemma year_start_mono: "y \<le> y' \<Longrightarrow> year_start y \<le> year_start y'"
proof (induction y' rule: int_ge_induct)
  case (step i)
  then show ?case
    using year_start_Suc [of i] by (auto split: if_splits)
qed simp

lemma take_sum_mono:
  fixes ls :: "int list"
  assumes "\<forall>l \<in> set ls. 0 < l" "i \<le> j"
  shows "sum_list (take i ls) \<le> sum_list (take j ls)"
proof -
  have "take j ls = take i ls @ take (j - i) (drop i ls)"
    using assms(2) take_add [of i "j - i" ls] by simp
  moreover have "0 \<le> sum_list (take (j - i) (drop i ls))"
    using assms(1) by (intro sum_list_nonneg) (meson in_set_dropD in_set_takeD less_imp_le)
  ultimately show ?thesis
    by simp
qed

lemma day_in_month:
  assumes "date_ok y m day"
  shows "sum_list (take (m - 1) (month_lengths y)) + day \<le> sum_list (take m (month_lengths y))"
proof -
  have "m - 1 < length (month_lengths y)" "Suc (m - 1) = m"
    using assms by (auto simp: date_ok_def month_lengths_pos)
  then have "take m (month_lengths y) = take (m - 1) (month_lengths y) @ [daysIn y m]"
    using take_Suc_conv_app_nth [of "m - 1" "month_lengths y"] by (simp add: daysIn_def)
  then show ?thesis
    using assms by (simp add: date_ok_def)
qed

lemma day_number_bounds:
  assumes "date_ok y m day"
  shows "year_start y \<le> day_number y m day" "day_number y m day < year_start (y + 1)"
proof -
  have "0 \<le> sum_list (take (m - 1) (month_lengths y))"
    using take_sum_mono [OF month_lengths_pos(1), of 0 "m - 1" y] by simp
  then show "year_start y \<le> day_number y m day"
    using assms by (simp add: day_number_def date_ok_def)
  have "sum_list (take m (month_lengths y)) \<le> sum_list (take 12 (month_lengths y))"
    using assms by (intro take_sum_mono [OF month_lengths_pos(1)]) (simp add: date_ok_def)
  then have "sum_list (take m (month_lengths y)) \<le> (if isLeap y then 366 else 365)"
    using sum_month_lengths [of y] by (simp add: month_lengths_pos)
  then show "day_number y m day < year_start (y + 1)"
    using day_in_month [OF assms] by (simp add: day_number_def year_start_Suc)
qed

lemma day_number_less:
  assumes "date_ok y m day" "date_ok y' m' day'" and "y < y' \<or> y = y' \<and> (m < m' \<or> m = m' \<and> day < day')"
  shows "day_number y m day < day_number y' m' day'"
proof -
  consider "y < y'" | "y = y'" "m < m'" | "y = y'" "m = m'" "day < day'"
    using assms(3) by blast
  then show ?thesis
  proof cases
    case 1
    then show ?thesis
      using day_number_bounds(2) [OF assms(1)] day_number_bounds(1) [OF assms(2)] year_start_mono [of "y + 1" y'] by linarith
  next
    case 2
    then have "sum_list (take m (month_lengths y)) \<le> sum_list (take (m' - 1) (month_lengths y))"
      by (intro take_sum_mono [OF month_lengths_pos(1)]) simp
    then show ?thesis
      using day_in_month [OF assms(1)] 2(1) assms(2) by (simp add: day_number_def date_ok_def)
  qed (simp add: day_number_def)
qed

lemma daysIn_bounds: "1 \<le> m \<Longrightarrow> m \<le> 12 \<Longrightarrow> 28 \<le> daysIn y m \<and> daysIn y m \<le> 31"
  unfolding daysIn_def month_lengths_def by (auto simp: nth_Cons' )

section \<open>Digits\<close>

lemma of_char_digit: "d < 10 \<Longrightarrow> of_char (digit d) = 48 + d"
  by (simp add: digit_def)

lemma length_decimal: "n < 10 ^ w \<Longrightarrow> 0 < w \<Longrightarrow> length (decimal n) \<le> w"
proof (induction n arbitrary: w rule: decimal.induct)
  case (1 n)
  show ?case
  proof (cases "n < 10")
    case True
    then show ?thesis
      using "1.prems" by (subst decimal.simps) simp
  next
    case False
    then obtain v where v: "w = Suc v" "0 < v"
      using "1.prems" by (cases w; cases "w - 1") auto
    then have "n div 10 < 10 ^ v"
      using "1.prems" by (simp add: div_less_iff_less_mult mult.commute)
    then show ?thesis
      using "1.IH" [OF False] v False by (subst decimal.simps) simp
  qed
qed

definition digits :: "string \<Rightarrow> bool" where
  "digits s \<longleftrightarrow> (\<forall>c \<in> set s. \<exists>d < 10. c = digit d)"

lemma digits_simps [simp]: "digits []" "digits (c # s) \<longleftrightarrow> (\<exists>d < 10. c = digit d) \<and> digits s" "digits (a @ b) \<longleftrightarrow> digits a \<and> digits b"
  by (auto simp: digits_def)

lemma digits_decimal [simp]: "digits (decimal n)"
  using set_decimal_digits by (auto simp: digits_def)

lemma digits_replicate [simp]: "digits (replicate k (digit 0))"
  by (auto simp: digits_def intro: exI [of _ 0])

lemma digit_less: "d < 10 \<Longrightarrow> e < 10 \<Longrightarrow> digit d < digit e \<longleftrightarrow> d < e" "d < 10 \<Longrightarrow> e < 10 \<Longrightarrow> digit d = digit e \<longleftrightarrow> d = e"
  by (simp add: less_char_def of_char_digit) (metis option.inject undigit_digit)

text \<open>Among texts of digits of one length the order of the texts is that of the numbers.\<close>

lemma read_digits_some: "digits s \<Longrightarrow> \<exists>n. read_digits acc s = Some n \<and> acc * 10 ^ length s \<le> n \<and> n < Suc acc * 10 ^ length s"
proof (induction s arbitrary: acc)
  case (Cons c s)
  then obtain d where d: "d < 10" "c = digit d"
    by auto
  obtain n where n: "read_digits (10 * acc + d) s = Some n" "(10 * acc + d) * 10 ^ length s \<le> n" "n < Suc (10 * acc + d) * 10 ^ length s"
    using Cons by force
  have "10 * acc * 10 ^ length s \<le> (10 * acc + d) * 10 ^ length s"
    by (intro mult_le_mono1) simp
  moreover have "Suc (10 * acc + d) * 10 ^ length s \<le> 10 * Suc acc * 10 ^ length s"
    using d(1) by (intro mult_le_mono1) simp
  ultimately have "10 * acc * 10 ^ length s \<le> n" "n < 10 * Suc acc * 10 ^ length s"
    using n(2,3) by linarith+
  then show ?case
    using n(1) d by (simp add: algebra_simps)
qed simp

lemma read_digits_less:
  assumes "digits a" "digits b" "length a = length b"
  shows "a < b \<longleftrightarrow> the (read_digits acc a) < the (read_digits acc b)"
  using assms(3,1,2)
proof (induction a b arbitrary: acc rule: list_induct2)
  case (Cons c a c' b)
  then obtain d e where d: "d < 10" "c = digit d" "e < 10" "c' = digit e"
    by auto
  have less: "the (read_digits (10 * acc + x) s) < the (read_digits (10 * acc + x') s')"
    if "x < x'" "digits s" "digits s'" "length s = length s'" for x x' s s'
  proof -
    have "Suc (10 * acc + x) * 10 ^ length s \<le> (10 * acc + x') * 10 ^ length s'"
      using that(1,4) by (intro mult_le_mono) simp_all
    then show ?thesis
      using read_digits_some [OF that(2), of "10 * acc + x"] read_digits_some [OF that(3), of "10 * acc + x'"] by force
  qed
  show ?case
    using Cons d less [of d e a b] less [of e d b a] by (cases d e rule: linorder_cases) (auto simp: digit_less)
qed simp

lemma appendInt_digits:
  assumes "0 \<le> n" "n < 10 ^ w" "0 < w"
  shows "length (appendInt w n) = w" "digits (appendInt w n)" "read_digits 0 (appendInt w n) = Some (nat n)"
proof -
  have "nat n < 10 ^ w"
    using assms(1,2) by (metis nat_less_iff of_nat_numeral of_nat_power)
  then show "length (appendInt w n) = w"
    using length_decimal [of "nat n" w] assms by (simp add: appendInt_def Let_def)
  show "digits (appendInt w n)"
    using assms by (simp add: appendInt_def Let_def)
  have "read_digits 0 (replicate k (digit 0) @ s) = read_digits 0 s" for k s
    by (induction k) simp_all
  then show "read_digits 0 (appendInt w n) = Some (nat n)"
    using assms(1) by (simp add: appendInt_def Let_def read_digits_decimal)
qed

lemma appendInt_less:
  assumes "0 \<le> n" "n < 10 ^ w" "0 \<le> k" "k < 10 ^ w" "0 < w"
  shows "appendInt w n < appendInt w k \<longleftrightarrow> n < k" "appendInt w n = appendInt w k \<longleftrightarrow> n = k"
proof -
  note n = appendInt_digits [OF assms(1,2,5)] and k = appendInt_digits [OF assms(3,4,5)]
  show "appendInt w n < appendInt w k \<longleftrightarrow> n < k"
    using read_digits_less [OF n(2) k(2), of 0] n(1,3) k(1,3) assms(1,3) by auto
  show "appendInt w n = appendInt w k \<longleftrightarrow> n = k"
    using n(3) k(3) assms(1,3) by (metis eq_nat_nat_iff option.inject)
qed

lemma append_less:
  fixes a b :: "'a :: linorder list"
  shows "length a = length a' \<Longrightarrow> a @ b < a' @ b' \<longleftrightarrow> a < a' \<or> a = a' \<and> b < b'"
  by (induction a a' rule: list_induct2) auto

section \<open>Instants of four-digit years\<close>

definition four_digit_year :: "time \<Rightarrow> bool" where
  "four_digit_year t \<longleftrightarrow> -62167219200 \<le> Unix t \<and> Unix t < 253402300800"

lemma four_digit_year_date:
  assumes "four_digit_year t" and "absDate (Unix t div 86400 + unix_day) = (y, m, day)"
  shows "0 \<le> y" "y < 10 ^ 4" "date_ok y m day"
proof -
  let ?d = "Unix t div 86400 + unix_day"
  have "-719528 \<le> Unix t div 86400"
    using zdiv_mono1 [of "-62167219200" "Unix t" 86400] assms(1) by (simp add: four_digit_year_def)
  moreover have "Unix t div 86400 < 2932897"
    using assms(1) by (intro div_less) (simp_all add: four_digit_year_def)
  ultimately have d: "year_start 0 \<le> ?d" "?d < year_start 10000"
    by (simp_all add: unix_day_def year_start_def)
  note date = absDate_works [OF assms(2)]
  note y = day_number_bounds [OF date(2), unfolded date(1)]
  show "date_ok y m day"
    by (rule date)
  show "0 \<le> y"
    using year_start_mono [of "y + 1" 0] d(1) y(2) by linarith
  show "y < 10 ^ 4"
    using year_start_mono [of 10000 y] d(2) y(1) by (cases "10000 \<le> y") simp_all
qed

lemma clock_bounds:
  fixes n :: int
  assumes "0 \<le> n" "n < 86400"
  shows "0 \<le> n div 3600 \<and> n div 3600 < 24" "0 \<le> n div 60 mod 60 \<and> n div 60 mod 60 < 60" "0 \<le> n mod 60 \<and> n mod 60 < 60"
    "n div 3600 * 3600 + n div 60 mod 60 * 60 + n mod 60 = n"
proof -
  show "0 \<le> n div 3600 \<and> n div 3600 < 24"
    using assms div_less [of 3600 n 24] by (simp add: pos_imp_zdiv_nonneg_iff)
  show "0 \<le> n div 60 mod 60 \<and> n div 60 mod 60 < 60" "0 \<le> n mod 60 \<and> n mod 60 < 60"
    by simp_all
  have "n div 3600 = n div 60 div 60"
    using zdiv_zmult2_eq [of 60 n 60] by simp
  moreover have "u * 60 + v = q \<Longrightarrow> q * 60 + w = n \<Longrightarrow> u * 3600 + v * 60 + w = n" for u v w q :: int
    by simp
  ultimately show "n div 3600 * 3600 + n div 60 mod 60 * 60 + n mod 60 = n"
    using div_mult_mod_eq [of "n div 60" 60] div_mult_mod_eq [of n 60] by metis
qed

lemma parseUint_field:
  "0 \<le> n \<Longrightarrow> n < 10 ^ w \<Longrightarrow> 0 < w \<Longrightarrow> int lo \<le> n \<Longrightarrow> n \<le> int hi \<Longrightarrow> parseUint (appendInt w n) lo hi = Some (nat n)"
  using appendInt_digits(3) [of n w] by (auto simp: parseUint_def)

lemma parse_fields:
  assumes "length y = 4" "length m = 2" "length d = 2" "length h = 2" "length mi = 2" "length sec = 2"
    and "parseUint y 0 9999 = Some y'" "parseUint m 1 12 = Some m'" "parseUint d 1 (nat (daysIn (int y') m')) = Some d'"
    and "parseUint h 0 23 = Some h'" "parseUint mi 0 59 = Some mi'" "parseUint sec 0 59 = Some sec'"
  shows "parseRFC3339 (y @ ''-'' @ m @ ''-'' @ d @ ''T'' @ h @ '':'' @ mi @ '':'' @ sec @ ''Z'') =
    Some (((day_number (int y') m' (int d') - unix_day) * 86400 + int h' * 3600 + int mi' * 60 + int sec') * Second)"
  using assms by (simp add: parseRFC3339_def nth_append fraction_def zone_offset_def)

definition stamp :: "int \<Rightarrow> nat \<Rightarrow> int \<Rightarrow> int \<Rightarrow> int \<Rightarrow> int \<Rightarrow> string" where
  "stamp y m day h mi sec = appendInt 4 y @ ''-'' @ appendInt 2 (int m) @ ''-'' @ appendInt 2 day @ ''T'' @
     appendInt 2 h @ '':'' @ appendInt 2 mi @ '':'' @ appendInt 2 sec @ ''Z''"

definition stamp_ok :: "int \<Rightarrow> nat \<Rightarrow> int \<Rightarrow> int \<Rightarrow> int \<Rightarrow> int \<Rightarrow> bool" where
  "stamp_ok y m day h mi sec \<longleftrightarrow> 0 \<le> y \<and> y < 10 ^ 4 \<and> date_ok y m day \<and> 0 \<le> h \<and> h < 24 \<and> 0 \<le> mi \<and> mi < 60 \<and> 0 \<le> sec \<and> sec < 60"

definition stamp_unix :: "int \<Rightarrow> nat \<Rightarrow> int \<Rightarrow> int \<Rightarrow> int \<Rightarrow> int \<Rightarrow> int" where
  "stamp_unix y m day h mi sec = (day_number y m day - unix_day) * 86400 + h * 3600 + mi * 60 + sec"

lemma stamp_fields:
  assumes "stamp_ok y m day h mi sec"
  shows "0 \<le> y" "y < 10 ^ 4" "0 \<le> int m" "int m < 10 ^ 2" "0 \<le> day" "day < 10 ^ 2" "0 \<le> h" "h < 10 ^ 2" "0 \<le> mi" "mi < 10 ^ 2"
    "0 \<le> sec" "sec < 10 ^ 2"
  using assms daysIn_bounds [of m y] by (auto simp: stamp_ok_def date_ok_def)

lemma parse_stamp:
  assumes "stamp_ok y m day h mi sec"
  shows "parseRFC3339 (stamp y m day h mi sec) = Some (stamp_unix y m day h mi sec * Second)"
proof -
  note f = stamp_fields [OF assms]
  have ok: "date_ok y m day" "h < 24" "mi < 60" "sec < 60"
    using assms by (simp_all add: stamp_ok_def)
  have m: "parseUint (appendInt 2 (int m)) 1 12 = Some (nat (int m))"
    using f(4) ok(1) by (intro parseUint_field) (simp_all add: date_ok_def)
  have "parseRFC3339 (stamp y m day h mi sec) = Some (((day_number (int (nat y)) (nat (int m)) (int (nat day)) - unix_day) * 86400 +
      int (nat h) * 3600 + int (nat mi) * 60 + int (nat sec)) * Second)"
    unfolding stamp_def
    by (rule parse_fields [OF _ _ _ _ _ _ _ m])
      (use f ok in \<open>auto simp: date_ok_def intro!: parseUint_field appendInt_digits(1)\<close>)
  then show ?thesis
    using f by (simp add: stamp_unix_def)
qed

lemma stamp_less:
  assumes "stamp_ok y m day h mi sec" and "stamp_ok y' m' day' h' mi' sec'"
  shows "stamp y m day h mi sec < stamp y' m' day' h' mi' sec' \<longleftrightarrow>
    y < y' \<or> y = y' \<and> (m < m' \<or> m = m' \<and> (day < day' \<or> day = day' \<and>
      (h < h' \<or> h = h' \<and> (mi < mi' \<or> mi = mi' \<and> sec < sec'))))"
proof -
  note f = stamp_fields [OF assms(1)] and f' = stamp_fields [OF assms(2)]
  note less = appendInt_less [OF f(1,2) f'(1,2)] appendInt_less [OF f(3,4) f'(3,4)] appendInt_less [OF f(5,6) f'(5,6)]
    appendInt_less [OF f(7,8) f'(7,8)] appendInt_less [OF f(9,10) f'(9,10)] appendInt_less [OF f(11,12) f'(11,12)]
  note len = appendInt_digits(1) [OF f(1,2)] appendInt_digits(1) [OF f(3,4)] appendInt_digits(1) [OF f(5,6)]
    appendInt_digits(1) [OF f(7,8)] appendInt_digits(1) [OF f(9,10)] appendInt_digits(1) [OF f(11,12)]
    appendInt_digits(1) [OF f'(1,2)] appendInt_digits(1) [OF f'(3,4)] appendInt_digits(1) [OF f'(5,6)]
    appendInt_digits(1) [OF f'(7,8)] appendInt_digits(1) [OF f'(9,10)] appendInt_digits(1) [OF f'(11,12)]
  show ?thesis
    by (simp add: stamp_def append_less len less)
qed

lemma stamp_unix_less:
  assumes "stamp_ok y m day h mi sec" and "stamp_ok y' m' day' h' mi' sec'"
    and "stamp y m day h mi sec < stamp y' m' day' h' mi' sec'"
  shows "stamp_unix y m day h mi sec < stamp_unix y' m' day' h' mi' sec'"
proof -
  have clock: "day < day' \<Longrightarrow> day * 86400 + h * 3600 + mi * 60 + sec < day' * 86400 + h' * 3600 + mi' * 60 + sec'"
    if "h < 24" "mi < 60" "sec < 60" "0 \<le> h'" "0 \<le> mi'" "0 \<le> sec'" for day day' h mi sec h' mi' sec' :: int
    using that by linarith
  have "day_number y m day < day_number y' m' day' \<or> y = y' \<and> m = m' \<and> day = day' \<and> (h < h' \<or> h = h' \<and> (mi < mi' \<or> mi = mi' \<and> sec < sec'))"
    using day_number_less [of y m day y' m' day'] assms stamp_less [OF assms(1,2)] by (auto simp: stamp_ok_def)
  then show ?thesis
    using clock [of h mi sec h' mi' sec' "day_number y m day - unix_day" "day_number y' m' day' - unix_day"] assms(1,2)
    by (auto simp: stamp_unix_def stamp_ok_def)
qed

lemma Format_stamp:
  assumes "four_digit_year t"
  obtains y m day h mi sec where "Format_RFC3339 t = stamp y m day h mi sec" and "stamp_ok y m day h mi sec"
    and "stamp_unix y m day h mi sec = Unix t"
proof -
  let ?sod = "Unix t mod 86400"
  obtain y m day where date: "absDate (Unix t div 86400 + unix_day) = (y, m, day)"
    by (metis prod_cases3)
  have sod: "0 \<le> ?sod" "?sod < 86400"
    by simp_all
  note clock = clock_bounds [OF sod]
  have "Unix t div 86400 * 86400 + ?sod = Unix t"
    by (rule div_mult_mod_eq)
  moreover have "q * 86400 + n = u \<Longrightarrow> h * 3600 + mi * 60 + sec = n \<Longrightarrow> (q + e - e) * 86400 + h * 3600 + mi * 60 + sec = u"
    for q n u h mi sec e :: int
    by simp
  ultimately have "stamp_unix y m day (?sod div 3600) (?sod div 60 mod 60) (?sod mod 60) = Unix t"
    unfolding stamp_unix_def absDate_works(1) [OF date] using clock(4) by blast
  moreover have "stamp_ok y m day (?sod div 3600) (?sod div 60 mod 60) (?sod mod 60)"
    unfolding stamp_ok_def using four_digit_year_date [OF assms date] clock(1-3) by blast
  moreover have "Format_RFC3339 t = stamp y m day (?sod div 3600) (?sod div 60 mod 60) (?sod mod 60)"
    unfolding Format_RFC3339_def stamp_def Let_def date prod.case ..
  ultimately show thesis
    using that by blast
qed

lemma parse_Format:
  assumes "four_digit_year t"
  shows "parseRFC3339 (Format_RFC3339 t) = Some (Truncate_second t)"
  using Format_stamp [OF assms] parse_stamp by (metis Truncate_second_def Unix_def)

lemma Format_less:
  assumes "four_digit_year s" and "four_digit_year t"
  shows "Format_RFC3339 s < Format_RFC3339 t \<longleftrightarrow> Unix s < Unix t"
proof -
  have less: "Format_RFC3339 s < Format_RFC3339 t \<Longrightarrow> Unix s < Unix t" if "four_digit_year s" "four_digit_year t" for s t
    using Format_stamp [OF that(1)] Format_stamp [OF that(2)] stamp_unix_less by metis
  have "Unix s = Unix t" if "Format_RFC3339 s = Format_RFC3339 t"
    using that parse_Format [OF assms(1)] parse_Format [OF assms(2)] by (simp add: Truncate_second_def Unix_def)
  then show ?thesis
    using less [OF assms] less [OF assms(2,1)] by (cases "Format_RFC3339 s" "Format_RFC3339 t" rule: linorder_cases) auto
qed

end
