(* ===== verification/Columns.thy ===== *)
theory Columns
  imports Postgres_Store Rfc3339
begin

text \<open>
  The tables as the databases hold them: rows of SQL values, instants as text in SQLite and as timestamps in
  PostgreSQL. Modelled are the arguments of the statements, the scanning of rows by the repositories
  (\<open>scanCertificate\<close>, \<open>scanClientRole\<close>, \<open>scanACMEAccount\<close> and the scans inside the other methods), and SQLite's own reading
  of every statement of \<open>internal/store/sqlite\<close>, which compares and sorts instants as text. Shown is that this is what
  the statements of \<open>World\<close> say over records and instants. \<open>lenient\<close> is the part of \<open>time.Parse\<close> that \<open>Rfc3339\<close> leaves
  open. \<open>Text\<close> stands for \<open>TEXT\<close> and \<open>BLOB\<close>.
\<close>

section \<open>Scanning values\<close>

datatype sql_value = Null | Text string | Integer int | Boolean bool | Timestamp time

type_synonym row = "sql_value list"

fun to_string :: "sql_value \<Rightarrow> string option" where
  "to_string (Text s) = Some s"
| "to_string _ = None"

text \<open>\<open>sql.NullString\<close>: \<open>String\<close> is empty where \<open>Valid\<close> is false.\<close>

fun to_NullString :: "sql_value \<Rightarrow> string option option" where
  "to_NullString Null = Some None"
| "to_NullString (Text s) = Some (Some s)"
| "to_NullString _ = None"

fun to_int :: "sql_value \<Rightarrow> int option" where
  "to_int (Integer i) = Some i"
| "to_int _ = None"

fun to_bool :: "sql_value \<Rightarrow> bool option" where
  "to_bool (Boolean b) = Some b"
| "to_bool _ = None"

fun to_time :: "sql_value \<Rightarrow> time option" where
  "to_time (Timestamp t) = Some t"
| "to_time _ = None"

fun to_NullTime :: "sql_value \<Rightarrow> time option option" where
  "to_NullTime Null = Some None"
| "to_NullTime (Timestamp t) = Some (Some t)"
| "to_NullTime _ = None"

definition NullString_String :: "string option \<Rightarrow> string" where
  "NullString_String n = (case n of None \<Rightarrow> [] | Some s \<Rightarrow> s)"

text \<open>\<open>sql.ErrNoRows\<close> becomes \<open>ErrNotFound\<close>, any other failure to scan or parse is wrapped.\<close>

definition scanned :: "(row \<Rightarrow> 'a option) \<Rightarrow> row option \<Rightarrow> 'a res" where
  "scanned f r = (case r of
     None \<Rightarrow> Inl ErrNotFound
   | Some cols \<Rightarrow> (case f cols of None \<Rightarrow> Inl (ErrWrapped DriverFailure) | Some x \<Rightarrow> Inr x))"

section \<open>SQLite: rows scanned by the repositories\<close>

definition sqlite_scanCertificate :: "(string \<Rightarrow> time option) \<Rightarrow> row \<Rightarrow> CertificateRecord option" where
  "sqlite_scanCertificate lenient cols = (case cols of
     [serial, kind, profile, subject, issuer, nb, na, pem, key, created, revoked, reason] \<Rightarrow> do {
       serial \<leftarrow> to_string serial; kind \<leftarrow> to_string kind; profile \<leftarrow> to_string profile; subject \<leftarrow> to_string subject;
       issuer \<leftarrow> to_NullString issuer; nb \<leftarrow> to_string nb; na \<leftarrow> to_string na; pem \<leftarrow> to_string pem; key \<leftarrow> to_string key;
       created \<leftarrow> to_string created; revoked \<leftarrow> to_NullString revoked; reason \<leftarrow> to_string reason;
       notBefore \<leftarrow> Parse_RFC3339 lenient nb; notAfter \<leftarrow> Parse_RFC3339 lenient na; createdAt \<leftarrow> Parse_RFC3339 lenient created;
       revokedAt \<leftarrow> (case revoked of None \<Rightarrow> Some None | Some t \<Rightarrow> map_option Some (Parse_RFC3339 lenient t));
       Some \<lparr>Serial = serial, Kind = kind, ProfileName = profile, Subject = subject, IssuerSerial = NullString_String issuer,
         NotBefore = notBefore, NotAfter = notAfter, PEM = pem, KeyRef = key, CreatedAt = createdAt, RevokedAt = revokedAt,
         RevocationReason = reason\<rparr>
     }
   | _ \<Rightarrow> None)"

definition sqlite_scanClientRole :: "(string \<Rightarrow> time option) \<Rightarrow> row \<Rightarrow> ClientRoleRecord option" where
  "sqlite_scanClientRole lenient cols = (case cols of
     [serial, role, created] \<Rightarrow> do {
       serial \<leftarrow> to_string serial; role \<leftarrow> to_string role; created \<leftarrow> to_string created;
       createdAt \<leftarrow> Parse_RFC3339 lenient created;
       Some \<lparr>role_CertSerial = serial, role_Role = role, role_CreatedAt = createdAt\<rparr>
     }
   | _ \<Rightarrow> None)"

definition sqlite_scanProfile :: "(string \<Rightarrow> time option) \<Rightarrow> row \<Rightarrow> ProfileRecord option" where
  "sqlite_scanProfile lenient cols = (case cols of
     [name, version, data, created] \<Rightarrow> do {
       name \<leftarrow> to_string name; version \<leftarrow> to_int version; data \<leftarrow> to_string data; created \<leftarrow> to_string created;
       createdAt \<leftarrow> Parse_RFC3339 lenient created;
       Some \<lparr>prof_Name = name, prof_Version = version, prof_Data = data, prof_CreatedAt = createdAt\<rparr>
     }
   | _ \<Rightarrow> None)"

definition sqlite_scanAudit :: "(string \<Rightarrow> time option) \<Rightarrow> row \<Rightarrow> AuditEntry option" where
  "sqlite_scanAudit lenient cols = (case cols of
     [i, ts, actor, action, target, detail] \<Rightarrow> do {
       i \<leftarrow> to_int i; ts \<leftarrow> to_string ts; actor \<leftarrow> to_string actor; action \<leftarrow> to_string action;
       target \<leftarrow> to_NullString target; detail \<leftarrow> to_NullString detail;
       timestamp \<leftarrow> Parse_RFC3339 lenient ts;
       Some \<lparr>audit_ID = i, audit_Timestamp = timestamp, audit_Actor = actor, audit_Action = action,
         audit_Target = NullString_String target, audit_Detail = NullString_String detail\<rparr>
     }
   | _ \<Rightarrow> None)"

definition sqlite_scanACMEEABToken :: "(string \<Rightarrow> time option) \<Rightarrow> row \<Rightarrow> ACMEEABTokenRecord option" where
  "sqlite_scanACMEEABToken lenient cols = (case cols of
     [key, hmac, role, created, expires, consumed] \<Rightarrow> do {
       key \<leftarrow> to_string key; hmac \<leftarrow> to_string hmac; role \<leftarrow> to_string role; created \<leftarrow> to_string created;
       expires \<leftarrow> to_string expires; consumed \<leftarrow> to_int consumed;
       createdAt \<leftarrow> Parse_RFC3339 lenient created; expiresAt \<leftarrow> Parse_RFC3339 lenient expires;
       Some \<lparr>eab_KeyID = key, eab_HMACKey = hmac, eab_Role = role, eab_CreatedAt = createdAt, eab_ExpiresAt = expiresAt,
         eab_Consumed = (consumed \<noteq> 0)\<rparr>
     }
   | _ \<Rightarrow> None)"

definition sqlite_scanACMEAccount :: "(string \<Rightarrow> time option) \<Rightarrow> row \<Rightarrow> ACMEAccountRecord option" where
  "sqlite_scanACMEAccount lenient cols = (case cols of
     [i, thumbprint, jwk, role, eab, created] \<Rightarrow> do {
       i \<leftarrow> to_string i; thumbprint \<leftarrow> to_string thumbprint; jwk \<leftarrow> to_string jwk; role \<leftarrow> to_string role;
       eab \<leftarrow> to_string eab; created \<leftarrow> to_string created;
       createdAt \<leftarrow> Parse_RFC3339 lenient created;
       Some \<lparr>acct_ID = i, acct_JWKThumbprint = thumbprint, acct_PublicKeyJWK = jwk, acct_Role = role, acct_EABKeyID = eab,
         acct_CreatedAt = createdAt\<rparr>
     }
   | _ \<Rightarrow> None)"

definition sqlite_scanACMEOrder :: "(string \<Rightarrow> time option) \<Rightarrow> row \<Rightarrow> ACMEOrderRecord option" where
  "sqlite_scanACMEOrder lenient cols = (case cols of
     [i, account, identifier, state, serial, created] \<Rightarrow> do {
       i \<leftarrow> to_string i; account \<leftarrow> to_string account; identifier \<leftarrow> to_string identifier; state \<leftarrow> to_string state;
       serial \<leftarrow> to_string serial; created \<leftarrow> to_string created;
       createdAt \<leftarrow> Parse_RFC3339 lenient created;
       Some \<lparr>order_ID = i, order_AccountID = account, order_Identifier = identifier, order_Status = state,
         order_CertSerial = serial, order_CreatedAt = createdAt\<rparr>
     }
   | _ \<Rightarrow> None)"

lemmas sqlite_scans = sqlite_scanCertificate_def sqlite_scanClientRole_def sqlite_scanProfile_def sqlite_scanAudit_def
  sqlite_scanACMEEABToken_def sqlite_scanACMEAccount_def sqlite_scanACMEOrder_def

section \<open>PostgreSQL: rows scanned by the repositories\<close>

definition pg_scanCertificate :: "row \<Rightarrow> CertificateRecord option" where
  "pg_scanCertificate cols = (case cols of
     [serial, kind, profile, subject, issuer, nb, na, pem, key, created, revoked, reason] \<Rightarrow> do {
       serial \<leftarrow> to_string serial; kind \<leftarrow> to_string kind; profile \<leftarrow> to_string profile; subject \<leftarrow> to_string subject;
       issuer \<leftarrow> to_NullString issuer; notBefore \<leftarrow> to_time nb; notAfter \<leftarrow> to_time na; pem \<leftarrow> to_string pem; key \<leftarrow> to_string key;
       createdAt \<leftarrow> to_time created; revokedAt \<leftarrow> to_NullTime revoked; reason \<leftarrow> to_string reason;
       Some \<lparr>Serial = serial, Kind = kind, ProfileName = profile, Subject = subject, IssuerSerial = NullString_String issuer,
         NotBefore = notBefore, NotAfter = notAfter, PEM = pem, KeyRef = key, CreatedAt = createdAt, RevokedAt = revokedAt,
         RevocationReason = reason\<rparr>
     }
   | _ \<Rightarrow> None)"

definition pg_scanClientRole :: "row \<Rightarrow> ClientRoleRecord option" where
  "pg_scanClientRole cols = (case cols of
     [serial, role, created] \<Rightarrow> do {
       serial \<leftarrow> to_string serial; role \<leftarrow> to_string role; createdAt \<leftarrow> to_time created;
       Some \<lparr>role_CertSerial = serial, role_Role = role, role_CreatedAt = createdAt\<rparr>
     }
   | _ \<Rightarrow> None)"

definition pg_scanProfile :: "row \<Rightarrow> ProfileRecord option" where
  "pg_scanProfile cols = (case cols of
     [name, version, data, created] \<Rightarrow> do {
       name \<leftarrow> to_string name; version \<leftarrow> to_int version; data \<leftarrow> to_string data; createdAt \<leftarrow> to_time created;
       Some \<lparr>prof_Name = name, prof_Version = version, prof_Data = data, prof_CreatedAt = createdAt\<rparr>
     }
   | _ \<Rightarrow> None)"

definition pg_scanAudit :: "row \<Rightarrow> AuditEntry option" where
  "pg_scanAudit cols = (case cols of
     [i, ts, actor, action, target, detail] \<Rightarrow> do {
       i \<leftarrow> to_int i; timestamp \<leftarrow> to_time ts; actor \<leftarrow> to_string actor; action \<leftarrow> to_string action;
       target \<leftarrow> to_NullString target; detail \<leftarrow> to_NullString detail;
       Some \<lparr>audit_ID = i, audit_Timestamp = timestamp, audit_Actor = actor, audit_Action = action,
         audit_Target = NullString_String target, audit_Detail = NullString_String detail\<rparr>
     }
   | _ \<Rightarrow> None)"

definition pg_scanACMEEABToken :: "row \<Rightarrow> ACMEEABTokenRecord option" where
  "pg_scanACMEEABToken cols = (case cols of
     [key, hmac, role, created, expires, consumed] \<Rightarrow> do {
       key \<leftarrow> to_string key; hmac \<leftarrow> to_string hmac; role \<leftarrow> to_string role; createdAt \<leftarrow> to_time created;
       expiresAt \<leftarrow> to_time expires; consumed \<leftarrow> to_bool consumed;
       Some \<lparr>eab_KeyID = key, eab_HMACKey = hmac, eab_Role = role, eab_CreatedAt = createdAt, eab_ExpiresAt = expiresAt,
         eab_Consumed = consumed\<rparr>
     }
   | _ \<Rightarrow> None)"

definition pg_scanACMEAccount :: "row \<Rightarrow> ACMEAccountRecord option" where
  "pg_scanACMEAccount cols = (case cols of
     [i, thumbprint, jwk, role, eab, created] \<Rightarrow> do {
       i \<leftarrow> to_string i; thumbprint \<leftarrow> to_string thumbprint; jwk \<leftarrow> to_string jwk; role \<leftarrow> to_string role;
       eab \<leftarrow> to_string eab; createdAt \<leftarrow> to_time created;
       Some \<lparr>acct_ID = i, acct_JWKThumbprint = thumbprint, acct_PublicKeyJWK = jwk, acct_Role = role, acct_EABKeyID = eab,
         acct_CreatedAt = createdAt\<rparr>
     }
   | _ \<Rightarrow> None)"

definition pg_scanACMEOrder :: "row \<Rightarrow> ACMEOrderRecord option" where
  "pg_scanACMEOrder cols = (case cols of
     [i, account, identifier, state, serial, created] \<Rightarrow> do {
       i \<leftarrow> to_string i; account \<leftarrow> to_string account; identifier \<leftarrow> to_string identifier; state \<leftarrow> to_string state;
       serial \<leftarrow> to_string serial; createdAt \<leftarrow> to_time created;
       Some \<lparr>order_ID = i, order_AccountID = account, order_Identifier = identifier, order_Status = state,
         order_CertSerial = serial, order_CreatedAt = createdAt\<rparr>
     }
   | _ \<Rightarrow> None)"

lemmas pg_scans = pg_scanCertificate_def pg_scanClientRole_def pg_scanProfile_def pg_scanAudit_def
  pg_scanACMEEABToken_def pg_scanACMEAccount_def pg_scanACMEOrder_def

section \<open>SQLite: the arguments of the statements\<close>

definition time_arg :: "time \<Rightarrow> sql_value" where
  "time_arg t = Text (Format_RFC3339 t)"

text \<open>\<open>sql.NullString{String: s, Valid: s != ""}\<close>\<close>

definition null_arg :: "string \<Rightarrow> sql_value" where
  "null_arg s = (if s = [] then Null else Text s)"

definition sqlite_certificate_args :: "CertificateRecord \<Rightarrow> row" where
  "sqlite_certificate_args r =
     [Text (Serial r), Text (Kind r), Text (ProfileName r), Text (Subject r), null_arg (IssuerSerial r), time_arg (NotBefore r),
      time_arg (NotAfter r), Text (PEM r), Text (KeyRef r), time_arg (CreatedAt r)]"

definition sqlite_role_args :: "ClientRoleRecord \<Rightarrow> row" where
  "sqlite_role_args r = [Text (role_CertSerial r), Text (role_Role r), time_arg (role_CreatedAt r)]"

definition sqlite_profile_args :: "ProfileRecord \<Rightarrow> row" where
  "sqlite_profile_args r = [Text (prof_Name r), Integer (prof_Version r), Text (prof_Data r), time_arg (prof_CreatedAt r)]"

definition sqlite_audit_args :: "AuditEntry \<Rightarrow> row" where
  "sqlite_audit_args e = [time_arg (audit_Timestamp e), Text (audit_Actor e), Text (audit_Action e), Text (audit_Target e), Text (audit_Detail e)]"

definition sqlite_token_args :: "ACMEEABTokenRecord \<Rightarrow> row" where
  "sqlite_token_args r = [Text (eab_KeyID r), Text (eab_HMACKey r), Text (eab_Role r), time_arg (eab_CreatedAt r), time_arg (eab_ExpiresAt r)]"

definition sqlite_account_args :: "ACMEAccountRecord \<Rightarrow> row" where
  "sqlite_account_args r = [Text (acct_ID r), Text (acct_JWKThumbprint r), Text (acct_PublicKeyJWK r), Text (acct_Role r),
     Text (acct_EABKeyID r), time_arg (acct_CreatedAt r)]"

definition sqlite_order_args :: "ACMEOrderRecord \<Rightarrow> row" where
  "sqlite_order_args r = [Text (order_ID r), Text (order_AccountID r), Text (order_Identifier r), Text (order_Status r),
     Text (order_CertSerial r), time_arg (order_CreatedAt r)]"

lemmas sqlite_args = sqlite_certificate_args_def sqlite_role_args_def sqlite_profile_args_def sqlite_audit_args_def
  sqlite_token_args_def sqlite_account_args_def sqlite_order_args_def

section \<open>SQLite: the statements\<close>

record text_db =
  t_certificates :: "row list"
  t_client_roles :: "row list"
  t_profiles :: "row list"
  t_audit_log :: "row list"
  t_acme_eab_tokens :: "row list"
  t_acme_accounts :: "row list"
  t_acme_orders :: "row list"
  t_acme_nonces :: "row list"

text \<open>The text of a column, by which SQLite compares: byte by byte.\<close>

definition col_text :: "row \<Rightarrow> nat \<Rightarrow> string" where
  "col_text r i = (case r ! i of Text s \<Rightarrow> s | _ \<Rightarrow> [])"

definition taken :: "nat \<Rightarrow> sql_value \<Rightarrow> row list \<Rightarrow> bool" where
  "taken i v rows = list_ex (\<lambda>r. r ! i = v) rows"

definition role_values :: "sql_value set" where
  "role_values = {Text RoleAdmin, Text RoleManager}"

definition text_insert_certificate :: "CertificateRecord \<Rightarrow> text_db \<Rightarrow> sql_error + nat \<times> text_db" where
  "text_insert_certificate rec db =
     (let a = sqlite_certificate_args rec in
      if a ! 1 \<notin> {Text CertKindRoot, Text CertKindIntermediate, Text CertKindLeaf} then Inl CheckViolation
      else if taken 0 (a ! 0) (t_certificates db) then Inl PrimaryKeyViolation
      else if a ! 4 \<noteq> Null \<and> a ! 4 \<noteq> a ! 0 \<and> \<not> taken 0 (a ! 4) (t_certificates db) then Inl ForeignKeyViolation
      else Inr (1, db\<lparr>t_certificates := t_certificates db @ [a @ [Null, Text []]]\<rparr>))"

definition text_update_revoked :: "string \<Rightarrow> string \<Rightarrow> time \<Rightarrow> text_db \<Rightarrow> sql_error + nat \<times> text_db" where
  "text_update_revoked serial reason at db =
     (let P = (\<lambda>r. r ! 0 = Text serial \<and> r ! 10 = Null) in
      Inr (count_where P (t_certificates db),
           db\<lparr>t_certificates := update_where P (\<lambda>r. r[10 := time_arg at, 11 := Text reason]) (t_certificates db)\<rparr>))"

definition text_upsert_client_role :: "ClientRoleRecord \<Rightarrow> text_db \<Rightarrow> sql_error + nat \<times> text_db" where
  "text_upsert_client_role rec db =
     (let a = sqlite_role_args rec in
      if a ! 1 \<notin> role_values then Inl CheckViolation
      else if taken 0 (a ! 0) (t_client_roles db)
      then Inr (1, db\<lparr>t_client_roles := update_where (\<lambda>r. r ! 0 = a ! 0) (\<lambda>r. r[1 := a ! 1]) (t_client_roles db)\<rparr>)
      else if \<not> taken 0 (a ! 0) (t_certificates db) then Inl ForeignKeyViolation
      else Inr (1, db\<lparr>t_client_roles := t_client_roles db @ [a]\<rparr>))"

definition text_upsert_profile :: "ProfileRecord \<Rightarrow> text_db \<Rightarrow> sql_error + nat \<times> text_db" where
  "text_upsert_profile rec db =
     (let a = sqlite_profile_args rec; same = (\<lambda>r. r ! 0 = a ! 0 \<and> r ! 1 = a ! 1) in
      if list_ex same (t_profiles db)
      then Inr (1, db\<lparr>t_profiles := update_where same (\<lambda>r. r[2 := a ! 2, 3 := a ! 3]) (t_profiles db)\<rparr>)
      else Inr (1, db\<lparr>t_profiles := t_profiles db @ [a]\<rparr>))"

definition text_insert_audit :: "AuditEntry \<Rightarrow> text_db \<Rightarrow> sql_error + nat \<times> text_db" where
  "text_insert_audit e db =
     Inr (1, db\<lparr>t_audit_log := t_audit_log db @ [Integer (int (length (t_audit_log db)) + 1) # sqlite_audit_args e]\<rparr>)"

definition text_insert_token :: "ACMEEABTokenRecord \<Rightarrow> text_db \<Rightarrow> sql_error + nat \<times> text_db" where
  "text_insert_token rec db =
     (let a = sqlite_token_args rec in
      if a ! 2 \<notin> role_values then Inl CheckViolation
      else if taken 0 (a ! 0) (t_acme_eab_tokens db) then Inl PrimaryKeyViolation
      else Inr (1, db\<lparr>t_acme_eab_tokens := t_acme_eab_tokens db @ [a @ [Integer 0]]\<rparr>))"

definition text_consume_token :: "string \<Rightarrow> time \<Rightarrow> text_db \<Rightarrow> sql_error + nat \<times> text_db" where
  "text_consume_token k now db =
     (let P = (\<lambda>r. r ! 0 = Text k \<and> r ! 5 = Integer 0 \<and> Format_RFC3339 now < col_text r 4) in
      Inr (count_where P (t_acme_eab_tokens db),
           db\<lparr>t_acme_eab_tokens := update_where P (\<lambda>r. r[5 := Integer 1]) (t_acme_eab_tokens db)\<rparr>))"

definition text_insert_account :: "ACMEAccountRecord \<Rightarrow> text_db \<Rightarrow> sql_error + nat \<times> text_db" where
  "text_insert_account rec db =
     (let a = sqlite_account_args rec in
      if a ! 3 \<notin> role_values then Inl CheckViolation
      else if taken 0 (a ! 0) (t_acme_accounts db) then Inl PrimaryKeyViolation
      else if taken 1 (a ! 1) (t_acme_accounts db) then Inl UniqueViolation
      else if \<not> taken 0 (a ! 4) (t_acme_eab_tokens db) then Inl ForeignKeyViolation
      else Inr (1, db\<lparr>t_acme_accounts := t_acme_accounts db @ [a]\<rparr>))"

definition text_insert_order :: "ACMEOrderRecord \<Rightarrow> text_db \<Rightarrow> sql_error + nat \<times> text_db" where
  "text_insert_order rec db =
     (let a = sqlite_order_args rec in
      if taken 0 (a ! 0) (t_acme_orders db) then Inl PrimaryKeyViolation
      else if \<not> taken 0 (a ! 1) (t_acme_accounts db) then Inl ForeignKeyViolation
      else Inr (1, db\<lparr>t_acme_orders := t_acme_orders db @ [a]\<rparr>))"

definition text_update_order :: "string \<Rightarrow> ACMEOrderStatus \<Rightarrow> ACMEOrderStatus \<Rightarrow> string \<Rightarrow> text_db \<Rightarrow> sql_error + nat \<times> text_db" where
  "text_update_order i from to serial db =
     (let P = (\<lambda>r. r ! 0 = Text i \<and> r ! 3 = Text from) in
      Inr (count_where P (t_acme_orders db),
           db\<lparr>t_acme_orders := update_where P (\<lambda>r. r[3 := Text to, 4 := Text serial]) (t_acme_orders db)\<rparr>))"

definition text_insert_nonce :: "string \<Rightarrow> time \<Rightarrow> text_db \<Rightarrow> sql_error + nat \<times> text_db" where
  "text_insert_nonce n expires db =
     (if taken 0 (Text n) (t_acme_nonces db) then Inl PrimaryKeyViolation
      else Inr (1, db\<lparr>t_acme_nonces := t_acme_nonces db @ [[Text n, time_arg expires]]\<rparr>))"

definition text_delete_nonce :: "string \<Rightarrow> time \<Rightarrow> text_db \<Rightarrow> sql_error + nat \<times> text_db" where
  "text_delete_nonce n now db =
     (let P = (\<lambda>r. r ! 0 = Text n \<and> Format_RFC3339 now < col_text r 1) in
      Inr (count_where P (t_acme_nonces db), db\<lparr>t_acme_nonces := filter (\<lambda>r. \<not> P r) (t_acme_nonces db)\<rparr>))"

datatype sqlite_stmt =
    InsertCertificate CertificateRecord
  | UpdateRevoked string string time
  | UpsertClientRole ClientRoleRecord
  | UpsertProfile ProfileRecord
  | InsertAudit AuditEntry
  | InsertEABToken ACMEEABTokenRecord
  | ConsumeEABToken string time
  | InsertAccount ACMEAccountRecord
  | InsertOrder ACMEOrderRecord
  | UpdateOrderStatus string ACMEOrderStatus ACMEOrderStatus string
  | InsertNonce string time
  | DeleteNonce string time

fun exec_text :: "sqlite_stmt \<Rightarrow> text_db \<Rightarrow> sql_error + nat \<times> text_db" where
  "exec_text (InsertCertificate rec) = text_insert_certificate rec"
| "exec_text (UpdateRevoked serial reason at) = text_update_revoked serial reason at"
| "exec_text (UpsertClientRole rec) = text_upsert_client_role rec"
| "exec_text (UpsertProfile rec) = text_upsert_profile rec"
| "exec_text (InsertAudit e) = text_insert_audit e"
| "exec_text (InsertEABToken rec) = text_insert_token rec"
| "exec_text (ConsumeEABToken k now) = text_consume_token k now"
| "exec_text (InsertAccount rec) = text_insert_account rec"
| "exec_text (InsertOrder rec) = text_insert_order rec"
| "exec_text (UpdateOrderStatus i from to serial) = text_update_order i from to serial"
| "exec_text (InsertNonce n expires) = text_insert_nonce n expires"
| "exec_text (DeleteNonce n now) = text_delete_nonce n now"

lemmas text_stmts = text_insert_certificate_def text_update_revoked_def text_upsert_client_role_def text_upsert_profile_def text_insert_audit_def text_insert_token_def text_consume_token_def text_insert_account_def text_insert_order_def text_update_order_def text_insert_nonce_def text_delete_nonce_def

text \<open>The same statements over records, as the methods of \<open>Sqlite_Store\<close> run them.\<close>

fun exec_records :: "sqlite_stmt \<Rightarrow> 'x world_scheme \<Rightarrow> sql_error + nat \<times> 'x world_scheme" where
  "exec_records (InsertCertificate rec) = insert_certificate (rec\<lparr>NotBefore := rfc3339 (NotBefore rec), NotAfter := rfc3339 (NotAfter rec),
     CreatedAt := rfc3339 (CreatedAt rec)\<rparr>)"
| "exec_records (UpdateRevoked serial reason at) = update_revoked serial reason (rfc3339 at)"
| "exec_records (UpsertClientRole rec) = upsert_client_role (rec\<lparr>role_CreatedAt := rfc3339 (role_CreatedAt rec)\<rparr>)"
| "exec_records (UpsertProfile rec) = upsert_profile (rec\<lparr>prof_CreatedAt := rfc3339 (prof_CreatedAt rec)\<rparr>)"
| "exec_records (InsertAudit e) = insert_audit (e\<lparr>audit_Timestamp := rfc3339 (audit_Timestamp e)\<rparr>)"
| "exec_records (InsertEABToken rec) = insert_eab_token
     (rec\<lparr>eab_CreatedAt := rfc3339 (eab_CreatedAt rec), eab_ExpiresAt := rfc3339 (eab_ExpiresAt rec)\<rparr>)"
| "exec_records (ConsumeEABToken k now) = update_eab_consumed k (rfc3339 now)"
| "exec_records (InsertAccount rec) = insert_account (rec\<lparr>acct_CreatedAt := rfc3339 (acct_CreatedAt rec)\<rparr>)"
| "exec_records (InsertOrder rec) = insert_order (rec\<lparr>order_CreatedAt := rfc3339 (order_CreatedAt rec)\<rparr>)"
| "exec_records (UpdateOrderStatus i from to serial) = update_order_status i from to serial"
| "exec_records (InsertNonce n expires) = insert_nonce n (rfc3339 expires)"
| "exec_records (DeleteNonce n now) = delete_nonce n (rfc3339 now)"

section \<open>SQLite: the queries\<close>

definition text_GetBySerial :: "string \<Rightarrow> text_db \<Rightarrow> row option" where
  "text_GetBySerial serial db = find (\<lambda>r. r ! 0 = Text serial) (t_certificates db)"

definition text_FindByKind :: "CertKind \<Rightarrow> text_db \<Rightarrow> row list" where
  "text_FindByKind kind db = sort_key (\<lambda>r. col_text r 9) (filter (\<lambda>r. r ! 1 = Text kind) (t_certificates db))"

definition text_GetLatestByProfile :: "string \<Rightarrow> text_db \<Rightarrow> row option" where
  "text_GetLatestByProfile p db =
     (case sort_key (\<lambda>r. col_text r 9) (filter (\<lambda>r. r ! 2 = Text p) (t_certificates db)) of [] \<Rightarrow> None | rs \<Rightarrow> Some (last rs))"

definition text_FindRevoked :: "text_db \<Rightarrow> row list" where
  "text_FindRevoked db = sort_key (\<lambda>r. col_text r 10) (filter (\<lambda>r. r ! 10 \<noteq> Null) (t_certificates db))"

definition text_ClientRoles_Get :: "string \<Rightarrow> text_db \<Rightarrow> row option" where
  "text_ClientRoles_Get serial db = find (\<lambda>r. r ! 0 = Text serial) (t_client_roles db)"

definition text_ClientRoles_List :: "text_db \<Rightarrow> row list" where
  "text_ClientRoles_List db = sort_key (\<lambda>r. col_text r 2) (t_client_roles db)"

definition col_int :: "row \<Rightarrow> nat \<Rightarrow> int" where
  "col_int r i = (case r ! i of Integer n \<Rightarrow> n | _ \<Rightarrow> 0)"

definition text_Profiles_Get :: "string \<Rightarrow> text_db \<Rightarrow> row option" where
  "text_Profiles_Get name db =
     (case sort_key (\<lambda>r. col_int r 1) (filter (\<lambda>r. r ! 0 = Text name) (t_profiles db)) of [] \<Rightarrow> None | rs \<Rightarrow> Some (last rs))"

definition text_Profiles_List :: "text_db \<Rightarrow> row list" where
  "text_Profiles_List db = sort_key (\<lambda>r. col_text r 0) (sort_key (\<lambda>r. col_int r 1) (t_profiles db))"

definition text_Audit_List :: "int \<Rightarrow> text_db \<Rightarrow> row list" where
  "text_Audit_List limit db = (let newest = rev (t_audit_log db) in if limit < 0 then newest else take (nat limit) newest)"

definition text_EABToken :: "string \<Rightarrow> text_db \<Rightarrow> row option" where
  "text_EABToken k db = find (\<lambda>r. r ! 0 = Text k) (t_acme_eab_tokens db)"

definition text_AccountByThumbprint :: "string \<Rightarrow> text_db \<Rightarrow> row option" where
  "text_AccountByThumbprint t db = find (\<lambda>r. r ! 1 = Text t) (t_acme_accounts db)"

definition text_AccountByID :: "string \<Rightarrow> text_db \<Rightarrow> row option" where
  "text_AccountByID i db = find (\<lambda>r. r ! 0 = Text i) (t_acme_accounts db)"

definition text_Order :: "string \<Rightarrow> text_db \<Rightarrow> row option" where
  "text_Order i db = find (\<lambda>r. r ! 0 = Text i) (t_acme_orders db)"

section \<open>Records as rows\<close>

definition certificate_row :: "CertificateRecord \<Rightarrow> row" where
  "certificate_row r = sqlite_certificate_args r @
     [case RevokedAt r of None \<Rightarrow> Null | Some t \<Rightarrow> time_arg t, Text (RevocationReason r)]"

definition audit_row :: "AuditEntry \<Rightarrow> row" where
  "audit_row e = Integer (audit_ID e) # sqlite_audit_args e"

definition token_row :: "ACMEEABTokenRecord \<Rightarrow> row" where
  "token_row r = sqlite_token_args r @ [Integer (if eab_Consumed r then 1 else 0)]"

definition nonce_row :: "string \<times> time \<Rightarrow> row" where
  "nonce_row r = [Text (fst r), time_arg (snd r)]"

lemmas row_defs = certificate_row_def audit_row_def token_row_def nonce_row_def sqlite_args

definition encode :: "'x world_scheme \<Rightarrow> text_db" where
  "encode w = \<lparr>t_certificates = map certificate_row (certificates w), t_client_roles = map sqlite_role_args (client_roles w),
     t_profiles = map sqlite_profile_args (profiles w), t_audit_log = map audit_row (audit_log w),
     t_acme_eab_tokens = map token_row (acme_eab_tokens w), t_acme_accounts = map sqlite_account_args (acme_accounts w),
     t_acme_orders = map sqlite_order_args (acme_orders w), t_acme_nonces = map nonce_row (acme_nonces w)\<rparr>"

text \<open>The instants SQLite's tables can hold: whole seconds of four-digit years.\<close>

definition whole :: "time \<Rightarrow> bool" where
  "whole t \<longleftrightarrow> Truncate_second t = t \<and> four_digit_year t"

definition times_ok :: "'x world_scheme \<Rightarrow> bool" where
  "times_ok w \<longleftrightarrow>
     (\<forall>r \<in> set (certificates w). whole (NotBefore r) \<and> whole (NotAfter r) \<and> whole (CreatedAt r) \<and> (\<forall>t. RevokedAt r = Some t \<longrightarrow> whole t)) \<and>
     (\<forall>r \<in> set (client_roles w). whole (role_CreatedAt r)) \<and> (\<forall>r \<in> set (profiles w). whole (prof_CreatedAt r)) \<and>
     (\<forall>e \<in> set (audit_log w). whole (audit_Timestamp e)) \<and>
     (\<forall>r \<in> set (acme_eab_tokens w). whole (eab_CreatedAt r) \<and> whole (eab_ExpiresAt r)) \<and>
     (\<forall>r \<in> set (acme_accounts w). whole (acct_CreatedAt r)) \<and> (\<forall>r \<in> set (acme_orders w). whole (order_CreatedAt r)) \<and>
     (\<forall>r \<in> set (acme_nonces w). whole (snd r))"

fun stmt_ok :: "sqlite_stmt \<Rightarrow> bool" where
  "stmt_ok (InsertCertificate r) = (four_digit_year (NotBefore r) \<and> four_digit_year (NotAfter r) \<and> four_digit_year (CreatedAt r))"
| "stmt_ok (UpdateRevoked serial reason at) = four_digit_year at"
| "stmt_ok (UpsertClientRole r) = four_digit_year (role_CreatedAt r)"
| "stmt_ok (UpsertProfile r) = four_digit_year (prof_CreatedAt r)"
| "stmt_ok (InsertAudit e) = four_digit_year (audit_Timestamp e)"
| "stmt_ok (InsertEABToken r) = (four_digit_year (eab_CreatedAt r) \<and> four_digit_year (eab_ExpiresAt r))"
| "stmt_ok (ConsumeEABToken k now) = four_digit_year now"
| "stmt_ok (InsertAccount r) = four_digit_year (acct_CreatedAt r)"
| "stmt_ok (InsertOrder r) = four_digit_year (order_CreatedAt r)"
| "stmt_ok (UpdateOrderStatus i from to serial) = True"
| "stmt_ok (InsertNonce n expires) = four_digit_year expires"
| "stmt_ok (DeleteNonce n now) = four_digit_year now"

lemma Unix_rfc3339 [simp]: "Unix (rfc3339 t) = Unix t"
  by (simp add: Unix_def rfc3339_def Truncate_second_def)

lemma time_arg_rfc3339 [simp]: "time_arg (rfc3339 t) = time_arg t"
  by (simp add: time_arg_def Format_RFC3339_def)

lemma time_arg_not_Null [simp]: "time_arg t \<noteq> Null" "Null \<noteq> time_arg t"
  by (simp_all add: time_arg_def)

lemma whole_rfc3339 [simp]: "four_digit_year t \<Longrightarrow> whole (rfc3339 t)"
  using Unix_rfc3339 [of t] by (simp add: whole_def four_digit_year_def) (simp add: rfc3339_def)

lemma Parse_whole: "whole t \<Longrightarrow> Parse_RFC3339 lenient (Format_RFC3339 t) = Some t"
  by (simp add: Parse_RFC3339_def whole_def parse_Format)

lemma whole_Unix: "whole t \<Longrightarrow> t = Unix t * Second"
  by (simp add: whole_def Truncate_second_def Unix_def)

text \<open>The order of texts is the order of instants.\<close>

lemma text_later: "four_digit_year now \<Longrightarrow> whole t \<Longrightarrow> Format_RFC3339 now < Format_RFC3339 t \<longleftrightarrow> rfc3339 now < t"
  using Format_less [of now t] mult_less_cancel_right_pos [OF Second_pos, of "Unix now" "Unix t"] whole_Unix [of t]
  by (simp add: whole_def rfc3339_def Truncate_second_def flip: Unix_def)

lemma text_le: "whole s \<Longrightarrow> whole t \<Longrightarrow> Format_RFC3339 s \<le> Format_RFC3339 t \<longleftrightarrow> s \<le> t"
  using text_later [of t s] by (auto simp: whole_def rfc3339_def not_less [symmetric])

lemma count_where_map: "(\<And>x. x \<in> set xs \<Longrightarrow> P' (f x) = P x) \<Longrightarrow> count_where P' (map f xs) = count_where P xs"
  unfolding count_where_def by (induction xs) auto

lemma update_where_rows:
  "(\<And>x. x \<in> set xs \<Longrightarrow> P' (f x) = P x \<and> (P x \<longrightarrow> u' (f x) = f (u x))) \<Longrightarrow>
    update_where P' u' (map f xs) = map f (update_where P u xs)"
  by (simp add: update_where_def)

lemma taken_map: "(\<And>x. f x ! i = v \<longleftrightarrow> key x = k) \<Longrightarrow> taken i v (map f xs) = has_key key k xs"
  by (simp add: taken_def has_key_def list_ex_iff)

lemma row_columns:
  "certificate_row r ! 0 = Text (Serial r)" "sqlite_role_args c ! 0 = Text (role_CertSerial c)"
  "token_row e ! 0 = Text (eab_KeyID e)" "sqlite_account_args a ! 0 = Text (acct_ID a)" "sqlite_account_args a ! 1 = Text (acct_JWKThumbprint a)"
  "sqlite_order_args q ! 0 = Text (order_ID q)" "nonce_row n ! 0 = Text (fst n)"
  by (simp_all add: row_defs)

lemma taken_rows:
  "taken 0 (Text k) (map certificate_row cs) = has_key Serial k cs"
  "taken 0 (Text k) (map sqlite_role_args rs) = has_key role_CertSerial k rs"
  "taken 0 (Text k) (map token_row ts) = has_key eab_KeyID k ts"
  "taken 0 (Text k) (map sqlite_account_args as) = has_key acct_ID k as"
  "taken (Suc 0) (Text k) (map sqlite_account_args as) = has_key acct_JWKThumbprint k as"
  "taken 0 (Text k) (map sqlite_order_args qs) = has_key order_ID k qs"
  "taken 0 (Text k) (map nonce_row ns) = has_key fst k ns"
  using row_columns by (intro taken_map; simp)+

definition encoded :: "sql_error + nat \<times> 'x world_scheme \<Rightarrow> sql_error + nat \<times> text_db" where
  "encoded r = (case r of Inl e \<Rightarrow> Inl e | Inr (n, w) \<Rightarrow> Inr (n, encode w))"

lemma encoded_simps [simp]: "encoded (Inl e) = Inl e" "encoded (Inr (n, w)) = Inr (n, encode w)"
  by (simp_all add: encoded_def)

text \<open>The two statements that compare instants.\<close>

lemma consume_token_refines:
  assumes "times_ok w" and "four_digit_year now"
  shows "text_consume_token k now (encode w) = encoded (update_eab_consumed k (rfc3339 now) w)"
proof -
  have "Format_RFC3339 now < col_text (token_row r) 4 \<longleftrightarrow> rfc3339 now < eab_ExpiresAt r" if "r \<in> set (acme_eab_tokens w)" for r
    using assms that by (simp add: times_ok_def col_text_def token_row_def sqlite_token_args_def time_arg_def text_later)
  moreover have "token_row r ! 5 = Integer 0 \<longleftrightarrow> \<not> eab_Consumed r" "token_row r ! 0 = Text k \<longleftrightarrow> eab_KeyID r = k"
      "(token_row r)[5 := Integer 1] = token_row (r\<lparr>eab_Consumed := True\<rparr>)" for r
    by (simp_all add: token_row_def sqlite_token_args_def)
  ultimately show ?thesis
    by (auto simp: encode_def text_stmts update_eab_consumed_def Let_def intro!: count_where_map update_where_rows)
qed

lemma delete_nonce_refines:
  assumes "times_ok w" and "four_digit_year now"
  shows "text_delete_nonce n now (encode w) = encoded (delete_nonce n (rfc3339 now) w)"
proof -
  have "Format_RFC3339 now < col_text (nonce_row r) 1 \<longleftrightarrow> rfc3339 now < snd r" if "r \<in> set (acme_nonces w)" for r
    using assms that by (simp add: times_ok_def col_text_def nonce_row_def time_arg_def text_later)
  moreover have "nonce_row r ! 0 = Text n \<longleftrightarrow> fst r = n" for r
    by (simp add: nonce_row_def)
  ultimately show ?thesis
    by (auto simp: encode_def text_stmts delete_nonce_def Let_def filter_map comp_def intro!: count_where_map cong: filter_cong)
qed

lemma exec_text_refines:
  assumes "times_ok w" and "stmt_ok s"
  shows "exec_text s (encode w) = encoded (exec_records s w)"
proof (cases s)
  case (InsertCertificate rec)
  then show ?thesis
    by (auto simp: encode_def text_stmts insert_certificate_def taken_rows sqlite_certificate_args_def certificate_row_def null_arg_def Let_def)
next
  case (UpdateRevoked serial reason at)
  then show ?thesis
    by (auto simp: encode_def text_stmts update_revoked_def Let_def sqlite_certificate_args_def certificate_row_def
        intro!: count_where_map update_where_rows split: option.splits)
next
  case (UpsertClientRole rec)
  then show ?thesis
    by (auto simp: encode_def text_stmts upsert_client_role_def Let_def taken_rows sqlite_role_args_def role_values_def roles_allowed_def
        taken_rows(2) [unfolded sqlite_role_args_def] intro!: update_where_rows)
next
  case (UpsertProfile rec)
  then show ?thesis
    by (auto simp: encode_def text_stmts upsert_profile_def Let_def sqlite_profile_args_def list_ex_iff intro!: update_where_rows)
next
  case (InsertAudit e)
  then show ?thesis
    by (simp add: encode_def text_stmts insert_audit_def audit_row_def sqlite_audit_args_def)
next
  case (InsertEABToken rec)
  then show ?thesis
    by (auto simp: encode_def text_stmts insert_eab_token_def Let_def taken_rows sqlite_token_args_def token_row_def role_values_def roles_allowed_def)
next
  case (ConsumeEABToken k now)
  then show ?thesis
    using assms by (simp add: consume_token_refines)
next
  case (InsertAccount rec)
  then show ?thesis
    by (auto simp: encode_def text_stmts insert_account_def Let_def taken_rows sqlite_account_args_def role_values_def roles_allowed_def
        taken_rows(4,5) [unfolded sqlite_account_args_def])
next
  case (InsertOrder rec)
  then show ?thesis
    by (auto simp: encode_def text_stmts insert_order_def Let_def taken_rows sqlite_order_args_def taken_rows(6) [unfolded sqlite_order_args_def])
next
  case (UpdateOrderStatus i old new serial)
  then show ?thesis
    by (auto simp: encode_def text_stmts update_order_status_def Let_def sqlite_order_args_def intro!: count_where_map update_where_rows)
next
  case (InsertNonce n expires)
  then show ?thesis
    by (auto simp: encode_def text_stmts insert_nonce_def taken_rows nonce_row_def)
next
  case (DeleteNonce n now)
  then show ?thesis
    using assms by (simp add: delete_nonce_refines)
qed

section \<open>The instants stay in range\<close>

lemma times_ok_exec:
  assumes "times_ok w" and "stmt_ok s" and "exec_records s w = Inr (n, w')"
  shows "times_ok w'"
proof (cases s)
  case (UpdateRevoked serial reason at)
  then show ?thesis
    using assms unfolding times_ok_def by (clarsimp simp: update_revoked_def Let_def update_where_def) (elim disjE; clarsimp)
next
  case (UpsertClientRole rec)
  then show ?thesis
    using assms unfolding times_ok_def
    by (clarsimp simp: upsert_client_role_def Let_def ball_Un update_where_def split: if_splits; elim disjE; clarsimp)
next
  case (UpsertProfile rec)
  then show ?thesis
    using assms unfolding times_ok_def
    by (clarsimp simp: upsert_profile_def Let_def ball_Un update_where_def split: if_splits; elim disjE; clarsimp)
next
  case (ConsumeEABToken k now)
  then show ?thesis
    using assms unfolding times_ok_def by (clarsimp simp: update_eab_consumed_def Let_def update_where_def) (elim disjE; clarsimp)
next
  case (UpdateOrderStatus i old new serial)
  then show ?thesis
    using assms unfolding times_ok_def by (clarsimp simp: update_order_status_def Let_def update_where_def) (elim disjE; clarsimp)
qed (use assms in \<open>unfold times_ok_def; clarsimp simp: statement_defs Let_def ball_Un split: if_splits; simp add: ball_Un\<close>)+

section \<open>Rows scan back\<close>

lemma scan_rows_back [simp]:
  "whole (NotBefore c) \<Longrightarrow> whole (NotAfter c) \<Longrightarrow> whole (CreatedAt c) \<Longrightarrow> \<forall>t. RevokedAt c = Some t \<longrightarrow> whole t \<Longrightarrow>
    sqlite_scanCertificate lenient (certificate_row c) = Some c"
  "whole (role_CreatedAt r) \<Longrightarrow> sqlite_scanClientRole lenient (sqlite_role_args r) = Some r"
  "whole (prof_CreatedAt p) \<Longrightarrow> sqlite_scanProfile lenient (sqlite_profile_args p) = Some p"
  "whole (audit_Timestamp e) \<Longrightarrow> sqlite_scanAudit lenient (audit_row e) = Some e"
  "whole (eab_CreatedAt k) \<Longrightarrow> whole (eab_ExpiresAt k) \<Longrightarrow> sqlite_scanACMEEABToken lenient (token_row k) = Some k"
  "whole (acct_CreatedAt a) \<Longrightarrow> sqlite_scanACMEAccount lenient (sqlite_account_args a) = Some a"
  "whole (order_CreatedAt q) \<Longrightarrow> sqlite_scanACMEOrder lenient (sqlite_order_args q) = Some q"
  by (auto simp: sqlite_scans row_defs time_arg_def null_arg_def NullString_String_def Parse_whole split: option.splits)

lemma sort_rows:
  "(\<And>x y. x \<in> set xs \<Longrightarrow> y \<in> set xs \<Longrightarrow> key' (f x) \<le> key' (f y) \<longleftrightarrow> key x \<le> key y) \<Longrightarrow>
    sort_key key' (map f xs) = map f (sort_key key xs)"
proof (induction xs)
  case (Cons x xs)
  have "insort_key key' (f x) (map f ys) = map f (insort_key key x ys)" if "set ys \<subseteq> set xs" for ys
    using that Cons.prems by (induction ys) auto
  then show ?case
    using Cons by simp
qed simp

lemma find_rows: "(\<And>x. P' (f x) = P x) \<Longrightarrow> find P' (map f xs) = map_option f (find P xs)"
  by (induction xs) auto

lemma filter_rows: "(\<And>x. P' (f x) = P x) \<Longrightarrow> filter P' (map f xs) = map f (filter P xs)"
  by (induction xs) auto

lemma last_rows: "(case map f xs of [] \<Rightarrow> None | rs \<Rightarrow> Some (last rs)) = map_option f (case xs of [] \<Rightarrow> None | rs \<Rightarrow> Some (last rs))"
  by (cases xs) (auto simp: last_map)

lemma certificate_columns:
  "certificate_row c ! 0 = Text x \<longleftrightarrow> Serial c = x" "certificate_row c ! 1 = Text x \<longleftrightarrow> Kind c = x" "certificate_row c ! 2 = Text x \<longleftrightarrow> ProfileName c = x"
  "certificate_row c ! 10 \<noteq> Null \<longleftrightarrow> RevokedAt c \<noteq> None" "col_text (certificate_row c) 9 = Format_RFC3339 (CreatedAt c)"
  "RevokedAt c = Some t \<Longrightarrow> col_text (certificate_row c) 10 = Format_RFC3339 t"
  by (auto simp: certificate_row_def sqlite_certificate_args_def col_text_def time_arg_def split: option.splits)

lemma certificate_sorts:
  assumes "times_ok w" and "set xs \<subseteq> set (certificates w)"
  shows "sort_key (\<lambda>r. col_text r 9) (map certificate_row xs) = map certificate_row (sort_key CreatedAt xs)"
    and "\<forall>c \<in> set xs. RevokedAt c \<noteq> None \<Longrightarrow>
      sort_key (\<lambda>r. col_text r 10) (map certificate_row xs) = map certificate_row (sort_key revoked_at_key xs)"
proof -
  have w: "whole (CreatedAt c)" "\<And>t. RevokedAt c = Some t \<Longrightarrow> whole t" if "c \<in> set xs" for c
    using assms that by (auto simp: times_ok_def)
  show "sort_key (\<lambda>r. col_text r 9) (map certificate_row xs) = map certificate_row (sort_key CreatedAt xs)"
    by (rule sort_rows) (simp add: certificate_columns text_le w)
  assume r: "\<forall>c \<in> set xs. RevokedAt c \<noteq> None"
  show "sort_key (\<lambda>r. col_text r 10) (map certificate_row xs) = map certificate_row (sort_key revoked_at_key xs)"
  proof (rule sort_rows)
    fix x y
    assume xy: "x \<in> set xs" "y \<in> set xs"
    then obtain s t where "RevokedAt x = Some s" "RevokedAt y = Some t"
      using r by blast
    with w xy show "col_text (certificate_row x) 10 \<le> col_text (certificate_row y) 10 \<longleftrightarrow> revoked_at_key x \<le> revoked_at_key y"
      by (simp add: certificate_columns text_le revoked_at_key_def)
  qed
qed

lemma whole_column:
  assumes "times_ok w"
  shows "c \<in> set (certificates w) \<Longrightarrow> whole (NotBefore c) \<and> whole (NotAfter c) \<and> whole (CreatedAt c) \<and> (\<forall>t. RevokedAt c = Some t \<longrightarrow> whole t)"
    and "r \<in> set (client_roles w) \<Longrightarrow> whole (role_CreatedAt r)" and "p \<in> set (profiles w) \<Longrightarrow> whole (prof_CreatedAt p)"
    and "e \<in> set (audit_log w) \<Longrightarrow> whole (audit_Timestamp e)"
    and "k \<in> set (acme_eab_tokens w) \<Longrightarrow> whole (eab_CreatedAt k) \<and> whole (eab_ExpiresAt k)"
    and "a \<in> set (acme_accounts w) \<Longrightarrow> whole (acct_CreatedAt a)" and "q \<in> set (acme_orders w) \<Longrightarrow> whole (order_CreatedAt q)"
  using assms unfolding times_ok_def by blast+

text \<open>What the database returns for each query is the encoding of what the query over records returns.\<close>

lemma text_certificate_queries:
  assumes "times_ok w"
  shows "text_GetBySerial serial (encode w) = map_option certificate_row (select_certificate serial w)"
    and "text_FindByKind kind (encode w) = map certificate_row (select_by_kind kind w)"
    and "text_GetLatestByProfile p (encode w) = map_option certificate_row (select_latest_by_profile p w)"
    and "text_FindRevoked (encode w) = map certificate_row (select_revoked w)"
proof -
  show "text_GetBySerial serial (encode w) = map_option certificate_row (select_certificate serial w)"
    unfolding text_GetBySerial_def encode_def select_certificate_def text_db.simps by (rule find_rows) (rule certificate_columns)
  have kind: "filter (\<lambda>r. r ! 1 = Text kind) (t_certificates (encode w)) = map certificate_row (filter (\<lambda>c. Kind c = kind) (certificates w))"
    unfolding encode_def text_db.simps by (rule filter_rows) (rule certificate_columns)
  show "text_FindByKind kind (encode w) = map certificate_row (select_by_kind kind w)"
    unfolding text_FindByKind_def select_by_kind_def kind by (rule certificate_sorts(1) [OF assms]) auto
  have prof: "filter (\<lambda>r. r ! 2 = Text p) (t_certificates (encode w)) = map certificate_row (filter (\<lambda>c. ProfileName c = p) (certificates w))"
    unfolding encode_def text_db.simps by (rule filter_rows) (rule certificate_columns)
  have "sort_key (\<lambda>r. col_text r 9) (map certificate_row (filter (\<lambda>c. ProfileName c = p) (certificates w))) =
      map certificate_row (sort_key CreatedAt (filter (\<lambda>c. ProfileName c = p) (certificates w)))"
    by (rule certificate_sorts(1) [OF assms]) auto
  then show "text_GetLatestByProfile p (encode w) = map_option certificate_row (select_latest_by_profile p w)"
    unfolding text_GetLatestByProfile_def select_latest_by_profile_def prof by (simp only: last_rows)
  have revoked: "filter (\<lambda>r. r ! 10 \<noteq> Null) (t_certificates (encode w)) = map certificate_row (filter (\<lambda>c. RevokedAt c \<noteq> None) (certificates w))"
    unfolding encode_def text_db.simps by (rule filter_rows) (rule certificate_columns)
  show "text_FindRevoked (encode w) = map certificate_row (select_revoked w)"
    unfolding text_FindRevoked_def select_revoked_def revoked by (rule certificate_sorts(2) [OF assms]) auto
qed

lemma text_other_queries:
  assumes "times_ok w"
  shows "text_ClientRoles_Get serial (encode w) = map_option sqlite_role_args (select_client_role serial w)"
    and "text_ClientRoles_List (encode w) = map sqlite_role_args (select_client_roles w)"
    and "text_Profiles_Get p (encode w) = map_option sqlite_profile_args (select_profile p w)"
    and "text_Profiles_List (encode w) = map sqlite_profile_args (select_profiles (\<lambda>name. name) w)"
    and "text_Audit_List limit (encode w) = map audit_row (if limit < 0 then rev (audit_log w) else select_audit (nat limit) w)"
    and "text_EABToken k (encode w) = map_option token_row (select_eab_token k w)"
    and "text_AccountByThumbprint t (encode w) = map_option sqlite_account_args (select_account_by_thumbprint t w)"
    and "text_AccountByID i (encode w) = map_option sqlite_account_args (select_account_by_id i w)"
    and "text_Order i (encode w) = map_option sqlite_order_args (select_order i w)"
proof -
  show "text_ClientRoles_List (encode w) = map sqlite_role_args (select_client_roles w)"
    unfolding text_ClientRoles_List_def select_client_roles_def encode_def text_db.simps
    by (rule sort_rows) (simp add: col_text_def sqlite_role_args_def time_arg_def text_le whole_column [OF assms])
  have byname: "filter (\<lambda>r. r ! 0 = Text p) (t_profiles (encode w)) = map sqlite_profile_args (filter (\<lambda>r. prof_Name r = p) (profiles w))"
    unfolding encode_def text_db.simps by (rule filter_rows) (simp add: sqlite_profile_args_def)
  have version: "sort_key (\<lambda>r. col_int r 1) (map sqlite_profile_args ps) = map sqlite_profile_args (sort_key prof_Version ps)" for ps
    by (rule sort_rows) (simp add: col_int_def sqlite_profile_args_def)
  show "text_Profiles_Get p (encode w) = map_option sqlite_profile_args (select_profile p w)"
    unfolding text_Profiles_Get_def select_profile_def byname version by (rule last_rows)
  have "t_profiles (encode w) = map sqlite_profile_args (profiles w)"
    by (simp add: encode_def)
  then show "text_Profiles_List (encode w) = map sqlite_profile_args (select_profiles (\<lambda>name. name) w)"
    unfolding text_Profiles_List_def select_profiles_def by (simp only: version) (rule sort_rows, simp add: col_text_def sqlite_profile_args_def)
  show "text_Audit_List limit (encode w) = map audit_row (if limit < 0 then rev (audit_log w) else select_audit (nat limit) w)"
    by (simp add: text_Audit_List_def encode_def select_audit_def rev_map take_map)
  show "text_AccountByThumbprint t (encode w) = map_option sqlite_account_args (select_account_by_thumbprint t w)"
    unfolding text_AccountByThumbprint_def select_account_by_thumbprint_def encode_def text_db.simps by (rule find_rows) (simp add: sqlite_account_args_def)
qed (simp_all add: text_ClientRoles_Get_def text_EABToken_def text_AccountByID_def text_Order_def
    select_client_role_def select_eab_token_def select_account_by_id_def select_order_def encode_def
    find_rows [where P = "\<lambda>r. role_CertSerial r = serial"] find_rows [where P = "\<lambda>r. eab_KeyID r = k"] find_rows [where P = "\<lambda>r. acct_ID r = i"]
    find_rows [where P = "\<lambda>r. order_ID r = i"] row_columns)

lemmas text_queries = text_certificate_queries text_other_queries

section \<open>The repositories over the database\<close>

text \<open>The rows of a query, scanned one after the other: the loops over \<open>rows.Next()\<close>.\<close>

fun scanned_all :: "(row \<Rightarrow> 'a option) \<Rightarrow> row list \<Rightarrow> 'a list res" where
  "scanned_all scan [] = Inr []"
| "scanned_all scan (cols # rows) = (case scan cols of
     None \<Rightarrow> Inl (ErrWrapped DriverFailure)
   | Some x \<Rightarrow> map_sum id (\<lambda>xs. x # xs) (scanned_all scan rows))"

text \<open>A table as a repository needs it: the row of a record it can hold scans to that record. Then a row queried scans to
  the record queried, and a list of rows to the list of records, without an error.\<close>

locale row_codec =
  fixes row_of :: "'a \<Rightarrow> row" and scan :: "row \<Rightarrow> 'a option" and holds :: "'a \<Rightarrow> bool"
  assumes scan_row_of: "holds x \<Longrightarrow> scan (row_of x) = Some x"
begin

lemma scanned_back: "(\<And>x. r = Some x \<Longrightarrow> holds x) \<Longrightarrow> scanned scan (map_option row_of r) = scan_row (Inr r)"
  by (cases r) (auto simp: scanned_def scan_row_def scan_row_of)

lemma scanned_all_back: "(\<And>x. x \<in> set xs \<Longrightarrow> holds x) \<Longrightarrow> scanned_all scan (map row_of xs) = scan_rows (Inr xs)"
  by (induction xs) (auto simp: scan_rows_def scan_row_of)

end

definition cert_times :: "CertificateRecord \<Rightarrow> bool" where
  "cert_times c \<longleftrightarrow> whole (NotBefore c) \<and> whole (NotAfter c) \<and> whole (CreatedAt c) \<and> (\<forall>t. RevokedAt c = Some t \<longrightarrow> whole t)"

interpretation certificate_codec: row_codec certificate_row "sqlite_scanCertificate lenient" cert_times
  by unfold_locales (simp add: cert_times_def)

interpretation role_codec: row_codec sqlite_role_args "sqlite_scanClientRole lenient" "\<lambda>r. whole (role_CreatedAt r)"
  by unfold_locales simp

interpretation profile_codec: row_codec sqlite_profile_args "sqlite_scanProfile lenient" "\<lambda>r. whole (prof_CreatedAt r)"
  by unfold_locales simp

interpretation audit_codec: row_codec audit_row "sqlite_scanAudit lenient" "\<lambda>e. whole (audit_Timestamp e)"
  by unfold_locales simp

interpretation token_codec: row_codec token_row "sqlite_scanACMEEABToken lenient" "\<lambda>r. whole (eab_CreatedAt r) \<and> whole (eab_ExpiresAt r)"
  by unfold_locales simp

interpretation account_codec: row_codec sqlite_account_args "sqlite_scanACMEAccount lenient" "\<lambda>r. whole (acct_CreatedAt r)"
  by unfold_locales simp

interpretation order_codec: row_codec sqlite_order_args "sqlite_scanACMEOrder lenient" "\<lambda>r. whole (order_CreatedAt r)"
  by unfold_locales simp

lemmas row_scans_back = certificate_codec.scanned_back role_codec.scanned_back profile_codec.scanned_back token_codec.scanned_back
  account_codec.scanned_back order_codec.scanned_back

lemmas rows_scan_back = certificate_codec.scanned_all_back role_codec.scanned_all_back profile_codec.scanned_all_back audit_codec.scanned_all_back

lemma find_member: "find P xs = Some x \<Longrightarrow> x \<in> set xs"
  by (auto simp: find_Some_iff)

lemma last_member: "(case sort_key k (filter P xs) of [] \<Rightarrow> None | rs \<Rightarrow> Some (last rs)) = Some x \<Longrightarrow> x \<in> set xs"
  using last_in_set [of "sort_key k (filter P xs)"] by (auto split: list.splits)

text \<open>The rows queried scan to the records queried.\<close>

lemma scanned_certificates:
  assumes "times_ok w"
  shows "scanned (sqlite_scanCertificate lenient) (text_GetBySerial serial (encode w)) = scan_row (Inr (select_certificate serial w))"
    and "scanned_all (sqlite_scanCertificate lenient) (text_FindByKind kind (encode w)) = scan_rows (Inr (select_by_kind kind w))"
    and "scanned (sqlite_scanCertificate lenient) (text_GetLatestByProfile p (encode w)) = scan_row (Inr (select_latest_by_profile p w))"
    and "scanned_all (sqlite_scanCertificate lenient) (text_FindRevoked (encode w)) = scan_rows (Inr (select_revoked w))"
proof -
  have reads: "cert_times c" if "c \<in> set (certificates w)" for c
    using whole_column(1) [OF assms that] by (simp add: cert_times_def)
  show "scanned (sqlite_scanCertificate lenient) (text_GetBySerial serial (encode w)) = scan_row (Inr (select_certificate serial w))"
    unfolding text_queries [OF assms] by (rule row_scans_back(1)) (auto simp: select_certificate_def dest!: find_member intro: reads)
  show "scanned_all (sqlite_scanCertificate lenient) (text_FindByKind kind (encode w)) = scan_rows (Inr (select_by_kind kind w))"
    unfolding text_queries [OF assms] by (rule rows_scan_back(1)) (auto simp: select_by_kind_def intro: reads)
  show "scanned (sqlite_scanCertificate lenient) (text_GetLatestByProfile p (encode w)) = scan_row (Inr (select_latest_by_profile p w))"
    unfolding text_queries [OF assms] by (rule row_scans_back(1)) (auto simp: select_latest_by_profile_def dest!: last_member intro: reads)
  show "scanned_all (sqlite_scanCertificate lenient) (text_FindRevoked (encode w)) = scan_rows (Inr (select_revoked w))"
    unfolding text_queries [OF assms] by (rule rows_scan_back(1)) (auto simp: select_revoked_def intro: reads)
qed

lemma scanned_roles_profiles_audit:
  assumes "times_ok w"
  shows "scanned (sqlite_scanClientRole lenient) (text_ClientRoles_Get serial (encode w)) = scan_row (Inr (select_client_role serial w))"
    and "scanned_all (sqlite_scanClientRole lenient) (text_ClientRoles_List (encode w)) = scan_rows (Inr (select_client_roles w))"
    and "scanned (sqlite_scanProfile lenient) (text_Profiles_Get p (encode w)) = scan_row (Inr (select_profile p w))"
    and "scanned_all (sqlite_scanProfile lenient) (text_Profiles_List (encode w)) = scan_rows (Inr (select_profiles (\<lambda>name. name) w))"
    and "scanned_all (sqlite_scanAudit lenient) (text_Audit_List limit (encode w)) =
      scan_rows (Inr (if limit < 0 then rev (audit_log w) else select_audit (nat limit) w))"
  unfolding text_queries [OF assms]
  by (rule row_scans_back(2,3) rows_scan_back(2-4),
      auto simp: query_defs whole_column [OF assms] split: if_splits dest!: find_member last_member in_set_takeD)+

lemma scanned_acme:
  assumes "times_ok w"
  shows "scanned (sqlite_scanACMEEABToken lenient) (text_EABToken k (encode w)) = scan_row (Inr (select_eab_token k w))"
    and "scanned (sqlite_scanACMEAccount lenient) (text_AccountByThumbprint t (encode w)) = scan_row (Inr (select_account_by_thumbprint t w))"
    and "scanned (sqlite_scanACMEAccount lenient) (text_AccountByID i (encode w)) = scan_row (Inr (select_account_by_id i w))"
    and "scanned (sqlite_scanACMEOrder lenient) (text_Order i (encode w)) = scan_row (Inr (select_order i w))"
  unfolding text_queries [OF assms]
  by (rule row_scans_back(4-6), simp add: query_defs, drule find_member, simp add: whole_column [OF assms])+

text \<open>A sequence of statements, in either reading: the outcome of each, and the tables at the end.\<close>

fun run_stmts :: "(sqlite_stmt \<Rightarrow> 'd \<Rightarrow> sql_error + nat \<times> 'd) \<Rightarrow> sqlite_stmt list \<Rightarrow> 'd \<Rightarrow> (sql_error + nat) list \<times> 'd" where
  "run_stmts exec [] d = ([], d)"
| "run_stmts exec (s # ss) d = (case exec s d of
     Inl e \<Rightarrow> map_prod (\<lambda>rs. Inl e # rs) id (run_stmts exec ss d)
   | Inr (n, d') \<Rightarrow> map_prod (\<lambda>rs. Inr n # rs) id (run_stmts exec ss d'))"

lemma run_stmts_refine:
  "times_ok w \<Longrightarrow> list_all stmt_ok ss \<Longrightarrow>
    run_stmts exec_text ss (encode w) = map_prod id encode (run_stmts exec_records ss w) \<and> times_ok (snd (run_stmts exec_records ss w))"
proof (induction ss arbitrary: w)
  case (Cons s ss)
  then have refines: "exec_text s (encode w) = encoded (exec_records s w)" and rest: "list_all stmt_ok ss"
    by (simp_all add: exec_text_refines)
  show ?case
  proof (cases "exec_records s w")
    case (Inl e)
    with Cons.IH [OF Cons.prems(1) rest] refines show ?thesis
      by (simp add: prod.map_comp comp_def id_def)
  next
    case (Inr r)
    then obtain n w' where r: "exec_records s w = Inr (n, w')"
      by (cases r) simp
    moreover have "times_ok w'"
      using times_ok_exec [OF Cons.prems(1) _ r] Cons.prems(2) by simp
    ultimately show ?thesis
      using Cons.IH [of w'] rest refines by (simp add: prod.map_comp comp_def id_def)
  qed
qed simp

text \<open>The methods of \<open>Sqlite_Store\<close> that write run these statements.\<close>

lemma sqlite_methods_exec:
  "sqlite_Certificates_Create rec = do { r \<leftarrow> ExecContext (exec_records (InsertCertificate rec)); ret (exec_done r) }"
  "sqlite_ClientRoles_Assign role = do { r \<leftarrow> ExecContext (exec_records (UpsertClientRole role)); ret (exec_done r) }"
  "sqlite_Profiles_Upsert prof = do { r \<leftarrow> ExecContext (exec_records (UpsertProfile prof)); ret (exec_done r) }"
  "sqlite_Audit_Append entry = do { r \<leftarrow> ExecContext (exec_records (InsertAudit entry)); ret (exec_done r) }"
  "sqlite_ACMEEABTokens_Create tok = do { r \<leftarrow> ExecContext (exec_records (InsertEABToken tok)); ret (exec_done r) }"
  "sqlite_ACMEOrders_Create order = do { r \<leftarrow> ExecContext (exec_records (InsertOrder order)); ret (exec_done r) }"
  "sqlite_ACMENonces_ConsumeIfValid nonce now = do { r \<leftarrow> ExecContext (exec_records (DeleteNonce nonce now));
     (case r of Inl e \<Rightarrow> ret (Inl (ErrWrapped e)) | Inr n \<Rightarrow> ret (Inr (n > 0))) }"
  by (simp_all add: sqlite_defs)

section \<open>PostgreSQL: the rows\<close>

text \<open>\<open>TIMESTAMPTZ\<close> columns hold the instants themselves, \<open>BOOLEAN\<close> ones the flag.\<close>

definition pg_certificate_row :: "CertificateRecord \<Rightarrow> row" where
  "pg_certificate_row r =
     [Text (Serial r), Text (Kind r), Text (ProfileName r), Text (Subject r), null_arg (IssuerSerial r), Timestamp (NotBefore r),
      Timestamp (NotAfter r), Text (PEM r), Text (KeyRef r), Timestamp (CreatedAt r),
      case RevokedAt r of None \<Rightarrow> Null | Some t \<Rightarrow> Timestamp t, Text (RevocationReason r)]"

definition pg_role_row :: "ClientRoleRecord \<Rightarrow> row" where
  "pg_role_row r = [Text (role_CertSerial r), Text (role_Role r), Timestamp (role_CreatedAt r)]"

definition pg_profile_row :: "ProfileRecord \<Rightarrow> row" where
  "pg_profile_row r = [Text (prof_Name r), Integer (prof_Version r), Text (prof_Data r), Timestamp (prof_CreatedAt r)]"

definition pg_audit_row :: "AuditEntry \<Rightarrow> row" where
  "pg_audit_row e = [Integer (audit_ID e), Timestamp (audit_Timestamp e), Text (audit_Actor e), Text (audit_Action e), Text (audit_Target e),
     Text (audit_Detail e)]"

definition pg_token_row :: "ACMEEABTokenRecord \<Rightarrow> row" where
  "pg_token_row r = [Text (eab_KeyID r), Text (eab_HMACKey r), Text (eab_Role r), Timestamp (eab_CreatedAt r), Timestamp (eab_ExpiresAt r),
     Boolean (eab_Consumed r)]"

definition pg_account_row :: "ACMEAccountRecord \<Rightarrow> row" where
  "pg_account_row r = [Text (acct_ID r), Text (acct_JWKThumbprint r), Text (acct_PublicKeyJWK r), Text (acct_Role r),
     Text (acct_EABKeyID r), Timestamp (acct_CreatedAt r)]"

definition pg_order_row :: "ACMEOrderRecord \<Rightarrow> row" where
  "pg_order_row r = [Text (order_ID r), Text (order_AccountID r), Text (order_Identifier r), Text (order_Status r),
     Text (order_CertSerial r), Timestamp (order_CreatedAt r)]"

lemma pg_scan_rows_back:
  "pg_scanCertificate (pg_certificate_row c) = Some c" "pg_scanClientRole (pg_role_row r) = Some r"
  "pg_scanProfile (pg_profile_row p) = Some p" "pg_scanAudit (pg_audit_row e) = Some e"
  "pg_scanACMEEABToken (pg_token_row k) = Some k" "pg_scanACMEAccount (pg_account_row a) = Some a"
  "pg_scanACMEOrder (pg_order_row q) = Some q"
  by (auto simp: pg_scans pg_certificate_row_def pg_role_row_def pg_profile_row_def pg_audit_row_def pg_token_row_def
      pg_account_row_def pg_order_row_def null_arg_def NullString_String_def split: option.splits)

interpretation pg_certificate_codec: row_codec pg_certificate_row pg_scanCertificate "\<lambda>_. True"
  by unfold_locales (simp add: pg_scan_rows_back)

interpretation pg_role_codec: row_codec pg_role_row pg_scanClientRole "\<lambda>_. True"
  by unfold_locales (simp add: pg_scan_rows_back)

interpretation pg_profile_codec: row_codec pg_profile_row pg_scanProfile "\<lambda>_. True"
  by unfold_locales (simp add: pg_scan_rows_back)

interpretation pg_audit_codec: row_codec pg_audit_row pg_scanAudit "\<lambda>_. True"
  by unfold_locales (simp add: pg_scan_rows_back)

interpretation pg_token_codec: row_codec pg_token_row pg_scanACMEEABToken "\<lambda>_. True"
  by unfold_locales (simp add: pg_scan_rows_back)

interpretation pg_account_codec: row_codec pg_account_row pg_scanACMEAccount "\<lambda>_. True"
  by unfold_locales (simp add: pg_scan_rows_back)

interpretation pg_order_codec: row_codec pg_order_row pg_scanACMEOrder "\<lambda>_. True"
  by unfold_locales (simp add: pg_scan_rows_back)

section \<open>Properties\<close>

definition tables1 :: world where
  "tables1 = \<lparr>certificates = [\<lparr>Serial = ''01'', Kind = CertKindRoot, ProfileName = ''ca'', Subject = ''Root'', IssuerSerial = [],
       NotBefore = 0, NotAfter = 86400 * Second, PEM = ''pem'', KeyRef = ''root'', CreatedAt = 0, RevokedAt = Some (951782400 * Second),
       RevocationReason = ''keyCompromise''\<rparr>],
     client_roles = [], profiles = [], audit_log = [], acme_eab_tokens = [], acme_accounts = [], acme_orders = [],
     acme_nonces = [(''n'', 951782400 * Second)], faults = [], clock = 0, clock_tape = [], rand_tape = []\<rparr>"

lemma tables1_ok: "times_ok tables1" "next_fault tables1 = Runs"
  by (simp_all add: times_ok_def tables1_def whole_def four_digit_year_def Unix_def Truncate_second_def Second_def next_fault_def)

text \<open>C23. SQLite, which keeps instants as text and compares and sorts them as text, does what the statements over records and
  instants say: any sequence of the statements of \<open>internal/store/sqlite\<close> on tables of whole-second instants of
  four-digit years gives the same outcome statement by statement (constraint violations and affected rows) and tables
  that encode the same records, which again hold such instants only.\<close>

theorem sqlite_columns_refine:
  assumes "times_ok w" and "list_all stmt_ok ss"
  shows "run_stmts exec_text ss (encode w) = map_prod id encode (run_stmts exec_records ss w) \<and>
    times_ok (snd (run_stmts exec_records ss w))"
  using assms by (rule run_stmts_refine)

theorem sqlite_columns_refine_witness:
  "run_stmts exec_text [DeleteNonce ''n'' (951782400 * Second), DeleteNonce ''n'' (951782399 * Second + 7), InsertNonce ''n'' 0] (encode tables1) =
   map_prod id encode (run_stmts exec_records [DeleteNonce ''n'' (951782400 * Second), DeleteNonce ''n'' (951782399 * Second + 7), InsertNonce ''n'' 0] tables1) \<and>
   fst (run_stmts exec_records [DeleteNonce ''n'' (951782400 * Second), DeleteNonce ''n'' (951782399 * Second + 7), InsertNonce ''n'' 0] tables1) =
     [Inr 0, Inr 1, Inr 1]"
proof
  show "run_stmts exec_text [DeleteNonce ''n'' (951782400 * Second), DeleteNonce ''n'' (951782399 * Second + 7), InsertNonce ''n'' 0] (encode tables1) =
   map_prod id encode (run_stmts exec_records [DeleteNonce ''n'' (951782400 * Second), DeleteNonce ''n'' (951782399 * Second + 7), InsertNonce ''n'' 0] tables1)"
    by (rule sqlite_columns_refine [OF tables1_ok(1), THEN conjunct1]) (simp add: four_digit_year_def Unix_def Second_def)
qed (simp add: tables1_def delete_nonce_def insert_nonce_def has_key_def count_where_def Let_def rfc3339_def Truncate_second_def Second_def)

text \<open>C24. Reading back: on a database that answers and whose tables encode records of whole-second instants of four-digit
  years, every query method of the SQLite backend returns what scanning the rows of its query gives, down to parsing the
  instants from their text; no row fails to scan, whatever the parser does with texts that are not of the standard form.\<close>

theorem sqlite_scans_back:
  assumes "times_ok w" and "next_fault w = Runs"
  shows "fst (run_state (sqlite_Certificates_GetBySerial serial) w) = scanned (sqlite_scanCertificate lenient) (text_GetBySerial serial (encode w)) \<and>
    fst (run_state (sqlite_Certificates_FindByKind kind) w) = scanned_all (sqlite_scanCertificate lenient) (text_FindByKind kind (encode w)) \<and>
    fst (run_state (sqlite_Certificates_GetLatestByProfile p) w) =
      scanned (sqlite_scanCertificate lenient) (text_GetLatestByProfile p (encode w)) \<and>
    fst (run_state sqlite_Certificates_FindRevoked w) = scanned_all (sqlite_scanCertificate lenient) (text_FindRevoked (encode w)) \<and>
    fst (run_state (sqlite_ClientRoles_Get serial) w) = scanned (sqlite_scanClientRole lenient) (text_ClientRoles_Get serial (encode w)) \<and>
    fst (run_state sqlite_ClientRoles_List w) = scanned_all (sqlite_scanClientRole lenient) (text_ClientRoles_List (encode w)) \<and>
    fst (run_state (sqlite_Profiles_Get p) w) = scanned (sqlite_scanProfile lenient) (text_Profiles_Get p (encode w)) \<and>
    fst (run_state sqlite_Profiles_List w) = scanned_all (sqlite_scanProfile lenient) (text_Profiles_List (encode w)) \<and>
    fst (run_state (sqlite_Audit_List limit) w) = scanned_all (sqlite_scanAudit lenient) (text_Audit_List limit (encode w)) \<and>
    fst (run_state (sqlite_ACMEEABTokens_Get k) w) = scanned (sqlite_scanACMEEABToken lenient) (text_EABToken k (encode w)) \<and>
    fst (run_state (sqlite_ACMEAccounts_GetByThumbprint t) w) =
      scanned (sqlite_scanACMEAccount lenient) (text_AccountByThumbprint t (encode w)) \<and>
    fst (run_state (sqlite_ACMEAccounts_GetByID i) w) = scanned (sqlite_scanACMEAccount lenient) (text_AccountByID i (encode w)) \<and>
    fst (run_state (sqlite_ACMEOrders_Get i) w) = scanned (sqlite_scanACMEOrder lenient) (text_Order i (encode w))"
  using assms(2) unfolding scanned_certificates [OF assms(1)] scanned_roles_profiles_audit [OF assms(1)] scanned_acme [OF assms(1)]
  by (simp add: sqlite_defs QueryContext_def query_defs drop_fault_def run_state_bind)

theorem sqlite_scans_back_witness:
  "scanned (sqlite_scanCertificate (\<lambda>_. None)) (text_GetBySerial ''01'' (encode tables1)) = Inr (hd (certificates tables1)) \<and>
   scanned_all (sqlite_scanCertificate (\<lambda>_. None)) (text_FindRevoked (encode tables1)) = Inr (certificates tables1)"
proof -
  have "fst (run_state (sqlite_Certificates_GetBySerial ''01'') tables1) = Inr (hd (certificates tables1))"
    "fst (run_state sqlite_Certificates_FindRevoked tables1) = Inr (certificates tables1)"
    by (simp_all add: sqlite_defs QueryContext_def query_defs drop_fault_def run_state_bind scan_row_def scan_rows_def next_fault_def tables1_def)
  with sqlite_scans_back [OF tables1_ok, of "''01''" "\<lambda>_. None"] show ?thesis
    by (simp del: scanned_all.simps)
qed

end
