(* ===== verification/Crl_Lock.thy ===== *)
theory Crl_Lock
  imports Issuance
begin

text \<open>
  Goroutines that revoke certificates and build the revocation list of the intermediate CA at the same time:
  \<open>handleRevokeCertificate\<close> of \<open>internal/api/certificates.go\<close> and \<open>CRL\<close> and \<open>Invalidate\<close> of
  \<open>internal/revocation/crl.go\<close>, which share the builder's mutex. A goroutine is a place in the code; a step is
  one statement sent to the datastore, taking the mutex, or what runs under it up to the next statement.
  Both read and write the builder's fields only while they hold the mutex, so the last such step and the deferred
  unlocking are one. Everything else the process does may come between any two steps; it moves the
  ledger along \<open>ledger_le\<close> and leaves this builder alone.
\<close>

section \<open>Goroutines\<close>

datatype place =
    AtCRL
  | CRLLocked
  | CRLQuery time
  | CRLBuild time "CertificateRecord list"
  | CRLReturned "rev_error + string"
  | AtRevoke request
  | RevokeSelect request string time
  | RevokeUpdate request string time
  | RevokeReselect request
  | RevokeAudit request string time
  | AtInvalidate request string time
  | InvalidateLocked request string time
  | RevokeMeter request string time
  | Answered request response

text \<open>The part of \<open>CRL\<close> after the query: the entries, the template, the signature and the new cache.\<close>

definition crl_build :: "rev_prims \<Rightarrow> CRLBuilder \<Rightarrow> time \<Rightarrow> CertificateRecord list \<Rightarrow> (rev_error + string) \<times> CRLBuilder" where
  "crl_build R cb now revoked =
     (case crl_entries (Int_String (SerialNumber (i_Cert (cb_issuer cb)))) revoked of
        Inl e \<Rightarrow> (Inl e, cb)
      | Inr entries \<Rightarrow>
          (let tmpl = \<lparr>rl_Number = Unix now, rl_ThisUpdate = now, rl_NextUpdate = now + CRLValidity, rl_Entries = entries\<rparr>
           in case CreateRevocationList R tmpl (i_Cert (cb_issuer cb)) (i_Signer (cb_issuer cb)) of
                None \<Rightarrow> (Inl RevSigning, cb)
              | Some der \<Rightarrow> (Inr der, cb\<lparr>cb_cached := Some der, cb_expires := rl_NextUpdate tmpl\<rparr>)))"

fun crl_step :: "Deps \<Rightarrow> CRLBuilder \<Rightarrow> place \<Rightarrow> (sys, place) state" where
  "crl_step deps cb AtCRL = ret CRLLocked"
| "crl_step deps cb CRLLocked = do {
     now \<leftarrow> time_Now;
     ret (if cb_cached cb \<noteq> None \<and> now < cb_expires cb then CRLReturned (Inr (the (cb_cached cb))) else CRLQuery now)
   }"
| "crl_step deps cb (CRLQuery now) = do {
     found \<leftarrow> Certificates_FindRevoked (d_Store deps);
     ret (case found of Inl e \<Rightarrow> CRLReturned (Inl (RevListing e)) | Inr revoked \<Rightarrow> CRLBuild now revoked)
   }"
| "crl_step deps cb (CRLBuild now revoked) = do {
     let (res, cb') = crl_build (d_rev deps) cb now revoked;
     modify (\<lambda>s. s\<lparr>s_CRLBuilder := Some cb'\<rparr>);
     ret (CRLReturned res)
   }"
| "crl_step deps cb p = ret p"

text \<open>The first \<open>SELECT\<close> of SQLite's \<open>Revoke\<close> is \<open>RevokeSelect\<close>; PostgreSQL looks after an \<open>UPDATE\<close> without effect,
  in \<open>RevokeReselect\<close>.\<close>

definition revoke_from :: "Deps \<Rightarrow> request \<Rightarrow> string \<Rightarrow> time \<Rightarrow> place" where
  "revoke_from deps r reason now = (case d_Store deps of Sqlite \<Rightarrow> RevokeSelect r reason now | Postgres _ \<Rightarrow> RevokeUpdate r reason now)"

definition already_revoked :: "request \<Rightarrow> place" where
  "already_revoked r = Answered r (writeProblem probAlreadyRevoked [] [(''serial'', JStr (q_PathValue r))])"

fun revoke_step :: "Deps \<Rightarrow> place \<Rightarrow> (sys, place) state" where
  "revoke_step deps (AtRevoke r) =
     (case (if q_ContentLength r = 0 then Inr [] else dec_revokeCertificate (d_json deps) (q_Body r)) of
        Inl e \<Rightarrow> ret (Answered r (writeProblem probMalformedJSON e []))
      | Inr given \<Rightarrow>
     (let serial = q_PathValue r; reason = (if given = [] then ''unspecified'' else given) in
      if reason \<notin> set revocationReasons
      then ret (Answered r (writeProblem probUnknownRevocationReason (''unknown revocation reason '' @ quoted reason)
             [(''allowed_values'', strs sortedRevocationReasons)]))
      else do {
        got \<leftarrow> Certificates_GetBySerial (d_Store deps) serial;
        (case got of
           Inl ErrNotFound \<Rightarrow> ret (Answered r (writeProblem probNotFound ''no certificate with this serial'' []))
         | Inl _ \<Rightarrow> ret (Answered r writeInternalError)
         | Inr rec \<Rightarrow>
             (if Kind rec \<noteq> CertKindLeaf
              then ret (Answered r (writeProblem probNotRevocable
                (''only leaf certificates can be revoked; this is a '' @ Kind rec @ '' certificate'') []))
              else do {
                now \<leftarrow> time_Now;
                ret (revoke_from deps r reason now)
              }))
      }))"
| "revoke_step deps (RevokeSelect r reason now) = do {
     got \<leftarrow> Certificates_GetBySerial (d_Store deps) (q_PathValue r);
     ret (case got of
            Inl _ \<Rightarrow> Answered r writeInternalError
          | Inr rec \<Rightarrow> (if RevokedAt rec \<noteq> None then already_revoked r else RevokeUpdate r reason now))
   }"
| "revoke_step deps (RevokeUpdate r reason now) = do {
     res \<leftarrow> ExecContext (update_revoked (q_PathValue r) reason (enc_of (d_Store deps) now));
     ret (case res of
            Inl _ \<Rightarrow> Answered r writeInternalError
          | Inr n \<Rightarrow>
              (if n \<noteq> 0 then RevokeAudit r reason now
               else case d_Store deps of Sqlite \<Rightarrow> already_revoked r | Postgres _ \<Rightarrow> RevokeReselect r))
   }"
| "revoke_step deps (RevokeReselect r) = do {
     got \<leftarrow> Certificates_GetBySerial (d_Store deps) (q_PathValue r);
     ret (case got of Inl _ \<Rightarrow> Answered r writeInternalError | Inr _ \<Rightarrow> already_revoked r)
   }"
| "revoke_step deps (RevokeAudit r reason now) = do {
     audited \<leftarrow> Audit_Append (d_Store deps)
       \<lparr>audit_ID = 0, audit_Timestamp = now, audit_Actor = q_RemoteAddr r, audit_Action = ''revoke'',
        audit_Target = q_PathValue r, audit_Detail = reason\<rparr>;
     b \<leftarrow> gets s_CRLBuilder;
     ret (case audited of
            Inl _ \<Rightarrow> Answered r writeInternalError
          | Inr _ \<Rightarrow> (if b = None then RevokeMeter r reason now else AtInvalidate r reason now))
   }"
| "revoke_step deps (AtInvalidate r reason now) = ret (InvalidateLocked r reason now)"
| "revoke_step deps (InvalidateLocked r reason now) = do {
     modify (\<lambda>s. s\<lparr>s_CRLBuilder := map_option Invalidate (s_CRLBuilder s)\<rparr>);
     ret (RevokeMeter r reason now)
   }"
| "revoke_step deps (RevokeMeter r reason now) = do {
     meter (\<lambda>m. m\<lparr>m_CertificatesRevokedTotal := m_CertificatesRevokedTotal m + 1\<rparr>);
     ret (Answered r (writeJSON 200 (JObj
       [(''serial'', JStr (q_PathValue r)), (''revoked_at'', JTime now), (''reason'', JStr reason)])))
   }"
| "revoke_step deps p = ret p"

fun building :: "place \<Rightarrow> bool" where
  "building AtCRL = True"
| "building CRLLocked = True"
| "building (CRLQuery _) = True"
| "building (CRLBuild _ _) = True"
| "building (CRLReturned _) = True"
| "building _ = False"

definition place_step :: "Deps \<Rightarrow> place \<Rightarrow> (sys, place) state" where
  "place_step deps p = (if building p then do {
       b \<leftarrow> gets s_CRLBuilder;
       (case b of None \<Rightarrow> ret p | Some cb \<Rightarrow> crl_step deps cb p)
     } else revoke_step deps p)"

section \<open>Schedules\<close>

record threads =
  th_sys :: sys
  th_mu :: "nat option"
  th_at :: "place list"

fun waits :: "place \<Rightarrow> bool" where
  "waits AtCRL = True"
| "waits (AtInvalidate _ _ _) = True"
| "waits _ = False"

fun critical :: "place \<Rightarrow> bool" where
  "critical CRLLocked = True"
| "critical (CRLQuery _) = True"
| "critical (CRLBuild _ _) = True"
| "critical (InvalidateLocked _ _ _) = True"
| "critical _ = False"

definition turn :: "Deps \<Rightarrow> nat \<Rightarrow> threads \<Rightarrow> threads" where
  "turn deps g t =
     (if g < length (th_at t) \<and> \<not> (waits (th_at t ! g) \<and> th_mu t \<noteq> None) then
        (let (p, s) = run_state (place_step deps (th_at t ! g)) (th_sys t)
         in t\<lparr>th_sys := s, th_at := (th_at t)[g := p],
              th_mu := (if critical p then Some g else if critical (th_at t ! g) then None else th_mu t)\<rparr>)
      else t)"

text \<open>\<open>elsewhere s s'\<close>: what the rest of the process may do between two steps.\<close>

definition elsewhere :: "sys \<Rightarrow> sys \<Rightarrow> bool" where
  "elsewhere s s' \<longleftrightarrow> ledger_le s s' \<and> s_CRLBuilder s' = s_CRLBuilder s"

inductive runs :: "Deps \<Rightarrow> threads \<Rightarrow> threads \<Rightarrow> bool" for deps where
  start: "runs deps t t"
| turns: "runs deps t u \<Longrightarrow> runs deps t (turn deps g u)"
| others: "runs deps t u \<Longrightarrow> elsewhere (th_sys u) s \<Longrightarrow> runs deps t (u\<lparr>th_sys := s\<rparr>)"

section \<open>What a step does\<close>

fun passed :: "place \<Rightarrow> string option" where
  "passed (RevokeAudit r _ _) = Some (q_PathValue r)"
| "passed (AtInvalidate r _ _) = Some (q_PathValue r)"
| "passed (InvalidateLocked r _ _) = Some (q_PathValue r)"
| "passed (RevokeMeter r _ _) = Some (q_PathValue r)"
| "passed (Answered r resp) = (if status resp = 200 then Some (q_PathValue r) else None)"
| "passed _ = None"

fun announced :: "place \<Rightarrow> string option" where
  "announced (RevokeMeter r _ _) = Some (q_PathValue r)"
| "announced (Answered r resp) = (if status resp = 200 then Some (q_PathValue r) else None)"
| "announced _ = None"

text \<open>\<open>listed R I c der\<close>: the list \<open>der\<close>, signed by \<open>I\<close>, has the entry of \<open>c\<close>, if \<open>I\<close> is the issuer of \<open>c\<close>.\<close>

definition listed :: "rev_prims \<Rightarrow> Issuer \<Rightarrow> CertificateRecord \<Rightarrow> string \<Rightarrow> bool" where
  "listed R I c der \<longleftrightarrow> (IssuerSerial c = Int_String (SerialNumber (i_Cert I)) \<longrightarrow>
     (\<exists>tmpl. CreateRevocationList R tmpl (i_Cert I) (i_Signer I) = Some der \<and> entry_of c \<in> set (rl_Entries tmpl)))"

lemma announced_passed: "announced p = Some x \<Longrightarrow> passed p = Some x"
  by (cases p) (auto split: if_splits)

lemma select_revoked_stays:
  assumes "ledger_le s t" and "cert_revoked x s"
  shows "select_certificate x t = select_certificate x s"
  using assms certs.view_stays [of s t x] by (fastforce simp: cert_revoked_def cert_le_def)

lemma revoked_selected: "cert_revoked x s \<Longrightarrow> select_certificate x s = Some c \<Longrightarrow> c \<in> set (select_revoked s)"
  by (auto simp: cert_revoked_def select_certificate_def set_select_revoked dest: find_Some_in)

lemma keeps_place_step [keeps]: "state_io_rel ledger_le (place_step deps p)"
  unfolding place_step_def
  by (cases p) (auto simp: Let_def revoke_from_def meter_def intro!: keeps keeps_modify split: prod.splits option.splits)

lemma revoked_by_update:
  assumes "schema w" and "unrevoked x (certificates w)"
  shows "\<not> cert_revoked x w" and "cert_revoked x (w\<lparr>faults := f, certificates := revoke_rows x reason at (certificates w)\<rparr>)"
proof -
  obtain r where "find (\<lambda>c. Serial c = x) (certificates w) = Some r" "RevokedAt r = None"
    "find (\<lambda>c. Serial c = x) (revoke_rows x reason at (certificates w)) = Some (r\<lparr>RevokedAt := Some at, RevocationReason := reason\<rparr>)"
    using revoke_rows_select [OF schema_distinct(1) [OF assms(1)] assms(2)] by metis
  then show "\<not> cert_revoked x w" and "cert_revoked x (w\<lparr>faults := f, certificates := revoke_rows x reason at (certificates w)\<rparr>)"
    by (simp_all add: cert_revoked_def select_certificate_def)
qed

text \<open>A revoker claims the certificate in its \<open>UPDATE\<close>, and only where it was not revoked; it announces the revocation in
  \<open>Invalidate\<close>.\<close>

lemma wp_revoke_step:
  assumes "\<not> building p" and "schema s" and "s_CRLBuilder s = Some cb"
  shows "wp (place_step deps p) (\<lambda>p' s'. \<not> building p' \<and>
    s_CRLBuilder s' = Some (if critical p then Invalidate cb else cb) \<and>
    (\<forall>x. passed p' = Some x \<longrightarrow> passed p = Some x \<or> \<not> cert_revoked x s \<and> cert_revoked x s') \<and>
    (\<forall>x. announced p' = Some x \<longrightarrow> announced p = Some x \<or> critical p) \<and>
    (\<forall>x. announced p = Some x \<longrightarrow> announced p' = Some x) \<and> (critical p' \<longrightarrow> waits p)) s"
proof (cases p)
  case (RevokeUpdate r reason now)
  then show ?thesis
    using assms revoked_by_update [OF assms(2)]
    by (auto simp: place_step_def already_revoked_def problem_defs intro!: wp_update_revoked split: backend.splits)
qed (use assms in \<open>auto simp: place_step_def Let_def revoke_from_def already_revoked_def meter_def problem_defs
    intro!: wps split: sum.splits store_error.splits backend.splits if_splits\<close>)

lemma crl_build_lists:
  "crl_build R cb now revs = (Inr der, cb') \<Longrightarrow> cb_issuer cb' = cb_issuer cb \<and> cb_cached cb' = Some der \<and>
    (\<forall>c \<in> set revs. listed R (cb_issuer cb) c der)"
  by (auto simp: crl_build_def Let_def listed_def crl_entries_ok split: sum.splits option.splits)

lemma crl_build_fails: "crl_build R cb now revs = (Inl e, cb') \<Longrightarrow> cb' = cb"
  by (auto simp: crl_build_def Let_def split: sum.splits option.splits)

text \<open>What a step of \<open>CRL\<close> leaves at its place and in the cache.\<close>

definition built :: "Deps \<Rightarrow> CRLBuilder \<Rightarrow> sys \<Rightarrow> place \<Rightarrow> place \<Rightarrow> CRLBuilder \<Rightarrow> bool" where
  "built deps cb s p p' cb' \<longleftrightarrow> building p' \<and> cb_issuer cb' = cb_issuer cb \<and> (critical p' \<longrightarrow> waits p \<or> critical p) \<and>
     (\<forall>now revs. p' = CRLBuild now revs \<longrightarrow> revs = select_revoked s) \<and>
     (\<forall>der. p' = CRLReturned (Inr der) \<longrightarrow> p = p' \<or> cb_cached cb = Some der \<or>
        (\<exists>now revs. p = CRLBuild now revs \<and> (\<forall>c \<in> set revs. listed (d_rev deps) (cb_issuer cb) c der))) \<and>
     (cb_cached cb' = cb_cached cb \<or>
        (\<exists>now revs der. p = CRLBuild now revs \<and> cb_cached cb' = Some der \<and> (\<forall>c \<in> set revs. listed (d_rev deps) (cb_issuer cb) c der)))"

lemma wp_crl_step:
  assumes "building p" and "s_CRLBuilder s = Some cb"
  shows "wp (place_step deps p) (\<lambda>p' s'. \<exists>cb'. s_CRLBuilder s' = Some cb' \<and> built deps cb s p p' cb') s"
proof (cases p)
  case (CRLBuild now revs)
  obtain res cb' where b: "crl_build (d_rev deps) cb now revs = (res, cb')"
    by fastforce
  have "built deps cb s p (CRLReturned res) cb'"
  proof (cases res)
    case (Inl e)
    then show ?thesis
      using crl_build_fails [of "d_rev deps" cb now revs e cb'] b CRLBuild by (simp add: built_def)
  next
    case (Inr der)
    with b have "cb_issuer cb' = cb_issuer cb \<and> cb_cached cb' = Some der \<and> (\<forall>c \<in> set revs. listed (d_rev deps) (cb_issuer cb) c der)"
      by (simp add: crl_build_lists)
    then show ?thesis
      using CRLBuild Inr by (simp add: built_def)
  qed
  then show ?thesis
    using assms CRLBuild b by (simp add: place_step_def)
qed (use assms in \<open>auto simp: place_step_def built_def intro!: wps split: sum.splits\<close>)

section \<open>The invariant\<close>

definition one_claim :: "threads \<Rightarrow> bool" where
  "one_claim t \<longleftrightarrow> (\<forall>g < length (th_at t). \<forall>h < length (th_at t). \<forall>x.
     passed (th_at t ! g) = Some x \<longrightarrow> passed (th_at t ! h) = Some x \<longrightarrow> g = h)"

definition claims_revoked :: "threads \<Rightarrow> bool" where
  "claims_revoked t \<longleftrightarrow> (\<forall>g < length (th_at t). \<forall>x. passed (th_at t ! g) = Some x \<longrightarrow> cert_revoked x (th_sys t))"

definition mutex :: "threads \<Rightarrow> bool" where
  "mutex t \<longleftrightarrow> (\<forall>g < length (th_at t). critical (th_at t ! g) \<longleftrightarrow> th_mu t = Some g) \<and> (\<forall>g. th_mu t = Some g \<longrightarrow> g < length (th_at t))"

definition current :: "Deps \<Rightarrow> Issuer \<Rightarrow> threads \<Rightarrow> bool" where
  "current deps I t \<longleftrightarrow> (\<forall>g < length (th_at t). \<forall>x c. announced (th_at t ! g) = Some x \<longrightarrow> select_certificate x (th_sys t) = Some c \<longrightarrow>
     (\<forall>cb der. s_CRLBuilder (th_sys t) = Some cb \<longrightarrow> cb_cached cb = Some der \<longrightarrow> listed (d_rev deps) I c der) \<and>
     (\<forall>h < length (th_at t). \<forall>now revs. th_at t ! h = CRLBuild now revs \<longrightarrow> c \<in> set revs))"

definition sound :: "Deps \<Rightarrow> Issuer \<Rightarrow> threads \<Rightarrow> bool" where
  "sound deps I t \<longleftrightarrow> schema (th_sys t) \<and> (\<exists>cb. s_CRLBuilder (th_sys t) = Some cb \<and> cb_issuer cb = I) \<and>
     mutex t \<and> one_claim t \<and> claims_revoked t \<and> current deps I t"

lemmas sound_parts = mutex_def one_claim_def claims_revoked_def current_def

lemma sound_elsewhere:
  assumes "sound deps I t" and "elsewhere (th_sys t) s"
  shows "sound deps I (t\<lparr>th_sys := s\<rparr>)"
proof -
  have le: "ledger_le (th_sys t) s" and cb: "s_CRLBuilder s = s_CRLBuilder (th_sys t)"
    using assms(2) by (simp_all add: elsewhere_def)
  have same: "select_certificate x s = select_certificate x (th_sys t)" "cert_revoked x s"
    if "passed (th_at t ! g) = Some x" "g < length (th_at t)" for g x
    using assms(1) that select_revoked_stays [OF le] cert_revoked_stays [OF le] by (auto simp: sound_def claims_revoked_def)
  have "schema s"
    using le assms(1) by (simp add: ledger_le_def sound_def)
  moreover have "mutex (t\<lparr>th_sys := s\<rparr>)" "one_claim (t\<lparr>th_sys := s\<rparr>)"
    using assms(1) by (simp_all add: sound_def mutex_def one_claim_def)
  moreover have "claims_revoked (t\<lparr>th_sys := s\<rparr>)"
    using same(2) by (simp add: claims_revoked_def)
  moreover have "current deps I (t\<lparr>th_sys := s\<rparr>)"
    unfolding current_def
  proof (intro allI impI)
    fix g x c
    assume a: "g < length (th_at (t\<lparr>th_sys := s\<rparr>))" "announced (th_at (t\<lparr>th_sys := s\<rparr>) ! g) = Some x"
      "select_certificate x (th_sys (t\<lparr>th_sys := s\<rparr>)) = Some c"
    then have "select_certificate x (th_sys t) = Some c"
      using same(1) announced_passed by fastforce
    then show "(\<forall>cb der. s_CRLBuilder (th_sys (t\<lparr>th_sys := s\<rparr>)) = Some cb \<longrightarrow> cb_cached cb = Some der \<longrightarrow> listed (d_rev deps) I c der) \<and>
        (\<forall>h < length (th_at (t\<lparr>th_sys := s\<rparr>)). \<forall>now revs. th_at (t\<lparr>th_sys := s\<rparr>) ! h = CRLBuild now revs \<longrightarrow> c \<in> set revs)"
      using assms(1) a cb by (simp add: sound_def current_def)
  qed
  ultimately show ?thesis
    using assms(1) cb by (simp add: sound_def)
qed

text \<open>One goroutine at place \<open>p\<close> moves to \<open>p'\<close>; what it knows of its step.\<close>

definition moved :: "Deps \<Rightarrow> nat \<Rightarrow> threads \<Rightarrow> place \<Rightarrow> sys \<Rightarrow> bool" where
  "moved deps g t p' s' \<longleftrightarrow> g < length (th_at t) \<and> \<not> (waits (th_at t ! g) \<and> th_mu t \<noteq> None) \<and>
     run_state (place_step deps (th_at t ! g)) (th_sys t) = (p', s')"

definition after :: "nat \<Rightarrow> threads \<Rightarrow> place \<Rightarrow> sys \<Rightarrow> threads" where
  "after g t p' s' = t\<lparr>th_sys := s', th_at := (th_at t)[g := p'],
     th_mu := (if critical p' then Some g else if critical (th_at t ! g) then None else th_mu t)\<rparr>"

lemma after_simps [simp]: "th_sys (after g t p' s') = s'" "th_at (after g t p' s') = (th_at t)[g := p']"
  "th_mu (after g t p' s') = (if critical p' then Some g else if critical (th_at t ! g) then None else th_mu t)"
  by (simp_all add: after_def)

lemma turn_cases:
  obtains (stays) "turn deps g t = t" | (moves) p' s' where "moved deps g t p' s'" "turn deps g t = after g t p' s'"
proof (cases "g < length (th_at t) \<and> \<not> (waits (th_at t ! g) \<and> th_mu t \<noteq> None)")
  case True
  then show ?thesis
    using moves [of "fst (run_state (place_step deps (th_at t ! g)) (th_sys t))" "snd (run_state (place_step deps (th_at t ! g)) (th_sys t))"]
    by (simp add: moved_def turn_def after_def case_prod_beta)
qed (use stays in \<open>auto simp: turn_def\<close>)

text \<open>The two kinds of steps, for a goroutine that moved in a sound state.\<close>

lemma moved_ledger: "moved deps g t p' s' \<Longrightarrow> ledger_le (th_sys t) s'"
  using keeps_place_step state_io_relD unfolding moved_def by blast

lemma moved_revoker:
  assumes "moved deps g t p' s'" and "schema (th_sys t)" and "s_CRLBuilder (th_sys t) = Some cb" and "\<not> building (th_at t ! g)"
  shows "\<not> building p'" "s_CRLBuilder s' = Some (if critical (th_at t ! g) then Invalidate cb else cb)"
    "passed p' = Some x \<Longrightarrow> passed (th_at t ! g) = Some x \<or> \<not> cert_revoked x (th_sys t) \<and> cert_revoked x s'"
    "announced p' = Some x \<Longrightarrow> announced (th_at t ! g) = Some x \<or> critical (th_at t ! g)"
    "announced (th_at t ! g) = Some x \<Longrightarrow> announced p' = Some x" "critical p' \<Longrightarrow> waits (th_at t ! g)"
  using wp_run [OF wp_revoke_step [OF assms(4,2,3)]] assms(1) unfolding moved_def by blast+

lemma moved_builder:
  assumes "moved deps g t p' s'" and "s_CRLBuilder (th_sys t) = Some cb" and "building (th_at t ! g)"
  obtains cb' where "s_CRLBuilder s' = Some cb'" "built deps cb (th_sys t) (th_at t ! g) p' cb'"
  using wp_run [OF wp_crl_step [OF assms(3,2)]] assms(1) unfolding moved_def by blast

lemma building_none [simp]: "building p \<Longrightarrow> passed p = None" "building p \<Longrightarrow> announced p = None"
  by (cases p; simp)+

lemma mutex_after:
  assumes "mutex t" and "moved deps g t p' s'" and "critical p' \<Longrightarrow> waits (th_at t ! g) \<or> critical (th_at t ! g)"
  shows "mutex (after g t p' s')"
  using assms by (fastforce simp: mutex_def moved_def nth_list_update)

lemma claims_after:
  assumes "one_claim t" and "claims_revoked t" and "moved deps g t p' s'"
    and "\<And>x. passed p' = Some x \<Longrightarrow> passed (th_at t ! g) = Some x \<or> \<not> cert_revoked x (th_sys t) \<and> cert_revoked x s'"
  shows "one_claim (after g t p' s')" and "claims_revoked (after g t p' s')"
proof -
  have g: "g < length (th_at t)"
    using assms(3) by (simp add: moved_def)
  show "one_claim (after g t p' s')"
    unfolding one_claim_def
  proof (intro allI impI)
    fix i j x
    assume a: "i < length (th_at (after g t p' s'))" "j < length (th_at (after g t p' s'))"
      "passed (th_at (after g t p' s') ! i) = Some x" "passed (th_at (after g t p' s') ! j) = Some x"
    have "k = g" if "k < length (th_at t)" "passed (th_at t ! k) = Some x" "passed p' = Some x" for k
      using assms(4) [OF that(3)] assms(1,2) that(1,2) g unfolding one_claim_def claims_revoked_def by metis
    moreover have "passed (th_at t ! k) = Some x" if "k \<noteq> g" "passed ((th_at t)[g := p'] ! k) = Some x" for k
      using that by simp
    ultimately show "i = j"
      using a g assms(1) unfolding one_claim_def after_simps length_list_update by (metis nth_list_update_eq)
  qed
  show "claims_revoked (after g t p' s')"
    unfolding claims_revoked_def
  proof (intro allI impI)
    fix i x
    assume a: "i < length (th_at (after g t p' s'))" "passed (th_at (after g t p' s') ! i) = Some x"
    have stays: "cert_revoked x s'" if "k < length (th_at t)" "passed (th_at t ! k) = Some x" for k
      using assms(2) that cert_revoked_stays [OF moved_ledger [OF assms(3)]] by (simp add: claims_revoked_def)
    show "cert_revoked x (th_sys (after g t p' s'))"
      using a stays [of i] stays [of g] assms(4) [of x] g by (cases "i = g") auto
  qed
qed

lemma current_builder:
  assumes "sound deps I t" and "moved deps g t p' s'" and "building (th_at t ! g)"
    and "s_CRLBuilder (th_sys t) = Some cb" and "s_CRLBuilder s' = Some cb'" and "built deps cb (th_sys t) (th_at t ! g) p' cb'"
  shows "current deps I (after g t p' s')"
  unfolding current_def
proof (intro allI impI)
  fix k x c
  assume a: "k < length (th_at (after g t p' s'))" "announced (th_at (after g t p' s') ! k) = Some x"
    "select_certificate x (th_sys (after g t p' s')) = Some c"
  have g: "g < length (th_at t)"
    using assms(2) by (simp add: moved_def)
  have "building p'"
    using assms(6) by (simp add: built_def)
  then have k: "k < length (th_at t)" "announced (th_at t ! k) = Some x"
    using a(1,2) g by (auto simp: nth_list_update split: if_splits)
  then have rev: "cert_revoked x (th_sys t)"
    using assms(1) announced_passed by (fastforce simp: sound_def claims_revoked_def)
  then have c: "select_certificate x (th_sys t) = Some c"
    using select_revoked_stays [OF moved_ledger [OF assms(2)]] a(3) by simp
  have cache: "cb_cached cb = Some der \<Longrightarrow> listed (d_rev deps) I c der"
    and builds: "h < length (th_at t) \<Longrightarrow> th_at t ! h = CRLBuild now revs \<Longrightarrow> c \<in> set revs" for h der now revs
    using assms(1,4) k c unfolding sound_def current_def by blast+
  have I: "cb_issuer cb = I"
    using assms(1,4) by (simp add: sound_def)
  have "cb_cached cb' = Some der \<Longrightarrow> listed (d_rev deps) I c der" for der
    using assms(6) cache builds [OF g] I unfolding built_def by (metis option.inject)
  moreover have "(th_at t)[g := p'] ! h = CRLBuild now revs \<Longrightarrow> h < length (th_at t) \<Longrightarrow> c \<in> set revs" for h now revs
    using assms(6) builds [of h] revoked_selected [OF rev c] unfolding built_def by (cases "h = g") auto
  ultimately show "(\<forall>cb der. s_CRLBuilder (th_sys (after g t p' s')) = Some cb \<longrightarrow> cb_cached cb = Some der \<longrightarrow> listed (d_rev deps) I c der) \<and>
      (\<forall>h < length (th_at (after g t p' s')). \<forall>now revs. th_at (after g t p' s') ! h = CRLBuild now revs \<longrightarrow> c \<in> set revs)"
    using assms(5) by simp
qed

lemma current_revoker:
  assumes "sound deps I t" and "moved deps g t p' s'" and "\<not> building (th_at t ! g)" and "s_CRLBuilder (th_sys t) = Some cb"
  shows "current deps I (after g t p' s')"
  unfolding current_def
proof (intro allI impI)
  fix k x c
  assume a: "k < length (th_at (after g t p' s'))" "announced (th_at (after g t p' s') ! k) = Some x"
    "select_certificate x (th_sys (after g t p' s')) = Some c"
  have g: "g < length (th_at t)" and k: "k < length (th_at t)"
    using assms(2) a(1) by (simp_all add: moved_def)
  note step = moved_revoker [OF assms(2) _ assms(4,3)]
  have "schema (th_sys t)" and mu: "mutex t"
    using assms(1) by (simp_all add: sound_def)
  note step = step [OF this(1)]
  have other: "h \<noteq> g \<and> th_at t ! h = CRLBuild now revs"
    if "(th_at t)[g := p'] ! h = CRLBuild now revs" "h < length (th_at t)" for h now revs
    using that step(1) g by (cases "h = g") auto
  show "(\<forall>cb der. s_CRLBuilder (th_sys (after g t p' s')) = Some cb \<longrightarrow> cb_cached cb = Some der \<longrightarrow> listed (d_rev deps) I c der) \<and>
      (\<forall>h < length (th_at (after g t p' s')). \<forall>now revs. th_at (after g t p' s') ! h = CRLBuild now revs \<longrightarrow> c \<in> set revs)"
  proof (cases "critical (th_at t ! g)")
    case True
    then have "\<not> critical (th_at t ! h)" if "h \<noteq> g" "h < length (th_at t)" for h
      using mu g that by (auto simp: mutex_def)
    then have "\<not> (h < length (th_at t) \<and> (th_at t)[g := p'] ! h = CRLBuild now revs)" for h now revs
      using other [of h now revs] by (metis critical.simps(3))
    then show ?thesis
      using True step(2) by (simp add: Invalidate_def)
  next
    case False
    then obtain j where j: "j < length (th_at t)" "announced (th_at t ! j) = Some x"
      using a(2) k g step(4) by (cases "k = g") auto
    then have "cert_revoked x (th_sys t)"
      using assms(1) announced_passed by (fastforce simp: sound_def claims_revoked_def)
    then have "select_certificate x (th_sys t) = Some c"
      using select_revoked_stays [OF moved_ledger [OF assms(2)]] a(3) by simp
    then show ?thesis
      using assms(1,4) j other False step(2) unfolding sound_def current_def after_simps by simp
  qed
qed

lemma sound_turn:
  assumes "sound deps I t"
  shows "sound deps I (turn deps g t)"
proof (cases rule: turn_cases [of deps g t])
  case (moves p' s')
  obtain cb where cb: "s_CRLBuilder (th_sys t) = Some cb" "cb_issuer cb = I" and schema: "schema (th_sys t)"
    and parts: "mutex t" "one_claim t" "claims_revoked t"
    using assms by (auto simp: sound_def)
  have schema': "schema s'"
    using moved_ledger [OF moves(1)] schema by (simp add: ledger_le_def)
  show ?thesis
  proof (cases "building (th_at t ! g)")
    case True
    then obtain cb' where cb': "s_CRLBuilder s' = Some cb'" "built deps cb (th_sys t) (th_at t ! g) p' cb'"
      using moved_builder [OF moves(1) cb(1)] by metis
    then have "passed p' = None" "critical p' \<Longrightarrow> waits (th_at t ! g) \<or> critical (th_at t ! g)" "cb_issuer cb' = I"
      using cb(2) by (auto simp: built_def)
    then show ?thesis
      unfolding moves(2) sound_def
      using mutex_after [OF parts(1) moves(1)] claims_after [OF parts(2,3) moves(1)] current_builder [OF assms moves(1) True cb(1) cb']
        schema' cb' by simp
  next
    case False
    note step = moved_revoker [OF moves(1) schema cb(1) False]
    show ?thesis
      unfolding moves(2) sound_def
      using mutex_after [OF parts(1) moves(1)] claims_after [OF parts(2,3) moves(1) step(3)] step(2,6)
        current_revoker [OF assms moves(1) False cb(1)] schema' cb(2) by (simp add: Invalidate_def)
  qed
qed (use assms in simp)

lemma sound_runs: "runs deps t u \<Longrightarrow> sound deps I t \<Longrightarrow> sound deps I u"
  by (induction rule: runs.induct) (simp_all add: sound_turn sound_elsewhere)

section \<open>One goroutine alone\<close>

text \<open>Uninterrupted steps are the sequential \<open>CRL\<close> and \<open>handleRevokeCertificate\<close>.\<close>

fun steps :: "Deps \<Rightarrow> nat \<Rightarrow> place \<Rightarrow> (sys, place) state" where
  "steps deps 0 p = ret p"
| "steps deps (Suc n) p = do { p' \<leftarrow> place_step deps p; steps deps n p' }"

lemma steps_returned [simp]: "steps deps n (CRLReturned r) = ret (CRLReturned r)" "steps deps n (Answered q resp) = ret (Answered q resp)"
proof -
  have "place_step deps (CRLReturned r) = ret (CRLReturned r)"
    by (rule state.expand) (auto simp: place_step_def run_state_bind fun_eq_iff split: option.split)
  then show "steps deps n (CRLReturned r) = ret (CRLReturned r)"
    by (induction n) simp_all
  show "steps deps n (Answered q resp) = ret (Answered q resp)"
    by (induction n) (simp_all add: place_step_def)
qed

lemma steps_unfold: "steps deps 6 p = steps deps (Suc (Suc (Suc (Suc (Suc (Suc 0)))))) p" "steps deps 7 p = steps deps (Suc 6) p"
  by (simp_all add: eval_nat_numeral)

lemma quiet_builder: "run_state time_Now s = (now, s1) \<Longrightarrow> s_CRLBuilder s1 = s_CRLBuilder s"
    "run_state (Certificates_FindRevoked b) s = (f, s2) \<Longrightarrow> s_CRLBuilder s2 = s_CRLBuilder s"
    "run_state (Audit_Append b e) s = (a, s3) \<Longrightarrow> s_CRLBuilder s3 = s_CRLBuilder s" for s :: sys
  by (rule wp_run [rotated], assumption, intro wps; simp)+

lemma builder_same [simp]: "s_CRLBuilder s = b \<Longrightarrow> s\<lparr>s_CRLBuilder := b\<rparr> = s"
  by auto

lemma CRL_parts:
  "CRL b R cb = do {
     now \<leftarrow> time_Now;
     (if cb_cached cb \<noteq> None \<and> now < cb_expires cb then ret (Inr (the (cb_cached cb)), cb)
      else do {
        found \<leftarrow> Certificates_FindRevoked b;
        ret (case found of Inl e \<Rightarrow> (Inl (RevListing e), cb) | Inr revoked \<Rightarrow> crl_build R cb now revoked)
      })
   }"
  by (auto simp: CRL_def crl_build_def Let_def split: sum.splits option.splits intro!: arg_cong2 [where f = State_Monad.bind] ext)

lemma crl_alone:
  assumes "s_CRLBuilder s = Some cb"
  shows "run_state (steps deps 4 AtCRL) s =
    run_state (do { (res, cb') \<leftarrow> CRL (d_Store deps) (d_rev deps) cb; modify (\<lambda>s. s\<lparr>s_CRLBuilder := Some cb'\<rparr>); ret (CRLReturned res) }) s"
proof -
  obtain now s1 where n: "run_state time_Now s = (now, s1)"
    by fastforce
  obtain f s2 where f: "run_state (Certificates_FindRevoked (d_Store deps)) s1 = (f, s2)"
    by fastforce
  have "s_CRLBuilder s1 = Some cb" "s_CRLBuilder s2 = Some cb"
    using assms quiet_builder n f by metis+
  then show ?thesis
    using assms n f unfolding CRL_parts
    by (auto simp: numeral_eq_Suc place_step_def run_state_bind split: sum.splits prod.splits)
qed

text \<open>The end of the handler, once the certificate is revoked.\<close>

definition finish_revocation :: "Deps \<Rightarrow> request \<Rightarrow> string \<Rightarrow> time \<Rightarrow> (sys, response) state" where
  "finish_revocation deps r reason now = do {
     audited \<leftarrow> Audit_Append (d_Store deps)
       \<lparr>audit_ID = 0, audit_Timestamp = now, audit_Actor = q_RemoteAddr r, audit_Action = ''revoke'',
        audit_Target = q_PathValue r, audit_Detail = reason\<rparr>;
     (case audited of
        Inl _ \<Rightarrow> ret writeInternalError
      | Inr _ \<Rightarrow> do {
          modify (\<lambda>s. s\<lparr>s_CRLBuilder := map_option Invalidate (s_CRLBuilder s)\<rparr>);
          meter (\<lambda>m. m\<lparr>m_CertificatesRevokedTotal := m_CertificatesRevokedTotal m + 1\<rparr>);
          ret (writeJSON 200 (JObj [(''serial'', JStr (q_PathValue r)), (''revoked_at'', JTime now), (''reason'', JStr reason)]))
        })
   }"

lemma finish_alone:
  "run_state (steps deps (Suc (Suc (Suc (Suc n)))) (RevokeAudit r reason now)) s =
    run_state (do { resp \<leftarrow> finish_revocation deps r reason now; ret (Answered r resp) }) s"
proof -
  obtain a s1 where a: "run_state (Audit_Append (d_Store deps)
       \<lparr>audit_ID = 0, audit_Timestamp = now, audit_Actor = q_RemoteAddr r, audit_Action = ''revoke'',
        audit_Target = q_PathValue r, audit_Detail = reason\<rparr>) s = (a, s1)"
    by fastforce
  then show ?thesis
    by (cases a; cases "s_CRLBuilder s1")
      (auto simp: place_step_def run_state_bind finish_revocation_def meter_def)
qed

lemma steps_revoke:
  "steps deps (Suc n) (RevokeSelect r reason now) = do { p \<leftarrow> revoke_step deps (RevokeSelect r reason now); steps deps n p }"
  "steps deps (Suc n) (RevokeUpdate r reason now) = do { p \<leftarrow> revoke_step deps (RevokeUpdate r reason now); steps deps n p }"
  "steps deps (Suc n) (RevokeReselect r) = do { p \<leftarrow> revoke_step deps (RevokeReselect r); steps deps n p }"
  by (simp_all add: place_step_def del: revoke_step.simps)

lemma revoke_method_alone:
  "run_state (steps deps 6 (revoke_from deps r reason now)) s = run_state (do {
     revoked \<leftarrow> Certificates_Revoke (d_Store deps) (q_PathValue r) reason now;
     resp \<leftarrow> (case revoked of
        Inl ErrAlreadyRevoked \<Rightarrow> ret (writeProblem probAlreadyRevoked [] [(''serial'', JStr (q_PathValue r))])
      | Inl _ \<Rightarrow> ret writeInternalError
      | Inr _ \<Rightarrow> finish_revocation deps r reason now);
     ret (Answered r resp) }) s"
proof (cases "d_Store deps")
  case Sqlite
  obtain g s1 where g: "run_state (Certificates_GetBySerial Sqlite (q_PathValue r)) s = (g, s1)"
    by fastforce
  obtain u s2 where u: "run_state (ExecContext (update_revoked (q_PathValue r) reason (rfc3339 now))) s1 = (u, s2)"
    by fastforce
  have "e \<noteq> ErrAlreadyRevoked" if "g = Inl e" for e
    using g that by (auto simp: Certificates_GetBySerial_def sqlite_Certificates_GetBySerial_def run_state_bind scan_row_def
        split: prod.splits sum.splits option.splits)
  then show ?thesis
    using g u Sqlite
    by (cases g; cases u)
      (auto simp: steps_unfold steps_revoke finish_alone run_state_bind revoke_from_def Certificates_Revoke_def
        sqlite_Certificates_Revoke_def Certificates_GetBySerial_def enc_of_def already_revoked_def simp del: steps.simps(2) split: store_error.splits)
next
  case (Postgres enc)
  obtain u s1 where u: "run_state (ExecContext (update_revoked (q_PathValue r) reason (enc now))) s = (u, s1)"
    by fastforce
  obtain g s2 where g: "run_state (Certificates_GetBySerial (Postgres enc) (q_PathValue r)) s1 = (g, s2)"
    by fastforce
  have "e \<noteq> ErrAlreadyRevoked" if "g = Inl e" for e
    using g that by (auto simp: Certificates_GetBySerial_def pg_Certificates_GetBySerial_def run_state_bind scan_row_def
        split: prod.splits sum.splits option.splits)
  then show ?thesis
    using g u Postgres
    by (cases g; cases u)
      (auto simp: steps_unfold steps_revoke finish_alone run_state_bind revoke_from_def Certificates_Revoke_def
        pg_Certificates_Revoke_def Certificates_GetBySerial_def enc_of_def already_revoked_def simp del: steps.simps(2) split: store_error.splits)
qed

lemma steps_start: "steps deps 7 (AtRevoke r) = do { p \<leftarrow> revoke_step deps (AtRevoke r); steps deps 6 p }"
  unfolding steps_unfold(2) steps.simps(2) place_step_def by simp

lemma revoke_alone:
  "run_state (steps deps 7 (AtRevoke r)) s = run_state (do { resp \<leftarrow> handleRevokeCertificate deps r; ret (Answered r resp) }) s"
proof (cases "if q_ContentLength r = 0 then Inr [] else dec_revokeCertificate (d_json deps) (q_Body r)")
  case (Inl e)
  then show ?thesis
    by (simp add: steps_start handleRevokeCertificate_def del: steps.simps(2))
next
  case (Inr given)
  let ?reason = "if given = [] then ''unspecified'' else given"
  obtain g s1 where g: "run_state (Certificates_GetBySerial (d_Store deps) (q_PathValue r)) s = (g, s1)"
    by fastforce
  obtain now s2 where now: "run_state time_Now s1 = (now, s2)"
    by fastforce
  have handler: "handleRevokeCertificate deps r =
      (if ?reason \<notin> set revocationReasons
      then ret (writeProblem probUnknownRevocationReason (''unknown revocation reason '' @ quoted ?reason)
             [(''allowed_values'', strs sortedRevocationReasons)])
      else do {
        got \<leftarrow> Certificates_GetBySerial (d_Store deps) (q_PathValue r);
        (case got of
           Inl ErrNotFound \<Rightarrow> ret (writeProblem probNotFound ''no certificate with this serial'' [])
         | Inl _ \<Rightarrow> ret writeInternalError
         | Inr rec \<Rightarrow>
             (if Kind rec \<noteq> CertKindLeaf
              then ret (writeProblem probNotRevocable
                (''only leaf certificates can be revoked; this is a '' @ Kind rec @ '' certificate'') [])
              else do {
                now \<leftarrow> time_Now;
                revoked \<leftarrow> Certificates_Revoke (d_Store deps) (q_PathValue r) ?reason now;
                (case revoked of
                   Inl ErrAlreadyRevoked \<Rightarrow> ret (writeProblem probAlreadyRevoked [] [(''serial'', JStr (q_PathValue r))])
                 | Inl _ \<Rightarrow> ret writeInternalError
                 | Inr _ \<Rightarrow> finish_revocation deps r ?reason now)
              }))
      })"
    unfolding handleRevokeCertificate_def finish_revocation_def Inr by (simp add: Let_def)
  show ?thesis
    using g now unfolding handler
    by (cases g) (auto simp: steps_start Inr Let_def run_state_bind revoke_method_alone simp del: steps.simps(2) split: store_error.splits prod.splits)
qed

section \<open>Properties\<close>

definition at_start :: "Issuer \<Rightarrow> threads \<Rightarrow> bool" where
  "at_start I t \<longleftrightarrow> schema (th_sys t) \<and> (\<exists>cb. s_CRLBuilder (th_sys t) = Some cb \<and> cb_issuer cb = I) \<and> th_mu t = None \<and>
     (\<forall>p \<in> set (th_at t). p = AtCRL \<or> (\<exists>r. p = AtRevoke r))"

lemma sound_at_start: "at_start I t \<Longrightarrow> sound deps I t"
proof -
  assume a: "at_start I t"
  then have "th_at t ! g = AtCRL \<or> (\<exists>r. th_at t ! g = AtRevoke r)" if "g < length (th_at t)" for g
    using that by (simp add: at_start_def)
  then have "\<not> critical (th_at t ! g) \<and> passed (th_at t ! g) = None \<and> announced (th_at t ! g) = None" if "g < length (th_at t)" for g
    using that by fastforce
  then show ?thesis
    using a by (auto simp: at_start_def sound_def sound_parts)
qed

text \<open>Once a revocation is announced, a list that is not yet finished will have it.\<close>

definition covered :: "Deps \<Rightarrow> Issuer \<Rightarrow> nat \<Rightarrow> nat \<Rightarrow> string \<Rightarrow> CertificateRecord \<Rightarrow> threads \<Rightarrow> bool" where
  "covered deps I g h x c t \<longleftrightarrow> sound deps I t \<and> g < length (th_at t) \<and> announced (th_at t ! g) = Some x \<and>
     h < length (th_at t) \<and> select_certificate x (th_sys t) = Some c \<and>
     (\<forall>der. th_at t ! h = CRLReturned (Inr der) \<longrightarrow> listed (d_rev deps) I c der)"

lemma covered_selects:
  assumes "covered deps I g h x c t" and "ledger_le (th_sys t) s"
  shows "select_certificate x s = Some c"
proof -
  have "cert_revoked x (th_sys t)"
    using assms(1) announced_passed by (fastforce simp: covered_def sound_def claims_revoked_def)
  then show ?thesis
    using select_revoked_stays [OF assms(2)] assms(1) by (simp add: covered_def)
qed

lemma covered_turn:
  assumes "covered deps I g h x c t"
  shows "covered deps I g h x c (turn deps k t)"
proof (cases rule: turn_cases [of deps k t])
  case (moves p' s')
  obtain cb where cb: "s_CRLBuilder (th_sys t) = Some cb" "cb_issuer cb = I" and schema: "schema (th_sys t)"
    using assms by (auto simp: covered_def sound_def)
  have old: "g < length (th_at t)" "announced (th_at t ! g) = Some x" "h < length (th_at t)" "k < length (th_at t)"
      "\<And>der. th_at t ! h = CRLReturned (Inr der) \<Longrightarrow> listed (d_rev deps) I c der"
    and now: "\<And>der. cb_cached cb = Some der \<Longrightarrow> listed (d_rev deps) I c der"
      "\<And>now revs. th_at t ! k = CRLBuild now revs \<Longrightarrow> c \<in> set revs"
    using assms cb(1) moves(1) unfolding covered_def sound_def current_def moved_def by blast+
  have "announced ((th_at t)[k := p'] ! g) = Some x"
    using old(1,2,4) moved_revoker(5) [OF moves(1) schema cb(1)] by (cases "g = k"; cases "building (th_at t ! k)") auto
  moreover have "listed (d_rev deps) I c der" if r: "(th_at t)[k := p'] ! h = CRLReturned (Inr der)" for der
  proof (cases "h = k")
    case True
    then have p': "p' = CRLReturned (Inr der)"
      using r old(3) by simp
    then have "building (th_at t ! k)"
      using moved_revoker(1) [OF moves(1) schema cb(1)] by fastforce
    then obtain cb' where "built deps cb (th_sys t) (th_at t ! k) p' cb'"
      using moved_builder [OF moves(1) cb(1)] by metis
    then show ?thesis
      using p' old(5) [of der] now True cb(2) unfolding built_def by metis
  qed (use r old(5) in simp)
  moreover have "select_certificate x s' = Some c"
    using covered_selects [OF assms moved_ledger [OF moves(1)]] .
  ultimately show ?thesis
    using sound_turn [of deps I t k] assms old(1,3) unfolding covered_def moves(2) by simp
qed (use assms in simp)

lemma covered_elsewhere:
  "covered deps I g h x c t \<Longrightarrow> elsewhere (th_sys t) s \<Longrightarrow> covered deps I g h x c (t\<lparr>th_sys := s\<rparr>)"
  using covered_selects [of deps I g h x c t s] sound_elsewhere [of deps I t s] by (simp add: covered_def elsewhere_def)

lemma covered_runs: "runs deps t u \<Longrightarrow> covered deps I g h x c t \<Longrightarrow> covered deps I g h x c u"
  by (induction rule: runs.induct) (simp_all add: covered_turn covered_elsewhere)

text \<open>C22. Revocations and revocation lists may run concurrently: whatever goroutines revoke certificates and build the
  intermediate CA's list, in whatever order their statements and mutex operations interleave with one another and with
  the rest of the service, and whatever statements fail: at most one revocation of a certificate is answered 200, and
  every list of the issuer that is asked for after that answer names the certificate with its revocation time, even if
  a list without it was being built when the certificate was revoked.\<close>

theorem concurrent_revocation_listed:
  assumes "at_start I t0" and "runs deps t0 t1"
    and "g < length (th_at t1)" and "th_at t1 ! g = Answered r resp" and "status resp = 200"
  shows "(\<forall>k r' resp'. k < length (th_at t1) \<longrightarrow> th_at t1 ! k = Answered r' resp' \<longrightarrow> status resp' = 200 \<longrightarrow>
      q_PathValue r' = q_PathValue r \<longrightarrow> k = g) \<and>
    (\<exists>c. select_certificate (q_PathValue r) (th_sys t1) = Some c \<and> RevokedAt c \<noteq> None \<and>
      (\<forall>t2 h der. runs deps t1 t2 \<longrightarrow> h < length (th_at t1) \<longrightarrow> th_at t1 ! h = AtCRL \<longrightarrow>
        th_at t2 ! h = CRLReturned (Inr der) \<longrightarrow> IssuerSerial c = Int_String (SerialNumber (i_Cert I)) \<longrightarrow>
        (\<exists>tmpl. CreateRevocationList (d_rev deps) tmpl (i_Cert I) (i_Signer I) = Some der \<and> entry_of c \<in> set (rl_Entries tmpl))))"
proof (intro conjI)
  have sound: "sound deps I t1"
    using sound_runs [OF assms(2) sound_at_start [OF assms(1)]] .
  show "\<forall>k r' resp'. k < length (th_at t1) \<longrightarrow> th_at t1 ! k = Answered r' resp' \<longrightarrow> status resp' = 200 \<longrightarrow>
      q_PathValue r' = q_PathValue r \<longrightarrow> k = g"
    using sound assms(3-5) unfolding sound_def one_claim_def by (metis passed.simps(5))
  have "cert_revoked (q_PathValue r) (th_sys t1)"
    using sound assms(3-5) unfolding sound_def claims_revoked_def by (metis passed.simps(5))
  then obtain c where c: "select_certificate (q_PathValue r) (th_sys t1) = Some c" "RevokedAt c \<noteq> None"
    by (auto simp: cert_revoked_def)
  have "listed (d_rev deps) I c der"
    if "runs deps t1 t2" "h < length (th_at t1)" "th_at t1 ! h = AtCRL" "th_at t2 ! h = CRLReturned (Inr der)" for t2 h der
    using covered_runs [OF that(1), of I g h "q_PathValue r" c] sound c(1) that(2-4) assms(3-5) by (simp add: covered_def)
  then show "\<exists>c. select_certificate (q_PathValue r) (th_sys t1) = Some c \<and> RevokedAt c \<noteq> None \<and>
      (\<forall>t2 h der. runs deps t1 t2 \<longrightarrow> h < length (th_at t1) \<longrightarrow> th_at t1 ! h = AtCRL \<longrightarrow>
        th_at t2 ! h = CRLReturned (Inr der) \<longrightarrow> IssuerSerial c = Int_String (SerialNumber (i_Cert I)) \<longrightarrow>
        (\<exists>tmpl. CreateRevocationList (d_rev deps) tmpl (i_Cert I) (i_Signer I) = Some der \<and> entry_of c \<in> set (rl_Entries tmpl)))"
    using c unfolding listed_def by blast
qed

lemma runs_schedule: "runs deps t (fold (turn deps) gs t)"
proof (induction gs rule: rev_induct)
  case (snoc g gs)
  then show ?case
    using runs.turns [of deps t "fold (turn deps) gs t" g] by simp
qed (simp add: runs.start)

text \<open>A list is being built, after its query, while certificate 8 is revoked; the third goroutine asks afterwards.\<close>

definition threads1 :: threads where
  "threads1 = \<lparr>th_sys = sys1, th_mu = None, th_at = [AtRevoke revoke8, AtCRL, AtCRL]\<rparr>"

definition threads2 :: threads where
  "threads2 = fold (turn deps1) [1, 1, 1, 0, 0, 0, 0, 0, 1, 0, 0, 0] threads1"

lemma threads1_start: "at_start inter1 threads1"
  using sys1_schema by (auto simp: at_start_def threads1_def sample_data NewCRLBuilder_def)

lemmas run_threads = threads2_def threads1_def turn_def place_step_def revoke8_def sample_data running revocationReasons_def
  revoke_from_def crl_build_def rev1_def NewCRLBuilder_def inter1_serial Invalidate_def

lemma threads2_at:
  "\<exists>resp der. th_at threads2 = [Answered revoke8 resp, CRLReturned (Inr der), AtCRL] \<and> status resp = 200"
  "\<exists>c. select_certificate ''8'' (th_sys threads2) = Some c \<and> Serial c = ''8'' \<and> IssuerSerial c = ''2''"
  by (simp_all add: run_threads)

lemma threads3_at: "\<exists>der. th_at (fold (turn deps1) [2, 2, 2, 2] threads2) ! 2 = CRLReturned (Inr der)"
  using SetString10_Int_String [of 8] by (simp add: run_threads del: SetString10_Int_String)

theorem concurrent_revocation_listed_witness:
  "\<exists>der tmpl e. th_at (fold (turn deps1) [2, 2, 2, 2] threads2) ! 2 = CRLReturned (Inr der) \<and>
     CreateRevocationList rev1 tmpl (i_Cert inter1) (i_Signer inter1) = Some der \<and>
     e \<in> set (rl_Entries tmpl) \<and> rle_SerialNumber e = 8"
proof -
  obtain resp der where at: "th_at threads2 = [Answered revoke8 resp, CRLReturned (Inr der), AtCRL]" "status resp = 200"
    using threads2_at(1) by blast
  obtain c where c: "select_certificate ''8'' (th_sys threads2) = Some c" "Serial c = ''8''" "IssuerSerial c = ''2''"
    using threads2_at(2) by blast
  obtain new where new: "th_at (fold (turn deps1) [2, 2, 2, 2] threads2) ! 2 = CRLReturned (Inr new)"
    using threads3_at by blast
  have serial: "q_PathValue revoke8 = ''8''" "d_rev deps1 = rev1"
    by (simp_all add: revoke8_def req1_def deps1_def)
  have len: "0 < length (th_at threads2)" "2 < length (th_at threads2)" "th_at threads2 ! 0 = Answered revoke8 resp" "th_at threads2 ! 2 = AtCRL"
    using at(1) by simp_all
  have "runs deps1 threads1 threads2"
    unfolding threads2_def by (rule runs_schedule)
  from concurrent_revocation_listed [OF threads1_start this len(1,3) at(2)] obtain c' where
    c': "select_certificate (q_PathValue revoke8) (th_sys threads2) = Some c'"
    and all: "\<forall>t2 h der. runs deps1 threads2 t2 \<longrightarrow> h < length (th_at threads2) \<longrightarrow> th_at threads2 ! h = AtCRL \<longrightarrow>
      th_at t2 ! h = CRLReturned (Inr der) \<longrightarrow> IssuerSerial c' = Int_String (SerialNumber (i_Cert inter1)) \<longrightarrow>
      (\<exists>tmpl. CreateRevocationList (d_rev deps1) tmpl (i_Cert inter1) (i_Signer inter1) = Some der \<and> entry_of c' \<in> set (rl_Entries tmpl))"
    by blast
  have "c' = c" "IssuerSerial c' = Int_String (SerialNumber (i_Cert inter1))"
    using c' c serial(1) by (simp_all add: inter1_serial)
  with all new len(2,4) runs_schedule serial(2)
  obtain tmpl where "CreateRevocationList rev1 tmpl (i_Cert inter1) (i_Signer inter1) = Some new" "entry_of c \<in> set (rl_Entries tmpl)"
    by metis
  moreover have "rle_SerialNumber (entry_of c) = 8"
    using c(2) SetString10_Int_String [of 8] by (simp add: entry_of_def del: SetString10_Int_String)
  ultimately show ?thesis
    using new by blast
qed

end
