(* ===== verification/Process.thy ===== *)
theory Process
  imports Lifecycle
begin

text \<open>
  The server process from its arguments to its exit code: \<open>main\<close> of \<open>cmd/trustmated\<close> around the start-up of
  \<open>Daemon\<close>, with the version flag, the logger of \<open>internal/observability\<close>, the serving of requests, signals and
  shutdown, and the metrics that are registered. What happens to the process while it serves is a list of events. A
  log line is its level and message. On \<open>os.Exit\<close> deferred calls do not run; on a return from \<open>main\<close> they do. The key
  store is the file store, which has nothing to close.
\<close>

section \<open>Logging\<close>

definition LevelInfo :: int where "LevelInfo = 0"
definition LevelError :: int where "LevelError = 8"

text \<open>\<open>strings.ToUpper\<close>, exact where the result is ASCII: besides the ASCII letters only the dotless i and the long s
  become ASCII letters.\<close>

fun ToUpper :: "string \<Rightarrow> string" where
  "ToUpper [] = []"
| "ToUpper [c] = [if ''a'' \<le> [c] \<and> [c] \<le> ''z'' then char_of (of_char c - 32 :: nat) else c]"
| "ToUpper (c # d # s) =
     (if c = CHR 0xC4 \<and> d = CHR 0xB1 then CHR ''I'' # ToUpper s
      else if c = CHR 0xC5 \<and> d = CHR 0xBF then CHR ''S'' # ToUpper s
      else ToUpper [c] @ ToUpper (d # s))"

definition Level_UnmarshalText :: "string \<Rightarrow> int option" where
  "Level_UnmarshalText s =
     (let name = takeWhile (\<lambda>c. c \<notin> {CHR ''+'', CHR ''-''}) s; rest = dropWhile (\<lambda>c. c \<notin> {CHR ''+'', CHR ''-''}) s in do {
        offset \<leftarrow> (if rest = [] then Some 0 else Atoi rest);
        base \<leftarrow> map_of [(''DEBUG'', -4), (''INFO'', 0), (''WARN'', 4), (''ERROR'', 8)] (ToUpper name);
        Some (base + offset)
      })"

text \<open>\<open>NewLogger\<close>: the least level that is written.\<close>

definition NewLogger :: "string \<Rightarrow> int" where
  "NewLogger level = (case Level_UnmarshalText level of None \<Rightarrow> LevelInfo | Some lvl \<Rightarrow> lvl)"

definition log_at :: "int \<Rightarrow> int \<Rightarrow> string \<Rightarrow> (int \<times> string) list" where
  "log_at logger level msg = (if logger \<le> level then [(level, msg)] else [])"

section \<open>Metrics\<close>

text \<open>Name, constant labels and variable labels of every metric that \<open>NewMetrics\<close> registers.\<close>

definition metric_descs :: "string \<Rightarrow> (string \<times> (string \<times> string) list \<times> string list) list" where
  "metric_descs instanceName =
     [(''trustmate_instance_info'', [(''instance'', instanceName)], []),
      (''trustmate_certificates_issued_total'', [], [''profile'']),
      (''trustmate_certificates_revoked_total'', [], []),
      (''trustmate_ocsp_requests_total'', [], [''status'']),
      (''trustmate_ocsp_request_duration_seconds'', [], []),
      (''trustmate_tsa_requests_total'', [], [''status'']),
      (''trustmate_tsa_request_duration_seconds'', [], []),
      (''trustmate_store_up'', [], []),
      (''trustmate_acme_accounts_total'', [], []),
      (''trustmate_acme_orders_total'', [], [''outcome''])]"

text \<open>\<open>MustRegister\<close> panics on a second metric of one name and on names Prometheus does not allow; these are neither.\<close>

definition metric_char :: "char \<Rightarrow> bool" where
  "metric_char c \<longleftrightarrow> (''a'' \<le> [c] \<and> [c] \<le> ''z'') \<or> (''A'' \<le> [c] \<and> [c] \<le> ''Z'') \<or> (''0'' \<le> [c] \<and> [c] \<le> ''9'') \<or> c \<in> {CHR ''_'', CHR '':''}"

lemma metrics_registrable:
  "distinct (map fst (metric_descs i)) \<and> (\<forall>(name, cs, vs) \<in> set (metric_descs i). list_all metric_char name \<and> hd name = CHR ''t'')"
  by (simp add: metric_descs_def) (simp add: metric_char_def)

section \<open>The process\<close>

datatype phase = Serving | ShuttingDown | Exited nat

record process =
  pr_phase :: phase
  pr_stdout :: string
  pr_stderr :: bool
  pr_logger :: int
  pr_log :: "(int \<times> string) list"
  pr_closed :: bool
  pr_answers :: "response list"

definition log_line :: "int \<Rightarrow> string \<Rightarrow> process \<Rightarrow> process" where
  "log_line level msg p = p\<lparr>pr_log := pr_log p @ log_at (pr_logger p) level msg\<rparr>"

definition os_Exit :: "nat \<Rightarrow> process \<Rightarrow> process" where
  "os_Exit n p = p\<lparr>pr_phase := Exited n\<rparr>"

text \<open>What may happen to a serving process: a request is answered, \<open>ListenAndServeTLS\<close> returns an error other than
  \<open>ErrServerClosed\<close>, SIGINT or SIGTERM arrives, \<open>Shutdown\<close> returns, without an error or with one (the ten
  seconds are over). While the process shuts down, requests that were under way are still answered.\<close>

datatype event = Request request | ServeFailed | Signalled | ShutdownReturned bool

fun on_event :: "Deps \<Rightarrow> event \<Rightarrow> process \<Rightarrow> (sys, process) state" where
  "on_event deps (Request r) p =
     (case pr_phase p of
        Exited _ \<Rightarrow> ret p
      | _ \<Rightarrow> do { resp \<leftarrow> serve deps r; ret (p\<lparr>pr_answers := pr_answers p @ [resp]\<rparr>) })"
| "on_event deps ServeFailed p =
     ret (case pr_phase p of Exited _ \<Rightarrow> p | _ \<Rightarrow> os_Exit 1 (log_line LevelError ''server failed'' p))"
| "on_event deps Signalled p =
     ret (if pr_phase p = Serving then (log_line LevelInfo ''shutting down'' p)\<lparr>pr_phase := ShuttingDown\<rparr> else p)"
| "on_event deps (ShutdownReturned ok) p =
     ret (if pr_phase p \<noteq> ShuttingDown then p
          else if ok then os_Exit 0 (p\<lparr>pr_closed := True\<rparr>)
          else os_Exit 1 (log_line LevelError ''graceful shutdown failed'' p))"

fun on_events :: "Deps \<Rightarrow> event list \<Rightarrow> process \<Rightarrow> (sys, process) state" where
  "on_events deps [] p = ret p"
| "on_events deps (e # es) p = do { p' \<leftarrow> on_event deps e p; on_events deps es p' }"

fun start_message :: "start_error \<Rightarrow> string" where
  "start_message (StartConfig _) = ''loading config''"
| "start_message (StartStore _) = ''opening datastore failed''"
| "start_message (StartKeys _) = ''opening keystore failed''"
| "start_message (StartBootstrap _) = ''bootstrap failed''"
| "start_message StartLock = ''bootstrap failed''"
| "start_message (StartTLS _) = ''loading server TLS configuration failed''"
| "start_message (StartIntermediate _) = ''loading intermediate CA issuer failed''"
| "start_message (StartRoot _) = ''loading root CA issuer failed''"
| "start_message (StartTSA _) = ''loading TSA issuer failed''"
| "start_message (StartProfiles _) = ''loading profile registry failed''"

definition new_process :: process where
  "new_process = \<lparr>pr_phase = Serving, pr_stdout = [], pr_stderr = False, pr_logger = LevelInfo, pr_log = [], pr_closed = False, pr_answers = []\<rparr>"

definition version_asked :: "string list \<Rightarrow> bool" where
  "version_asked args \<longleftrightarrow> 1 < length args \<and> args ! 1 \<in> {''--version'', ''-version''}"

text \<open>What \<open>main\<close> does with the outcome of the start-up, up to \<open>listening\<close>.\<close>

definition started :: "config_error + Config \<Rightarrow> start_error + service \<Rightarrow> process" where
  "started loaded r =
     (case loaded of
        Inl e \<Rightarrow> os_Exit 1 (new_process\<lparr>pr_stderr := True\<rparr>)
      | Inr cfg \<Rightarrow>
          (let p = log_line LevelInfo ''trustmate starting'' (new_process\<lparr>pr_logger := NewLogger (cfg_Log_Level cfg)\<rparr>) in
           case r of
             Inl e \<Rightarrow> os_Exit 1 (log_line LevelError (start_message e) p)
           | Inr sv \<Rightarrow> log_line LevelInfo ''listening'' p))"

definition trustmated_main ::
    "string \<Rightarrow> string list \<Rightarrow> (string \<Rightarrow> string option) \<Rightarrow> (string \<Rightarrow> string option) \<Rightarrow> (string \<Rightarrow> Config \<Rightarrow> Config option) \<Rightarrow>
     (string \<Rightarrow> (string \<times> string) option) \<Rightarrow> 'd db_prims \<Rightarrow> (KeystoreConfig \<Rightarrow> ('d mig_db, ks_error + FileKeyStore) state) \<Rightarrow>
     boot_prims \<Rightarrow> ks_prims \<Rightarrow> reg_prims \<Rightarrow> output_dir \<Rightarrow> Deps \<Rightarrow> event list \<Rightarrow> 'd mig_db \<Rightarrow>
     process \<times> (service \<times> sys \<times> sys) option \<times> 'd mig_db" where
  "trustmated_main version args env readFile yaml_Unmarshal url_Parse D open_ks B P R dir deps events w =
     (if version_asked args then (os_Exit 0 (new_process\<lparr>pr_stdout := ''trustmated '' @ version @ [CHR 0x0A]\<rparr>), None, w)
      else
        (let ((r, ks, dir'), w') = run_state (trustmated env readFile yaml_Unmarshal url_Parse D open_ks B
               (FileKeyStore_Generate P) (FileKeyStore_Get P) R dir) w;
             p = started (LoadFromEnv env readFile yaml_Unmarshal url_Parse
               (case env ''TRUSTMATE_CONFIG_FILE'' of None \<Rightarrow> [] | Some f \<Rightarrow> f)) r
         in case (r, ks) of
              (Inr sv, Some k) \<Rightarrow>
                (let s = running_sys sv k w'; (p', s') = run_state (on_events (router_deps deps sv) events p) s
                 in (p', Some (sv, s, s'), w'))
            | _ \<Rightarrow> (p, None, w')))"

section \<open>Serving\<close>

text \<open>The requests a process answers before it exits.\<close>

fun handled :: "phase \<Rightarrow> event list \<Rightarrow> request list" where
  "handled ph [] = []"
| "handled ph (Request r # es) = (case ph of Exited _ \<Rightarrow> [] | _ \<Rightarrow> r # handled ph es)"
| "handled ph (ServeFailed # es) = []"
| "handled ph (Signalled # es) = handled (if ph = Serving then ShuttingDown else ph) es"
| "handled ph (ShutdownReturned ok # es) = (if ph = ShuttingDown then [] else handled ph es)"

lemma handled_exited [simp]: "handled (Exited n) es = []"
  by (induction "Exited n" es rule: handled.induct) auto

lemma log_line_simps [simp]:
  "pr_phase (log_line l m p) = pr_phase p" "pr_answers (log_line l m p) = pr_answers p" "pr_closed (log_line l m p) = pr_closed p"
  "pr_logger (log_line l m p) = pr_logger p" "pr_stderr (log_line l m p) = pr_stderr p"
  "pr_log (log_line l m p) = pr_log p @ log_at (pr_logger p) l m"
  by (simp_all add: log_line_def)

lemma os_Exit_simps [simp]:
  "pr_phase (os_Exit n p) = Exited n" "pr_answers (os_Exit n p) = pr_answers p" "pr_closed (os_Exit n p) = pr_closed p"
  "pr_logger (os_Exit n p) = pr_logger p" "pr_stderr (os_Exit n p) = pr_stderr p" "pr_log (os_Exit n p) = pr_log p"
  by (simp_all add: os_Exit_def)

lemma on_events_exited: "pr_phase p = Exited n \<Longrightarrow> on_events deps es p = ret p"
proof (induction es)
  case (Cons e es)
  then show ?case
    by (cases e) auto
qed simp

lemma on_events_serves:
  "run_state (on_events deps es p) s = (p', s') \<Longrightarrow>
    \<exists>resps. run_state (serve_all deps (handled (pr_phase p) es)) s = (resps, s') \<and> pr_answers p' = pr_answers p @ resps"
proof (induction es arbitrary: p s)
  case (Cons e es)
  show ?case
  proof (cases e)
    case (Request r)
    obtain resp t where "run_state (serve deps r) s = (resp, t)"
      by fastforce
    then show ?thesis
      using Cons.prems Cons.IH [of "p\<lparr>pr_answers := pr_answers p @ [resp]\<rparr>" t] Request
      by (cases "pr_phase p") (auto simp: run_state_bind on_events_exited)
  next
    case ServeFailed
    then show ?thesis
      using Cons.prems Cons.IH [of p s] by (cases "pr_phase p") (auto simp: on_events_exited)
  next
    case Signalled
    then show ?thesis
      using Cons.prems Cons.IH [of p s] Cons.IH [of "(log_line LevelInfo ''shutting down'' p)\<lparr>pr_phase := ShuttingDown\<rparr>" s]
      by (cases "pr_phase p = Serving") auto
  next
    case (ShutdownReturned ok)
    then show ?thesis
      using Cons.prems Cons.IH [of p s] by (cases "pr_phase p = ShuttingDown"; cases ok) (auto simp: on_events_exited)
  qed
qed simp

section \<open>The exit code\<close>

text \<open>How a serving process ends.\<close>

definition ended :: "bool \<Rightarrow> event list \<Rightarrow> process \<Rightarrow> bool" where
  "ended signalled es p \<longleftrightarrow> (case pr_phase p of
     Exited n \<Rightarrow>
       n = 0 \<and> pr_closed p \<and> (signalled \<or> Signalled \<in> set es) \<and> ShutdownReturned True \<in> set es \<or>
       n = 1 \<and> \<not> pr_closed p \<and> (pr_logger p \<le> LevelError \<longrightarrow> pr_log p \<noteq> [] \<and> fst (last (pr_log p)) = LevelError)
   | _ \<Rightarrow> \<not> pr_closed p)"

lemma ended_mono: "ended b es p \<Longrightarrow> b \<longrightarrow> b' \<or> e = Signalled \<Longrightarrow> ended b' (e # es) p"
  by (auto simp: ended_def split: phase.splits)

lemma on_events_end:
  "run_state (on_events deps es p) s = (p', s') \<Longrightarrow> \<not> pr_closed p \<Longrightarrow> pr_phase p \<in> {Serving, ShuttingDown} \<Longrightarrow>
    ended (pr_phase p = ShuttingDown) es p'"
proof (induction es arbitrary: p s)
  case Nil
  then show ?case
    by (auto simp: ended_def)
next
  case (Cons e es)
  obtain q t where q: "run_state (on_event deps e p) s = (q, t)" and rest: "run_state (on_events deps es q) t = (p', s')"
    using Cons.prems(1) by (auto simp: run_state_bind split: prod.splits)
  show ?case
  proof (cases "pr_phase q")
    case (Exited n)
    then have "p' = q"
      using rest on_events_exited [OF Exited] by simp
    with Exited q Cons.prems(2,3) show ?thesis
      by (cases e; cases "pr_phase p") (auto simp: ended_def log_at_def run_state_bind split: if_splits prod.splits)
  next
    case Serving
    then have "\<not> pr_closed q \<and> pr_phase p = Serving"
      using q Cons.prems(2,3) by (cases e; cases "pr_phase p") (auto simp: run_state_bind split: if_splits prod.splits)
    then show ?thesis
      using Cons.IH [OF rest] Serving by (auto intro: ended_mono)
  next
    case ShuttingDown
    then have "\<not> pr_closed q \<and> (pr_phase p = ShuttingDown \<or> e = Signalled)"
      using q Cons.prems(2,3) by (cases e; cases "pr_phase p") (auto simp: run_state_bind split: if_splits prod.splits)
    then show ?thesis
      using Cons.IH [OF rest] ShuttingDown by (auto intro: ended_mono)
  qed
qed

section \<open>Properties\<close>

text \<open>A start-up that succeeds loaded its configuration and has a key store.\<close>

lemma wp_trustmated_outcome:
  "wp (trustmated env rf yaml url D open_ks B gen get R dir) (\<lambda>(r, ks, _) _. \<forall>sv. r = Inr sv \<longrightarrow> ks \<noteq> None \<and>
    (\<exists>cfg. LoadFromEnv env rf yaml url (case env ''TRUSTMATE_CONFIG_FILE'' of None \<Rightarrow> [] | Some f \<Rightarrow> f) = Inr cfg)) w"
  unfolding trustmated_def by (auto simp: case_prod_beta split: sum.splits intro!: wp_any [where m = "openStore D c" for c] wp_any [where m = "open_ks c" for c]
      wp_any [where m = "start_service b B gen get R c k dir" for b c k])

text \<open>C29. The exit code of the server process tells how it ended, for every command line, environment, start-up and sequence
  of requests, signals and failures: it is 0 or 1; 0 means that the version was asked for (and nothing touched), or that
  a signal arrived, the shutdown was complete and the datastore was closed; 1 is explained on standard error or, unless
  the configured level is above errors, by a last log line of level error. A process that does not come up answers no
  request.\<close>

theorem daemon_exit:
  assumes "trustmated_main version args env readFile yaml_Unmarshal url_Parse D open_ks B P R dir deps events w = (p, run, w')"
  shows "(pr_phase p = Exited 0 \<longrightarrow>
      version_asked args \<and> run = None \<and> w' = w \<and> pr_stdout p = ''trustmated '' @ version @ [CHR 0x0A] \<or>
      run \<noteq> None \<and> pr_closed p \<and> Signalled \<in> set events \<and> ShutdownReturned True \<in> set events) \<and>
    (\<forall>n. pr_phase p = Exited n \<longrightarrow> n \<noteq> 0 \<longrightarrow> n = 1 \<and> \<not> pr_closed p \<and>
      (pr_stderr p \<or> (pr_logger p \<le> LevelError \<longrightarrow> pr_log p \<noteq> [] \<and> fst (last (pr_log p)) = LevelError))) \<and>
    (run = None \<longrightarrow> pr_answers p = [] \<and> (\<exists>n. pr_phase p = Exited n))"
proof (cases "version_asked args")
  case True
  then show ?thesis
    using assms by (auto simp: trustmated_main_def os_Exit_def new_process_def)
next
  case False
  let ?load = "LoadFromEnv env readFile yaml_Unmarshal url_Parse (case env ''TRUSTMATE_CONFIG_FILE'' of None \<Rightarrow> [] | Some f \<Rightarrow> f)"
  obtain r ks dir' w1 where t: "run_state (trustmated env readFile yaml_Unmarshal url_Parse D open_ks B
      (FileKeyStore_Generate P) (FileKeyStore_Get P) R dir) w = ((r, ks, dir'), w1)"
    by (metis prod.collapse)
  show ?thesis
  proof (cases r)
    case (Inl e)
    then have "p = started ?load (Inl e)" "run = None"
      using assms False t by (simp_all add: trustmated_main_def)
    then show ?thesis
      by (auto simp: started_def new_process_def Let_def log_at_def split: sum.splits)
  next
    case (Inr sv)
    obtain k cfg where k: "ks = Some k" and cfg: "?load = Inr cfg"
      using wp_run [OF wp_trustmated_outcome t] Inr by auto
    let ?p = "started ?load (Inr sv)"
    obtain s' where ev: "run_state (on_events (router_deps deps sv) events ?p) (running_sys sv k w1) = (p, s')" and "run \<noteq> None"
      using assms False t Inr k by (auto simp: trustmated_main_def Let_def split: prod.splits)
    moreover have "pr_phase ?p = Serving" "\<not> pr_closed ?p"
      by (simp_all add: cfg started_def Let_def new_process_def)
    ultimately show ?thesis
      using on_events_end [OF ev] by (auto simp: ended_def split: phase.splits)
  qed
qed

text \<open>C14. What a process serves: on a datastore without certificates, every request a process of the file key store answers,
  up to its exit, is answered by the router of a service whose configuration is well-formed and whose certificates are
  each for the private key used with it, and answers and final state are those of serving exactly these requests in order.\<close>

theorem daemon_serves:
  assumes "trustmated_main version args env readFile yaml_Unmarshal url_Parse D (file_driver T server disk env readFile) B P R dir deps events w =
      (p, Some (sv, s, s'), w')"
    and "certificates w = []" and "ks_faithful P" and "x509_keys (b_pki B)" and "pem_faithful (b_pki B)"
  shows "valid_config (sv_cfg sv) \<and> service_paired B sv \<and> tables s = tables w' \<and>
    run_state (serve_all (router_deps deps sv) (handled Serving events)) s = (pr_answers p, s')"
proof -
  let ?load = "LoadFromEnv env readFile yaml_Unmarshal url_Parse (case env ''TRUSTMATE_CONFIG_FILE'' of None \<Rightarrow> [] | Some f \<Rightarrow> f)"
  obtain r ks dir' w1 where t: "run_state (trustmated env readFile yaml_Unmarshal url_Parse D (file_driver T server disk env readFile) B
      (FileKeyStore_Generate P) (FileKeyStore_Get P) R dir) w = ((r, ks, dir'), w1)"
    by (metis prod.collapse)
  have "\<not> version_asked args"
    using assms(1) by (auto simp: trustmated_main_def)
  then obtain k where r: "r = Inr sv" "ks = Some k" "w1 = w'" "s = running_sys sv k w'"
    and ev: "run_state (on_events (router_deps deps sv) events (started ?load (Inr sv))) s = (p, s')"
    using assms(1) t by (auto simp: trustmated_main_def Let_def split: prod.splits sum.splits option.splits)
  obtain cfg where cfg: "?load = Inr cfg"
    using wp_run [OF wp_trustmated_outcome t] r by auto
  have "pr_phase (started ?load (Inr sv)) = Serving" "pr_answers (started ?load (Inr sv)) = []"
    by (simp_all add: cfg started_def Let_def new_process_def)
  then have "run_state (serve_all (router_deps deps sv) (handled Serving events)) s = (pr_answers p, s')"
    using on_events_serves [OF ev] by auto
  moreover have "valid_config (sv_cfg sv) \<and> service_paired B sv"
    using wp_run [OF wp_trustmated [OF assms(3-5,2)] t] r(1) by simp
  ultimately show ?thesis
    using r(4) by (simp add: tables_def running_sys_def)
qed

definition life1 :: "event list \<Rightarrow> process \<times> (service \<times> sys \<times> sys) option \<times> unit mig_db" where
  "life1 events = trustmated_main ''dev'' [''trustmated''] env1 (\<lambda>_. None) (\<lambda>_. Some) (\<lambda>_. Some (''https'', ''ca'')) db1
     (file_driver p11_none () [] env1 (\<lambda>_. None)) boot1 ks1 reg1 [] deps1 events disk0"

lemma life1_up: "\<exists>sv s s'. fst (snd (life1 events)) = Some (sv, s, s')"
proof -
  obtain sv where "fst (fst start1) = Inr sv"
    using start1_ok by blast
  then obtain ks dir w1 where t: "start1 = ((Inr sv, ks, dir), w1)"
    by (metis prod.collapse)
  then obtain k where "ks = Some k"
    using wp_run [OF wp_trustmated_outcome t [unfolded start1_def]] by auto
  then show ?thesis
    using t by (auto simp: life1_def trustmated_main_def version_asked_def start1_def Let_def split: prod.splits)
qed

theorem daemon_exit_witness:
  "pr_phase (fst (life1 [ShutdownReturned True, Signalled, ShutdownReturned True, ServeFailed])) = Exited 0 \<and>
   pr_closed (fst (life1 [ShutdownReturned True, Signalled, ShutdownReturned True, ServeFailed]))"
proof -
  let ?es = "[ShutdownReturned True, Signalled, ShutdownReturned True, ServeFailed]"
  obtain p sv s s' w' where l: "life1 ?es = (p, Some (sv, s, s'), w')"
    using life1_up [of ?es] by (metis prod.collapse)
  have "LoadFromEnv env1 (\<lambda>_. None) (\<lambda>_. Some) (\<lambda>_. Some (''https'', ''ca'')) [] = Inr cfg \<Longrightarrow> pr_phase p = Exited 0" for cfg
    using l by (auto simp: life1_def trustmated_main_def version_asked_def env1_has started_def new_process_def Let_def
        split: prod.splits sum.splits option.splits)
  then have "pr_phase p = Exited 0"
    using load1 by blast
  then show ?thesis
    using daemon_exit [OF l [unfolded life1_def]] l by (simp add: version_asked_def)
qed

theorem daemon_serves_witness:
  "\<exists>sv s s'. fst (snd (life1 [Request get_crl, Signalled])) = Some (sv, s, s') \<and> service_paired boot1 sv \<and>
     run_state (serve_all (router_deps deps1 sv) [get_crl]) s = (pr_answers (fst (life1 [Request get_crl, Signalled])), s')"
proof -
  let ?es = "[Request get_crl, Signalled]"
  obtain p sv s s' w' where l: "life1 ?es = (p, Some (sv, s, s'), w')"
    using life1_up [of ?es] by (metis prod.collapse)
  then show ?thesis
    using daemon_serves [OF l [unfolded life1_def]] ks_faithful_ks1 pki2_faithful by (simp add: disk0_def boot1_def)
qed

end
