(* ===== verification/Spec2Isabelle.thy ===== *)
theory Spec2Isabelle
  imports Service Authority Ref_Lock Columns Crl_Lock Process
begin

text \<open>
  A verification of TrustMate, a certificate authority that runs as one Go service: a REST API over
  mutual TLS that issues and revokes X.509 certificates, with revocation services (CRL, OCSP), a
  time-stamp authority and ACME enrolment as optional modules, on a SQLite or PostgreSQL
  datastore and a key store on files, HashiCorp Vault or a PKCS\#11 token. Around the service stand a client library,
  two command-line tools and a tool server for assistants (MCP), which talk to the API.

  \<^bold>\<open>The program and its theories.\<close> Every theory opens with the files of \<open>src/\<close> it models; each Go
  function is one definition of the same name, each repository method one definition per backend
  (\<open>sqlite_Certificates_Create\<close>, \<open>pg_Certificates_Create\<close>) and one that dispatches.

  \<^item> \<open>Prelude\<close>: the state monad's rules. \<open>wp m Q s\<close> says that \<open>Q\<close> holds of the answer and the state of
    \<open>m\<close> from \<open>s\<close>; the collections \<open>wps\<close>, \<open>keeps\<close> and \<open>effects\<close> carry the proofs of the components.
    The locale \<open>state_preorder\<close> lifts a preorder on states through programs.
  \<^item> \<open>Gostd\<close>: what is used of Go's library and is not a parameter: decimal and hexadecimal text,
    base64url, big-endian integers, \<open>strings\<close>, \<open>time\<close> (nanoseconds as integers).
  \<^item> \<open>Store\<close>, \<open>World\<close>: the records of \<open>internal/store/store.go\<close>, the tables as lists of rows, the SQL
    statements the program sends, and the outside: a clock that moves arbitrarily (\<open>clock_tape\<close>),
    randomness that may fail (\<open>rand_tape\<close>), and a tape of faults: each statement and file operation
    runs, fails, or takes effect although its answer is lost.
  \<^item> \<open>Ledger\<close>: the constraints of the schema as an invariant (\<open>schema\<close>), and the preorder \<open>ledger_le\<close>:
    no row disappears; a certificate may only become revoked, a token consumed, an order move
    forward. Every statement keeps both, and so does every handler.
  \<^item> \<open>Sqlite_Store\<close>, \<open>Postgres_Store\<close>, \<open>Store_Iface\<close>: the repositories of \<open>internal/store/sqlite\<close> and
    \<open>internal/store/postgres\<close>, and the contracts the handlers rest on as locales: \<open>repository\<close> (what is
    created is read back) and \<open>single_use\<close> (a claim is won once), interpreted on the methods.
  \<^item> \<open>Rfc3339\<close>, \<open>Columns\<close>: the rows underneath. \<open>Rfc3339\<close> is the calendar and \<open>time.Format\<close> and \<open>time.Parse\<close> for RFC 3339;
    \<open>Columns\<close> has rows of SQL values, the arguments of the statements, SQLite's reading of every statement and query over
    text, and the scanning of rows in both backends; \<open>row_codec\<close> is the interface between a table and its scan, interpreted
    on every table of both.
  \<^item> \<open>Profiles\<close>, \<open>Pki\<close>, \<open>Keystore\<close>, \<open>Revocation\<close>, \<open>Tsa\<close>, \<open>Acme_Jws\<close>: \<open>internal/profiles\<close>, \<open>internal/pki\<close>,
    \<open>internal/keystore\<close>, \<open>internal/revocation\<close>, \<open>internal/tsa\<close> and \<open>internal/acme\<close>. \<open>key_store\<close> is the interface
    of \<open>keystore.KeyStore\<close> as a locale, interpreted on the file store and, in \<open>Keystore_Remote\<close>, on the stores on
    Vault and PKCS\#11.
  \<^item> \<open>Api_Core\<close>, \<open>Api_Certificates\<close>, \<open>Api_Services\<close>, \<open>Api_Acme\<close>, \<open>Router\<close>: every handler of \<open>internal/api\<close>, from
    decoding to the response, the role check, and the route table with its module switches. The
    state \<open>sys\<close> is the datastore with what the process holds in memory: key store cache, CRL cache,
    time-stamp responder, profile registry, counters. \<open>serve\<close> is one request through the router.
  \<^item> \<open>Migrate\<close>, \<open>Config\<close>, \<open>Bootstrap\<close>: \<open>internal/store/migrate\<close>, \<open>internal/config\<close> and \<open>internal/bootstrap\<close>.
    \<open>boot_store\<close> extends \<open>key_store\<close> to what the first run needs; \<open>Startup\<close> follows the keys of the first run to
    the next start.
  \<^item> \<open>Daemon\<close>: \<open>cmd/trustmated\<close> from the configuration to the router: opening of the datastore and the key store, the
    first run under the advisory lock, the loading of the service's certificates. \<open>Process\<close>: \<open>main\<close> as a whole, with
    the logger and the metrics of \<open>internal/observability\<close>, serving, signals, shutdown and the exit code.
  \<^item> \<open>Client\<close>: \<open>internal/cliclient\<close> and the tools \<open>cmd/trustmate-admin\<close> and \<open>cmd/trustmate-management\<close>, with Go's flag
    package. \<open>Mcp\<close>: \<open>cmd/trustmate-mcp\<close>, its tools, resources, prompts and \<open>main\<close>, on a host with files and randomness.
    \<open>Operations\<close> connects the clients to the router of the service over a network that may lose either half.
  \<^item> \<open>Conformance\<close>, \<open>Key_Conformance\<close>: the contract suites \<open>storetest\<close> and \<open>keystoretest\<close>, as programs with verdicts;
    \<open>answering_key_store\<close> extends \<open>key_store\<close> by what a store does when nothing fails. The test of \<open>keystoretest\<close> that
    starts goroutines, and with it the suite as a whole on the file store, is in \<open>Ref_Lock\<close>.
  \<^item> \<open>Ref_Lock\<close>: goroutines that call \<open>Generate\<close> and \<open>Get\<close> of one file store at the same time, step by step, with the
    mutexes of \<open>refLocker\<close>. \<open>Crl_Lock\<close>: goroutines that revoke and build the revocation list, with the builder's mutex.
  \<^item> \<open>Samples\<close>: one small installation on which the properties are applied.

  \<^bold>\<open>What is shown.\<close>

  \<^item> \<open>Access_Control\<close>: the role check decides as documented; without a role a request changes nothing;
    only administrators change roles and profiles; a revoked certificate is locked out for good.
  \<^item> \<open>Authority\<close>: an abstract authority of three kinds of steps (issue, revoke, grant), which the
    whole router refines while ACME is off, and that no rights are gained without an administrator.
  \<^item> \<open>Issuance\<close>: what a successful issue, onboarding or revocation leaves in the ledger, the audit log
    and the caches, what each error leaves, that a revocation reaches CRL and OCSP, and that it reaches a cached CRL
    late when it cannot be audited.
  \<^item> \<open>Enrolment\<close>: nonces work once, a token binds one account by the signed binding in the request, an order leads to one
    certificate, for the CSR in the request.
  \<^item> \<open>Datastore\<close>: read-back and single claims for both backends, and that both revoke alike.
  \<^item> \<open>Modules\<close>: increasing times in the tokens that are granted, stable keys, unused references, leaves that follow
    their profile in usages, extended usages and pointers, reloads that keep the built-in profiles.
  \<^item> \<open>Migrate\<close>, \<open>Config\<close>, \<open>Lifecycle\<close>: scripts run once and in order; a loaded configuration is well-formed and
    each of the twenty environment variables rules its setting; the first run builds the chain, happens once, and is not
    resumed; a leaf issued under the profile of the time-stamp authority keeps the process from starting while that
    module is on; a restart finds the same CA (\<open>Leaves_Only\<close>: no request adds a CA certificate), and a process that comes up uses each
    certificate with the key it is for.
  \<^item> \<open>Client\<close>, \<open>Operations\<close>: exit codes tell what happened, with a request and without one; the tool server writes only new files under safe
    names into its directory, changes nothing in read-only mode, and what it reports as issued is on record.
  \<^item> \<open>Conformance\<close>, \<open>Key_Conformance\<close>: both backends pass \<open>storetest\<close>; of \<open>keystoretest\<close> the file store passes every test, the
    concurrent one in every interleaving, and the store on Vault the four that call it from one goroutine.
  \<^item> \<open>Ref_Lock\<close>: under every interleaving at most one \<open>Generate\<close> per reference succeeds, exactly one when nothing fails, no
    key is replaced, every call returns; the library lemma \<open>alone_as_sequential\<close> ties the steps of one goroutine to
    \<open>Generate\<close> and \<open>Get\<close> of \<open>Keystore\<close>. The proof
    is by rely and guarantee: what each place in the code knows is kept by every step of the others.
  \<^item> \<open>Crl_Lock\<close>: under every interleaving at most one revocation of a certificate is answered 200, and a list asked for
    after that answer has it; a goroutine alone does what \<open>CRL\<close> and \<open>handleRevokeCertificate\<close> do.
  \<^item> \<open>Rfc3339\<close>, \<open>Columns\<close>: formatting and parsing are inverse and text order is time order for four-digit years, so the
    statements over text refine those over records (\<open>World\<close>), and the rows of every query scan back to its records.
  \<^item> \<open>Process\<close>: the exit code tells how the process ended, and what it answers is what the router answers, so that
    everything stated over \<open>serve_all\<close> holds of the process.
  \<^item> \<open>Service\<close>: the tables stay well-formed from the first run on, and with a datastore that answers a manager's
    requests are served; the search for a fresh reference ends.

  \<^bold>\<open>Parameters.\<close> What is not part of the repository is an argument of the definitions: encoding and
  signing of \<open>crypto/x509\<close>, OCSP and RFC 3161 messages (\<open>pki_prims\<close>, \<open>rev_prims\<close>, \<open>tsa_prims\<close>),
  signatures of JOSE (\<open>jose_prims\<close>), sealing of key files (\<open>ks_prims\<close>), JSON and YAML decoding, the
  effect of an SQL script. Where a property relies on such code the hypothesis is named after
  it (\<open>x509_faithful\<close>: a certificate made from a template as \<open>leaf.go\<close> and \<open>ca.go\<close> build them parses back to its
  fields, with the issuer's name and key identifier taken from the parent, the serial, and the extended usages of the template
  or of its extra extension; \<open>ks_faithful\<close>: a sealed key opens under its
  passphrase; \<open>x509_keys\<close>, \<open>pem_faithful\<close>: certificates carry the key they were made for and survive PEM;
  \<open>transit_keeps\<close>: creating a key in Vault under a plain name leaves what is read of keys under other plain names;
  \<open>transit_works\<close>: Vault answers and signs; \<open>token_keeps\<close>: a generated pair is found and those under other labels stay;
  \<open>tokens_tell_time\<close>: a time-stamp token carries the time it was made with, in whole seconds; \<open>ecdsa_works\<close>: generated keys sign; \<open>x509_signs\<close>: the template at hand is signed;
  \<open>reads_target\<close>, \<open>ends_agree\<close>, \<open>csr_faithful\<close>: URLs, JSON and CSRs mean the same on both ends) and its witness has
  a concrete instance. \<open>whole_seconds\<close> says that a PostgreSQL timestamp keeps whole seconds. \<open>lenient\<close> is \<open>time.Parse\<close> on texts that
  are not of the standard form; no property asks anything of it.

  \<^bold>\<open>Loops.\<close> The only loop that can run out is \<open>FreshRef\<close>, which the code itself limits to five attempts;
  all other recursion is structural.

  \<^bold>\<open>Concurrency.\<close> A handler runs without interruption. Interleavings of several requests are covered
  where they matter, by stating a property over \<open>ledger_le\<close>: whatever other statements ran in
  between moved the ledger along it. The key store's own locks are the subject of \<open>Ref_Lock\<close>, which is why \<open>Generate\<close>
  is one step elsewhere, and the revocation list's of \<open>Crl_Lock\<close>, where the other requests may move the ledger between
  any two steps. A schedule there is any list of goroutines. A call has at most ten steps (\<open>rank\<close>), and in a round, where every goroutine
  has a turn, at least one moves, so after any schedule of \<open>n\<close> goroutines \<open>10 * n\<close> rounds are enough for all calls of the
  key store to return.

  \<^bold>\<open>Not modelled.\<close> A service on Vault or PKCS\#11: from \<open>Api_Services\<close> on the key store is the file store, the others are modelled
  by themselves. Concurrent calls of the store on Vault. The log lines of single requests and the exposition of metrics (output only); the durations of timeouts;
  sockets, TLS and the transports of client and tool server (network and stdio), which appear as events and as
  functions that may fail; the wording of usage texts, of
  local error messages and of prompts; the quoting of values inside the texts of problem documents, where
  the model does not escape; the bodies of the SQL scripts, whose constraints are \<open>schema\<close>.
\<close>

end
